(* ===== verification/Py_Prelude.thy ===== *)
theory Py_Prelude
  imports Main "HOL-Library.Sublist"
begin

text \<open>
  Shared vocabulary of the development.

  \<^item> Python \<^verbatim>\<open>str\<close> values are lists of Unicode code points (\<open>cp\<close>, an integer), so that
    \<^verbatim>\<open>len\<close>, slicing and stripping count what Python counts; \<open>asc\<close> embeds an ASCII literal.
  \<^item> Instants are integers (microseconds since the epoch, UTC). The source reads naive database
    times as UTC (every \<^verbatim>\<open>_as_utc\<close>), which is the identity here.
  \<^item> A database table is the list of its rows in insertion order; \<open>tget\<close>, \<open>tupd\<close>, \<open>tadd\<close>
    and \<open>tdel\<close> are the row operations the sources perform through SQLAlchemy.
  \<^item> An exception is a value of \<open>exc\<close>: the Python class and a short tag for its message. A database
    transaction returns \<open>exc + 'a\<close>; on \<open>Inl\<close> it is rolled back, so it returns no new state.
\<close>

named_theorems table_simps \<open>laws of the row operations\<close>
named_theorems vocab \<open>definitions of the string constants\<close>

section \<open>Strings\<close>

type_synonym cp = int

type_synonym pstr = "cp list"

definition asc :: "string \<Rightarrow> pstr" where
  "asc s = map of_char s"

lemma asc_inj [simp]: "asc s = asc t \<longleftrightarrow> s = t"
proof -
  have "inj (of_char :: char \<Rightarrow> cp)" by (rule inj_of_char)
  then show ?thesis by (simp add: asc_def inj_map_eq_map)
qed

lemma asc_Nil [simp]: "asc [] = []" "asc s = [] \<longleftrightarrow> s = []" "[] = asc s \<longleftrightarrow> s = []"
  by (auto simp: asc_def)

lemma length_asc [simp]: "length (asc s) = length s"
  by (simp add: asc_def)

text \<open>
  \<^verbatim>\<open>str.isspace\<close> and \<^verbatim>\<open>str.isdecimal\<close> of one code point, from the Unicode 15.0 tables of Python 3.12:
  the white-space characters, and the first digit of each block of ten decimal digits.
\<close>

definition py_spaces :: "cp list" where
  "py_spaces = [0x9, 0xA, 0xB, 0xC, 0xD, 0x1C, 0x1D, 0x1E, 0x1F, 0x20, 0x85, 0xA0, 0x1680,
    0x2000, 0x2001, 0x2002, 0x2003, 0x2004, 0x2005, 0x2006, 0x2007, 0x2008, 0x2009, 0x200A,
    0x2028, 0x2029, 0x202F, 0x205F, 0x3000]"

definition py_isspace :: "cp \<Rightarrow> bool" where
  "py_isspace c = (c \<in> set py_spaces)"

definition py_zero_digits :: "cp list" where
  "py_zero_digits = [0x30, 0x660, 0x6F0, 0x7C0, 0x966, 0x9E6, 0xA66, 0xAE6, 0xB66, 0xBE6, 0xC66,
    0xCE6, 0xD66, 0xDE6, 0xE50, 0xED0, 0xF20, 0x1040, 0x1090, 0x17E0, 0x1810, 0x1946, 0x19D0,
    0x1A80, 0x1A90, 0x1B50, 0x1BB0, 0x1C40, 0x1C50, 0xA620, 0xA8D0, 0xA900, 0xA9D0, 0xA9F0,
    0xAA50, 0xABF0, 0xFF10, 0x104A0, 0x10D30, 0x11066, 0x110F0, 0x11136, 0x111D0, 0x112F0,
    0x11450, 0x114D0, 0x11650, 0x116C0, 0x11730, 0x118E0, 0x11950, 0x11C50, 0x11D50, 0x11DA0,
    0x11F50, 0x16A60, 0x16AC0, 0x16B50, 0x1D7CE, 0x1D7D8, 0x1D7E2, 0x1D7EC, 0x1D7F6, 0x1E140,
    0x1E2F0, 0x1E4F0, 0x1E950, 0x1FBF0]"

definition py_isdecimal :: "cp \<Rightarrow> bool" where
  "py_isdecimal c = list_ex (\<lambda>z. z \<le> c \<and> c < z + 10) py_zero_digits"

text \<open>\<^verbatim>\<open>str.strip()\<close>, \<^verbatim>\<open>str.rstrip(chars)\<close> for one character, \<^verbatim>\<open>str.split()\<close> and \<^verbatim>\<open>sep.join\<close>.\<close>

definition py_lstrip :: "pstr \<Rightarrow> pstr" where
  "py_lstrip s = dropWhile py_isspace s"

definition rstrip_if :: "(cp \<Rightarrow> bool) \<Rightarrow> pstr \<Rightarrow> pstr" where
  "rstrip_if p s = rev (dropWhile p (rev s))"

definition py_strip :: "pstr \<Rightarrow> pstr" where
  "py_strip s = rstrip_if py_isspace (py_lstrip s)"

fun py_split_acc :: "pstr \<Rightarrow> pstr \<Rightarrow> pstr list" where
  "py_split_acc acc [] = (if acc = [] then [] else [rev acc])"
| "py_split_acc acc (c # s) =
     (if py_isspace c then (if acc = [] then py_split_acc [] s else rev acc # py_split_acc [] s)
      else py_split_acc (c # acc) s)"

definition py_split :: "pstr \<Rightarrow> pstr list" where
  "py_split s = py_split_acc [] s"

fun py_join :: "pstr \<Rightarrow> pstr list \<Rightarrow> pstr" where
  "py_join sep [] = []"
| "py_join sep [x] = x"
| "py_join sep (x # y # zs) = x @ sep @ py_join sep (y # zs)"

definition py_contains :: "pstr \<Rightarrow> pstr \<Rightarrow> bool" where
  "py_contains needle s = sublist needle s"

definition removeprefix :: "pstr \<Rightarrow> pstr \<Rightarrow> pstr" where
  "removeprefix p s = (if prefix p s then drop (length p) s else s)"

lemma dropWhile_hd: "dropWhile p s = [] \<or> \<not> p (hd (dropWhile p s))"
  by (induction s) auto

lemma py_strip_Nil [simp]: "py_strip [] = []"
  by (simp add: py_strip_def py_lstrip_def rstrip_if_def)

lemma rstrip_if_last: "rstrip_if p s \<noteq> [] \<Longrightarrow> \<not> p (last (rstrip_if p s))"
  using dropWhile_hd [of p "rev s"] by (auto simp: rstrip_if_def last_rev)

lemma py_strip_sublist: "sublist (py_strip s) s"
proof -
  have "suffix (py_lstrip s) s"
    by (simp add: py_lstrip_def suffix_dropWhile)
  moreover have "prefix (py_strip s) (py_lstrip s)"
    unfolding py_strip_def rstrip_if_def
    by (metis rev_rev_ident suffix_dropWhile suffix_to_prefix)
  ultimately show ?thesis
    by (meson prefix_imp_sublist suffix_imp_sublist sublist_order.order_trans)
qed

lemma py_strip_ends:
  assumes "py_strip s \<noteq> []"
  shows "\<not> py_isspace (last (py_strip s))"
  using rstrip_if_last assms unfolding py_strip_def by blast

definition the_default :: "'a \<Rightarrow> 'a option \<Rightarrow> 'a" where
  "the_default a x = (case x of None \<Rightarrow> a | Some y \<Rightarrow> y)"

lemma the_default_simps [simp]: "the_default a None = a" "the_default a (Some y) = y"
  by (simp_all add: the_default_def)

section \<open>Instants\<close>

type_synonym time = int

definition seconds :: "int \<Rightarrow> time" where
  "seconds n = n * 1000000"

definition minutes :: "int \<Rightarrow> time" where
  "minutes n = n * 60000000"

definition days :: "int \<Rightarrow> time" where
  "days n = n * 86400000000"

section \<open>Exceptions\<close>

datatype exc =
    ValueError string
  | PermissionError string
  | RuntimeError string
  | TypeError string
  | IntegrityError

type_synonym 'a res = "exc + 'a"

section \<open>Tables\<close>

definition tget :: "('r \<Rightarrow> 'k) \<Rightarrow> 'k \<Rightarrow> 'r list \<Rightarrow> 'r option" where
  "tget key k t = find (\<lambda>r. key r = k) t"

definition tupd :: "('r \<Rightarrow> 'k) \<Rightarrow> 'k \<Rightarrow> ('r \<Rightarrow> 'r) \<Rightarrow> 'r list \<Rightarrow> 'r list" where
  "tupd key k f t = map (\<lambda>r. if key r = k then f r else r) t"

definition tadd :: "'r \<Rightarrow> 'r list \<Rightarrow> 'r list" where
  "tadd r t = t @ [r]"

definition tdel :: "('r \<Rightarrow> bool) \<Rightarrow> 'r list \<Rightarrow> 'r list" where
  "tdel p t = filter (\<lambda>r. \<not> p r) t"

lemma find_append: "find p (xs @ ys) = (case find p xs of None \<Rightarrow> find p ys | Some x \<Rightarrow> Some x)"
  by (induction xs) auto

lemma tget_Nil [simp, table_simps]: "tget key k [] = None"
  by (simp add: tget_def)

lemma tget_Cons [simp, table_simps]:
  "tget key k (r # t) = (if key r = k then Some r else tget key k t)"
  by (simp add: tget_def)

lemma tget_SomeD: "tget key k t = Some r \<Longrightarrow> r \<in> set t \<and> key r = k"
  by (induction t) (auto split: if_splits)

lemma tget_None_iff: "tget key k t = None \<longleftrightarrow> k \<notin> key ` set t"
  by (induction t) (auto split: if_splits)

lemma tget_append [table_simps]:
  "tget key k (t @ u) = (case tget key k t of None \<Rightarrow> tget key k u | Some r \<Rightarrow> Some r)"
  by (induction t) auto

lemma tget_tadd [simp, table_simps]:
  "tget key k (tadd r t) =
     (case tget key k t of Some x \<Rightarrow> Some x | None \<Rightarrow> if key r = k then Some r else None)"
  by (simp add: tadd_def tget_append split: option.splits)

lemma tget_tupd_same [table_simps]:
  assumes "\<And>r. key (f r) = key r"
  shows "tget key k (tupd key k f t) = map_option f (tget key k t)"
  using assms by (induction t) (auto simp: tupd_def)

lemma tget_tupd_other [table_simps]:
  assumes "\<And>r. key (f r) = key r" and "k \<noteq> k'"
  shows "tget key k (tupd key k' f t) = tget key k t"
  using assms by (induction t) (auto simp: tupd_def)

lemma tupd_keys:
  assumes "\<And>r. key (f r) = key r"
  shows "map key (tupd key k f t) = map key t"
  using assms by (induction t) (auto simp: tupd_def)

lemma tupd_absent: "tget key k t = None \<Longrightarrow> tupd key k f t = t"
  by (induction t) (auto simp: tupd_def split: if_splits)

lemma tupd_tupd: "(\<And>x. key (f x) = key x) \<Longrightarrow> tupd key k g (tupd key k f t) = tupd key k (\<lambda>x. g (f x)) t"
  by (simp add: tupd_def comp_def)

lemma tadd_keys [simp]: "map key (tadd r t) = map key t @ [key r]"
  by (simp add: tadd_def)

lemma set_tadd [simp]: "set (tadd r t) = insert r (set t)"
  by (simp add: tadd_def)

lemma tget_unique:
  assumes "distinct (map key t)" and "r \<in> set t"
  shows "tget key (key r) t = Some r"
  using assms by (induction t) (auto simp: image_iff split: if_splits)

lemma tupd_eqD: "r \<in> set (tupd key k f t) \<Longrightarrow> key r \<noteq> k \<Longrightarrow> (\<And>x. key (f x) = key x) \<Longrightarrow> r \<in> set t"
  by (auto simp: tupd_def split: if_splits)

section \<open>Association lists as dictionaries\<close>

text \<open>
  A Python \<^verbatim>\<open>dict\<close> is an association list in insertion order. \<open>dget\<close> is \<^verbatim>\<open>d.get\<close>, \<open>dset\<close> is
  \<^verbatim>\<open>d[k] = v\<close> (in place for a present key, appended otherwise), \<open>dmerge\<close> is \<^verbatim>\<open>{**d, **e}\<close>.
\<close>

definition dget :: "'k \<Rightarrow> ('k \<times> 'v) list \<Rightarrow> 'v option" where
  "dget k d = map_of d k"

fun dset :: "'k \<Rightarrow> 'v \<Rightarrow> ('k \<times> 'v) list \<Rightarrow> ('k \<times> 'v) list" where
  "dset k v [] = [(k, v)]"
| "dset k v ((k', v') # d) = (if k' = k then (k, v) # d else (k', v') # dset k v d)"

definition dmerge :: "('k \<times> 'v) list \<Rightarrow> ('k \<times> 'v) list \<Rightarrow> ('k \<times> 'v) list" where
  "dmerge d e = foldl (\<lambda>acc (k, v). dset k v acc) d e"

lemma dget_dset [simp]: "dget k' (dset k v d) = (if k' = k then Some v else dget k' d)"
  by (induction d) (auto simp: dget_def)

lemma dset_keys: "fst ` set (dset k v d) = insert k (fst ` set d)"
  by (induction k v d rule: dset.induct) auto

lemma dset_distinct: "distinct (map fst d) \<Longrightarrow> distinct (map fst (dset k v d))"
proof (induction d)
  case Nil
  then show ?case by simp
next
  case (Cons p d)
  obtain k' v' where p: "p = (k', v')" by (cases p)
  have "k' \<notin> set (map fst (dset k v d))" if "k' \<noteq> k" "k' \<notin> set (map fst d)"
    using that dset_keys [of k v d] by auto
  with Cons p show ?case by auto
qed

lemma dmerge_Nil [simp]: "dmerge d [] = d"
  by (simp add: dmerge_def)

lemma dmerge_Cons [simp]: "dmerge d ((k, v) # e) = dmerge (dset k v d) e"
  by (simp add: dmerge_def)

lemma dget_dmerge:
  assumes "distinct (map fst e)"
  shows "dget k (dmerge d e) = (case dget k e of Some v \<Rightarrow> Some v | None \<Rightarrow> dget k d)"
  using assms
proof (induction e arbitrary: d)
  case Nil
  then show ?case by (simp add: dget_def)
next
  case (Cons p e)
  obtain k' v' where p: "p = (k', v')" by (cases p)
  have none: "dget k' e = None"
    using Cons.prems p by (auto simp: dget_def map_of_eq_None_iff)
  show ?case
    using Cons.IH [of "dset k' v' d"] Cons.prems p none
    by (auto simp: dget_def [of k "(k', v') # e"] dget_def [of k' e, symmetric]
        dget_def [of k e, symmetric] split: option.splits)
qed

end
