(* ===== verification/Py_Re.thy ===== *)
theory Py_Re
  imports Py_Prelude
begin

text \<open>
  Python's \<^verbatim>\<open>re\<close> module, as far as the sources use it: a backtracking matcher that lists the ways a
  pattern can match in the order the engine tries them (greedy repetition first), and
  \<^verbatim>\<open>fullmatch\<close>, \<^verbatim>\<open>search\<close> and \<^verbatim>\<open>sub\<close> on top of it. A match state is the text before the
  position (reversed), the text after it, and the groups captured so far. \<open>Boundary\<close> is \<^verbatim>\<open>\b\<close> for the given class of word characters.
\<close>

datatype re =
    Eps
  | Cls "cp \<Rightarrow> bool"
  | Cat re re
  | Alt re re
  | Star re
  | Grp nat re
  | NotBehind "cp \<Rightarrow> bool"
  | NotAhead "cp \<Rightarrow> bool"
  | Boundary "cp \<Rightarrow> bool"

type_synonym mstate = "pstr \<times> pstr \<times> (nat \<times> pstr) list"

function (sequential) rmatch :: "re \<Rightarrow> mstate \<Rightarrow> mstate list" where
  "rmatch Eps s = [s]"
| "rmatch (Cls p) (pv, [], g) = []"
| "rmatch (Cls p) (pv, c # r, g) = (if p c then [(c # pv, r, g)] else [])"
| "rmatch (Cat a b) s = concat (map (rmatch b) (rmatch a s))"
| "rmatch (Alt a b) s = rmatch a s @ rmatch b s"
| "rmatch (Star a) (pv, r, g) =
     concat (map (\<lambda>(pv', r', g'). if length r' < length r then rmatch (Star a) (pv', r', g') else [])
       (rmatch a (pv, r, g))) @ [(pv, r, g)]"
| "rmatch (Grp n a) (pv, r, g) =
     map (\<lambda>(pv', r', g'). (pv', r', (n, take (length r - length r') r) # g')) (rmatch a (pv, r, g))"
| "rmatch (NotBehind p) (pv, r, g) =
     (case pv of [] \<Rightarrow> [(pv, r, g)] | c # _ \<Rightarrow> if p c then [] else [(pv, r, g)])"
| "rmatch (NotAhead p) (pv, r, g) =
     (case r of [] \<Rightarrow> [(pv, r, g)] | c # _ \<Rightarrow> if p c then [] else [(pv, r, g)])"
| "rmatch (Boundary p) (pv, r, g) =
     (if (pv \<noteq> [] \<and> p (hd pv)) \<noteq> (r \<noteq> [] \<and> p (hd r)) then [(pv, r, g)] else [])"
  by pat_completeness auto
termination
  by (relation "measures [\<lambda>(a, _). size a, \<lambda>(_, _, r, _). length r]") auto

declare rmatch.simps(6) [simp del]

lemma rmatch_StarE:
  assumes "x \<in> set (rmatch (Star a) (pv, r, g))"
  obtains "x = (pv, r, g)"
  | pm rm gm where "(pm, rm, gm) \<in> set (rmatch a (pv, r, g))" "length rm < length r"
      "x \<in> set (rmatch (Star a) (pm, rm, gm))"
  using assms by (subst (asm) rmatch.simps(6)) (auto split: if_splits)

section \<open>Derived patterns\<close>

definition chr_re :: "cp \<Rightarrow> re" where
  "chr_re c = Cls (\<lambda>x. x = c)"

definition opt_re :: "re \<Rightarrow> re" where
  "opt_re a = Alt a Eps"

definition plus_re :: "re \<Rightarrow> re" where
  "plus_re a = Cat a (Star a)"

primrec lit_re :: "pstr \<Rightarrow> re" where
  "lit_re [] = Eps"
| "lit_re (c # s) = Cat (chr_re c) (lit_re s)"

primrec upto_re :: "nat \<Rightarrow> re \<Rightarrow> re" where
  "upto_re 0 a = Eps"
| "upto_re (Suc n) a = Alt (Cat a (upto_re n a)) Eps"

primrec rep_re :: "nat \<Rightarrow> nat \<Rightarrow> re \<Rightarrow> re" where
  "rep_re 0 n a = upto_re n a"
| "rep_re (Suc m) n a = Cat a (rep_re m (n - 1) a)"

primrec alts_re :: "re list \<Rightarrow> re" where
  "alts_re [] = Cls (\<lambda>_. False)"
| "alts_re (a # as) = (if as = [] then a else Alt a (alts_re as))"

section \<open>The entry points\<close>

definition re_match_at :: "re \<Rightarrow> pstr \<Rightarrow> pstr \<Rightarrow> mstate option" where
  "re_match_at a pv s = (case rmatch a (pv, s, []) of [] \<Rightarrow> None | m # _ \<Rightarrow> Some m)"

definition re_fullmatch :: "re \<Rightarrow> pstr \<Rightarrow> (nat \<times> pstr) list option" where
  "re_fullmatch a s =
     map_option (\<lambda>(_, _, g). g) (find (\<lambda>(_, r, _). r = []) (rmatch a ([], s, [])))"

definition re_group :: "nat \<Rightarrow> (nat \<times> pstr) list \<Rightarrow> pstr option" where
  "re_group n g = map_of g n"

text \<open>
  \<^verbatim>\<open>search\<close> returns the captured groups of the leftmost match, the whole match as group 0.
  \<^verbatim>\<open>sub\<close> replaces every leftmost non-overlapping match; no pattern of the sources matches the
  empty string, so an empty match is left alone.
\<close>

fun re_search_from :: "re \<Rightarrow> pstr \<Rightarrow> pstr \<Rightarrow> (nat \<times> pstr) list option" where
  "re_search_from a pv s =
     (case re_match_at a pv s of
        Some (pv', r, g) \<Rightarrow> Some ((0, take (length s - length r) s) # g)
      | None \<Rightarrow> (case s of [] \<Rightarrow> None | c # t \<Rightarrow> re_search_from a (c # pv) t))"

definition re_search :: "re \<Rightarrow> pstr \<Rightarrow> (nat \<times> pstr) list option" where
  "re_search a s = re_search_from a [] s"

function re_sub_from :: "re \<Rightarrow> ((nat \<times> pstr) list \<Rightarrow> pstr) \<Rightarrow> pstr \<Rightarrow> pstr \<Rightarrow> pstr" where
  "re_sub_from a f pv s =
     (case re_match_at a pv s of
        Some (pv', r, g) \<Rightarrow>
          if length r < length s
          then f ((0, take (length s - length r) s) # g) @ re_sub_from a f pv' r
          else (case s of [] \<Rightarrow> [] | c # t \<Rightarrow> c # re_sub_from a f (c # pv) t)
      | None \<Rightarrow> (case s of [] \<Rightarrow> [] | c # t \<Rightarrow> c # re_sub_from a f (c # pv) t))"
  by pat_completeness auto
termination
  by (relation "measure (\<lambda>(_, _, _, s). length s)") auto

definition re_sub :: "re \<Rightarrow> ((nat \<times> pstr) list \<Rightarrow> pstr) \<Rightarrow> pstr \<Rightarrow> pstr" where
  "re_sub a f s = re_sub_from a f [] s"

declare re_search_from.simps [simp del] re_sub_from.simps [simp del]

section \<open>What a match is\<close>

text \<open>A match consumes a prefix of the remaining text and moves it, reversed, behind the position.\<close>

lemma rmatch_split:
  "(pv', r', g') \<in> set (rmatch a (pv, r, g)) \<Longrightarrow> \<exists>w. r = w @ r' \<and> pv' = rev w @ pv"
proof (induction a "(pv, r, g)" arbitrary: pv r g pv' r' g' rule: rmatch.induct)
  case (4 a b pv r g)
  from "4.prems" obtain pm rm gm where
    a: "(pm, rm, gm) \<in> set (rmatch a (pv, r, g))" and
    b: "(pv', r', g') \<in> set (rmatch b (pm, rm, gm))"
    by auto
  from "4.hyps"(1) [OF a] "4.hyps"(2) [OF a b] show ?case by force
next
  case (6 a pv r g)
  show ?case
  proof (cases "(pv', r', g') = (pv, r, g)")
    case True
    then show ?thesis by simp
  next
    case False
    with "6.prems" obtain pm rm gm where a: "(pm, rm, gm) \<in> set (rmatch a (pv, r, g))" and
      len: "length rm < length r" and
      b: "(pv', r', g') \<in> set (rmatch (Star a) (pm, rm, gm))"
      by (auto elim: rmatch_StarE)
    obtain w where "r = w @ rm" "pm = rev w @ pv" using "6.hyps"(1) [OF a] by blast
    moreover obtain u where "rm = u @ r'" "pv' = rev u @ pm"
      using "6.hyps"(2) [OF a refl refl len b] by blast
    ultimately show ?thesis by simp
  qed
next
  case (7 n a pv r g)
  from "7.prems" obtain gm where "(pv', r', gm) \<in> set (rmatch a (pv, r, g))"
    by auto
  with "7.hyps" show ?case by blast
qed (auto split: if_splits list.splits)

lemma re_match_at_split:
  assumes "re_match_at a pv s = Some (pv', r, g)"
  shows "\<exists>w. s = w @ r \<and> pv' = rev w @ pv"
proof -
  from assms have "(pv', r, g) \<in> set (rmatch a (pv, s, []))"
    by (auto simp: re_match_at_def split: list.splits)
  then show ?thesis by (rule rmatch_split)
qed

text \<open>If the pattern matches at no position, \<^verbatim>\<open>sub\<close> returns the text unchanged.\<close>

lemma re_sub_from_none:
  assumes "\<And>u v. s = u @ v \<Longrightarrow> re_match_at a (rev u @ pv) v = None"
  shows "re_sub_from a f pv s = s"
  using assms
proof (induction s arbitrary: pv)
  case Nil
  from Nil [of "[]" "[]"] show ?case by (simp add: re_sub_from.simps)
next
  case (Cons c s)
  from Cons.prems [of "[]" "c # s"] have h: "re_match_at a pv (c # s) = None" by simp
  have "re_sub_from a f (c # pv) s = s"
  proof (rule Cons.IH)
    fix u v
    assume "s = u @ v"
    then show "re_match_at a (rev u @ c # pv) v = None"
      using Cons.prems [of "c # u" v] by simp
  qed
  with h show ?case by (simp add: re_sub_from.simps [of a f pv "c # s"])
qed

section \<open>Bounded repetition of a character class\<close>

lemma rmatch_upto_Cls:
  "(pv', r', g') \<in> set (rmatch (upto_re n (Cls p)) (pv, r, g)) \<longleftrightarrow>
     g' = g \<and> (\<exists>w. r = w @ r' \<and> pv' = rev w @ pv \<and> length w \<le> n \<and> list_all p w)"
proof (induction n arbitrary: pv r)
  case 0
  then show ?case by auto
next
  case (Suc n)
  show ?case
  proof (cases r)
    case Nil
    then show ?thesis by auto
  next
    case (Cons c t)
    show ?thesis
    proof (cases "p c")
      case False
      with Cons show ?thesis
        by (auto simp: Cons_eq_append_conv)
    next
      case True
      have "(pv', r', g') \<in> set (rmatch (upto_re (Suc n) (Cls p)) (pv, r, g)) \<longleftrightarrow>
        (pv', r', g') = (pv, r, g) \<or> (pv', r', g') \<in> set (rmatch (upto_re n (Cls p)) (c # pv, t, g))"
        using Cons True by auto
      also have "\<dots> \<longleftrightarrow> g' = g \<and>
        ((pv' = pv \<and> r' = r) \<or>
         (\<exists>w. t = w @ r' \<and> pv' = rev w @ c # pv \<and> length w \<le> n \<and> list_all p w))"
        by (auto simp: Suc.IH)
      also have "\<dots> \<longleftrightarrow> g' = g \<and>
        (\<exists>w. r = w @ r' \<and> pv' = rev w @ pv \<and> length w \<le> Suc n \<and> list_all p w)"
        using Cons True by (auto simp: Cons_eq_append_conv)
      finally show ?thesis .
    qed
  qed
qed

lemma rmatch_rep_Cls:
  assumes "m \<le> n"
  shows "(pv', r', g') \<in> set (rmatch (rep_re m n (Cls p)) (pv, r, g)) \<longleftrightarrow>
     g' = g \<and> (\<exists>w. r = w @ r' \<and> pv' = rev w @ pv \<and> m \<le> length w \<and> length w \<le> n \<and> list_all p w)"
  using assms
proof (induction m arbitrary: n pv r)
  case 0
  then show ?case by (simp add: rmatch_upto_Cls)
next
  case (Suc m)
  then obtain n' where n: "n = Suc n'" "m \<le> n'" by (cases n) auto
  show ?case
  proof (cases r)
    case Nil
    then show ?thesis by auto
  next
    case (Cons c t)
    have "(pv', r', g') \<in> set (rmatch (rep_re (Suc m) n (Cls p)) (pv, r, g)) \<longleftrightarrow>
        p c \<and> (pv', r', g') \<in> set (rmatch (rep_re m n' (Cls p)) (c # pv, t, g))"
      using Cons n by auto
    also have "\<dots> \<longleftrightarrow> g' = g \<and> p c \<and>
        (\<exists>w. t = w @ r' \<and> pv' = rev w @ c # pv \<and> m \<le> length w \<and> length w \<le> n' \<and> list_all p w)"
      using Suc.IH [OF n(2), of "c # pv" t] by auto
    also have "\<dots> \<longleftrightarrow> g' = g \<and>
        (\<exists>w. r = w @ r' \<and> pv' = rev w @ pv \<and> Suc m \<le> length w \<and> length w \<le> n \<and> list_all p w)"
      using Cons n by (auto simp: Cons_eq_append_conv)
    finally show ?thesis .
  qed
qed

lemma rmatch_Star_Cls:
  "(pv', r', g') \<in> set (rmatch (Star (Cls p)) (pv, r, g)) \<longleftrightarrow>
     g' = g \<and> (\<exists>w. r = w @ r' \<and> pv' = rev w @ pv \<and> list_all p w)"
proof (induction r arbitrary: pv)
  case Nil
  show ?case by (simp add: rmatch.simps(6) [of "Cls p" pv "[]" g]) blast
next
  case (Cons c r)
  have "(pv', r', g') \<in> set (rmatch (Star (Cls p)) (pv, c # r, g)) \<longleftrightarrow>
    (pv', r', g') = (pv, c # r, g) \<or>
    (p c \<and> (pv', r', g') \<in> set (rmatch (Star (Cls p)) (c # pv, r, g)))"
    by (simp add: rmatch.simps(6) [of "Cls p" pv "c # r" g])
  also have "\<dots> \<longleftrightarrow> g' = g \<and> ((pv' = pv \<and> r' = c # r) \<or>
      (p c \<and> (\<exists>w. r = w @ r' \<and> pv' = rev w @ c # pv \<and> list_all p w)))"
    unfolding Cons.IH [of "c # pv"] by blast
  also have "\<dots> \<longleftrightarrow> g' = g \<and> (\<exists>w. c # r = w @ r' \<and> pv' = rev w @ pv \<and> list_all p w)"
    by (auto simp: Cons_eq_append_conv)
  finally show ?case .
qed

lemma rmatch_plus_Cls:
  "(pv', r', g') \<in> set (rmatch (plus_re (Cls p)) (pv, r, g)) \<longleftrightarrow>
     g' = g \<and> (\<exists>w. r = w @ r' \<and> pv' = rev w @ pv \<and> w \<noteq> [] \<and> list_all p w)"
proof (cases r)
  case Nil
  then show ?thesis by (simp add: plus_re_def)
next
  case (Cons c t)
  have "(pv', r', g') \<in> set (rmatch (plus_re (Cls p)) (pv, r, g)) \<longleftrightarrow>
    p c \<and> (pv', r', g') \<in> set (rmatch (Star (Cls p)) (c # pv, t, g))"
    using Cons by (simp add: plus_re_def)
  also have "\<dots> \<longleftrightarrow> g' = g \<and>
      (\<exists>w. r = w @ r' \<and> pv' = rev w @ pv \<and> w \<noteq> [] \<and> list_all p w)"
    using Cons by (auto simp: rmatch_Star_Cls Cons_eq_append_conv)
  finally show ?thesis .
qed

lemma find_SomeD: "find p xs = Some x \<Longrightarrow> x \<in> set xs \<and> p x"
  by (auto simp: find_Some_iff)

lemma find_None_iff_all: "find p xs = None \<longleftrightarrow> (\<forall>x\<in>set xs. \<not> p x)"
  by (auto simp: find_None_iff)

lemma re_fullmatch_None_iff:
  "re_fullmatch a s = None \<longleftrightarrow> (\<forall>pv' g'. (pv', [], g') \<notin> set (rmatch a ([], s, [])))"
  unfolding re_fullmatch_def by (auto simp: find_None_iff_all)

lemma fullmatch_rep_Cls:
  assumes "m \<le> n"
  shows "re_fullmatch (rep_re m n (Cls p)) s = None \<longleftrightarrow>
    \<not> (m \<le> length s \<and> length s \<le> n \<and> list_all p s)"
  unfolding re_fullmatch_None_iff using rmatch_rep_Cls [OF assms, where g = "[]" and r = s] by auto

end
