(* ===== verification/Py_Value.thy ===== *)
theory Py_Value
  imports Py_Prelude
begin

text \<open>
  Python values that cross a dictionary or JSON boundary, with the operations the sources apply to
  them: truth value, \<^verbatim>\<open>isinstance\<close> tests, equality, \<^verbatim>\<open>str\<close> and \<^verbatim>\<open>int\<close> of decimal text.
  \<^verbatim>\<open>bool\<close> is a subclass of \<^verbatim>\<open>int\<close>, so \<open>py_eq\<close> identifies \<^verbatim>\<open>True\<close> with \<^verbatim>\<open>1\<close>; two dictionaries
  are equal when they bind the same keys to equal values, in any order. \<open>PTime\<close> is a \<^verbatim>\<open>datetime\<close>
  in UTC (its instant), \<open>PNaive\<close> one without a timezone (microseconds of its wall clock) and \<open>PDate\<close> a
  \<^verbatim>\<open>date\<close> (its day number); values of different kinds of these are never equal. Floating-point numbers
  do not occur in the modelled code.
\<close>

datatype pyval =
    PNone
  | PBool bool
  | PInt int
  | PStr pstr
  | PList "pyval list"
  | PDict "(pstr \<times> pyval) list"
  | PTime time
  | PNaive int
  | PDate int

type_synonym fields = "(pstr \<times> pyval) list"

primrec py_truthy :: "pyval \<Rightarrow> bool" where
  "py_truthy PNone = False"
| "py_truthy (PBool b) = b"
| "py_truthy (PInt i) = (i \<noteq> 0)"
| "py_truthy (PStr s) = (s \<noteq> [])"
| "py_truthy (PList xs) = (xs \<noteq> [])"
| "py_truthy (PDict d) = (d \<noteq> [])"
| "py_truthy (PTime t) = True"
| "py_truthy (PNaive t) = True"
| "py_truthy (PDate t) = True"

definition py_get :: "pstr \<Rightarrow> fields \<Rightarrow> pyval" where
  "py_get k d = (case dget k d of Some v \<Rightarrow> v | None \<Rightarrow> PNone)"

fun is_str :: "pyval \<Rightarrow> bool" where
  "is_str (PStr _) = True"
| "is_str _ = False"

fun is_list :: "pyval \<Rightarrow> bool" where
  "is_list (PList _) = True"
| "is_list _ = False"

text \<open>\<^verbatim>\<open>isinstance(x, int)\<close> holds of booleans too; \<open>int_of\<close> is the integer \<^verbatim>\<open>x\<close> stands for then.\<close>

fun int_of :: "pyval \<Rightarrow> int option" where
  "int_of (PInt i) = Some i"
| "int_of (PBool b) = Some (if b then 1 else 0)"
| "int_of _ = None"

fun py_eq :: "pyval \<Rightarrow> pyval \<Rightarrow> bool" where
  "py_eq PNone w = (w = PNone)"
| "py_eq (PBool a) w = (int_of w = Some (if a then 1 else 0))"
| "py_eq (PInt i) w = (int_of w = Some i)"
| "py_eq (PStr s) w = (w = PStr s)"
| "py_eq (PList xs) w = (case w of PList ys \<Rightarrow> list_all2 py_eq xs ys | _ \<Rightarrow> False)"
| "py_eq (PDict d) w = (case w of
     PDict e \<Rightarrow> length d = length e \<and>
       list_all (\<lambda>(k, v). list_ex (\<lambda>(k', v'). k = k' \<and> py_eq v v') e) d
   | _ \<Rightarrow> False)"
| "py_eq (PTime t) w = (w = PTime t)"
| "py_eq (PNaive t) w = (w = PNaive t)"
| "py_eq (PDate t) w = (w = PDate t)"

lemma py_eq_None [simp]: "py_eq PNone v \<longleftrightarrow> v = PNone" "py_eq v PNone \<longleftrightarrow> v = PNone"
  by (cases v; simp)+

lemma py_eq_Str [simp]: "py_eq (PStr s) v \<longleftrightarrow> v = PStr s" "py_eq v (PStr s) \<longleftrightarrow> v = PStr s"
  by (cases v; auto)+

lemma py_eq_Nil [simp]: "py_eq v (PList []) \<longleftrightarrow> v = PList []"
  by (cases v) auto

lemma py_eq_refl: "py_eq v v"
proof (induction v)
  case (PList xs)
  then show ?case by (simp add: list_all2_conv_all_nth)
next
  case (PDict d)
  have "list_ex (\<lambda>(k', v'). fst kv = k' \<and> py_eq (snd kv) v') d" if "kv \<in> set d" for kv
    unfolding list_ex_iff using that PDict
    by (intro bexI [of _ kv]) (auto split: prod.splits simp: snds.simps)
  then show ?case
    unfolding py_eq.simps list_all_iff by (auto split: prod.splits)
qed simp_all

text \<open>\<^verbatim>\<open>value in (None, "")\<close> and \<^verbatim>\<open>value in (None, "", [])\<close>.\<close>

definition blank2 :: "pyval \<Rightarrow> bool" where
  "blank2 v = (py_eq v PNone \<or> py_eq v (PStr []))"

definition blank3 :: "pyval \<Rightarrow> bool" where
  "blank3 v = (blank2 v \<or> py_eq v (PList []))"

lemma blank2_iff: "blank2 v \<longleftrightarrow> v = PNone \<or> v = PStr []"
  by (auto simp: blank2_def)

lemma blank3_iff: "blank3 v \<longleftrightarrow> v = PNone \<or> v = PStr [] \<or> v = PList []"
  by (auto simp: blank3_def blank2_iff)

lemma not_truthy_str: "v = PStr s \<Longrightarrow> py_truthy v \<longleftrightarrow> \<not> blank2 v"
  by (auto simp: blank2_iff)

section \<open>Decimal text\<close>

function digits_of :: "nat \<Rightarrow> pstr" where
  "digits_of n = (if n < 10 then [int n + 0x30] else digits_of (n div 10) @ [int (n mod 10) + 0x30])"
  by pat_completeness auto
termination
  by (relation "measure id") auto

declare digits_of.simps [simp del]

definition str_of_int :: "int \<Rightarrow> pstr" where
  "str_of_int i = (if i < 0 then 0x2D # digits_of (nat (- i)) else digits_of (nat i))"

definition nat_of_digits :: "pstr \<Rightarrow> nat" where
  "nat_of_digits s = foldl (\<lambda>n c. 10 * n + nat (c - 0x30)) 0 s"

definition ascii_decimal :: "pstr \<Rightarrow> bool" where
  "ascii_decimal s = (s \<noteq> [] \<and> list_all (\<lambda>c. 0x30 \<le> c \<and> c \<le> 0x39) s)"

lemma digits_of_decimal: "ascii_decimal (digits_of n)"
proof (induction n rule: digits_of.induct)
  case (1 n)
  then show ?case
    by (cases "n < 10") (auto simp: digits_of.simps [of n] ascii_decimal_def)
qed

lemma nat_of_digits_of [simp]: "nat_of_digits (digits_of n) = n"
proof (induction n rule: digits_of.induct)
  case (1 n)
  show ?case
  proof (cases "n < 10")
    case True
    then show ?thesis by (simp add: digits_of.simps [of n] nat_of_digits_def)
  next
    case False
    with 1 have "nat_of_digits (digits_of (n div 10)) = n div 10" by simp
    then have "nat_of_digits (digits_of n) = 10 * (n div 10) + n mod 10"
      using False by (simp add: digits_of.simps [of n] nat_of_digits_def)
    then show ?thesis by simp
  qed
qed

lemma length_digits_of: "n < 10 ^ Suc k \<Longrightarrow> length (digits_of n) \<le> Suc k"
proof (induction k arbitrary: n)
  case 0
  then show ?case by (simp add: digits_of.simps [of n])
next
  case (Suc k)
  have "n div 10 < 10 ^ Suc k" using Suc.prems by (simp add: less_mult_imp_div_less)
  with Suc.IH [of "n div 10"] show ?case
    by (simp add: digits_of.simps [of n])
qed

lemma digits_of_ne [simp]: "digits_of n \<noteq> []"
  using digits_of_decimal [of n] by (auto simp: ascii_decimal_def)

end
