(* ===== verification/Vocab.thy ===== *)
theory Vocab
  imports Py_Prelude
begin

text \<open>
  The non-ASCII string literals of the sources, as code-point lists. Names give the meaning:
  \<open>f_\<close> a column of the lead table, \<open>v_\<close> an option value, \<open>e_\<close> an enrichment key, \<open>w_\<close> a word of
  the masking rules, \<open>r_\<close> a fixed text of the generated remark, \<open>n_\<close> and \<open>l_\<close> texts of notifications,
  \<open>m_\<close> a stored failure summary, \<open>c_\<close>, \<open>alias_\<close>, \<open>inq_\<close> and \<open>neg_\<close> the phrases of the submission commands, \<open>p_\<close> the progress summary,
  \<open>k_\<close> a label of a CRM dictionary, \<open>s_\<close> a text of the CRM submission, \<open>a_\<close> a column of the audit mirror, \<open>t_\<close> a text of the action cards.
\<close>

section \<open>Field names of the lead table\<close>

definition f_business_line :: pstr where [vocab]:
  "f_business_line = [0x4E1A, 0x52A1, 0x7EBF]"

definition f_lead_name :: pstr where [vocab]:
  "f_lead_name = [0x7EBF, 0x7D22, 0x540D, 0x79F0]"

definition f_lead_source :: pstr where [vocab]:
  "f_lead_source = [0x7EBF, 0x7D22, 0x6765, 0x6E90]"

definition f_contact :: pstr where [vocab]:
  "f_contact = [0x8054, 0x7CFB, 0x4EBA]"

definition f_title :: pstr where [vocab]:
  "f_title = [0x804C, 0x52A1]"

definition f_comm_way :: pstr where [vocab]:
  "f_comm_way = [0x6C9F, 0x901A, 0x65B9, 0x5F0F]"

definition f_mobile :: pstr where [vocab]:
  "f_mobile = [0x624B, 0x673A]"

definition f_phone :: pstr where [vocab]:
  "f_phone = [0x7535, 0x8BDD]"

definition f_email :: pstr where [vocab]:
  "f_email = [0x90AE, 0x7BB1]"

definition f_industry :: pstr where [vocab]:
  "f_industry = [0x5BA2, 0x6237, 0x884C, 0x4E1A]"

definition f_level :: pstr where [vocab]:
  "f_level = [0x5BA2, 0x6237, 0x7EA7, 0x522B]"

definition f_process :: pstr where [vocab]:
  "f_process = [0x5DE5, 0x827A]"

definition f_next_contact :: pstr where [vocab]:
  "f_next_contact = [0x4E0B, 0x6B21, 0x8054, 0x7CFB, 0x65F6, 0x95F4]"

definition f_entry_time :: pstr where [vocab]:
  "f_entry_time = [0x5F55, 0x5165, 0x65F6, 0x95F4]"

definition f_created_time :: pstr where [vocab]:
  "f_created_time = [0x521B, 0x5EFA, 0x65F6, 0x95F4]"

definition f_remark :: pstr where [vocab]:
  "f_remark = [0x5907, 0x6CE8]"

definition f_international :: pstr where [vocab]:
  "f_international = [0x662F, 0x5426, 0x4E3A, 0x56FD, 0x9645, 0x5BA2, 0x6237]"

definition f_ai_confirm :: pstr where [vocab]:
  "f_ai_confirm = [0x41, 0x49, 0x5F85, 0x786E, 0x8BA4]"

definition f_owner :: pstr where [vocab]:
  "f_owner = [0x8D1F, 0x8D23, 0x4EBA]"

definition f_creator :: pstr where [vocab]:
  "f_creator = [0x521B, 0x5EFA, 0x4EBA]"

definition f_submit_status :: pstr where [vocab]:
  "f_submit_status = [0x63D0, 0x4EA4, 0x72B6, 0x6001]"

section \<open>Option values\<close>

definition v_other :: pstr where [vocab]:
  "v_other = [0x5176, 0x4ED6]"

definition v_domestic :: pstr where [vocab]:
  "v_domestic = [0x56FD, 0x5185]"

definition v_foreign :: pstr where [vocab]:
  "v_foreign = [0x56FD, 0x5916]"

definition v_unsubmitted :: pstr where [vocab]:
  "v_unsubmitted = [0x672A, 0x63D0, 0x4EA4]"

definition v_cobot :: pstr where [vocab]:
  "v_cobot = [0x534F, 0x4F5C, 0x673A, 0x5668, 0x4EBA]"

definition v_manager :: pstr where [vocab]:
  "v_manager = [0x7ECF, 0x7406]"

definition v_activity :: pstr where [vocab]:
  "v_activity = [0x6D3B, 0x52A8]"

section \<open>Enrichment keys\<close>

definition e_original_company :: pstr where [vocab]:
  "e_original_company = [0x539F, 0x59CB, 0x4F01, 0x4E1A, 0x540D, 0x79F0]"

definition e_city :: pstr where [vocab]:
  "e_city = [0x57CE, 0x5E02, 0x2F, 0x5730, 0x533A]"

definition e_product :: pstr where [vocab]:
  "e_product = [0x4E3B, 0x8425, 0x4EA7, 0x54C1]"

definition e_revenue :: pstr where [vocab]:
  "e_revenue = [0x5E74, 0x9500, 0x552E, 0x989D]"

definition e_demand :: pstr where [vocab]:
  "e_demand = [0x5BA2, 0x6237, 0x9700, 0x6C42, 0x2F, 0x75DB, 0x70B9]"

definition e_budget :: pstr where [vocab]:
  "e_budget = [0x9884, 0x7B97]"

definition e_requirement :: pstr where [vocab]:
  "e_requirement = [0x7279, 0x6B8A, 0x8981, 0x6C42]"

section \<open>Masking\<close>

definition w_masked :: pstr where [vocab]:
  "w_masked = [0x5B, 0x5DF2, 0x906E, 0x853D, 0x5D]"

definition w_masked_mail :: pstr where [vocab]:
  "w_masked_mail = [0x5B, 0x5DF2, 0x906E, 0x853D, 0x90AE, 0x7BB1, 0x5D]"

definition w_masked_phone :: pstr where [vocab]:
  "w_masked_phone = [0x5B, 0x5DF2, 0x906E, 0x853D, 0x7535, 0x8BDD, 0x5D]"

definition w_password :: pstr where [vocab]:
  "w_password = [0x5BC6, 0x7801]"

definition w_passphrase :: pstr where [vocab]:
  "w_passphrase = [0x53E3, 0x4EE4]"

definition w_verification_code :: pstr where [vocab]:
  "w_verification_code = [0x9A8C, 0x8BC1, 0x7801]"

definition w_mobile_number :: pstr where [vocab]:
  "w_mobile_number = [0x624B, 0x673A, 0x53F7]"

definition w_name :: pstr where [vocab]:
  "w_name = [0x59D3, 0x540D]"

definition w_contact_name :: pstr where [vocab]:
  "w_contact_name = [0x8054, 0x7CFB, 0x4EBA, 0x59D3, 0x540D]"

definition w_customer_contact :: pstr where [vocab]:
  "w_customer_contact = [0x5BA2, 0x6237, 0x8054, 0x7CFB, 0x4EBA]"

definition w_customer_is :: pstr where [vocab]:
  "w_customer_is = [0x5BA2, 0x6237, 0x662F]"

definition w_called :: pstr where [vocab]:
  "w_called = [0x53EB]"

section \<open>Fixed texts of the remark\<close>

definition r_located :: pstr where [vocab]:
  "r_located = [0x4F4D, 0x4E8E]"

definition r_main_product :: pstr where [vocab]:
  "r_main_product = [0x4E3B, 0x8981, 0x4EA7, 0x54C1, 0x4E3A]"

definition r_revenue :: pstr where [vocab]:
  "r_revenue = [0x5E74, 0x9500, 0x552E, 0x989D, 0x53EF, 0x8FBE]"

definition r_industry :: pstr where [vocab]:
  "r_industry = [0x6240, 0x5C5E, 0x884C, 0x4E1A, 0x4E3A]"

definition r_company_l :: pstr where [vocab]:
  "r_company_l = [0x516C, 0x53F8]"

definition r_city_l :: pstr where [vocab]:
  "r_city_l = [0x57CE, 0x5E02]"

definition r_product_l :: pstr where [vocab]:
  "r_product_l = [0x4E3B, 0x8981, 0x4EA7, 0x54C1]"

definition r_revenue_l :: pstr where [vocab]:
  "r_revenue_l = [0x5E74, 0x9500, 0x552E, 0x989D]"

definition r_industry_l :: pstr where [vocab]:
  "r_industry_l = [0x6240, 0x5C5E, 0x884C, 0x4E1A]"

definition r_basic :: pstr where [vocab]:
  "r_basic = [0x57FA, 0x672C, 0x4FE1, 0x606F, 0xFF1A]"

definition r_missing :: pstr where [vocab]:
  "r_missing = [0x672A, 0x63D0, 0x4F9B]"

definition r_comma :: pstr where [vocab]:
  "r_comma = [0xFF0C]"

definition r_semicolon :: pstr where [vocab]:
  "r_semicolon = [0xFF1B]"

definition r_pause :: pstr where [vocab]:
  "r_pause = [0x3001]"

definition r_stop :: pstr where [vocab]:
  "r_stop = [0x3002]"

definition r_colon :: pstr where [vocab]:
  "r_colon = [0xFF1A]"

definition r_demand :: pstr where [vocab]:
  "r_demand = [0x7EBF, 0x7D22, 0x9700, 0x6C42, 0xFF1A]"

definition r_budget :: pstr where [vocab]:
  "r_budget = [0x9884, 0x7B97, 0x60C5, 0x51B5, 0xFF1A]"

definition r_requirement :: pstr where [vocab]:
  "r_requirement = [0x7279, 0x6B8A, 0x8981, 0x6C42, 0xFF1A]"

definition r_original :: pstr where [vocab]:
  "r_original = [0x539F, 0x59CB, 0x6D88, 0x606F, 0xFF1A]"

definition r_supplement :: pstr where [vocab]:
  "r_supplement = [0x5907, 0x6CE8, 0x8865, 0x5145, 0xFF1A]"

definition r_please_add :: pstr where [vocab]:
  "r_please_add = [0x8BF7, 0x8865, 0x5145]"

definition r_open :: pstr where [vocab]:
  "r_open = [0xFF08]"

definition r_close :: pstr where [vocab]:
  "r_close = [0xFF09]"

definition r_hope :: pstr where [vocab]:
  "r_hope = [0x5BA2, 0x6237, 0x5E0C, 0x671B, 0x4F7F, 0x7528]"

definition r_complete :: pstr where [vocab]:
  "r_complete = [0x5B8C, 0x6210]"

definition r_ai_prefix :: pstr where [vocab]:
  "r_ai_prefix = [0x3010, 0x41, 0x49, 0x5F55, 0x5165, 0x3011]"

section \<open>Texts of notifications\<close>

definition n_received_a :: pstr where [vocab]:
  "n_received_a = [0x2705, 0x20, 0x5DF2, 0x6536, 0x5230, 0x4F60, 0x7684, 0x20]"

definition n_received_b :: pstr where [vocab]:
  "n_received_b = [0x20, 0x6761, 0x6D88, 0x606F, 0xFF0C, 0x6B63, 0x5728, 0x8BC6, 0x522B, 0x5E76,
     0x5F55, 0x5165, 0x3002]"

definition n_received_c :: pstr where [vocab]:
  "n_received_c = [0x20, 0x6761, 0x6D88, 0x606F, 0xFF1A]"

definition n_item :: pstr where [vocab]:
  "n_item = [0x20, 0x6761]"

definition n_system :: pstr where [vocab]:
  "n_system = [0x7CFB, 0x7EDF, 0x901A, 0x77E5]"

definition n_daily :: pstr where [vocab]:
  "n_daily = [0x23F0, 0x20, 0x4ECA, 0x5929, 0x4ECD, 0x6709, 0x672A, 0x63D0, 0x4EA4, 0x7EBF,
     0x7D22, 0xFF0C, 0x8BF7, 0x5B8C, 0x6210, 0x5BA1, 0x6838, 0x540E, 0x63D0, 0x4EA4, 0x20, 0x43,
     0x52, 0x4D, 0x3002]"

definition l_processing :: pstr where [vocab]:
  "l_processing = [0x4ECD, 0x5728, 0x8BC6, 0x522B, 0x5E76, 0x5F55, 0x5165]"

definition l_recorded :: pstr where [vocab]:
  "l_recorded = [0x5DF2, 0x786E, 0x8BA4, 0x5F55, 0x5165, 0x667A, 0x80FD, 0x8868, 0x683C]"

definition l_completed :: pstr where [vocab]:
  "l_completed = [0x5DF2, 0x5B8C, 0x6210, 0x5904, 0x7406, 0xFF0C, 0x8868, 0x683C, 0x5F55, 0x5165,
     0x5C1A, 0x672A, 0x6838, 0x5B9E]"

definition l_unassigned :: pstr where [vocab]:
  "l_unassigned = [0x65E0, 0x6CD5, 0x53EF, 0x9760, 0x5F52, 0x5C5E, 0x5BA2, 0x6237, 0xFF0C, 0x8BF7,
     0x8865, 0x5145, 0x516C, 0x53F8, 0x4FE1, 0x606F]"

definition l_retrying :: pstr where [vocab]:
  "l_retrying = [0x7B49, 0x5F85, 0x91CD, 0x8BD5]"

definition l_failed :: pstr where [vocab]:
  "l_failed = [0x5F85, 0x4EBA, 0x5DE5, 0x5904, 0x7406]"

definition l_failed_notified :: pstr where [vocab]:
  "l_failed_notified = [0x5F85, 0x4EBA, 0x5DE5, 0x5904, 0x7406, 0xFF08, 0x53E6, 0x6709, 0x5931,
     0x8D25, 0x901A, 0x77E5, 0xFF09]"

definition l_ignored :: pstr where [vocab]:
  "l_ignored = [0x5DF2, 0x5FFD, 0x7565, 0xFF08, 0x672A, 0x5F55, 0x5165, 0xFF09]"

definition l_finished :: pstr where [vocab]:
  "l_finished = [0x5904, 0x7406, 0x5DF2, 0x7ED3, 0x675F, 0xFF0C, 0x5F55, 0x5165, 0x72B6, 0x6001,
     0x672A, 0x6838, 0x5B9E]"

definition l_unknown :: pstr where [vocab]:
  "l_unknown = [0x72B6, 0x6001, 0x5F85, 0x6838, 0x5B9E]"

section \<open>Failure summaries stored by the sources\<close>

definition m_no_remote_owner :: pstr where [vocab]:
  "m_no_remote_owner = [0x65E0, 0x6CD5, 0x8BFB, 0x53D6, 0x8FDC, 0x7AEF, 0x8D1F, 0x8D23, 0x4EBA,
     0x4E8B, 0x5B9E]"

definition m_unexpected_owner :: pstr where [vocab]:
  "m_unexpected_owner = [0x8FDC, 0x7AEF, 0x8D1F, 0x8D23, 0x4EBA, 0x65E2, 0x4E0D, 0x662F, 0x539F,
     0x8D1F, 0x8D23, 0x4EBA, 0x4E5F, 0x4E0D, 0x662F, 0x76EE, 0x6807, 0x8D1F, 0x8D23, 0x4EBA]"

definition m_permission :: pstr where [vocab]:
  "m_permission = [0x76EE, 0x6807, 0x8D1F, 0x8D23, 0x4EBA, 0x6743, 0x9650, 0x4E0D, 0x6EE1, 0x8DB3,
     0x53EF, 0x89C1, 0x2F, 0x53EF, 0x7F16, 0x8F91, 0x4E14, 0x539F, 0x8D1F, 0x8D23, 0x4EBA, 0x4E0D,
     0x53EF, 0x89C1]"

definition m_unproven :: pstr where [vocab]:
  "m_unproven = [0x65E0, 0x6CD5, 0x552F, 0x4E00, 0x8BC1, 0x660E, 0x8FDC, 0x7AEF, 0x8BB0, 0x5F55,
     0x5C5E, 0x4E8E, 0x8BE5, 0x7BA1, 0x7406, 0x5458, 0x8865, 0x5EFA, 0x20, 0x6F, 0x70, 0x65, 0x72,
     0x61, 0x74, 0x69, 0x6F, 0x6E]"

definition m_key_missing :: pstr where [vocab]:
  "m_key_missing = [0x6E05, 0x7406, 0x5BF9, 0x8C61, 0x952E, 0x7F3A, 0x5931]"

definition m_head_failed :: pstr where [vocab]:
  "m_head_failed = [0x5BF9, 0x8C61, 0x72B6, 0x6001, 0x68C0, 0x67E5, 0x5931, 0x8D25]"

definition m_delete_unknown :: pstr where [vocab]:
  "m_delete_unknown = [0x5BF9, 0x8C61, 0x5220, 0x9664, 0x7ED3, 0x679C, 0x672A, 0x77E5]"

section \<open>Submission commands\<close>

definition c_submit :: pstr where [vocab]:
  "c_submit = [0x63D0, 0x4EA4]"

definition c_today :: pstr where [vocab]:
  "c_today = [0x63D0, 0x4EA4, 0x4ECA, 0x5929, 0x7684, 0x7EBF, 0x7D22]"

definition c_all_mine :: pstr where [vocab]:
  "c_all_mine = [0x63D0, 0x4EA4, 0x6211, 0x6240, 0x6709, 0x7EBF, 0x7D22]"

definition c_abandoned :: pstr where [vocab]:
  "c_abandoned = [0x5E2E, 0x6211, 0x63D0, 0x4EA4, 0x653E, 0x5F03, 0x63D0, 0x4EA4, 0x7684, 0x7EBF,
     0x7D22]"

definition c_updates :: pstr where [vocab]:
  "c_updates = [0x63D0, 0x4EA4, 0x6211, 0x7684, 0x66F4, 0x65B0]"

definition c_all_staff1 :: pstr where [vocab]:
  "c_all_staff1 = [0x63D0, 0x4EA4, 0x6240, 0x6709, 0x5458, 0x5DE5, 0x7684, 0x7EBF, 0x7D22]"

definition c_all_staff2 :: pstr where [vocab]:
  "c_all_staff2 = [0x63D0, 0x4EA4, 0x6240, 0x6709, 0x4EBA, 0x7684, 0x7EBF, 0x7D22]"

definition c_all_staff3 :: pstr where [vocab]:
  "c_all_staff3 = [0x63D0, 0x4EA4, 0x5168, 0x90E8, 0x5458, 0x5DE5, 0x7684, 0x7EBF, 0x7D22]"

definition c_suffix :: pstr where [vocab]:
  "c_suffix = [0x7684, 0x7EBF, 0x7D22]"

definition c_owner_prefix :: pstr where [vocab]:
  "c_owner_prefix = [0x63D0, 0x4EA4, 0x8D1F, 0x8D23, 0x4EBA]"

definition c_company_pre :: pstr where [vocab]:
  "c_company_pre = [0x8BF7, 0x5E2E, 0x6211, 0x63D0, 0x4EA4]"

definition c_company_post :: pstr where [vocab]:
  "c_company_post = [0x8FD9, 0x6761, 0x7EBF, 0x7D22]"

definition c_year :: pstr where [vocab]:
  "c_year = [0x5E74]"

definition c_month :: pstr where [vocab]:
  "c_month = [0x6708]"

definition c_day1 :: pstr where [vocab]:
  "c_day1 = [0x65E5]"

definition c_day2 :: pstr where [vocab]:
  "c_day2 = [0x53F7]"

definition alias_1 :: pstr where [vocab]:
  "alias_1 = [0x63D0, 0x4EA4, 0x4ECA, 0x5929, 0x7EBF, 0x7D22]"

definition alias_2 :: pstr where [vocab]:
  "alias_2 = [0x63D0, 0x4EA4, 0x6211, 0x4ECA, 0x5929, 0x7684, 0x7EBF, 0x7D22]"

definition alias_3 :: pstr where [vocab]:
  "alias_3 = [0x5E2E, 0x6211, 0x63D0, 0x4EA4, 0x4ECA, 0x5929, 0x7684, 0x7EBF, 0x7D22]"

definition alias_4 :: pstr where [vocab]:
  "alias_4 = [0x63D0, 0x4EA4, 0x6240, 0x6709, 0x7EBF, 0x7D22]"

definition alias_5 :: pstr where [vocab]:
  "alias_5 = [0x63D0, 0x4EA4, 0x6211, 0x6240, 0x6709, 0x7684, 0x7EBF, 0x7D22]"

definition alias_6 :: pstr where [vocab]:
  "alias_6 = [0x63D0, 0x4EA4, 0x6211, 0x7684, 0x6240, 0x6709, 0x7EBF, 0x7D22]"

definition alias_7 :: pstr where [vocab]:
  "alias_7 = [0x5E2E, 0x6211, 0x63D0, 0x4EA4, 0x6240, 0x6709, 0x7EBF, 0x7D22]"

definition alias_8 :: pstr where [vocab]:
  "alias_8 = [0x5E2E, 0x6211, 0x63D0, 0x4EA4, 0x653E, 0x5F03, 0x7684, 0x7EBF, 0x7D22]"

definition alias_9 :: pstr where [vocab]:
  "alias_9 = [0x63D0, 0x4EA4, 0x653E, 0x5F03, 0x7684, 0x7EBF, 0x7D22]"

definition alias_10 :: pstr where [vocab]:
  "alias_10 = [0x63D0, 0x4EA4, 0x653E, 0x5F03, 0x63D0, 0x4EA4, 0x7684, 0x7EBF, 0x7D22]"

definition alias_11 :: pstr where [vocab]:
  "alias_11 = [0x91CD, 0x65B0, 0x63D0, 0x4EA4, 0x653E, 0x5F03, 0x63D0, 0x4EA4, 0x7684, 0x7EBF,
     0x7D22]"

definition alias_12 :: pstr where [vocab]:
  "alias_12 = [0x5E2E, 0x6211, 0x63D0, 0x4EA4, 0x6211, 0x7684, 0x66F4, 0x65B0]"

definition alias_13 :: pstr where [vocab]:
  "alias_13 = [0x63D0, 0x4EA4, 0x66F4, 0x65B0]"

definition inq_1 :: pstr where [vocab]:
  "inq_1 = [0x5417]"

definition inq_2 :: pstr where [vocab]:
  "inq_2 = [0x4E86, 0x5417]"

definition inq_3 :: pstr where [vocab]:
  "inq_3 = [0x662F, 0x5426]"

definition inq_4 :: pstr where [vocab]:
  "inq_4 = [0x6709, 0x6CA1, 0x6709]"

definition inq_5 :: pstr where [vocab]:
  "inq_5 = [0x662F, 0x4E0D, 0x662F]"

definition inq_6 :: pstr where [vocab]:
  "inq_6 = [0x80FD, 0x5426]"

definition inq_7 :: pstr where [vocab]:
  "inq_7 = [0x53EF, 0x4EE5, 0x5417]"

definition inq_8 :: pstr where [vocab]:
  "inq_8 = [0x600E, 0x4E48]"

definition inq_9 :: pstr where [vocab]:
  "inq_9 = [0x5982, 0x4F55]"

definition inq_10 :: pstr where [vocab]:
  "inq_10 = [0x4E3A, 0x4EC0, 0x4E48]"

definition inq_11 :: pstr where [vocab]:
  "inq_11 = [0x67E5, 0x8BE2]"

definition inq_12 :: pstr where [vocab]:
  "inq_12 = [0x3F]"

definition inq_13 :: pstr where [vocab]:
  "inq_13 = [0xFF1F]"

definition neg_1 :: pstr where [vocab]:
  "neg_1 = [0x4E0D, 0x8981]"

definition neg_2 :: pstr where [vocab]:
  "neg_2 = [0x522B]"

definition neg_3 :: pstr where [vocab]:
  "neg_3 = [0x4E0D, 0x7528]"

definition neg_4 :: pstr where [vocab]:
  "neg_4 = [0x65E0, 0x9700]"

definition neg_5 :: pstr where [vocab]:
  "neg_5 = [0x4E0D, 0x60F3]"

definition neg_6 :: pstr where [vocab]:
  "neg_6 = [0x4E0D, 0x9700, 0x8981]"

definition neg_7 :: pstr where [vocab]:
  "neg_7 = [0x6682, 0x4E0D]"

definition neg_8 :: pstr where [vocab]:
  "neg_8 = [0x6682, 0x65F6, 0x4E0D]"

definition neg_9 :: pstr where [vocab]:
  "neg_9 = [0x5148, 0x4E0D]"

definition neg_10 :: pstr where [vocab]:
  "neg_10 = [0x5148, 0x522B]"

definition neg_11 :: pstr where [vocab]:
  "neg_11 = [0x7981, 0x6B62]"

definition neg_12 :: pstr where [vocab]:
  "neg_12 = [0x53D6, 0x6D88]"

definition c_cross_owner :: pstr where [vocab]:
  "c_cross_owner = [0x63D0, 0x4EA4, 0x6388, 0x6743, 0x8303, 0x56F4, 0x7EBF, 0x7D22]"

section \<open>Texts of the progress summary\<close>

definition p_title :: pstr where [vocab]:
  "p_title = [0x1F4CA, 0x20, 0x9700, 0x6C42, 0x5F55, 0x5165, 0x8FDB, 0x5EA6, 0x6C47, 0x62A5]"

definition p_title_final :: pstr where [vocab]:
  "p_title_final = [0x1F4CA, 0x20, 0x9700, 0x6C42, 0x5F55, 0x5165, 0x8FDB, 0x5EA6, 0x6700, 0x7EC8,
     0x6C47, 0x62A5]"

definition p_received :: pstr where [vocab]:
  "p_received = [0x6536, 0x5230, 0x6D88, 0x606F, 0xFF1A]"

definition p_items :: pstr where [vocab]:
  "p_items = [0x20, 0x6761]"

definition p_identified :: pstr where [vocab]:
  "p_identified = [0x8BC6, 0x522B, 0x7EBF, 0x7D22, 0xFF1A]"

definition p_success :: pstr where [vocab]:
  "p_success = [0x5F55, 0x5165, 0x6210, 0x529F, 0xFF1A]"

definition p_incomplete :: pstr where [vocab]:
  "p_incomplete = [0x5176, 0x4E2D, 0x5F85, 0x5B8C, 0x5584, 0xFF1A]"

definition p_missing :: pstr where [vocab]:
  "p_missing = [0x20, 0x6761, 0xFF08, 0x7F3A, 0x5B57, 0x6BB5, 0x20]"

definition p_pending :: pstr where [vocab]:
  "p_pending = [0xFF0C, 0x41, 0x49, 0x5F85, 0x786E, 0x8BA4, 0x20]"

definition p_overlap :: pstr where [vocab]:
  "p_overlap = [0xFF0C, 0x53EF, 0x91CD, 0x53E0, 0xFF09]"

definition p_failed :: pstr where [vocab]:
  "p_failed = [0x540C, 0x6B65, 0x5931, 0x8D25, 0xFF1A]"

definition p_processing :: pstr where [vocab]:
  "p_processing = [0x5904, 0x7406, 0x4E2D, 0xFF0F, 0x7B49, 0x5F85, 0x91CD, 0x8BD5, 0xFF1A]"

definition p_units :: pstr where [vocab]:
  "p_units = [0x20, 0x9879]"

definition p_unassigned :: pstr where [vocab]:
  "p_unassigned = [0x65E0, 0x6CD5, 0x53EF, 0x9760, 0x5F52, 0x5C5E, 0x5BA2, 0x6237, 0xFF1A]"

definition p_segments :: pstr where [vocab]:
  "p_segments = [0x20, 0x6BB5]"

definition p_no_lead :: pstr where [vocab]:
  "p_no_lead = [0x72EC, 0x7ACB, 0x6D88, 0x606F, 0x5904, 0x7406, 0x5931, 0x8D25, 0xFF08, 0x65E0,
     0x20, 0x4C, 0x65, 0x61, 0x64, 0xFF09, 0xFF1A]"

definition p_unverified :: pstr where [vocab]:
  "p_unverified = [0x5F53, 0x524D, 0x8868, 0x683C, 0x5F85, 0x6838, 0x5B9E, 0xFF1A]"

section \<open>Labels of the CRM dictionaries\<close>

definition k_line_2 :: pstr where [vocab]:
  "k_line_2 = [0x8F66, 0x8F7D, 0x673A, 0x5668, 0x4EBA]"

definition k_source_1 :: pstr where [vocab]:
  "k_source_1 = [0x4FC3, 0x9500]"

definition k_source_2 :: pstr where [vocab]:
  "k_source_2 = [0x641C, 0x7D22, 0x5F15, 0x64CE]"

definition k_source_3 :: pstr where [vocab]:
  "k_source_3 = [0x5E7F, 0x544A]"

definition k_source_4 :: pstr where [vocab]:
  "k_source_4 = [0x8F6C, 0x4ECB, 0x7ECD]"

definition k_source_5 :: pstr where [vocab]:
  "k_source_5 = [0x7EBF, 0x4E0A, 0x6CE8, 0x518C]"

definition k_source_6 :: pstr where [vocab]:
  "k_source_6 = [0x7EBF, 0x4E0A, 0x8BE2, 0x4EF7]"

definition k_source_7 :: pstr where [vocab]:
  "k_source_7 = [0x9884, 0x7EA6, 0x4E0A, 0x95E8]"

definition k_source_8 :: pstr where [vocab]:
  "k_source_8 = [0x964C, 0x62DC]"

definition k_source_9 :: pstr where [vocab]:
  "k_source_9 = [0x7535, 0x8BDD, 0x54A8, 0x8BE2]"

definition k_source_10 :: pstr where [vocab]:
  "k_source_10 = [0x90AE, 0x4EF6, 0x54A8, 0x8BE2]"

definition k_source_11 :: pstr where [vocab]:
  "k_source_11 = [0x5C55, 0x4F1A]"

definition k_source_12 :: pstr where [vocab]:
  "k_source_12 = [0x4FE1, 0x606F, 0x6E20, 0x9053, 0xFF08, 0x901A, 0x4FE1, 0x8FD0, 0x8425, 0x5546,
     0xFF09]"

definition k_source_13 :: pstr where [vocab]:
  "k_source_13 = [0x4FE1, 0x606F, 0x6E20, 0x9053, 0xFF08, 0x5546, 0x4F1A, 0x53CA, 0x534F, 0x4F1A,
     0xFF09]"

definition k_source_14 :: pstr where [vocab]:
  "k_source_14 = [0x4FE1, 0x606F, 0x6E20, 0x9053, 0xFF08, 0x653F, 0x5E9C, 0x804C, 0x80FD, 0x90E8,
     0x95E8, 0xFF09]"

definition k_source_15 :: pstr where [vocab]:
  "k_source_15 = [0x4FE1, 0x606F, 0x6E20, 0x9053, 0xFF08, 0x5F02, 0x4E1A, 0x5408, 0x4F5C, 0xFF09]"

definition k_industry_1 :: pstr where [vocab]:
  "k_industry_1 = [0x6C7D, 0x8F66, 0x4E3B, 0x673A, 0x5382]"

definition k_industry_2 :: pstr where [vocab]:
  "k_industry_2 = [0x6C7D, 0x8F66, 0x96F6, 0x90E8, 0x4EF6]"

definition k_industry_3 :: pstr where [vocab]:
  "k_industry_3 = [0x33, 0x43, 0x7535, 0x5B50]"

definition k_industry_4 :: pstr where [vocab]:
  "k_industry_4 = [0x673A, 0x68B0, 0x52A0, 0x5DE5]"

definition k_industry_5 :: pstr where [vocab]:
  "k_industry_5 = [0x65B0, 0x80FD, 0x6E90]"

definition k_industry_6 :: pstr where [vocab]:
  "k_industry_6 = [0x5BB6, 0x7535]"

definition k_industry_7 :: pstr where [vocab]:
  "k_industry_7 = [0x98DF, 0x54C1, 0x52A0, 0x5DE5]"

definition k_industry_8 :: pstr where [vocab]:
  "k_industry_8 = [0x65E5, 0x5316]"

definition k_industry_9 :: pstr where [vocab]:
  "k_industry_9 = [0x533B, 0x7597]"

definition k_industry_10 :: pstr where [vocab]:
  "k_industry_10 = [0x79D1, 0x7814, 0x6559, 0x80B2]"

definition k_industry_11 :: pstr where [vocab]:
  "k_industry_11 = [0x96F6, 0x552E]"

definition k_industry_12 :: pstr where [vocab]:
  "k_industry_12 = [0x670D, 0x52A1, 0x4E1A]"

definition k_industry_13 :: pstr where [vocab]:
  "k_industry_13 = [0x519B, 0x5DE5]"

definition k_industry_14 :: pstr where [vocab]:
  "k_industry_14 = [0x822A, 0x7A7A, 0x822A, 0x5929]"

definition k_industry_15 :: pstr where [vocab]:
  "k_industry_15 = [0x7269, 0x6D41, 0x8FD0, 0x8F93, 0x4E1A]"

definition k_industry_16 :: pstr where [vocab]:
  "k_industry_16 = [0x534A, 0x5BFC, 0x4F53]"

definition k_way_1 :: pstr where [vocab]:
  "k_way_1 = [0x6253, 0x7535, 0x8BDD]"

definition k_way_2 :: pstr where [vocab]:
  "k_way_2 = [0x53D1, 0x90AE, 0x4EF6]"

definition k_way_3 :: pstr where [vocab]:
  "k_way_3 = [0x53D1, 0x77ED, 0x4FE1]"

definition k_way_4 :: pstr where [vocab]:
  "k_way_4 = [0x89C1, 0x9762, 0x62DC, 0x8BBF]"

definition k_way_6 :: pstr where [vocab]:
  "k_way_6 = [0x5FAE, 0x4FE1]"

definition k_way_7 :: pstr where [vocab]:
  "k_way_7 = [0x966A, 0x8BBF]"

definition k_way_8 :: pstr where [vocab]:
  "k_way_8 = [0x7EBF, 0x4E0A, 0x4F1A, 0x8BAE]"

definition k_way_100 :: pstr where [vocab]:
  "k_way_100 = [0x7B80, 0x9053, 0x4E91, 0x2D, 0x552E, 0x524D, 0x5DE5, 0x5355]"

definition k_way_200 :: pstr where [vocab]:
  "k_way_200 = [0x7B80, 0x9053, 0x4E91, 0x2D, 0x552E, 0x540E, 0x5DE5, 0x5355]"

definition k_way_300 :: pstr where [vocab]:
  "k_way_300 = [0x7B80, 0x9053, 0x4E91, 0x2D, 0x6280, 0x672F, 0x652F, 0x6301, 0x65E5, 0x5FD7]"

definition k_process_1 :: pstr where [vocab]:
  "k_process_1 = [0x4E0A, 0x4E0B, 0x6599]"

definition k_process_2 :: pstr where [vocab]:
  "k_process_2 = [0x9501, 0x87BA, 0x4E1D]"

definition k_process_3 :: pstr where [vocab]:
  "k_process_3 = [0x710A, 0x63A5]"

definition k_process_4 :: pstr where [vocab]:
  "k_process_4 = [0x55B7, 0x6D82]"

definition k_process_5 :: pstr where [vocab]:
  "k_process_5 = [0x6253, 0x78E8]"

definition k_process_6 :: pstr where [vocab]:
  "k_process_6 = [0x6D82, 0x80F6]"

definition k_process_7 :: pstr where [vocab]:
  "k_process_7 = [0x88C5, 0x914D]"

definition k_process_8 :: pstr where [vocab]:
  "k_process_8 = [0x7801, 0x579B]"

definition k_process_9 :: pstr where [vocab]:
  "k_process_9 = [0x89C6, 0x89C9, 0x68C0, 0x6D4B]"

definition k_process_10 :: pstr where [vocab]:
  "k_process_10 = [0x8D34, 0x6807]"

definition k_process_11 :: pstr where [vocab]:
  "k_process_11 = [0x5F00, 0x7BB1, 0x673A]"

definition k_process_12 :: pstr where [vocab]:
  "k_process_12 = [0x81EA, 0x52A9, 0x52A0, 0x6CB9, 0x2F, 0x5145, 0x7535]"

definition k_process_13 :: pstr where [vocab]:
  "k_process_13 = [0x5546, 0x4E1A, 0x5E94, 0x7528]"

definition k_level_key :: pstr where [vocab]:
  "k_level_key = [0x91CD, 0x70B9, 0x5BA2, 0x6237]"

definition k_level_normal :: pstr where [vocab]:
  "k_level_normal = [0x666E, 0x901A, 0x5BA2, 0x6237]"

definition k_level_low :: pstr where [vocab]:
  "k_level_low = [0x975E, 0x4F18, 0x5148, 0x5BA2, 0x6237]"

section \<open>CRM submission\<close>

definition v_submitted :: pstr where [vocab]:
  "v_submitted = [0x5DF2, 0x63D0, 0x4EA4]"

definition v_abandoned :: pstr where [vocab]:
  "v_abandoned = [0x653E, 0x5F03, 0x63D0, 0x4EA4]"

definition c_target :: pstr where [vocab]:
  "c_target = [0x63D0, 0x4EA4, 0x6307, 0x5B9A, 0x7EBF, 0x7D22]"

definition c_retry_incomplete :: pstr where [vocab]:
  "c_retry_incomplete = [0x91CD, 0x65B0, 0x63D0, 0x4EA4, 0x5F85, 0x5B8C, 0x5584, 0x7684, 0x7EBF,
     0x7D22]"

definition s_no_mapping :: pstr where [vocab]:
  "s_no_mapping = [0x20, 0x7F3A, 0x5C11, 0x20, 0x43, 0x52, 0x4D, 0x20, 0x5B57, 0x5178, 0x6620,
     0x5C04, 0xFF1A]"

definition s_name_pending :: pstr where [vocab]:
  "s_name_pending = [0x7EBF, 0x7D22, 0x540D, 0x79F0, 0x5F85, 0x5B8C, 0x5584]"

definition s_mapping_missing :: pstr where [vocab]:
  "s_mapping_missing = [0x43, 0x52, 0x4D, 0x20, 0x7528, 0x6237, 0x6620, 0x5C04, 0x7F3A, 0x5931]"

definition s_stopped :: pstr where [vocab]:
  "s_stopped = [0x7528, 0x6237, 0x505C, 0x6B62, 0x63D0, 0x4EA4, 0x91CD, 0x590D, 0x7EBF, 0x7D22]"

definition s_this_lead :: pstr where [vocab]:
  "s_this_lead = [0x8BE5, 0x7EBF, 0x7D22]"

definition s_retry_done :: pstr where [vocab]:
  "s_retry_done = [0x43, 0x52, 0x4D, 0x20, 0x81EA, 0x52A8, 0x91CD, 0x8BD5, 0x5B8C, 0x6210,
     0xFF1A]"

definition s_retry_follow :: pstr where [vocab]:
  "s_retry_follow = [0x43, 0x52, 0x4D, 0x20, 0x5DF2, 0x5B58, 0x5728, 0x5E76, 0x8DDF, 0x8FDB]"

definition s_retry_ok :: pstr where [vocab]:
  "s_retry_ok = [0x43, 0x52, 0x4D, 0x20, 0x63D0, 0x4EA4, 0x6210, 0x529F]"

definition s_retry_unknown_a :: pstr where [vocab]:
  "s_retry_unknown_a = [0x43, 0x52, 0x4D, 0x20, 0x81EA, 0x52A8, 0x91CD, 0x8BD5, 0x5DF2, 0x7ED3,
     0x675F, 0xFF1A]"

definition s_retry_unknown_b :: pstr where [vocab]:
  "s_retry_unknown_b = [0x20, 0x7684, 0x63D0, 0x4EA4, 0x7ED3, 0x679C, 0x4ECD, 0x65E0, 0x6CD5,
     0x786E, 0x8BA4, 0xFF0C, 0x8BF7, 0x4EBA, 0x5DE5, 0x6838, 0x5BF9, 0x20, 0x43, 0x52, 0x4D,
     0xFF0C, 0x907F, 0x514D, 0x91CD, 0x590D, 0x63D0, 0x4EA4, 0x3002]"

definition s_retry_fail_a :: pstr where [vocab]:
  "s_retry_fail_a = [0x43, 0x52, 0x4D, 0x20, 0x81EA, 0x52A8, 0x91CD, 0x8BD5, 0x5931, 0x8D25,
     0xFF1A]"

definition s_retry_fail_b :: pstr where [vocab]:
  "s_retry_fail_b = [0xFF0C, 0x9700, 0x8981, 0x4EBA, 0x5DE5, 0x5904, 0x7406, 0x3002]"

definition s_dup_unknown :: pstr where [vocab]:
  "s_dup_unknown = [0x43, 0x52, 0x4D, 0x20, 0x8FDC, 0x7AEF, 0x8986, 0x76D6, 0x7ED3, 0x679C,
     0x5F85, 0x6838, 0x5B9E, 0xFF0C, 0x5DF2, 0x505C, 0x6B62, 0x81EA, 0x52A8, 0x91CD, 0x8BD5,
     0xFF1B, 0x8BF7, 0x8054, 0x7CFB, 0x7BA1, 0x7406, 0x5458, 0x6838, 0x5BF9, 0x540E, 0x5904,
     0x7406, 0xFF0C, 0x52FF, 0x91CD, 0x590D, 0x63D0, 0x4EA4, 0x3002]"

definition s_dup_auth :: pstr where [vocab]:
  "s_dup_auth = [0x43, 0x52, 0x4D, 0x20, 0x8EAB, 0x4EFD, 0x8BA4, 0x8BC1, 0x5931, 0x8D25, 0xFF0C,
     0x5DF2, 0x505C, 0x6B62, 0x8986, 0x76D6, 0xFF1B, 0x8BF7, 0x8054, 0x7CFB, 0x7BA1, 0x7406,
     0x5458, 0x68C0, 0x67E5, 0x8C03, 0x7528, 0x8EAB, 0x4EFD, 0x3002]"

definition s_dup_business :: pstr where [vocab]:
  "s_dup_business = [0x43, 0x52, 0x4D, 0x20, 0x660E, 0x786E, 0x62D2, 0x7EDD, 0x8986, 0x76D6,
     0xFF0C, 0x5DF2, 0x505C, 0x6B62, 0x91CD, 0x8BD5, 0xFF1B, 0x8BF7, 0x8054, 0x7CFB, 0x7BA1,
     0x7406, 0x5458, 0x6838, 0x5BF9, 0x7F16, 0x8F91, 0x6743, 0x9650, 0x53CA, 0x5B57, 0x6BB5,
     0x6821, 0x9A8C, 0x3002]"

definition s_dup_gateway :: pstr where [vocab]:
  "s_dup_gateway = [0x43, 0x52, 0x4D, 0x20, 0x7F51, 0x5173, 0x62D2, 0x7EDD, 0x8BF7, 0x6C42,
     0xFF0C, 0x5DF2, 0x505C, 0x6B62, 0x8986, 0x76D6, 0xFF1B, 0x8BF7, 0x8054, 0x7CFB, 0x7BA1,
     0x7406, 0x5458, 0x6838, 0x67E5, 0x7F51, 0x5173, 0x72B6, 0x6001, 0x548C, 0x6743, 0x9650,
     0x3002]"

definition s_dup_other :: pstr where [vocab]:
  "s_dup_other = [0x43, 0x52, 0x4D, 0x20, 0x8986, 0x76D6, 0x672A, 0x5B8C, 0x6210, 0xFF0C, 0x5DF2,
     0x505C, 0x6B62, 0x81EA, 0x52A8, 0x91CD, 0x8BD5, 0xFF1B, 0x8BF7, 0x8054, 0x7CFB, 0x7BA1,
     0x7406, 0x5458, 0x67E5, 0x770B, 0x540C, 0x6B65, 0x8BB0, 0x5F55, 0x7684, 0x5B89, 0x5168,
     0x5931, 0x8D25, 0x539F, 0x56E0, 0x3002]"

definition s_mock_created :: pstr where [vocab]:
  "s_mock_created = [0x6D, 0x6F, 0x63, 0x6B, 0x20, 0x43, 0x52, 0x4D, 0x20, 0x521B, 0x5EFA, 0x6210,
     0x529F]"

section \<open>Columns of the audit mirror\<close>

definition a_key :: pstr where [vocab]:
  "a_key = [0x65E5, 0x5FD7, 0x552F, 0x4E00, 0x952E]"

definition a_event_id :: pstr where [vocab]:
  "a_event_id = [0x4E8B, 0x4EF6, 0x49, 0x44]"

definition a_time :: pstr where [vocab]:
  "a_time = [0x65F6, 0x95F4]"

definition a_operator :: pstr where [vocab]:
  "a_operator = [0x64CD, 0x4F5C, 0x4EBA]"

definition a_message_id :: pstr where [vocab]:
  "a_message_id = [0x6D88, 0x606F, 0x49, 0x44]"

definition a_original :: pstr where [vocab]:
  "a_original = [0x9500, 0x552E, 0x539F, 0x59CB, 0x6D88, 0x606F]"

definition a_lead_id :: pstr where [vocab]:
  "a_lead_id = [0x7EBF, 0x7D22, 0x5F52, 0x5C5E, 0x49, 0x44]"

definition a_record_id :: pstr where [vocab]:
  "a_record_id = [0x8868, 0x683C, 0x8BB0, 0x5F55, 0x49, 0x44]"

definition a_action_id :: pstr where [vocab]:
  "a_action_id = [0x4EA4, 0x4E92, 0x64CD, 0x4F5C, 0x49, 0x44]"

definition a_operation :: pstr where [vocab]:
  "a_operation = [0x64CD, 0x4F5C, 0x7C7B, 0x578B]"

definition a_status :: pstr where [vocab]:
  "a_status = [0x5904, 0x7406, 0x72B6, 0x6001]"

definition a_reason :: pstr where [vocab]:
  "a_reason = [0x539F, 0x56E0, 0x7801]"

definition a_missing :: pstr where [vocab]:
  "a_missing = [0x7F3A, 0x5931, 0x5B57, 0x6BB5]"

definition a_failure_category :: pstr where [vocab]:
  "a_failure_category = [0x5931, 0x8D25, 0x5206, 0x7C7B]"

definition a_failure_code :: pstr where [vocab]:
  "a_failure_code = [0x5931, 0x8D25, 0x4EE3, 0x7801]"

definition a_crm_operation :: pstr where [vocab]:
  "a_crm_operation = [0x43, 0x52, 0x4D, 0x64CD, 0x4F5C]"

definition a_event_type :: pstr where [vocab]:
  "a_event_type = [0x4E8B, 0x4EF6, 0x7C7B, 0x578B]"

section \<open>Texts of the action cards\<close>

definition t_unavailable :: pstr where [vocab]:
  "t_unavailable = [0x5361, 0x7247, 0x64CD, 0x4F5C, 0x80FD, 0x529B, 0x5F53, 0x524D, 0x4E0D,
     0x53EF, 0x7528]"

definition t_delivered :: pstr where [vocab]:
  "t_delivered = [0x8BE5, 0x56DE, 0x8C03, 0x5DF2, 0x63A5, 0x6536, 0xFF0C, 0x4E1A, 0x52A1, 0x52A8,
     0x4F5C, 0x4E0D, 0x4F1A, 0x91CD, 0x590D, 0x6267, 0x884C]"

definition t_unknown_task :: pstr where [vocab]:
  "t_unknown_task = [0x5361, 0x7247, 0x52A8, 0x4F5C, 0x4E0D, 0x5B58, 0x5728, 0x6216, 0x5DF2,
     0x5931, 0x6548]"

definition t_actor_inactive :: pstr where [vocab]:
  "t_actor_inactive = [0x5F53, 0x524D, 0x8D26, 0x53F7, 0x4E0D, 0x5B58, 0x5728, 0x6216, 0x5DF2,
     0x505C, 0x7528]"

definition t_actor_mismatch :: pstr where [vocab]:
  "t_actor_mismatch = [0x8BE5, 0x5361, 0x7247, 0x4E0D, 0x5C5E, 0x4E8E, 0x5F53, 0x524D, 0x8D26,
     0x53F7]"

definition t_unknown_key :: pstr where [vocab]:
  "t_unknown_key = [0x4E0D, 0x652F, 0x6301, 0x7684, 0x5361, 0x7247, 0x64CD, 0x4F5C]"

definition t_key_mismatch :: pstr where [vocab]:
  "t_key_mismatch = [0x5361, 0x7247, 0x64CD, 0x4F5C, 0x4E0E, 0x670D, 0x52A1, 0x7AEF, 0x52A8,
     0x4F5C, 0x4E0D, 0x5339, 0x914D]"

definition t_accepted :: pstr where [vocab]:
  "t_accepted = [0x8BE5, 0x64CD, 0x4F5C, 0x5DF2, 0x53D7, 0x7406, 0xFF0C, 0x4E1A, 0x52A1, 0x52A8,
     0x4F5C, 0x4E0D, 0x4F1A, 0x91CD, 0x590D, 0x6267, 0x884C]"

definition t_expired :: pstr where [vocab]:
  "t_expired = [0x5361, 0x7247, 0x5DF2, 0x8FC7, 0x671F, 0xFF0C, 0x8BF7, 0x91CD, 0x65B0, 0x53D1,
     0x8D77, 0x64CD, 0x4F5C]"

definition t_choice_invalid :: pstr where [vocab]:
  "t_choice_invalid = [0x5019, 0x9009, 0x7EBF, 0x7D22, 0x9009, 0x62E9, 0x65E0, 0x6548, 0xFF0C,
     0x8BF7, 0x91CD, 0x65B0, 0x53D1, 0x8D77, 0x63D0, 0x4EA4]"

definition t_choice_owner :: pstr where [vocab]:
  "t_choice_owner = [0x5019, 0x9009, 0x7EBF, 0x7D22, 0x4E0D, 0x5C5E, 0x4E8E, 0x5F53, 0x524D,
     0x9500, 0x552E]"

definition t_not_owner :: pstr where [vocab]:
  "t_not_owner = [0x5F53, 0x524D, 0x8D26, 0x53F7, 0x5DF2, 0x4E0D, 0x662F, 0x667A, 0x80FD, 0x8868,
     0x683C, 0x8D1F, 0x8D23, 0x4EBA]"

definition t_card_stale :: pstr where [vocab]:
  "t_card_stale = [0x786E, 0x8BA4, 0x5361, 0x5185, 0x5BB9, 0x5DF2, 0x5931, 0x6548, 0xFF0C, 0x8BF7,
     0x91CD, 0x65B0, 0x53D1, 0x8D77]"

definition t_candidates_stale :: pstr where [vocab]:
  "t_candidates_stale = [0x5019, 0x9009, 0x5361, 0x5185, 0x5BB9, 0x5DF2, 0x5931, 0x6548, 0xFF0C,
     0x8BF7, 0x91CD, 0x65B0, 0x53D1, 0x8D77]"

definition t_list_stale :: pstr where [vocab]:
  "t_list_stale = [0x5019, 0x9009, 0x7EBF, 0x7D22, 0x5217, 0x8868, 0x5DF2, 0x5931, 0x6548, 0xFF0C,
     0x8BF7, 0x91CD, 0x65B0, 0x53D1, 0x8D77]"

definition t_command_invalid :: pstr where [vocab]:
  "t_command_invalid = [0x5019, 0x9009, 0x63D0, 0x4EA4, 0x52A8, 0x4F5C, 0x7C7B, 0x578B, 0x65E0,
     0x6548, 0xFF0C, 0x8BF7, 0x91CD, 0x65B0, 0x53D1, 0x8D77]"

definition t_all_checked :: pstr where [vocab]:
  "t_all_checked = [0x5DF2, 0x52FE, 0x9009, 0x672C, 0x9875, 0x5168, 0x90E8, 0x7EBF, 0x7D22,
     0xFF0C, 0x8BF7, 0x786E, 0x8BA4, 0x63D0, 0x4EA4]"

definition t_select_one :: pstr where [vocab]:
  "t_select_one = [0x8BF7, 0x81F3, 0x5C11, 0x9009, 0x62E9, 0x4E00, 0x6761, 0x6709, 0x6548, 0x7EBF,
     0x7D22]"

definition t_dup_owner :: pstr where [vocab]:
  "t_dup_owner = [0x91CD, 0x590D, 0x7EBF, 0x7D22, 0x4E2D, 0x5B58, 0x5728, 0x5F53, 0x524D, 0x8D26,
     0x53F7, 0x65E0, 0x6743, 0x64CD, 0x4F5C, 0x7684, 0x8BB0, 0x5F55]"

definition t_dup_choice :: pstr where [vocab]:
  "t_dup_choice = [0x5361, 0x7247, 0x9009, 0x62E9, 0x9879, 0x5DF2, 0x5931, 0x6548, 0xFF0C, 0x8BF7,
     0x91CD, 0x65B0, 0x63D0, 0x4EA4]"

definition t_dup_stale :: pstr where [vocab]:
  "t_dup_stale = [0x91CD, 0x590D, 0x786E, 0x8BA4, 0x5361, 0x5DF2, 0x5931, 0x6548, 0xFF0C, 0x8BF7,
     0x91CD, 0x65B0, 0x53D1, 0x8D77]"

definition t_claimed :: pstr where [vocab]:
  "t_claimed = [0x5DF2, 0x53D7, 0x7406, 0xFF0C, 0x540E, 0x53F0, 0x6B63, 0x5728, 0x5904, 0x7406]"

definition t_processed :: pstr where [vocab]:
  "t_processed = [0x5DF2, 0x5904, 0x7406]"

definition t_not_runnable :: pstr where [vocab]:
  "t_not_runnable = [0x52A8, 0x4F5C, 0x4E0D, 0x53EF, 0x6267, 0x884C]"

definition t_running :: pstr where [vocab]:
  "t_running = [0x5DF2, 0x5728, 0x5904, 0x7406, 0x4E2D]"

definition t_lost :: pstr where [vocab]:
  "t_lost = [0x9886, 0x57DF, 0x64CD, 0x4F5C, 0x5DF2, 0x5F00, 0x59CB, 0x4F46, 0x20, 0x57, 0x6F,
     0x72, 0x6B, 0x65, 0x72, 0x20, 0x5931, 0x8054, 0xFF0C, 0x9700, 0x8981, 0x6062, 0x590D, 0x6838,
     0x5BF9]"

definition t_operator_inactive :: pstr where [vocab]:
  "t_operator_inactive = [0x64CD, 0x4F5C, 0x4EBA, 0x4E0D, 0x5B58, 0x5728, 0x6216, 0x5DF2, 0x505C,
     0x7528, 0xFF0C, 0x672A, 0x6267, 0x884C, 0x8BE5, 0x52A8, 0x4F5C]"

definition t_claim_lost :: pstr where [vocab]:
  "t_claim_lost = [0x57, 0x6F, 0x72, 0x6B, 0x65, 0x72, 0x20, 0x63, 0x6C, 0x61, 0x69, 0x6D, 0x20,
     0x5DF2, 0x5931, 0x6548]"

definition t_failed_a :: pstr where [vocab]:
  "t_failed_a = [0x4E1A, 0x52A1, 0x52A8, 0x4F5C, 0x5931, 0x8D25, 0xFF0C, 0x9700, 0x8981, 0x4EBA,
     0x5DE5, 0x5904, 0x7406, 0xFF08]"

definition t_rec_a :: pstr where [vocab]:
  "t_rec_a = [0x43, 0x52, 0x4D, 0x20, 0x63D0, 0x4EA4, 0x7ED3, 0x679C, 0x5DF2, 0x6062, 0x590D,
     0xFF1A, 0x65B0, 0x589E, 0x2F, 0x66F4, 0x65B0, 0x6210, 0x529F, 0x20]"

definition t_rec_b :: pstr where [vocab]:
  "t_rec_b = [0x20, 0x6761, 0xFF0C, 0x5DF2, 0x5B58, 0x5728, 0x5E76, 0x8DDF, 0x8FDB, 0x20]"

definition t_rec_c :: pstr where [vocab]:
  "t_rec_c = [0x20, 0x6761, 0xFF0C, 0x65E0, 0x53D8, 0x5316, 0x20]"

definition t_rec_d :: pstr where [vocab]:
  "t_rec_d = [0x20, 0x6761, 0xFF0C, 0x5F85, 0x5B8C, 0x5584, 0x20]"

definition t_rec_e :: pstr where [vocab]:
  "t_rec_e = [0x20, 0x6761, 0xFF0C, 0x5904, 0x7406, 0x4E2D, 0x20]"

definition t_rec_f :: pstr where [vocab]:
  "t_rec_f = [0x20, 0x6761, 0xFF0C, 0x91CD, 0x8BD5, 0x4E2D, 0x20]"

definition t_rec_g :: pstr where [vocab]:
  "t_rec_g = [0x20, 0x6761, 0xFF0C, 0x672A, 0x63D0, 0x4EA4, 0x20]"

definition t_rec_h :: pstr where [vocab]:
  "t_rec_h = [0x20, 0x6761, 0xFF0C, 0x9700, 0x4EBA, 0x5DE5, 0x5904, 0x7406, 0x20]"

definition t_rec_i :: pstr where [vocab]:
  "t_rec_i = [0x20, 0x6761, 0xFF0C, 0x5DF2, 0x6838, 0x5B9E, 0x20]"

definition t_rec_j :: pstr where [vocab]:
  "t_rec_j = [0x20, 0x6761, 0x3002]"

definition t_rec_k :: pstr where [vocab]:
  "t_rec_k = [0x5176, 0x4F59, 0x20]"

definition t_rec_l :: pstr where [vocab]:
  "t_rec_l = [0x20, 0x6761, 0x7ED3, 0x679C, 0x5F85, 0x6838, 0x5BF9, 0xFF0C, 0x7CFB, 0x7EDF,
     0x4E0D, 0x4F1A, 0x518D, 0x6B21, 0x63D0, 0x4EA4, 0x20, 0x43, 0x52, 0x4D, 0x3002]"

definition t_detail_sep :: pstr where [vocab]:
  "t_detail_sep = [0xA, 0xA, 0x660E, 0x7EC6, 0xFF1A, 0xA]"

definition t_detail :: pstr where [vocab]:
  "t_detail = [0x660E, 0x7EC6, 0xFF1A]"

definition t_transport_failed :: pstr where [vocab]:
  "t_transport_failed = [0x4F01, 0x4E1A, 0x5FAE, 0x4FE1, 0x20, 0x63, 0x61, 0x6C, 0x6C, 0x62, 0x61,
     0x63, 0x6B, 0x20, 0x63, 0x61, 0x72, 0x64, 0x20, 0x75, 0x70, 0x64, 0x61, 0x74, 0x65, 0x20,
     0x4F20, 0x8F93, 0x5931, 0x8D25]"

definition t_no_remote_fact :: pstr where [vocab]:
  "t_no_remote_fact = [0x5F53, 0x524D, 0x52A8, 0x4F5C, 0x6CA1, 0x6709, 0x53EF, 0x6838, 0x5BF9,
     0x7684, 0x8FDC, 0x7AEF, 0x4E8B, 0x5B9E]"

definition t_snapshot_incomplete :: pstr where [vocab]:
  "t_snapshot_incomplete = [0x786E, 0x8BA4, 0x503C, 0x5FEB, 0x7167, 0x4E0D, 0x5B8C, 0x6574,
     0xFF0C, 0x9700, 0x8981, 0x4EBA, 0x5DE5, 0x5904, 0x7406]"

definition t_remote_differs :: pstr where [vocab]:
  "t_remote_differs = [0x8FDC, 0x7AEF, 0x786E, 0x8BA4, 0x4E8B, 0x5B9E, 0x4E0E, 0x5F53, 0x524D,
     0x8868, 0x683C, 0x4E0D, 0x4E00, 0x81F4]"

definition t_other_recovery :: pstr where [vocab]:
  "t_other_recovery = [0x52A8, 0x4F5C, 0x5DF2, 0x88AB, 0x5176, 0x4ED6, 0x6062, 0x590D, 0x6D41,
     0x7A0B, 0x5904, 0x7406]"

definition t_recovered :: pstr where [vocab]:
  "t_recovered = [0x5B57, 0x6BB5, 0x786E, 0x8BA4, 0x4E8B, 0x5B9E, 0x5DF2, 0x4ECE, 0x667A, 0x80FD,
     0x8868, 0x683C, 0x6062, 0x590D]"

definition t_title_discard :: pstr where [vocab]:
  "t_title_discard = [0x786E, 0x8BA4, 0x5E9F, 0x5F03, 0x7EBF, 0x7D22]"

definition t_desc_discard :: pstr where [vocab]:
  "t_desc_discard = [0x8BF7, 0x786E, 0x8BA4, 0x5E9F, 0x5F03, 0x5F53, 0x524D, 0x7EBF, 0x7D22]"

definition t_title_reassign :: pstr where [vocab]:
  "t_title_reassign = [0x786E, 0x8BA4, 0x91CD, 0x65B0, 0x5F52, 0x5C5E]"

definition t_desc_reassign :: pstr where [vocab]:
  "t_desc_reassign = [0x8BF7, 0x786E, 0x8BA4, 0x5C06, 0x6D88, 0x606F, 0x5F52, 0x5C5E, 0x5230,
     0x5DF2, 0x9009, 0x62E9, 0x7684, 0x7EBF, 0x7D22]"

definition t_title_fields :: pstr where [vocab]:
  "t_title_fields = [0x63D0, 0x4EA4, 0x524D, 0x786E, 0x8BA4, 0x5B57, 0x6BB5]"

definition t_desc_fields :: pstr where [vocab]:
  "t_desc_fields = [0x8BF7, 0x786E, 0x8BA4, 0xFF1A]"

definition t_title_dup :: pstr where [vocab]:
  "t_title_dup = [0x43, 0x52, 0x4D, 0x20, 0x91CD, 0x590D, 0x7EBF, 0x7D22, 0x786E, 0x8BA4]"

definition t_desc_dup_a :: pstr where [vocab]:
  "t_desc_dup_a = [0x5F53, 0x524D, 0x7CFB, 0x7EDF, 0x6709]"

definition t_desc_dup_b :: pstr where [vocab]:
  "t_desc_dup_b = [0x7684, 0x4FE1, 0x606F, 0xFF0C, 0x8BF7, 0x95EE, 0x662F, 0x8FDB, 0x884C, 0x8986,
     0x76D6, 0x8FD8, 0x662F, 0x505C, 0x6B62, 0x63D0, 0x4EA4]"

definition t_title_company :: pstr where [vocab]:
  "t_title_company = [0x786E, 0x8BA4, 0x63D0, 0x4EA4, 0x7EBF, 0x7D22]"

definition t_desc_company_a :: pstr where [vocab]:
  "t_desc_company_a = [0x8BF7, 0x6838, 0x5BF9, 0x201C]"

definition t_desc_company_b :: pstr where [vocab]:
  "t_desc_company_b = [0x201D, 0x7684, 0x9884, 0x89C8, 0x5B57, 0x6BB5, 0x540E, 0x786E, 0x8BA4,
     0x63D0, 0x4EA4]"

definition t_title_select :: pstr where [vocab]:
  "t_title_select = [0x9009, 0x62E9, 0x8981, 0x63D0, 0x4EA4, 0x7684, 0x7EBF, 0x7D22]"

definition t_desc_cand_a :: pstr where [vocab]:
  "t_desc_cand_a = [0x516C, 0x53F8, 0x540D, 0x79F0, 0x201C]"

definition t_desc_cand_b :: pstr where [vocab]:
  "t_desc_cand_b = [0x201D, 0x5B58, 0x5728, 0x591A, 0x4E2A]"

definition t_contains :: pstr where [vocab]:
  "t_contains = [0x5305, 0x542B, 0x5339, 0x914D]"

definition t_exact :: pstr where [vocab]:
  "t_exact = [0x7CBE, 0x786E]"

definition t_desc_cand_c :: pstr where [vocab]:
  "t_desc_cand_c = [0x5019, 0x9009, 0xFF0C, 0x8BF7, 0x9009, 0x62E9, 0x4E00, 0x6761]"

definition t_title_abandoned :: pstr where [vocab]:
  "t_title_abandoned = [0x91CD, 0x65B0, 0x63D0, 0x4EA4, 0x653E, 0x5F03, 0x7EBF, 0x7D22]"

definition t_word_abandoned :: pstr where [vocab]:
  "t_word_abandoned = [0x653E, 0x5F03, 0x63D0, 0x4EA4]"

definition t_page_a :: pstr where [vocab]:
  "t_page_a = [0xFF08, 0x7B2C, 0x20]"

definition t_page_b :: pstr where [vocab]:
  "t_page_b = [0x20, 0x6279, 0xFF09]"

definition t_desc_batch :: pstr where [vocab]:
  "t_desc_batch = [0x52FE, 0x9009, 0x201C, 0x5168, 0x9009, 0x672C, 0x9875, 0x201D, 0x53EF, 0x4E00,
     0x6B21, 0x9009, 0x62E9, 0x5168, 0x90E8, 0x7EBF, 0x7D22, 0xFF0C, 0x4E5F, 0x53EF, 0x9010,
     0x6761, 0x52FE, 0x9009, 0x540E, 0x786E, 0x8BA4, 0x63D0, 0x4EA4]"

definition t_confirm :: pstr where [vocab]:
  "t_confirm = [0x786E, 0x8BA4]"

definition t_preview_name :: pstr where [vocab]:
  "t_preview_name = [0x63D0, 0x4EA4, 0x9884, 0x89C8]"

definition t_preview_value :: pstr where [vocab]:
  "t_preview_value = [0x8BF7, 0x6838, 0x5BF9, 0x4E0A, 0x65B9, 0x5B57, 0x6BB5, 0x660E, 0x7EC6,
     0x540E, 0x786E, 0x8BA4, 0x63D0, 0x4EA4]"

definition t_all_a :: pstr where [vocab]:
  "t_all_a = [0x5168, 0x9009, 0x672C, 0x9875, 0xFF08]"

definition t_all_b :: pstr where [vocab]:
  "t_all_b = [0x6761, 0xFF09]"

definition t_submit_batch :: pstr where [vocab]:
  "t_submit_batch = [0x786E, 0x8BA4, 0x63D0, 0x4EA4]"

definition t_submit_choice :: pstr where [vocab]:
  "t_submit_choice = [0x786E, 0x8BA4, 0x9009, 0x62E9]"

definition t_submit_continue :: pstr where [vocab]:
  "t_submit_continue = [0x7EE7, 0x7EED, 0x63D0, 0x4EA4]"

definition t_menu_dup :: pstr where [vocab]:
  "t_menu_dup = [0x91CD, 0x590D, 0x7EBF, 0x7D22, 0x5904, 0x7406]"

definition t_stop :: pstr where [vocab]:
  "t_stop = [0x505C, 0x6B62, 0x63D0, 0x4EA4]"

definition t_replaced :: pstr where [vocab]:
  "t_replaced = [0x5DF2, 0x786E, 0x8BA4, 0x9009, 0x62E9]"

definition t_in_progress :: pstr where [vocab]:
  "t_in_progress = [0x5DF2, 0x53D7, 0x7406, 0xFF0C, 0x540E, 0x53F0, 0x6B63, 0x5728, 0x63D0,
     0x4EA4, 0xFF0C, 0x8BF7, 0x52FF, 0x91CD, 0x590D, 0x64CD, 0x4F5C]"

definition t_dup_found :: pstr where [vocab]:
  "t_dup_found = [0x53D1, 0x73B0, 0x91CD, 0x590D, 0x7EBF, 0x7D22]"

definition t_dup_progress :: pstr where [vocab]:
  "t_dup_progress = [0x5DF2, 0x53D7, 0x7406, 0xFF0C, 0x540E, 0x53F0, 0x6B63, 0x5728, 0x5904,
     0x7406, 0xFF0C, 0x8BF7, 0x52FF, 0x91CD, 0x590D, 0x64CD, 0x4F5C]"

definition t_preview_content :: pstr where [vocab]:
  "t_preview_content = [0x63D0, 0x4EA4, 0x524D, 0x5B57, 0x6BB5, 0x660E, 0x7EC6]"

definition t_empty_value :: pstr where [vocab]:
  "t_empty_value = [0x672A, 0x586B, 0x5199]"

definition t_bar :: pstr where [vocab]:
  "t_bar = [0xFF5C]"

definition t_ellipsis :: pstr where [vocab]:
  "t_ellipsis = [0x2026]"

definition t_preview_head :: pstr where [vocab]:
  "t_preview_head = [0x2A, 0x2A, 0x63D0, 0x4EA4, 0x524D, 0x5B57, 0x6BB5, 0x660E, 0x7EC6, 0x2A,
     0x2A]"

definition t_preview_tail :: pstr where [vocab]:
  "t_preview_tail = [0xA, 0x8BF7, 0x6838, 0x5BF9, 0x4EE5, 0x4E0A, 0x5B57, 0x6BB5, 0x540E, 0xFF0C,
     0x70B9, 0x51FB, 0x4E0B, 0x65B9, 0x786E, 0x8BA4, 0x5361, 0x7247, 0x63D0, 0x4EA4, 0x3002]"

definition t_reason_discard :: pstr where [vocab]:
  "t_reason_discard = [0x9500, 0x552E, 0x901A, 0x8FC7, 0x56FA, 0x5B9A, 0x20, 0x54, 0x31, 0x38,
     0x20, 0x547D, 0x4EE4, 0x8BF7, 0x6C42, 0x5E9F, 0x5F03]"

definition t_reason_reassign :: pstr where [vocab]:
  "t_reason_reassign = [0x9500, 0x552E, 0x901A, 0x8FC7, 0x56FA, 0x5B9A, 0x20, 0x54, 0x31, 0x38,
     0x20, 0x547D, 0x4EE4, 0x8BF7, 0x6C42, 0x91CD, 0x5F52, 0x5C5E]"

definition t_stale_fields :: pstr where [vocab]:
  "t_stale_fields = [0x5B57, 0x6BB5, 0x5DF2, 0x6309, 0x6700, 0x65B0, 0x8868, 0x683C, 0x72B6,
     0x6001, 0x5904, 0x7406, 0xFF0C, 0x672A, 0x8986, 0x76D6, 0x9500, 0x552E, 0x4FEE, 0x6539]"

definition t_still_open :: pstr where [vocab]:
  "t_still_open = [0x4ECD, 0x6709, 0x5B57, 0x6BB5, 0x5F85, 0x786E, 0x8BA4, 0xFF0C, 0x8BF7, 0x4EE5,
     0x6700, 0x65B0, 0x5361, 0x7247, 0x6216, 0x667A, 0x80FD, 0x8868, 0x683C, 0x4E3A, 0x51C6]"

definition t_stopped_a :: pstr where [vocab]:
  "t_stopped_a = [0x5DF2, 0x505C, 0x6B62, 0x63D0, 0x4EA4, 0x91CD, 0x590D, 0x7EBF, 0x7D22, 0xFF0C,
     0x63D0, 0x4EA4, 0x72B6, 0x6001, 0x5DF2, 0x66F4, 0x65B0, 0x4E3A, 0x653E, 0x5F03, 0x63D0,
     0x4EA4, 0x20]"

definition t_items_end :: pstr where [vocab]:
  "t_items_end = [0x20, 0x6761]"

definition t_dup_done_a :: pstr where [vocab]:
  "t_dup_done_a = [0x91CD, 0x590D, 0x7EBF, 0x7D22, 0x5904, 0x7406, 0x5B8C, 0x6210, 0xFF1A, 0x8986,
     0x76D6, 0x6210, 0x529F, 0x20]"

definition t_dup_done_b :: pstr where [vocab]:
  "t_dup_done_b = [0x20, 0x6761, 0xFF1B, 0x672A, 0x9009, 0x62E9, 0x20]"

definition t_dup_done_c :: pstr where [vocab]:
  "t_dup_done_c = [0x20, 0x6761, 0xFF1B, 0x5931, 0x8D25, 0x20]"

definition t_discard_result :: pstr where [vocab]:
  "t_discard_result = [0x7EBF, 0x7D22, 0x5E9F, 0x5F03, 0x5904, 0x7406, 0x7ED3, 0x679C, 0xFF1A]"

definition t_reassigned :: pstr where [vocab]:
  "t_reassigned = [0x6D88, 0x606F, 0x91CD, 0x65B0, 0x5F52, 0x5C5E, 0x5DF2, 0x5B8C, 0x6210]"

definition t_intent_unknown :: pstr where [vocab]:
  "t_intent_unknown = [0x672A, 0x80FD, 0x8BC6, 0x522B, 0x6D88, 0x606F, 0x610F, 0x56FE, 0x3002,
     0x8BF7, 0x63D0, 0x4F9B, 0x5BA2, 0x6237, 0x4FE1, 0x606F, 0xFF0C, 0x6216, 0x660E, 0x786E,
     0x8BF4, 0x660E, 0x8981, 0x63D0, 0x4EA4, 0x4ECA, 0x5929, 0x3001, 0x5168, 0x90E8, 0x3001,
     0x653E, 0x5F03, 0x6216, 0x66F4, 0x65B0, 0x7684, 0x7EBF, 0x7D22, 0x3002]"

end
