(* ===== verification/Failures.thy ===== *)
theory Failures
  imports Py_Re Py_Value Vocab
begin

text \<open>
  \<^verbatim>\<open>app/core/failures.py\<close>: the classification of task failures that decides whether an external
  operation is retried, and the normalisation of the texts that enter the audit trail.
  An exception object is described by the classes \<^verbatim>\<open>isinstance\<close> accepts for it and the attributes
  \<^verbatim>\<open>getattr\<close> finds on it (\<^verbatim>\<open>None\<close> when absent).
\<close>

datatype task_failure_category = TRANSIENT | PERMANENT | UNKNOWN

datatype exn_class =
    C_PermanentTaskFailure
  | C_RetryableTaskFailure
  | C_ValueError
  | C_LookupError
  | C_OSError
  | C_PermissionError
  | C_TimeoutError
  | C_ConnectionError
  | C_SmartTableDefiniteRemoteFailure
  | C_PermissionVerificationUnavailable

record exn =
  ex_type_name :: pstr
  ex_bases :: "exn_class list"
  ex_category :: pyval
  ex_http_status :: pyval
  ex_sub_code :: pyval
  ex_error_code :: pyval
  ex_remote_record_id :: pyval
  ex_external_error_code :: pyval
  ex_duplicate_entity_type :: pyval
  ex_text :: pstr

definition isinstance :: "exn \<Rightarrow> exn_class list \<Rightarrow> bool" where
  "isinstance e cs = list_ex (\<lambda>c. c \<in> set (ex_bases e)) cs"

text \<open>The subclass relations of Python's built-in exceptions, as a closure condition on \<open>ex_bases\<close>.\<close>

definition builtin_bases_closed :: "exn \<Rightarrow> bool" where
  "builtin_bases_closed e =
     ((C_PermissionError \<in> set (ex_bases e) \<or> C_TimeoutError \<in> set (ex_bases e) \<or>
       C_ConnectionError \<in> set (ex_bases e)) \<longrightarrow> C_OSError \<in> set (ex_bases e))"

definition permanent_categories :: "string list" where
  "permanent_categories = [''authentication'', ''business'', ''business_rejection'',
     ''duplicate_target_unavailable'', ''malformed_response'']"

definition normalized_code :: "pyval \<Rightarrow> pstr" where
  "normalized_code v = (case v of PInt i \<Rightarrow> py_strip (str_of_int i) | PStr s \<Rightarrow> py_strip s | _ \<Rightarrow> [])"

definition server_error_code :: "pstr \<Rightarrow> bool" where
  "server_error_code s = (ascii_decimal s \<and> 500 \<le> nat_of_digits s \<and> nat_of_digits s < 600)"

definition retryable_status :: "pyval \<Rightarrow> bool" where
  "retryable_status v = (case int_of v of None \<Rightarrow> False | Some s \<Rightarrow> s \<in> {408, 425, 429} \<or> s \<ge> 500)"

definition gateway_category :: "exn \<Rightarrow> task_failure_category" where
  "gateway_category e =
     (let code = (if py_truthy (ex_sub_code e) then ex_sub_code e else ex_error_code e)
      in if retryable_status (ex_http_status e) \<or> server_error_code (normalized_code code)
         then TRANSIENT else PERMANENT)"

definition classify_task_failure :: "exn \<Rightarrow> task_failure_category" where
  "classify_task_failure e =
     (if isinstance e [C_PermanentTaskFailure] then PERMANENT
      else if isinstance e [C_RetryableTaskFailure] then TRANSIENT
      else
        (let by_class =
           (if isinstance e [C_ValueError, C_PermissionError, C_LookupError] then PERMANENT
            else if isinstance e [C_TimeoutError, C_ConnectionError, C_OSError] then TRANSIENT
            else UNKNOWN)
         in case ex_category e of
              PStr c \<Rightarrow>
                (if c = asc ''transport'' then TRANSIENT
                 else if c \<in> set (map asc permanent_categories) then PERMANENT
                 else if c = asc ''gateway'' then gateway_category e
                 else by_class)
            | _ \<Rightarrow> by_class))"

definition safe_failure_summary :: "exn \<Rightarrow> pstr" where
  "safe_failure_summary e = take 128 (ex_type_name e)"

section \<open>Audit texts and request identifiers\<close>

text \<open>
  \<^verbatim>\<open>(?i)\<close> on an ASCII letter accepts both cases; Unicode case folding adds U+017F for \<^verbatim>\<open>s\<close> and
  U+212A for \<^verbatim>\<open>k\<close>.
\<close>

definition ci_chr :: "cp \<Rightarrow> re" where
  "ci_chr c = Cls (\<lambda>x. x = c \<or> (0x61 \<le> c \<and> c \<le> 0x7A \<and> x + 0x20 = c) \<or>
     (c = 0x73 \<and> x = 0x17F) \<or> (c = 0x6B \<and> x = 0x212A))"

primrec ci_lit :: "pstr \<Rightarrow> re" where
  "ci_lit [] = Eps"
| "ci_lit (c # s) = Cat (ci_chr c) (ci_lit s)"

definition space_re :: re where "space_re = Cls py_isspace"

definition nonspace_re :: re where "nonspace_re = Cls (\<lambda>c. \<not> py_isspace c)"

definition colon_re :: re where "colon_re = Cls (\<lambda>c. c = 0x3A \<or> c = 0xFF1A)"

definition credential_re :: re where
  "credential_re =
     Cat (alts_re [ci_lit (asc ''password''), ci_lit (asc ''token''), ci_lit (asc ''secret''),
            lit_re w_password, lit_re w_passphrase])
       (Cat (Star space_re) (Cat (opt_re colon_re) (Cat (Star space_re) (plus_re nonspace_re))))"

definition mail_part_re :: re where
  "mail_part_re = plus_re (Cls (\<lambda>c. \<not> py_isspace c \<and> c \<noteq> 0x40))"

definition mail_re :: re where
  "mail_re = Cat mail_part_re (Cat (chr_re 0x40) mail_part_re)"

definition digit09 :: "cp \<Rightarrow> bool" where "digit09 c = (0x30 \<le> c \<and> c \<le> 0x39)"

definition phone_re :: re where
  "phone_re = Cat (NotBehind py_isdecimal) (Cat (opt_re (chr_re 0x2B))
     (Cat (Cls digit09) (Cat (rep_re 6 22 (Cls (\<lambda>c. digit09 c \<or> c = 0x20 \<or> c = 0x2D)))
       (Cat (Cls digit09) (NotAhead py_isdecimal)))))"

definition safe_audit_text :: "pstr \<Rightarrow> nat \<Rightarrow> pstr" where
  "safe_audit_text v max_length =
     (let n0 = take max_length (py_join [0x20] (py_split v));
          n1 = re_sub credential_re (\<lambda>_. w_masked) n0;
          n2 = re_sub mail_re (\<lambda>_. w_masked_mail) n1
      in re_sub phone_re (\<lambda>_. w_masked_phone) n2)"

definition request_id_char :: "cp \<Rightarrow> bool" where
  "request_id_char c =
     ((0x41 \<le> c \<and> c \<le> 0x5A) \<or> (0x61 \<le> c \<and> c \<le> 0x7A) \<or> (0x30 \<le> c \<and> c \<le> 0x39) \<or>
      c = 0x2E \<or> c = 0x5F \<or> c = 0x3A \<or> c = 0x2D)"

definition request_id_re :: re where
  "request_id_re = rep_re 1 128 (Cls request_id_char)"

definition validate_request_id :: "pstr \<Rightarrow> pstr res" where
  "validate_request_id v =
     (let n = py_strip v
      in if re_fullmatch request_id_re n = None then Inl (ValueError ''request_id'') else Inr n)"

section \<open>Lemmas\<close>

lemma isinstance_Cons: "isinstance e (c # cs) \<longleftrightarrow> c \<in> set (ex_bases e) \<or> isinstance e cs"
  by (simp add: isinstance_def)

lemma isinstance_Nil [simp]: "\<not> isinstance e []"
  by (simp add: isinstance_def)

lemma request_id_char_not_space: "request_id_char c \<Longrightarrow> \<not> py_isspace c"
  by (auto simp: request_id_char_def py_isspace_def py_spaces_def)

lemma strip_nonspace:
  assumes "list_all (\<lambda>c. \<not> py_isspace c) s"
  shows "py_strip s = s"
proof -
  have "dropWhile py_isspace u = u" if "list_all (\<lambda>c. \<not> py_isspace c) u" for u
    using that by (cases u) auto
  moreover have "list_all (\<lambda>c. \<not> py_isspace c) (rev s)"
    using assms by (simp add: list_all_iff)
  ultimately show ?thesis
    using assms by (simp add: py_strip_def py_lstrip_def rstrip_if_def)
qed

lemma validate_request_id_Inr:
  "validate_request_id v = Inr n \<longleftrightarrow>
     n = py_strip v \<and> 1 \<le> length n \<and> length n \<le> 128 \<and> list_all request_id_char n"
  using fullmatch_rep_Cls [of 1 128 request_id_char "py_strip v"]
  by (auto simp: validate_request_id_def request_id_re_def Let_def split: if_splits)

section \<open>Properties\<close>

text \<open>
  A failure is classified as transient, and so retried automatically, only if it carries no
  permanent marker and one of four facts holds: the explicit retryable marker; the adapter category
  \<^verbatim>\<open>transport\<close>; the category \<^verbatim>\<open>gateway\<close> with a retryable HTTP status or a 5xx business code; or,
  with no category the classifier knows, a network, connection or operating-system error that is
  not also a parameter, permission or lookup error.
\<close>

theorem transient_only_if:
  assumes "classify_task_failure e = TRANSIENT"
  shows "\<not> isinstance e [C_PermanentTaskFailure] \<and>
    (isinstance e [C_RetryableTaskFailure] \<or>
     ex_category e = PStr (asc ''transport'') \<or>
     (ex_category e = PStr (asc ''gateway'') \<and>
       (retryable_status (ex_http_status e) \<or>
        server_error_code (normalized_code (ex_sub_code e)) \<or>
        server_error_code (normalized_code (ex_error_code e)))) \<or>
     (isinstance e [C_TimeoutError, C_ConnectionError, C_OSError] \<and>
      \<not> isinstance e [C_ValueError, C_PermissionError, C_LookupError] \<and>
      (\<forall>c \<in> set permanent_categories. ex_category e \<noteq> PStr (asc c))))"
  using assms
  by (auto simp: classify_task_failure_def gateway_category_def Let_def
      split: if_splits pyval.splits)

definition os_error_example :: exn where
  "os_error_example = \<lparr>ex_type_name = asc ''TimeoutError'', ex_bases = [C_TimeoutError, C_OSError],
     ex_category = PNone, ex_http_status = PNone, ex_sub_code = PNone, ex_error_code = PNone,
     ex_remote_record_id = PNone, ex_external_error_code = PNone,
     ex_duplicate_entity_type = PNone, ex_text = []\<rparr>"

theorem transient_only_if_witness:
  "classify_task_failure os_error_example = TRANSIENT \<and>
   \<not> isinstance os_error_example [C_PermanentTaskFailure]"
proof -
  have t: "classify_task_failure os_error_example = TRANSIENT" by code_simp
  then show ?thesis using transient_only_if [OF t] by blast
qed

text \<open>
  A permission error is never retried on account of being an operating-system error: with no
  retryable marker and no string category, an exception whose bases are closed under Python's
  built-in hierarchy and include \<^verbatim>\<open>PermissionError\<close> (hence \<^verbatim>\<open>OSError\<close>) is permanent.
\<close>

theorem permission_error_permanent:
  assumes "builtin_bases_closed e" and "isinstance e [C_PermissionError]"
    and "\<not> isinstance e [C_RetryableTaskFailure]" and "\<not> is_str (ex_category e)"
  shows "isinstance e [C_OSError] \<and> classify_task_failure e = PERMANENT"
proof -
  have "\<forall>c. ex_category e \<noteq> PStr c" using assms(4) by auto
  then have "(case ex_category e of PStr c \<Rightarrow> f c | _ \<Rightarrow> x) = x" for f and x :: task_failure_category
    by (cases "ex_category e") auto
  with assms show ?thesis
    by (auto simp: classify_task_failure_def builtin_bases_closed_def isinstance_Cons Let_def
        split: pyval.splits)
qed

theorem permission_error_permanent_witness:
  "classify_task_failure (os_error_example\<lparr>ex_bases := [C_PermissionError, C_OSError]\<rparr>) = PERMANENT"
proof -
  let ?e = "os_error_example\<lparr>ex_bases := [C_PermissionError, C_OSError]\<rparr>"
  have "builtin_bases_closed ?e" "isinstance ?e [C_PermissionError]"
    "\<not> isinstance ?e [C_RetryableTaskFailure]" "\<not> is_str (ex_category ?e)"
    by (simp_all add: builtin_bases_closed_def isinstance_def os_error_example_def)
  from permission_error_permanent [OF this] show ?thesis by blast
qed

text \<open>
  A validated request identifier has 1 to 128 characters of \<^verbatim>\<open>[A-Za-z0-9._:-]\<close>, and validating it
  again returns it unchanged, so the identifier stored with an operation is the one looked up when
  the request is replayed.
\<close>

theorem validate_request_id_stable:
  assumes "validate_request_id v = Inr n"
  shows "validate_request_id n = Inr n \<and> 1 \<le> length n \<and> length n \<le> 128 \<and> list_all request_id_char n"
proof -
  from assms have n: "1 \<le> length n" "length n \<le> 128" "list_all request_id_char n"
    by (auto simp: validate_request_id_Inr)
  from n(3) have "py_strip n = n"
    by (intro strip_nonspace) (auto simp: list_all_iff request_id_char_not_space)
  with n show ?thesis by (simp add: validate_request_id_Inr)
qed

theorem validate_request_id_stable_witness:
  "validate_request_id (asc '' req-1 '') = Inr (asc ''req-1'') \<and>
   validate_request_id (asc ''req-1'') = Inr (asc ''req-1'')"
proof -
  have h: "validate_request_id (asc '' req-1 '') = Inr (asc ''req-1'')"
    unfolding validate_request_id_Inr by code_simp
  show ?thesis using h validate_request_id_stable [OF h] by blast
qed

text \<open>
  \<^verbatim>\<open>safe_audit_text\<close> cuts its input to \<^verbatim>\<open>max_length\<close> characters before it masks, and a mask can be
  longer than what it replaces: the result can exceed \<^verbatim>\<open>max_length\<close>. The callers store it in columns
  of exactly that width.
\<close>

theorem safe_audit_text_exceeds_limit:
  "\<exists>v n. length v \<le> n \<and> n < length (safe_audit_text v n)"
proof (intro exI conjI)
  show "length (asc ''a@b'') \<le> 3" by simp
  have "safe_audit_text (asc ''a@b'') 3 = w_masked_mail" by code_simp
  then show "3 < length (safe_audit_text (asc ''a@b'') 3)"
    by (simp add: w_masked_mail_def)
qed

end
