(* ===== verification/Masking.thy ===== *)
theory Masking
  imports Failures
begin

text \<open>
  \<^verbatim>\<open>app/console/masking.py\<close>: what the administration console shows of contact data by default.
  Characters are code points; \<open>star\<close> is the asterisk that replaces a hidden one.
\<close>

definition star :: cp where "star = 0x2A"

definition word_sep :: "cp \<Rightarrow> bool" where
  "word_sep c = (py_isspace c \<or> c = 0xFF1B \<or> c = 0x3B \<or> c = 0xFF0C \<or> c = 0x2C)"

definition han :: "cp \<Rightarrow> bool" where "han c = (0x4E00 \<le> c \<and> c \<le> 0x9FFF)"

definition latin :: "cp \<Rightarrow> bool" where
  "latin c = ((0x41 \<le> c \<and> c \<le> 0x5A) \<or> (0x61 \<le> c \<and> c \<le> 0x7A))"

definition labeled_name_re :: re where
  "labeled_name_re =
     Cat (Grp 1 (alts_re [lit_re w_contact_name, lit_re w_customer_contact, lit_re f_contact,
            lit_re w_name, lit_re w_customer_is, lit_re w_called]))
       (Cat (Star space_re) (Cat (opt_re colon_re) (Cat (Star space_re)
         (Grp 2 (Alt (rep_re 2 4 (Cls han))
            (Cat (Cls latin) (rep_re 1 39 (Cls (\<lambda>c. latin c \<or> c = 0x20 \<or> c = 0x2E \<or>
               c = 0x27 \<or> c = 0x2D)))))))))"

definition x_or_digit :: "cp \<Rightarrow> bool" where
  "x_or_digit c = (py_isdecimal c \<or> c = 0x58 \<or> c = 0x78)"

definition dec_re :: re where "dec_re = Cls py_isdecimal"

definition sensitive_re :: re where
  "sensitive_re =
     Alt (Cat (NotBehind py_isdecimal)
            (Cat (alts_re [Cat (rep_re 17 17 dec_re) (Cls x_or_digit), rep_re 16 19 dec_re,
                    rep_re 15 15 dec_re])
               (NotAhead py_isdecimal)))
         (Cat (alts_re [lit_re w_password, lit_re w_passphrase, lit_re w_verification_code,
                 ci_lit (asc ''password''), ci_lit (asc ''token'')])
            (Cat (Star space_re) (Cat (opt_re colon_re) (Cat (Star space_re)
               (plus_re (Cls (\<lambda>c. \<not> word_sep c)))))))"

definition mail_groups_re :: re where
  "mail_groups_re = Cat (Grp 1 mail_part_re) (Cat (chr_re 0x40) (Grp 2 mail_part_re))"

definition phone_groups_re :: re where
  "phone_groups_re = Cat (NotBehind py_isdecimal) (Cat (Grp 1 (Cat (opt_re (chr_re 0x2B))
     (Cat (Cls digit09) (Cat (rep_re 6 22 (Cls (\<lambda>c. digit09 c \<or> c = 0x20 \<or> c = 0x2D)))
       (Cls digit09))))) (NotAhead py_isdecimal))"

definition group_of :: "nat \<Rightarrow> (nat \<times> pstr) list \<Rightarrow> pstr" where
  "group_of n g = (case re_group n g of Some w \<Rightarrow> w | None \<Rightarrow> [])"

definition mask_phone :: "pstr \<Rightarrow> pstr" where
  "mask_phone v =
     (let d = filter py_isdecimal v
      in if length d \<le> 7 then replicate (length d) star
         else take 3 d @ replicate (length d - 7) star @ drop (length d - 4) d)"

definition mask_email :: "pstr \<Rightarrow> pstr" where
  "mask_email v =
     (case re_fullmatch mail_groups_re (py_strip v) of
        None \<Rightarrow> w_masked_mail
      | Some g \<Rightarrow> take 1 (group_of 1 g) @ replicate 3 star @ [0x40] @ group_of 2 g)"

definition mask_name :: "pstr \<Rightarrow> pstr" where
  "mask_name v =
     (let s = py_strip v
      in if length s \<le> 1 then [star]
         else if length s = 2 then take 1 s @ [star]
         else take 1 s @ replicate (length s - 2) star @ drop (length s - 1) s)"

definition replace_email :: "(nat \<times> pstr) list \<Rightarrow> pstr" where
  "replace_email g = mask_email (group_of 0 g)"

definition replace_phone :: "(nat \<times> pstr) list \<Rightarrow> pstr" where
  "replace_phone g = mask_phone (group_of 1 g)"

definition replace_labeled_name :: "(nat \<times> pstr) list \<Rightarrow> pstr" where
  "replace_labeled_name g = group_of 1 g @ mask_name (group_of 2 g)"

definition mask_text :: "pstr option \<Rightarrow> pstr option" where
  "mask_text v =
     (case v of
        None \<Rightarrow> None
      | Some t \<Rightarrow>
          (let m0 = re_sub sensitive_re (\<lambda>_. w_masked) t;
               m1 = re_sub mail_groups_re replace_email m0;
               m2 = re_sub labeled_name_re replace_labeled_name m1
           in Some (re_sub phone_groups_re replace_phone m2)))"

definition phone_fields :: "pstr list" where
  "phone_fields = [f_mobile, w_mobile_number, f_phone, asc ''phone'', asc ''mobile'']"

definition email_fields :: "pstr list" where
  "email_fields = [f_email, asc ''email'']"

definition name_fields :: "pstr list" where
  "name_fields = [f_contact, w_name, asc ''name'', asc ''contact'']"

definition mask_field :: "pstr \<Rightarrow> pstr option \<Rightarrow> pstr option" where
  "mask_field field_name v =
     (case v of
        None \<Rightarrow> None
      | Some t \<Rightarrow>
          if field_name \<in> set phone_fields then Some (mask_phone t)
          else if field_name \<in> set email_fields then Some (mask_email t)
          else if field_name \<in> set name_fields then Some (mask_name t)
          else mask_text (Some t))"

section \<open>What the masks reveal\<close>

lemma star_not_decimal [simp]: "\<not> py_isdecimal star"
  by (simp add: py_isdecimal_def py_zero_digits_def star_def)

lemma filter_decimal_idem: "list_all py_isdecimal d \<Longrightarrow> filter py_isdecimal d = d"
  by (simp add: list_all_iff)

lemma mask_phone_digits:
  fixes v
  defines "d \<equiv> filter py_isdecimal v"
  shows "filter py_isdecimal (mask_phone v) =
    (if length d \<le> 7 then [] else take 3 d @ drop (length d - 4) d)"
proof -
  have all: "list_all py_isdecimal d" by (simp add: d_def list_all_iff)
  have t: "list_all py_isdecimal (take 3 d)" "list_all py_isdecimal (drop (length d - 4) d)"
    using all by (auto simp: list_all_iff dest: in_set_takeD in_set_dropD)
  show ?thesis
    using filter_decimal_idem [OF t(1)] filter_decimal_idem [OF t(2)]
    by (simp add: mask_phone_def Let_def d_def [symmetric])
qed

lemma mask_phone_length: "length (mask_phone v) = length (filter py_isdecimal v)"
  by (simp add: mask_phone_def Let_def)

text \<open>
  The masked form of a telephone number has one character per digit of the number and shows at
  most seven of its digits, the first three and the last four; a number of at most seven digits
  shows none.
\<close>

theorem mask_phone_reveals:
  "length (mask_phone v) = length (filter py_isdecimal v) \<and>
   length (filter py_isdecimal (mask_phone v)) \<le> 7 \<and>
   (length (filter py_isdecimal v) \<le> 7 \<longrightarrow> filter py_isdecimal (mask_phone v) = [])"
  using mask_phone_digits [of v] mask_phone_length [of v] by auto

theorem mask_phone_reveals_witness:
  "filter py_isdecimal (mask_phone (asc ''555 1234'')) = [] \<and>
   mask_phone (asc ''13812345678'') = asc ''138****5678''"
proof -
  have s: "length (filter py_isdecimal (asc ''555 1234'')) \<le> 7"
    by code_simp
  have "filter py_isdecimal (mask_phone (asc ''555 1234'')) = []"
    using mask_phone_reveals [of "asc ''555 1234''"] s by blast
  moreover have "mask_phone (asc ''13812345678'') = asc ''138****5678''"
    by code_simp
  ultimately show ?thesis by blast
qed

definition mail_char :: "cp \<Rightarrow> bool" where
  "mail_char c = (\<not> py_isspace c \<and> c \<noteq> 0x40)"

lemma rmatch_mail_groups:
  "(pv', [], g') \<in> set (rmatch mail_groups_re ([], s, [])) \<longleftrightarrow>
     (\<exists>l d. s = l @ 0x40 # d \<and> l \<noteq> [] \<and> d \<noteq> [] \<and> list_all mail_char l \<and> list_all mail_char d \<and>
        pv' = rev s \<and> g' = [(2, d), (1, l)])"
  (is "?L \<longleftrightarrow> ?R")
proof -
  have part: "mail_part_re = plus_re (Cls mail_char)"
    by (simp add: mail_part_re_def mail_char_def [abs_def])
  show ?thesis
  proof
    assume ?L
    then obtain pm rm gm where
      a: "(pm, rm, gm) \<in> set (rmatch mail_part_re ([], s, []))" and
      b: "(pv', [], g') \<in> set (rmatch (Cat (chr_re 0x40) (Grp 2 mail_part_re))
            (pm, rm, (1, take (length s - length rm) s) # gm))"
      by (auto simp: mail_groups_re_def)
    from a obtain l where l: "s = l @ rm" "pm = rev l" "l \<noteq> []" "list_all mail_char l" "gm = []"
      by (auto simp: part rmatch_plus_Cls)
    from b obtain d where d: "rm = 0x40 # d"
      by (cases rm) (auto simp: chr_re_def split: if_splits)
    with b l have "d \<noteq> []" "list_all mail_char d" "pv' = rev s" "g' = [(2, d), (1, l)]"
      by (auto simp: chr_re_def part rmatch_plus_Cls)
    with l d show ?R by blast
  next
    assume ?R
    then obtain l d where s: "s = l @ 0x40 # d" "l \<noteq> []" "d \<noteq> []"
      "list_all mail_char l" "list_all mail_char d" "pv' = rev s" "g' = [(2, d), (1, l)]"
      by blast
    have a: "(rev l, 0x40 # d, []) \<in> set (rmatch mail_part_re ([], s, []))"
      using s by (auto simp: part rmatch_plus_Cls)
    have b: "(rev s, [], [(1, l)]) \<in> set (rmatch mail_part_re (0x40 # rev l, d, [(1, l)]))"
      using s by (auto simp: part rmatch_plus_Cls)
    have "(rev s, [], [(2, d), (1, l)]) \<in>
        set (rmatch (Cat (chr_re 0x40) (Grp 2 mail_part_re)) (rev l, 0x40 # d, [(1, l)]))"
      using b by (force simp: chr_re_def)
    with a s show ?L by (force simp: mail_groups_re_def)
  qed
qed

lemma mail_split_unique:
  assumes "l @ 0x40 # d = l' @ 0x40 # d'" and "list_all mail_char l" and "list_all mail_char l'"
  shows "l = l' \<and> d = d'"
proof -
  have "takeWhile mail_char (l @ 0x40 # d) = l" if "list_all mail_char l" for l d
    using that by (simp add: list_all_iff mail_char_def)
  with assms have "l = l'" by metis
  with assms show ?thesis by simp
qed

lemma mask_email_Some:
  assumes "py_strip v = l @ 0x40 # d" "l \<noteq> []" "d \<noteq> []" "list_all mail_char l" "list_all mail_char d"
  shows "mask_email v = take 1 l @ replicate 3 star @ [0x40] @ d"
proof -
  let ?ms = "rmatch mail_groups_re ([], py_strip v, [])"
  have "(rev (py_strip v), [], [(2, d), (1, l)]) \<in> set ?ms"
    unfolding rmatch_mail_groups using assms by blast
  then have "find (\<lambda>(_, r, _). r = []) ?ms \<noteq> None"
    unfolding find_None_iff_all by force
  then obtain pv' r' g' where f: "find (\<lambda>(_, r, _). r = []) ?ms = Some (pv', r', g')" by auto
  then have "r' = []" and "(pv', [], g') \<in> set ?ms"
    by (auto dest: find_SomeD)
  then obtain l' d' where g: "g' = [(2, d'), (1, l')]" and "py_strip v = l' @ 0x40 # d'"
    and "list_all mail_char l'"
    unfolding rmatch_mail_groups by blast
  with assms mail_split_unique [of l' d' l d] have "g' = [(2, d), (1, l)]" by simp
  with f show ?thesis
    by (simp add: mask_email_def re_fullmatch_def group_of_def re_group_def)
qed

text \<open>
  A masked e-mail address shows the first character of the local part and the domain, nothing
  else of the local part; a text that is not one address (after stripping, exactly one \<^verbatim>\<open>@\<close> between
  two non-empty parts without white space) is replaced by the fixed mask as a whole.
\<close>

theorem mask_email_reveals:
  "if \<exists>l d. py_strip v = l @ 0x40 # d \<and> l \<noteq> [] \<and> d \<noteq> [] \<and> list_all mail_char l \<and> list_all mail_char d
   then \<exists>l d. py_strip v = l @ 0x40 # d \<and> list_all mail_char l \<and>
          mask_email v = hd l # replicate 3 star @ 0x40 # d
   else mask_email v = w_masked_mail"
proof (cases "\<exists>l d. py_strip v = l @ 0x40 # d \<and> l \<noteq> [] \<and> d \<noteq> [] \<and> list_all mail_char l \<and>
    list_all mail_char d")
  case True
  then obtain l d where ld: "py_strip v = l @ 0x40 # d" "l \<noteq> []" "d \<noteq> []"
    "list_all mail_char l" "list_all mail_char d" by blast
  have "take 1 l = [hd l]" using ld(2) by (cases l) auto
  with mask_email_Some [OF ld] ld True show ?thesis by auto
next
  case False
  then have "re_fullmatch mail_groups_re (py_strip v) = None"
    unfolding re_fullmatch_None_iff rmatch_mail_groups by blast
  then have "mask_email v = w_masked_mail" by (simp add: mask_email_def)
  then show ?thesis unfolding if_not_P [OF False] .
qed

text \<open>
  A masked contact name has as many characters as the stripped name (at least one) and shows at
  most its first and last character; a name of two characters shows only the first and a single
  character is hidden.
\<close>

theorem mask_name_reveals:
  "length (mask_name v) = max 1 (length (py_strip v)) \<and>
   (\<forall>i < length (mask_name v). mask_name v ! i = star \<or>
      (i = 0 \<and> 2 \<le> length (py_strip v)) \<or>
      (i = length (py_strip v) - 1 \<and> 3 \<le> length (py_strip v)))"
  by (auto simp: mask_name_def Let_def nth_append nth_Cons')

theorem mask_name_reveals_witness:
  "mask_name (asc '' Alice '') = asc ''A***e'' \<and> mask_name (asc '' Alice '') ! 2 = star"
proof -
  have m: "mask_name (asc '' Alice '') = asc ''A***e''" by code_simp
  have s: "length (py_strip (asc '' Alice '')) = 5" by code_simp
  have "mask_name (asc '' Alice '') ! 2 = star"
    using mask_name_reveals [of "asc '' Alice ''", unfolded m s, THEN conjunct2, rule_format, of 2]
      m by simp
  with m show ?thesis by blast
qed

end
