(* ===== verification/Db.thy ===== *)
theory Db
  imports Py_Value
begin

text \<open>
  The relational state shared by the services: one record type per mapped class of
  \<^verbatim>\<open>app/messaging/models.py\<close> and \<^verbatim>\<open>app/leads/models.py\<close> with the columns the modelled services
  read or write, in the class's order (\<open>option\<close> for nullable columns), and the database as the record of its tables. Closed vocabularies (status
  columns, event types, codes) are HOL strings, free text and identifiers are \<^typ>\<open>pstr\<close>. Generated
  primary keys (UUIDs, claim tokens) are arguments of the operations that create them;
  autoincrement keys come from \<open>next_id\<close>.
\<close>

section \<open>Messaging\<close>

record sales_authorization =
  sa_wecom_user_id :: pstr
  sa_display_name :: "pstr option"
  sa_department_id :: "pstr option"
  sa_crm_user_id :: "pstr option"
  sa_is_authorized :: bool
  sa_is_active :: bool
  sa_is_administrator :: bool
  sa_can_submit_other_sales_leads :: bool
  sa_next_message_sequence :: int
  sa_created_by :: "pstr option"
  sa_updated_by :: "pstr option"
  sa_created_at :: time
  sa_updated_at :: time

record incoming_message =
  im_message_id :: pstr
  im_sales_user_id :: pstr
  im_sequence :: int
  im_raw_payload :: fields
  im_normalized_text :: "pstr option"
  im_chat_id :: "pstr option"
  im_chat_type :: "pstr option"
  im_requires_media_enrichment :: bool
  im_scrubbed_at :: "time option"
  im_retention_policy_version :: "pstr option"
  im_received_at :: time

record outbox_event =
  ob_id :: nat
  ob_message_id :: pstr
  ob_sales_user_id :: pstr
  ob_sequence :: int
  ob_event_type :: string
  ob_status :: string
  ob_attempts :: int
  ob_processing_started_at :: "time option"
  ob_failure_category :: "string option"
  ob_failure_summary :: "pstr option"
  ob_failed_at :: "time option"
  ob_created_at :: time

record notification_record =
  nr_notification_key :: pstr
  nr_sales_user_id :: pstr
  nr_source_message_id :: pstr
  nr_notification_type :: string
  nr_content :: "pstr option"
  nr_payload :: "fields option"
  nr_status :: string
  nr_attempts :: int
  nr_processing_started_at :: "time option"
  nr_processing_lease_expires_at :: "time option"
  nr_processing_claim_token :: "pstr option"
  nr_provider_message_id :: "pstr option"
  nr_sent_at :: "time option"
  nr_scrubbed_at :: "time option"
  nr_retention_policy_version :: "pstr option"
  nr_created_at :: time

record business_audit_event =
  ba_id :: nat
  ba_message_id :: pstr
  ba_sales_user_id :: pstr
  ba_event_type :: string
  ba_details :: fields
  ba_created_at :: time

record audit_mirror_outbox =
  am_id :: nat
  am_audit_event_id :: nat
  am_mirror_key :: pstr
  am_status :: string
  am_attempts :: int
  am_processing_started_at :: "time option"
  am_dispatch_lease_expires_at :: "time option"
  am_claim_token :: "pstr option"
  am_failure_category :: "string option"
  am_failure_code :: "pstr option"
  am_created_at :: time
  am_updated_at :: time

record wecom_action =
  wa_id :: pstr
  wa_task_id :: pstr
  wa_issuance_key :: "pstr option"
  wa_action_type :: string
  wa_bound_actor :: pstr
  wa_target_type :: pstr
  wa_target_id :: pstr
  wa_expected_action_key :: pstr
  wa_status :: string
  wa_expires_at :: time
  wa_claimed_at :: "time option"
  wa_processing_lease_expires_at :: "time option"
  wa_processed_at :: "time option"
  wa_result_code :: "pstr option"
  wa_result_summary :: "pstr option"
  wa_context :: fields
  wa_created_at :: time

record wecom_action_outbox =
  wo_id :: nat
  wo_action_id :: pstr
  wo_status :: string
  wo_attempts :: int
  wo_dispatch_claimed_at :: "time option"
  wo_dispatch_lease_expires_at :: "time option"
  wo_processing_started_at :: "time option"
  wo_processing_lease_expires_at :: "time option"
  wo_claim_token :: "pstr option"
  wo_domain_started_at :: "time option"
  wo_domain_operation_key :: "pstr option"
  wo_domain_operation_payload :: "fields option"
  wo_remote_effect_status :: "string option"
  wo_remote_effect_at :: "time option"
  wo_created_at :: time

record wecom_callback_delivery =
  wd_id :: nat
  wd_action_id :: "pstr option"
  wd_provider_msgid :: pstr
  wd_req_id :: pstr
  wd_actor_user_id :: pstr
  wd_event_key :: pstr
  wd_task_id :: pstr
  wd_processing_status :: string
  wd_result_code :: "pstr option"
  wd_transport_stage :: "string option"
  wd_transport_status :: "string option"
  wd_transport_failure_code :: "pstr option"
  wd_transport_failure_summary :: "pstr option"
  wd_transport_failed_at :: "time option"
  wd_received_at :: time
  wd_processed_at :: "time option"

record message_attachment =
  at_id :: pstr
  at_message_id :: pstr
  at_media_kind :: string
  at_storage_key :: "pstr option"
  at_storage_provider :: "pstr option"
  at_storage_encryption_mode :: "pstr option"
  at_storage_etag :: "pstr option"
  at_processing_status :: string
  at_retention_expires_at :: "time option"
  at_retention_policy_version :: "pstr option"
  at_deletion_status :: string
  at_deleted_at :: "time option"
  at_deletion_reason :: "string option"
  at_cleanup_operation_id :: "pstr option"

record media_processing_task =
  mp_attachment_id :: pstr
  mp_task_type :: string
  mp_status :: string

record storage_ingest_operation =
  si_id :: pstr
  si_attachment_id :: pstr
  si_storage_key :: "pstr option"
  si_content_sha256 :: "pstr option"
  si_content_type :: "pstr option"
  si_status :: string
  si_remote_outcome :: "string option"
  si_remote_started_at :: "time option"
  si_claim_token :: "pstr option"
  si_generation :: int
  si_attempt_count :: int
  si_processing_started_at :: "time option"
  si_lease_expires_at :: "time option"
  si_failure_summary :: "string option"
  si_updated_at :: time
  si_completed_at :: "time option"

record storage_cleanup_operation =
  so_id :: pstr
  so_operation_key :: pstr
  so_data_class :: string
  so_target_type :: string
  so_target_id :: pstr
  so_storage_provider :: "pstr option"
  so_storage_key :: "pstr option"
  so_storage_key_digest :: "pstr option"
  so_policy_version :: pstr
  so_retention_cutoff :: time
  so_status :: string
  so_claim_token :: "pstr option"
  so_generation :: int
  so_processing_started_at :: "time option"
  so_lease_expires_at :: "time option"
  so_remote_outcome :: "string option"
  so_remote_started_at :: "time option"
  so_attempt_count :: int
  so_failure_kind :: "string option"
  so_failure_summary :: "pstr option"
  so_created_at :: time
  so_updated_at :: time
  so_completed_at :: "time option"

section \<open>Leads\<close>

record lead =
  ld_id :: pstr
  ld_source_message_id :: "pstr option"
  ld_source_segment_index :: int
  ld_original_capturing_sales_user_id :: pstr
  ld_smart_table_owner_user_id :: pstr
  ld_smart_table_record_id :: "pstr option"
  ld_lifecycle_state :: string
  ld_field_values :: fields
  ld_enrichment_values :: "(pstr \<times> pstr) list"
  ld_standard_company_name :: "pstr option"
  ld_company_region :: string
  ld_company_verification_status :: string
  ld_tyc_customer_id :: "pstr option"
  ld_company_confirmed_by_user :: bool
  ld_created_at :: time
  ld_updated_at :: time

record lead_field_provenance =
  lp_id :: nat
  lp_lead_id :: pstr
  lp_source_message_id :: "pstr option"
  lp_field_name :: pstr
  lp_value :: pstr
  lp_last_ai_synced_value :: "pstr option"
  lp_is_system_default :: bool
  lp_is_user_modified :: bool
  lp_is_user_confirmed :: bool

record sales_lead_context =
  sc_sales_user_id :: pstr
  sc_lead_id :: pstr
  sc_last_message_received_at :: time
  sc_last_message_sequence :: "int option"

record lead_message_resolution =
  lr_message_id :: pstr
  lr_segment_index :: int
  lr_lead_id :: "pstr option"
  lr_status :: string

record lead_progress_session =
  ps_id :: pstr
  ps_sales_user_id :: pstr
  ps_status :: string
  ps_started_at :: time
  ps_last_activity_at :: time
  ps_next_report_at :: time
  ps_closed_at :: "time option"
  ps_close_reason :: "string option"
  ps_created_at :: time

record lead_progress_message =
  pm_message_id :: pstr
  pm_progress_session_id :: "pstr option"
  pm_status :: string
  pm_received_at :: time
  pm_created_at :: time

record smart_table_sync =
  ss_lead_id :: pstr
  ss_source_message_id :: pstr
  ss_source_segment_index :: int
  ss_smart_table_record_id :: "pstr option"
  ss_status :: string

record crm_sync_record =
  cs_id :: nat
  cs_lead_id :: pstr
  cs_operation :: string
  cs_generation :: "int option"
  cs_request_message_id :: pstr
  cs_crm_lead_id :: "pstr option"
  cs_crm_lead_owner_user_id :: "pstr option"
  cs_status :: string
  cs_attempts :: int
  cs_failure_category :: "string option"
  cs_supersedes_sync_record_id :: "nat option"
  cs_smart_table_record_id :: pstr
  cs_idempotency_key :: pstr
  cs_canonical_payload :: fields
  cs_snapshot_hash :: pstr
  cs_submitting_sales_user_id :: pstr
  cs_submitting_crm_user_id :: "pstr option"
  cs_processing_started_at :: "time option"
  cs_processing_lease_expires_at :: "time option"
  cs_next_retry_at :: "time option"
  cs_failure_kind :: "pstr option"
  cs_failure_code :: "pstr option"
  cs_failure_summary :: "pstr option"
  cs_failed_at :: "time option"
  cs_response_summary :: "pstr option"
  cs_created_at :: time
  cs_completed_at :: "time option"

record message_retry_attempt =
  ra_message_id :: pstr
  ra_status :: string

record ai_execution_record =
  ax_message_id :: "pstr option"
  ax_status :: string

record lead_discard_request =
  dr_id :: nat
  dr_lead_id :: pstr
  dr_operator_user_id :: pstr
  dr_operator_role :: string
  dr_operation_id :: "pstr option"
  dr_reason :: pstr
  dr_status :: string
  dr_created_at :: time
  dr_completed_at :: "time option"

record crm_company_identity =
  ci_standard_company_name :: pstr
  ci_crm_lead_id :: "pstr option"
  ci_crm_lead_owner_user_id :: "pstr option"
  ci_state :: string
  ci_creating_lead_id :: "pstr option"
  ci_creating_sync_record_id :: "nat option"

record admin_lead_creation_operation =
  ac_id :: pstr
  ac_lead_id :: pstr
  ac_smart_table_record_id :: "pstr option"
  ac_request_id :: pstr
  ac_operator_subject :: pstr
  ac_operator_role :: string
  ac_auth_source :: pstr
  ac_reason :: pstr
  ac_original_capturing_sales_user_id :: pstr
  ac_smart_table_owner_user_id :: pstr
  ac_remote_update_state :: string
  ac_final_status :: string
  ac_failure_code :: "string option"
  ac_failure_summary :: "pstr option"
  ac_created_at :: time
  ac_updated_at :: time

record owner_transfer_operation =
  tr_id :: pstr
  tr_lead_id :: pstr
  tr_smart_table_record_id :: pstr
  tr_request_id :: pstr
  tr_operator_subject :: pstr
  tr_operator_role :: string
  tr_auth_source :: pstr
  tr_reason :: pstr
  tr_old_owner_user_id :: pstr
  tr_new_owner_user_id :: pstr
  tr_original_capturing_sales_user_id :: pstr
  tr_crm_lead_owner_user_id :: "pstr option"
  tr_remote_update_state :: string
  tr_permission_verification_state :: string
  tr_final_status :: string
  tr_failure_code :: "string option"
  tr_failure_summary :: "pstr option"
  tr_created_at :: time
  tr_updated_at :: time

section \<open>The database\<close>

record user_confirmation_event =
  uc_id :: nat
  uc_lead_id :: pstr
  uc_field_name :: pstr
  uc_confirmed_value :: pstr
  uc_operator_sales_user_id :: pstr
  uc_operation_id :: "pstr option"
  uc_confirmation_source :: string
  uc_confirmed_at :: time

record db =
  sales_authorizations :: "sales_authorization list"
  incoming_messages :: "incoming_message list"
  outbox_events :: "outbox_event list"
  notification_records :: "notification_record list"
  business_audit_events :: "business_audit_event list"
  audit_mirrors :: "audit_mirror_outbox list"
  message_attachments :: "message_attachment list"
  media_processing_tasks :: "media_processing_task list"
  storage_ingest_operations :: "storage_ingest_operation list"
  storage_cleanup_operations :: "storage_cleanup_operation list"
  leads :: "lead list"
  lead_field_provenances :: "lead_field_provenance list"
  sales_lead_contexts :: "sales_lead_context list"
  lead_message_resolutions :: "lead_message_resolution list"
  lead_progress_sessions :: "lead_progress_session list"
  lead_progress_messages :: "lead_progress_message list"
  smart_table_syncs :: "smart_table_sync list"
  crm_sync_records :: "crm_sync_record list"
  message_retry_attempts :: "message_retry_attempt list"
  ai_execution_records :: "ai_execution_record list"
  lead_discard_requests :: "lead_discard_request list"
  crm_company_identities :: "crm_company_identity list"
  admin_lead_creation_operations :: "admin_lead_creation_operation list"
  owner_transfer_operations :: "owner_transfer_operation list"
  wecom_actions :: "wecom_action list"
  wecom_action_outboxes :: "wecom_action_outbox list"
  wecom_callback_deliveries :: "wecom_callback_delivery list"
  user_confirmation_events :: "user_confirmation_event list"

definition empty_db :: db where
  "empty_db = \<lparr>sales_authorizations = [], incoming_messages = [], outbox_events = [],
     notification_records = [], business_audit_events = [], audit_mirrors = [],
     message_attachments = [], media_processing_tasks = [], storage_ingest_operations = [],
     storage_cleanup_operations = [], leads = [], lead_field_provenances = [],
     sales_lead_contexts = [], lead_message_resolutions = [], lead_progress_sessions = [],
     lead_progress_messages = [], smart_table_syncs = [], crm_sync_records = [],
     message_retry_attempts = [], ai_execution_records = [], lead_discard_requests = [],
     crm_company_identities = [], admin_lead_creation_operations = [],
     owner_transfer_operations = [], wecom_actions = [], wecom_action_outboxes = [],
     wecom_callback_deliveries = [], user_confirmation_events = []\<rparr>"

definition next_id :: "('r \<Rightarrow> nat) \<Rightarrow> 'r list \<Rightarrow> nat" where
  "next_id key t = Suc (foldr (\<lambda>r n. max (key r) n) t 0)"

abbreviation get_actor :: "db \<Rightarrow> pstr \<Rightarrow> sales_authorization option" where
  "get_actor d u \<equiv> tget sa_wecom_user_id u (sales_authorizations d)"

abbreviation get_message :: "db \<Rightarrow> pstr \<Rightarrow> incoming_message option" where
  "get_message d m \<equiv> tget im_message_id m (incoming_messages d)"

abbreviation get_notice :: "db \<Rightarrow> pstr \<Rightarrow> notification_record option" where
  "get_notice d k \<equiv> tget nr_notification_key k (notification_records d)"

abbreviation get_lead :: "db \<Rightarrow> pstr \<Rightarrow> lead option" where
  "get_lead d l \<equiv> tget ld_id l (leads d)"

abbreviation upd_lead :: "pstr \<Rightarrow> (lead \<Rightarrow> lead) \<Rightarrow> db \<Rightarrow> db" where
  "upd_lead l f d \<equiv> d\<lparr>leads := tupd ld_id l f (leads d)\<rparr>"

abbreviation upd_notice :: "pstr \<Rightarrow> (notification_record \<Rightarrow> notification_record) \<Rightarrow> db \<Rightarrow> db" where
  "upd_notice k f d \<equiv> d\<lparr>notification_records := tupd nr_notification_key k f (notification_records d)\<rparr>"

text \<open>A new row of the notification queue, with the column defaults.\<close>

definition blank_notice :: "pstr \<Rightarrow> pstr \<Rightarrow> pstr \<Rightarrow> string \<Rightarrow> time \<Rightarrow> notification_record" where
  "blank_notice key u source type now =
     \<lparr>nr_notification_key = key, nr_sales_user_id = u, nr_source_message_id = source,
      nr_notification_type = type, nr_content = None, nr_payload = None, nr_status = ''pending'',
      nr_attempts = 0, nr_processing_started_at = None, nr_processing_lease_expires_at = None,
      nr_processing_claim_token = None, nr_provider_message_id = None, nr_sent_at = None,
      nr_scrubbed_at = None, nr_retention_policy_version = None, nr_created_at = now\<rparr>"

section \<open>The audit trail\<close>

text \<open>
  Inserting a \<^verbatim>\<open>BusinessAuditEvent\<close> also queues its mirror task: the \<^verbatim>\<open>after_flush\<close> listener
  \<^verbatim>\<open>_enqueue_audit_mirror_outbox\<close> adds one \<^verbatim>\<open>AuditMirrorOutbox\<close> row per new event, keyed
  \<^verbatim>\<open>audit:<id>\<close>. Every service records an event only if none with the same message and type exists.
\<close>

definition audit_exists :: "db \<Rightarrow> pstr \<Rightarrow> string \<Rightarrow> bool" where
  "audit_exists d m t =
     list_ex (\<lambda>a. ba_message_id a = m \<and> ba_event_type a = t) (business_audit_events d)"

definition enqueue_audit_mirror :: "nat \<Rightarrow> time \<Rightarrow> db \<Rightarrow> db" where
  "enqueue_audit_mirror i now d = d\<lparr>audit_mirrors := tadd
     \<lparr>am_id = next_id am_id (audit_mirrors d), am_audit_event_id = i,
      am_mirror_key = asc ''audit:'' @ digits_of i, am_status = ''pending'', am_attempts = 0,
      am_processing_started_at = None, am_dispatch_lease_expires_at = None, am_claim_token = None,
      am_failure_category = None, am_failure_code = None, am_created_at = now, am_updated_at = now\<rparr>
     (audit_mirrors d)\<rparr>"

definition add_audit_event :: "pstr \<Rightarrow> pstr \<Rightarrow> string \<Rightarrow> fields \<Rightarrow> time \<Rightarrow> db \<Rightarrow> db" where
  "add_audit_event m u t details now d =
     (let i = next_id ba_id (business_audit_events d);
          ev = \<lparr>ba_id = i, ba_message_id = m, ba_sales_user_id = u, ba_event_type = t,
                ba_details = details, ba_created_at = now\<rparr>
      in enqueue_audit_mirror i now (d\<lparr>business_audit_events := tadd ev (business_audit_events d)\<rparr>))"

definition audit_once :: "pstr \<Rightarrow> pstr \<Rightarrow> string \<Rightarrow> fields \<Rightarrow> time \<Rightarrow> db \<Rightarrow> db" where
  "audit_once m u t details now d =
     (if audit_exists d m t then d else add_audit_event m u t details now d)"

lemma next_id_fresh: "r \<in> set t \<Longrightarrow> key r < next_id key t"
proof -
  have "r \<in> set t \<Longrightarrow> key r \<le> foldr (\<lambda>r n. max (key r) n) t 0"
    by (induction t) (auto simp: max.coboundedI2 le_max_iff_disj)
  then show "r \<in> set t \<Longrightarrow> key r < next_id key t"
    by (simp add: next_id_def less_Suc_eq_le)
qed

definition audit_keys :: "db \<Rightarrow> (pstr \<times> string) list" where
  "audit_keys d = map (\<lambda>a. (ba_message_id a, ba_event_type a)) (business_audit_events d)"

lemma audit_exists_iff: "audit_exists d m t \<longleftrightarrow> (m, t) \<in> set (audit_keys d)"
  by (force simp: audit_exists_def audit_keys_def list_ex_iff)

lemma audit_keys_add [simp]: "audit_keys (add_audit_event m u t x now d) = audit_keys d @ [(m, t)]"
  by (simp add: audit_keys_def add_audit_event_def enqueue_audit_mirror_def Let_def tadd_def)

lemma audit_keys_once:
  "audit_keys (audit_once m u t x now d) =
     (if (m, t) \<in> set (audit_keys d) then audit_keys d else audit_keys d @ [(m, t)])"
  by (simp add: audit_once_def audit_exists_iff)

lemma add_audit_event_frame [simp]:
  "sales_authorizations (add_audit_event m u t x now d) = sales_authorizations d"
  "incoming_messages (add_audit_event m u t x now d) = incoming_messages d"
  "outbox_events (add_audit_event m u t x now d) = outbox_events d"
  "notification_records (add_audit_event m u t x now d) = notification_records d"
  "message_attachments (add_audit_event m u t x now d) = message_attachments d"
  "media_processing_tasks (add_audit_event m u t x now d) = media_processing_tasks d"
  "storage_ingest_operations (add_audit_event m u t x now d) = storage_ingest_operations d"
  "storage_cleanup_operations (add_audit_event m u t x now d) = storage_cleanup_operations d"
  "leads (add_audit_event m u t x now d) = leads d"
  "lead_field_provenances (add_audit_event m u t x now d) = lead_field_provenances d"
  "sales_lead_contexts (add_audit_event m u t x now d) = sales_lead_contexts d"
  "lead_message_resolutions (add_audit_event m u t x now d) = lead_message_resolutions d"
  "lead_progress_sessions (add_audit_event m u t x now d) = lead_progress_sessions d"
  "lead_progress_messages (add_audit_event m u t x now d) = lead_progress_messages d"
  "smart_table_syncs (add_audit_event m u t x now d) = smart_table_syncs d"
  "crm_sync_records (add_audit_event m u t x now d) = crm_sync_records d"
  "message_retry_attempts (add_audit_event m u t x now d) = message_retry_attempts d"
  "ai_execution_records (add_audit_event m u t x now d) = ai_execution_records d"
  "lead_discard_requests (add_audit_event m u t x now d) = lead_discard_requests d"
  "crm_company_identities (add_audit_event m u t x now d) = crm_company_identities d"
  "admin_lead_creation_operations (add_audit_event m u t x now d) = admin_lead_creation_operations d"
  "owner_transfer_operations (add_audit_event m u t x now d) = owner_transfer_operations d"
  "wecom_actions (add_audit_event m u t x now d) = wecom_actions d"
  "wecom_action_outboxes (add_audit_event m u t x now d) = wecom_action_outboxes d"
  "wecom_callback_deliveries (add_audit_event m u t x now d) = wecom_callback_deliveries d"
  "user_confirmation_events (add_audit_event m u t x now d) = user_confirmation_events d"
  by (simp_all add: add_audit_event_def enqueue_audit_mirror_def Let_def)

lemma audit_once_frame [simp]:
  "sales_authorizations (audit_once m u t x now d) = sales_authorizations d"
  "incoming_messages (audit_once m u t x now d) = incoming_messages d"
  "outbox_events (audit_once m u t x now d) = outbox_events d"
  "notification_records (audit_once m u t x now d) = notification_records d"
  "message_attachments (audit_once m u t x now d) = message_attachments d"
  "media_processing_tasks (audit_once m u t x now d) = media_processing_tasks d"
  "storage_ingest_operations (audit_once m u t x now d) = storage_ingest_operations d"
  "storage_cleanup_operations (audit_once m u t x now d) = storage_cleanup_operations d"
  "leads (audit_once m u t x now d) = leads d"
  "lead_field_provenances (audit_once m u t x now d) = lead_field_provenances d"
  "sales_lead_contexts (audit_once m u t x now d) = sales_lead_contexts d"
  "lead_message_resolutions (audit_once m u t x now d) = lead_message_resolutions d"
  "lead_progress_sessions (audit_once m u t x now d) = lead_progress_sessions d"
  "lead_progress_messages (audit_once m u t x now d) = lead_progress_messages d"
  "smart_table_syncs (audit_once m u t x now d) = smart_table_syncs d"
  "crm_sync_records (audit_once m u t x now d) = crm_sync_records d"
  "message_retry_attempts (audit_once m u t x now d) = message_retry_attempts d"
  "ai_execution_records (audit_once m u t x now d) = ai_execution_records d"
  "lead_discard_requests (audit_once m u t x now d) = lead_discard_requests d"
  "crm_company_identities (audit_once m u t x now d) = crm_company_identities d"
  "admin_lead_creation_operations (audit_once m u t x now d) = admin_lead_creation_operations d"
  "owner_transfer_operations (audit_once m u t x now d) = owner_transfer_operations d"
  "wecom_actions (audit_once m u t x now d) = wecom_actions d"
  "wecom_action_outboxes (audit_once m u t x now d) = wecom_action_outboxes d"
  "wecom_callback_deliveries (audit_once m u t x now d) = wecom_callback_deliveries d"
  "user_confirmation_events (audit_once m u t x now d) = user_confirmation_events d"
  by (simp_all add: audit_once_def)

end
