(* ===== verification/Interfaces.thy ===== *)
theory Interfaces
  imports Py_Prelude
begin

text \<open>
  The contracts several components share, as locales. A provider discharges the laws on its own
  definitions by an interpretation; what follows from the laws is proved once here.

  \<^item> \<open>audit_trail\<close>: recording an event under a key is a no-op when the key is present.
  \<^item> \<open>fenced_lease\<close>: a row is worked on under a claim token; only the current holder can settle it.
  \<^item> \<open>counted_lease\<close>: claims are numbered in rising order; only the newest can settle, and only once.
  \<^item> \<open>absorbing_op\<close>: late results cannot change an operation that has reached its terminal state.
\<close>

locale audit_trail =
  fixes put :: "'k \<Rightarrow> 'x \<Rightarrow> 's \<Rightarrow> 's"
    and keys :: "'s \<Rightarrow> 'k list"
  assumes present: "k \<in> set (keys s) \<Longrightarrow> put k x s = s"
    and absent: "k \<notin> set (keys s) \<Longrightarrow> keys (put k x s) = keys s @ [k]"
begin

lemma keys_record:
  "keys (put k x s) = (if k \<in> set (keys s) then keys s else keys s @ [k])"
  using present absent by auto

lemma recorded: "k \<in> set (keys (put k x s))"
  by (simp add: keys_record)

lemma idem: "put k y (put k x s) = put k x s"
  by (rule present) (rule recorded)

lemma keeps_distinct: "distinct (keys s) \<Longrightarrow> distinct (keys (put k x s))"
  by (simp add: keys_record)

lemma append_only: "prefix (keys s) (keys (put k x s))"
  by (simp add: keys_record)

lemma run_keys:
  "set (keys (fold (\<lambda>(k, x). put k x) es s)) = set (keys s) \<union> fst ` set es"
  by (induction es arbitrary: s) (auto simp: keys_record split: if_splits)

lemma run_distinct:
  "distinct (keys s) \<Longrightarrow> distinct (keys (fold (\<lambda>(k, x). put k x) es s))"
  by (induction es arbitrary: s) (auto simp: keeps_distinct)

end

datatype ('tok, 'o) lease_event =
    Try_Claim time 'tok
  | Settle 'tok 'o

fun claims_of :: "('tok, 'o) lease_event list \<Rightarrow> 'tok set" where
  "claims_of [] = {}"
| "claims_of (Try_Claim now tk # es) = insert tk (claims_of es)"
| "claims_of (Settle tk out # es) = claims_of es"

locale fenced_lease =
  fixes claimable :: "time \<Rightarrow> 'r \<Rightarrow> bool"
    and claim :: "time \<Rightarrow> 'tok \<Rightarrow> 'r \<Rightarrow> 'r"
    and holds :: "'tok \<Rightarrow> 'r \<Rightarrow> bool"
    and settle :: "'tok \<Rightarrow> 'o \<Rightarrow> 'r \<Rightarrow> 'r"
  assumes claim_holds: "claimable now r \<Longrightarrow> holds tk (claim now tk r)"
    and claim_excludes: "claimable now r \<Longrightarrow> tk' \<noteq> tk \<Longrightarrow> \<not> holds tk' (claim now tk r)"
    and settle_stale: "\<not> holds tk r \<Longrightarrow> settle tk out r = r"
    and settle_releases: "holds tk r \<Longrightarrow> \<not> holds tk' (settle tk out r)"
begin

definition lease_step :: "('tok, 'o) lease_event \<Rightarrow> 'r \<Rightarrow> 'r" where
  "lease_step e r = (case e of
     Try_Claim now tk \<Rightarrow> if claimable now r then claim now tk r else r
   | Settle tk out \<Rightarrow> settle tk out r)"

definition lease_run :: "('tok, 'o) lease_event list \<Rightarrow> 'r \<Rightarrow> 'r" where
  "lease_run es r = fold lease_step es r"

lemma step_keeps_stale:
  assumes "\<not> holds tk r" and "tk \<notin> claims_of [e]"
  shows "\<not> holds tk (lease_step e r)"
  using assms claim_excludes settle_stale settle_releases
  by (cases e) (auto simp: lease_step_def, metis)

text \<open>A worker that has lost its claim never regains it unless it claims again.\<close>

lemma run_keeps_stale:
  "\<not> holds tk r \<Longrightarrow> tk \<notin> claims_of es \<Longrightarrow> \<not> holds tk (lease_run es r)"
proof (induction es arbitrary: r)
  case Nil
  then show ?case by (simp add: lease_run_def)
next
  case (Cons e es)
  have sub: "tk \<notin> claims_of [e]" "tk \<notin> claims_of es"
    using Cons.prems(2) by (cases e; simp)+
  from step_keeps_stale [OF Cons.prems(1) sub(1)] Cons.IH [OF _ sub(2)]
  show ?case by (simp add: lease_run_def)
qed

text \<open>Fencing: after another worker's claim, whatever happens, the first worker's result is dropped.\<close>

lemma superseded_settle_dropped:
  assumes "claimable now r" and "tk' \<noteq> tk" and "tk \<notin> claims_of es"
  shows "settle tk out (lease_run es (claim now tk' r)) = lease_run es (claim now tk' r)"
  using assms by (intro settle_stale run_keeps_stale claim_excludes) auto

text \<open>A claim is settled at most once.\<close>

lemma settle_once:
  assumes "tk \<notin> claims_of es"
  shows "settle tk out' (lease_run es (settle tk out r)) = lease_run es (settle tk out r)"
proof -
  have "\<not> holds tk (settle tk out r)"
    using settle_releases settle_stale by metis
  with assms show ?thesis by (intro settle_stale run_keeps_stale)
qed

lemma one_holder: "claimable now r \<Longrightarrow> holds tk' (claim now tk r) \<longleftrightarrow> tk' = tk"
  using claim_holds claim_excludes by blast

end

locale absorbing_op =
  fixes finished :: "'r \<Rightarrow> bool"
    and finish :: "'a \<Rightarrow> 'r \<Rightarrow> 'r"
  assumes absorb: "finished r \<Longrightarrow> finish a r = r"
begin

lemma run_absorb: "finished r \<Longrightarrow> fold finish as r = r"
  by (induction as) (auto simp: absorb)

lemma finished_stays: "finished (fold finish as r) \<Longrightarrow> finished (fold finish (as @ bs) r)"
  by (simp add: run_absorb)

lemma finished_result: "finished (fold finish as r) \<Longrightarrow> fold finish (as @ bs) r = fold finish as r"
  by (simp add: run_absorb)

end

datatype ('c, 'tok, 'o) counted_event =
    Counted_Claim 'c
  | Counted_Settle 'tok 'o

locale counted_lease =
  fixes level :: "'s \<Rightarrow> int"
    and live :: "'t \<times> int \<Rightarrow> 's \<Rightarrow> bool"
    and claim :: "'c \<Rightarrow> 's \<Rightarrow> 's"
    and settle :: "'t \<times> int \<Rightarrow> 'o \<Rightarrow> 's \<Rightarrow> 's"
  assumes live_level: "live (t, n) s \<Longrightarrow> n = level s"
    and claim_level: "level s \<le> level (claim c s)"
    and claim_idle: "level (claim c s) = level s \<Longrightarrow> live tok (claim c s) \<Longrightarrow> live tok s"
    and settle_dead: "\<not> live tok s \<Longrightarrow> settle tok out s = s"
    and settle_level: "level (settle tok out s) = level s"
    and settle_ends: "settle tok out s = s \<or> \<not> live tok' (settle tok out s)"
begin

definition counted_step :: "('c, 't \<times> int, 'o) counted_event \<Rightarrow> 's \<Rightarrow> 's" where
  "counted_step e s = (case e of Counted_Claim c \<Rightarrow> claim c s | Counted_Settle tok out \<Rightarrow> settle tok out s)"

definition counted_run :: "('c, 't \<times> int, 'o) counted_event list \<Rightarrow> 's \<Rightarrow> 's" where
  "counted_run es s = fold counted_step es s"

lemma step_level: "level s \<le> level (counted_step e s)"
  using claim_level settle_level by (cases e) (simp_all add: counted_step_def)

lemma run_level: "level s \<le> level (counted_run es s)"
proof (induction es arbitrary: s)
  case (Cons e es)
  from step_level [of s e] Cons [of "counted_step e s"] show ?case by (simp add: counted_run_def)
qed (simp add: counted_run_def)

text \<open>A dead claim whose number has been given out stays dead.\<close>

lemma step_dead:
  assumes "\<not> live (t, n) s" and "n \<le> level s"
  shows "\<not> live (t, n) (counted_step e s)"
proof
  assume l: "live (t, n) (counted_step e s)"
  show False
  proof (cases e)
    case (Counted_Claim c)
    with l have "n = level (claim c s)" by (simp add: counted_step_def live_level)
    with assms(2) claim_level [of s c] have "level (claim c s) = level s" by simp
    with l Counted_Claim assms(1) claim_idle show False by (auto simp: counted_step_def)
  next
    case (Counted_Settle tok out)
    with l assms(1) settle_ends [of tok out s "(t, n)"] show False by (auto simp: counted_step_def)
  qed
qed

lemma run_dead: "\<not> live (t, n) s \<Longrightarrow> n \<le> level s \<Longrightarrow> \<not> live (t, n) (counted_run es s)"
proof (induction es arbitrary: s)
  case (Cons e es)
  have "\<not> live (t, n) (counted_run es (counted_step e s))"
    using step_dead [OF Cons.prems] step_level [of s e] Cons.prems(2) by (intro Cons.IH) auto
  then show ?case by (simp add: counted_run_def)
qed (simp add: counted_run_def)

text \<open>Once a later claim has been given out, the result of an earlier one is dropped, whatever happens in between.\<close>

lemma overtaken_settle_dropped:
  assumes "n < level s"
  shows "settle (t, n) out (counted_run es s) = counted_run es s"
  using assms live_level [of t n s] by (intro settle_dead run_dead) auto

text \<open>A claim whose result has been stored is not settled a second time.\<close>

lemma second_settle_dropped:
  assumes "settle (t, n) out s \<noteq> s"
  shows "settle (t, n) out' (counted_run es (settle (t, n) out s)) = counted_run es (settle (t, n) out s)"
proof -
  have "n = level s" using assms settle_dead live_level by metis
  moreover have "\<not> live (t, n) (settle (t, n) out s)" using settle_ends assms by blast
  ultimately show ?thesis using settle_level by (intro settle_dead run_dead) auto
qed

end

end
