(* ===== verification/Actors.thy ===== *)
theory Actors
  imports Db Interfaces
begin

text \<open>
  The actor registry (\<^verbatim>\<open>sales_authorizations\<close>): the identity reads and the audited write that every
  other service relies on. Models \<^verbatim>\<open>app/leads/identity.py\<close>, \<^verbatim>\<open>app/messaging/sales_authorization.py\<close>,
  \<^verbatim>\<open>app/crm/authorization.py\<close> and \<^verbatim>\<open>app/crm/user_mapping.py\<close>.
\<close>

definition is_active :: "db \<Rightarrow> pstr \<Rightarrow> bool" where
  "is_active d u = (case get_actor d u of None \<Rightarrow> False | Some a \<Rightarrow> sa_is_active a)"

definition new_actor :: "pstr \<Rightarrow> pstr option \<Rightarrow> bool \<Rightarrow> pstr option \<Rightarrow> time \<Rightarrow> sales_authorization" where
  "new_actor u name authorized by now =
     \<lparr>sa_wecom_user_id = u, sa_display_name = name, sa_department_id = None, sa_crm_user_id = None,
      sa_is_authorized = authorized, sa_is_active = True, sa_is_administrator = False,
      sa_can_submit_other_sales_leads = False, sa_next_message_sequence = 0,
      sa_created_by = by, sa_updated_by = by, sa_created_at = now, sa_updated_at = now\<rparr>"

definition authorize_salesperson :: "time \<Rightarrow> pstr \<Rightarrow> pstr \<Rightarrow> db \<Rightarrow> (sales_authorization \<times> db) res" where
  "authorize_salesperson now wecom_user_id operator_subject d =
     (let u = py_strip wecom_user_id; opr = py_strip operator_subject
      in if u = [] \<or> opr = [] then Inl (ValueError ''target and operator must not be empty'')
         else case get_actor d u of
           None \<Rightarrow>
             (let a = new_actor u None True (Some opr) now
              in Inr (a, d\<lparr>sales_authorizations := tadd a (sales_authorizations d)\<rparr>))
         | Some a \<Rightarrow>
             (let f = (\<lambda>r. r\<lparr>sa_is_authorized := True, sa_is_active := True,
                             sa_updated_by := Some opr, sa_updated_at := now\<rparr>)
              in Inr (f a, d\<lparr>sales_authorizations := tupd sa_wecom_user_id u f (sales_authorizations d)\<rparr>)))"

text \<open>
  The member directory behind \<^verbatim>\<open>resolve_member_user_id\<close> is an argument; \<open>None\<close> stands for the
  exception it raises and \<open>Some v\<close> for the value it returns, which need not be a string.
\<close>

definition can_submit_other_sales_leads ::
  "(pstr \<Rightarrow> pyval option) \<Rightarrow> db \<Rightarrow> sales_authorization option \<Rightarrow> bool" where
  "can_submit_other_sales_leads resolve d actor =
     (case actor of
        None \<Rightarrow> False
      | Some a \<Rightarrow>
          if \<not> sa_is_active a then False
          else if sa_can_submit_other_sales_leads a then True
          else case resolve (sa_wecom_user_id a) of
                 Some (PStr m) \<Rightarrow>
                   if m = [] \<or> m = sa_wecom_user_id a then False
                   else (case get_actor d m of
                           None \<Rightarrow> False
                         | Some b \<Rightarrow> sa_is_active b \<and> sa_can_submit_other_sales_leads b)
               | _ \<Rightarrow> False)"

definition get_crm_user_id :: "db \<Rightarrow> pstr \<Rightarrow> pstr option" where
  "get_crm_user_id d u =
     (case get_actor d u of
        None \<Rightarrow> None
      | Some a \<Rightarrow>
          (case sa_crm_user_id a of
             None \<Rightarrow> None
           | Some c \<Rightarrow> let n = py_strip c in if n = [] then None else Some n))"

section \<open>The audit trail contract\<close>

text \<open>
  \<^verbatim>\<open>_record_audit\<close> of the services is \<open>audit_once\<close>: it satisfies the audit-trail contract with the
  pair of message and event type as the key.
\<close>

definition put_audit :: "pstr \<times> string \<Rightarrow> pstr \<times> fields \<times> time \<Rightarrow> db \<Rightarrow> db" where
  "put_audit k x d = (case (k, x) of ((m, t), (u, details, now)) \<Rightarrow> audit_once m u t details now d)"

interpretation audits: audit_trail put_audit audit_keys
proof
  fix k :: "pstr \<times> string" and x :: "pstr \<times> fields \<times> time" and s :: db
  obtain m t where k: "k = (m, t)" by (cases k)
  obtain u details now where x: "x = (u, details, now)" by (cases x)
  show "put_audit k x s = s" if "k \<in> set (audit_keys s)"
    using that k x by (simp add: put_audit_def audit_once_def audit_exists_iff)
  show "audit_keys (put_audit k x s) = audit_keys s @ [k]" if "k \<notin> set (audit_keys s)"
    using that k x by (simp add: put_audit_def audit_keys_once)
qed

lemma audit_once_put: "audit_once m u t details now d = put_audit (m, t) (u, details, now) d"
  by (simp add: put_audit_def)

lemma audit_once_idem:
  "audit_once m u t x now (audit_once m v t y now' d) = audit_once m v t y now' d"
  unfolding audit_once_put by (rule audits.idem)

lemma audit_once_distinct: "distinct (audit_keys d) \<Longrightarrow> distinct (audit_keys (audit_once m u t x now d))"
  unfolding audit_once_put by (rule audits.keeps_distinct)

section \<open>Properties\<close>

text \<open>
  Cross-owner submission rights need the sender's own record to be active: whatever the
  directory answers, an unknown or inactive sender is refused; an active sender without the right
  gets it only through a different member the directory names, whose record is active and holds it.
\<close>

theorem cross_owner_right_sound:
  assumes "can_submit_other_sales_leads resolve d actor"
  shows "\<exists>a. actor = Some a \<and> sa_is_active a \<and>
    (sa_can_submit_other_sales_leads a \<or>
     (\<exists>m b. resolve (sa_wecom_user_id a) = Some (PStr m) \<and> m \<noteq> sa_wecom_user_id a \<and> m \<noteq> [] \<and>
        get_actor d m = Some b \<and> sa_is_active b \<and> sa_can_submit_other_sales_leads b))"
  using assms
  by (auto simp: can_submit_other_sales_leads_def split: option.splits if_splits pyval.splits)

definition boss_actor :: sales_authorization where
  "boss_actor = (new_actor (asc ''boss'') None True None 0)\<lparr>sa_can_submit_other_sales_leads := True\<rparr>"

theorem cross_owner_right_sound_witness:
  "\<exists>a. Some boss_actor = Some a \<and> sa_is_active a"
proof -
  have h: "can_submit_other_sales_leads (\<lambda>_. None) empty_db (Some boss_actor)"
    by (simp add: can_submit_other_sales_leads_def boss_actor_def new_actor_def)
  show ?thesis using cross_owner_right_sound [OF h] by blast
qed

text \<open>
  Registering an actor makes it active and leaves every other actor's record alone; registering
  again keeps the creator, the message sequence and the CRM mapping and only updates the modifier.
\<close>

theorem authorize_salesperson_effect:
  assumes "authorize_salesperson now u opr d = Inr (a, d')"
  shows "is_active d' (py_strip u) \<and>
    get_actor d' (py_strip u) = Some a \<and>
    (\<forall>v. v \<noteq> py_strip u \<longrightarrow> get_actor d' v = get_actor d v) \<and>
    (\<forall>b. get_actor d (py_strip u) = Some b \<longrightarrow>
       sa_created_by a = sa_created_by b \<and> sa_crm_user_id a = sa_crm_user_id b \<and>
       sa_next_message_sequence a = sa_next_message_sequence b \<and> sa_updated_by a = Some (py_strip opr))"
proof (cases "get_actor d (py_strip u)")
  case None
  with assms show ?thesis
    by (auto simp: authorize_salesperson_def Let_def new_actor_def is_active_def
        split: if_splits option.splits)
next
  case (Some b)
  have upd: "tget sa_wecom_user_id v (tupd sa_wecom_user_id k (\<lambda>r. r\<lparr>sa_is_authorized := True,
      sa_is_active := True, sa_updated_by := x, sa_updated_at := now\<rparr>) t) =
    (if v = k then map_option (\<lambda>r. r\<lparr>sa_is_authorized := True, sa_is_active := True,
      sa_updated_by := x, sa_updated_at := now\<rparr>) (tget sa_wecom_user_id v t)
     else tget sa_wecom_user_id v t)" for v k x t
    by (simp add: tget_tupd_same tget_tupd_other)
  from Some assms show ?thesis
    by (auto simp: authorize_salesperson_def Let_def upd is_active_def split: if_splits)
qed

theorem authorize_salesperson_effect_witness:
  "\<exists>a d'. authorize_salesperson 5 (asc '' amy '') (asc ''root'') empty_db = Inr (a, d') \<and>
     is_active d' (py_strip (asc '' amy ''))"
proof -
  have "\<exists>a d'. authorize_salesperson 5 (asc '' amy '') (asc ''root'') empty_db = Inr (a, d')"
  proof -
    have "py_strip (asc '' amy '') \<noteq> []" "py_strip (asc ''root'') \<noteq> []" by code_simp+
    then show ?thesis by (simp add: authorize_salesperson_def Let_def empty_db_def)
  qed
  then obtain a d' where h: "authorize_salesperson 5 (asc '' amy '') (asc ''root'') empty_db = Inr (a, d')"
    by blast
  show ?thesis using h authorize_salesperson_effect [OF h] by blast
qed

end
