(* ===== verification/Env.thy ===== *)
theory Env
  imports Db
begin

text \<open>
  What the services take from their surroundings. \<open>env\<close> holds the standard-library functions whose
  values the code only stores and compares: \<^verbatim>\<open>hashlib.sha256(..).hexdigest()\<close> of a text,
  \<^verbatim>\<open>datetime.isoformat()\<close> of a UTC instant and \<^verbatim>\<open>datetime.fromisoformat\<close> (a naive result read as UTC;
  \<open>None\<close> for \<^verbatim>\<open>ValueError\<close>), the database's collation order of identifiers as a sort key, and the rendering of an instant as Shanghai
  local time (\<^verbatim>\<open>strftime("%Y-%m-%d %H:%M:%S")\<close>), and \<^verbatim>\<open>date.isoformat()\<close> with \<^verbatim>\<open>date.fromisoformat\<close> on
  calendar days counted from the epoch, \<^verbatim>\<open>datetime.fromisoformat\<close> with the timezone distinction kept
  (an aware result as its instant and the wall clock of its own zone, a naive one as its wall clock, both in
  microseconds), the Shanghai wall clock of an instant, the rendering
  \<^verbatim>\<open>strftime("%Y-%m-%d %H:%M")\<close> of a wall clock, \<^verbatim>\<open>str.isalnum\<close> of a character, \<^verbatim>\<open>str\<close> of
  lists, dictionaries and dates, and \<^verbatim>\<open>json.dumps\<close> of a dictionary with compact separators, with or without
  \<^verbatim>\<open>sort_keys\<close>, and \<^verbatim>\<open>json.dumps\<close> of any value with \<^verbatim>\<open>ensure_ascii=False\<close> and compact or default separators. The
  theorems hold for every choice; where one needs the ISO codec to round-trip or digests to
  be distinct, it says so. \<open>settings\<close> are the fields of \<^verbatim>\<open>app/core/config.py\<close> the services read.
\<close>

datatype parsed_datetime = Aware time int | Naive int

record env =
  e_sha256 :: "pstr \<Rightarrow> pstr"
  e_iso :: "time \<Rightarrow> pstr"
  e_from_iso :: "pstr \<Rightarrow> time option"
  e_collation :: "pstr \<Rightarrow> nat"
  e_shanghai_text :: "time \<Rightarrow> pstr"
  e_date_iso :: "int \<Rightarrow> pstr"
  e_date_from_iso :: "pstr \<Rightarrow> int option"
  e_parse_datetime :: "pstr \<Rightarrow> parsed_datetime option"
  e_shanghai_local :: "time \<Rightarrow> int"
  e_minute_text :: "int \<Rightarrow> pstr"
  e_isalnum :: "cp \<Rightarrow> bool"
  e_repr :: "pyval \<Rightarrow> pstr"
  e_json :: "bool \<Rightarrow> fields \<Rightarrow> pstr"
  e_json_text :: "bool \<Rightarrow> pyval \<Rightarrow> pstr"

record settings =
  lead_progress_enabled :: bool
  lead_progress_interval_minutes :: int
  lead_progress_idle_stop_minutes :: int
  lead_receipt_enabled :: bool
  lead_receipt_coalesce_seconds :: int

text \<open>\<^verbatim>\<open>str(value)\<close>.\<close>

definition py_str :: "env \<Rightarrow> pyval \<Rightarrow> pstr" where
  "py_str env v = (case v of
     PNone \<Rightarrow> asc ''None''
   | PBool b \<Rightarrow> asc (if b then ''True'' else ''False'')
   | PInt i \<Rightarrow> str_of_int i
   | PStr s \<Rightarrow> s
   | _ \<Rightarrow> e_repr env v)"

text \<open>A simple concrete environment, for the examples: texts are their own digests, and an instant is printed in decimal.\<close>

definition plain_env :: env where
  "plain_env = \<lparr>e_sha256 = (\<lambda>s. s), e_iso = str_of_int,
     e_from_iso = (\<lambda>s. if ascii_decimal s then Some (int (nat_of_digits s)) else None),
     e_collation = (\<lambda>_. 0), e_shanghai_text = str_of_int,
     e_date_iso = str_of_int,
     e_date_from_iso = (\<lambda>s. if ascii_decimal s then Some (int (nat_of_digits s)) else None),
     e_parse_datetime = (\<lambda>s. if ascii_decimal s then Some (Naive (int (nat_of_digits s))) else None),
     e_shanghai_local = (\<lambda>t. t), e_minute_text = str_of_int,
     e_isalnum = (\<lambda>c. 0x30 \<le> c \<and> c \<le> 0x39 \<or> 0x41 \<le> c \<and> c \<le> 0x5A \<or> 0x61 \<le> c \<and> c \<le> 0x7A),
     e_repr = (\<lambda>_. []), e_json = (\<lambda>sorted flds. concat (map fst flds)),
     e_json_text = (\<lambda>compact v. case v of PStr s \<Rightarrow> s | _ \<Rightarrow> [])\<rparr>"

definition example_settings :: settings where
  "example_settings = \<lparr>lead_progress_enabled = True, lead_progress_interval_minutes = 30,
     lead_progress_idle_stop_minutes = 60, lead_receipt_enabled = True, lead_receipt_coalesce_seconds = 10\<rparr>"

text \<open>The first element with the largest key, as \<^verbatim>\<open>ORDER BY key DESC LIMIT 1\<close> returns one.\<close>

fun max_by :: "('a \<Rightarrow> int) \<Rightarrow> 'a list \<Rightarrow> 'a option" where
  "max_by k [] = None"
| "max_by k (x # xs) = (case max_by k xs of None \<Rightarrow> Some x | Some y \<Rightarrow> if k x < k y then Some y else Some x)"

lemma max_by_None [simp]: "max_by k xs = None \<longleftrightarrow> xs = []"
  by (induction xs) (auto split: option.splits)

lemma max_by_SomeD: "max_by k xs = Some x \<Longrightarrow> x \<in> set xs \<and> (\<forall>y\<in>set xs. k y \<le> k x)"
proof (induction xs arbitrary: x)
  case Nil
  then show ?case by simp
next
  case (Cons a xs)
  show ?case
  proof (cases "max_by k xs")
    case None
    with Cons.prems show ?thesis by simp
  next
    case (Some y)
    with Cons.IH [OF Some] Cons.prems show ?thesis
      by (force split: if_splits)
  qed
qed

text \<open>\<^verbatim>\<open>list(dict.fromkeys(xs))\<close>: the first occurrences in order.\<close>

fun dedup :: "'a list \<Rightarrow> 'a list" where
  "dedup [] = []"
| "dedup (x # xs) = x # filter (\<lambda>y. y \<noteq> x) (dedup xs)"

lemma set_dedup [simp]: "set (dedup xs) = set xs"
  by (induction xs) auto

lemma distinct_dedup [simp]: "distinct (dedup xs)"
  by (induction xs) auto

end
