(* ===== verification/Smart_Table.thy ===== *)
theory Smart_Table
  imports Failures Interfaces
begin

text \<open>
  The shared lead table. \<open>st_adapter\<close> is the part of the \<^verbatim>\<open>SmartTableAdapter\<close> protocol
  (\<^verbatim>\<open>app/smart_table/adapter.py\<close>) the modelled services call, as a record of functions on a remote
  world of any type: each returns an exception or a result, and the world afterwards (a failing
  write may still have changed it). \<^verbatim>\<open>MockSmartTableAdapter\<close> (\<^verbatim>\<open>app/smart_table/mock.py\<close>), the adapter of the
  repository's development and test deployments, is the concrete instance. The table's permission port
  is \<^verbatim>\<open>app/smart_table/permissions.py\<close>, its field rules come from \<^verbatim>\<open>app/smart_table/registry.py\<close>.
\<close>

record st_record =
  rec_id :: pstr
  rec_fields :: fields
  rec_member_names :: "(pstr \<times> pstr) list"

datatype st_actor = ROBOT | SALES | ADMIN

record 'w st_adapter =
  resolve_member_user_id :: "pstr \<Rightarrow> 'w \<Rightarrow> (exn + pstr) \<times> 'w"
  get_record :: "pstr \<Rightarrow> 'w \<Rightarrow> (exn + st_record option) \<times> 'w"
  find_records :: "fields \<Rightarrow> 'w \<Rightarrow> (exn + st_record list) \<times> 'w"
  create_record :: "fields \<Rightarrow> st_actor \<Rightarrow> 'w \<Rightarrow> (exn + st_record) \<times> 'w"
  update_record :: "pstr \<Rightarrow> fields \<Rightarrow> 'w \<Rightarrow> (exn + st_record) \<times> 'w"

section \<open>Field rules\<close>

definition READ_ONLY_SYSTEM_TIME_FIELDS :: "pstr list" where
  "READ_ONLY_SYSTEM_TIME_FIELDS = [f_created_time, f_entry_time]"

definition read_only_field :: "pstr \<Rightarrow> bool" where
  "read_only_field name = (removeprefix [0x2A] name \<in> set READ_ONLY_SYSTEM_TIME_FIELDS)"

definition writable_smart_table_fields :: "fields \<Rightarrow> fields" where
  "writable_smart_table_fields flds = filter (\<lambda>(name, v). \<not> read_only_field name) flds"

definition DEFAULT_LEAD_BUSINESS_VALUES :: fields where
  "DEFAULT_LEAD_BUSINESS_VALUES = [(f_business_line, PStr v_cobot), (f_title, PStr v_manager),
     (f_comm_way, PStr v_activity), (f_industry, PStr v_other)]"

definition DEFAULT_SMART_TABLE_FIELD_VALUES :: fields where
  "DEFAULT_SMART_TABLE_FIELD_VALUES = [(f_international, PStr v_domestic), (f_submit_status, PStr v_unsubmitted)]"

section \<open>The permission port\<close>

record permission_verification =
  new_owner_can_view :: bool
  new_owner_can_edit :: bool
  old_owner_can_view :: bool
  old_owner_can_edit :: bool

definition verified :: "permission_verification \<Rightarrow> bool" where
  "verified v = (new_owner_can_view v \<and> new_owner_can_edit v \<and>
     \<not> old_owner_can_view v \<and> \<not> old_owner_can_edit v)"

type_synonym 'w permission_verifier = "pstr \<Rightarrow> pstr \<Rightarrow> pstr \<Rightarrow> 'w \<Rightarrow> (exn + permission_verification) \<times> 'w"

definition plain_exn :: "pstr \<Rightarrow> exn_class list \<Rightarrow> exn" where
  "plain_exn name bases = \<lparr>ex_type_name = name, ex_bases = bases, ex_category = PNone,
     ex_http_status = PNone, ex_sub_code = PNone, ex_error_code = PNone,
     ex_remote_record_id = PNone, ex_external_error_code = PNone,
     ex_duplicate_entity_type = PNone, ex_text = []\<rparr>"

definition unconfigured_verifier :: "'w permission_verifier" where
  "unconfigured_verifier record_id old new w =
     (Inl (plain_exn (asc ''SmartTablePermissionVerificationUnavailable'')
        [C_PermissionVerificationUnavailable]), w)"

section \<open>The mock table\<close>

record mock_table =
  mk_records :: "st_record list"
  mk_next_record_number :: int
  mk_sales_can_create :: bool
  mk_require_owner :: bool
  mk_delete_calls :: int

definition empty_mock :: mock_table where
  "empty_mock = \<lparr>mk_records = [], mk_next_record_number = 1, mk_sales_can_create = False,
     mk_require_owner = True, mk_delete_calls = 0\<rparr>"

definition permission_exn :: exn where
  "permission_exn = plain_exn (asc ''SmartTablePermissionError'') [C_PermissionError, C_OSError]"

definition not_found_exn :: exn where
  "not_found_exn = plain_exn (asc ''SmartTableRecordNotFoundError'') [C_LookupError]"

definition value_exn :: exn where
  "value_exn = plain_exn (asc ''ValueError'') [C_ValueError]"

definition mock_resolve_member_user_id :: "pstr \<Rightarrow> mock_table \<Rightarrow> (exn + pstr) \<times> mock_table" where
  "mock_resolve_member_user_id user_id w = (if py_strip user_id = [] then Inl value_exn else Inr user_id, w)"

definition mock_get_record :: "pstr \<Rightarrow> mock_table \<Rightarrow> (exn + st_record option) \<times> mock_table" where
  "mock_get_record record_id w = (Inr (tget rec_id record_id (mk_records w)), w)"

definition mock_find_records :: "fields \<Rightarrow> mock_table \<Rightarrow> (exn + st_record list) \<times> mock_table" where
  "mock_find_records filters w =
     (Inr (filter (\<lambda>r. list_all (\<lambda>(name, v). py_eq (py_get name (rec_fields r)) v) filters) (mk_records w)), w)"

definition mock_find_records_by_field_values :: "pstr \<Rightarrow> pstr list \<Rightarrow> mock_table \<Rightarrow> st_record list" where
  "mock_find_records_by_field_values name values w =
     filter (\<lambda>r. list_ex (\<lambda>v. py_eq (py_get name (rec_fields r)) (PStr v)) values) (mk_records w)"

text \<open>
  Creation takes the time text the table stamps on the new row and the rendering of the owner value
  as a display name (\<^verbatim>\<open>str\<close>).
\<close>

definition mock_create_record ::
  "pstr \<Rightarrow> (pyval \<Rightarrow> pstr) \<Rightarrow> fields \<Rightarrow> st_actor \<Rightarrow> mock_table \<Rightarrow> (exn + st_record) \<times> mock_table" where
  "mock_create_record now_text to_str flds actor w =
     (if list_ex (\<lambda>(name, v). read_only_field name) flds then (Inl permission_exn, w)
      else if actor = SALES \<and> \<not> mk_sales_can_create w then (Inl permission_exn, w)
      else if actor = ROBOT \<and> mk_require_owner w \<and> \<not> py_truthy (py_get f_owner flds) then (Inl value_exn, w)
      else let record_id = asc ''mock-record-'' @ str_of_int (mk_next_record_number w);
               names = (if py_truthy (py_get f_owner flds) then [(f_owner, to_str (py_get f_owner flds))] else []);
               stored = (if dget f_entry_time flds = None then dset f_entry_time (PStr now_text) flds else flds);
               r = \<lparr>rec_id = record_id, rec_fields = stored, rec_member_names = names\<rparr>
           in (Inr r, w\<lparr>mk_records := tadd r (mk_records w),
                        mk_next_record_number := mk_next_record_number w + 1\<rparr>))"

fun mock_create_records ::
  "pstr \<Rightarrow> (pyval \<Rightarrow> pstr) \<Rightarrow> fields list \<Rightarrow> st_actor \<Rightarrow> mock_table \<Rightarrow> (exn + st_record list) \<times> mock_table" where
  "mock_create_records now_text to_str [] actor w = (Inr [], w)"
| "mock_create_records now_text to_str (f # fs) actor w =
     (case mock_create_record now_text to_str f actor w of
        (Inl e, w') \<Rightarrow> (Inl e, w')
      | (Inr r, w') \<Rightarrow>
          (case mock_create_records now_text to_str fs actor w' of
             (Inl e, w'') \<Rightarrow> (Inl e, w'')
           | (Inr rs, w'') \<Rightarrow> (Inr (r # rs), w'')))"

definition mock_update_record :: "pstr \<Rightarrow> fields \<Rightarrow> mock_table \<Rightarrow> (exn + st_record) \<times> mock_table" where
  "mock_update_record record_id flds w =
     (if list_ex (\<lambda>(name, v). read_only_field name) flds then (Inl permission_exn, w)
      else case tget rec_id record_id (mk_records w) of
        None \<Rightarrow> (Inl not_found_exn, w)
      | Some r \<Rightarrow>
          (let r' = \<lparr>rec_id = record_id, rec_fields = dmerge (rec_fields r) flds,
                     rec_member_names = rec_member_names r\<rparr>
           in (Inr r', w\<lparr>mk_records := tupd rec_id record_id (\<lambda>_. r') (mk_records w)\<rparr>)))"

fun mock_update_records ::
  "(pstr \<times> fields) list \<Rightarrow> mock_table \<Rightarrow> (exn + st_record list) \<times> mock_table" where
  "mock_update_records [] w = (Inr [], w)"
| "mock_update_records ((i, f) # us) w =
     (case mock_update_record i f w of
        (Inl e, w') \<Rightarrow> (Inl e, w')
      | (Inr r, w') \<Rightarrow>
          (case mock_update_records us w' of
             (Inl e, w'') \<Rightarrow> (Inl e, w'')
           | (Inr rs, w'') \<Rightarrow> (Inr (r # rs), w'')))"

definition mock_delete_record :: "mock_table \<Rightarrow> exn \<times> mock_table" where
  "mock_delete_record w = (plain_exn (asc ''AssertionError'') [], w\<lparr>mk_delete_calls := mk_delete_calls w + 1\<rparr>)"

definition mock_adapter :: "pstr \<Rightarrow> (pyval \<Rightarrow> pstr) \<Rightarrow> mock_table st_adapter" where
  "mock_adapter now_text to_str =
     \<lparr>resolve_member_user_id = mock_resolve_member_user_id, get_record = mock_get_record,
      find_records = mock_find_records, create_record = mock_create_record now_text to_str,
      update_record = mock_update_record\<rparr>"

section \<open>The contract of a record store\<close>

text \<open>
  What the services rely on when they write a patch and read it back: a successful patch is visible,
  touches only its record, and a rejected patch changes nothing.
\<close>

locale record_store =
  fixes look :: "'w \<Rightarrow> pstr \<Rightarrow> st_record option"
    and patch :: "pstr \<Rightarrow> fields \<Rightarrow> 'w \<Rightarrow> (exn + st_record) \<times> 'w"
  assumes patch_visible: "patch i f w = (Inr r, w') \<Longrightarrow> look w' i = Some r"
    and patch_merges: "patch i f w = (Inr r, w') \<Longrightarrow> look w i = Some r0 \<Longrightarrow>
      rec_fields r = dmerge (rec_fields r0) f"
    and patch_frame: "patch i f w = (out, w') \<Longrightarrow> j \<noteq> i \<Longrightarrow> look w' j = look w j"
    and patch_rejected: "patch i f w = (Inl e, w') \<Longrightarrow> w' = w"
begin

definition patches :: "(pstr \<times> fields) list \<Rightarrow> 'w \<Rightarrow> 'w" where
  "patches us w = fold (\<lambda>(i, f) w. snd (patch i f w)) us w"

lemma patches_frame: "j \<notin> fst ` set us \<Longrightarrow> look (patches us w) j = look w j"
proof (induction us arbitrary: w)
  case Nil
  then show ?case by (simp add: patches_def)
next
  case (Cons u us)
  obtain i f where u: "u = (i, f)" by (cases u)
  obtain out w' where p: "patch i f w = (out, w')" by fastforce
  have "look w' j = look w j" using patch_frame [OF p] Cons.prems u by auto
  with Cons.IH [of w'] Cons.prems u p show ?case by (simp add: patches_def)
qed

lemma patch_field:
  assumes "patch i f w = (Inr r, w')" and "look w i = Some r0" and "distinct (map fst f)"
  shows "py_get k (rec_fields r) = (case dget k f of Some v \<Rightarrow> v | None \<Rightarrow> py_get k (rec_fields r0))"
  using patch_merges [OF assms(1,2)] dget_dmerge [OF assms(3), of k "rec_fields r0"]
  by (simp add: py_get_def split: option.splits)

end

interpretation mock_store: record_store "\<lambda>w i. tget rec_id i (mk_records w)" mock_update_record
proof
  fix i f and w w' :: mock_table and r
  assume p: "mock_update_record i f w = (Inr r, w')"
  then obtain r0 where r0: "tget rec_id i (mk_records w) = Some r0"
    and r: "r = \<lparr>rec_id = i, rec_fields = dmerge (rec_fields r0) f, rec_member_names = rec_member_names r0\<rparr>"
    and w': "w' = w\<lparr>mk_records := tupd rec_id i (\<lambda>_. r) (mk_records w)\<rparr>"
    by (auto simp: mock_update_record_def Let_def split: if_splits option.splits)
  have "tget rec_id i (tupd rec_id i (\<lambda>_. r) t) = map_option (\<lambda>_. r) (tget rec_id i t)" for t
    using r by (induction t) (auto simp: tupd_def)
  then show "tget rec_id i (mk_records w') = Some r" using r0 w' by simp
  show "rec_fields r = dmerge (rec_fields r1) f" if "tget rec_id i (mk_records w) = Some r1" for r1
    using that r0 r by simp
next
  fix i f and w w' :: mock_table and out j
  assume p: "mock_update_record i f w = (out, w')" and j: "j \<noteq> i"
  have "tget rec_id j (tupd rec_id i (\<lambda>_. \<lparr>rec_id = i, rec_fields = a, rec_member_names = b\<rparr>) t) =
      tget rec_id j t" for a b t
    using j by (induction t) (auto simp: tupd_def)
  with p show "tget rec_id j (mk_records w') = tget rec_id j (mk_records w)"
    by (auto simp: mock_update_record_def Let_def split: if_splits option.splits)
next
  fix i f and w w' :: mock_table and e
  assume "mock_update_record i f w = (Inl e, w')"
  then show "w' = w"
    by (auto simp: mock_update_record_def Let_def split: if_splits option.splits)
qed

section \<open>Properties\<close>

text \<open>
  The mock table honours patch semantics: a successful update changes exactly the patched columns
  of exactly that record, and the system's own time columns can never be patched.
\<close>

theorem mock_update_is_patch:
  assumes "mock_update_record i f w = (Inr r, w')" and "distinct (map fst f)"
  shows "(\<exists>r0. tget rec_id i (mk_records w) = Some r0 \<and> tget rec_id i (mk_records w') = Some r \<and>
      (\<forall>k. py_get k (rec_fields r) = (case dget k f of Some v \<Rightarrow> v | None \<Rightarrow> py_get k (rec_fields r0)))) \<and>
    (\<forall>j. j \<noteq> i \<longrightarrow> tget rec_id j (mk_records w') = tget rec_id j (mk_records w)) \<and>
    (\<forall>k\<in>fst ` set f. \<not> read_only_field k)"
proof -
  obtain r0 where r0: "tget rec_id i (mk_records w) = Some r0" and
    ro: "\<not> list_ex (\<lambda>(name, v). read_only_field name) f"
    using assms(1) by (auto simp: mock_update_record_def split: if_splits option.splits)
  have "\<forall>k\<in>fst ` set f. \<not> read_only_field k"
    using ro by (auto simp: list_ex_iff)
  with r0 mock_store.patch_visible [OF assms(1)] mock_store.patch_field [OF assms(1) r0 assms(2)]
    mock_store.patch_frame [OF assms(1)]
  show ?thesis by blast
qed

definition one_row :: mock_table where
  "one_row = empty_mock\<lparr>mk_records := [\<lparr>rec_id = asc ''r1'', rec_fields = [(f_owner, PStr (asc ''amy''))],
     rec_member_names = []\<rparr>]\<rparr>"

theorem mock_update_is_patch_witness:
  "\<exists>r w'. mock_update_record (asc ''r1'') [(f_owner, PStr (asc ''bob''))] one_row = (Inr r, w') \<and>
     tget rec_id (asc ''r1'') (mk_records w') = Some r"
proof -
  obtain r w' where h: "mock_update_record (asc ''r1'') [(f_owner, PStr (asc ''bob''))] one_row = (Inr r, w')"
  proof -
    have "\<not> read_only_field f_owner" by code_simp
    then show thesis
      using that by (simp add: mock_update_record_def one_row_def Let_def)
  qed
  have "distinct (map fst [(f_owner, PStr (asc ''bob''))])" by simp
  from h mock_update_is_patch [OF h this] show ?thesis by blast
qed

end
