(* ===== verification/Owner_Transfer.thy ===== *)
theory Owner_Transfer
  imports Actors Env Smart_Table
begin

text \<open>
  \<^verbatim>\<open>app/leads/transfer.py\<close>: moving a lead to another salesperson. The remote owner column is written
  first, the effect on both salespersons' permissions is verified, and only then the local owner
  follows; every intermediate fact is a committed operation row, so that an interrupted transfer can be
  reconciled. A handler runs several transactions and remote calls: it returns its result or
  exception together with the database and the remote world it leaves behind. One clock reading
  \<open>now\<close> serves a whole call.
\<close>

record transfer_result =
  tx_operation_id :: pstr
  tx_lead_id :: pstr
  tx_status :: string
  tx_failure_code :: "string option"
  tx_failure_summary :: "pstr option"

record transfer_snapshot =
  sn_operation_id :: pstr
  sn_lead_id :: pstr
  sn_record_id :: pstr
  sn_old_owner :: pstr
  sn_new_owner :: pstr
  sn_final_status :: string
  sn_remote_state :: string

record admin_context =
  ad_operator_subject :: pstr
  ad_operator_role :: string
  ad_auth_source :: pstr
  ad_request_id :: pstr
  ad_reason :: pstr

abbreviation get_transfer :: "db \<Rightarrow> pstr \<Rightarrow> owner_transfer_operation option" where
  "get_transfer d i \<equiv> tget tr_id i (owner_transfer_operations d)"

abbreviation upd_transfer :: "pstr \<Rightarrow> (owner_transfer_operation \<Rightarrow> owner_transfer_operation) \<Rightarrow> db \<Rightarrow> db" where
  "upd_transfer i f d \<equiv> d\<lparr>owner_transfer_operations := tupd tr_id i f (owner_transfer_operations d)\<rparr>"

definition RECOVERY_LEASE :: time where
  "RECOVERY_LEASE = minutes 5"

definition operation_lease_expired :: "time \<Rightarrow> time \<Rightarrow> bool" where
  "operation_lease_expired now updated_at = (RECOVERY_LEASE \<le> now - updated_at)"

definition active_administrator :: "db \<Rightarrow> pstr \<Rightarrow> bool" where
  "active_administrator d u =
     (case get_actor d u of None \<Rightarrow> False | Some a \<Rightarrow> sa_is_active a \<and> sa_is_administrator a)"

section \<open>Transactions on the operation row\<close>

text \<open>The outcome a worker reports: remote state, permission state, final status, failure.\<close>

record transfer_outcome =
  to_remote :: string
  to_permission :: string
  to_final :: string
  to_code :: "string option"
  to_summary :: "pstr option"

definition finish_row :: "time \<times> transfer_outcome \<Rightarrow> owner_transfer_operation \<Rightarrow> owner_transfer_operation" where
  "finish_row a r = (case a of (now, out) \<Rightarrow>
     if tr_final_status r = ''succeeded'' then r
     else if tr_final_status r = ''pending_recovery'' \<and> to_final out = ''processing'' then r
     else r\<lparr>tr_remote_update_state := to_remote out, tr_permission_verification_state := to_permission out,
            tr_final_status := to_final out, tr_failure_code := to_code out,
            tr_failure_summary := to_summary out, tr_updated_at := now\<rparr>)"

definition finish_operation :: "time \<Rightarrow> pstr \<Rightarrow> transfer_outcome \<Rightarrow> db \<Rightarrow> db res" where
  "finish_operation now i out d =
     (case get_transfer d i of
        None \<Rightarrow> Inl (ValueError ''operation missing'')
      | Some _ \<Rightarrow> Inr (upd_transfer i (finish_row (now, out)) d))"

definition pending_outcome :: "string \<Rightarrow> string \<Rightarrow> string \<Rightarrow> pstr \<Rightarrow> transfer_outcome" where
  "pending_outcome remote permission code summary =
     \<lparr>to_remote = remote, to_permission = permission, to_final = ''pending_recovery'',
      to_code = Some code, to_summary = Some summary\<rparr>"

definition mark_pending_recovery :: "time \<Rightarrow> pstr \<Rightarrow> string \<Rightarrow> pstr \<Rightarrow> db \<Rightarrow> db res" where
  "mark_pending_recovery now i code summary d =
     finish_operation now i (pending_outcome ''unknown'' ''pending'' code summary) d"

definition mark_remote_succeeded :: "time \<Rightarrow> pstr \<Rightarrow> db \<Rightarrow> db res" where
  "mark_remote_succeeded now i d =
     finish_operation now i \<lparr>to_remote = ''succeeded'', to_permission = ''pending'', to_final = ''processing'',
       to_code = None, to_summary = None\<rparr> d"

definition definite_failure :: "pstr \<Rightarrow> transfer_outcome" where
  "definite_failure summary = \<lparr>to_remote = ''failed'', to_permission = ''not_started'',
     to_final = ''remote_update_failed'', to_code = Some ''definite_remote_failure'', to_summary = Some summary\<rparr>"

definition finalize_local_transfer :: "time \<Rightarrow> pstr \<Rightarrow> pstr \<Rightarrow> pstr \<Rightarrow> pstr \<Rightarrow> db \<Rightarrow> db res" where
  "finalize_local_transfer now i lead_id old_owner new_owner d =
     (case (get_transfer d i, get_lead d lead_id) of
        (Some _, Some l) \<Rightarrow>
          if ld_smart_table_owner_user_id l \<noteq> old_owner then Inl (ValueError ''owner changed'')
          else if ld_lifecycle_state l = ''discarded'' then Inl (ValueError ''lead discarded'')
          else Inr (d\<lparr>owner_transfer_operations := tupd tr_id i
                   (\<lambda>r. r\<lparr>tr_permission_verification_state := ''verified'', tr_final_status := ''succeeded'',
                       tr_failure_code := None, tr_failure_summary := None, tr_updated_at := now\<rparr>)
                   (owner_transfer_operations d),
                 leads := tupd ld_id lead_id
                   (\<lambda>l. l\<lparr>ld_smart_table_owner_user_id := new_owner, ld_updated_at := now\<rparr>) (leads d),
                 sales_lead_contexts := tdel (\<lambda>x. sc_sales_user_id x = old_owner \<and> sc_lead_id x = lead_id)
                   (sales_lead_contexts d)\<rparr>)
      | _ \<Rightarrow> Inl (ValueError ''operation or lead missing''))"

definition crm_owner_snapshot :: "db \<Rightarrow> lead \<Rightarrow> pstr option" where
  "crm_owner_snapshot d l =
     (let from_identity = (case ld_standard_company_name l of
            Some n \<Rightarrow> if n = [] then None
              else (case tget ci_standard_company_name n (crm_company_identities d) of
                      None \<Rightarrow> None | Some i \<Rightarrow> ci_crm_lead_owner_user_id i)
          | None \<Rightarrow> None)
      in case from_identity of
           Some x \<Rightarrow> Some x
         | None \<Rightarrow> (case max_by (\<lambda>s. int (cs_id s)) (filter (\<lambda>s. cs_lead_id s = ld_id l \<and>
                     cs_status s = ''succeeded'' \<and> cs_crm_lead_owner_user_id s \<noteq> None) (crm_sync_records d)) of
                     None \<Rightarrow> None | Some s \<Rightarrow> cs_crm_lead_owner_user_id s))"

text \<open>Result of the preparation: operation, old owner, record, stored status, and whether it is new.\<close>

type_synonym prepared = "pstr \<times> pstr \<times> pstr \<times> string \<times> bool"

definition reuse :: "owner_transfer_operation \<Rightarrow> prepared" where
  "reuse r = (tr_id r, tr_old_owner_user_id r, tr_smart_table_record_id r, tr_final_status r, False)"

definition new_transfer_row ::
  "time \<Rightarrow> pstr \<Rightarrow> pstr \<Rightarrow> admin_context \<Rightarrow> db \<Rightarrow> lead \<Rightarrow> owner_transfer_operation" where
  "new_transfer_row now new_id new_owner c d l =
     \<lparr>tr_id = new_id, tr_lead_id = ld_id l, tr_smart_table_record_id = the_default [] (ld_smart_table_record_id l),
      tr_request_id = ad_request_id c, tr_operator_subject = ad_operator_subject c,
      tr_operator_role = ad_operator_role c, tr_auth_source = ad_auth_source c, tr_reason = ad_reason c,
      tr_old_owner_user_id = ld_smart_table_owner_user_id l, tr_new_owner_user_id = new_owner,
      tr_original_capturing_sales_user_id = ld_original_capturing_sales_user_id l,
      tr_crm_lead_owner_user_id = crm_owner_snapshot d l, tr_remote_update_state = ''pending'',
      tr_permission_verification_state = ''pending'', tr_final_status = ''processing'',
      tr_failure_code = None, tr_failure_summary = None, tr_created_at = now, tr_updated_at = now\<rparr>"

definition prepare_operation ::
  "time \<Rightarrow> pstr \<Rightarrow> pstr \<Rightarrow> pstr \<Rightarrow> admin_context \<Rightarrow> db \<Rightarrow> (prepared \<times> db) res" where
  "prepare_operation now new_id lead_id new_owner c d =
     (case find (\<lambda>r. tr_request_id r = ad_request_id c) (owner_transfer_operations d) of
        Some r \<Rightarrow>
          if tr_lead_id r \<noteq> lead_id then Inl (ValueError ''request_id bound to another transfer'')
          else if \<not> active_administrator d (ad_operator_subject c) then Inl (PermissionError ''administrator required'')
          else if ad_operator_role c \<noteq> ''administrator'' \<or> py_strip (ad_auth_source c) = []
          then Inl (PermissionError ''administrator role and auth_source required'')
          else if tr_new_owner_user_id r \<noteq> new_owner \<and> tr_final_status r \<noteq> ''succeeded''
          then Inl (ValueError ''other target in progress'')
          else Inr (reuse r, d)
      | None \<Rightarrow>
          (case (get_lead d lead_id, get_actor d (ad_operator_subject c)) of
             (Some l, Some operator) \<Rightarrow>
               if \<not> sa_is_active operator \<or> \<not> sa_is_administrator operator
               then Inl (PermissionError ''administrator required'')
               else if ad_operator_role c \<noteq> ''administrator'' then Inl (PermissionError ''administrator role required'')
               else if py_strip (ad_auth_source c) = [] then Inl (ValueError ''auth_source required'')
               else if \<not> is_active d new_owner then Inl (ValueError ''target must be active'')
               else if the_default [] (ld_smart_table_record_id l) = [] then Inl (ValueError ''no table record'')
               else if ld_smart_table_owner_user_id l = new_owner then Inl (ValueError ''already owner'')
               else if list_ex (\<lambda>x. ld_smart_table_owner_user_id x = new_owner \<and>
                    ld_standard_company_name x = ld_standard_company_name l \<and> ld_id x \<noteq> ld_id l) (leads d)
               then Inl (ValueError ''target has a lead of the same company'')
               else (case find (\<lambda>r. tr_lead_id r = ld_id l \<and>
                      tr_final_status r \<in> set [''processing'', ''pending_recovery'']) (owner_transfer_operations d) of
                      Some r \<Rightarrow>
                        if tr_new_owner_user_id r \<noteq> new_owner then Inl (ValueError ''other target in progress'')
                        else Inr (reuse r, d)
                    | None \<Rightarrow>
                        Inr ((new_id, ld_smart_table_owner_user_id l, the_default [] (ld_smart_table_record_id l), ''processing'', True),
                          d\<lparr>owner_transfer_operations :=
                               tadd (new_transfer_row now new_id new_owner c d l) (owner_transfer_operations d)\<rparr>))
           | _ \<Rightarrow> Inl (ValueError ''lead or administrator missing'')))"

definition snapshot_of_row :: "owner_transfer_operation \<Rightarrow> transfer_snapshot" where
  "snapshot_of_row r = \<lparr>sn_operation_id = tr_id r, sn_lead_id = tr_lead_id r,
     sn_record_id = tr_smart_table_record_id r, sn_old_owner = tr_old_owner_user_id r,
     sn_new_owner = tr_new_owner_user_id r, sn_final_status = tr_final_status r,
     sn_remote_state = tr_remote_update_state r\<rparr>"

definition claim_operation ::
  "time \<Rightarrow> pstr \<Rightarrow> pstr \<Rightarrow> string \<Rightarrow> db \<Rightarrow> ((transfer_snapshot \<times> bool) \<times> db) res" where
  "claim_operation now i operator_subject operator_role d =
     (case get_transfer d i of
        None \<Rightarrow> Inl (ValueError ''operation missing'')
      | Some r \<Rightarrow>
          if \<not> active_administrator d operator_subject then Inl (PermissionError ''administrator required'')
          else if operator_role \<noteq> ''administrator'' then Inl (PermissionError ''administrator role required'')
          else if tr_final_status r \<in> set [''succeeded'', ''remote_update_failed'']
          then Inr ((snapshot_of_row r, False), d)
          else if tr_final_status r = ''processing'' \<and> tr_remote_update_state r = ''pending'' \<and>
                  \<not> operation_lease_expired now (tr_updated_at r)
          then Inr ((snapshot_of_row r, False), d)
          else Inr ((snapshot_of_row r, True),
                 upd_transfer i (\<lambda>r. r\<lparr>tr_final_status := ''processing'', tr_updated_at := now\<rparr>) d))"

definition claim_definite_retry :: "time \<Rightarrow> pstr \<Rightarrow> pstr \<Rightarrow> string \<Rightarrow> db \<Rightarrow> db res" where
  "claim_definite_retry now i operator_subject operator_role d =
     (case (get_transfer d i, get_actor d operator_subject) of
        (Some r, Some operator) \<Rightarrow>
          if \<not> sa_is_active operator \<or> \<not> sa_is_administrator operator then Inl (PermissionError ''administrator required'')
          else if operator_role \<noteq> ''administrator'' then Inl (PermissionError ''administrator role required'')
          else if tr_final_status r \<noteq> ''remote_update_failed'' then Inl (ValueError ''not a definite failure'')
          else Inr (upd_transfer i (\<lambda>r. r\<lparr>tr_final_status := ''processing'', tr_remote_update_state := ''pending'',
                 tr_permission_verification_state := ''pending'', tr_failure_code := None,
                 tr_failure_summary := None, tr_updated_at := now\<rparr>) d)
      | _ \<Rightarrow> Inl (ValueError ''operation or administrator missing''))"

section \<open>The handlers\<close>

type_synonym ('a, 'w) handled = "(exc + 'a) \<times> db \<times> 'w"

definition answer :: "transfer_snapshot \<Rightarrow> string \<Rightarrow> string option \<Rightarrow> pstr option \<Rightarrow> transfer_result" where
  "answer sn status code summary =
     \<lparr>tx_operation_id = sn_operation_id sn, tx_lead_id = sn_lead_id sn, tx_status = status,
      tx_failure_code = code, tx_failure_summary = summary\<rparr>"

text \<open>Record an outcome, then answer; an exception of the recording transaction propagates.\<close>

definition settle :: "db res \<Rightarrow> transfer_result \<Rightarrow> db \<Rightarrow> 'w \<Rightarrow> (transfer_result, 'w) handled" where
  "settle x res d w = (case x of Inl e \<Rightarrow> (Inl e, d, w) | Inr d' \<Rightarrow> (Inr res, d', w))"

definition exc_name :: "exc \<Rightarrow> pstr" where
  "exc_name e = (case e of ValueError _ \<Rightarrow> asc ''ValueError'' | PermissionError _ \<Rightarrow> asc ''PermissionError''
     | RuntimeError _ \<Rightarrow> asc ''RuntimeError'' | TypeError _ \<Rightarrow> asc ''TypeError'' | IntegrityError \<Rightarrow> asc ''IntegrityError'')"

definition resolve_owners ::
  "'w st_adapter \<Rightarrow> transfer_snapshot \<Rightarrow> 'w \<Rightarrow> (exn + pstr \<times> pstr) \<times> 'w" where
  "resolve_owners ad sn w =
     (case resolve_member_user_id ad (sn_old_owner sn) w of
        (Inl e, w1) \<Rightarrow> (Inl e, w1)
      | (Inr old, w1) \<Rightarrow>
          (case resolve_member_user_id ad (sn_new_owner sn) w1 of
             (Inl e, w2) \<Rightarrow> (Inl e, w2)
           | (Inr new, w2) \<Rightarrow> (Inr (old, new), w2)))"

definition verify_permissions ::
  "'w st_adapter \<Rightarrow> 'w permission_verifier \<Rightarrow> transfer_snapshot \<Rightarrow> 'w \<Rightarrow> (exn + permission_verification) \<times> 'w" where
  "verify_permissions ad ver sn w =
     (case resolve_owners ad sn w of
        (Inl e, w1) \<Rightarrow> (Inl e, w1)
      | (Inr (old, new), w1) \<Rightarrow> ver (sn_record_id sn) old new w1)"

definition verify_and_finalize ::
  "'w st_adapter \<Rightarrow> 'w permission_verifier \<Rightarrow> time \<Rightarrow> transfer_snapshot \<Rightarrow> db \<Rightarrow> 'w \<Rightarrow> (transfer_result, 'w) handled" where
  "verify_and_finalize ad ver now sn d w =
     (case verify_permissions ad ver sn w of
        (Inl e, w1) \<Rightarrow>
          (let unavailable = isinstance e [C_PermissionVerificationUnavailable];
               state = (if unavailable then ''unavailable'' else ''failed'');
               code = (if unavailable then ''permission_verification_unavailable'' else ''permission_verification_failed'');
               summary = safe_failure_summary e
           in settle (finish_operation now (sn_operation_id sn) (pending_outcome ''succeeded'' state code summary) d)
                (answer sn code (Some code) (Some summary)) d w1)
      | (Inr v, w1) \<Rightarrow>
          if \<not> verified v
          then settle (finish_operation now (sn_operation_id sn)
                   (pending_outcome ''succeeded'' ''failed'' ''permission_verification_failed'' m_permission) d)
                 (answer sn ''permission_verification_failed'' (Some ''permission_verification_failed'') (Some m_permission)) d w1
          else (case finalize_local_transfer now (sn_operation_id sn) (sn_lead_id sn) (sn_old_owner sn) (sn_new_owner sn) d of
                  Inl e \<Rightarrow>
                    settle (finish_operation now (sn_operation_id sn)
                        (pending_outcome ''succeeded'' ''verified'' ''local_finalize_failed'' (exc_name e)) d)
                      (answer sn ''pending_recovery'' (Some ''local_finalize_failed'') (Some (exc_name e))) d w1
                | Inr d1 \<Rightarrow> (Inr (answer sn ''succeeded'' None None), d1, w1)))"

text \<open>Write the owner column, record what is known of the result, and go on when it succeeded.\<close>

definition write_owner ::
  "'w st_adapter \<Rightarrow> 'w permission_verifier \<Rightarrow> time \<Rightarrow> transfer_snapshot \<Rightarrow> db \<Rightarrow> 'w \<Rightarrow> (transfer_result, 'w) handled" where
  "write_owner ad ver now sn d w =
     (case update_record ad (sn_record_id sn) [(f_owner, PStr (sn_new_owner sn))] w of
        (Inl e, w1) \<Rightarrow>
          (let summary = safe_failure_summary e
           in if isinstance e [C_SmartTableDefiniteRemoteFailure]
              then settle (finish_operation now (sn_operation_id sn) (definite_failure summary) d)
                     (answer sn ''remote_update_failed'' (Some ''definite_remote_failure'') (Some summary)) d w1
              else settle (mark_pending_recovery now (sn_operation_id sn) ''remote_outcome_unknown'' summary d)
                     (answer sn ''pending_recovery'' (Some ''remote_outcome_unknown'') (Some summary)) d w1)
      | (Inr _, w1) \<Rightarrow>
          (case mark_remote_succeeded now (sn_operation_id sn) d of
             Inl e \<Rightarrow> (Inl e, d, w1)
           | Inr d1 \<Rightarrow> verify_and_finalize ad ver now sn d1 w1))"

definition execute_remote_transfer ::
  "'w st_adapter \<Rightarrow> 'w permission_verifier \<Rightarrow> time \<Rightarrow> pstr \<Rightarrow> pstr \<Rightarrow> pstr \<Rightarrow> pstr \<Rightarrow> pstr \<Rightarrow> db \<Rightarrow> 'w \<Rightarrow> (transfer_result, 'w) handled" where
  "execute_remote_transfer ad ver now i lead_id record_id old_owner new_owner d w =
     write_owner ad ver now
       \<lparr>sn_operation_id = i, sn_lead_id = lead_id, sn_record_id = record_id, sn_old_owner = old_owner,
        sn_new_owner = new_owner, sn_final_status = ''processing'', sn_remote_state = ''succeeded''\<rparr> d w"

definition validate_recovery_input :: "admin_context \<Rightarrow> unit res" where
  "validate_recovery_input c =
     (if ad_operator_role c \<noteq> ''administrator'' then Inl (PermissionError ''administrator role required'')
      else case validate_request_id (ad_request_id c) of
        Inl e \<Rightarrow> Inl e
      | Inr _ \<Rightarrow>
          if safe_audit_text (ad_auth_source c) 128 = [] \<or> safe_audit_text (ad_reason c) 512 = []
          then Inl (ValueError ''auth_source, request_id and reason required'') else Inr ())"

definition reconcile_claimed ::
  "'w st_adapter \<Rightarrow> 'w permission_verifier \<Rightarrow> time \<Rightarrow> transfer_snapshot \<Rightarrow> db \<Rightarrow> 'w \<Rightarrow> (transfer_result, 'w) handled" where
  "reconcile_claimed ad ver now sn d w =
     (let pend = (\<lambda>code summary w'. settle (mark_pending_recovery now (sn_operation_id sn) code summary d)
                    (answer sn ''pending_recovery'' (Some code) (Some summary)) d w')
      in case resolve_owners ad sn w of
           (Inl e, w1) \<Rightarrow> pend ''member_identity_resolution_failed'' (safe_failure_summary e) w1
         | (Inr (old_table_id, new_table_id), w1) \<Rightarrow>
             (case get_record ad (sn_record_id sn) w1 of
                (Inl e, w2) \<Rightarrow> pend ''remote_read_failed'' (safe_failure_summary e) w2
              | (Inr None, w2) \<Rightarrow> pend ''remote_read_missing'' m_no_remote_owner w2
              | (Inr (Some r), w2) \<Rightarrow>
                  (let remote_owner = py_get f_owner (rec_fields r)
                   in if py_eq remote_owner (PStr new_table_id)
                      then (case mark_remote_succeeded now (sn_operation_id sn) d of
                              Inl e \<Rightarrow> (Inl e, d, w2)
                            | Inr d1 \<Rightarrow> verify_and_finalize ad ver now sn d1 w2)
                      else if \<not> py_eq remote_owner (PStr old_table_id)
                      then pend ''unexpected_remote_owner'' m_unexpected_owner w2
                      else write_owner ad ver now sn d w2)))"

definition reconcile ::
  "'w st_adapter \<Rightarrow> 'w permission_verifier \<Rightarrow> time \<Rightarrow> pstr \<Rightarrow> admin_context \<Rightarrow> db \<Rightarrow> 'w \<Rightarrow> (transfer_result, 'w) handled" where
  "reconcile ad ver now i c d w =
     (case validate_recovery_input c of
        Inl e \<Rightarrow> (Inl e, d, w)
      | Inr _ \<Rightarrow>
          (case claim_operation now i (ad_operator_subject c) (ad_operator_role c) d of
             Inl e \<Rightarrow> (Inl e, d, w)
           | Inr ((sn, claimed), d1) \<Rightarrow>
               if sn_final_status sn \<in> set [''succeeded'', ''remote_update_failed'']
               then (Inr (answer sn (sn_final_status sn) None None), d1, w)
               else if \<not> claimed then (Inr (answer sn ''processing'' None None), d1, w)
               else reconcile_claimed ad ver now sn d1 w))"

definition transfer ::
  "'w st_adapter \<Rightarrow> 'w permission_verifier \<Rightarrow> time \<Rightarrow> pstr \<Rightarrow> pstr \<Rightarrow> pstr \<Rightarrow> admin_context \<Rightarrow> db \<Rightarrow> 'w \<Rightarrow> (transfer_result, 'w) handled" where
  "transfer ad ver now new_id lead_id new_owner c d w =
     (let reason = safe_audit_text (ad_reason c) 512
      in if reason = [] then (Inl (ValueError ''reason required''), d, w)
         else case validate_request_id (ad_request_id c) of
           Inl e \<Rightarrow> (Inl e, d, w)
         | Inr request_id \<Rightarrow>
             (let auth_source = safe_audit_text (ad_auth_source c) 128;
                  c1 = c\<lparr>ad_reason := reason, ad_request_id := request_id, ad_auth_source := auth_source\<rparr>
              in if auth_source = [] then (Inl (ValueError ''auth_source required''), d, w)
                 else case prepare_operation now new_id lead_id new_owner c1 d of
                   Inl e \<Rightarrow> (Inl e, d, w)
                 | Inr ((i, old_owner, record_id, status, is_new), d1) \<Rightarrow>
                     if \<not> is_new \<and> status = ''succeeded''
                     then (Inr \<lparr>tx_operation_id = i, tx_lead_id = lead_id, tx_status = status,
                                tx_failure_code = None, tx_failure_summary = None\<rparr>, d1, w)
                     else if \<not> is_new \<and> status = ''remote_update_failed''
                     then (case claim_definite_retry now i (ad_operator_subject c) (ad_operator_role c) d1 of
                             Inl e \<Rightarrow> (Inl e, d1, w)
                           | Inr d2 \<Rightarrow> execute_remote_transfer ad ver now i lead_id record_id old_owner new_owner d2 w)
                     else if \<not> is_new then reconcile ad ver now i c1 d1 w
                     else execute_remote_transfer ad ver now i lead_id record_id old_owner new_owner d1 w))"

section \<open>Late results\<close>

text \<open>
  \<open>finish_row\<close> is absorbing on succeeded operations: a worker that reports after its lease ran out
  cannot degrade a transfer another worker has completed.
\<close>

definition transfer_done :: "owner_transfer_operation \<Rightarrow> bool" where
  "transfer_done r = (tr_final_status r = ''succeeded'')"

interpretation transfer_rows: absorbing_op transfer_done finish_row
  by unfold_locales (simp add: transfer_done_def finish_row_def split: prod.splits)

section \<open>Frames\<close>

text \<open>What a transfer may touch: its operation table, the leads and the salespersons' contexts.\<close>

definition transfer_frame :: "db \<Rightarrow> db \<Rightarrow> bool" where
  "transfer_frame d d' = (\<exists>ops ls cs. d' = d\<lparr>owner_transfer_operations := ops, leads := ls, sales_lead_contexts := cs\<rparr>)"

lemma transfer_frame_refl [simp]: "transfer_frame d d"
  unfolding transfer_frame_def by (intro exI [of _ "owner_transfer_operations d"] exI [of _ "leads d"]
      exI [of _ "sales_lead_contexts d"]) simp

lemma transfer_frame_trans: "transfer_frame a b \<Longrightarrow> transfer_frame b c \<Longrightarrow> transfer_frame a c"
  unfolding transfer_frame_def by (elim exE, simp, blast)

lemma transfer_frame_ops [simp]: "transfer_frame d (d\<lparr>owner_transfer_operations := ops\<rparr>)"
  unfolding transfer_frame_def by (intro exI [of _ ops] exI [of _ "leads d"]
      exI [of _ "sales_lead_contexts d"]) simp

definition unmoved :: "db \<Rightarrow> db \<Rightarrow> bool" where
  "unmoved d d' = (transfer_frame d d' \<and> leads d' = leads d \<and> sales_lead_contexts d' = sales_lead_contexts d)"

lemma unmoved_refl [simp]: "unmoved d d"
  by (simp add: unmoved_def)

lemma unmoved_trans: "unmoved a b \<Longrightarrow> unmoved b c \<Longrightarrow> unmoved a c"
  unfolding unmoved_def by (auto intro: transfer_frame_trans)

lemma unmoved_ops [simp]: "unmoved d (d\<lparr>owner_transfer_operations := ops\<rparr>)"
  by (simp add: unmoved_def)

lemma finish_unmoved: "finish_operation now i out d = Inr d' \<Longrightarrow> unmoved d d'"
  by (auto simp: finish_operation_def split: option.splits)

lemma mark_unmoved:
  "mark_pending_recovery now i code s d = Inr d' \<Longrightarrow> unmoved d d'"
  "mark_remote_succeeded now i d = Inr d' \<Longrightarrow> unmoved d d'"
  by (auto simp: mark_pending_recovery_def mark_remote_succeeded_def intro: finish_unmoved)

lemma settle_unmoved:
  assumes "settle x res0 d w = (res, d', w')" and "\<And>e. x = Inr e \<Longrightarrow> unmoved d e"
  shows "unmoved d d'"
  using assms by (auto simp: settle_def split: sum.splits)

lemma prepare_unmoved: "prepare_operation now nid lid new_owner c d = Inr (p, d') \<Longrightarrow> unmoved d d'"
  by (auto simp: prepare_operation_def Let_def split: option.splits if_splits)

lemma claim_unmoved:
  "claim_operation now i u role d = Inr (x, d') \<Longrightarrow> unmoved d d'"
  "claim_definite_retry now i u role d = Inr d' \<Longrightarrow> unmoved d d'"
  by (auto simp: claim_operation_def claim_definite_retry_def split: option.splits if_splits)

section \<open>When a lead moves\<close>

text \<open>The one way a handler changes a lead: a verified permission check, then the local transaction.\<close>

definition moved :: "'w permission_verifier \<Rightarrow> time \<Rightarrow> db \<Rightarrow> db \<Rightarrow> bool" where
  "moved ver now d d' = (\<exists>d0 i lid old new rid o' n' w0 v w1. unmoved d d0 \<and>
     ver rid o' n' w0 = (Inr v, w1) \<and> verified v \<and> finalize_local_transfer now i lid old new d0 = Inr d')"

lemma moved_after: "unmoved d d1 \<Longrightarrow> moved ver now d1 d' \<Longrightarrow> moved ver now d d'"
  unfolding moved_def by (meson unmoved_trans)

lemma verify_and_finalize_moves:
  assumes "verify_and_finalize ad ver now sn d w = (res, d', w')"
  shows "unmoved d d' \<or> moved ver now d d'"
proof (cases "verify_permissions ad ver sn w")
  case (Pair out w1)
  show ?thesis
  proof (cases out)
    case (Inl e)
    with assms Pair show ?thesis
      by (auto simp: verify_and_finalize_def Let_def elim!: settle_unmoved intro: finish_unmoved)
  next
    case (Inr v)
    obtain o' n' w0 where ver: "ver (sn_record_id sn) o' n' w0 = (Inr v, w1)"
      using Pair Inr by (auto simp: verify_permissions_def split: prod.splits sum.splits)
    show ?thesis
    proof (cases "verified v")
      case False
      with assms Pair Inr show ?thesis
        by (auto simp: verify_and_finalize_def elim!: settle_unmoved intro: finish_unmoved)
    next
      case True
      with ver have mv: "finalize_local_transfer now (sn_operation_id sn) (sn_lead_id sn) (sn_old_owner sn)
          (sn_new_owner sn) d = Inr d' \<Longrightarrow> moved ver now d d'"
        unfolding moved_def by (meson unmoved_refl)
      from True assms Pair Inr mv show ?thesis
        by (auto simp: verify_and_finalize_def split: sum.splits elim!: settle_unmoved intro: finish_unmoved)
    qed
  qed
qed

lemma write_owner_moves:
  assumes "write_owner ad ver now sn d w = (res, d', w')"
  shows "unmoved d d' \<or> moved ver now d d'"
proof (cases "update_record ad (sn_record_id sn) [(f_owner, PStr (sn_new_owner sn))] w")
  case (Pair out w1)
  show ?thesis
  proof (cases out)
    case (Inl e)
    with assms Pair show ?thesis
      by (auto simp: write_owner_def Let_def split: if_splits elim!: settle_unmoved intro: finish_unmoved mark_unmoved)
  next
    case (Inr r)
    show ?thesis
    proof (cases "mark_remote_succeeded now (sn_operation_id sn) d")
      case (Inl e)
      with assms Pair Inr show ?thesis by (simp add: write_owner_def)
    next
      case (Inr d1)
      with assms Pair \<open>out = Inr r\<close> have "verify_and_finalize ad ver now sn d1 w1 = (res, d', w')"
        by (simp add: write_owner_def)
      from verify_and_finalize_moves [OF this] mark_unmoved(2) [OF Inr] show ?thesis
        by (meson moved_after unmoved_trans)
    qed
  qed
qed

lemma reconcile_claimed_moves:
  assumes "reconcile_claimed ad ver now sn d w = (res, d', w')"
  shows "unmoved d d' \<or> moved ver now d d'"
proof -
  have vf: "unmoved d d' \<or> moved ver now d d'"
    if "mark_remote_succeeded now (sn_operation_id sn) d = Inr d1" "verify_and_finalize ad ver now sn d1 w2 = (res, d', w')" for d1 w2
    using verify_and_finalize_moves [OF that(2)] mark_unmoved(2) [OF that(1)] by (meson moved_after unmoved_trans)
  have pend: "unmoved d d'"
    if "settle (mark_pending_recovery now i code s d) r d w2 = (res, d', w')" for i code s r w2
    using that by (rule settle_unmoved) (rule mark_unmoved(1))
  show ?thesis
    using assms unfolding reconcile_claimed_def Let_def
    by (auto split: prod.splits sum.splits option.splits if_splits dest: pend vf write_owner_moves)
qed

lemma reconcile_moves:
  assumes "reconcile ad ver now i c d w = (res, d', w')"
  shows "unmoved d d' \<or> moved ver now d d'"
proof -
  have "unmoved d d' \<or> moved ver now d d'"
    if "claim_operation now i (ad_operator_subject c) (ad_operator_role c) d = Inr (x, d1)"
      "reconcile_claimed ad ver now sn d1 w = (res, d', w')" for x d1 sn
    using reconcile_claimed_moves [OF that(2)] claim_unmoved(1) [OF that(1)] by (meson moved_after unmoved_trans)
  then show ?thesis
    using assms unfolding reconcile_def
    by (auto split: sum.splits prod.splits if_splits dest: claim_unmoved)
qed

lemma transfer_moves:
  assumes "transfer ad ver now nid lid new_owner c d w = (res, d', w')"
  shows "unmoved d d' \<or> moved ver now d d'"
proof -
  have ex: "unmoved d d' \<or> moved ver now d d'"
    if "unmoved d e" "execute_remote_transfer ad ver now i lid rid old new_owner e w = (res, d', w')" for e i rid old
    using write_owner_moves [OF that(2) [unfolded execute_remote_transfer_def]] that(1) by (meson moved_after unmoved_trans)
  have rc: "unmoved d d' \<or> moved ver now d d'"
    if "unmoved d e" "reconcile ad ver now i c' e w = (res, d', w')" for e i c'
    using reconcile_moves [OF that(2)] that(1) by (meson moved_after unmoved_trans)
  show ?thesis
    using assms unfolding transfer_def Let_def
    by (auto split: sum.splits prod.splits if_splits dest!: prepare_unmoved claim_unmoved(2)
        dest: ex rc unmoved_trans)
qed

lemma finalize_effect:
  assumes "finalize_local_transfer now i lid old new d = Inr d'"
  obtains l where "get_lead d lid = Some l" "ld_smart_table_owner_user_id l = old" "ld_lifecycle_state l \<noteq> ''discarded''"
    "leads d' = tupd ld_id lid (\<lambda>l. l\<lparr>ld_smart_table_owner_user_id := new, ld_updated_at := now\<rparr>) (leads d)"
    "transfer_frame d d'"
proof -
  have fr: "transfer_frame d (d\<lparr>owner_transfer_operations := ops, leads := ls, sales_lead_contexts := cs\<rparr>)" for ops ls cs
    unfolding transfer_frame_def by blast
  show thesis
    using assms fr that by (auto simp: finalize_local_transfer_def split: option.splits if_splits)
qed

section \<open>Properties\<close>



text \<open>
  A transfer touches nothing but its operation row, the lead's owner (with its modification time)
  and the old owner's context: every lead keeps all its other data, in particular its capturing
  salesperson and lifecycle, no lead appears or disappears, and messages, CRM records and company
  identities are untouched.
\<close>

theorem transfer_changes_only_owner:
  assumes "transfer ad ver now nid lid new_owner c d w = (res, d', w')"
  shows "\<exists>ops ls cs. d' = d\<lparr>owner_transfer_operations := ops, leads := ls, sales_lead_contexts := cs\<rparr> \<and>
    list_all2 (\<lambda>l l'. \<exists>o' t. l' = l\<lparr>ld_smart_table_owner_user_id := o', ld_updated_at := t\<rparr>) (leads d) ls"
proof -
  have same: "\<exists>o' t. l = l\<lparr>ld_smart_table_owner_user_id := o', ld_updated_at := t\<rparr>" for l :: lead
    by (intro exI [of _ "ld_smart_table_owner_user_id l"] exI [of _ "ld_updated_at l"]) simp
  have upd: "list_all2 (\<lambda>l l'. \<exists>o' t. l' = l\<lparr>ld_smart_table_owner_user_id := o', ld_updated_at := t\<rparr>) ls
      (tupd ld_id k (\<lambda>l. l\<lparr>ld_smart_table_owner_user_id := n, ld_updated_at := now\<rparr>) ls)" for ls :: "lead list" and k n
    using same by (simp add: tupd_def list_all2_map2 list_all2_same) blast
  have "transfer_frame d d' \<and>
     list_all2 (\<lambda>l l'. \<exists>o' t. l' = l\<lparr>ld_smart_table_owner_user_id := o', ld_updated_at := t\<rparr>) (leads d) (leads d')"
    using transfer_moves [OF assms]
  proof
    assume "unmoved d d'"
    then show ?thesis using same by (auto simp: unmoved_def list_all2_conv_all_nth)
  next
    assume "moved ver now d d'"
    then obtain d0 i k old new where d0: "unmoved d d0" and fin: "finalize_local_transfer now i k old new d0 = Inr d'"
      by (auto simp: moved_def)
    from fin obtain l where "leads d' = tupd ld_id k (\<lambda>l. l\<lparr>ld_smart_table_owner_user_id := new, ld_updated_at := now\<rparr>) (leads d0)"
      "transfer_frame d0 d'" by (rule finalize_effect)
    with d0 upd [of "leads d" k new] show ?thesis by (auto simp: unmoved_def intro: transfer_frame_trans)
  qed
  moreover from this obtain ops ls cs where "d' = d\<lparr>owner_transfer_operations := ops, leads := ls, sales_lead_contexts := cs\<rparr>"
    by (auto simp: transfer_frame_def)
  ultimately show ?thesis by (intro exI [of _ ops] exI [of _ ls] exI [of _ cs]) simp
qed

definition root_actor :: sales_authorization where
  "root_actor = (new_actor (asc ''root'') None True None 0)\<lparr>sa_is_administrator := True\<rparr>"

definition transfer_lead :: lead where
  "transfer_lead = \<lparr>ld_id = asc ''L'', ld_source_message_id = Some (asc ''m1''), ld_source_segment_index = 0,
     ld_original_capturing_sales_user_id = asc ''amy'', ld_smart_table_owner_user_id = asc ''amy'',
     ld_smart_table_record_id = Some (asc ''r1''), ld_lifecycle_state = ''temporary'', ld_field_values = [],
     ld_enrichment_values = [], ld_standard_company_name = None, ld_company_region = ''unknown'',
     ld_company_verification_status = ''incomplete_company'', ld_tyc_customer_id = None,
     ld_company_confirmed_by_user = False, ld_created_at = 0, ld_updated_at = 0\<rparr>"

definition transfer_db :: db where
  "transfer_db = empty_db\<lparr>sales_authorizations := [root_actor, new_actor (asc ''amy'') None True None 0,
       new_actor (asc ''bob'') None True None 0], leads := [transfer_lead]\<rparr>"

definition transfer_ctx :: admin_context where
  "transfer_ctx = \<lparr>ad_operator_subject = asc ''root'', ad_operator_role = ''administrator'', ad_auth_source = asc ''sso'',
      ad_request_id = asc ''q1'', ad_reason = asc ''left''\<rparr>"

definition trusting_verifier :: "'w permission_verifier" where
  "trusting_verifier rid old new w = (Inr \<lparr>new_owner_can_view = True, new_owner_can_edit = True,
     old_owner_can_view = False, old_owner_can_edit = False\<rparr>, w)"

theorem transfer_changes_only_owner_witness:
  "\<exists>res d' w'. transfer (mock_adapter [] (\<lambda>_. [])) trusting_verifier 5 (asc ''op'') (asc ''L'') (asc ''bob'')
      transfer_ctx transfer_db one_row = (res, d', w') \<and>
    (\<exists>ops ls cs. d' = transfer_db\<lparr>owner_transfer_operations := ops, leads := ls, sales_lead_contexts := cs\<rparr>)"
proof -
  obtain res d' w' where h: "transfer (mock_adapter [] (\<lambda>_. [])) trusting_verifier 5 (asc ''op'') (asc ''L'') (asc ''bob'')
      transfer_ctx transfer_db one_row = (res, d', w')" by (metis prod_cases3)
  from h transfer_changes_only_owner [OF h] show ?thesis by blast
qed

text \<open>
  A completed transfer stays completed: whatever sequence of outcomes late workers report for it,
  the operation row does not change.
\<close>

theorem succeeded_transfer_absorbs:
  assumes "tr_final_status r = ''succeeded''"
  shows "fold finish_row outs r = r"
  by (rule transfer_rows.run_absorb) (simp add: transfer_done_def assms)

definition done_row :: owner_transfer_operation where
  "done_row = \<lparr>tr_id = asc ''op'', tr_lead_id = asc ''L'', tr_smart_table_record_id = asc ''r1'', tr_request_id = asc ''q1'',
     tr_operator_subject = asc ''root'', tr_operator_role = ''administrator'', tr_auth_source = asc ''sso'',
     tr_reason = asc ''left'', tr_old_owner_user_id = asc ''amy'', tr_new_owner_user_id = asc ''bob'',
     tr_original_capturing_sales_user_id = asc ''amy'', tr_crm_lead_owner_user_id = None,
     tr_remote_update_state = ''succeeded'', tr_permission_verification_state = ''verified'',
     tr_final_status = ''succeeded'', tr_failure_code = None, tr_failure_summary = None, tr_created_at = 0, tr_updated_at = 0\<rparr>"

theorem succeeded_transfer_absorbs_witness:
  "fold finish_row [(9, definite_failure (asc ''late''))] done_row = done_row"
  by (rule succeeded_transfer_absorbs) (simp add: done_row_def)

text \<open>The request as the handler normalises it.\<close>

definition normalised :: "admin_context \<Rightarrow> pstr \<Rightarrow> admin_context" where
  "normalised c q = c\<lparr>ad_reason := safe_audit_text (ad_reason c) 512, ad_request_id := q,
     ad_auth_source := safe_audit_text (ad_auth_source c) 128\<rparr>"

definition request_ok :: "admin_context \<Rightarrow> pstr \<Rightarrow> bool" where
  "request_ok c q = (safe_audit_text (ad_reason c) 512 \<noteq> [] \<and> safe_audit_text (ad_auth_source c) 128 \<noteq> [] \<and>
     validate_request_id (ad_request_id c) = Inr q)"

lemma transfer_request_ok:
  assumes "request_ok c q"
  shows "transfer ad ver now nid lid new_owner c d w =
    (case prepare_operation now nid lid new_owner (normalised c q) d of
       Inl e \<Rightarrow> (Inl e, d, w)
     | Inr ((i, old_owner, record_id, status, is_new), d1) \<Rightarrow>
         if \<not> is_new \<and> status = ''succeeded''
         then (Inr \<lparr>tx_operation_id = i, tx_lead_id = lid, tx_status = status,
                    tx_failure_code = None, tx_failure_summary = None\<rparr>, d1, w)
         else if \<not> is_new \<and> status = ''remote_update_failed''
         then (case claim_definite_retry now i (ad_operator_subject c) (ad_operator_role c) d1 of
                 Inl e \<Rightarrow> (Inl e, d1, w)
               | Inr d2 \<Rightarrow> execute_remote_transfer ad ver now i lid record_id old_owner new_owner d2 w)
         else if \<not> is_new then reconcile ad ver now i (normalised c q) d1 w
         else execute_remote_transfer ad ver now i lid record_id old_owner new_owner d1 w)"
  using assms unfolding transfer_def normalised_def Let_def by (simp add: request_ok_def)

text \<open>What preparing a new operation stores.\<close>

lemma prepare_new:
  assumes "prepare_operation now nid lid new_owner c d = Inr ((i, old, rid, status, True), d1)"
  shows "\<exists>l. i = nid \<and> get_lead d lid = Some l \<and> old = ld_smart_table_owner_user_id l \<and>
    d1 = d\<lparr>owner_transfer_operations := owner_transfer_operations d @ [new_transfer_row now nid new_owner c d l]\<rparr> \<and>
    find (\<lambda>r. tr_request_id r = ad_request_id c) (owner_transfer_operations d) = None \<and>
    active_administrator d (ad_operator_subject c) \<and> ad_operator_role c = ''administrator'' \<and>
    py_strip (ad_auth_source c) \<noteq> []"
proof -
  have none: "find (\<lambda>r. tr_request_id r = ad_request_id c) (owner_transfer_operations d) = None"
    using assms by (auto simp: prepare_operation_def reuse_def split: option.splits if_splits)
  then obtain l a where la: "get_lead d lid = Some l" "get_actor d (ad_operator_subject c) = Some a"
    using assms by (auto simp: prepare_operation_def split: option.splits)
  show ?thesis
    using assms none la
    by (auto simp: prepare_operation_def reuse_def tadd_def active_administrator_def split: if_splits option.splits)
qed

text \<open>
  When nothing goes wrong the transfer completes: for a well-formed request, if a new operation is
  prepared, the table accepts the owner, both members resolve, the permission check confirms, and
  the lead has not been discarded, the call answers success, the lead belongs to the new owner, the
  old owner's context of the lead is gone and the operation is recorded as succeeded.
\<close>

theorem transfer_completes:
  assumes "request_ok c q"
    and "prepare_operation now nid lid new_owner (normalised c q) d = Inr ((i, old, rid, status, True), d1)"
    and "get_transfer d nid = None"
    and "get_lead d lid = Some l" and "ld_lifecycle_state l \<noteq> ''discarded''"
    and "update_record ad rid [(f_owner, PStr new_owner)] w = (Inr row, w1)"
    and "resolve_member_user_id ad old w1 = (Inr o1, w2)"
    and "resolve_member_user_id ad new_owner w2 = (Inr o2, w3)"
    and "ver rid o1 o2 w3 = (Inr v, w4)" and "verified v"
  shows "\<exists>res d' op. transfer ad ver now nid lid new_owner c d w = (Inr res, d', w4) \<and> tx_status res = ''succeeded'' \<and>
    get_lead d' lid = Some (l\<lparr>ld_smart_table_owner_user_id := new_owner, ld_updated_at := now\<rparr>) \<and>
    (\<forall>x\<in>set (sales_lead_contexts d'). \<not> (sc_sales_user_id x = old \<and> sc_lead_id x = lid)) \<and>
    get_transfer d' nid = Some op \<and> tr_final_status op = ''succeeded''"
proof -
  let ?r = "new_transfer_row now nid new_owner (normalised c q) d l"
  have p: "i = nid" "old = ld_smart_table_owner_user_id l"
    "d1 = d\<lparr>owner_transfer_operations := owner_transfer_operations d @ [?r]\<rparr>"
    using prepare_new [OF assms(2)] assms(4) by auto
  have rid: "tr_id ?r = nid" by (simp add: new_transfer_row_def)
  let ?f = "finish_row (now, \<lparr>to_remote = ''succeeded'', to_permission = ''pending'', to_final = ''processing'',
       to_code = None, to_summary = None\<rparr>)"
  let ?d2 = "upd_transfer nid ?f d1"
  have row: "get_transfer d1 nid = Some ?r" using p rid assms(3) by (simp add: tget_append)
  have keep: "tr_id (?f x) = tr_id x" for x by (simp add: finish_row_def)
  have row2: "get_transfer ?d2 nid = Some (?f ?r)" using row by (simp add: tget_tupd_same keep)
  have mark: "mark_remote_succeeded now nid d1 = Inr ?d2"
    using row by (simp add: mark_remote_succeeded_def finish_operation_def)
  have lead2: "get_lead ?d2 lid = Some l" "ld_smart_table_owner_user_id l = old" using p assms(4) by simp_all
  let ?g = "\<lambda>r. r\<lparr>tr_permission_verification_state := ''verified'', tr_final_status := ''succeeded'',
      tr_failure_code := None, tr_failure_summary := None, tr_updated_at := now\<rparr>"
  let ?d3 = "?d2\<lparr>owner_transfer_operations := tupd tr_id nid ?g (owner_transfer_operations ?d2),
     leads := tupd ld_id lid (\<lambda>l. l\<lparr>ld_smart_table_owner_user_id := new_owner, ld_updated_at := now\<rparr>) (leads ?d2),
     sales_lead_contexts := tdel (\<lambda>x. sc_sales_user_id x = old \<and> sc_lead_id x = lid) (sales_lead_contexts ?d2)\<rparr>"
  have fin: "finalize_local_transfer now nid lid old new_owner ?d2 = Inr ?d3"
    using row2 lead2 assms(5) by (simp add: finalize_local_transfer_def)
  have run: "\<exists>res. transfer ad ver now nid lid new_owner c d w = (Inr res, ?d3, w4) \<and> tx_status res = ''succeeded''"
    using assms(2,6-10) p mark fin
    by (simp add: transfer_request_ok [OF assms(1)] execute_remote_transfer_def write_owner_def
        verify_and_finalize_def verify_permissions_def resolve_owners_def answer_def)
  have "get_lead ?d3 lid = Some (l\<lparr>ld_smart_table_owner_user_id := new_owner, ld_updated_at := now\<rparr>)"
    using lead2 by (simp add: tget_tupd_same)
  moreover have "\<forall>x\<in>set (sales_lead_contexts ?d3). \<not> (sc_sales_user_id x = old \<and> sc_lead_id x = lid)"
    by (simp add: tdel_def)
  moreover have "get_transfer ?d3 nid = Some (?g (?f ?r))" using row2 by (simp add: tget_tupd_same)
  moreover have "tr_final_status (?g (?f ?r)) = ''succeeded''" by simp
  moreover obtain res where "transfer ad ver now nid lid new_owner c d w = (Inr res, ?d3, w4)" "tx_status res = ''succeeded''"
    using run by blast
  ultimately show ?thesis by blast
qed

lemma transfer_ctx_ok:
  "request_ok transfer_ctx (asc ''q1'')" "normalised transfer_ctx (asc ''q1'') = transfer_ctx"
  "py_strip (asc ''sso'') = asc ''sso''"
proof -
  have t: "safe_audit_text (asc ''left'') 512 = asc ''left''" "safe_audit_text (asc ''sso'') 128 = asc ''sso''"
    "validate_request_id (asc ''q1'') = Inr (asc ''q1'')" "py_strip (asc ''sso'') = asc ''sso''"
    by code_simp+
  from t show "request_ok transfer_ctx (asc ''q1'')" by (simp add: request_ok_def transfer_ctx_def)
  from t show "normalised transfer_ctx (asc ''q1'') = transfer_ctx" by (simp add: normalised_def transfer_ctx_def)
  from t show "py_strip (asc ''sso'') = asc ''sso''" by simp
qed

lemma transfer_db_prepares:
  "prepare_operation 5 (asc ''op'') (asc ''L'') (asc ''bob'') transfer_ctx transfer_db =
     Inr ((asc ''op'', asc ''amy'', asc ''r1'', ''processing'', True),
       transfer_db\<lparr>owner_transfer_operations := [new_transfer_row 5 (asc ''op'') (asc ''bob'') transfer_ctx transfer_db transfer_lead]\<rparr>)"
  using transfer_ctx_ok(3)
  by (simp add: prepare_operation_def transfer_db_def transfer_ctx_def empty_db_def root_actor_def new_actor_def
      transfer_lead_def is_active_def tadd_def)

theorem transfer_completes_witness:
  "\<exists>res d' w'. transfer (mock_adapter [] (\<lambda>_. [])) trusting_verifier 5 (asc ''op'') (asc ''L'') (asc ''bob'')
      transfer_ctx transfer_db one_row = (Inr res, d', w') \<and> tx_status res = ''succeeded'' \<and>
    get_lead d' (asc ''L'') = Some (transfer_lead\<lparr>ld_smart_table_owner_user_id := asc ''bob'', ld_updated_at := 5\<rparr>)"
proof -
  have prep: "prepare_operation 5 (asc ''op'') (asc ''L'') (asc ''bob'') (normalised transfer_ctx (asc ''q1'')) transfer_db =
     Inr ((asc ''op'', asc ''amy'', asc ''r1'', ''processing'', True),
       transfer_db\<lparr>owner_transfer_operations := [new_transfer_row 5 (asc ''op'') (asc ''bob'') transfer_ctx transfer_db transfer_lead]\<rparr>)"
    using transfer_db_prepares by (simp add: transfer_ctx_ok)
  have ro: "\<not> read_only_field f_owner" and st: "py_strip (asc ''amy'') \<noteq> []" "py_strip (asc ''bob'') \<noteq> []" by code_simp+
  obtain row w1 where upd: "update_record (mock_adapter [] (\<lambda>_. [])) (asc ''r1'') [(f_owner, PStr (asc ''bob''))] one_row = (Inr row, w1)"
    using ro by (simp add: mock_adapter_def mock_update_record_def one_row_def Let_def)
  have none: "get_transfer transfer_db (asc ''op'') = None" by (simp add: transfer_db_def empty_db_def)
  have lead: "get_lead transfer_db (asc ''L'') = Some transfer_lead" by (simp add: transfer_db_def transfer_lead_def)
  have live: "ld_lifecycle_state transfer_lead \<noteq> ''discarded''" by (simp add: transfer_lead_def)
  have r1: "resolve_member_user_id (mock_adapter [] (\<lambda>_. [])) (asc ''amy'') w1 = (Inr (asc ''amy''), w1)"
    and r2: "resolve_member_user_id (mock_adapter [] (\<lambda>_. [])) (asc ''bob'') w1 = (Inr (asc ''bob''), w1)"
    using st by (simp_all add: mock_adapter_def mock_resolve_member_user_id_def)
  let ?v = "\<lparr>new_owner_can_view = True, new_owner_can_edit = True, old_owner_can_view = False, old_owner_can_edit = False\<rparr>"
  have ver: "trusting_verifier (asc ''r1'') (asc ''amy'') (asc ''bob'') w1 = (Inr ?v, w1)" by (simp add: trusting_verifier_def)
  have "verified ?v" by (simp add: verified_def)
  from transfer_completes [where ver = trusting_verifier, OF transfer_ctx_ok(1) prep none lead live upd r1 r2 ver this] show ?thesis by blast
qed


text \<open>An adapter whose writes time out, and the mock table otherwise.\<close>

definition timeout_adapter :: "mock_table st_adapter" where
  "timeout_adapter = (mock_adapter [] (\<lambda>_. []))\<lparr>update_record :=
     (\<lambda>i f w. (Inl (plain_exn (asc ''TimeoutError'') [C_TimeoutError, C_OSError]), w))\<rparr>"


text \<open>
  Unnamed leads block each other: a lead without a standard company name cannot be transferred to a
  salesperson who owns any other lead without one, however unrelated; the request is refused as a
  second lead of the same company.
\<close>

theorem unnamed_leads_conflict:
  assumes "get_lead d lid = Some l" and "ld_standard_company_name l = None"
    and "x \<in> set (leads d)" and "ld_standard_company_name x = None" and "ld_id x \<noteq> lid"
    and "ld_smart_table_owner_user_id x = new_owner"
  shows "\<not> (\<exists>i old rid status d1. prepare_operation now nid lid new_owner c d = Inr ((i, old, rid, status, True), d1))"
proof -
  have "ld_id l = lid" using tget_SomeD [OF assms(1)] by simp
  with assms have "list_ex (\<lambda>x. ld_smart_table_owner_user_id x = new_owner \<and>
      ld_standard_company_name x = ld_standard_company_name l \<and> ld_id x \<noteq> ld_id l) (leads d)"
    by (auto simp: list_ex_iff)
  with assms(1) show ?thesis
    by (auto simp: prepare_operation_def reuse_def split: option.splits if_splits)
qed

theorem unnamed_leads_conflict_witness:
  "\<not> (\<exists>i old rid status d1. prepare_operation 5 (asc ''op'') (asc ''L'') (asc ''bob'') transfer_ctx
     (transfer_db\<lparr>leads := [transfer_lead, transfer_lead\<lparr>ld_id := asc ''M'', ld_smart_table_owner_user_id := asc ''bob''\<rparr>]\<rparr>)
     = Inr ((i, old, rid, status, True), d1))"
  by (rule unnamed_leads_conflict [where l = transfer_lead and
        x = "transfer_lead\<lparr>ld_id := asc ''M'', ld_smart_table_owner_user_id := asc ''bob''\<rparr>"])
    (simp_all add: transfer_lead_def)

end
