(* ===== verification/Admin_Create.thy ===== *)
theory Admin_Create
  imports Owner_Transfer
begin

text \<open>
  \<^verbatim>\<open>app/leads/admin_create.py\<close> and \<^verbatim>\<open>app/leads/capture.py\<close>: an administrator adds a lead that has no source
  message. The lead and its operation row are stored first, then the table row is created; an
  interrupted creation is reconciled by looking for the row, never by creating a second one.
  The identifiers of the new lead and operation are arguments; the handler conventions are those of
  \<^verbatim>\<open>Owner_Transfer\<close>.
\<close>

record admin_creation_result =
  acr_operation_id :: pstr
  acr_lead_id :: pstr
  acr_status :: string
  acr_failure_code :: "string option"
  acr_failure_summary :: "pstr option"

record admin_creation_snapshot =
  as_operation_id :: pstr
  as_lead_id :: pstr
  as_owner_user_id :: pstr
  as_record_id :: "pstr option"
  as_final_status :: string
  as_remote_state :: string

abbreviation get_creation :: "db \<Rightarrow> pstr \<Rightarrow> admin_lead_creation_operation option" where
  "get_creation d i \<equiv> tget ac_id i (admin_lead_creation_operations d)"

abbreviation upd_creation ::
  "pstr \<Rightarrow> (admin_lead_creation_operation \<Rightarrow> admin_lead_creation_operation) \<Rightarrow> db \<Rightarrow> db" where
  "upd_creation i f d \<equiv> d\<lparr>admin_lead_creation_operations := tupd ac_id i f (admin_lead_creation_operations d)\<rparr>"

section \<open>Capture defaults\<close>

definition default_rows :: "lead \<Rightarrow> fields \<Rightarrow> nat \<Rightarrow> fields \<Rightarrow> lead_field_provenance list" where
  "default_rows l values start defaults =
     map (\<lambda>(k, (name, v)). \<lparr>lp_id = k, lp_lead_id = ld_id l, lp_source_message_id = ld_source_message_id l,
        lp_field_name = name, lp_value = (case v of PStr s \<Rightarrow> s | _ \<Rightarrow> []),
        lp_last_ai_synced_value = Some (case v of PStr s \<Rightarrow> s | _ \<Rightarrow> []), lp_is_system_default = True,
        lp_is_user_modified = False, lp_is_user_confirmed = False\<rparr>)
       (enumerate start (filter (\<lambda>(name, v). \<not> py_truthy (py_get name values)) defaults))"

definition initialize_lead_capture :: "env \<Rightarrow> time \<Rightarrow> lead \<Rightarrow> db \<Rightarrow> db" where
  "initialize_lead_capture env now l d =
     (let message = (case ld_source_message_id l of
            Some m \<Rightarrow> if m = [] then None else get_message d m | None \<Rightarrow> None);
          received_at = (case message of Some m \<Rightarrow> im_received_at m | None \<Rightarrow> ld_created_at l);
          values = dset f_entry_time (PStr (e_shanghai_text env received_at)) (ld_field_values l);
          missing = filter (\<lambda>(name, v). \<not> py_truthy (py_get name values)) DEFAULT_LEAD_BUSINESS_VALUES;
          rows = default_rows l values (next_id lp_id (lead_field_provenances d)) DEFAULT_LEAD_BUSINESS_VALUES
      in upd_lead (ld_id l) (\<lambda>x. x\<lparr>ld_field_values := dmerge values missing, ld_updated_at := now\<rparr>)
           (d\<lparr>lead_field_provenances := lead_field_provenances d @ rows\<rparr>))"

section \<open>Transactions\<close>

definition admin_finish_row ::
  "time \<times> string \<times> string \<times> pstr \<times> string option \<times> pstr option \<Rightarrow>
   admin_lead_creation_operation \<Rightarrow> admin_lead_creation_operation" where
  "admin_finish_row a r = (case a of (now, remote_state, final_status, summary, failure_code, record_id) \<Rightarrow>
     if ac_final_status r = ''succeeded'' then r
     else r\<lparr>ac_remote_update_state := remote_state,
            ac_smart_table_record_id := (case record_id of Some x \<Rightarrow> Some x | None \<Rightarrow> ac_smart_table_record_id r),
            ac_final_status := final_status, ac_failure_code := failure_code,
            ac_failure_summary := (if summary = [] then None else Some summary), ac_updated_at := now\<rparr>)"

definition admin_finish ::
  "time \<Rightarrow> pstr \<Rightarrow> string \<Rightarrow> string \<Rightarrow> pstr \<Rightarrow> string option \<Rightarrow> pstr option \<Rightarrow> db \<Rightarrow> db res" where
  "admin_finish now i remote_state final_status summary failure_code record_id d =
     (case get_creation d i of
        None \<Rightarrow> Inl (ValueError ''operation missing'')
      | Some _ \<Rightarrow> Inr (upd_creation i
          (admin_finish_row (now, remote_state, final_status, summary, failure_code, record_id)) d))"

text \<open>\<^verbatim>\<open>leads.smart_table_record_id\<close> is unique.\<close>

definition record_taken :: "db \<Rightarrow> pstr \<Rightarrow> pstr \<Rightarrow> bool" where
  "record_taken d lead_id record_id =
     list_ex (\<lambda>x. ld_smart_table_record_id x = Some record_id \<and> ld_id x \<noteq> lead_id) (leads d)"

definition finalize_local_creation :: "time \<Rightarrow> pstr \<Rightarrow> pstr \<Rightarrow> pstr \<Rightarrow> db \<Rightarrow> db res" where
  "finalize_local_creation now i lead_id record_id d =
     (case (get_lead d lead_id, get_creation d i) of
        (Some l, Some _) \<Rightarrow>
          if ld_smart_table_record_id l \<notin> set [None, Some record_id] then Inl (ValueError ''other table record'')
          else if record_taken d lead_id record_id then Inl IntegrityError
          else Inr (d\<lparr>leads := tupd ld_id lead_id (\<lambda>x. x\<lparr>ld_smart_table_record_id := Some record_id, ld_updated_at := now\<rparr>) (leads d),
                      admin_lead_creation_operations := tupd ac_id i
                        (\<lambda>r. r\<lparr>ac_smart_table_record_id := Some record_id, ac_remote_update_state := ''succeeded'',
                             ac_final_status := ''succeeded'', ac_failure_code := None,
                             ac_failure_summary := None, ac_updated_at := now\<rparr>) (admin_lead_creation_operations d)\<rparr>)
      | _ \<Rightarrow> Inl (ValueError ''operation or lead missing''))"

definition new_admin_lead :: "time \<Rightarrow> pstr \<Rightarrow> pstr \<Rightarrow> pstr \<Rightarrow> fields \<Rightarrow> pstr \<Rightarrow> lead" where
  "new_admin_lead now lead_id capture owner field_values company =
     \<lparr>ld_id = lead_id, ld_source_message_id = None, ld_source_segment_index = 0,
      ld_original_capturing_sales_user_id = capture, ld_smart_table_owner_user_id = owner,
      ld_smart_table_record_id = None, ld_lifecycle_state = ''pending_create'', ld_field_values = field_values,
      ld_enrichment_values = [], ld_standard_company_name = Some company, ld_company_region = ''unknown'',
      ld_company_verification_status = ''user_confirmed_unverified'', ld_tyc_customer_id = None,
      ld_company_confirmed_by_user = True, ld_created_at = now, ld_updated_at = now\<rparr>"

definition new_creation_row ::
  "time \<Rightarrow> pstr \<Rightarrow> pstr \<Rightarrow> pstr \<Rightarrow> pstr \<Rightarrow> admin_context \<Rightarrow> admin_lead_creation_operation" where
  "new_creation_row now i lead_id capture owner c =
     \<lparr>ac_id = i, ac_lead_id = lead_id, ac_smart_table_record_id = None, ac_request_id = ad_request_id c,
      ac_operator_subject = ad_operator_subject c, ac_operator_role = ad_operator_role c,
      ac_auth_source = ad_auth_source c, ac_reason = ad_reason c,
      ac_original_capturing_sales_user_id = capture, ac_smart_table_owner_user_id = owner,
      ac_remote_update_state = ''pending'', ac_final_status = ''processing'', ac_failure_code = None,
      ac_failure_summary = None, ac_created_at = now, ac_updated_at = now\<rparr>"

text \<open>
  A company name that is not text makes the duplicate query fail in the database; that exception is
  \<open>RuntimeError\<close> here.
\<close>

definition admin_prepare ::
  "env \<Rightarrow> time \<Rightarrow> pstr \<times> pstr \<Rightarrow> pstr \<Rightarrow> pstr \<Rightarrow> fields \<Rightarrow> admin_context \<Rightarrow> db \<Rightarrow>
   ((pstr \<times> pstr \<times> string \<times> bool) \<times> db) res" where
  "admin_prepare env now ids capture owner field_values c d =
     (case find (\<lambda>r. ac_request_id r = ad_request_id c) (admin_lead_creation_operations d) of
        Some r \<Rightarrow>
          if \<not> active_administrator d (ad_operator_subject c) then Inl (PermissionError ''administrator required'')
          else if ac_operator_subject r \<noteq> ad_operator_subject c then Inl (PermissionError ''other administrator'')
          else (case get_lead d (ac_lead_id r) of
                  None \<Rightarrow> Inl (ValueError ''lead missing'')
                | Some l \<Rightarrow>
                    if ld_original_capturing_sales_user_id l \<noteq> capture \<or> ld_smart_table_owner_user_id l \<noteq> owner
                    then Inl (ValueError ''identities are frozen'')
                    else Inr ((ac_id r, ac_lead_id r, ac_final_status r, False), d))
      | None \<Rightarrow>
          if \<not> active_administrator d (ad_operator_subject c) then Inl (PermissionError ''administrator required'')
          else if \<not> is_active d capture then Inl (ValueError ''capturing salesperson must be active'')
          else if \<not> is_active d owner then Inl (ValueError ''owner must be active'')
          else (case py_get f_lead_name field_values of
                  PStr company \<Rightarrow>
                    if list_ex (\<lambda>x. ld_smart_table_owner_user_id x = owner \<and>
                         ld_standard_company_name x = Some company) (leads d)
                    then Inl (ValueError ''owner has a lead of the same company'')
                    else (case ids of (lead_id, i) \<Rightarrow>
                      let l = new_admin_lead now lead_id capture owner field_values company;
                          r = new_creation_row now i lead_id capture owner c
                      in Inr ((i, lead_id, ''processing'', True),
                           initialize_lead_capture env now l
                             (d\<lparr>leads := tadd l (leads d),
                                admin_lead_creation_operations := tadd r (admin_lead_creation_operations d)\<rparr>)))
                | _ \<Rightarrow> Inl (RuntimeError ''database'')))"

definition admin_snapshot :: "admin_lead_creation_operation \<Rightarrow> admin_creation_snapshot" where
  "admin_snapshot r = \<lparr>as_operation_id = ac_id r, as_lead_id = ac_lead_id r,
     as_owner_user_id = ac_smart_table_owner_user_id r, as_record_id = ac_smart_table_record_id r,
     as_final_status = ac_final_status r, as_remote_state = ac_remote_update_state r\<rparr>"

definition admin_claim_operation ::
  "time \<Rightarrow> pstr \<Rightarrow> pstr \<Rightarrow> string \<Rightarrow> db \<Rightarrow> (admin_creation_snapshot \<times> db) res" where
  "admin_claim_operation now i operator_subject operator_role d =
     (case get_creation d i of
        None \<Rightarrow> Inl (ValueError ''operation missing'')
      | Some r \<Rightarrow>
          if \<not> active_administrator d operator_subject then Inl (PermissionError ''administrator required'')
          else if operator_role \<noteq> ''administrator'' then Inl (PermissionError ''administrator role required'')
          else if ac_final_status r = ''succeeded'' then Inr (admin_snapshot r, d)
          else if ac_final_status r = ''processing'' \<and> \<not> operation_lease_expired now (ac_updated_at r)
          then Inr (admin_snapshot r, d)
          else Inr (admin_snapshot r,
                 upd_creation i (\<lambda>r. r\<lparr>ac_final_status := ''processing'', ac_updated_at := now\<rparr>) d))"

definition admin_claim_definite_retry :: "time \<Rightarrow> pstr \<Rightarrow> pstr \<Rightarrow> string \<Rightarrow> db \<Rightarrow> db res" where
  "admin_claim_definite_retry now i operator_subject operator_role d =
     (case (get_creation d i, get_actor d operator_subject) of
        (Some r, Some operator) \<Rightarrow>
          if \<not> sa_is_active operator \<or> \<not> sa_is_administrator operator then Inl (PermissionError ''administrator required'')
          else if operator_role \<noteq> ''administrator'' then Inl (PermissionError ''administrator role required'')
          else if ac_final_status r \<noteq> ''remote_create_failed'' then Inl (ValueError ''not a definite failure'')
          else Inr (upd_creation i (\<lambda>r. r\<lparr>ac_final_status := ''processing'', ac_remote_update_state := ''pending'',
                 ac_failure_code := None, ac_failure_summary := None, ac_updated_at := now\<rparr>) d)
      | _ \<Rightarrow> Inl (ValueError ''operation or administrator missing''))"

section \<open>Reconciliation\<close>

definition table_fields :: "fields \<Rightarrow> pstr \<Rightarrow> fields" where
  "table_fields field_values owner =
     dset f_owner (PStr owner) (dset f_creator (PStr owner) (writable_smart_table_fields field_values))"

definition matches_expected :: "fields \<Rightarrow> st_record \<Rightarrow> bool" where
  "matches_expected expected r = list_all (\<lambda>(name, v). py_eq (py_get name (rec_fields r)) v) expected"

definition creation_answer ::
  "pstr \<Rightarrow> pstr \<Rightarrow> string \<Rightarrow> string option \<Rightarrow> pstr option \<Rightarrow> admin_creation_result" where
  "creation_answer i lead_id status code summary =
     \<lparr>acr_operation_id = i, acr_lead_id = lead_id, acr_status = status, acr_failure_code = code,
      acr_failure_summary = summary\<rparr>"

definition settle_creation :: "db res \<Rightarrow> admin_creation_result \<Rightarrow> db \<Rightarrow> 'w \<Rightarrow> (admin_creation_result, 'w) handled" where
  "settle_creation x res d w = (case x of Inl e \<Rightarrow> (Inl e, d, w) | Inr d' \<Rightarrow> (Inr res, d', w))"

definition find_candidates ::
  "'w st_adapter \<Rightarrow> admin_creation_snapshot \<Rightarrow> pstr option \<Rightarrow> 'w \<Rightarrow> (exn + pstr \<times> st_record list) \<times> 'w" where
  "find_candidates ad sn company w =
     (case resolve_member_user_id ad (as_owner_user_id sn) w of
        (Inl e, w1) \<Rightarrow> (Inl e, w1)
      | (Inr owner, w1) \<Rightarrow>
          (case as_record_id sn of
             Some record_id \<Rightarrow>
               (case get_record ad record_id w1 of
                  (Inl e, w2) \<Rightarrow> (Inl e, w2)
                | (Inr r, w2) \<Rightarrow> (Inr (owner, (case r of None \<Rightarrow> [] | Some x \<Rightarrow> [x])), w2))
           | None \<Rightarrow>
               (case find_records ad [(f_lead_name, (case company of None \<Rightarrow> PNone | Some n \<Rightarrow> PStr n)),
                       (f_owner, PStr owner)] w1 of
                  (Inl e, w2) \<Rightarrow> (Inl e, w2)
                | (Inr rs, w2) \<Rightarrow> (Inr (owner, rs), w2))))"

text \<open>Bind the proven row: freeze its identifier, then finalise locally.\<close>

definition bind_record ::
  "time \<Rightarrow> pstr \<Rightarrow> pstr \<Rightarrow> pstr \<Rightarrow> db \<Rightarrow> 'w \<Rightarrow> (admin_creation_result, 'w) handled" where
  "bind_record now i lead_id record_id d w =
     (case admin_finish now i ''succeeded'' ''processing'' [] None (Some record_id) d of
        Inl e \<Rightarrow> (Inl e, d, w)
      | Inr d1 \<Rightarrow>
          (case finalize_local_creation now i lead_id record_id d1 of
             Inl e \<Rightarrow> settle_creation
               (admin_finish now i ''succeeded'' ''pending_recovery'' (exc_name e) (Some ''local_finalize_failed'') (Some record_id) d1)
               (creation_answer i lead_id ''pending_recovery'' (Some ''local_finalize_failed'') (Some (exc_name e))) d1 w
           | Inr d2 \<Rightarrow> (Inr (creation_answer i lead_id ''succeeded'' None None), d2, w)))"

definition admin_reconcile_claimed ::
  "'w st_adapter \<Rightarrow> time \<Rightarrow> admin_creation_snapshot \<Rightarrow> lead \<Rightarrow> db \<Rightarrow> 'w \<Rightarrow> (admin_creation_result, 'w) handled" where
  "admin_reconcile_claimed ad now sn l d w =
     (let i = as_operation_id sn; lead_id = as_lead_id sn;
          pend = (\<lambda>code summary w'. settle_creation
            (admin_finish now i ''unknown'' ''pending_recovery'' summary (Some code) None d)
            (creation_answer i lead_id ''pending_recovery'' (Some code) (Some summary)) d w')
      in case find_candidates ad sn (ld_standard_company_name l) w of
           (Inl e, w1) \<Rightarrow> pend ''remote_reconcile_failed'' (safe_failure_summary e) w1
         | (Inr (owner, candidates), w1) \<Rightarrow>
             (case filter (matches_expected (table_fields (ld_field_values l) owner)) candidates of
                [r] \<Rightarrow> bind_record now i lead_id (rec_id r) d w1
              | _ \<Rightarrow> pend ''remote_record_unproven'' m_unproven w1))"

definition admin_reconcile ::
  "'w st_adapter \<Rightarrow> time \<Rightarrow> pstr \<Rightarrow> admin_context \<Rightarrow> db \<Rightarrow> 'w \<Rightarrow> (admin_creation_result, 'w) handled" where
  "admin_reconcile ad now i c d w =
     (if ad_operator_role c \<noteq> ''administrator'' \<or> safe_audit_text (ad_auth_source c) 128 = []
      then (Inl (PermissionError ''administrator and auth_source required''), d, w)
      else case validate_request_id (ad_request_id c) of
        Inl e \<Rightarrow> (Inl e, d, w)
      | Inr _ \<Rightarrow>
          if safe_audit_text (ad_reason c) 512 = [] then (Inl (ValueError ''reason required''), d, w)
          else case admin_claim_operation now i (ad_operator_subject c) (ad_operator_role c) d of
            Inl e \<Rightarrow> (Inl e, d, w)
          | Inr (sn, d1) \<Rightarrow>
              if as_final_status sn = ''succeeded''
              then (Inr (creation_answer i (as_lead_id sn) ''succeeded'' None None), d1, w)
              else if as_final_status sn = ''processing'' \<and> as_remote_state sn = ''pending''
              then (Inr (creation_answer i (as_lead_id sn) ''processing'' None None), d1, w)
              else (case get_lead d1 (as_lead_id sn) of
                      None \<Rightarrow> (Inl (PermissionError ''administrator required''), d1, w)
                    | Some l \<Rightarrow>
                        if \<not> active_administrator d1 (ad_operator_subject c)
                        then (Inl (PermissionError ''administrator required''), d1, w)
                        else admin_reconcile_claimed ad now sn l d1 w))"

section \<open>Creation\<close>

definition normalized_admin_fields :: "fields \<Rightarrow> fields" where
  "normalized_admin_fields field_values =
     dmerge DEFAULT_SMART_TABLE_FIELD_VALUES
       (foldl (\<lambda>acc (k, v). dset (py_strip k) (case v of PStr s \<Rightarrow> PStr (py_strip s) | x \<Rightarrow> x) acc) [] field_values)"

definition admin_fields_error :: "fields \<Rightarrow> exc option" where
  "admin_fields_error flds =
     (if list_ex (\<lambda>(k, v). k = [] \<or> blank3 v) flds then Some (ValueError ''blank field'')
      else if dget f_lead_name flds = None then Some (ValueError ''lead name missing'')
      else if list_all (\<lambda>k. dget k flds = None) [f_mobile, f_phone, f_email] then Some (ValueError ''contact missing'')
      else None)"

text \<open>The remote creation of a prepared operation, from the stored lead.\<close>

definition admin_create_remote ::
  "'w st_adapter \<Rightarrow> time \<Rightarrow> pstr \<Rightarrow> pstr \<Rightarrow> db \<Rightarrow> 'w \<Rightarrow> (admin_creation_result, 'w) handled" where
  "admin_create_remote ad now i lead_id d w =
     (case get_lead d lead_id of
        None \<Rightarrow> (Inl (ValueError ''lead missing''), d, w)
      | Some l \<Rightarrow>
          (case create_record ad (table_fields (ld_field_values l) (ld_smart_table_owner_user_id l)) ADMIN w of
             (Inl e, w1) \<Rightarrow>
               (let summary = safe_failure_summary e
                in if isinstance e [C_SmartTableDefiniteRemoteFailure]
                   then settle_creation (admin_finish now i ''failed'' ''remote_create_failed'' summary None None d)
                          (creation_answer i lead_id ''remote_create_failed'' (Some ''remote_create_failed'') (Some summary)) d w1
                   else let rid = (case ex_remote_record_id e of PStr s \<Rightarrow> Some s | _ \<Rightarrow> None);
                            known = (rid \<noteq> None \<and> rid \<noteq> Some []);
                            code = (if known then ''remote_record_unverified'' else ''remote_create_unknown'')
                        in if known \<and> record_taken d lead_id (the rid) then (Inl IntegrityError, d, w1)
                           else let d1 = (if known then upd_lead lead_id
                                    (\<lambda>x. x\<lparr>ld_smart_table_record_id := rid, ld_updated_at := now\<rparr>) d else d)
                                in settle_creation (admin_finish now i ''unknown'' ''pending_recovery'' summary (Some code) rid d1)
                                     (creation_answer i lead_id ''pending_recovery'' (Some code) (Some summary)) d1 w1)
           | (Inr r, w1) \<Rightarrow>
               (case admin_finish now i ''succeeded'' ''processing'' [] None (Some (rec_id r)) d of
                  Inl e \<Rightarrow> settle_creation
                    (admin_finish now i ''succeeded'' ''pending_recovery'' (exc_name e) None (Some (rec_id r)) d)
                    (creation_answer i lead_id ''pending_recovery'' (Some ''local_finalize_failed'') (Some (exc_name e))) d w1
                | Inr d1 \<Rightarrow>
                    (case finalize_local_creation now i lead_id (rec_id r) d1 of
                       Inl e \<Rightarrow> settle_creation
                         (admin_finish now i ''succeeded'' ''pending_recovery'' (exc_name e) None (Some (rec_id r)) d1)
                         (creation_answer i lead_id ''pending_recovery'' (Some ''local_finalize_failed'') (Some (exc_name e))) d1 w1
                     | Inr d2 \<Rightarrow> (Inr (creation_answer i lead_id ''succeeded'' None None), d2, w1)))))"

definition admin_create ::
  "'w st_adapter \<Rightarrow> env \<Rightarrow> time \<Rightarrow> pstr \<times> pstr \<Rightarrow> pstr \<Rightarrow> pstr \<Rightarrow> fields \<Rightarrow> admin_context \<Rightarrow> db \<Rightarrow> 'w \<Rightarrow>
   (admin_creation_result, 'w) handled" where
  "admin_create ad env now ids capture owner field_values c d w =
     (let reason = safe_audit_text (ad_reason c) 512
      in if reason = [] then (Inl (ValueError ''reason required''), d, w)
         else case validate_request_id (ad_request_id c) of
           Inl e \<Rightarrow> (Inl e, d, w)
         | Inr request_id \<Rightarrow>
             (let auth_source = safe_audit_text (ad_auth_source c) 128;
                  c1 = c\<lparr>ad_reason := reason, ad_request_id := request_id, ad_auth_source := auth_source\<rparr>;
                  flds = normalized_admin_fields field_values
              in if auth_source = [] then (Inl (ValueError ''auth_source required''), d, w)
                 else if ad_operator_role c \<noteq> ''administrator'' then (Inl (PermissionError ''administrator role required''), d, w)
                 else case admin_fields_error flds of
                   Some e \<Rightarrow> (Inl e, d, w)
                 | None \<Rightarrow>
                     (case admin_prepare env now ids capture owner flds c1 d of
                        Inl e \<Rightarrow> (Inl e, d, w)
                      | Inr ((i, lead_id, status, is_new), d1) \<Rightarrow>
                          if \<not> is_new \<and> status \<in> set [''succeeded'', ''pending_recovery'', ''processing'']
                          then admin_reconcile ad now i c1 d1 w
                          else if \<not> is_new \<and> status = ''remote_create_failed''
                          then (case admin_claim_definite_retry now i (ad_operator_subject c) (ad_operator_role c) d1 of
                                  Inl e \<Rightarrow> (Inl e, d1, w)
                                | Inr d2 \<Rightarrow> admin_create_remote ad now i lead_id d2 w)
                          else if \<not> is_new then (Inr (creation_answer i lead_id status None None), d1, w)
                          else admin_create_remote ad now i lead_id d1 w)))"

section \<open>Correctness\<close>

text \<open>A late result cannot overwrite a creation that has succeeded.\<close>

interpretation creation_rows: absorbing_op "\<lambda>r. ac_final_status r = ''succeeded''" admin_finish_row
  by unfold_locales (simp add: admin_finish_row_def split: prod.splits)

lemma find_candidates_no_create: "find_candidates (ad\<lparr>create_record := g\<rparr>) sn company w = find_candidates ad sn company w"
  by (simp add: find_candidates_def split: sum.splits prod.splits option.splits)

lemma admin_reconcile_no_create:
  "admin_reconcile (ad\<lparr>create_record := g\<rparr>) now i c d w = admin_reconcile ad now i c d w"
  unfolding admin_reconcile_def admin_reconcile_claimed_def find_candidates_no_create by (rule refl)

text \<open>
  C35. Repeating a creation request never adds a second table row: when an operation of the same request
  identifier exists and its last state is not a definite remote failure, the call does not use the
  table's create operation at all, whatever that operation would do.
\<close>

theorem repeat_never_creates:
  assumes "validate_request_id (ad_request_id c) = Inr q"
    and "find (\<lambda>r. ac_request_id r = q) (admin_lead_creation_operations d) = Some r"
    and "ac_final_status r \<noteq> ''remote_create_failed''"
  shows "admin_create (ad\<lparr>create_record := g\<rparr>) env now ids capture owner flds c d w =
    admin_create ad env now ids capture owner flds c d w"
proof -
  let ?c = "c\<lparr>ad_reason := safe_audit_text (ad_reason c) 512, ad_request_id := q,
    ad_auth_source := safe_audit_text (ad_auth_source c) 128\<rparr>"
  have old: "\<not> is_new \<and> status = ac_final_status r"
    if "admin_prepare env now ids capture owner fs ?c d = Inr ((i, lead_id, status, is_new), d1)"
    for fs i lead_id status is_new d1
    using that assms(2) by (auto simp: admin_prepare_def split: if_splits option.splits)
  show ?thesis
    using assms(1,3)
    by (auto simp: admin_create_def Let_def admin_reconcile_no_create dest!: old split: sum.splits option.splits)
qed

definition stuck_creation :: admin_lead_creation_operation where
  "stuck_creation = new_creation_row 0 (asc ''op'') (asc ''L'') (asc ''amy'') (asc ''amy'') transfer_ctx"

definition stuck_db :: db where
  "stuck_db = transfer_db\<lparr>admin_lead_creation_operations := [stuck_creation]\<rparr>"

theorem repeat_never_creates_witness:
  "\<forall>g. admin_create ((mock_adapter [] (\<lambda>_. []))\<lparr>create_record := g\<rparr>) plain_env 9 (asc ''a'', asc ''b'') (asc ''amy'') (asc ''amy'')
      [] transfer_ctx stuck_db one_row =
   admin_create (mock_adapter [] (\<lambda>_. [])) plain_env 9 (asc ''a'', asc ''b'') (asc ''amy'') (asc ''amy'') []
      transfer_ctx stuck_db one_row"
proof -
  have v: "validate_request_id (ad_request_id transfer_ctx) = Inr (asc ''q1'')"
    using transfer_ctx_ok(1) by (simp add: request_ok_def)
  show ?thesis
    by (intro allI, rule repeat_never_creates [OF v, where r = stuck_creation])
      (simp_all add: stuck_db_def stuck_creation_def new_creation_row_def transfer_ctx_def)
qed

lemma claim_unfinished:
  assumes "admin_claim_operation now i op role d = Inr (sn, d1)" and "get_creation d i = Some r"
  shows "sn = admin_snapshot r \<and> leads d1 = leads d \<and> sales_authorizations d1 = sales_authorizations d \<and>
    (\<exists>r1. get_creation d1 i = Some r1 \<and> ac_remote_update_state r1 = ac_remote_update_state r \<and>
       (ac_final_status r1 = ac_final_status r \<or> ac_final_status r1 = ''processing''))"
  using assms by (auto simp: admin_claim_operation_def tget_tupd_same split: if_splits)

lemma bind_record_succeeds:
  assumes "bind_record now i lid rid d w = (Inr res, d', w')" and "acr_status res = ''succeeded''"
    and "get_lead d lid = Some l"
  shows "w' = w \<and> get_lead d' lid = Some (l\<lparr>ld_smart_table_record_id := Some rid, ld_updated_at := now\<rparr>)"
  using assms
  by (auto simp: bind_record_def admin_finish_def settle_creation_def finalize_local_creation_def creation_answer_def
      tget_tupd_same split: option.splits if_splits sum.splits)

text \<open>
  Reconciliation binds a table row only on proof: if it turns an unfinished operation into a
  successful one, then the row that is now bound to the lead is the only candidate the table
  returned whose fields all equal the frozen fields of the lead.
\<close>

theorem reconcile_binds_unique_match:
  assumes "admin_reconcile ad now i c d w = (Inr res, d', w')" and "acr_status res = ''succeeded''"
    and "get_creation d i = Some r" and "ac_final_status r \<noteq> ''succeeded''"
    and "get_lead d (ac_lead_id r) = Some l"
  shows "\<exists>owner candidates x. find_candidates ad (admin_snapshot r) (ld_standard_company_name l) w = (Inr (owner, candidates), w') \<and>
    filter (matches_expected (table_fields (ld_field_values l) owner)) candidates = [x] \<and>
    get_lead d' (ac_lead_id r) = Some (l\<lparr>ld_smart_table_record_id := Some (rec_id x), ld_updated_at := now\<rparr>)"
proof -
  obtain sn d1 where cl: "admin_claim_operation now i (ad_operator_subject c) (ad_operator_role c) d = Inr (sn, d1)"
    using assms(1) by (auto simp: admin_reconcile_def split: if_splits sum.splits)
  from claim_unfinished [OF cl assms(3)] have sn: "sn = admin_snapshot r" "leads d1 = leads d" by auto
  have ids: "as_operation_id sn = i" "as_lead_id sn = ac_lead_id r" "as_final_status sn = ac_final_status r"
    using sn tget_SomeD [OF assms(3)] by (simp_all add: admin_snapshot_def)
  have rc: "admin_reconcile_claimed ad now sn l d1 w = (Inr res, d', w')"
    using assms(1,2,4,5) cl ids sn(2)
    by (auto simp: admin_reconcile_def creation_answer_def split: if_splits sum.splits)
  have l1: "get_lead d1 (ac_lead_id r) = Some l" using assms(5) sn(2) by simp
  obtain owner cs w1 where f: "find_candidates ad sn (ld_standard_company_name l) w = (Inr (owner, cs), w1)"
    using rc assms(2)
    by (auto simp: admin_reconcile_claimed_def Let_def settle_creation_def creation_answer_def
        split: prod.splits sum.splits)
  have "\<exists>x. filter (matches_expected (table_fields (ld_field_values l) owner)) cs = [x] \<and>
      bind_record now i (ac_lead_id r) (rec_id x) d1 w1 = (Inr res, d', w')"
    using rc assms(2) f ids
    by (auto simp: admin_reconcile_claimed_def Let_def settle_creation_def creation_answer_def
        split: prod.splits sum.splits list.splits)
  then obtain x where x: "filter (matches_expected (table_fields (ld_field_values l) owner)) cs = [x]"
    "bind_record now i (ac_lead_id r) (rec_id x) d1 w1 = (Inr res, d', w')" by blast
  from bind_record_succeeds [OF x(2) assms(2) l1] x(1) f sn(1) show ?thesis by blast
qed

text \<open>An operation whose creation call timed out after the table had stored the row.\<close>

definition unknown_creation :: admin_lead_creation_operation where
  "unknown_creation = stuck_creation\<lparr>ac_final_status := ''pending_recovery'', ac_remote_update_state := ''unknown'',
     ac_smart_table_record_id := Some (asc ''r1'')\<rparr>"

definition unknown_db :: db where
  "unknown_db = transfer_db\<lparr>admin_lead_creation_operations := [unknown_creation]\<rparr>"

definition created_row :: st_record where
  "created_row = \<lparr>rec_id = asc ''r1'', rec_fields = [(f_creator, PStr (asc ''amy'')), (f_owner, PStr (asc ''amy''))],
     rec_member_names = []\<rparr>"

theorem reconcile_binds_unique_match_witness:
  "\<exists>res d' w'. admin_reconcile (mock_adapter [] (\<lambda>_. [])) 9 (asc ''op'') transfer_ctx unknown_db
      (empty_mock\<lparr>mk_records := [created_row]\<rparr>) = (Inr res, d', w') \<and> acr_status res = ''succeeded'' \<and>
    (\<exists>x::st_record. get_lead d' (asc ''L'') = Some (transfer_lead\<lparr>ld_smart_table_record_id := Some (rec_id x), ld_updated_at := 9\<rparr>))"
proof -
  let ?w = "empty_mock\<lparr>mk_records := [created_row]\<rparr>"
  have st: "py_strip (asc ''amy'') \<noteq> []" by code_simp
  have op: "get_creation unknown_db (asc ''op'') = Some unknown_creation" "ac_final_status unknown_creation \<noteq> ''succeeded''"
    "ac_lead_id unknown_creation = asc ''L''"
    by (simp_all add: unknown_db_def unknown_creation_def stuck_creation_def new_creation_row_def)
  have lead: "get_lead unknown_db (asc ''L'') = Some transfer_lead"
    by (simp add: unknown_db_def transfer_db_def transfer_lead_def)
  have adm: "active_administrator unknown_db (asc ''root'')"
    by (simp add: unknown_db_def transfer_db_def active_administrator_def root_actor_def new_actor_def)
  have m: "matches_expected (table_fields [] (asc ''amy'')) created_row" by code_simp
  have fc: "find_candidates (mock_adapter [] (\<lambda>_. [])) (admin_snapshot unknown_creation) None ?w = (Inr (asc ''amy'', [created_row]), ?w)"
    using st by (simp add: find_candidates_def admin_snapshot_def unknown_creation_def stuck_creation_def new_creation_row_def
        mock_adapter_def mock_resolve_member_user_id_def mock_get_record_def created_row_def)
  let ?d1 = "upd_creation (asc ''op'') (\<lambda>r. r\<lparr>ac_final_status := ''processing'', ac_updated_at := 9\<rparr>) unknown_db"
  have cl: "admin_claim_operation 9 (asc ''op'') (asc ''root'') ''administrator'' unknown_db = Inr (admin_snapshot unknown_creation, ?d1)"
    using op adm by (simp add: admin_claim_operation_def unknown_creation_def)
  have bind: "\<exists>d'. bind_record 9 (asc ''op'') (asc ''L'') (asc ''r1'') ?d1 ?w =
      (Inr (creation_answer (asc ''op'') (asc ''L'') ''succeeded'' None None), d', ?w)"
    by (simp add: bind_record_def admin_finish_def finalize_local_creation_def record_taken_def admin_finish_row_def tupd_def
        unknown_db_def unknown_creation_def stuck_creation_def new_creation_row_def transfer_db_def transfer_lead_def)
  have "ld_field_values transfer_lead = []" "ld_standard_company_name transfer_lead = None" "rec_id created_row = asc ''r1''"
    by (simp_all add: transfer_lead_def created_row_def)
  moreover have "as_operation_id (admin_snapshot unknown_creation) = asc ''op''" "as_lead_id (admin_snapshot unknown_creation) = asc ''L''"
    "as_final_status (admin_snapshot unknown_creation) = ''pending_recovery''"
    by (simp_all add: admin_snapshot_def unknown_creation_def stuck_creation_def new_creation_row_def)
  moreover have "active_administrator ?d1 (asc ''root'')" using adm by (simp add: active_administrator_def)
  moreover have "ad_operator_subject transfer_ctx = asc ''root''" "ad_operator_role transfer_ctx = ''administrator''"
    by (simp_all add: transfer_ctx_def)
  ultimately obtain res d' where run: "admin_reconcile (mock_adapter [] (\<lambda>_. [])) 9 (asc ''op'') transfer_ctx unknown_db ?w = (Inr res, d', ?w)"
    "acr_status res = ''succeeded''"
    using cl bind fc m lead transfer_ctx_ok(1)
    by (auto simp: admin_reconcile_def admin_reconcile_claimed_def request_ok_def creation_answer_def)
  have "get_lead unknown_db (ac_lead_id unknown_creation) = Some transfer_lead" using lead op(3) by simp
  from reconcile_binds_unique_match [OF run op(1,2) this] obtain x :: st_record where
    "get_lead d' (asc ''L'') = Some (transfer_lead\<lparr>ld_smart_table_record_id := Some (rec_id x), ld_updated_at := 9\<rparr>)"
    unfolding op(3) by blast
  with run show ?thesis by blast
qed

text \<open>
  A creation interrupted before its remote result was stored can never be finished: an operation
  in state processing whose remote state is still pending is answered as processing to every
  administrator at every later time, and stays in that state.
\<close>

theorem interrupted_creation_stuck:
  assumes "request_ok c q" and "ad_operator_role c = ''administrator''"
    and "active_administrator d (ad_operator_subject c)"
    and "get_creation d i = Some r" and "ac_final_status r = ''processing''" and "ac_remote_update_state r = ''pending''"
  shows "\<exists>d' r'. admin_reconcile ad now i c d w = (Inr (creation_answer i (ac_lead_id r) ''processing'' None None), d', w) \<and>
    leads d' = leads d \<and>
    get_creation d' i = Some r' \<and> ac_final_status r' = ''processing'' \<and> ac_remote_update_state r' = ''pending''"
proof -
  obtain sn d1 where cl: "admin_claim_operation now i (ad_operator_subject c) (ad_operator_role c) d = Inr (sn, d1)"
    using assms(2-4) by (cases "admin_claim_operation now i (ad_operator_subject c) (ad_operator_role c) d")
      (auto simp: admin_claim_operation_def split: if_splits)
  from claim_unfinished [OF cl assms(4)] have sn: "sn = admin_snapshot r" "leads d1 = leads d"
    "\<exists>r1. get_creation d1 i = Some r1 \<and> ac_final_status r1 = ''processing'' \<and> ac_remote_update_state r1 = ''pending''"
    using assms(5,6) by auto
  have "admin_reconcile ad now i c d w = (Inr (creation_answer i (ac_lead_id r) ''processing'' None None), d1, w)"
    using assms(1,2,5,6) cl sn(1)
    by (simp add: admin_reconcile_def request_ok_def admin_snapshot_def)
  with sn show ?thesis by blast
qed

theorem interrupted_creation_stuck_witness:
  "\<exists>d' r'. admin_reconcile (mock_adapter [] (\<lambda>_. [])) 1000000000000 (asc ''op'') transfer_ctx stuck_db one_row =
      (Inr (creation_answer (asc ''op'') (asc ''L'') ''processing'' None None), d', one_row) \<and>
    get_creation d' (asc ''op'') = Some r' \<and> ac_final_status r' = ''processing''"
proof -
  have "ad_operator_role transfer_ctx = ''administrator''" by (simp add: transfer_ctx_def)
  moreover have "active_administrator stuck_db (ad_operator_subject transfer_ctx)"
    by (simp add: stuck_db_def transfer_db_def transfer_ctx_def active_administrator_def root_actor_def new_actor_def)
  moreover have "get_creation stuck_db (asc ''op'') = Some stuck_creation"
    by (simp add: stuck_db_def stuck_creation_def new_creation_row_def)
  moreover have "ac_final_status stuck_creation = ''processing''" "ac_remote_update_state stuck_creation = ''pending''"
    "ac_lead_id stuck_creation = asc ''L''"
    by (simp_all add: stuck_creation_def new_creation_row_def)
  ultimately show ?thesis
    using interrupted_creation_stuck [OF transfer_ctx_ok(1), of stuck_db "asc ''op''" stuck_creation "mock_adapter [] (\<lambda>_. [])" 1000000000000 one_row]
    by auto
qed

end
