(* ===== verification/Completeness.thy ===== *)
theory Completeness
  imports Py_Value Vocab
begin

text \<open>
  What the review workspace derives from a lead's fields: the completeness verdict
  (\<^verbatim>\<open>app/leads/completeness.py\<close>) and the generated remark (\<^verbatim>\<open>app/leads/remarks.py\<close>).
\<close>

section \<open>Completeness\<close>

definition AI_CONFIRMATION_FIELD :: pstr where
  "AI_CONFIRMATION_FIELD = f_ai_confirm"

definition REQUIRED_LEAD_FIELDS :: "pstr list" where
  "REQUIRED_LEAD_FIELDS = [f_business_line, f_lead_name, f_lead_source, f_contact, f_title,
     f_comm_way, f_mobile, f_remark]"

record lead_completeness =
  missing_required_fields :: "pstr list"
  pending_confirmation_fields :: "pstr list"

definition has_value :: "pyval \<Rightarrow> bool" where
  "has_value v = (\<not> blank2 v)"

fun confirmation_names :: "pyval \<Rightarrow> pstr list" where
  "confirmation_names (PList xs) =
     concat (map (\<lambda>v. case v of PStr s \<Rightarrow> if s \<noteq> [] then [s] else [] | _ \<Rightarrow> []) xs)"
| "confirmation_names _ = []"

definition evaluate_completeness :: "fields \<Rightarrow> lead_completeness" where
  "evaluate_completeness flds =
     (let missing = filter (\<lambda>f. \<not> has_value (py_get f flds)) REQUIRED_LEAD_FIELDS;
          pending_names = confirmation_names (py_get AI_CONFIRMATION_FIELD flds);
          pending = filter (\<lambda>f. f \<in> set pending_names \<and> has_value (py_get f flds)) REQUIRED_LEAD_FIELDS
      in \<lparr>missing_required_fields = missing, pending_confirmation_fields = pending\<rparr>)"

section \<open>The remark\<close>

text \<open>\<^verbatim>\<open>sorted(BUSINESS_ENUM_FIELDS)\<close>: the six enumeration columns in code-point order.\<close>

definition sorted_enum_fields :: "pstr list" where
  "sorted_enum_fields = [f_business_line, f_level, f_industry, f_process, f_comm_way, f_lead_source]"

definition nonblank_text :: "pstr \<Rightarrow> pstr option" where
  "nonblank_text s = (let t = py_strip s in if t = [] then None else Some t)"

fun remark_text :: "pyval \<Rightarrow> pstr option" where
  "remark_text (PList xs) = nonblank_text (py_join r_pause
     (concat (map (\<lambda>v. case v of PStr s \<Rightarrow> if py_strip s \<noteq> [] then [py_strip s] else [] | _ \<Rightarrow> []) xs)))"
| "remark_text (PStr s) = nonblank_text s"
| "remark_text _ = None"

definition enrichment_text :: "pstr \<Rightarrow> (pstr \<times> pstr) list \<Rightarrow> pstr option" where
  "enrichment_text k e = (case dget k e of None \<Rightarrow> None | Some s \<Rightarrow> nonblank_text s)"

definition or_else :: "'a option \<Rightarrow> 'a option \<Rightarrow> 'a option" where
  "or_else x y = (case x of None \<Rightarrow> y | Some _ \<Rightarrow> x)"

definition remark_sentence :: "pstr option \<Rightarrow> pstr" where
  "remark_sentence v = rstrip_if (\<lambda>c. c = 0x3002) (the_default r_missing v) @ r_stop"

definition demand_from_fields :: "fields \<Rightarrow> pstr option" where
  "demand_from_fields flds =
     (case (remark_text (py_get f_business_line flds), remark_text (py_get f_process flds)) of
        (Some b, Some p) \<Rightarrow> Some (r_hope @ b @ r_complete @ p)
      | _ \<Rightarrow> None)"

definition other_enum_details :: "fields \<Rightarrow> (pstr \<times> pstr) list \<Rightarrow> pstr list" where
  "other_enum_details flds enrichment =
     concat (map (\<lambda>f.
       let selected = py_get f flds;
           values = (case selected of PList xs \<Rightarrow> xs | v \<Rightarrow> [v])
       in if list_ex (py_eq (PStr v_other)) values
          then [f @ r_colon @ v_other @ r_open @
                the_default r_please_add (enrichment_text f enrichment) @ r_close]
          else []) sorted_enum_fields)"

definition basic_information ::
  "pstr option \<Rightarrow> pstr option \<Rightarrow> pstr option \<Rightarrow> pstr option \<Rightarrow> pstr option \<Rightarrow> pstr" where
  "basic_information company city product revenue industry =
     (let known = map the (filter (\<lambda>x. x \<noteq> None)
            [company, map_option ((@) r_located) city, map_option ((@) r_main_product) product,
             map_option ((@) r_revenue) revenue, map_option ((@) r_industry) industry]);
          missing = map fst (filter (\<lambda>(l, v). v = None)
            [(r_company_l, company), (r_city_l, city), (r_product_l, product),
             (r_revenue_l, revenue), (r_industry_l, industry)]);
          head = r_basic @ py_join r_comma (if known = [] then [r_missing] else known)
      in if missing \<noteq> [] then head @ r_semicolon @ py_join r_pause missing @ r_missing @ r_stop
         else head @ r_stop)"

definition build_remark :: "fields \<Rightarrow> (pstr \<times> pstr) list \<Rightarrow> pstr option \<Rightarrow> pstr" where
  "build_remark flds enrichment original_message =
     (let company = or_else (enrichment_text e_original_company enrichment) (remark_text (py_get f_lead_name flds));
          industry = remark_text (py_get f_industry flds);
          city = enrichment_text e_city enrichment;
          product = enrichment_text e_product enrichment;
          revenue = enrichment_text e_revenue enrichment;
          demand = or_else (enrichment_text e_demand enrichment) (demand_from_fields flds);
          budget = enrichment_text e_budget enrichment;
          requirement = enrichment_text e_requirement enrichment;
          sections = [basic_information company city product revenue industry,
                      r_demand @ remark_sentence demand,
                      r_budget @ remark_sentence budget,
                      r_requirement @ remark_sentence requirement];
          original = (case original_message of
                        Some m \<Rightarrow> if py_strip m \<noteq> [] then [r_original @ [0xA] @ m] else []
                      | None \<Rightarrow> []);
          details = other_enum_details flds enrichment;
          other = (if details \<noteq> [] then [r_supplement @ py_join r_semicolon details] else [])
      in py_join [0xA] (sections @ original @ other))"

section \<open>Lemmas\<close>

lemma sublist_py_join: "x \<in> set xs \<Longrightarrow> sublist x (py_join sep xs)"
proof (induction sep xs rule: py_join.induct)
  case (3 sep x' y zs)
  show ?case
  proof (cases "x = x'")
    case True
    then show ?thesis by simp
  next
    case False
    with 3 have "sublist x (py_join sep (y # zs))" by simp
    then have "sublist x ((x' @ sep) @ py_join sep (y # zs))"
      by (meson sublist_append_leftI sublist_order.order_trans)
    then show ?thesis by simp
  qed
qed auto

section \<open>Properties\<close>

text \<open>
  The verdict splits the required fields three ways: a field is missing exactly when it has no
  value, pending exactly when it has a value and the AI-confirmation column names it, and never
  both; so a lead is complete exactly when every required field has a value the column does not name.
\<close>

theorem completeness_partition:
  "set (missing_required_fields (evaluate_completeness flds)) =
     {f \<in> set REQUIRED_LEAD_FIELDS. py_get f flds = PNone \<or> py_get f flds = PStr []} \<and>
   set (missing_required_fields (evaluate_completeness flds)) \<inter>
     set (pending_confirmation_fields (evaluate_completeness flds)) = {} \<and>
   (missing_required_fields (evaluate_completeness flds) = [] \<and>
    pending_confirmation_fields (evaluate_completeness flds) = [] \<longleftrightarrow>
    list_all (\<lambda>f. has_value (py_get f flds) \<and>
      f \<notin> set (confirmation_names (py_get AI_CONFIRMATION_FIELD flds))) REQUIRED_LEAD_FIELDS)"
  by (auto simp: evaluate_completeness_def Let_def has_value_def blank2_iff filter_empty_conv list_all_iff)

text \<open>
  The remark keeps its evidence: a source message that is not blank appears in it verbatim, and
  every enumeration column set to the catch-all option appears with the column's name and either
  the supplied detail or the request to supply one.
\<close>

theorem build_remark_keeps_evidence:
  "(py_strip m \<noteq> [] \<longrightarrow> sublist m (build_remark flds enrichment (Some m))) \<and>
   (f \<in> set sorted_enum_fields \<and> py_get f flds = PStr v_other \<longrightarrow>
      sublist (f @ r_colon @ v_other @ r_open @ the_default r_please_add (enrichment_text f enrichment) @ r_close)
        (build_remark flds enrichment original))"
proof (intro conjI impI)
  assume m: "py_strip m \<noteq> []"
  have "sublist (r_original @ [0xA] @ m) (build_remark flds enrichment (Some m))"
    unfolding build_remark_def Let_def using m by (intro sublist_py_join) simp
  then show "sublist m (build_remark flds enrichment (Some m))"
    by (metis append.assoc sublist_append_leftI sublist_order.order_trans)
next
  assume f: "f \<in> set sorted_enum_fields \<and> py_get f flds = PStr v_other"
  let ?d = "f @ r_colon @ v_other @ r_open @ the_default r_please_add (enrichment_text f enrichment) @ r_close"
  have d: "?d \<in> set (other_enum_details flds enrichment)"
    using f by (force simp: other_enum_details_def Let_def)
  have "sublist ?d (py_join r_semicolon (other_enum_details flds enrichment))"
    using d by (rule sublist_py_join)
  moreover have "sublist (r_supplement @ py_join r_semicolon (other_enum_details flds enrichment))
      (build_remark flds enrichment original)"
    unfolding build_remark_def Let_def using d by (intro sublist_py_join) auto
  ultimately show "sublist ?d (build_remark flds enrichment original)"
    by (meson sublist_append_leftI sublist_order.order_trans)
qed

definition remark_fields :: fields where
  "remark_fields = [(f_lead_name, PStr (asc ''ACME'')), (f_industry, PStr v_other)]"

theorem build_remark_keeps_evidence_witness:
  "sublist (asc ''call back'') (build_remark remark_fields [] (Some (asc ''call back'')))"
proof -
  have "py_strip (asc ''call back'') \<noteq> []" by code_simp
  with build_remark_keeps_evidence [of "asc ''call back''" remark_fields "[]" f_industry None]
  show ?thesis by blast
qed

end
