(* ===== verification/Progress.thy ===== *)
theory Progress
  imports Actors Env Completeness Smart_Table
begin

text \<open>
  \<^verbatim>\<open>app/leads/progress.py\<close>: the per-salesperson progress sessions. A received message is registered
  as a candidate and attached to the salesperson's active session; the worker's result, or the
  recovery scan, settles it as included or ignored; the scheduler reports each elapsed
  half-open window at most once. Each function below is one database transaction (or the part of one
  its source function performs); the identifier a new session would get is the argument \<open>sid\<close>.
\<close>

section \<open>Tables\<close>

abbreviation get_pmsg :: "db \<Rightarrow> pstr \<Rightarrow> lead_progress_message option" where
  "get_pmsg d m \<equiv> tget pm_message_id m (lead_progress_messages d)"

abbreviation upd_pmsg :: "pstr \<Rightarrow> (lead_progress_message \<Rightarrow> lead_progress_message) \<Rightarrow> db \<Rightarrow> db" where
  "upd_pmsg m f d \<equiv> d\<lparr>lead_progress_messages := tupd pm_message_id m f (lead_progress_messages d)\<rparr>"

abbreviation get_psess :: "db \<Rightarrow> pstr \<Rightarrow> lead_progress_session option" where
  "get_psess d s \<equiv> tget ps_id s (lead_progress_sessions d)"

abbreviation upd_psess :: "pstr \<Rightarrow> (lead_progress_session \<Rightarrow> lead_progress_session) \<Rightarrow> db \<Rightarrow> db" where
  "upd_psess s f d \<equiv> d\<lparr>lead_progress_sessions := tupd ps_id s f (lead_progress_sessions d)\<rparr>"

definition ACTIVE_OUTBOX_STATUSES :: "string list" where
  "ACTIVE_OUTBOX_STATUSES = [''pending'', ''processing'', ''retrying'']"

definition ACTIVE_SYNC_STATUSES :: "string list" where
  "ACTIVE_SYNC_STATUSES = [''pending'', ''batch_pending'', ''processing'', ''retrying'']"

definition UNASSIGNED_RESOLUTION_STATUSES :: "string list" where
  "UNASSIGNED_RESOLUTION_STATUSES = [''unassigned'', ''quote_unresolved'']"

definition SCHEDULER_BATCH_SIZE :: nat where
  "SCHEDULER_BATCH_SIZE = 100"

section \<open>Registration\<close>

definition active_session :: "db \<Rightarrow> pstr \<Rightarrow> lead_progress_session option" where
  "active_session d u =
     find (\<lambda>p. ps_sales_user_id p = u \<and> ps_status p = ''active'') (lead_progress_sessions d)"

definition prior_notice :: "db \<Rightarrow> pstr \<Rightarrow> bool" where
  "prior_notice d sid = list_ex (\<lambda>n. nr_source_message_id n = sid \<and>
     nr_notification_type n = ''lead_progress_summary'') (notification_records d)"

definition interval_of :: "settings \<Rightarrow> time" where
  "interval_of st = minutes (lead_progress_interval_minutes st)"

definition touch_session :: "settings \<Rightarrow> time \<Rightarrow> bool \<Rightarrow> lead_progress_session \<Rightarrow> lead_progress_session" where
  "touch_session st received notified p =
     (let p1 = p\<lparr>ps_last_activity_at := max (ps_last_activity_at p) received\<rparr>
      in if received < ps_started_at p \<and> \<not> notified
         then p1\<lparr>ps_started_at := received, ps_next_report_at := received + interval_of st\<rparr>
         else p1)"

definition attach_progress_message ::
  "settings \<Rightarrow> pstr \<Rightarrow> time \<Rightarrow> lead_progress_message \<Rightarrow> pstr \<Rightarrow> db \<Rightarrow> db" where
  "attach_progress_message st sid now pm u d =
     (let received = pm_received_at pm;
          (target, d1) = (case active_session d u of
            None \<Rightarrow>
              (sid, d\<lparr>lead_progress_sessions := tadd
                 \<lparr>ps_id = sid, ps_sales_user_id = u, ps_status = ''active'', ps_started_at = received,
                  ps_last_activity_at = received, ps_next_report_at = received + interval_of st,
                  ps_closed_at = None, ps_close_reason = None, ps_created_at = now\<rparr>
                 (lead_progress_sessions d)\<rparr>)
          | Some p \<Rightarrow>
              (ps_id p, upd_psess (ps_id p) (touch_session st received (prior_notice d (ps_id p))) d))
      in upd_pmsg (pm_message_id pm)
           (\<lambda>m. m\<lparr>pm_progress_session_id := Some target, pm_status := ''processing''\<rparr>) d1)"

definition new_progress_message :: "incoming_message \<Rightarrow> string \<Rightarrow> time \<Rightarrow> lead_progress_message" where
  "new_progress_message msg status now =
     \<lparr>pm_message_id = im_message_id msg, pm_progress_session_id = None, pm_status = status,
      pm_received_at = im_received_at msg, pm_created_at = now\<rparr>"

definition register_progress_message ::
  "settings \<Rightarrow> pstr \<Rightarrow> time \<Rightarrow> incoming_message \<Rightarrow> db \<Rightarrow> bool \<times> db" where
  "register_progress_message st sid now msg d =
     (if \<not> lead_progress_enabled st \<or> get_pmsg d (im_message_id msg) \<noteq> None then (False, d)
      else if \<not> is_active d (im_sales_user_id msg) then (False, d)
      else let pm = new_progress_message msg ''processing'' now;
               d1 = d\<lparr>lead_progress_messages := tadd pm (lead_progress_messages d)\<rparr>
           in (True, attach_progress_message st sid now pm (im_sales_user_id msg) d1))"

definition register_progress_intent_candidate ::
  "settings \<Rightarrow> time \<Rightarrow> incoming_message \<Rightarrow> db \<Rightarrow> bool \<times> db" where
  "register_progress_intent_candidate st now msg d =
     (if \<not> lead_progress_enabled st \<or> get_pmsg d (im_message_id msg) \<noteq> None then (False, d)
      else if \<not> is_active d (im_sales_user_id msg) then (False, d)
      else (True, d\<lparr>lead_progress_messages :=
              tadd (new_progress_message msg ''awaiting_intent'' now) (lead_progress_messages d)\<rparr>))"

definition activate_progress_intent_candidate ::
  "settings \<Rightarrow> pstr \<Rightarrow> time \<Rightarrow> pstr \<Rightarrow> db \<Rightarrow> bool \<times> db" where
  "activate_progress_intent_candidate st sid now message_id d =
     (case (get_pmsg d message_id, get_message d message_id) of
        (Some pm, Some msg) \<Rightarrow>
          if \<not> lead_progress_enabled st \<or> pm_status pm \<noteq> ''awaiting_intent'' \<or>
             \<not> is_active d (im_sales_user_id msg) then (False, d)
          else (True, attach_progress_message st sid now pm (im_sales_user_id msg) d)
      | _ \<Rightarrow> (False, d))"

section \<open>Settling a candidate\<close>

definition reanchor_or_close_empty_session :: "settings \<Rightarrow> pstr \<Rightarrow> time \<Rightarrow> db \<Rightarrow> db" where
  "reanchor_or_close_empty_session st sid now d =
     (let remaining = map pm_received_at (filter (\<lambda>m. pm_progress_session_id m = Some sid \<and>
            pm_status m \<noteq> ''ignored'') (lead_progress_messages d))
      in case remaining of
           [] \<Rightarrow>
             if prior_notice d sid then d
             else upd_psess sid (\<lambda>p. p\<lparr>ps_status := ''closed'', ps_closed_at := Some now,
                    ps_close_reason := Some ''no_valid_demand''\<rparr>) d
         | t # ts \<Rightarrow>
             (let first = foldl min t ts; last = foldl max t ts
              in if prior_notice d sid then upd_psess sid (\<lambda>p. p\<lparr>ps_last_activity_at := last\<rparr>) d
                 else upd_psess sid (\<lambda>p. p\<lparr>ps_started_at := first, ps_last_activity_at := last,
                        ps_next_report_at := first + interval_of st\<rparr>) d))"

definition session_active :: "db \<Rightarrow> pstr option \<Rightarrow> pstr option" where
  "session_active d s = (case s of None \<Rightarrow> None
     | Some sid \<Rightarrow> (case get_psess d sid of None \<Rightarrow> None
         | Some p \<Rightarrow> if ps_status p = ''active'' then Some sid else None))"

definition has_resolution :: "db \<Rightarrow> pstr \<Rightarrow> bool" where
  "has_resolution d m = list_ex (\<lambda>r. lr_message_id r = m) (lead_message_resolutions d)"

definition settle_candidate :: "settings \<Rightarrow> time \<Rightarrow> bool \<Rightarrow> pstr \<Rightarrow> db \<Rightarrow> db" where
  "settle_candidate st now included message_id d =
     (let d1 = upd_pmsg message_id (\<lambda>m. m\<lparr>pm_status := (if included then ''included'' else ''ignored'')\<rparr>) d
      in if included then d1
         else case get_pmsg d1 message_id of
           None \<Rightarrow> d1
         | Some pm \<Rightarrow> (case session_active d1 (pm_progress_session_id pm) of
             None \<Rightarrow> d1
           | Some sid \<Rightarrow> reanchor_or_close_empty_session st sid now d1))"

definition record_resolved_message ::
  "settings \<Rightarrow> pstr \<Rightarrow> time \<Rightarrow> bool \<Rightarrow> pstr \<Rightarrow> db \<Rightarrow> bool \<times> db" where
  "record_resolved_message st sid now included message_id d =
     (if \<not> lead_progress_enabled st then (False, d)
      else case get_message d message_id of
        None \<Rightarrow> (False, d)
      | Some msg \<Rightarrow>
          if \<not> is_active d (im_sales_user_id msg) then (False, d)
          else if get_pmsg d message_id = None \<and> included \<and>
                  (\<not> list_ex (\<lambda>e. ob_message_id e = message_id \<and> ob_sales_user_id e = im_sales_user_id msg \<and>
                       ob_event_type e \<in> set [''message_received'', ''crm_submission_intent'']) (outbox_events d) \<or>
                   \<not> has_resolution d message_id)
               then (False, d)
          else let d1 = (if get_pmsg d message_id = None \<and> included
                         then snd (register_progress_message st sid now msg d) else d)
               in case get_pmsg d1 message_id of
                    None \<Rightarrow> (False, d1)
                  | Some pm \<Rightarrow>
                      (let d2 = (if included \<and> pm_status pm = ''awaiting_intent''
                                 then attach_progress_message st sid now pm (im_sales_user_id msg) d1 else d1)
                       in (True, settle_candidate st now included message_id d2)))"

section \<open>Recovery\<close>

definition terminal_ignored :: "string list" where
  "terminal_ignored = [''ignored'', ''unauthorized'', ''invalid'']"

definition recover_candidates :: "env \<Rightarrow> nat \<Rightarrow> db \<Rightarrow> (pstr \<times> pstr) list" where
  "recover_candidates env limit d =
     (let pairs = concat (map (\<lambda>m. concat (map (\<lambda>e.
            if ob_message_id e = pm_message_id m \<and> pm_status m \<in> set [''processing'', ''awaiting_intent''] \<and>
               ob_status e \<notin> set ACTIVE_OUTBOX_STATUSES then [(m, e)] else []) (outbox_events d)))
            (lead_progress_messages d))
      in map (\<lambda>(m, e). (pm_message_id m, ob_sales_user_id e))
           (take limit (sort_key (\<lambda>(m, e). e_collation env (ob_sales_user_id e))
              (sort_key (\<lambda>(m, e). pm_created_at m) pairs))))"

definition recover_one :: "settings \<Rightarrow> pstr \<Rightarrow> time \<Rightarrow> pstr \<times> pstr \<Rightarrow> db \<Rightarrow> bool \<times> db" where
  "recover_one st sid now cand d =
     (case cand of (message_id, u) \<Rightarrow>
       case (get_actor d u, get_pmsg d message_id, tget ob_message_id message_id (outbox_events d)) of
         (Some a, Some pm, Some ev) \<Rightarrow>
           if pm_status pm \<notin> set [''processing'', ''awaiting_intent''] then (False, d)
           else if ob_status ev \<in> set ACTIVE_OUTBOX_STATUSES then (False, d)
           else if pm_status pm = ''awaiting_intent'' then
             (True,
              if ob_status ev \<in> set terminal_ignored \<or> \<not> has_resolution d (ob_message_id ev)
              then upd_pmsg message_id (\<lambda>m. m\<lparr>pm_status := ''ignored''\<rparr>) d
              else case get_message d (ob_message_id ev) of
                None \<Rightarrow> upd_pmsg message_id (\<lambda>m. m\<lparr>pm_status := ''ignored''\<rparr>) d
              | Some msg \<Rightarrow>
                  if \<not> sa_is_active a then upd_pmsg message_id (\<lambda>m. m\<lparr>pm_status := ''ignored''\<rparr>) d
                  else upd_pmsg message_id (\<lambda>m. m\<lparr>pm_status := ''included''\<rparr>)
                         (attach_progress_message st sid now pm (im_sales_user_id msg) d))
           else
             (True, settle_candidate st now
                (\<not> (ob_status ev \<in> set terminal_ignored \<or>
                    (ob_status ev = ''succeeded'' \<and> \<not> has_resolution d (ob_message_id ev)))) message_id d)
       | _ \<Rightarrow> (False, d))"

fun recover_loop :: "settings \<Rightarrow> (pstr \<Rightarrow> pstr) \<Rightarrow> time \<Rightarrow> (pstr \<times> pstr) list \<Rightarrow> nat \<Rightarrow> db \<Rightarrow> nat \<times> db" where
  "recover_loop st fresh now [] n d = (n, d)"
| "recover_loop st fresh now (c # cs) n d =
     (case recover_one st (fresh (fst c)) now c d of
        (done, d') \<Rightarrow> recover_loop st fresh now cs (if done then Suc n else n) d')"

definition recover_pending_messages ::
  "env \<Rightarrow> settings \<Rightarrow> (pstr \<Rightarrow> pstr) \<Rightarrow> time \<Rightarrow> nat \<Rightarrow> db \<Rightarrow> nat \<times> db" where
  "recover_pending_messages env st fresh now limit d =
     (if \<not> lead_progress_enabled st then (0, d)
      else recover_loop st fresh now (recover_candidates env limit d) 0 d)"

section \<open>Statistics\<close>

record lead_progress_stats =
  received_messages :: nat
  identified_leads :: nat
  successful_leads :: nat
  incomplete_leads :: nat
  missing_required_leads :: nat
  ai_pending_leads :: nat
  sync_failed_leads :: nat
  processing_items :: nat
  unassigned_segments :: nat
  snapshot_unverified_leads :: nat
  failed_messages_without_lead :: nat

definition zero_stats :: lead_progress_stats where
  "zero_stats = \<lparr>received_messages = 0, identified_leads = 0, successful_leads = 0, incomplete_leads = 0,
     missing_required_leads = 0, ai_pending_leads = 0, sync_failed_leads = 0, processing_items = 0,
     unassigned_segments = 0, snapshot_unverified_leads = 0, failed_messages_without_lead = 0\<rparr>"

definition window_messages :: "settings \<Rightarrow> db \<Rightarrow> lead_progress_session \<Rightarrow> pstr list" where
  "window_messages st d p =
     map pm_message_id (filter (\<lambda>m. pm_progress_session_id m = Some (ps_id p) \<and>
       pm_status m \<notin> set [''ignored'', ''awaiting_intent''] \<and>
       ps_next_report_at p - interval_of st \<le> pm_received_at m \<and> pm_received_at m < ps_next_report_at p)
       (lead_progress_messages d))"

definition session_leads :: "db \<Rightarrow> lead_progress_session \<Rightarrow> pstr list \<Rightarrow> lead list" where
  "session_leads d p message_ids =
     (let referenced = concat (map (\<lambda>r. case lr_lead_id r of Some l \<Rightarrow> [l] | None \<Rightarrow> [])
            (filter (\<lambda>r. lr_message_id r \<in> set message_ids) (lead_message_resolutions d)))
      in filter (\<lambda>l. ld_id l \<in> set referenced \<and>
           ld_original_capturing_sales_user_id l = ps_sales_user_id p) (leads d))"

definition lead_sync :: "db \<Rightarrow> pstr \<Rightarrow> smart_table_sync option" where
  "lead_sync d l = tget ss_lead_id l (smart_table_syncs d)"

definition sync_succeeded :: "db \<Rightarrow> lead \<Rightarrow> bool" where
  "sync_succeeded d l = (case lead_sync d (ld_id l) of
     None \<Rightarrow> False
   | Some s \<Rightarrow> ld_smart_table_record_id l \<noteq> None \<and> ss_status s = ''succeeded'' \<and>
       ss_smart_table_record_id s = ld_smart_table_record_id l)"

definition sync_status_in :: "db \<Rightarrow> string list \<Rightarrow> lead \<Rightarrow> bool" where
  "sync_status_in d sts l = (case lead_sync d (ld_id l) of None \<Rightarrow> False | Some s \<Rightarrow> ss_status s \<in> set sts)"

definition count_ids :: "('a \<Rightarrow> 'k) \<Rightarrow> ('a \<Rightarrow> bool) \<Rightarrow> 'a list \<Rightarrow> nat" where
  "count_ids key q xs = length (remdups (map key (filter q xs)))"

definition snapshot_of :: "(pstr \<times> fields) list \<Rightarrow> lead \<Rightarrow> fields option" where
  "snapshot_of fresh l = dget (the_default [] (ld_smart_table_record_id l)) fresh"

definition snapshot_test :: "(pstr \<times> fields) list \<Rightarrow> (lead_completeness \<Rightarrow> bool) \<Rightarrow> lead \<Rightarrow> bool" where
  "snapshot_test fresh q l =
     (case snapshot_of fresh l of None \<Rightarrow> False | Some f \<Rightarrow> q (evaluate_completeness f))"

definition failed_without_lead :: "db \<Rightarrow> lead_progress_session \<Rightarrow> pstr list \<Rightarrow> lead list \<Rightarrow> pstr list" where
  "failed_without_lead d p message_ids ls =
     (let rs = filter (\<lambda>r. lr_message_id r \<in> set message_ids) (lead_message_resolutions d);
          with_leads = map lr_message_id (filter (\<lambda>r. case lr_lead_id r of None \<Rightarrow> False | Some l \<Rightarrow> l \<in> ld_id ` set ls) rs);
          with_unassigned = map lr_message_id (filter (\<lambda>r. lr_status r \<in> set UNASSIGNED_RESOLUTION_STATUSES) rs)
      in map ob_message_id (filter (\<lambda>e. ob_message_id e \<in> set message_ids \<and>
           ob_sales_user_id e = ps_sales_user_id p \<and>
           ob_event_type e \<in> set [''message_received'', ''crm_submission_intent''] \<and>
           ob_status e = ''failed_pending_review'' \<and> ob_message_id e \<notin> set with_leads \<and>
           (ob_message_id e \<notin> set with_unassigned \<or>
            (ob_failure_category e \<noteq> None \<and> ob_failure_summary e \<noteq> None))) (outbox_events d)))"

definition calculate_stats ::
  "settings \<Rightarrow> db \<Rightarrow> lead_progress_session \<Rightarrow> (pstr \<times> fields) list \<Rightarrow> lead_progress_stats" where
  "calculate_stats st d p fresh =
     (let message_ids = window_messages st d p
      in if message_ids = [] then zero_stats
         else
           let ls = session_leads d p message_ids;
               rs = filter (\<lambda>r. lr_message_id r \<in> set message_ids) (lead_message_resolutions d);
               processing = filter (sync_status_in d ACTIVE_SYNC_STATUSES) ls;
               covered = map lr_message_id (filter (\<lambda>r. case lr_lead_id r of None \<Rightarrow> False
                   | Some l \<Rightarrow> l \<in> ld_id ` set processing) rs);
               active = map ob_message_id (filter (\<lambda>e. ob_message_id e \<in> set message_ids \<and>
                   ob_sales_user_id e = ps_sales_user_id p \<and> ob_event_type e = ''message_received'' \<and>
                   ob_status e \<in> set ACTIVE_OUTBOX_STATUSES) (outbox_events d));
               missing = snapshot_test fresh (\<lambda>c. missing_required_fields c \<noteq> []);
               pending = snapshot_test fresh (\<lambda>c. pending_confirmation_fields c \<noteq> [])
           in \<lparr>received_messages = length (remdups message_ids),
               identified_leads = count_ids ld_id (\<lambda>_. True) ls,
               successful_leads = count_ids ld_id (sync_succeeded d) ls,
               incomplete_leads = count_ids ld_id (\<lambda>l. sync_succeeded d l \<and> (missing l \<or> pending l)) ls,
               missing_required_leads = count_ids ld_id (\<lambda>l. sync_succeeded d l \<and> missing l) ls,
               ai_pending_leads = count_ids ld_id (\<lambda>l. sync_succeeded d l \<and> pending l) ls,
               sync_failed_leads = count_ids ld_id (sync_status_in d [''failed_pending_review'']) ls,
               processing_items = count_ids ld_id (\<lambda>_. True) processing +
                 length (filter (\<lambda>m. m \<notin> set covered) (remdups active)),
               unassigned_segments = count_ids (\<lambda>r. (lr_message_id r, lr_segment_index r))
                 (\<lambda>r. lr_status r \<in> set UNASSIGNED_RESOLUTION_STATUSES) rs,
               snapshot_unverified_leads =
                 count_ids ld_id (\<lambda>l. sync_succeeded d l \<and> snapshot_of fresh l = None) ls,
               failed_messages_without_lead = length (remdups (failed_without_lead d p message_ids ls))\<rparr>)"

definition successful_record_ids :: "settings \<Rightarrow> db \<Rightarrow> lead_progress_session \<Rightarrow> pstr list" where
  "successful_record_ids st d p =
     dedup (map (\<lambda>l. the_default [] (ld_smart_table_record_id l))
       (filter (sync_succeeded d) (session_leads d p (window_messages st d p))))"

fun read_snapshots :: "'w st_adapter \<Rightarrow> pstr list \<Rightarrow> 'w \<Rightarrow> (pstr \<times> fields) list \<times> 'w" where
  "read_snapshots ad [] w = ([], w)"
| "read_snapshots ad (i # is) w =
     (case get_record ad i w of
        (Inr (Some r), w1) \<Rightarrow>
          (case read_snapshots ad is w1 of
             (fs, w2) \<Rightarrow> (if rec_id r = i then (i, rec_fields r) # fs else fs, w2))
      | (_, w1) \<Rightarrow> read_snapshots ad is w1)"

definition read_successful_record_snapshots ::
  "'w st_adapter \<Rightarrow> settings \<Rightarrow> db \<Rightarrow> pstr \<Rightarrow> 'w \<Rightarrow> (pstr \<times> fields) list \<times> 'w" where
  "read_successful_record_snapshots ad st d pid w =
     (case get_psess d pid of None \<Rightarrow> ([], w) | Some p \<Rightarrow> read_snapshots ad (successful_record_ids st d p) w)"

definition processing_item_count :: "settings \<Rightarrow> db \<Rightarrow> pstr \<Rightarrow> nat" where
  "processing_item_count st d pid =
     (case get_psess d pid of None \<Rightarrow> 0 | Some p \<Rightarrow> processing_items (calculate_stats st d p []))"

section \<open>The summary\<close>

definition num :: "nat \<Rightarrow> pstr" where
  "num n = digits_of n"

definition render_summary :: "lead_progress_stats \<Rightarrow> bool \<Rightarrow> pstr" where
  "render_summary s final =
     (if final then p_title_final else p_title) @ [0xA] @
     p_received @ num (received_messages s) @ p_items @ [0xA] @
     p_identified @ num (identified_leads s) @ p_items @ [0xA] @
     p_success @ num (successful_leads s) @ p_items @ [0xA] @
     p_incomplete @ num (incomplete_leads s) @ p_missing @ num (missing_required_leads s) @
       p_pending @ num (ai_pending_leads s) @ p_overlap @ [0xA] @
     p_failed @ num (sync_failed_leads s) @ p_items @ [0xA] @
     p_processing @ num (processing_items s) @ p_units @ [0xA] @
     p_unassigned @ num (unassigned_segments s) @ p_segments @
     (if failed_messages_without_lead s \<noteq> 0
      then [0xA] @ p_no_lead @ num (failed_messages_without_lead s) @ p_items else []) @
     (if snapshot_unverified_leads s \<noteq> 0
      then [0xA] @ p_unverified @ num (snapshot_unverified_leads s) @ p_items else [])"

definition stats_dict :: "lead_progress_stats \<Rightarrow> fields" where
  "stats_dict s = map (\<lambda>(k, n). (asc k, PInt (int n)))
     [(''received_messages'', received_messages s), (''identified_leads'', identified_leads s),
      (''successful_leads'', successful_leads s), (''incomplete_leads'', incomplete_leads s),
      (''missing_required_leads'', missing_required_leads s), (''ai_pending_leads'', ai_pending_leads s),
      (''sync_failed_leads'', sync_failed_leads s), (''processing_items'', processing_items s),
      (''unassigned_segments'', unassigned_segments s),
      (''snapshot_unverified_leads'', snapshot_unverified_leads s),
      (''failed_messages_without_lead'', failed_messages_without_lead s)]"

section \<open>The scheduler\<close>

definition close_disabled_session :: "pstr \<Rightarrow> pstr \<Rightarrow> time \<Rightarrow> db \<Rightarrow> db" where
  "close_disabled_session pid u now d =
     (case get_psess d pid of
        None \<Rightarrow> d
      | Some p \<Rightarrow>
          if ps_status p = ''active'' \<and> \<not> is_active d u
          then upd_psess pid (\<lambda>p. p\<lparr>ps_status := ''disabled'', ps_closed_at := Some now,
                 ps_close_reason := Some ''sales_disabled''\<rparr>) d
          else d)"

definition summary_notice ::
  "env \<Rightarrow> settings \<Rightarrow> time \<Rightarrow> pstr \<Rightarrow> lead_progress_session \<Rightarrow> lead_progress_stats \<Rightarrow> pstr \<Rightarrow> notification_record" where
  "summary_notice env st now u p stats key =
     (let window_end = ps_next_report_at p
      in \<lparr>nr_notification_key = key, nr_sales_user_id = u, nr_source_message_id = ps_id p,
          nr_notification_type = ''lead_progress_summary'', nr_content = Some (render_summary stats False),
          nr_payload = Some
            [(asc ''progress_session_id'', PStr (ps_id p)),
             (asc ''window_started_at'', PStr (e_iso env (window_end - interval_of st))),
             (asc ''window_ended_at'', PStr (e_iso env window_end)),
             (asc ''scheduled_due_at'', PStr (e_iso env (ps_next_report_at p))),
             (asc ''final'', PBool False),
             (asc ''stats'', PDict (stats_dict stats))],
          nr_status = ''pending'', nr_attempts = 0, nr_processing_started_at = None,
          nr_processing_lease_expires_at = None, nr_processing_claim_token = None,
          nr_provider_message_id = None, nr_sent_at = None, nr_scrubbed_at = None,
          nr_retention_policy_version = None, nr_created_at = now\<rparr>)"

text \<open>The end of the last elapsed window: \<^verbatim>\<open>timedelta.resolution\<close> is one microsecond.\<close>

definition skip_windows :: "settings \<Rightarrow> time \<Rightarrow> time \<Rightarrow> time" where
  "skip_windows st now window_end =
     window_end + ((now - window_end - 1) div interval_of st) * interval_of st"

definition summary_key :: "env \<Rightarrow> pstr \<Rightarrow> time \<Rightarrow> pstr" where
  "summary_key env pid window_end =
     e_sha256 env (asc ''lead_progress:'' @ pid @ asc '':'' @ e_iso env window_end)"

definition report_window ::
  "env \<Rightarrow> settings \<Rightarrow> time \<Rightarrow> pstr \<Rightarrow> pstr \<Rightarrow> (pstr \<times> fields) list \<Rightarrow> db \<Rightarrow> nat \<times> db" where
  "report_window env st now pid u fresh d =
     (case get_psess d pid of
        None \<Rightarrow> (0, d)
      | Some p \<Rightarrow>
          if ps_status p \<noteq> ''active'' then (0, d)
          else if \<not> is_active d u
          then (0, upd_psess pid (\<lambda>p. p\<lparr>ps_status := ''disabled'', ps_closed_at := Some now,
                 ps_close_reason := Some ''sales_disabled''\<rparr>) d)
          else let window_end = ps_next_report_at p; interval = interval_of st
               in if now < window_end then (0, d)
                  else if window_end + interval < now
                  then (0, upd_psess pid (\<lambda>p. p\<lparr>ps_next_report_at := skip_windows st now window_end\<rparr>) d)
                  else let stats = calculate_stats st d p fresh
                       in if received_messages stats = 0
                          then (case sort (map pm_received_at (filter (\<lambda>m. pm_progress_session_id m = Some (ps_id p) \<and>
                                   pm_status m \<notin> set [''ignored'', ''awaiting_intent''] \<and>
                                   window_end \<le> pm_received_at m) (lead_progress_messages d))) of
                                  [] \<Rightarrow> (0, upd_psess pid (\<lambda>p. p\<lparr>ps_status := ''closed'', ps_closed_at := Some now,
                                           ps_close_reason := Some ''no_new_demand''\<rparr>) d)
                                | t # _ \<Rightarrow> (0, upd_psess pid (\<lambda>p. p\<lparr>ps_next_report_at := t + interval\<rparr>) d))
                          else let key = summary_key env (ps_id p) window_end;
                                   advance = upd_psess pid (\<lambda>p. p\<lparr>ps_next_report_at := window_end + interval\<rparr>)
                               in if get_notice d key = None
                                  then (1, advance (d\<lparr>notification_records :=
                                          tadd (summary_notice env st now u p stats key) (notification_records d)\<rparr>))
                                  else (0, advance d))"

definition schedule_candidates :: "env \<Rightarrow> settings \<Rightarrow> time \<Rightarrow> db \<Rightarrow> lead_progress_session list" where
  "schedule_candidates env st now d =
     (let idle_before = now - minutes (lead_progress_idle_stop_minutes st)
      in take SCHEDULER_BATCH_SIZE
           (sort_key ps_next_report_at (sort_key (\<lambda>p. e_collation env (ps_id p))
             (filter (\<lambda>p. get_actor d (ps_sales_user_id p) \<noteq> None \<and> ps_status p = ''active'' \<and>
                (ps_next_report_at p \<le> now \<or> ps_last_activity_at p \<le> idle_before \<or>
                 \<not> is_active d (ps_sales_user_id p))) (lead_progress_sessions d)))))"

text \<open>One iteration of the scan: the candidate's columns are those read at the start of the scan.\<close>

definition schedule_one ::
  "'w st_adapter \<Rightarrow> env \<Rightarrow> settings \<Rightarrow> time \<Rightarrow> lead_progress_session \<times> bool \<Rightarrow> db \<times> 'w \<Rightarrow> nat \<times> db \<times> 'w" where
  "schedule_one ad env st now cand dw =
     (case (cand, dw) of ((p, active), (d, w)) \<Rightarrow>
       let idle_before = now - minutes (lead_progress_idle_stop_minutes st);
           due = (ps_next_report_at p \<le> now);
           idle = (ps_last_activity_at p \<le> idle_before)
       in if \<not> active then (0, close_disabled_session (ps_id p) (ps_sales_user_id p) now d, w)
          else if \<not> due \<and> \<not> idle then (0, d, w)
          else if \<not> due \<and> 0 < processing_item_count st d (ps_id p) then (0, d, w)
          else case read_successful_record_snapshots ad st d (ps_id p) w of
            (fresh, w1) \<Rightarrow>
              (case report_window env st now (ps_id p) (ps_sales_user_id p) fresh d of
                 (n, d1) \<Rightarrow> (n, d1, w1)))"

fun schedule_loop ::
  "'w st_adapter \<Rightarrow> env \<Rightarrow> settings \<Rightarrow> time \<Rightarrow> (lead_progress_session \<times> bool) list \<Rightarrow> nat \<Rightarrow> db \<times> 'w \<Rightarrow> nat \<times> db \<times> 'w" where
  "schedule_loop ad env st now [] n dw = (n, dw)"
| "schedule_loop ad env st now (c # cs) n dw =
     (case schedule_one ad env st now c dw of (k, dw') \<Rightarrow> schedule_loop ad env st now cs (n + k) dw')"

definition schedule_due_reports ::
  "'w st_adapter \<Rightarrow> env \<Rightarrow> settings \<Rightarrow> (pstr \<Rightarrow> pstr) \<Rightarrow> time \<Rightarrow> db \<Rightarrow> 'w \<Rightarrow> nat \<times> db \<times> 'w" where
  "schedule_due_reports ad env st fresh now d w =
     (if \<not> lead_progress_enabled st then (0, d, w)
      else let d1 = snd (recover_pending_messages env st fresh now SCHEDULER_BATCH_SIZE d)
           in schedule_loop ad env st now
                (map (\<lambda>p. (p, is_active d1 (ps_sales_user_id p))) (schedule_candidates env st now d1)) 0 (d1, w))"

end
