(* ===== verification/Progress_Correct.thy ===== *)
theory Progress_Correct
  imports Progress
begin

text \<open>
  Correctness of the progress sessions: one active session per salesperson in every reachable
  state, the report windows, and the bounds of the statistics.
\<close>

section \<open>Session tables\<close>

definition is_act :: "lead_progress_session \<Rightarrow> bool" where
  "is_act p = (ps_status p = ''active'')"

definition sessions_ok :: "lead_progress_session list \<Rightarrow> bool" where
  "sessions_ok t = (distinct (map ps_id t) \<and> distinct (map ps_sales_user_id (filter is_act t)))"

lemma active_users_tupd:
  assumes user: "\<And>p. ps_sales_user_id (f p) = ps_sales_user_id p" and act: "\<And>p. is_act (f p) \<Longrightarrow> is_act p"
  shows "distinct (map ps_sales_user_id (filter is_act t)) \<Longrightarrow>
    distinct (map ps_sales_user_id (filter is_act (tupd ps_id s f t)))"
    and "ps_sales_user_id ` set (filter is_act (tupd ps_id s f t)) \<subseteq> ps_sales_user_id ` set (filter is_act t)"
proof -
  show sub: "ps_sales_user_id ` set (filter is_act (tupd ps_id s f t)) \<subseteq> ps_sales_user_id ` set (filter is_act t)" for t
    using user act by (auto simp: tupd_def)
  show "distinct (map ps_sales_user_id (filter is_act t)) \<Longrightarrow>
    distinct (map ps_sales_user_id (filter is_act (tupd ps_id s f t)))"
  proof (induction t)
    case Nil
    then show ?case by (simp add: tupd_def)
  next
    case (Cons p t)
    let ?g = "if ps_id p = s then f p else p"
    have step: "tupd ps_id s f (p # t) = ?g # tupd ps_id s f t" by (simp add: tupd_def)
    have u: "ps_sales_user_id ?g = ps_sales_user_id p" and a: "is_act ?g \<Longrightarrow> is_act p"
      using user act by (simp, cases "ps_id p = s") simp_all
    show ?case
    proof (cases "is_act ?g")
      case False
      have "distinct (map ps_sales_user_id (filter is_act t))"
        using Cons.prems by (cases "is_act p") auto
      with Cons.IH False step show ?thesis by simp
    next
      case True
      with a have "is_act p" by blast
      with Cons.prems have "distinct (map ps_sales_user_id (filter is_act t))"
        and "ps_sales_user_id p \<notin> ps_sales_user_id ` set (filter is_act t)" by auto
      with Cons.IH sub [of t] True step u show ?thesis by (simp only: filter.simps if_True list.map distinct.simps set_map) blast
    qed
  qed
qed

lemma sessions_ok_tupd:
  assumes "sessions_ok t" and "\<And>p. ps_id (f p) = ps_id p"
    and "\<And>p. ps_sales_user_id (f p) = ps_sales_user_id p" and "\<And>p. is_act (f p) \<Longrightarrow> is_act p"
  shows "sessions_ok (tupd ps_id s f t)"
  using assms(1) tupd_keys [of ps_id f, OF assms(2), of s t] active_users_tupd(1) [OF assms(3,4), of t s]
  by (simp add: sessions_ok_def)

lemma sessions_ok_tadd:
  assumes "sessions_ok t" and "ps_id p \<notin> ps_id ` set t"
    and "\<And>q. q \<in> set t \<Longrightarrow> is_act q \<Longrightarrow> ps_sales_user_id q \<noteq> ps_sales_user_id p"
  shows "sessions_ok (tadd p t)"
  using assms(1,2) assms(3) [symmetric] by (fastforce simp: sessions_ok_def tadd_def)

definition sess_ids :: "db \<Rightarrow> pstr set" where
  "sess_ids d = ps_id ` set (lead_progress_sessions d)"

abbreviation prog_ok :: "db \<Rightarrow> bool" where
  "prog_ok d \<equiv> sessions_ok (lead_progress_sessions d)"

lemma ids_tupd:
  assumes "\<And>p. key (f p) = key p"
  shows "key ` set (tupd key s f t) = key ` set t"
  using tupd_keys [of key f s t, OF assms] by (metis list.set_map)

lemma active_session_None:
  "active_session d u = None \<Longrightarrow> q \<in> set (lead_progress_sessions d) \<Longrightarrow> is_act q \<Longrightarrow> ps_sales_user_id q \<noteq> u"
  by (auto simp: active_session_def find_None_iff is_act_def)

lemma touch_session_frame [simp]:
  "ps_id (touch_session st t b p) = ps_id p"
  "ps_sales_user_id (touch_session st t b p) = ps_sales_user_id p"
  "ps_status (touch_session st t b p) = ps_status p"
  by (simp_all add: touch_session_def Let_def)

lemma attach_sessions:
  "lead_progress_sessions (attach_progress_message st sid now pm u d) =
     (case active_session d u of
        None \<Rightarrow> tadd \<lparr>ps_id = sid, ps_sales_user_id = u, ps_status = ''active'', ps_started_at = pm_received_at pm,
                  ps_last_activity_at = pm_received_at pm, ps_next_report_at = pm_received_at pm + interval_of st,
                  ps_closed_at = None, ps_close_reason = None, ps_created_at = now\<rparr> (lead_progress_sessions d)
      | Some p \<Rightarrow> tupd ps_id (ps_id p) (touch_session st (pm_received_at pm) (prior_notice d (ps_id p)))
                 (lead_progress_sessions d))"
  by (simp add: attach_progress_message_def Let_def split: option.splits)

lemma attach_ids: "sess_ids (attach_progress_message st sid now pm u d) \<subseteq> insert sid (sess_ids d)"
  unfolding sess_ids_def attach_sessions by (auto simp: ids_tupd split: option.splits)

lemma attach_ok:
  assumes "prog_ok d" and "sid \<notin> sess_ids d"
  shows "prog_ok (attach_progress_message st sid now pm u d)"
proof (cases "active_session d u")
  case None
  with assms active_session_None [OF None] show ?thesis
    by (auto simp: attach_sessions sess_ids_def intro!: sessions_ok_tadd)
next
  case (Some p)
  with assms show ?thesis
    by (auto simp: attach_sessions is_act_def intro!: sessions_ok_tupd)
qed

lemma register_ok:
  assumes "prog_ok d" and "sid \<notin> sess_ids d"
  shows "prog_ok (snd (register_progress_message st sid now msg d))"
  using assms by (auto simp: register_progress_message_def Let_def sess_ids_def intro!: attach_ok)

lemma candidate_frame [simp]:
  "lead_progress_sessions (snd (register_progress_intent_candidate st now msg d)) = lead_progress_sessions d"
  by (simp add: register_progress_intent_candidate_def)

lemma activate_ok:
  assumes "prog_ok d" and "sid \<notin> sess_ids d"
  shows "prog_ok (snd (activate_progress_intent_candidate st sid now m d))"
  using assms attach_ok [OF assms]
  by (auto simp: activate_progress_intent_candidate_def split: option.splits)

lemma reanchor_ok: "prog_ok d \<Longrightarrow> prog_ok (reanchor_or_close_empty_session st sid now d)"
  by (auto simp: reanchor_or_close_empty_session_def Let_def is_act_def split: list.splits
      intro!: sessions_ok_tupd)

lemma reanchor_ids: "sess_ids (reanchor_or_close_empty_session st sid now d) = sess_ids d"
  by (auto simp: reanchor_or_close_empty_session_def Let_def sess_ids_def ids_tupd split: list.splits)

lemma settle_ok: "prog_ok d \<Longrightarrow> prog_ok (settle_candidate st now included m d)"
  by (auto simp: settle_candidate_def Let_def reanchor_ok split: option.splits)

lemma settle_ids: "sess_ids (settle_candidate st now included m d) = sess_ids d"
  unfolding settle_candidate_def Let_def
  by (auto simp: reanchor_ids split: option.splits) (auto simp: sess_ids_def)

lemma attach_messages:
  "lead_progress_messages (attach_progress_message st sid now pm u d) =
     tupd pm_message_id (pm_message_id pm) (\<lambda>m. m\<lparr>pm_progress_session_id :=
       Some (case active_session d u of None \<Rightarrow> sid | Some p \<Rightarrow> ps_id p), pm_status := ''processing''\<rparr>)
       (lead_progress_messages d)"
  by (simp add: attach_progress_message_def Let_def split: option.splits)

lemma register_status:
  assumes "get_pmsg d (im_message_id msg) = None"
    and "get_pmsg (snd (register_progress_message st sid now msg d)) (im_message_id msg) = Some pm"
  shows "pm_status pm = ''processing''"
  using assms
  by (auto simp: register_progress_message_def Let_def attach_messages new_progress_message_def tget_tupd_same
      split: if_splits)

lemma resolve_ok:
  assumes "prog_ok d" and "sid \<notin> sess_ids d"
  shows "prog_ok (snd (record_resolved_message st sid now included m d))"
proof (cases "get_message d m")
  case None
  with assms show ?thesis by (simp add: record_resolved_message_def)
next
  case (Some msg)
  then have m: "im_message_id msg = m" by (auto dest: tget_SomeD)
  note a = attach_ok [OF assms] and r = register_ok [OF assms]
  have reg: "pm_status pm \<noteq> ''awaiting_intent''"
    if "get_pmsg d m = None" "get_pmsg (snd (register_progress_message st sid now msg d)) m = Some pm" for pm
    using register_status [OF that(1) [folded m] that(2) [folded m]] by simp
  show ?thesis
    using assms a r reg Some
    by (auto simp: record_resolved_message_def Let_def settle_ok split: option.splits)
qed

lemma recover_one_ids: "sess_ids (snd (recover_one st sid now c d)) \<subseteq> insert sid (sess_ids d)"
proof -
  have ids: "sess_ids (upd_pmsg m f e) = sess_ids e" for m f e by (simp add: sess_ids_def)
  show ?thesis
    unfolding recover_one_def
    using attach_ids [of st sid now _ _ d] by (auto simp: settle_ids ids split: prod.splits option.splits)
qed

lemma recover_one_ok:
  assumes "prog_ok d" and "sid \<notin> sess_ids d"
  shows "prog_ok (snd (recover_one st sid now c d))"
  using assms attach_ok [OF assms]
  by (auto simp: recover_one_def settle_ok split: prod.splits option.splits)

lemma close_disabled_ok: "prog_ok d \<Longrightarrow> prog_ok (close_disabled_session pid u now d)"
  by (auto simp: close_disabled_session_def is_act_def split: option.splits intro!: sessions_ok_tupd)

lemma report_window_ok: "prog_ok d \<Longrightarrow> prog_ok (snd (report_window env st now pid u fresh d))"
  by (auto simp: report_window_def Let_def is_act_def split: option.splits list.splits intro!: sessions_ok_tupd)

section \<open>Reachable states\<close>

text \<open>
  One step of the component: any of its transactions, in any order, by any worker. A transaction that
  may open a session draws an identifier no session has.
\<close>

inductive progress_step :: "db \<Rightarrow> db \<Rightarrow> bool" where
  Register: "sid \<notin> sess_ids d \<Longrightarrow> progress_step d (snd (register_progress_message st sid now msg d))"
| Candidate: "progress_step d (snd (register_progress_intent_candidate st now msg d))"
| Activate: "sid \<notin> sess_ids d \<Longrightarrow> progress_step d (snd (activate_progress_intent_candidate st sid now m d))"
| Resolve: "sid \<notin> sess_ids d \<Longrightarrow> progress_step d (snd (record_resolved_message st sid now included m d))"
| Recover: "sid \<notin> sess_ids d \<Longrightarrow> progress_step d (snd (recover_one st sid now c d))"
| Report: "progress_step d (snd (report_window env st now pid u fresh d))"
| Disable: "progress_step d (close_disabled_session pid u now d)"

inductive_cases progress_stepE: "progress_step d d'"

lemma progress_step_ok: "progress_step d d' \<Longrightarrow> prog_ok d \<Longrightarrow> prog_ok d'"
  by (induction rule: progress_step.induct)
    (auto simp: register_ok activate_ok resolve_ok recover_one_ok report_window_ok close_disabled_ok)

lemma progress_run_ok: "progress_step\<^sup>*\<^sup>* d d' \<Longrightarrow> prog_ok d \<Longrightarrow> prog_ok d'"
  by (induction rule: rtranclp_induct) (auto intro: progress_step_ok)

text \<open>The recovery loop and the scheduler are sequences of such steps.\<close>

lemma recover_loop_steps:
  assumes "inj_on fresh (fst ` set cs)" and "distinct (map fst cs)" and "\<And>c. c \<in> set cs \<Longrightarrow> fresh (fst c) \<notin> sess_ids d"
  shows "progress_step\<^sup>*\<^sup>* d (snd (recover_loop st fresh now cs n d))"
  using assms
proof (induction cs arbitrary: n d)
  case Nil
  then show ?case by simp
next
  case (Cons c cs)
  let ?d = "snd (recover_one st (fresh (fst c)) now c d)"
  have new: "fresh (fst c) \<notin> sess_ids d" using Cons.prems(3) by simp
  have step: "progress_step d ?d" by (rule progress_step.Recover) (rule new)
  have "fresh (fst x) \<notin> sess_ids ?d" if "x \<in> set cs" for x
  proof -
    have "fst x \<noteq> fst c" using Cons.prems(2) imageI [OF that, of fst] by (metis distinct.simps(2) list.set_map list.simps(9))
    then have "fresh (fst x) \<noteq> fresh (fst c)"
      using inj_onD [OF Cons.prems(1), of "fst x" "fst c"] that by auto
    moreover have "sess_ids ?d \<subseteq> insert (fresh (fst c)) (sess_ids d)"
      by (rule recover_one_ids)
    ultimately show ?thesis using Cons.prems(3) [of x] that by auto
  qed
  then have "progress_step\<^sup>*\<^sup>* ?d (snd (recover_loop st fresh now cs k ?d))" for k
    using Cons.prems by (intro Cons.IH) (auto intro: inj_on_subset)
  with step show ?case
    by (auto split: prod.splits intro: converse_rtranclp_into_rtranclp) 
qed

lemma schedule_one_steps:
  "schedule_one ad env st now c (d, w) = (k, d', w') \<Longrightarrow> progress_step\<^sup>*\<^sup>* d d'"
  using progress_step.Disable [of d _ _ now] progress_step.Report [of d env st now]
  by (auto simp: schedule_one_def Let_def split: prod.splits if_splits
      dest!: arg_cong [where f = snd, of "(_, d')"] intro: r_into_rtranclp) (metis snd_conv r_into_rtranclp)+

lemma schedule_loop_steps:
  "schedule_loop ad env st now cs n (d, w) = (k, d', w') \<Longrightarrow> progress_step\<^sup>*\<^sup>* d d'"
proof (induction cs arbitrary: n d w)
  case Nil
  then show ?case by simp
next
  case (Cons c cs)
  obtain j d1 w1 where one: "schedule_one ad env st now c (d, w) = (j, d1, w1)" by (metis prod_cases3)
  with Cons.prems have "schedule_loop ad env st now cs (n + j) (d1, w1) = (k, d', w')" by simp
  from Cons.IH [OF this] schedule_one_steps [OF one] show ?case by auto
qed

lemma concat_keys_distinct:
  assumes "distinct (map key ms)" and "\<And>m. length (inner m) \<le> 1" and "\<And>m x. x \<in> set (inner m) \<Longrightarrow> fst x = m"
  shows "distinct (map (\<lambda>x. key (fst x)) (concat (map inner ms)))"
  using assms(1)
proof (induction ms)
  case Nil
  then show ?case by simp
next
  case (Cons m ms)
  have one: "distinct (map (\<lambda>x. key (fst x)) (inner m))"
    using assms(2) [of m] by (cases "inner m") auto
  have "key m \<notin> (\<lambda>x. key (fst x)) ` set (concat (map inner ms))"
    using Cons.prems assms(3) by auto
  with one Cons assms(3) show ?case by auto
qed

lemma match_at_most_one:
  "distinct (map key es) \<Longrightarrow> length (concat (map (\<lambda>e. if key e = k \<and> P e then [(m, e)] else []) es)) \<le> 1"
proof (induction es)
  case Nil
  then show ?case by simp
next
  case (Cons e es)
  have "concat (map (\<lambda>e. if key e = k \<and> P e then [(m, e)] else []) es) = []" if "key e = k"
    using Cons.prems that by (auto simp: image_iff)
  with Cons show ?case by auto
qed

lemma sort_map_distinct: "distinct (map g xs) \<Longrightarrow> distinct (map g (sort_key k xs))"
  by (simp add: distinct_map)

lemma recover_candidates_distinct:
  assumes "distinct (map pm_message_id (lead_progress_messages d))"
    and "distinct (map ob_message_id (outbox_events d))"
  shows "distinct (map fst (recover_candidates env limit d))"
proof -
  let ?inner = "\<lambda>m. concat (map (\<lambda>e. if ob_message_id e = pm_message_id m \<and>
      pm_status m \<in> set [''processing'', ''awaiting_intent''] \<and>
      ob_status e \<notin> set ACTIVE_OUTBOX_STATUSES then [(m, e)] else []) (outbox_events d))"
  let ?pairs = "concat (map ?inner (lead_progress_messages d))"
  have "distinct (map (\<lambda>x. pm_message_id (fst x)) ?pairs)"
    using assms(1) by (rule concat_keys_distinct) (rule match_at_most_one [OF assms(2)], auto split: if_splits)
  then have "distinct (map (\<lambda>x. pm_message_id (fst x)) (take limit (sort_key (\<lambda>(m, e). e_collation env (ob_sales_user_id e))
      (sort_key (\<lambda>(m, e). pm_created_at m) ?pairs))))"
    by (intro sort_map_distinct distinct_take [of "map _ _", simplified take_map]) 
  then show ?thesis
    by (simp add: recover_candidates_def Let_def comp_def case_prod_beta)
qed

section \<open>Properties\<close>

text \<open>
  C3. However the progress transactions interleave (registrations, intent activations, results,
  recovery, reports and deactivations), no salesperson ever has two active sessions and session
  identifiers stay unique. The only assumption is that an operation that may open a session draws an
  unused identifier.
\<close>

theorem one_active_session:
  assumes "progress_step\<^sup>*\<^sup>* d d'" and "sessions_ok (lead_progress_sessions d)"
    and "p \<in> set (lead_progress_sessions d')" and "q \<in> set (lead_progress_sessions d')"
    and "ps_status p = ''active''" and "ps_status q = ''active''" and "ps_sales_user_id p = ps_sales_user_id q"
  shows "p = q"
proof -
  have "prog_ok d'" using assms(1,2) by (rule progress_run_ok)
  then have "inj_on ps_sales_user_id (set (filter is_act (lead_progress_sessions d')))"
    by (simp add: sessions_ok_def distinct_map)
  then show ?thesis
    by (rule inj_onD) (use assms in \<open>auto simp: is_act_def\<close>)
qed

definition amy_message :: incoming_message where
  "amy_message = \<lparr>im_message_id = asc ''m1'', im_sales_user_id = asc ''amy'', im_sequence = 1, im_raw_payload = [],
     im_normalized_text = None, im_chat_id = None, im_chat_type = None, im_requires_media_enrichment = False,
     im_scrubbed_at = None, im_retention_policy_version = None, im_received_at = 100\<rparr>"

definition amy_db :: db where
  "amy_db = empty_db\<lparr>sales_authorizations := [new_actor (asc ''amy'') None True None 0],
     incoming_messages := [amy_message]\<rparr>"

definition amy_session_db :: db where
  "amy_session_db = snd (register_progress_message example_settings (asc ''s1'') 100 amy_message amy_db)"

theorem one_active_session_witness:
  "\<exists>p. p \<in> set (lead_progress_sessions amy_session_db) \<and> ps_status p = ''active'' \<and>
     (\<forall>q\<in>set (lead_progress_sessions amy_session_db). ps_status q = ''active'' \<longrightarrow>
        ps_sales_user_id p = ps_sales_user_id q \<longrightarrow> p = q)"
proof -
  have "asc ''s1'' \<notin> sess_ids amy_db" by (simp add: sess_ids_def amy_db_def empty_db_def)
  then have run: "progress_step\<^sup>*\<^sup>* amy_db amy_session_db"
    unfolding amy_session_db_def by (intro r_into_rtranclp progress_step.Register)
  have ok: "sessions_ok (lead_progress_sessions amy_db)"
    by (simp add: sessions_ok_def amy_db_def empty_db_def)
  obtain p where "p \<in> set (lead_progress_sessions amy_session_db)" "ps_status p = ''active''"
    by (simp add: amy_session_db_def register_progress_message_def amy_db_def amy_message_def empty_db_def
        new_actor_def is_active_def example_settings_def Let_def attach_sessions active_session_def)
  with one_active_session [OF run ok] show ?thesis by blast
qed

text \<open>
  A whole scheduler run, recovery included, keeps that invariant: it is a sequence of the
  component's transactions, whatever the table adapter answers.
\<close>

theorem schedule_keeps_one_active:
  assumes "schedule_due_reports ad env st fresh now d w = (n, d', w')"
    and "sessions_ok (lead_progress_sessions d)"
    and "inj fresh" and "\<And>m. fresh m \<notin> ps_id ` set (lead_progress_sessions d)"
    and "distinct (map pm_message_id (lead_progress_messages d))"
    and "distinct (map ob_message_id (outbox_events d))"
  shows "sessions_ok (lead_progress_sessions d')"
proof (cases "lead_progress_enabled st")
  case False
  with assms show ?thesis by (simp add: schedule_due_reports_def)
next
  case True
  let ?cs = "recover_candidates env SCHEDULER_BATCH_SIZE d"
  let ?d1 = "snd (recover_loop st fresh now ?cs 0 d)"
  have "progress_step\<^sup>*\<^sup>* d ?d1"
    using assms(3,4) by (intro recover_loop_steps recover_candidates_distinct assms(5,6))
      (auto simp: sess_ids_def intro: inj_on_subset)
  moreover have "progress_step\<^sup>*\<^sup>* ?d1 d'"
    using assms(1) True
    by (intro schedule_loop_steps [where w = w and k = n and w' = w'])
      (simp add: schedule_due_reports_def recover_pending_messages_def Let_def)
  ultimately show ?thesis using assms(2) progress_run_ok by (metis rtranclp_trans)
qed

lemma amy_session_facts:
  "lead_progress_sessions amy_session_db = [\<lparr>ps_id = asc ''s1'', ps_sales_user_id = asc ''amy'',
      ps_status = ''active'', ps_started_at = 100, ps_last_activity_at = 100,
      ps_next_report_at = 100 + interval_of example_settings, ps_closed_at = None, ps_close_reason = None,
      ps_created_at = 100\<rparr>]"
  "lead_progress_messages amy_session_db = [\<lparr>pm_message_id = asc ''m1'', pm_progress_session_id = Some (asc ''s1''),
      pm_status = ''processing'', pm_received_at = 100, pm_created_at = 100\<rparr>]"
  "outbox_events amy_session_db = []" "notification_records amy_session_db = []"
  "is_active amy_session_db (asc ''amy'')"
  by (simp_all add: amy_session_db_def register_progress_message_def amy_db_def amy_message_def empty_db_def
      new_actor_def is_active_def example_settings_def Let_def attach_sessions active_session_def
      attach_messages new_progress_message_def tadd_def tupd_def)
    (simp_all add: attach_progress_message_def active_session_def Let_def)

theorem schedule_keeps_one_active_witness:
  "sessions_ok (lead_progress_sessions (fst (snd (schedule_due_reports (mock_adapter [] (\<lambda>_. [])) plain_env
     example_settings (\<lambda>m. asc ''n'' @ m) 0 amy_session_db empty_mock))))"
proof -
  obtain n d' w' where run: "schedule_due_reports (mock_adapter [] (\<lambda>_. [])) plain_env
     example_settings (\<lambda>m. asc ''n'' @ m) 0 amy_session_db empty_mock = (n, d', w')"
    by (metis prod_cases3)
  have "sessions_ok (lead_progress_sessions d')"
    by (rule schedule_keeps_one_active [OF run])
      (simp_all add: amy_session_facts sessions_ok_def inj_def asc_def)
  with run show ?thesis by simp
qed

lemma stats_received: "received_messages (calculate_stats st d p fresh) = length (remdups (window_messages st d p))"
  by (simp add: calculate_stats_def zero_stats_def Let_def)

text \<open>
  A summary is queued only when it is due and warranted: the session and its salesperson are
  active, the window ended no more than one interval ago, at least one counted message was received in
  the half-open window, and no summary of this window exists. It then queues exactly one pending notice for that
  salesperson under the window's key and moves the session to the next window.
\<close>

theorem report_window_sound:
  assumes "report_window env st now pid u fresh d = (n, d')" and "n \<noteq> 0"
  shows "n = 1 \<and> is_active d u \<and>
    (\<exists>p nt. get_psess d pid = Some p \<and> ps_status p = ''active'' \<and>
       ps_next_report_at p \<le> now \<and> now \<le> ps_next_report_at p + interval_of st \<and>
       window_messages st d p \<noteq> [] \<and>
       get_notice d (summary_key env pid (ps_next_report_at p)) = None \<and>
       notification_records d' = notification_records d @ [nt] \<and>
       nr_notification_key nt = summary_key env pid (ps_next_report_at p) \<and>
       nr_sales_user_id nt = u \<and> nr_status nt = ''pending'' \<and>
       get_psess d' pid = Some (p\<lparr>ps_next_report_at := ps_next_report_at p + interval_of st\<rparr>))"
proof -
  obtain p where p: "get_psess d pid = Some p"
    using assms by (cases "get_psess d pid") (auto simp: report_window_def)
  have pid: "ps_id p = pid" using tget_SomeD [OF p] by simp
  have received: "window_messages st d p \<noteq> []" if "received_messages (calculate_stats st d p fresh) \<noteq> 0"
    using that by (auto simp: stats_received)
  let ?key = "summary_key env pid (ps_next_report_at p)"
  have c: "is_active d u" "ps_status p = ''active''" "ps_next_report_at p \<le> now"
    "now \<le> ps_next_report_at p + interval_of st" "received_messages (calculate_stats st d p fresh) \<noteq> 0"
    "get_notice d ?key = None" "n = 1"
    "d' = upd_psess pid (\<lambda>q. q\<lparr>ps_next_report_at := ps_next_report_at p + interval_of st\<rparr>)
       (d\<lparr>notification_records := tadd (summary_notice env st now u p (calculate_stats st d p fresh) ?key)
          (notification_records d)\<rparr>)"
    using assms p pid by (auto simp: report_window_def Let_def split: if_splits list.splits)
  have "get_psess d' pid = Some (p\<lparr>ps_next_report_at := ps_next_report_at p + interval_of st\<rparr>)"
    using c(8) p by (simp add: tget_tupd_same)
  moreover have "notification_records d' = notification_records d @
      [summary_notice env st now u p (calculate_stats st d p fresh) ?key]"
    using c(8) by (simp add: tadd_def)
  ultimately show ?thesis
    using c(1-7) p received by (simp add: summary_notice_def Let_def)
qed

definition due_time :: time where
  "due_time = 100 + interval_of example_settings"

theorem report_window_sound_witness:
  "fst (report_window plain_env example_settings due_time (asc ''s1'') (asc ''amy'') [] amy_session_db) = 1 \<and>
   is_active amy_session_db (asc ''amy'')"
proof -
  let ?r = "report_window plain_env example_settings due_time (asc ''s1'') (asc ''amy'') [] amy_session_db"
  have "0 < interval_of example_settings" by (simp add: interval_of_def example_settings_def minutes_def)
  then have one: "fst ?r = 1"
    by (simp add: report_window_def amy_session_facts due_time_def Let_def stats_received window_messages_def)
  obtain n d' where r: "?r = (n, d')" by fastforce
  with one have "n \<noteq> 0" by simp
  from one report_window_sound [OF r this] show ?thesis by blast
qed

text \<open>
  When the scheduler was away for longer than a window, the expired windows are skipped, not
  reported late: the session moves by a positive whole number of intervals to the latest window that
  had ended before now, so the next scan finds it due and within one interval.
\<close>

theorem skip_windows_aligned:
  assumes "0 < interval_of st" and "window_end + interval_of st < now"
  shows "skip_windows st now window_end < now \<and>
    now \<le> skip_windows st now window_end + interval_of st \<and>
    (\<exists>k>0. skip_windows st now window_end = window_end + k * interval_of st)"
proof -
  let ?i = "interval_of st" and ?x = "now - window_end - 1"
  have m: "?x div ?i * ?i \<le> ?x" "?x < ?x div ?i * ?i + ?i"
    using assms(1) pos_mod_sign [of ?i ?x] pos_mod_bound [of ?i ?x] div_mult_mod_eq [of ?x ?i] by linarith+
  have "?i \<le> ?x" using assms(2) by linarith
  then have "0 < ?x div ?i" using assms(1) by (simp add: pos_imp_zdiv_pos_iff)
  with m show ?thesis unfolding skip_windows_def by (intro conjI) (linarith, linarith, blast)
qed

theorem skip_windows_aligned_witness:
  "skip_windows example_settings (minutes 100) 0 = minutes 90 \<and>
   skip_windows example_settings (minutes 100) 0 < minutes 100"
proof -
  have "0 < interval_of example_settings" "0 + interval_of example_settings < minutes 100"
    by (simp_all add: interval_of_def example_settings_def minutes_def)
  from skip_windows_aligned [OF this] show ?thesis
    by (simp add: skip_windows_def interval_of_def example_settings_def minutes_def)
qed

lemma count_ids_card: "count_ids key q xs = card (key ` {x \<in> set xs. q x})"
  by (simp add: count_ids_def length_remdups_card_conv)

lemma count_ids_mono: "(\<And>x. x \<in> set xs \<Longrightarrow> q x \<Longrightarrow> r x) \<Longrightarrow> count_ids key q xs \<le> count_ids key r xs"
  unfolding count_ids_card by (rule card_mono) auto

lemma count_ids_disjoint:
  assumes "\<And>x y. x \<in> set xs \<Longrightarrow> y \<in> set xs \<Longrightarrow> q x \<Longrightarrow> r y \<Longrightarrow> key x \<noteq> key y"
    and "\<And>x. x \<in> set xs \<Longrightarrow> q x \<or> r x \<Longrightarrow> t x"
  shows "count_ids key q xs + count_ids key r xs \<le> count_ids key t xs"
proof -
  let ?A = "key ` {x \<in> set xs. q x}" and ?B = "key ` {x \<in> set xs. r x}"
  have "?A \<inter> ?B = {}" using assms(1) by fastforce
  then have "card ?A + card ?B = card (?A \<union> ?B)" by (simp add: card_Un_disjoint)
  also have "\<dots> \<le> card (key ` {x \<in> set xs. t x})" using assms(2) by (intro card_mono) auto
  finally show ?thesis by (simp add: count_ids_card)
qed

lemma count_ids_union: "count_ids key (\<lambda>x. q x \<or> r x) xs \<le> count_ids key q xs + count_ids key r xs"
proof -
  have "key ` {x \<in> set xs. q x \<or> r x} = key ` {x \<in> set xs. q x} \<union> key ` {x \<in> set xs. r x}" by auto
  then show ?thesis unfolding count_ids_card by (metis card_Un_le)
qed

lemma snapshot_test_Some: "snapshot_test fresh q l \<Longrightarrow> snapshot_of fresh l \<noteq> None"
  by (auto simp: snapshot_test_def split: option.splits)

text \<open>
  The counts of a summary are consistent: successful and failed leads are disjoint parts of the
  identified ones, incomplete and unverified leads are disjoint parts of the successful ones, and
  the incomplete count lies between the larger of its two overlapping causes and their sum.
\<close>

theorem stats_consistent:
  assumes "distinct (map ld_id (leads d))"
  shows "successful_leads (calculate_stats st d p fresh) + sync_failed_leads (calculate_stats st d p fresh)
      \<le> identified_leads (calculate_stats st d p fresh) \<and>
    incomplete_leads (calculate_stats st d p fresh) + snapshot_unverified_leads (calculate_stats st d p fresh)
      \<le> successful_leads (calculate_stats st d p fresh) \<and>
    max (missing_required_leads (calculate_stats st d p fresh)) (ai_pending_leads (calculate_stats st d p fresh))
      \<le> incomplete_leads (calculate_stats st d p fresh) \<and>
    incomplete_leads (calculate_stats st d p fresh)
      \<le> missing_required_leads (calculate_stats st d p fresh) + ai_pending_leads (calculate_stats st d p fresh)"
proof (cases "window_messages st d p = []")
  case True
  then show ?thesis by (simp add: calculate_stats_def zero_stats_def)
next
  case False
  define ls where "ls = session_leads d p (window_messages st d p)"
  let ?ok = "sync_succeeded d" and ?mi = "snapshot_test fresh (\<lambda>c. missing_required_fields c \<noteq> [])"
  let ?pe = "snapshot_test fresh (\<lambda>c. pending_confirmation_fields c \<noteq> [])"
  have same: "x = y" if "x \<in> set ls" "y \<in> set ls" "ld_id x = ld_id y" for x y
    using that assms by (auto simp: ls_def session_leads_def Let_def distinct_map dest: inj_onD)
  have a: "count_ids ld_id ?ok ls + count_ids ld_id (sync_status_in d [''failed_pending_review'']) ls
      \<le> count_ids ld_id (\<lambda>_. True) ls"
    by (rule count_ids_disjoint) (auto simp: sync_succeeded_def sync_status_in_def split: option.splits)
  have b: "count_ids ld_id (\<lambda>l. ?ok l \<and> (?mi l \<or> ?pe l)) ls +
      count_ids ld_id (\<lambda>l. ?ok l \<and> snapshot_of fresh l = None) ls \<le> count_ids ld_id ?ok ls"
    by (rule count_ids_disjoint) (auto dest: same snapshot_test_Some)
  have c: "count_ids ld_id (\<lambda>l. ?ok l \<and> ?mi l) ls \<le> count_ids ld_id (\<lambda>l. ?ok l \<and> (?mi l \<or> ?pe l)) ls"
    "count_ids ld_id (\<lambda>l. ?ok l \<and> ?pe l) ls \<le> count_ids ld_id (\<lambda>l. ?ok l \<and> (?mi l \<or> ?pe l)) ls"
    by (rule count_ids_mono; blast)+
  have "(\<lambda>l. ?ok l \<and> (?mi l \<or> ?pe l)) = (\<lambda>l. (?ok l \<and> ?mi l) \<or> (?ok l \<and> ?pe l))" by auto
  then have e: "count_ids ld_id (\<lambda>l. ?ok l \<and> (?mi l \<or> ?pe l)) ls
      \<le> count_ids ld_id (\<lambda>l. ?ok l \<and> ?mi l) ls + count_ids ld_id (\<lambda>l. ?ok l \<and> ?pe l) ls"
    using count_ids_union [of ld_id "\<lambda>l. ?ok l \<and> ?mi l" "\<lambda>l. ?ok l \<and> ?pe l" ls] by simp
  show ?thesis
    using a b c e False by (simp add: calculate_stats_def Let_def ls_def [symmetric])
qed

theorem stats_consistent_witness:
  "distinct (map ld_id (leads amy_session_db)) \<and>
   successful_leads (calculate_stats example_settings amy_session_db (hd (lead_progress_sessions amy_session_db)) [])
     + sync_failed_leads (calculate_stats example_settings amy_session_db (hd (lead_progress_sessions amy_session_db)) [])
     \<le> identified_leads (calculate_stats example_settings amy_session_db (hd (lead_progress_sessions amy_session_db)) [])"
proof -
  have h: "distinct (map ld_id (leads amy_session_db))"
    by (simp add: amy_session_db_def register_progress_message_def amy_db_def empty_db_def Let_def
        attach_progress_message_def split: option.splits)
  from h stats_consistent [OF h] show ?thesis by blast
qed

text \<open>
  Idleness never ends a session: for an active salesperson, a session whose report is not yet due
  is left exactly as it is, however long ago its last message was received. The idle-stop setting
  only makes the scan read the table snapshots.
\<close>

theorem idle_session_untouched:
  assumes "get_psess d (ps_id p) = Some p" and "is_active d (ps_sales_user_id p)"
    and "now < ps_next_report_at p"
  shows "fst (schedule_one ad env st now (p, True) (d, w)) = 0 \<and>
    fst (snd (schedule_one ad env st now (p, True) (d, w))) = d"
  using assms by (auto simp: schedule_one_def report_window_def Let_def split: prod.splits)

theorem idle_session_untouched_witness:
  "fst (snd (schedule_one (mock_adapter [] (\<lambda>_. [])) plain_env
     (example_settings\<lparr>lead_progress_idle_stop_minutes := 1\<rparr>) (100 + minutes 5)
     (hd (lead_progress_sessions amy_session_db), True) (amy_session_db, empty_mock))) = amy_session_db"
proof -
  let ?p = "hd (lead_progress_sessions amy_session_db)"
  have "get_psess amy_session_db (ps_id ?p) = Some ?p" "is_active amy_session_db (ps_sales_user_id ?p)"
    "100 + minutes 5 < ps_next_report_at ?p"
    by (simp_all add: amy_session_facts interval_of_def example_settings_def minutes_def)
  then show ?thesis by (rule idle_session_untouched [THEN conjunct2])
qed

end
