(* ===== verification/Discard.thy ===== *)
theory Discard
  imports Actors Env
begin

text \<open>
  \<^verbatim>\<open>app/leads/discard.py\<close>: logical discarding of a lead, ordered against the CRM creation of the same lead
  (\<^verbatim>\<open>latest_crm_create_sync\<close> of \<^verbatim>\<open>app/leads/models.py\<close>). The whole of \<open>discard\<close> is one transaction.
\<close>

datatype lead_discard_status = DISCARDED | WAITING_FOR_CRM | ALREADY_DISCARDED | NOT_EFFECTIVE

record lead_discard_result =
  dis_status :: lead_discard_status
  dis_lead_id :: pstr
  dis_request_id :: "nat option"

definition DISCARDABLE_LIFECYCLE_STATES :: "string list" where
  "DISCARDABLE_LIFECYCLE_STATES = [''temporary'', ''pending_create'']"

definition IN_FLIGHT_CRM_STATUSES :: "string list" where
  "IN_FLIGHT_CRM_STATUSES = [''pending'', ''processing'', ''retrying'']"

text \<open>The newest creation attempt: highest generation (attempts without one last), then highest key.\<close>

definition newer_sync :: "crm_sync_record \<Rightarrow> crm_sync_record \<Rightarrow> bool" where
  "newer_sync a b = (case (cs_generation a, cs_generation b) of
     (None, Some _) \<Rightarrow> False
   | (Some _, None) \<Rightarrow> True
   | (None, None) \<Rightarrow> cs_id b < cs_id a
   | (Some g, Some h) \<Rightarrow> h < g \<or> (g = h \<and> cs_id b < cs_id a))"

definition newest :: "crm_sync_record option \<Rightarrow> crm_sync_record \<Rightarrow> crm_sync_record option" where
  "newest best s = (case best of None \<Rightarrow> Some s | Some b \<Rightarrow> if newer_sync s b then Some s else Some b)"

definition latest_crm_create_sync :: "db \<Rightarrow> pstr \<Rightarrow> crm_sync_record option" where
  "latest_crm_create_sync d l =
     foldl newest None
       (filter (\<lambda>s. cs_lead_id s = l \<and> cs_operation s = ''create'') (crm_sync_records d))"

definition record_lead_audit :: "lead \<Rightarrow> pstr \<Rightarrow> string \<Rightarrow> fields \<Rightarrow> time \<Rightarrow> db \<Rightarrow> db" where
  "record_lead_audit l u event_type details now d =
     (case ld_source_message_id l of None \<Rightarrow> d | Some m \<Rightarrow> audit_once m u event_type details now d)"

definition str_of :: "string \<Rightarrow> pyval" where
  "str_of s = PStr (asc s)"

definition release_pending_identity :: "env \<Rightarrow> lead \<Rightarrow> pstr \<Rightarrow> string \<Rightarrow> time \<Rightarrow> db \<Rightarrow> db" where
  "release_pending_identity env l u role now d =
     (case find (\<lambda>i. ci_creating_lead_id i = Some (ld_id l) \<and> ci_state i = ''reserving'') (crm_company_identities d) of
        None \<Rightarrow> d
      | Some i \<Rightarrow>
          record_lead_audit l u ''crm_global_identity_reservation_released_after_discard''
            [(asc ''lead_id'', PStr (ld_id l)), (asc ''operator_user_id'', PStr u),
             (asc ''operator_role'', str_of role),
             (asc ''standard_company_name_hash'', PStr (e_sha256 env (ci_standard_company_name i)))] now
            (d\<lparr>crm_company_identities :=
                 tdel (\<lambda>j. ci_standard_company_name j = ci_standard_company_name i) (crm_company_identities d)\<rparr>))"

definition operation_status :: "string \<Rightarrow> lead_discard_status" where
  "operation_status s =
     (if s = ''effective'' then DISCARDED else if s = ''not_effective'' then NOT_EFFECTIVE else WAITING_FOR_CRM)"

definition request_status :: "string \<Rightarrow> lead_discard_status" where
  "request_status s =
     (if s = ''not_effective'' then NOT_EFFECTIVE else if s = ''effective'' then ALREADY_DISCARDED
      else WAITING_FOR_CRM)"

definition crm_create_unsettled :: "crm_sync_record option \<Rightarrow> bool" where
  "crm_create_unsettled sync = (case sync of None \<Rightarrow> False
     | Some s \<Rightarrow> cs_status s \<in> set IN_FLIGHT_CRM_STATUSES \<or>
         (cs_status s = ''failed_pending_review'' \<and> cs_failure_category s = Some ''unknown''))"

definition discard_details ::
  "lead \<Rightarrow> pstr \<Rightarrow> string \<Rightarrow> string \<Rightarrow> nat \<Rightarrow> (pstr \<times> pyval) list \<Rightarrow> fields" where
  "discard_details l u role new_state rid extra =
     [(asc ''lead_id'', PStr (ld_id l)), (asc ''operator_user_id'', PStr u),
      (asc ''operator_role'', str_of role), (asc ''old_lifecycle_state'', str_of (ld_lifecycle_state l)),
      (asc ''new_lifecycle_state'', str_of new_state),
      (asc ''discard_request_id'', PInt (int rid))] @ extra"

text \<open>The part after the request row has been inserted.\<close>

definition discard_insert ::
  "env \<Rightarrow> time \<Rightarrow> lead \<Rightarrow> pstr \<Rightarrow> string \<Rightarrow> pstr \<Rightarrow> pstr option \<Rightarrow> crm_sync_record option \<Rightarrow> db \<Rightarrow>
   (lead_discard_result \<times> db) res" where
  "discard_insert env now l u role reason operation_id sync d =
     (let rid = next_id dr_id (lead_discard_requests d);
          request = \<lparr>dr_id = rid, dr_lead_id = ld_id l, dr_operator_user_id = u, dr_operator_role = role,
                     dr_operation_id = operation_id, dr_reason = reason, dr_status = ''pending'',
                     dr_created_at = now, dr_completed_at = None\<rparr>;
          d1 = d\<lparr>lead_discard_requests := tadd request (lead_discard_requests d)\<rparr>;
          sync_field = (case sync of None \<Rightarrow> [] | Some s \<Rightarrow> [(asc ''crm_sync_record_id'', PInt (int (cs_id s)))])
      in if crm_create_unsettled sync
         then Inr (\<lparr>dis_status = WAITING_FOR_CRM, dis_lead_id = ld_id l, dis_request_id = Some rid\<rparr>,
                   record_lead_audit l u ''lead_discard_requested_while_crm_create_processing''
                     (discard_details l u role (ld_lifecycle_state l) rid sync_field) now d1)
         else case sync of
           Some s \<Rightarrow>
             if cs_status s = ''succeeded'' then Inl (ValueError ''crm create succeeded'')
             else Inr (\<lparr>dis_status = DISCARDED, dis_lead_id = ld_id l, dis_request_id = Some rid\<rparr>,
               (let d2 = (if cs_status s = ''failed_pending_review''
                          then release_pending_identity env l u role now d1 else d1);
                    d3 = upd_lead (ld_id l) (\<lambda>x. x\<lparr>ld_lifecycle_state := ''discarded'', ld_updated_at := now\<rparr>) d2;
                    d4 = d3\<lparr>lead_discard_requests := tupd dr_id rid
                           (\<lambda>r. r\<lparr>dr_status := ''effective'', dr_completed_at := Some now\<rparr>) (lead_discard_requests d3)\<rparr>;
                    d5 = record_lead_audit l u ''lead_discarded''
                           (discard_details l u role ''discarded'' rid [(asc ''reason'', PStr reason)]) now d4
                in record_lead_audit l u ''crm_create_skipped_after_discard''
                     (discard_details l u role ''discarded'' rid sync_field) now d5))
         | None \<Rightarrow>
             Inr (\<lparr>dis_status = DISCARDED, dis_lead_id = ld_id l, dis_request_id = Some rid\<rparr>,
               (let d2 = release_pending_identity env l u role now d1;
                    d3 = upd_lead (ld_id l) (\<lambda>x. x\<lparr>ld_lifecycle_state := ''discarded'', ld_updated_at := now\<rparr>) d2;
                    d4 = d3\<lparr>lead_discard_requests := tupd dr_id rid
                           (\<lambda>r. r\<lparr>dr_status := ''effective'', dr_completed_at := Some now\<rparr>) (lead_discard_requests d3)\<rparr>
                in record_lead_audit l u ''lead_discarded''
                     (discard_details l u role ''discarded'' rid [(asc ''reason'', PStr reason)]) now d4)))"

definition discard ::
  "env \<Rightarrow> time \<Rightarrow> pstr \<Rightarrow> pstr \<Rightarrow> pstr \<Rightarrow> pstr option \<Rightarrow> db \<Rightarrow> (lead_discard_result \<times> db) res" where
  "discard env now lead_id operator_user_id reason operation_id d =
     (let normalized_reason = py_strip reason
      in if normalized_reason = [] then Inl (ValueError ''reason required'')
         else case (get_lead d lead_id, get_actor d operator_user_id) of
           (Some l, Some operator) \<Rightarrow>
             if \<not> sa_is_active operator then Inl (PermissionError ''operator inactive'')
             else if \<not> sa_is_administrator operator \<and> ld_smart_table_owner_user_id l \<noteq> operator_user_id
             then Inl (PermissionError ''not owner'')
             else let role = (if sa_is_administrator operator then ''administrator'' else ''sales'');
                      sync = latest_crm_create_sync d lead_id;
                      by_operation = (case operation_id of None \<Rightarrow> None
                        | Some op \<Rightarrow> find (\<lambda>r. dr_operation_id r = Some op) (lead_discard_requests d))
                  in case by_operation of
                       Some r \<Rightarrow> Inr (\<lparr>dis_status = operation_status (dr_status r), dis_lead_id = lead_id,
                                     dis_request_id = Some (dr_id r)\<rparr>, d)
                     | None \<Rightarrow>
                         (case tget dr_lead_id lead_id (lead_discard_requests d) of
                            Some r \<Rightarrow> Inr (\<lparr>dis_status = request_status (dr_status r), dis_lead_id = lead_id,
                                          dis_request_id = Some (dr_id r)\<rparr>, d)
                          | None \<Rightarrow>
                              if ld_lifecycle_state l = ''discarded''
                              then Inr (\<lparr>dis_status = ALREADY_DISCARDED, dis_lead_id = lead_id, dis_request_id = None\<rparr>, d)
                              else if ld_lifecycle_state l \<notin> set DISCARDABLE_LIFECYCLE_STATES
                              then Inl (ValueError ''not discardable'')
                              else discard_insert env now l operator_user_id role normalized_reason operation_id sync d)
         | _ \<Rightarrow> Inl (ValueError ''lead or operator missing''))"

section \<open>Lemmas\<close>

lemma record_lead_audit_frame [simp]:
  "leads (record_lead_audit l u t x now d) = leads d"
  "sales_authorizations (record_lead_audit l u t x now d) = sales_authorizations d"
  "lead_discard_requests (record_lead_audit l u t x now d) = lead_discard_requests d"
  "crm_sync_records (record_lead_audit l u t x now d) = crm_sync_records d"
  "crm_company_identities (record_lead_audit l u t x now d) = crm_company_identities d"
  by (simp_all add: record_lead_audit_def split: option.splits)

lemma release_frame [simp]:
  "leads (release_pending_identity env l u role now d) = leads d"
  "sales_authorizations (release_pending_identity env l u role now d) = sales_authorizations d"
  "lead_discard_requests (release_pending_identity env l u role now d) = lead_discard_requests d"
  "crm_sync_records (release_pending_identity env l u role now d) = crm_sync_records d"
  by (simp_all add: release_pending_identity_def split: option.splits)

lemma discard_insert_cases:
  assumes "discard_insert env now l u role reason operation_id sync d = Inr (r, d')"
  defines "rid \<equiv> next_id dr_id (lead_discard_requests d)"
  obtains (waiting) "crm_create_unsettled sync" "dis_status r = WAITING_FOR_CRM" "leads d' = leads d"
      "\<exists>x. lead_discard_requests d' = lead_discard_requests d @ [x] \<and> dr_id x = rid \<and> dr_lead_id x = ld_id l \<and>
         dr_status x = ''pending'' \<and> dr_operation_id x = operation_id"
  | (discarded) "\<not> crm_create_unsettled sync" "\<And>s. sync = Some s \<Longrightarrow> cs_status s \<noteq> ''succeeded''"
      "dis_status r = DISCARDED"
      "leads d' = tupd ld_id (ld_id l) (\<lambda>x. x\<lparr>ld_lifecycle_state := ''discarded'', ld_updated_at := now\<rparr>) (leads d)"
      "\<exists>x. lead_discard_requests d' = lead_discard_requests d @ [x] \<and> dr_id x = rid \<and> dr_lead_id x = ld_id l \<and>
         dr_status x = ''effective'' \<and> dr_operation_id x = operation_id"
proof -
  have upd: "tupd dr_id rid f (lead_discard_requests d @ [x]) = lead_discard_requests d @ [f x]"
    if "dr_id x = rid" for f x
    using that next_id_fresh [of _ "lead_discard_requests d" dr_id]
    by (fastforce simp: tupd_def rid_def intro: map_idI)
  show thesis
  proof (cases "crm_create_unsettled sync")
    case True
    with assms(1) show thesis
      by (intro waiting) (auto simp: discard_insert_def Let_def tadd_def rid_def)
  next
    case False
    with assms(1) show thesis
      by (intro discarded) (auto simp: discard_insert_def Let_def tadd_def upd rid_def [symmetric] split: option.splits if_splits)
  qed
qed

lemma discard_insert_sync: "discard_insert env now l u role reason op sync d = Inr (r, d') \<Longrightarrow>
  crm_sync_records d' = crm_sync_records d \<and> sales_authorizations d' = sales_authorizations d"
  by (auto simp: discard_insert_def Let_def split: option.splits if_splits)

text \<open>What a call that changes anything has checked.\<close>

lemma discard_Inr_cases:
  assumes "discard env now lid u reason op d = Inr (r, d')"
  obtains l a where "get_lead d lid = Some l" "get_actor d u = Some a" "sa_is_active a"
    "sa_is_administrator a \<or> ld_smart_table_owner_user_id l = u" "py_strip reason \<noteq> []"
    "(d' = d \<and> ((\<exists>q o'. op = Some o' \<and> find (\<lambda>r. dr_operation_id r = Some o') (lead_discard_requests d) = Some q \<and>
          dis_status r = operation_status (dr_status q)) \<or>
        (\<exists>q. tget dr_lead_id lid (lead_discard_requests d) = Some q \<and> dis_status r = request_status (dr_status q)) \<or>
        (dis_status r = ALREADY_DISCARDED \<and> ld_lifecycle_state l = ''discarded''))) \<or>
     (tget dr_lead_id lid (lead_discard_requests d) = None \<and>
      (\<forall>o'. op = Some o' \<longrightarrow> find (\<lambda>r. dr_operation_id r = Some o') (lead_discard_requests d) = None) \<and>
      ld_lifecycle_state l \<in> set DISCARDABLE_LIFECYCLE_STATES \<and>
      discard_insert env now l u (if sa_is_administrator a then ''administrator'' else ''sales'') (py_strip reason) op
        (latest_crm_create_sync d lid) d = Inr (r, d'))"
proof -
  obtain l a where la: "get_lead d lid = Some l" "get_actor d u = Some a" "sa_is_active a"
    "sa_is_administrator a \<or> ld_smart_table_owner_user_id l = u" "py_strip reason \<noteq> []"
    using assms by (auto simp: discard_def Let_def split: if_splits option.splits)
  show thesis
    by (rule that [OF la]) (use assms la in \<open>auto simp: discard_def Let_def split: if_splits option.splits\<close>)
qed

section \<open>Properties\<close>

lemma newer_sync_negtrans: "newer_sync x y \<Longrightarrow> \<not> newer_sync z y \<Longrightarrow> newer_sync x z"
  by (auto simp: newer_sync_def split: option.splits)

lemma newer_sync_irrefl: "\<not> newer_sync x x"
  by (auto simp: newer_sync_def split: option.splits)

lemma newer_sync_trans: "newer_sync x y \<Longrightarrow> newer_sync y z \<Longrightarrow> newer_sync x z"
  by (auto simp: newer_sync_def split: option.splits)

lemma foldl_newest:
  assumes "foldl newest b0 ss = Some r"
  shows "(b0 = Some r \<or> r \<in> set ss) \<and> (\<forall>s\<in>set ss. \<not> newer_sync s r) \<and> (\<forall>b. b0 = Some b \<longrightarrow> \<not> newer_sync b r)"
  using assms
proof (induction ss arbitrary: b0)
  case Nil
  with newer_sync_irrefl show ?case by auto
next
  case (Cons s ss)
  have ih: "(newest b0 s = Some r \<or> r \<in> set ss) \<and> (\<forall>s\<in>set ss. \<not> newer_sync s r) \<and>
      (\<forall>b. newest b0 s = Some b \<longrightarrow> \<not> newer_sync b r)"
    using Cons.prems by (intro Cons.IH) simp
  show ?case
  proof (cases b0)
    case None
    with ih show ?thesis by (auto simp: newest_def)
  next
    case (Some b)
    show ?thesis
    proof (cases "newer_sync s b")
      case True
      with ih Some newer_sync_trans [OF True] show ?thesis by (auto simp: newest_def)
    next
      case False
      with ih Some newer_sync_negtrans [of s r b] show ?thesis by (auto simp: newest_def)
    qed
  qed
qed

text \<open>
  The creation attempt a discard is ordered against is the newest one: it belongs to the lead, and
  no creation attempt of the lead has a higher generation; an attempt with a generation wins over one without, and equal
  generations are ordered by key.
\<close>

theorem latest_crm_create_sync_newest:
  assumes "latest_crm_create_sync d l = Some r"
  shows "r \<in> set (crm_sync_records d) \<and> cs_lead_id r = l \<and> cs_operation r = ''create'' \<and>
    (\<forall>s g. s \<in> set (crm_sync_records d) \<and> cs_lead_id s = l \<and> cs_operation s = ''create'' \<and>
       cs_generation s = Some g \<longrightarrow>
       (\<exists>h. cs_generation r = Some h \<and> g \<le> h \<and> (g = h \<longrightarrow> cs_id s \<le> cs_id r)))"
proof -
  let ?ss = "filter (\<lambda>s. cs_lead_id s = l \<and> cs_operation s = ''create'') (crm_sync_records d)"
  have "foldl newest None ?ss = Some r" using assms by (simp add: latest_crm_create_sync_def)
  from foldl_newest [OF this] have r: "r \<in> set ?ss" and top: "\<forall>s\<in>set ?ss. \<not> newer_sync s r" by auto
  have "\<exists>h. cs_generation r = Some h \<and> g \<le> h \<and> (g = h \<longrightarrow> cs_id s \<le> cs_id r)"
    if "s \<in> set ?ss" "cs_generation s = Some g" for s g
    using top that by (fastforce simp: newer_sync_def split: option.splits)
  with r show ?thesis by auto
qed

definition sync_row :: "nat \<Rightarrow> int option \<Rightarrow> string \<Rightarrow> crm_sync_record" where
  "sync_row i g s = \<lparr>cs_id = i, cs_lead_id = asc ''L'', cs_operation = ''create'', cs_generation = g,
     cs_request_message_id = [], cs_crm_lead_id = None, cs_crm_lead_owner_user_id = None, cs_status = s,
     cs_attempts = 0, cs_failure_category = None, cs_supersedes_sync_record_id = None,
     cs_smart_table_record_id = [], cs_idempotency_key = asc ''crm:create:L'', cs_canonical_payload = [],
     cs_snapshot_hash = [], cs_submitting_sales_user_id = asc ''amy'', cs_submitting_crm_user_id = Some (asc ''7''),
     cs_processing_started_at = None, cs_processing_lease_expires_at = None, cs_next_retry_at = None,
     cs_failure_kind = None, cs_failure_code = None, cs_failure_summary = None, cs_failed_at = None,
     cs_response_summary = None, cs_created_at = 0, cs_completed_at = None\<rparr>"

theorem latest_crm_create_sync_newest_witness:
  "\<exists>r. latest_crm_create_sync (empty_db\<lparr>crm_sync_records := [sync_row 1 (Some 2) ''failed'', sync_row 2 (Some 1) ''failed'']\<rparr>)
     (asc ''L'') = Some r \<and> cs_id r = 1 \<and> cs_lead_id r = asc ''L''"
proof -
  let ?d = "empty_db\<lparr>crm_sync_records := [sync_row 1 (Some 2) ''failed'', sync_row 2 (Some 1) ''failed'']\<rparr>"
  have h: "latest_crm_create_sync ?d (asc ''L'') = Some (sync_row 1 (Some 2) ''failed'')"
    by (simp add: latest_crm_create_sync_def newest_def sync_row_def newer_sync_def)
  from h latest_crm_create_sync_newest [OF h] show ?thesis by (simp add: sync_row_def)
qed

text \<open>
  C4. A lead becomes discarded only by an active operator who is an administrator or its owner, with a
  reason, from a state before CRM creation, and when no creation attempt is in flight, of unknown
  outcome, or successful. The request is recorded as effective, only this lead changes, and no CRM
  record is touched.
\<close>

theorem discard_safe:
  assumes "discard env now lid u reason op d = Inr (r, d')" and "d' \<noteq> d" and "dis_status r = DISCARDED"
  shows "\<exists>l a. get_lead d lid = Some l \<and> get_actor d u = Some a \<and> sa_is_active a \<and>
     (sa_is_administrator a \<or> ld_smart_table_owner_user_id l = u) \<and> py_strip reason \<noteq> [] \<and>
     ld_lifecycle_state l \<in> set DISCARDABLE_LIFECYCLE_STATES \<and>
     (\<forall>s. latest_crm_create_sync d lid = Some s \<longrightarrow> cs_status s \<notin> set IN_FLIGHT_CRM_STATUSES \<and>
        cs_status s \<noteq> ''succeeded'' \<and>
        \<not> (cs_status s = ''failed_pending_review'' \<and> cs_failure_category s = Some ''unknown'')) \<and>
     get_lead d' lid = Some (l\<lparr>ld_lifecycle_state := ''discarded'', ld_updated_at := now\<rparr>) \<and>
     (\<forall>k. k \<noteq> lid \<longrightarrow> get_lead d' k = get_lead d k) \<and>
     crm_sync_records d' = crm_sync_records d \<and>
     (\<exists>q. tget dr_lead_id lid (lead_discard_requests d') = Some q \<and> dr_status q = ''effective'')"
proof -
  from assms(1) obtain l a where la: "get_lead d lid = Some l" "get_actor d u = Some a" "sa_is_active a"
    "sa_is_administrator a \<or> ld_smart_table_owner_user_id l = u" "py_strip reason \<noteq> []"
    and noreq: "tget dr_lead_id lid (lead_discard_requests d) = None"
    and state: "ld_lifecycle_state l \<in> set DISCARDABLE_LIFECYCLE_STATES"
    and ins: "discard_insert env now l u (if sa_is_administrator a then ''administrator'' else ''sales'')
       (py_strip reason) op (latest_crm_create_sync d lid) d = Inr (r, d')"
    using assms(2) by (elim discard_Inr_cases) blast
  have lid: "ld_id l = lid" using tget_SomeD [OF la(1)] by simp
  from ins show ?thesis
  proof (cases rule: discard_insert_cases)
    case waiting
    then show ?thesis using assms(3) by simp
  next
    case discarded
    have "get_lead d' lid = Some (l\<lparr>ld_lifecycle_state := ''discarded'', ld_updated_at := now\<rparr>)"
      "\<forall>k. k \<noteq> lid \<longrightarrow> get_lead d' k = get_lead d k"
      using discarded(4) la(1) lid by (simp_all add: tget_tupd_same tget_tupd_other)
    moreover have "\<exists>q. tget dr_lead_id lid (lead_discard_requests d') = Some q \<and> dr_status q = ''effective''"
      using discarded(5) noreq lid by (auto simp: tget_append)
    moreover have "crm_sync_records d' = crm_sync_records d" using discard_insert_sync [OF ins] by simp
    moreover have "\<forall>s. latest_crm_create_sync d lid = Some s \<longrightarrow> cs_status s \<notin> set IN_FLIGHT_CRM_STATUSES \<and>
        cs_status s \<noteq> ''succeeded'' \<and>
        \<not> (cs_status s = ''failed_pending_review'' \<and> cs_failure_category s = Some ''unknown'')"
      using discarded(1,2) by (auto simp: crm_create_unsettled_def)
    ultimately show ?thesis using la state by blast
  qed
qed

definition lead_row :: "pstr \<Rightarrow> pstr \<Rightarrow> string \<Rightarrow> lead" where
  "lead_row i owner state = \<lparr>ld_id = i, ld_source_message_id = Some (asc ''m1''), ld_source_segment_index = 0,
     ld_original_capturing_sales_user_id = owner, ld_smart_table_owner_user_id = owner,
     ld_smart_table_record_id = Some (asc ''r1''), ld_lifecycle_state = state, ld_field_values = [],
     ld_enrichment_values = [], ld_standard_company_name = None, ld_company_region = ''unknown'',
     ld_company_verification_status = ''incomplete_company'', ld_tyc_customer_id = None,
     ld_company_confirmed_by_user = False, ld_created_at = 0, ld_updated_at = 0\<rparr>"

definition lead_db :: db where
  "lead_db = empty_db\<lparr>sales_authorizations := [new_actor (asc ''amy'') None True None 0],
     leads := [lead_row (asc ''L'') (asc ''amy'') ''temporary'']\<rparr>"

lemma lead_db_discards:
  "\<exists>r d'. discard plain_env 7 (asc ''L'') (asc ''amy'') (asc ''spam'') None lead_db = Inr (r, d') \<and>
     dis_status r = DISCARDED \<and> d' \<noteq> lead_db"
proof -
  have "py_strip (asc ''spam'') \<noteq> []" by code_simp
  then obtain r d' where h: "discard plain_env 7 (asc ''L'') (asc ''amy'') (asc ''spam'') None lead_db = Inr (r, d')"
    and r: "dis_status r = DISCARDED" and q: "lead_discard_requests d' \<noteq> lead_discard_requests lead_db"
    by (simp add: discard_def lead_db_def empty_db_def lead_row_def new_actor_def Let_def discard_insert_def
        DISCARDABLE_LIFECYCLE_STATES_def latest_crm_create_sync_def crm_create_unsettled_def tadd_def tupd_def)
  from q have "d' \<noteq> lead_db" by blast
  with h r show ?thesis by blast
qed

theorem discard_safe_witness:
  "\<exists>r d'. discard plain_env 7 (asc ''L'') (asc ''amy'') (asc ''spam'') None lead_db = Inr (r, d') \<and>
     crm_sync_records d' = crm_sync_records lead_db \<and>
     (\<exists>q. tget dr_lead_id (asc ''L'') (lead_discard_requests d') = Some q \<and> dr_status q = ''effective'')"
proof -
  obtain r d' where h: "discard plain_env 7 (asc ''L'') (asc ''amy'') (asc ''spam'') None lead_db = Inr (r, d')"
    "d' \<noteq> lead_db" "dis_status r = DISCARDED" using lead_db_discards by blast
  from h(1) discard_safe [OF h] show ?thesis by blast
qed

text \<open>
  Asking again changes nothing: after a discard request has been answered, the same operator's
  repeated request for that lead is answered without any change of state, as already discarded after an
  effective discard, and as waiting while the CRM creation is unsettled.
\<close>

theorem discard_repeat_stable:
  assumes "discard env now lid u reason None d = Inr (r, d1)" and "py_strip reason' \<noteq> []"
  shows "\<exists>r2. discard env' now' lid u reason' None d1 = Inr (r2, d1) \<and>
    dis_status r2 = (if dis_status r = DISCARDED then ALREADY_DISCARDED else dis_status r)"
proof -
  from assms(1) obtain l a where la: "get_lead d lid = Some l" "get_actor d u = Some a" "sa_is_active a"
    "sa_is_administrator a \<or> ld_smart_table_owner_user_id l = u" "py_strip reason \<noteq> []"
    and c: "(d1 = d \<and>
        ((\<exists>q. tget dr_lead_id lid (lead_discard_requests d) = Some q \<and> dis_status r = request_status (dr_status q)) \<or>
         (dis_status r = ALREADY_DISCARDED \<and> ld_lifecycle_state l = ''discarded''))) \<or>
     (tget dr_lead_id lid (lead_discard_requests d) = None \<and>
      discard_insert env now l u (if sa_is_administrator a then ''administrator'' else ''sales'') (py_strip reason) None
        (latest_crm_create_sync d lid) d = Inr (r, d1))"
    by (elim discard_Inr_cases) auto
  have repeat: ?thesis if "get_lead d1 lid = Some l1" "get_actor d1 u = Some a"
    "ld_smart_table_owner_user_id l1 = ld_smart_table_owner_user_id l"
    "tget dr_lead_id lid (lead_discard_requests d1) = Some q"
    "request_status (dr_status q) = (if dis_status r = DISCARDED then ALREADY_DISCARDED else dis_status r)" for l1 q
    using that la assms(2) by (auto simp: discard_def Let_def)
  have nd: "request_status x \<noteq> DISCARDED" for x by (simp add: request_status_def)
  from c show ?thesis
  proof (elim disjE conjE exE)
    fix q
    assume "d1 = d" "tget dr_lead_id lid (lead_discard_requests d) = Some q" "dis_status r = request_status (dr_status q)"
    with la nd [of "dr_status q"] show ?thesis by (intro repeat [of l q]) auto
  next
    assume "d1 = d" "dis_status r = ALREADY_DISCARDED" "ld_lifecycle_state l = ''discarded''"
    with la assms(2) nd show ?thesis
      using assms(1) by (auto simp: discard_def Let_def split: option.splits)
  next
    assume no: "tget dr_lead_id lid (lead_discard_requests d) = None"
      and ins: "discard_insert env now l u (if sa_is_administrator a then ''administrator'' else ''sales'') (py_strip reason)
        None (latest_crm_create_sync d lid) d = Inr (r, d1)"
    have act: "get_actor d1 u = Some a" using la(2) discard_insert_sync [OF ins] by simp
    have lid: "ld_id l = lid" using tget_SomeD [OF la(1)] by simp
    from ins show ?thesis
    proof (cases rule: discard_insert_cases)
      case waiting
      then obtain x where "tget dr_lead_id lid (lead_discard_requests d1) = Some x" "dr_status x = ''pending''"
        using no lid by (auto simp: tget_append)
      with waiting la act show ?thesis by (intro repeat [of l x]) (auto simp: request_status_def)
    next
      case discarded
      then obtain x where "tget dr_lead_id lid (lead_discard_requests d1) = Some x" "dr_status x = ''effective''"
        using no lid by (auto simp: tget_append)
      moreover have "get_lead d1 lid = Some (l\<lparr>ld_lifecycle_state := ''discarded'', ld_updated_at := now\<rparr>)"
        using discarded(4) la(1) lid by (simp add: tget_tupd_same)
      ultimately show ?thesis using discarded act
        by (intro repeat [of "l\<lparr>ld_lifecycle_state := ''discarded'', ld_updated_at := now\<rparr>" x])
          (auto simp: request_status_def)
    qed
  qed
qed

theorem discard_repeat_stable_witness:
  "\<exists>r d1 r2. discard plain_env 7 (asc ''L'') (asc ''amy'') (asc ''spam'') None lead_db = Inr (r, d1) \<and>
     discard plain_env 8 (asc ''L'') (asc ''amy'') (asc ''spam'') None d1 = Inr (r2, d1) \<and>
     dis_status r2 = ALREADY_DISCARDED"
proof -
  obtain r d1 where h: "discard plain_env 7 (asc ''L'') (asc ''amy'') (asc ''spam'') None lead_db = Inr (r, d1)"
    "dis_status r = DISCARDED" using lead_db_discards by blast
  have "py_strip (asc ''spam'') \<noteq> []" by code_simp
  from discard_repeat_stable [OF h(1) this, of plain_env 8] h show ?thesis by auto
qed

end
