(* ===== verification/Commands.thy ===== *)
theory Commands
  imports Py_Re Py_Value Vocab
begin

text \<open>
  Deterministic classification of message texts, before any model is asked: the CRM submission
  commands (\<^verbatim>\<open>app/crm/commands.py\<close>) and the fixed machine commands
  (\<^verbatim>\<open>parse_deterministic_action_command\<close> of \<^verbatim>\<open>app/wecom_bot/actions.py\<close>). A calendar date is the
  triple of year, month and day; the current Shanghai date is an argument.
\<close>

section \<open>Dates and numbers\<close>

type_synonym ymd = "int \<times> int \<times> int"

definition leap :: "int \<Rightarrow> bool" where
  "leap y = ((4 dvd y \<and> \<not> 100 dvd y) \<or> 400 dvd y)"

definition days_in_month :: "int \<Rightarrow> int \<Rightarrow> int" where
  "days_in_month y m =
     (if m = 2 then if leap y then 29 else 28 else if m \<in> {4, 6, 9, 11} then 30 else 31)"

text \<open>\<^verbatim>\<open>date(year, month, day)\<close> raises \<^verbatim>\<open>ValueError\<close> exactly when this fails.\<close>

definition valid_calendar_date :: "int \<Rightarrow> int \<Rightarrow> int \<Rightarrow> bool" where
  "valid_calendar_date y m d =
     (1 \<le> y \<and> y \<le> 9999 \<and> 1 \<le> m \<and> m \<le> 12 \<and> 1 \<le> d \<and> d \<le> days_in_month y m)"

text \<open>\<^verbatim>\<open>int()\<close> of a non-empty text of decimal digits of any script.\<close>

definition digit_value :: "cp \<Rightarrow> int" where
  "digit_value c = (case find (\<lambda>z. z \<le> c \<and> c < z + 10) py_zero_digits of Some z \<Rightarrow> c - z | None \<Rightarrow> 0)"

definition py_int :: "pstr \<Rightarrow> int" where
  "py_int s = foldl (\<lambda>n c. 10 * n + digit_value c) 0 s"

section \<open>Submission commands\<close>

definition CRM_SUBMISSION_COMMANDS :: "pstr list" where
  "CRM_SUBMISSION_COMMANDS = [c_today, c_all_mine, c_abandoned, c_updates, c_cross_owner]"

definition SUBMISSION_COMMAND_ALIASES :: "(pstr \<times> pstr) list" where
  "SUBMISSION_COMMAND_ALIASES =
     [(alias_1, c_today), (alias_2, c_today), (alias_3, c_today),
      (alias_4, c_all_mine), (alias_5, c_all_mine), (alias_6, c_all_mine), (alias_7, c_all_mine),
      (alias_8, c_abandoned), (alias_9, c_abandoned), (alias_10, c_abandoned), (alias_11, c_abandoned),
      (alias_12, c_updates), (alias_13, c_updates)]"

definition INQUIRY_MARKERS :: "pstr list" where
  "INQUIRY_MARKERS = [inq_1, inq_2, inq_3, inq_4, inq_5, inq_6, inq_7, inq_8, inq_9, inq_10,
     inq_11, inq_12, inq_13]"

definition NEGATIVE_SUBMISSION_MARKERS :: "pstr list" where
  "NEGATIVE_SUBMISSION_MARKERS = [neg_1, neg_2, neg_3, neg_4, neg_5, neg_6, neg_7, neg_8, neg_9,
     neg_10, neg_11, neg_12]"

definition CROSS_OWNER_ALL_TARGET :: pstr where
  "CROSS_OWNER_ALL_TARGET = [0x2A]"

definition owner_char :: "cp \<Rightarrow> bool" where
  "owner_char c = (c \<noteq> 0xD \<and> c \<noteq> 0xA \<and> c \<noteq> 0x3A \<and> c \<noteq> 0xFF1A)"

definition CROSS_OWNER_DATE_PATTERN :: re where
  "CROSS_OWNER_DATE_PATTERN =
     Cat (lit_re c_submit)
       (Cat (opt_re (Cat (Grp 1 (rep_re 4 4 (Cls py_isdecimal))) (lit_re c_year)))
         (Cat (Grp 2 (rep_re 1 2 (Cls py_isdecimal)))
           (Cat (lit_re c_month)
             (Cat (Grp 3 (rep_re 1 2 (Cls py_isdecimal)))
               (Cat (Alt (lit_re c_day1) (lit_re c_day2))
                 (Cat (Grp 4 (rep_re 1 128 (Cls owner_char))) (lit_re c_suffix)))))))"

definition company_char :: "cp \<Rightarrow> bool" where
  "company_char c = (c \<noteq> 0xD \<and> c \<noteq> 0xA \<and> c \<noteq> 0x3002)"

definition COMPANY_SUBMISSION_PATTERN :: re where
  "COMPANY_SUBMISSION_PATTERN =
     Cat (lit_re c_company_pre) (Cat (Grp 1 (rep_re 1 128 (Cls company_char))) (lit_re c_company_post))"

definition parse_company_submission_request :: "pstr \<Rightarrow> pstr option" where
  "parse_company_submission_request text =
     (case re_fullmatch COMPANY_SUBMISSION_PATTERN text of
        None \<Rightarrow> None
      | Some g \<Rightarrow>
          (let company = py_strip (the_default [] (re_group 1 g))
           in if company = [] then None else Some company))"

definition looks_like_submission_intent :: "pstr \<Rightarrow> bool" where
  "looks_like_submission_intent text = py_contains c_submit (py_strip text)"

definition is_explicit_submission_request :: "pstr \<Rightarrow> bool" where
  "is_explicit_submission_request text =
     (let candidate = py_strip text
      in if candidate = [] \<or> list_ex (\<lambda>m. py_contains m candidate) INQUIRY_MARKERS then False
         else if list_ex (\<lambda>m. py_contains m candidate) NEGATIVE_SUBMISSION_MARKERS then False
         else py_contains c_submit candidate)"

text \<open>\<^verbatim>\<open>text.strip().rstrip("\<close>full stop\<^verbatim>\<open>").strip()\<close>.\<close>

definition command_candidate :: "pstr \<Rightarrow> pstr" where
  "command_candidate text = py_strip (rstrip_if (\<lambda>c. c = 0x3002) (py_strip text))"

text \<open>
  The short date: the year is this year, or last year when the day is still ahead, and the search
  goes back up to nine years to the first year in which the date exists.
\<close>

definition first_capture_year :: "ymd \<Rightarrow> int \<Rightarrow> int \<Rightarrow> int" where
  "first_capture_year today month day =
     (case today of (ty, tm, td) \<Rightarrow> if tm < month \<or> (tm = month \<and> td < day) then ty - 1 else ty)"

definition short_capture_date :: "ymd \<Rightarrow> int \<Rightarrow> int \<Rightarrow> ymd option" where
  "short_capture_date today month day =
     (let first_year = first_capture_year today month day
      in map_option (\<lambda>y. (y, month, day))
           (find (\<lambda>y. valid_calendar_date y month day) (map (\<lambda>i. first_year - i) [0..8])))"

definition parse_dated_request :: "ymd \<Rightarrow> (nat \<times> pstr) list \<Rightarrow> (pstr \<times> ymd option) option" where
  "parse_dated_request today g =
     (let grp = (\<lambda>n. the_default [] (re_group n g));
          owner = py_strip (grp 4); month = py_int (grp 2); day = py_int (grp 3)
      in if owner = [] then None
         else case re_group 1 g of
           Some year_text \<Rightarrow>
             (let y = py_int year_text
              in if valid_calendar_date y month day then Some (owner, Some (y, month, day)) else None)
         | None \<Rightarrow>
             (case short_capture_date today month day of
                None \<Rightarrow> None
              | Some d \<Rightarrow> Some (owner, Some d)))"

definition parse_cross_owner_submission_request :: "ymd \<Rightarrow> pstr \<Rightarrow> (pstr \<times> ymd option) option" where
  "parse_cross_owner_submission_request today text =
     (let candidate = command_candidate text
      in if candidate \<in> set [c_all_staff1, c_all_staff2, c_all_staff3]
         then Some (CROSS_OWNER_ALL_TARGET, None)
         else if candidate \<in> set CRM_SUBMISSION_COMMANDS \<or>
                 dget candidate SUBMISSION_COMMAND_ALIASES \<noteq> None then None
         else case re_fullmatch CROSS_OWNER_DATE_PATTERN candidate of
           Some g \<Rightarrow> parse_dated_request today g
         | None \<Rightarrow>
             (case find (\<lambda>p. prefix p candidate) [c_owner_prefix, c_submit] of
                None \<Rightarrow> None
              | Some p \<Rightarrow>
                  if \<not> suffix c_suffix candidate then None
                  else (let employee_name = py_strip
                              (drop (length p) (take (length candidate - length c_suffix) candidate))
                        in if employee_name = [] \<or> employee_name = CROSS_OWNER_ALL_TARGET \<or>
                              128 < length employee_name \<or> list_ex (\<lambda>c. \<not> owner_char c) employee_name
                           then None else Some (employee_name, None))))"

definition parse_cross_owner_submission_target :: "ymd \<Rightarrow> pstr \<Rightarrow> pstr option" where
  "parse_cross_owner_submission_target today text =
     map_option fst (parse_cross_owner_submission_request today text)"

definition parse_crm_submission_command :: "ymd \<Rightarrow> pstr \<Rightarrow> pstr option" where
  "parse_crm_submission_command today text =
     (let candidate = command_candidate text
      in if \<not> is_explicit_submission_request candidate then None
         else if candidate \<in> set CRM_SUBMISSION_COMMANDS then Some candidate
         else case dget candidate SUBMISSION_COMMAND_ALIASES of
           Some c \<Rightarrow> Some c
         | None \<Rightarrow>
             if parse_cross_owner_submission_request today candidate \<noteq> None then Some c_cross_owner
             else if re_fullmatch CROSS_OWNER_DATE_PATTERN candidate \<noteq> None then Some c_cross_owner
             else if parse_company_submission_request candidate \<noteq> None then Some candidate
             else None)"

section \<open>Machine commands\<close>

record deterministic_action_command =
  da_action_type :: string
  da_target_id :: pstr
  da_message_id :: "pstr option"
  da_segment_index :: "int option"

definition command_id_char :: "cp \<Rightarrow> bool" where
  "command_id_char c =
     ((0x41 \<le> c \<and> c \<le> 0x5A) \<or> (0x61 \<le> c \<and> c \<le> 0x7A) \<or> (0x30 \<le> c \<and> c \<le> 0x39) \<or>
      c = 0x2E \<or> c = 0x5F \<or> c = 0x2D)"

definition command_id_re :: re where
  "command_id_re = rep_re 1 128 (Cls command_id_char)"

definition segment_re :: re where
  "segment_re = rep_re 1 6 (Cls py_isdecimal)"

definition discard_re :: re where
  "discard_re = Cat (lit_re (asc ''t18.discard:'')) (Grp 1 command_id_re)"

definition reassign_re :: re where
  "reassign_re = Cat (lit_re (asc ''t18.reassign:'')) (Cat (Grp 1 command_id_re)
     (Cat (chr_re 0x3A) (Cat (Grp 2 segment_re) (Cat (chr_re 0x3A) (Grp 3 command_id_re)))))"

definition parse_deterministic_action_command :: "pstr \<Rightarrow> deterministic_action_command option" where
  "parse_deterministic_action_command text =
     (case re_fullmatch discard_re text of
        Some g \<Rightarrow> Some \<lparr>da_action_type = ''lead_discard_confirmation'',
                       da_target_id = the_default [] (re_group 1 g),
                       da_message_id = None, da_segment_index = None\<rparr>
      | None \<Rightarrow>
          (case re_fullmatch reassign_re text of
             Some g \<Rightarrow> Some \<lparr>da_action_type = ''lead_reassignment_confirmation'',
                            da_target_id = the_default [] (re_group 3 g),
                            da_message_id = re_group 1 g,
                            da_segment_index = Some (py_int (the_default [] (re_group 2 g)))\<rparr>
           | None \<Rightarrow> None))"

section \<open>Lemmas on stripping\<close>

lemma sublist_skip: "sublist m (c # s) \<Longrightarrow> m \<noteq> [] \<Longrightarrow> c \<notin> set m \<Longrightarrow> sublist m s"
  by (auto simp: sublist_Cons_right prefix_Cons)

lemma sublist_skip_prefix:
  "sublist m (u @ s) \<Longrightarrow> m \<noteq> [] \<Longrightarrow> set u \<inter> set m = {} \<Longrightarrow> sublist m s"
  by (induction u) (auto dest: sublist_skip)

lemma sublist_skip_suffix:
  assumes "sublist m (s @ u)" and "m \<noteq> []" and "set u \<inter> set m = {}"
  shows "sublist m s"
proof -
  have "sublist (rev m) (rev u @ rev s)"
    using assms(1) by (simp flip: rev_append)
  then have "sublist (rev m) (rev s)"
    by (rule sublist_skip_prefix) (use assms in auto)
  then show ?thesis by simp
qed

lemma dropWhile_split: "\<exists>u. s = u @ dropWhile p s \<and> (\<forall>c\<in>set u. p c)"
  by (rule exI [of _ "takeWhile p s"]) (auto dest: set_takeWhileD)

lemma rstrip_if_split: "\<exists>u. s = rstrip_if p s @ u \<and> (\<forall>c\<in>set u. p c)"
proof -
  obtain u where "rev s = u @ dropWhile p (rev s)" and "\<forall>c\<in>set u. p c"
    using dropWhile_split [of "rev s" p] by blast
  then have "s = rstrip_if p s @ rev u \<and> (\<forall>c\<in>set (rev u). p c)"
    by (metis rev_append rev_rev_ident rstrip_if_def set_rev)
  then show ?thesis by blast
qed

text \<open>Stripping a class of characters cannot remove an occurrence of a word without them.\<close>

definition solid :: "pstr \<Rightarrow> bool" where
  "solid m = (m \<noteq> [] \<and> list_all (\<lambda>c. \<not> py_isspace c \<and> c \<noteq> 0x3002) m)"

lemma sublist_rstrip:
  assumes "m \<noteq> []" and "list_all (\<lambda>c. \<not> p c) m"
  shows "sublist m (rstrip_if p s) \<longleftrightarrow> sublist m s"
proof
  obtain u where s: "s = rstrip_if p s @ u" and u: "\<forall>c\<in>set u. p c"
    using rstrip_if_split by blast
  have "set u \<inter> set m = {}" using u assms(2) by (auto simp: list_all_iff)
  then show "sublist m (rstrip_if p s)" if "sublist m s"
    using that s assms(1) sublist_skip_suffix [of m "rstrip_if p s" u] by metis
  show "sublist m s" if "sublist m (rstrip_if p s)"
    using that s by (metis sublist_append_rightI sublist_order.order_trans)
qed

lemma sublist_lstrip:
  assumes "m \<noteq> []" and "list_all (\<lambda>c. \<not> py_isspace c) m"
  shows "sublist m (py_lstrip s) \<longleftrightarrow> sublist m s"
proof
  obtain u where s: "s = u @ py_lstrip s" and u: "\<forall>c\<in>set u. py_isspace c"
    unfolding py_lstrip_def using dropWhile_split [of s py_isspace] by (elim exE conjE)
  from s have eq: "u @ py_lstrip s = s" by (rule sym)
  have dis: "set u \<inter> set m = {}" using u assms(2) by (auto simp: list_all_iff)
  show "sublist m (py_lstrip s)" if "sublist m s"
    by (rule sublist_skip_prefix [OF _ assms(1) dis]) (simp only: eq that)
  show "sublist m s" if "sublist m (py_lstrip s)"
    using that unfolding py_lstrip_def
    by (meson sublist_order.order_trans suffix_dropWhile suffix_imp_sublist)
qed

lemma contains_strip: "solid m \<Longrightarrow> py_contains m (py_strip s) \<longleftrightarrow> py_contains m s"
  using sublist_rstrip [of m py_isspace "py_lstrip s"] sublist_lstrip [of m s]
  by (auto simp: py_contains_def py_strip_def solid_def list_all_iff)

lemma contains_candidate: "solid m \<Longrightarrow> py_contains m (command_candidate s) \<longleftrightarrow> py_contains m s"
  using contains_strip [of m "rstrip_if (\<lambda>c. c = 0x3002) (py_strip s)"] contains_strip [of m s]
    sublist_rstrip [of m "\<lambda>c. c = 0x3002" "py_strip s"]
  by (auto simp: command_candidate_def py_contains_def solid_def list_all_iff)

lemma markers_solid: "list_all solid (c_submit # INQUIRY_MARKERS @ NEGATIVE_SUBMISSION_MARKERS)"
  by code_simp

lemma explicit_iff:
  "is_explicit_submission_request s \<longleftrightarrow> py_contains c_submit s \<and>
     (\<forall>m\<in>set (INQUIRY_MARKERS @ NEGATIVE_SUBMISSION_MARKERS). \<not> py_contains m s)"
proof -
  have sub: "solid c_submit" and mk: "\<And>m. m \<in> set (INQUIRY_MARKERS @ NEGATIVE_SUBMISSION_MARKERS) \<Longrightarrow> solid m"
    using markers_solid by (auto simp: list_all_iff)
  have "py_strip s \<noteq> []" if "py_contains c_submit (py_strip s)"
    using that sub by (auto simp: py_contains_def solid_def)
  with sub mk show ?thesis
    by (auto simp: is_explicit_submission_request_def Let_def list_ex_iff contains_strip)
qed

section \<open>Lemmas on dates\<close>

lemma leap_within_eight: "\<exists>i. 0 \<le> i \<and> i \<le> 7 \<and> leap (y - i)"
proof (cases "leap (y - y mod 4)")
  case True
  then show ?thesis by (intro exI [of _ "y mod 4"]) auto
next
  case False
  define z where "z = y - y mod 4"
  have four: "4 dvd z" by (simp add: z_def)
  have "100 dvd z" using False four by (auto simp: leap_def z_def [symmetric])
  then have "4 dvd z - 4 \<and> \<not> 100 dvd z - 4"
    using four by presburger
  then have "leap (y - (y mod 4 + 4))" by (simp add: leap_def z_def algebra_simps)
  then show ?thesis by (intro exI [of _ "y mod 4 + 4"]) auto
qed

lemma leap_year_longest: "valid_calendar_date 2000 m d \<Longrightarrow> leap y \<Longrightarrow> 1 \<le> y \<Longrightarrow> y \<le> 9999 \<Longrightarrow>
  valid_calendar_date y m d"
  by (auto simp: valid_calendar_date_def days_in_month_def split: if_splits)

lemma find_downward:
  assumes "find p (map (\<lambda>i. a - i) [l..h]) = Some y"
  shows "p y \<and> y \<le> a - l \<and> (\<forall>z. p z \<and> z \<le> a - l \<longrightarrow> z \<le> y)"
  using assms
proof (induction l h rule: upto.induct)
  case (1 l h)
  show ?case
  proof (cases "l \<le> h")
    case False
    with 1 show ?thesis by simp
  next
    case True
    show ?thesis
    proof (cases "p (a - l)")
      case True
      with 1 \<open>l \<le> h\<close> show ?thesis by (simp add: upto_rec1)
    next
      case False
      with 1 \<open>l \<le> h\<close> have ih: "p y" "y \<le> a - (l + 1)" "\<forall>z. p z \<and> z \<le> a - (l + 1) \<longrightarrow> z \<le> y"
        by (simp_all add: upto_rec1)
      have "z \<le> a - (l + 1)" if "p z" "z \<le> a - l" for z
        using that False by (cases "z = a - l") auto
      with ih show ?thesis by auto
    qed
  qed
qed

lemma find_downward_None:
  "find p (map (\<lambda>i. a - i) [l..h]) = None \<Longrightarrow> l \<le> i \<Longrightarrow> i \<le> h \<Longrightarrow> \<not> p (a - i)"
  by (auto simp: find_None_iff)

definition not_after :: "ymd \<Rightarrow> ymd \<Rightarrow> bool" where
  "not_after a b = (case (a, b) of ((y, m, d), (ty, tm, td)) \<Rightarrow>
     y < ty \<or> (y = ty \<and> (m < tm \<or> (m = tm \<and> d \<le> td))))"

lemma not_after_first_year:
  "not_after (y, m, d) today \<longleftrightarrow> y \<le> first_capture_year today m d"
  by (cases today) (auto simp: not_after_def first_capture_year_def)

section \<open>Lemmas on matching\<close>

lemma rmatch_lit:
  "rmatch (lit_re p) (pv, s, g) = (if prefix p s then [(rev p @ pv, drop (length p) s, g)] else [])"
proof (induction p arbitrary: pv s)
  case Nil
  then show ?case by simp
next
  case (Cons c p)
  then show ?case by (cases s) (auto simp: chr_re_def)
qed

lemma rmatch_id:
  "(pv', r', g') \<in> set (rmatch command_id_re (pv, r, g)) \<longleftrightarrow>
     g' = g \<and> (\<exists>w. r = w @ r' \<and> pv' = rev w @ pv \<and> 1 \<le> length w \<and> length w \<le> 128 \<and> list_all command_id_char w)"
  unfolding command_id_re_def by (rule rmatch_rep_Cls) simp

lemma id_no_colon: "command_id_char c \<Longrightarrow> c \<noteq> 0x3A"
  by (auto simp: command_id_char_def)

lemma decimal_no_colon: "py_isdecimal c \<Longrightarrow> c \<noteq> 0x3A"
proof -
  have "\<not> py_isdecimal 0x3A" by code_simp
  then show "py_isdecimal c \<Longrightarrow> c \<noteq> 0x3A" by blast
qed

lemma colon_split:
  assumes "u @ 0x3A # s = v @ 0x3A # t" and "0x3A \<notin> set u" and "0x3A \<notin> set (v :: pstr)"
  shows "u = v \<and> s = t"
proof -
  have "takeWhile (\<lambda>c. c \<noteq> 0x3A) (u @ 0x3A # s) = u" "takeWhile (\<lambda>c. c \<noteq> 0x3A) (v @ 0x3A # t) = v"
    using assms(2,3) by (auto simp: takeWhile_append)
  with assms(1) show ?thesis by simp
qed

section \<open>Properties\<close>

text \<open>
  C36. No inquiry and no negation becomes a CRM write: when the parser recognises a submission command
  in a message, the message contains the submission verb and none of the inquiry or negation
  markers anywhere, and the command is one of the five fixed ones or the message's own text in the
  fixed company form, which only leads to a preview.
\<close>

theorem parse_crm_submission_command_safe:
  assumes "parse_crm_submission_command today text = Some c"
  shows "py_contains c_submit text \<and>
    (\<forall>m\<in>set (INQUIRY_MARKERS @ NEGATIVE_SUBMISSION_MARKERS). \<not> py_contains m text) \<and>
    (c \<in> set CRM_SUBMISSION_COMMANDS \<or>
     (c = command_candidate text \<and> parse_company_submission_request c \<noteq> None))"
proof (intro conjI)
  have ex: "is_explicit_submission_request (command_candidate text)"
    using assms by (auto simp: parse_crm_submission_command_def Let_def split: if_splits)
  have sol: "solid m" if "m \<in> set (c_submit # INQUIRY_MARKERS @ NEGATIVE_SUBMISSION_MARKERS)" for m
    using markers_solid that by (simp only: list_all_iff)
  show "py_contains c_submit text"
    using ex sol [of c_submit] by (simp add: explicit_iff contains_candidate)
  show "\<forall>m\<in>set (INQUIRY_MARKERS @ NEGATIVE_SUBMISSION_MARKERS). \<not> py_contains m text"
    using ex sol by (auto simp: explicit_iff contains_candidate)
  have al: "v \<in> set CRM_SUBMISSION_COMMANDS" if "dget k SUBMISSION_COMMAND_ALIASES = Some v" for k v
  proof -
    have "list_all (\<lambda>p. snd p \<in> set CRM_SUBMISSION_COMMANDS) SUBMISSION_COMMAND_ALIASES" by code_simp
    with that show ?thesis by (auto simp: dget_def list_all_iff dest!: map_of_SomeD)
  qed
  have "c_cross_owner \<in> set CRM_SUBMISSION_COMMANDS" by (simp add: CRM_SUBMISSION_COMMANDS_def)
  with assms al show "c \<in> set CRM_SUBMISSION_COMMANDS \<or>
      (c = command_candidate text \<and> parse_company_submission_request c \<noteq> None)"
    by (auto simp: parse_crm_submission_command_def Let_def split: if_splits option.splits)
qed

theorem parse_crm_submission_command_safe_witness:
  "parse_crm_submission_command (2026, 8, 1) ([0x20] @ alias_3 @ [0x3002]) = Some c_today \<and>
   py_contains c_submit ([0x20] @ alias_3 @ [0x3002])"
proof -
  have h: "parse_crm_submission_command (2026, 8, 1) ([0x20] @ alias_3 @ [0x3002]) = Some c_today"
    by code_simp
  show ?thesis using h parse_crm_submission_command_safe [OF h] by blast
qed

text \<open>
  A short date (month and day) is resolved to the most recent occurrence of that day that is not
  in the future: the result is a valid date no later than today, and every other valid occurrence
  no later than today is in an earlier or the same year. The search over nine years always finds
  it for a day that exists in a leap year, February 29 across a non-leap century included.
\<close>

theorem short_capture_date_most_recent:
  assumes "10 \<le> fst today" and "fst today \<le> 9999" and "valid_calendar_date 2000 m d"
  shows "\<exists>y. short_capture_date today m d = Some (y, m, d) \<and> valid_calendar_date y m d \<and>
    not_after (y, m, d) today \<and>
    (\<forall>y'. valid_calendar_date y' m d \<and> not_after (y', m, d) today \<longrightarrow> y' \<le> y)"
proof -
  let ?a = "first_capture_year today m d"
  let ?ys = "map (\<lambda>i. ?a - i) [0..8]"
  have a: "9 \<le> ?a" "?a \<le> 9999"
    using assms(1,2) by (auto simp: first_capture_year_def split: prod.splits)
  obtain i where i: "0 \<le> i" "i \<le> 7" "leap (?a - i)" using leap_within_eight by blast
  have "valid_calendar_date (?a - i) m d"
    using i a by (intro leap_year_longest [OF assms(3)]) auto
  then obtain y where y: "find (\<lambda>y. valid_calendar_date y m d) ?ys = Some y"
    using find_downward_None [of "\<lambda>y. valid_calendar_date y m d" ?a 0 8 i] i
    by (cases "find (\<lambda>y. valid_calendar_date y m d) ?ys") auto
  with find_downward [OF y] show ?thesis
    by (auto simp: short_capture_date_def Let_def not_after_first_year)
qed

theorem short_capture_date_most_recent_witness:
  "short_capture_date (2026, 2, 28) 2 29 = Some (2024, 2, 29) \<and>
   (\<exists>y. short_capture_date (2026, 2, 28) 2 29 = Some (y, 2, 29) \<and> valid_calendar_date y 2 29)"
proof -
  have h: "valid_calendar_date 2000 2 29" by code_simp
  have "short_capture_date (2026, 2, 28) 2 29 = Some (2024, 2, 29)" by code_simp
  moreover have "\<exists>y. short_capture_date (2026, 2, 28) 2 29 = Some (y, 2, 29) \<and> valid_calendar_date y 2 29"
    using short_capture_date_most_recent [of "(2026, 2, 28)", OF _ _ h] by auto
  ultimately show ?thesis by blast
qed

text \<open>The texts of the two machine commands, as the cards print them.\<close>

definition render_action_command :: "deterministic_action_command \<Rightarrow> pstr" where
  "render_action_command c =
     (case (da_message_id c, da_segment_index c) of
        (Some m, Some i) \<Rightarrow> asc ''t18.reassign:'' @ m @ [0x3A] @ digits_of (nat i) @ [0x3A] @ da_target_id c
      | _ \<Rightarrow> asc ''t18.discard:'' @ da_target_id c)"

definition command_id_ok :: "pstr \<Rightarrow> bool" where
  "command_id_ok s = (1 \<le> length s \<and> length s \<le> 128 \<and> list_all command_id_char s)"

definition action_command_ok :: "deterministic_action_command \<Rightarrow> bool" where
  "action_command_ok c = (command_id_ok (da_target_id c) \<and>
     (case (da_message_id c, da_segment_index c) of
        (None, None) \<Rightarrow> da_action_type c = ''lead_discard_confirmation''
      | (Some m, Some i) \<Rightarrow> da_action_type c = ''lead_reassignment_confirmation'' \<and>
          command_id_ok m \<and> 0 \<le> i \<and> i \<le> 999999
      | _ \<Rightarrow> False))"

lemma fullmatch_discard:
  "re_fullmatch discard_re (asc ''t18.discard:'' @ s) = (if command_id_ok s then Some [(1, s)] else None)"
proof -
  let ?ms = "rmatch discard_re ([], asc ''t18.discard:'' @ s, [])"
  have mem: "(pv, [], g) \<in> set ?ms \<Longrightarrow> command_id_ok s \<and> g = [(1, s)]" for pv g
    by (auto simp: discard_re_def rmatch_lit rmatch_id command_id_ok_def)
  have ex: "\<exists>pv g. (pv, [], g) \<in> set ?ms" if "command_id_ok s"
    using that rmatch_id [of "rev s @ rev (asc ''t18.discard:'')" "[]" "[]" "rev (asc ''t18.discard:'')" s "[]"]
    by (force simp: discard_re_def rmatch_lit command_id_ok_def)
  show ?thesis
  proof (cases "re_fullmatch discard_re (asc ''t18.discard:'' @ s)")
    case None
    then show ?thesis using ex by (auto simp: re_fullmatch_None_iff)
  next
    case (Some g)
    then obtain pv where "(pv, [], g) \<in> set ?ms"
      by (auto simp: re_fullmatch_def dest!: find_SomeD)
    from mem [OF this] Some show ?thesis by simp
  qed
qed

lemma ascii_digit_value: "0x30 \<le> c \<Longrightarrow> c \<le> 0x39 \<Longrightarrow> digit_value c = c - 0x30 \<and> py_isdecimal c"
  by (simp add: digit_value_def py_isdecimal_def py_zero_digits_def)

lemma py_int_digits_of: "py_int (digits_of n) = int n"
proof (induction n rule: digits_of.induct)
  case (1 n)
  have snoc: "py_int (s @ [c]) = 10 * py_int s + digit_value c" for s c
    by (simp add: py_int_def)
  have dig: "digit_value (int (n mod 10) + 0x30) = int (n mod 10)"
    using ascii_digit_value [of "int (n mod 10) + 0x30"] by auto
  show ?case
  proof (cases "n < 10")
    case True
    then show ?thesis
      using ascii_digit_value [of "int n + 0x30"] by (simp add: digits_of.simps [of n] py_int_def)
  next
    case False
    have "py_int (digits_of n) = 10 * int (n div 10) + int (n mod 10)"
      using 1 False dig by (simp add: digits_of.simps [of n] snoc)
    then show ?thesis by presburger
  qed
qed

lemma digits_of_isdecimal: "list_all py_isdecimal (digits_of n)"
  using digits_of_decimal [of n] ascii_digit_value by (auto simp: ascii_decimal_def list_all_iff)

definition reassign_text :: "pstr \<Rightarrow> pstr \<Rightarrow> pstr \<Rightarrow> pstr" where
  "reassign_text m ds t = m @ 0x3A # ds @ 0x3A # t"

lemma rmatch_segment:
  "(pv', r', g') \<in> set (rmatch segment_re (pv, r, g)) \<longleftrightarrow>
     g' = g \<and> (\<exists>w. r = w @ r' \<and> pv' = rev w @ pv \<and> 1 \<le> length w \<and> length w \<le> 6 \<and> list_all py_isdecimal w)"
  unfolding segment_re_def by (rule rmatch_rep_Cls) simp

lemma rmatch_chr:
  "rmatch (chr_re c) (pv, r, g) =
     (case r of [] \<Rightarrow> [] | x # t \<Rightarrow> if x = c then [(c # pv, t, g)] else [])"
  by (cases r) (auto simp: chr_re_def)

definition segment_ok :: "pstr \<Rightarrow> bool" where
  "segment_ok s = (1 \<le> length s \<and> length s \<le> 6 \<and> list_all py_isdecimal s)"

lemma reassign_sound:
  assumes "(pv', [], g) \<in> set (rmatch reassign_re ([], asc ''t18.reassign:'' @ s, []))"
  shows "\<exists>m ds t. s = reassign_text m ds t \<and> command_id_ok m \<and> segment_ok ds \<and>
     command_id_ok t \<and> g = [(3, t), (2, ds), (1, m)]"
  using assms unfolding reassign_re_def
  by (auto simp: rmatch_id rmatch_segment rmatch_lit rmatch_chr reassign_text_def command_id_ok_def
      segment_ok_def split: list.splits if_splits)

lemma reassign_complete:
  assumes "command_id_ok m" and "segment_ok ds" and "command_id_ok t"
  shows "\<exists>pv. (pv, [], [(3, t), (2, ds), (1, m)]) \<in>
     set (rmatch reassign_re ([], asc ''t18.reassign:'' @ reassign_text m ds t, []))"
proof -
  let ?p0 = "rev (asc ''t18.reassign:'')"
  let ?p1 = "rev m @ ?p0" and ?p2 = "rev ds @ 0x3A # rev m @ ?p0"
  have a: "(?p1, 0x3A # ds @ 0x3A # t, []) \<in> set (rmatch command_id_re (?p0, reassign_text m ds t, []))"
    using assms(1) by (auto simp: rmatch_id reassign_text_def command_id_ok_def)
  have b: "(?p2, 0x3A # t, g) \<in> set (rmatch segment_re (0x3A # ?p1, ds @ 0x3A # t, g))" for g
    using assms(2) by (auto simp: rmatch_segment segment_ok_def)
  have c: "(rev t @ 0x3A # ?p2, [], g) \<in> set (rmatch command_id_re (0x3A # ?p2, t, g))" for g
    using assms(3) by (auto simp: rmatch_id command_id_ok_def)
  have A: "(?p1, 0x3A # ds @ 0x3A # t, [(1, m)]) \<in>
      set (rmatch (Grp 1 command_id_re) (?p0, reassign_text m ds t, []))"
    using a by (force simp: reassign_text_def)
  have B: "(?p2, 0x3A # t, (2, ds) # g) \<in> set (rmatch (Grp 2 segment_re) (0x3A # ?p1, ds @ 0x3A # t, g))" for g
    using b [of g] by force
  have C: "(rev t @ 0x3A # ?p2, [], (3, t) # g) \<in> set (rmatch (Grp 3 command_id_re) (0x3A # ?p2, t, g))" for g
    using c [of g] by force
  have mid: "(rev t @ 0x3A # ?p2, [], (3, t) # (2, ds) # g) \<in>
      set (rmatch (Cat (chr_re 0x3A) (Cat (Grp 2 segment_re) (Cat (chr_re 0x3A) (Grp 3 command_id_re))))
        (?p1, 0x3A # ds @ 0x3A # t, g))" for g
    using B [of g] C [of "(2, ds) # g"]
    by (simp only: rmatch.simps(4) rmatch_chr list.case if_True refl set_concat set_map list.map concat.simps
        append_Nil2 UN_iff) (force simp: rmatch_chr simp del: rmatch.simps(7))
  show ?thesis
    unfolding reassign_re_def
    using A mid [of "[(1, m)]"]
    by (intro exI [of _ "rev t @ 0x3A # ?p2"])
      (simp only: rmatch.simps(4) [of "lit_re _"] rmatch_lit prefix_append if_True list.map concat.simps
        append_Nil2 drop_append, force simp del: rmatch.simps(7))
qed

lemma reassign_text_inj:
  assumes "reassign_text m ds t = reassign_text m' ds' t'"
    and "command_id_ok m" "command_id_ok m'" "segment_ok ds" "segment_ok ds'"
  shows "m = m' \<and> ds = ds' \<and> t = t'"
proof -
  have nc: "0x3A \<notin> set u" if "command_id_ok u \<or> segment_ok u" for u
    using that id_no_colon decimal_no_colon by (auto simp: command_id_ok_def segment_ok_def list_all_iff)
  have "m = m' \<and> ds @ 0x3A # t = ds' @ 0x3A # t'"
    by (rule colon_split) (use assms nc in \<open>auto simp: reassign_text_def\<close>)
  moreover from this have "ds = ds' \<and> t = t'"
    by (intro colon_split) (use assms nc in auto)
  ultimately show ?thesis by blast
qed

lemma fullmatch_reassign:
  assumes "command_id_ok m" and "segment_ok ds" and "command_id_ok t"
  shows "re_fullmatch reassign_re (asc ''t18.reassign:'' @ reassign_text m ds t) = Some [(3, t), (2, ds), (1, m)]"
proof (cases "re_fullmatch reassign_re (asc ''t18.reassign:'' @ reassign_text m ds t)")
  case None
  then show ?thesis using reassign_complete [OF assms] by (auto simp: re_fullmatch_None_iff)
next
  case (Some g)
  then obtain pv where "(pv, [], g) \<in> set (rmatch reassign_re ([], asc ''t18.reassign:'' @ reassign_text m ds t, []))"
    by (auto simp: re_fullmatch_def dest!: find_SomeD)
  from reassign_sound [OF this] Some show ?thesis
    using reassign_text_inj assms by metis
qed

lemma fullmatch_discard_reassign: "re_fullmatch discard_re (asc ''t18.reassign:'' @ s) = None"
proof -
  have "\<not> prefix (asc ''t18.discard:'') (asc ''t18.reassign:'' @ s)"
    by (simp add: asc_def)
  then show ?thesis by (simp add: re_fullmatch_None_iff discard_re_def rmatch_lit)
qed

text \<open>
  C38. The machine commands round-trip: the text printed for a discard or reassignment command with
  well-formed identifiers and a segment of at most six digits is parsed back to that very command.
\<close>

theorem action_command_roundtrip:
  assumes "action_command_ok c"
  shows "parse_deterministic_action_command (render_action_command c) = Some c"
proof (cases "da_message_id c")
  case None
  with assms show ?thesis
    by (cases c) (auto simp: action_command_ok_def render_action_command_def
        parse_deterministic_action_command_def fullmatch_discard re_group_def split: option.splits)
next
  case (Some m)
  with assms obtain i where i: "da_segment_index c = Some i" and ok: "command_id_ok m"
    "command_id_ok (da_target_id c)" "0 \<le> i" "i \<le> 999999"
    by (auto simp: action_command_ok_def split: option.splits)
  have "length (digits_of (nat i)) \<le> Suc 5"
    using ok(4) by (intro length_digits_of) simp
  then have seg: "segment_ok (digits_of (nat i))"
    using digits_of_isdecimal [of "nat i"] by (auto simp: segment_ok_def Suc_le_eq)
  have rendered: "render_action_command c =
      asc ''t18.reassign:'' @ reassign_text m (digits_of (nat i)) (da_target_id c)"
    using Some i by (simp add: render_action_command_def reassign_text_def)
  from assms Some i ok show ?thesis
    unfolding rendered parse_deterministic_action_command_def
      fullmatch_reassign [OF ok(1) seg ok(2)] fullmatch_discard_reassign
    by (cases c) (simp add: re_group_def py_int_digits_of action_command_ok_def)
qed

theorem action_command_roundtrip_witness:
  "parse_deterministic_action_command (render_action_command
     \<lparr>da_action_type = ''lead_reassignment_confirmation'', da_target_id = asc ''L-2'',
      da_message_id = Some (asc ''m.7''), da_segment_index = Some 12\<rparr>) =
   Some \<lparr>da_action_type = ''lead_reassignment_confirmation'', da_target_id = asc ''L-2'',
      da_message_id = Some (asc ''m.7''), da_segment_index = Some 12\<rparr>"
  by (rule action_command_roundtrip) code_simp

end
