(* ===== verification/Intake.thy ===== *)
theory Intake
  imports Commands Progress
begin

text \<open>
  \<^verbatim>\<open>app/messaging/service.py\<close>: receiving a message. One transaction registers the sender, rejects
  inactive senders, drops redeliveries, gives the message its place in the sender's sequence, queues
  the work item and the receipt, and audits the outcome. Concurrent deliveries are serialised by the
  row lock the source takes, so each delivery is one atomic step here; the savepoint
  branches that catch a competing insert then cannot be taken and are not modelled. Rows violating a
  unique constraint make the transaction fail with \<open>IntegrityError\<close> and roll back.
\<close>

record incoming_message_command =
  ic_message_id :: pstr
  ic_sales_user_id :: pstr
  ic_raw_payload :: fields
  ic_normalized_text :: "pstr option"
  ic_requires_media_enrichment :: bool
  ic_display_name :: "pstr option"
  ic_chat_id :: "pstr option"
  ic_chat_type :: "pstr option"
  ic_quote :: "fields option"

record message_intake_result =
  mr_accepted :: bool
  mr_duplicate :: bool

definition record_audit_event :: "incoming_message_command \<Rightarrow> string \<Rightarrow> time \<Rightarrow> db \<Rightarrow> db" where
  "record_audit_event c event_type now d =
     audit_once (ic_message_id c) (ic_sales_user_id c) event_type [] now d"

definition register_actor :: "incoming_message_command \<Rightarrow> time \<Rightarrow> sales_authorization" where
  "register_actor c now =
     new_actor (ic_sales_user_id c)
       (case ic_display_name c of None \<Rightarrow> None | Some n \<Rightarrow> if py_strip n = [] then None else Some (py_strip n))
       False None now"

definition inactive_key :: "env \<Rightarrow> incoming_message_command \<Rightarrow> pstr" where
  "inactive_key env c = e_sha256 env
     (ic_sales_user_id c @ asc '':'' @ ic_message_id c @ asc '':sales_actor_inactive'')"

definition record_actor_inactive_notification ::
  "env \<Rightarrow> incoming_message_command \<Rightarrow> time \<Rightarrow> db \<Rightarrow> message_intake_result \<times> db" where
  "record_actor_inactive_notification env c now d =
     (let key = inactive_key env c
      in if get_notice d key \<noteq> None
         then (\<lparr>mr_accepted = False, mr_duplicate = True\<rparr>,
               record_audit_event c ''actor_inactive_message_deduplicated'' now d)
         else (\<lparr>mr_accepted = False, mr_duplicate = False\<rparr>,
               record_audit_event c ''actor_inactive_message_rejected'' now
                 (d\<lparr>notification_records := tadd
                    (blank_notice key (ic_sales_user_id c) (ic_message_id c) ''sales_actor_inactive'' now)
                    (notification_records d)\<rparr>)))"

text \<open>The receipt is merged into the sender's pending one while its window is open.\<close>

definition receipt_message_ids :: "fields \<Rightarrow> pstr list" where
  "receipt_message_ids payload =
     (case py_get (asc ''message_ids'') payload of
        PList xs \<Rightarrow> dedup (concat (map (\<lambda>v. case v of PStr s \<Rightarrow> [s] | _ \<Rightarrow> []) xs))
      | _ \<Rightarrow> [])"

definition receipt_deadline :: "env \<Rightarrow> fields \<Rightarrow> time option" where
  "receipt_deadline env payload =
     (case py_get (asc ''coalesce_until'') payload of PStr s \<Rightarrow> e_from_iso env s | _ \<Rightarrow> None)"

definition receipt_text :: "nat \<Rightarrow> pstr" where
  "receipt_text n = n_received_a @ digits_of n @ n_received_b"

definition pending_receipt :: "db \<Rightarrow> pstr \<Rightarrow> notification_record option" where
  "pending_receipt d u = max_by nr_created_at (filter (\<lambda>n. nr_sales_user_id n = u \<and>
     nr_notification_type n = ''lead_intake_receipt'' \<and> nr_status n = ''pending'') (notification_records d))"

definition merge_receipt :: "pstr list \<Rightarrow> pstr \<Rightarrow> notification_record \<Rightarrow> notification_record" where
  "merge_receipt ids m n =
     (let ids' = (if m \<in> set ids then ids else ids @ [m])
      in n\<lparr>nr_payload := Some (dset (asc ''receipt_count'') (PInt (int (length ids')))
             (dset (asc ''message_ids'') (PList (map PStr ids')) (the_default [] (nr_payload n)))),
           nr_content := Some (receipt_text (length ids'))\<rparr>)"

definition receipt_key :: "env \<Rightarrow> incoming_message_command \<Rightarrow> pstr" where
  "receipt_key env c = e_sha256 env
     (asc ''lead_intake_receipt:'' @ ic_sales_user_id c @ asc '':'' @ ic_message_id c)"

definition record_lead_receipt ::
  "env \<Rightarrow> incoming_message_command \<Rightarrow> int \<Rightarrow> time \<Rightarrow> db \<Rightarrow> db res" where
  "record_lead_receipt env c coalesce_seconds now d =
     (let fresh = (if get_notice d (receipt_key env c) \<noteq> None then Inl IntegrityError
            else Inr (d\<lparr>notification_records := tadd
              ((blank_notice (receipt_key env c) (ic_sales_user_id c) (ic_message_id c) ''lead_intake_receipt'' now)
                \<lparr>nr_content := Some (receipt_text 1),
                 nr_payload := Some [(asc ''receipt_count'', PInt 1),
                   (asc ''message_ids'', PList [PStr (ic_message_id c)]),
                   (asc ''coalesce_until'', PStr (e_iso env (now + seconds coalesce_seconds)))]\<rparr>)
              (notification_records d)\<rparr>))
      in case pending_receipt d (ic_sales_user_id c) of
           None \<Rightarrow> fresh
         | Some n \<Rightarrow>
             (let payload = the_default [] (nr_payload n);
                  ids0 = receipt_message_ids payload;
                  ids = (if ids0 = [] then [nr_source_message_id n] else ids0)
              in case receipt_deadline env payload of
                   None \<Rightarrow> fresh
                 | Some deadline \<Rightarrow>
                     if now < deadline
                     then Inr (upd_notice (nr_notification_key n) (merge_receipt ids (ic_message_id c)) d)
                     else fresh))"

text \<open>The deterministic classification that decides which worker handles the message.\<close>

definition intake_event_type :: "ymd \<Rightarrow> pstr \<Rightarrow> string" where
  "intake_event_type today text =
     (if parse_crm_submission_command today text \<noteq> None then ''crm_submission_command''
      else if looks_like_submission_intent text then ''crm_submission_intent''
      else if parse_deterministic_action_command text \<noteq> None then ''wecom_action_command''
      else ''message_received'')"

definition new_message :: "incoming_message_command \<Rightarrow> int \<Rightarrow> time \<Rightarrow> incoming_message" where
  "new_message c seq now =
     \<lparr>im_message_id = ic_message_id c, im_sales_user_id = ic_sales_user_id c, im_sequence = seq,
      im_raw_payload = ic_raw_payload c, im_normalized_text = ic_normalized_text c,
      im_chat_id = ic_chat_id c, im_chat_type = ic_chat_type c,
      im_requires_media_enrichment = ic_requires_media_enrichment c, im_scrubbed_at = None,
      im_retention_policy_version = None, im_received_at = now\<rparr>"

definition new_outbox_event :: "nat \<Rightarrow> incoming_message_command \<Rightarrow> int \<Rightarrow> string \<Rightarrow> time \<Rightarrow> outbox_event" where
  "new_outbox_event i c seq event_type now =
     \<lparr>ob_id = i, ob_message_id = ic_message_id c, ob_sales_user_id = ic_sales_user_id c,
      ob_sequence = seq, ob_event_type = event_type, ob_status = ''pending'', ob_attempts = 0,
      ob_processing_started_at = None, ob_failure_category = None, ob_failure_summary = None,
      ob_failed_at = None, ob_created_at = now\<rparr>"

text \<open>The insertion of the message, its work item, progress candidate and receipt.\<close>

definition store_message ::
  "env \<Rightarrow> settings \<Rightarrow> ymd \<Rightarrow> pstr \<Rightarrow> time \<Rightarrow> incoming_message_command \<Rightarrow> sales_authorization \<Rightarrow> db \<Rightarrow> db res" where
  "store_message env st today sid now c a d =
     (let seq = sa_next_message_sequence a + 1;
          text = the_default [] (ic_normalized_text c);
          event_type = intake_event_type today text;
          message = new_message c seq now
      in if list_ex (\<lambda>m. im_sales_user_id m = ic_sales_user_id c \<and> im_sequence m = seq) (incoming_messages d) \<or>
            list_ex (\<lambda>e. ob_message_id e = ic_message_id c) (outbox_events d)
         then Inl IntegrityError
         else let d1 = d\<lparr>sales_authorizations := tupd sa_wecom_user_id (ic_sales_user_id c)
                      (\<lambda>r. r\<lparr>sa_next_message_sequence := seq, sa_updated_at := now\<rparr>) (sales_authorizations d),
                    incoming_messages := tadd message (incoming_messages d),
                    outbox_events := tadd (new_outbox_event (next_id ob_id (outbox_events d)) c seq event_type now)
                      (outbox_events d)\<rparr>;
                  d2 = (if event_type = ''message_received''
                        then snd (register_progress_message st sid now message d1)
                        else if event_type = ''crm_submission_intent''
                        then snd (register_progress_intent_candidate st now message d1) else d1)
              in if event_type = ''message_received'' \<and> lead_receipt_enabled st
                 then record_lead_receipt env c (lead_receipt_coalesce_seconds st) now d2
                 else Inr d2)"

definition receive ::
  "env \<Rightarrow> settings \<Rightarrow> ymd \<Rightarrow> pstr \<Rightarrow> time \<Rightarrow> incoming_message_command \<Rightarrow> db \<Rightarrow> (message_intake_result \<times> db) res" where
  "receive env st today sid now c d =
     (if get_message d (ic_message_id c) \<noteq> None
      then Inr (\<lparr>mr_accepted = True, mr_duplicate = True\<rparr>, record_audit_event c ''message_deduplicated'' now d)
      else let (a, d0) = (case get_actor d (ic_sales_user_id c) of
               Some a \<Rightarrow> (a, d)
             | None \<Rightarrow> (let a = register_actor c now
                        in (a, d\<lparr>sales_authorizations := tadd a (sales_authorizations d)\<rparr>)))
           in if \<not> sa_is_active a then Inr (record_actor_inactive_notification env c now d0)
              else case store_message env st today sid now c a d0 of
                Inl e \<Rightarrow> Inl e
              | Inr d1 \<Rightarrow> Inr (\<lparr>mr_accepted = True, mr_duplicate = False\<rparr>,
                              record_audit_event c ''message_received'' now d1))"

section \<open>Frames\<close>

lemma attach_frame [simp]:
  "sales_authorizations (attach_progress_message st sid now pm u d) = sales_authorizations d"
  "incoming_messages (attach_progress_message st sid now pm u d) = incoming_messages d"
  "outbox_events (attach_progress_message st sid now pm u d) = outbox_events d"
  "notification_records (attach_progress_message st sid now pm u d) = notification_records d"
  "business_audit_events (attach_progress_message st sid now pm u d) = business_audit_events d"
  by (simp_all add: attach_progress_message_def Let_def split: option.splits)

lemma register_frame [simp]:
  "sales_authorizations (snd (register_progress_message st sid now msg d)) = sales_authorizations d"
  "incoming_messages (snd (register_progress_message st sid now msg d)) = incoming_messages d"
  "outbox_events (snd (register_progress_message st sid now msg d)) = outbox_events d"
  "notification_records (snd (register_progress_message st sid now msg d)) = notification_records d"
  "sales_authorizations (snd (register_progress_intent_candidate st now msg d)) = sales_authorizations d"
  "incoming_messages (snd (register_progress_intent_candidate st now msg d)) = incoming_messages d"
  "outbox_events (snd (register_progress_intent_candidate st now msg d)) = outbox_events d"
  "notification_records (snd (register_progress_intent_candidate st now msg d)) = notification_records d"
  by (simp_all add: register_progress_message_def register_progress_intent_candidate_def Let_def)

lemma receipt_frame:
  assumes "record_lead_receipt env c k now d = Inr d'"
  shows "sales_authorizations d' = sales_authorizations d \<and> incoming_messages d' = incoming_messages d \<and>
    outbox_events d' = outbox_events d"
  using assms
  by (auto simp: record_lead_receipt_def Let_def split: option.splits if_splits)

lemma record_audit_frame [simp]:
  "sales_authorizations (record_audit_event c t now d) = sales_authorizations d"
  "incoming_messages (record_audit_event c t now d) = incoming_messages d"
  "outbox_events (record_audit_event c t now d) = outbox_events d"
  "notification_records (record_audit_event c t now d) = notification_records d"
  by (simp_all add: record_audit_event_def)

section \<open>The intake invariant\<close>

text \<open>
  Each sender's messages carry the numbers 1, 2, 3, ... in the order they were stored, up to the
  sender's counter, and every stored message has exactly one work item, with the same number.
\<close>

definition seq_of :: "db \<Rightarrow> pstr \<Rightarrow> int" where
  "seq_of d u = (case get_actor d u of None \<Rightarrow> 0 | Some a \<Rightarrow> sa_next_message_sequence a)"

definition sequences :: "db \<Rightarrow> pstr \<Rightarrow> int list" where
  "sequences d u = map im_sequence (filter (\<lambda>m. im_sales_user_id m = u) (incoming_messages d))"

definition intake_inv :: "db \<Rightarrow> bool" where
  "intake_inv d \<longleftrightarrow>
     distinct (map im_message_id (incoming_messages d)) \<and>
     (\<forall>u. 0 \<le> seq_of d u \<and> sequences d u = [1..seq_of d u]) \<and>
     map (\<lambda>e. (ob_message_id e, ob_sales_user_id e, ob_sequence e)) (outbox_events d) =
     map (\<lambda>m. (im_message_id m, im_sales_user_id m, im_sequence m)) (incoming_messages d)"

lemma intake_inv_cong:
  assumes "incoming_messages d' = incoming_messages d" and "outbox_events d' = outbox_events d"
    and "\<And>u. seq_of d' u = seq_of d u"
  shows "intake_inv d' = intake_inv d"
  using assms by (simp add: intake_inv_def sequences_def)

lemma outbox_message_ids:
  assumes "intake_inv d"
  shows "map ob_message_id (outbox_events d) = map im_message_id (incoming_messages d)"
proof -
  have "map fst (map (\<lambda>e. (ob_message_id e, ob_sales_user_id e, ob_sequence e)) (outbox_events d)) =
     map fst (map (\<lambda>m. (im_message_id m, im_sales_user_id m, im_sequence m)) (incoming_messages d))"
    using assms by (simp only: intake_inv_def)
  then show ?thesis by (simp add: comp_def)
qed

lemma no_conflict:
  assumes inv: "intake_inv d" and "get_message d m = None"
  shows "\<not> list_ex (\<lambda>r. im_sales_user_id r = u \<and> im_sequence r = seq_of d u + 1) (incoming_messages d)"
    and "\<not> list_ex (\<lambda>e. ob_message_id e = m) (outbox_events d)"
proof -
  show "\<not> list_ex (\<lambda>r. im_sales_user_id r = u \<and> im_sequence r = seq_of d u + 1) (incoming_messages d)"
  proof
    assume "list_ex (\<lambda>r. im_sales_user_id r = u \<and> im_sequence r = seq_of d u + 1) (incoming_messages d)"
    then have "seq_of d u + 1 \<in> set (sequences d u)" by (force simp: list_ex_iff sequences_def)
    then show False using inv by (simp add: intake_inv_def)
  qed
  have "m \<notin> set (map ob_message_id (outbox_events d))"
    using assms(2) unfolding outbox_message_ids [OF inv] by (simp add: tget_None_iff)
  then show "\<not> list_ex (\<lambda>e. ob_message_id e = m) (outbox_events d)" by (auto simp: list_ex_iff)
qed

lemma seq_of_add_actor:
  "get_actor d u = None \<Longrightarrow> sa_wecom_user_id a = u \<Longrightarrow> sa_next_message_sequence a = 0 \<Longrightarrow>
     seq_of (d\<lparr>sales_authorizations := tadd a (sales_authorizations d)\<rparr>) v = seq_of d v"
  by (auto simp: seq_of_def split: option.splits)

lemma seq_of_bump:
  assumes "get_actor d u = Some a"
  shows "seq_of (d\<lparr>sales_authorizations := tupd sa_wecom_user_id u
      (\<lambda>r. r\<lparr>sa_next_message_sequence := n, sa_updated_at := now\<rparr>) (sales_authorizations d)\<rparr>) v =
    (if v = u then n else seq_of d v)"
  using assms by (auto simp: seq_of_def tget_tupd_same tget_tupd_other)

lemma upto_snoc: "0 \<le> (n::int) \<Longrightarrow> [1..n + 1] = [1..n] @ [n + 1]"
  by (simp add: upto_rec2)

text \<open>What storing a message does to the tables the invariant is about.\<close>

lemma store_message_tables:
  assumes "store_message env st today sid now c a d = Inr d'"
  shows "sales_authorizations d' = tupd sa_wecom_user_id (ic_sales_user_id c)
      (\<lambda>r. r\<lparr>sa_next_message_sequence := sa_next_message_sequence a + 1, sa_updated_at := now\<rparr>) (sales_authorizations d)"
    and "incoming_messages d' = incoming_messages d @ [new_message c (sa_next_message_sequence a + 1) now]"
    and "\<exists>i. outbox_events d' = outbox_events d @ [new_outbox_event i c (sa_next_message_sequence a + 1)
      (intake_event_type today (the_default [] (ic_normalized_text c))) now]"
  using assms
  by (auto simp: store_message_def Let_def tadd_def split: if_splits dest!: receipt_frame)

lemma store_message_inv:
  assumes inv: "intake_inv d" and a: "get_actor d (ic_sales_user_id c) = Some a"
    and new: "get_message d (ic_message_id c) = None"
    and st: "store_message env st today sid now c a d = Inr d'"
  shows "intake_inv d'"
proof -
  let ?u = "ic_sales_user_id c" and ?n = "sa_next_message_sequence a + 1"
  have n: "seq_of d ?u = sa_next_message_sequence a" using a by (simp add: seq_of_def)
  note t = store_message_tables [OF st]
  have seq: "seq_of d' v = (if v = ?u then ?n else seq_of d v)" for v
    using seq_of_bump [OF a, where n = ?n and now = now and v = v] t(1) by (simp add: seq_of_def)
  have nn: "0 \<le> sa_next_message_sequence a" using inv n unfolding intake_inv_def by metis
  have seqs: "sequences d' v = [1..seq_of d' v]" for v
    using inv seq [of v] n nn upto_snoc [OF nn] t(2)
    by (auto simp: sequences_def new_message_def intake_inv_def)
  have "ic_message_id c \<notin> im_message_id ` set (incoming_messages d)"
    using new by (simp add: tget_None_iff)
  then have "distinct (map im_message_id (incoming_messages d'))"
    using inv t(2) by (simp add: intake_inv_def new_message_def)
  moreover have "0 \<le> seq_of d' v" for v using seq inv nn by (auto simp: intake_inv_def)
  ultimately show ?thesis
    using inv t(2,3) seqs by (auto simp: intake_inv_def new_message_def new_outbox_event_def)
qed

text \<open>The three ways a delivery can go.\<close>

lemma receive_cases:
  assumes "receive env st today sid now c d = Inr (r, d')"
  obtains (dup) "get_message d (ic_message_id c) \<noteq> None" "mr_accepted r" "mr_duplicate r"
      "d' = record_audit_event c ''message_deduplicated'' now d"
  | (inactive) a where "get_message d (ic_message_id c) = None" "get_actor d (ic_sales_user_id c) = Some a"
      "\<not> sa_is_active a" "(r, d') = record_actor_inactive_notification env c now d"
  | (stored) a d0 d1 where "get_message d (ic_message_id c) = None" "sa_is_active a" "mr_accepted r" "\<not> mr_duplicate r"
      "get_actor d0 (ic_sales_user_id c) = Some a" "\<And>u. seq_of d0 u = seq_of d u"
      "incoming_messages d0 = incoming_messages d" "outbox_events d0 = outbox_events d"
      "notification_records d0 = notification_records d"
      "\<And>v. v \<noteq> ic_sales_user_id c \<Longrightarrow> get_actor d0 v = get_actor d v"
      "store_message env st today sid now c a d0 = Inr d1" "d' = record_audit_event c ''message_received'' now d1"
proof (cases "get_message d (ic_message_id c)")
  case (Some m)
  then show thesis using assms dup by (auto simp: receive_def)
next
  case nomsg: None
  show thesis
  proof (cases "get_actor d (ic_sales_user_id c)")
    case None
    let ?a = "register_actor c now"
    let ?d0 = "d\<lparr>sales_authorizations := tadd ?a (sales_authorizations d)\<rparr>"
    have act: "sa_is_active ?a" "sa_wecom_user_id ?a = ic_sales_user_id c" "sa_next_message_sequence ?a = 0"
      by (simp_all add: register_actor_def new_actor_def)
    obtain d1 where d1: "store_message env st today sid now c ?a ?d0 = Inr d1"
      "r = \<lparr>mr_accepted = True, mr_duplicate = False\<rparr>" "d' = record_audit_event c ''message_received'' now d1"
      using assms nomsg None act by (auto simp: receive_def Let_def split: sum.splits)
    show thesis
    proof (rule stored [of ?a ?d0 d1])
      show "seq_of ?d0 u = seq_of d u" for u using seq_of_add_actor [OF None act(2,3)] .
    qed (use nomsg None act d1 in \<open>auto split: option.splits\<close>)
  next
    case (Some a)
    show thesis
    proof (cases "sa_is_active a")
      case False
      then show thesis using assms nomsg Some inactive by (auto simp: receive_def Let_def)
    next
      case True
      with assms nomsg Some obtain d1 where "store_message env st today sid now c a d = Inr d1"
        "r = \<lparr>mr_accepted = True, mr_duplicate = False\<rparr>" "d' = record_audit_event c ''message_received'' now d1"
        by (auto simp: receive_def Let_def split: sum.splits)
      with True nomsg Some show thesis by (intro stored [of a d d1]) auto
    qed
  qed
qed

lemma inactive_frame:
  assumes "(r, d') = record_actor_inactive_notification env c now d"
  shows "incoming_messages d' = incoming_messages d" "outbox_events d' = outbox_events d"
    "sales_authorizations d' = sales_authorizations d" "\<not> mr_accepted r"
    "get_notice d' (inactive_key env c) \<noteq> None"
  using assms by (auto simp: record_actor_inactive_notification_def Let_def blank_notice_def split: if_splits option.splits)

section \<open>Properties\<close>

text \<open>
  C1. Receiving keeps the intake invariant: message identifiers are unique, each sender's messages
  are numbered 1, 2, 3, ... without gap or repetition in the order they were stored, and every
  message has exactly one work item with its number.
\<close>

theorem receive_keeps_invariant:
  assumes "receive env st today sid now c d = Inr (r, d')" and "intake_inv d"
  shows "intake_inv d'"
  using assms(1)
proof (cases rule: receive_cases)
  case dup
  then show ?thesis
    using assms(2) intake_inv_cong [of "record_audit_event c ''message_deduplicated'' now d" d]
    by (simp add: seq_of_def)
next
  case (inactive a)
  note f = inactive_frame [OF inactive(4)]
  from f assms(2) show ?thesis by (subst intake_inv_cong [of d' d]) (simp_all add: seq_of_def)
next
  case (stored a d0 d1)
  have inv0: "intake_inv d0" using stored(6-8) assms(2) intake_inv_cong [of d0 d] by simp
  have new0: "get_message d0 (ic_message_id c) = None" using stored(1,7) by simp
  have "intake_inv d1" by (rule store_message_inv [OF inv0 stored(5) new0 stored(11)])
  then show ?thesis
    using stored(12) intake_inv_cong [of "record_audit_event c ''message_received'' now d1" d1]
    by (simp add: seq_of_def)
qed

definition hello :: incoming_message_command where
  "hello = \<lparr>ic_message_id = asc ''m1'', ic_sales_user_id = asc ''amy'', ic_raw_payload = [],
     ic_normalized_text = Some (asc ''ACME wants a robot''), ic_requires_media_enrichment = False,
     ic_display_name = Some (asc '' Amy ''), ic_chat_id = None, ic_chat_type = None, ic_quote = None\<rparr>"

lemma empty_db_intake_inv: "intake_inv empty_db"
  by (simp add: intake_inv_def empty_db_def seq_of_def sequences_def)

theorem receive_keeps_invariant_witness:
  "\<exists>r d'. receive plain_env (example_settings\<lparr>lead_receipt_enabled := False\<rparr>) (2026, 8, 1) (asc ''s1'') 100 hello empty_db =
     Inr (r, d') \<and> intake_inv d'"
proof -
  have "\<exists>r d'. receive plain_env (example_settings\<lparr>lead_receipt_enabled := False\<rparr>) (2026, 8, 1) (asc ''s1'') 100 hello empty_db =
     Inr (r, d')"
    by (simp add: receive_def hello_def empty_db_def register_actor_def new_actor_def store_message_def Let_def)
  then obtain r d' where h: "receive plain_env (example_settings\<lparr>lead_receipt_enabled := False\<rparr>) (2026, 8, 1)
     (asc ''s1'') 100 hello empty_db = Inr (r, d')" by blast
  from h receive_keeps_invariant [OF h empty_db_intake_inv] show ?thesis by blast
qed

lemma receive_total:
  assumes "intake_inv d" and "get_notice d (receipt_key env c) = None"
  shows "\<exists>r d'. receive env st today sid now c d = Inr (r, d')"
proof -
  have store: "\<exists>d1. store_message env st today sid now c a d0 = Inr d1"
    if a: "sa_next_message_sequence a = seq_of d (ic_sales_user_id c)" and
      t: "incoming_messages d0 = incoming_messages d" "outbox_events d0 = outbox_events d"
        "notification_records d0 = notification_records d" and
      new: "get_message d (ic_message_id c) = None" for a d0
    using no_conflict(1) [OF assms(1) new, of "ic_sales_user_id c"] no_conflict(2) [OF assms(1) new] a t assms(2)
    by (auto simp: store_message_def Let_def record_lead_receipt_def split: option.splits)
  show ?thesis
  proof (cases "get_message d (ic_message_id c)")
    case (Some m)
    then show ?thesis by (simp add: receive_def)
  next
    case new: None
    show ?thesis
    proof (cases "get_actor d (ic_sales_user_id c)")
      case None
      have "sa_is_active (register_actor c now)" by (simp add: register_actor_def new_actor_def)
      moreover have "\<exists>d1. store_message env st today sid now c (register_actor c now)
          (d\<lparr>sales_authorizations := tadd (register_actor c now) (sales_authorizations d)\<rparr>) = Inr d1"
        using None new by (intro store) (simp_all add: register_actor_def new_actor_def seq_of_def)
      ultimately show ?thesis using new None by (auto simp: receive_def Let_def)
    next
      case (Some a)
      have "\<exists>d1. store_message env st today sid now c a d = Inr d1"
        using Some new by (intro store) (simp_all add: seq_of_def)
      moreover obtain r d' where "record_actor_inactive_notification env c now d = (r, d')" by fastforce
      ultimately show ?thesis using new Some by (auto simp: receive_def Let_def)
    qed
  qed
qed

text \<open>
  The transaction cannot fail on its own: under the invariant, a delivery is always answered (no
  constraint violation), unless a notification already uses the key of the receipt it would create.
\<close>

theorem receive_succeeds:
  assumes "intake_inv d" and "get_notice d (receipt_key env c) = None"
  shows "\<exists>r d'. receive env st today sid now c d = Inr (r, d')"
  using assms by (rule receive_total)

theorem receive_succeeds_witness:
  "\<exists>r d'. receive plain_env example_settings (2026, 8, 1) (asc ''s1'') 100 hello empty_db = Inr (r, d')"
  by (rule receive_succeeds [OF empty_db_intake_inv]) (simp add: empty_db_def)

text \<open>
  Redelivery is harmless: once a delivery has been answered, delivering the same message again
  (at any later time, under any settings) is answered as a duplicate with the same verdict,
  changes no message, work item, notification or sender, and a further redelivery changes nothing
  at all, the audit trail included.
\<close>

theorem redelivery_idempotent:
  assumes "receive env st today sid now c d = Inr (r, d1)"
  shows "\<exists>r2 d2. receive env st' today' sid' now' c d1 = Inr (r2, d2) \<and>
    mr_duplicate r2 \<and> mr_accepted r2 = mr_accepted r \<and>
    incoming_messages d2 = incoming_messages d1 \<and> outbox_events d2 = outbox_events d1 \<and>
    notification_records d2 = notification_records d1 \<and> sales_authorizations d2 = sales_authorizations d1 \<and>
    receive env st'' today'' sid'' now'' c d2 = Inr (r2, d2)"
proof -
  have accepted: ?thesis if "mr_accepted r" "get_message d1 (ic_message_id c) \<noteq> None"
  proof -
    let ?d2 = "record_audit_event c ''message_deduplicated'' now' d1"
    have "record_audit_event c ''message_deduplicated'' now'' ?d2 = ?d2"
      by (simp add: record_audit_event_def audit_once_idem)
    with that show ?thesis by (auto simp: receive_def)
  qed
  from assms show ?thesis
  proof (cases rule: receive_cases)
    case dup
    then show ?thesis by (intro accepted) auto
  next
    case (inactive a)
    note f = inactive_frame [OF inactive(4)]
    let ?d2 = "record_audit_event c ''actor_inactive_message_deduplicated'' now' d1"
    have "record_audit_event c ''actor_inactive_message_deduplicated'' now'' ?d2 = ?d2"
      by (simp add: record_audit_event_def audit_once_idem)
    moreover have "get_message d1 (ic_message_id c) = None" "get_actor d1 (ic_sales_user_id c) = Some a"
      using f inactive by simp_all
    ultimately show ?thesis
      using f(4,5) inactive(3) by (simp add: receive_def Let_def record_actor_inactive_notification_def)
  next
    case (stored a d0 d1')
    have "get_message d1' (ic_message_id c) \<noteq> None"
      using store_message_tables(2) [OF stored(11)] by (simp add: tget_append new_message_def split: option.splits)
    then show ?thesis using stored by (intro accepted) auto
  qed
qed

theorem redelivery_idempotent_witness:
  "\<exists>r d1 r2 d2. receive plain_env example_settings (2026, 8, 1) (asc ''s1'') 100 hello empty_db = Inr (r, d1) \<and>
     receive plain_env example_settings (2026, 8, 1) (asc ''s2'') 200 hello d1 = Inr (r2, d2) \<and> mr_duplicate r2"
proof -
  have "\<exists>r d1. receive plain_env example_settings (2026, 8, 1) (asc ''s1'') 100 hello empty_db = Inr (r, d1)"
    by (rule receive_total [OF empty_db_intake_inv]) (simp add: empty_db_def)
  then obtain r d1 where h: "receive plain_env example_settings (2026, 8, 1) (asc ''s1'') 100 hello empty_db = Inr (r, d1)"
    by blast
  from h redelivery_idempotent [OF h, of example_settings "(2026, 8, 1)" "asc ''s2''" 200] show ?thesis by blast
qed

text \<open>
  A deactivated sender's message leaves no work behind: no message, no work item, no change to
  the sender registry, and exactly one notice per message, under a key of sender and message.
\<close>

theorem inactive_sender_rejected:
  assumes "receive env st today sid now c d = Inr (r, d')"
    and "get_actor d (ic_sales_user_id c) = Some a" and "\<not> sa_is_active a"
    and "get_message d (ic_message_id c) = None"
  shows "\<not> mr_accepted r \<and> incoming_messages d' = incoming_messages d \<and> outbox_events d' = outbox_events d \<and>
    sales_authorizations d' = sales_authorizations d \<and>
    map nr_notification_key (notification_records d') =
      (if get_notice d (inactive_key env c) = None
       then map nr_notification_key (notification_records d) @ [inactive_key env c]
       else map nr_notification_key (notification_records d))"
proof -
  have eq: "(r, d') = record_actor_inactive_notification env c now d"
    using assms by (simp add: receive_def Let_def)
  note f = inactive_frame [OF eq]
  have "map nr_notification_key (notification_records d') =
      (if get_notice d (inactive_key env c) = None
       then map nr_notification_key (notification_records d) @ [inactive_key env c]
       else map nr_notification_key (notification_records d))"
    using eq by (simp add: record_actor_inactive_notification_def Let_def blank_notice_def split: if_splits)
  with f show ?thesis by simp
qed

definition gone_db :: db where
  "gone_db = empty_db\<lparr>sales_authorizations := [(new_actor (asc ''amy'') None True None 0)\<lparr>sa_is_active := False\<rparr>]\<rparr>"

theorem inactive_sender_rejected_witness:
  "\<exists>r d'. receive plain_env example_settings (2026, 8, 1) (asc ''s1'') 100 hello gone_db = Inr (r, d') \<and>
     \<not> mr_accepted r \<and> incoming_messages d' = []"
proof -
  let ?a = "(new_actor (asc ''amy'') None True None 0)\<lparr>sa_is_active := False\<rparr>"
  have a: "get_actor gone_db (ic_sales_user_id hello) = Some ?a" and na: "\<not> sa_is_active ?a"
    and m: "get_message gone_db (ic_message_id hello) = None" and im: "incoming_messages gone_db = []"
    by (simp_all add: gone_db_def hello_def empty_db_def new_actor_def)
  obtain r d' where "record_actor_inactive_notification plain_env hello 100 gone_db = (r, d')" by fastforce
  then have h: "receive plain_env example_settings (2026, 8, 1) (asc ''s1'') 100 hello gone_db = Inr (r, d')"
    using a m na by (simp add: receive_def Let_def)
  from h inactive_sender_rejected [OF h a na m] im show ?thesis by auto
qed

text \<open>
  Merging a receipt counts each message once: afterwards the receipt lists distinct messages, the new one
  among them, none lost, and its stored count and text are the length of that list.
\<close>

theorem merge_receipt_counts:
  assumes "distinct ids"
  shows "\<exists>ids'. receipt_message_ids (the_default [] (nr_payload (merge_receipt ids m n))) = ids' \<and> distinct ids' \<and>
    set ids' = insert m (set ids) \<and>
    py_get (asc ''receipt_count'') (the_default [] (nr_payload (merge_receipt ids m n))) = PInt (int (length ids')) \<and>
    nr_content (merge_receipt ids m n) = Some (receipt_text (length ids'))"
proof -
  let ?ids = "if m \<in> set ids then ids else ids @ [m]"
  have strs: "concat (map (\<lambda>v. case v of PStr s \<Rightarrow> [s] | _ \<Rightarrow> []) (map PStr xs)) = xs" for xs
    by (induction xs) auto
  have dd: "distinct xs \<Longrightarrow> dedup xs = xs" for xs :: "pstr list"
    by (induction xs) (auto simp: filter_id_conv)
  have ids: "distinct ?ids" "set ?ids = insert m (set ids)" using assms by auto
  have "receipt_message_ids (the_default [] (nr_payload (merge_receipt ids m n))) = ?ids"
    using dd [OF ids(1)] strs [of ?ids] by (simp add: receipt_message_ids_def merge_receipt_def Let_def py_get_def)
  moreover have "py_get (asc ''receipt_count'') (the_default [] (nr_payload (merge_receipt ids m n))) = PInt (int (length ?ids))"
    "nr_content (merge_receipt ids m n) = Some (receipt_text (length ?ids))"
    by (simp_all add: merge_receipt_def Let_def py_get_def)
  ultimately show ?thesis using ids by blast
qed

theorem merge_receipt_counts_witness:
  "nr_content (merge_receipt [asc ''a''] (asc ''b'') (blank_notice [] [] [] ''t'' 0)) = Some (receipt_text 2)"
proof -
  have "distinct [asc ''a'']" by simp
  from merge_receipt_counts [OF this] obtain ids' where "distinct ids'" "set ids' = insert (asc ''b'') (set [asc ''a''])"
    "nr_content (merge_receipt [asc ''a''] (asc ''b'') (blank_notice [] [] [] ''t'' 0)) = Some (receipt_text (length ids'))"
    by blast
  moreover from this have "length ids' = 2" by (simp add: distinct_card [symmetric])
  ultimately show ?thesis by simp
qed

end
