(* ===== verification/Reminders.thy ===== *)
theory Reminders
  imports Discard Intake
begin

text \<open>
  \<^verbatim>\<open>app/leads/reminders.py\<close>: the evening reminder of salespersons who still have unsubmitted leads. A
  calendar day is its number since the epoch in Asia/Shanghai, which has been UTC+8 without
  daylight saving since September 1991. The insertion is the \<^verbatim>\<open>ON CONFLICT DO NOTHING\<close> of PostgreSQL
  and SQLite; every user is one transaction.
\<close>

definition UNSUBMITTED_LEAD_STATES :: "string list" where
  "UNSUBMITTED_LEAD_STATES = [''temporary'', ''pending_create'']"

definition shanghai_day :: "time \<Rightarrow> int" where
  "shanghai_day now = (now + minutes 480) div days 1"

definition shanghai_clock :: "time \<Rightarrow> time" where
  "shanghai_clock now = (now + minutes 480) mod days 1"

definition business_day_bounds :: "int \<Rightarrow> time \<times> time" where
  "business_day_bounds day = (days day - minutes 480, days (day + 1) - minutes 480)"

definition eligible_sales :: "sales_authorization option \<Rightarrow> bool" where
  "eligible_sales a = (case a of None \<Rightarrow> False | Some x \<Rightarrow> sa_is_active x \<and> \<not> sa_is_administrator x)"

definition received_demand :: "db \<Rightarrow> pstr \<Rightarrow> time \<Rightarrow> time \<Rightarrow> bool" where
  "received_demand d u day_start day_end =
     list_ex (\<lambda>m. im_sales_user_id m = u \<and> day_start \<le> im_received_at m \<and> im_received_at m < day_end \<and>
       list_ex (\<lambda>r. lr_message_id r = im_message_id m \<and>
           lr_status r \<in> set [''assigned'', ''unassigned'', ''quote_unresolved''])
         (lead_message_resolutions d))
       (incoming_messages d)"

definition unsubmitted :: "db \<Rightarrow> pstr \<Rightarrow> lead \<Rightarrow> bool" where
  "unsubmitted d u l = (ld_smart_table_owner_user_id l = u \<and>
     ld_lifecycle_state l \<in> set UNSUBMITTED_LEAD_STATES \<and>
     (case latest_crm_create_sync d (ld_id l) of None \<Rightarrow> True
      | Some s \<Rightarrow> cs_status s \<notin> set [''succeeded'', ''abandoned'']))"

definition unsubmitted_lead_count :: "db \<Rightarrow> pstr \<Rightarrow> time \<Rightarrow> time \<Rightarrow> nat" where
  "unsubmitted_lead_count d u day_start day_end =
     (if received_demand d u day_start day_end then length (filter (unsubmitted d u) (leads d)) else 0)"

definition daily_reminder_is_current :: "env \<Rightarrow> time \<Rightarrow> pstr \<Rightarrow> pyval \<Rightarrow> db \<Rightarrow> bool" where
  "daily_reminder_is_current env now u business_date d =
     (case business_date of
        PStr s \<Rightarrow>
          (case e_date_from_iso env s of
             None \<Rightarrow> False
           | Some day \<Rightarrow>
               if day \<noteq> shanghai_day now then False
               else if \<not> eligible_sales (get_actor d u) then False
               else case business_day_bounds (shanghai_day now) of (day_start, day_end) \<Rightarrow>
                 0 < unsubmitted_lead_count d u day_start day_end)
      | _ \<Rightarrow> False)"

definition reminder_key :: "env \<Rightarrow> pstr \<Rightarrow> int \<Rightarrow> pstr" where
  "reminder_key env u day = e_sha256 env (asc ''daily_unsubmitted_leads:'' @ u @ asc '':'' @ e_date_iso env day)"

definition reminder_notice :: "env \<Rightarrow> pstr \<Rightarrow> int \<Rightarrow> nat \<Rightarrow> time \<Rightarrow> notification_record" where
  "reminder_notice env u day lead_count now =
     (blank_notice (reminder_key env u day) u (reminder_key env u day) ''daily_unsubmitted_lead_reminder'' now)
       \<lparr>nr_content := Some n_daily,
        nr_payload := Some [(asc ''msgtype'', PStr (asc ''markdown'')),
          (asc ''markdown'', PDict [(asc ''content'', PStr n_daily)]),
          (asc ''business_date'', PStr (e_date_iso env day)), (asc ''lead_count'', PInt (int lead_count))]\<rparr>"

definition remind_one :: "env \<Rightarrow> time \<Rightarrow> pstr \<Rightarrow> db \<Rightarrow> nat \<times> db" where
  "remind_one env now u d =
     (let day = shanghai_day now
      in case business_day_bounds day of (day_start, day_end) \<Rightarrow>
           let lead_count = unsubmitted_lead_count d u day_start day_end
           in if \<not> eligible_sales (get_actor d u) \<or> lead_count = 0 then (0, d)
              else if get_notice d (reminder_key env u day) \<noteq> None then (0, d)
              else (1, d\<lparr>notification_records :=
                     tadd (reminder_notice env u day lead_count now) (notification_records d)\<rparr>))"

fun remind_all :: "env \<Rightarrow> time \<Rightarrow> pstr list \<Rightarrow> db \<Rightarrow> nat \<times> db" where
  "remind_all env now [] d = (0, d)"
| "remind_all env now (u # us) d =
     (case remind_one env now u d of (n, d1) \<Rightarrow> case remind_all env now us d1 of (k, d2) \<Rightarrow> (n + k, d2))"

definition reminder_candidates :: "db \<Rightarrow> pstr list" where
  "reminder_candidates d =
     dedup (map sa_wecom_user_id (filter (\<lambda>a. sa_is_active a \<and> \<not> sa_is_administrator a \<and>
       list_ex (\<lambda>l. ld_smart_table_owner_user_id l = sa_wecom_user_id a \<and>
         ld_lifecycle_state l \<in> set UNSUBMITTED_LEAD_STATES) (leads d)) (sales_authorizations d)))"

definition schedule_due_reminders :: "env \<Rightarrow> time \<Rightarrow> db \<Rightarrow> nat \<times> db" where
  "schedule_due_reminders env now d =
     (if shanghai_clock now < minutes 1200 then (0, d)
      else remind_all env now (reminder_candidates d) d)"

section \<open>Correctness\<close>

text \<open>Queueing reminders only appends notifications, which the eligibility of a user does not read.\<close>

lemma unsubmitted_frame [simp]:
  "latest_crm_create_sync (d\<lparr>notification_records := ns\<rparr>) l = latest_crm_create_sync d l"
  "unsubmitted (d\<lparr>notification_records := ns\<rparr>) u = unsubmitted d u"
  "unsubmitted_lead_count (d\<lparr>notification_records := ns\<rparr>) u a b = unsubmitted_lead_count d u a b"
  "reminder_candidates (d\<lparr>notification_records := ns\<rparr>) = reminder_candidates d"
proof -
  show 1: "latest_crm_create_sync (d\<lparr>notification_records := ns\<rparr>) l = latest_crm_create_sync d l" for l
    by (simp add: latest_crm_create_sync_def)
  show 2: "unsubmitted (d\<lparr>notification_records := ns\<rparr>) u = unsubmitted d u"
    by (simp add: unsubmitted_def fun_eq_iff 1)
  show "unsubmitted_lead_count (d\<lparr>notification_records := ns\<rparr>) u a b = unsubmitted_lead_count d u a b"
    by (simp add: unsubmitted_lead_count_def received_demand_def 2)
  show "reminder_candidates (d\<lparr>notification_records := ns\<rparr>) = reminder_candidates d"
    by (simp add: reminder_candidates_def)
qed

definition due_today :: "time \<Rightarrow> pstr \<Rightarrow> db \<Rightarrow> nat" where
  "due_today now u d = (case business_day_bounds (shanghai_day now) of (a, b) \<Rightarrow> unsubmitted_lead_count d u a b)"

lemma due_today_frame [simp]: "due_today now u (d\<lparr>notification_records := ns\<rparr>) = due_today now u d"
  by (simp add: due_today_def business_day_bounds_def)

definition served :: "env \<Rightarrow> time \<Rightarrow> pstr \<Rightarrow> db \<Rightarrow> bool" where
  "served env now u d = (\<not> eligible_sales (get_actor d u) \<or> due_today now u d = 0 \<or>
     get_notice d (reminder_key env u (shanghai_day now)) \<noteq> None)"

lemma remind_one_cases:
  "remind_one env now u d =
     (if served env now u d then (0, d)
      else (1, d\<lparr>notification_records :=
        notification_records d @ [reminder_notice env u (shanghai_day now) (due_today now u d) now]\<rparr>))"
  by (auto simp: remind_one_def served_def due_today_def Let_def tadd_def split: prod.splits)

lemma reminder_notice_fields [simp]:
  "nr_notification_key (reminder_notice env u day k now) = reminder_key env u day"
  "nr_sales_user_id (reminder_notice env u day k now) = u"
  by (simp_all add: reminder_notice_def blank_notice_def)

lemma served_append: "served env now u d \<Longrightarrow> served env now u (d\<lparr>notification_records := notification_records d @ ns\<rparr>)"
  by (auto simp: served_def tget_append split: option.splits)

lemma remind_one_serves: "served env now u (snd (remind_one env now u d))"
  by (auto simp: remind_one_cases served_def tget_append split: option.splits)

text \<open>What one run does, by induction on the users: it appends notices, all of them justified, and every user is served.\<close>

definition justified :: "env \<Rightarrow> time \<Rightarrow> db \<Rightarrow> notification_record \<Rightarrow> bool" where
  "justified env now d x = (\<exists>u. eligible_sales (get_actor d u) \<and> 0 < due_today now u d \<and>
     x = reminder_notice env u (shanghai_day now) (due_today now u d) now)"

lemma remind_all_effect:
  "remind_all env now us d = (n, d') \<Longrightarrow>
   \<exists>ns. d' = d\<lparr>notification_records := notification_records d @ ns\<rparr> \<and> n = length ns \<and>
     list_all (justified env now d) ns \<and> (\<forall>u\<in>set us. served env now u d')"
proof (induction us arbitrary: d n d')
  case Nil
  then show ?case by (intro exI [of _ "[]"]) simp
next
  case (Cons u us)
  obtain k d1 where one: "remind_one env now u d = (k, d1)" by (cases "remind_one env now u d")
  obtain m where rest: "remind_all env now us d1 = (m, d')" and n: "n = k + m"
    using Cons.prems one by (cases "remind_all env now us d1") auto
  from Cons.IH [OF rest] obtain ns where ns: "d' = d1\<lparr>notification_records := notification_records d1 @ ns\<rparr>"
    "m = length ns" "list_all (justified env now d1) ns" "\<forall>u\<in>set us. served env now u d'" by blast
  obtain xs where xs: "d1 = d\<lparr>notification_records := notification_records d @ xs\<rparr>" "k = length xs"
    "list_all (justified env now d) xs"
  proof (cases "served env now u d")
    case True
    with one that [of "[]"] show thesis by (simp add: remind_one_cases)
  next
    case False
    then have "justified env now d (reminder_notice env u (shanghai_day now) (due_today now u d) now)"
      by (auto simp: justified_def served_def)
    with False one show thesis
      by (intro that [of "[reminder_notice env u (shanghai_day now) (due_today now u d) now]"])
        (auto simp: remind_one_cases)
  qed
  have same: "justified env now d1 = justified env now d" by (simp add: xs(1) justified_def fun_eq_iff)
  have "served env now u d1" using remind_one_serves [of env now u d] one by simp
  then have "served env now u d'" unfolding ns(1) by (rule served_append)
  then show ?case
    using xs ns n same by (intro exI [of _ "xs @ ns"]) (simp add: xs(1))
qed

lemma remind_all_served: "\<forall>u\<in>set us. served env now u d \<Longrightarrow> remind_all env now us d = (0, d)"
  by (induction us) (simp_all add: remind_one_cases)

text \<open>
  At most one reminder per salesperson and day: once a run of the evening scan has finished,
  any later run on the same Shanghai day (by a retried or concurrent task) queues nothing and
  changes nothing.
\<close>

theorem reminder_once_per_day:
  assumes "schedule_due_reminders env now d = (n, d')" and "shanghai_clock now \<ge> minutes 1200"
    and "shanghai_day now' = shanghai_day now"
  shows "schedule_due_reminders env now' d' = (0, d')"
proof -
  from assms(1,2) have "remind_all env now (reminder_candidates d) d = (n, d')"
    by (simp add: schedule_due_reminders_def)
  from remind_all_effect [OF this] obtain ns where
    ns: "d' = d\<lparr>notification_records := notification_records d @ ns\<rparr>" "\<forall>u\<in>set (reminder_candidates d). served env now u d'"
    by blast
  have "served env now' = served env now" using assms(3) by (simp add: fun_eq_iff served_def due_today_def)
  moreover have "reminder_candidates d' = reminder_candidates d" by (simp add: ns(1))
  ultimately have "remind_all env now' (reminder_candidates d') d' = (0, d')"
    using ns(2) by (intro remind_all_served) simp
  then show ?thesis by (simp add: schedule_due_reminders_def)
qed

text \<open>A salesperson with one captured lead, and a message of the day that was assigned to it.\<close>

definition evening :: time where
  "evening = minutes 720"

definition reminder_db :: db where
  "reminder_db = lead_db\<lparr>incoming_messages := [new_message hello 1 0],
     lead_message_resolutions := [\<lparr>lr_message_id = asc ''m1'', lr_segment_index = 0,
       lr_lead_id = Some (asc ''L''), lr_status = ''assigned''\<rparr>]\<rparr>"

lemma evening_day: "shanghai_day evening = 0" "shanghai_clock evening = minutes 1200"
  "shanghai_day (evening + 60) = 0"
  by (simp_all add: evening_def shanghai_day_def shanghai_clock_def minutes_def days_def)

lemma reminder_db_run:
  "schedule_due_reminders plain_env evening reminder_db =
     (1, reminder_db\<lparr>notification_records := [reminder_notice plain_env (asc ''amy'') 0 1 evening]\<rparr>)"
  by (simp add: schedule_due_reminders_def evening_day remind_one_def reminder_candidates_def reminder_db_def lead_db_def
      lead_row_def new_actor_def empty_db_def UNSUBMITTED_LEAD_STATES_def unsubmitted_lead_count_def received_demand_def
      business_day_bounds_def unsubmitted_def latest_crm_create_sync_def eligible_sales_def new_message_def hello_def
      minutes_def days_def tadd_def)

theorem reminder_once_per_day_witness:
  "\<exists>d'. schedule_due_reminders plain_env evening reminder_db = (1, d') \<and>
     schedule_due_reminders plain_env (evening + 60) d' = (0, d')"
proof -
  have "shanghai_clock evening \<ge> minutes 1200" "shanghai_day (evening + 60) = shanghai_day evening"
    by (simp_all add: evening_day)
  from reminder_once_per_day [OF reminder_db_run this] reminder_db_run show ?thesis by blast
qed

text \<open>
  Reminders are justified and survive the check before sending: a run that queues anything happens
  after 20:00 Shanghai time, and each queued notice goes to an active salesperson who is no
  administrator and has an unsubmitted lead; whenever the date codec round-trips, the check the
  sender makes accepts the notice for the rest of the day on the same facts.
\<close>

theorem reminders_justified:
  assumes "schedule_due_reminders env now d = (n, d')" and "x \<in> set (notification_records d')"
    and "x \<notin> set (notification_records d)"
    and "e_date_from_iso env (e_date_iso env (shanghai_day now)) = Some (shanghai_day now)"
    and "shanghai_day now' = shanghai_day now"
  shows "shanghai_clock now \<ge> minutes 1200 \<and> eligible_sales (get_actor d (nr_sales_user_id x)) \<and>
    (\<exists>l\<in>set (leads d). unsubmitted d (nr_sales_user_id x) l) \<and>
    daily_reminder_is_current env now' (nr_sales_user_id x)
      (py_get (asc ''business_date'') (the_default [] (nr_payload x))) d'"
proof -
  have late: "shanghai_clock now \<ge> minutes 1200"
    using assms(1-3) by (auto simp: schedule_due_reminders_def split: if_splits)
  with assms(1) have "remind_all env now (reminder_candidates d) d = (n, d')"
    by (simp add: schedule_due_reminders_def)
  from remind_all_effect [OF this] obtain ns where
    ns: "d' = d\<lparr>notification_records := notification_records d @ ns\<rparr>" "list_all (justified env now d) ns" by blast
  have "x \<in> set ns" using assms(2,3) ns(1) by auto
  with ns(2) have "justified env now d x" by (simp add: list_all_iff)
  then obtain u where u: "eligible_sales (get_actor d u)" "0 < due_today now u d"
    "x = reminder_notice env u (shanghai_day now) (due_today now u d) now" by (auto simp: justified_def)
  have date: "py_get (asc ''business_date'') (the_default [] (nr_payload x)) = PStr (e_date_iso env (shanghai_day now))"
    by (simp add: u(3) reminder_notice_def py_get_def dget_def)
  have "\<exists>l\<in>set (leads d). unsubmitted d u l"
    using u(2) by (auto simp: due_today_def unsubmitted_lead_count_def business_day_bounds_def filter_empty_conv split: if_splits)
  moreover have "daily_reminder_is_current env now' u (PStr (e_date_iso env (shanghai_day now))) d'"
    using u(1,2) assms(4,5) ns(1) by (simp add: daily_reminder_is_current_def due_today_def split: prod.splits)
  ultimately show ?thesis using late u date by simp
qed

theorem reminders_justified_witness:
  "\<exists>d' x. schedule_due_reminders plain_env evening reminder_db = (1, d') \<and> x \<in> set (notification_records d') \<and>
     daily_reminder_is_current plain_env (evening + 60) (nr_sales_user_id x)
       (py_get (asc ''business_date'') (the_default [] (nr_payload x))) d'"
proof -
  let ?x = "reminder_notice plain_env (asc ''amy'') 0 1 evening"
  let ?d = "reminder_db\<lparr>notification_records := [?x]\<rparr>"
  have "?x \<in> set (notification_records ?d)" by simp
  moreover have "?x \<notin> set (notification_records reminder_db)" by (simp add: reminder_db_def lead_db_def empty_db_def)
  moreover have "e_date_from_iso plain_env (e_date_iso plain_env (shanghai_day evening)) = Some (shanghai_day evening)"
    unfolding evening_day by code_simp
  moreover have "shanghai_day (evening + 60) = shanghai_day evening" by (simp add: evening_day)
  ultimately show ?thesis using reminders_justified [OF reminder_db_run] reminder_db_run by blast
qed

end
