(* ===== verification/Outbound.thy ===== *)
theory Outbound
  imports Reminders Interfaces
begin

text \<open>
  \<^verbatim>\<open>app/notifications/outbound.py\<close>: the sender of queued notifications. It selects the deliverable rows, claims
  each under a fresh token and a lease, builds the message, sends it, and settles the row if the claim
  still stands. The client of the messaging service is a parameter; because other workers run while
  the send is awaited, the client also returns the database the sender finds afterwards. One clock
  reading serves a whole pass, and the claim tokens (\<^verbatim>\<open>uuid4\<close>) are an argument.
\<close>

type_synonym 'w message_client = "pstr \<Rightarrow> pyval \<Rightarrow> db \<Rightarrow> 'w \<Rightarrow> (exn + unit) \<times> db \<times> 'w"

definition NOTIFICATION_LEASE :: time where
  "NOTIFICATION_LEASE = minutes 5"

definition RECEIPT_TERMINAL_OUTBOX_STATUSES :: "string list" where
  "RECEIPT_TERMINAL_OUTBOX_STATUSES =
     [''succeeded'', ''ignored'', ''unauthorized'', ''invalid'', ''failed_pending_review'']"

definition SUPPORTED_NOTIFICATION_TYPES :: "string list" where
  "SUPPORTED_NOTIFICATION_TYPES =
     [''lead_intake_receipt'', ''lead_progress_summary'', ''daily_unsubmitted_lead_reminder'',
      ''lead_first_smart_table_success'', ''crm_submission_summary'', ''crm_submission_retry_summary'',
      ''crm_submission_selection'', ''crm_submission_preview'', ''crm_submission_table_link'',
      ''crm_submission_intent_unrecognized'', ''lead_processing_failed'', ''wecom_action_preview'',
      ''sales_authorization_denied'', ''media_text_input_required'', ''wecom_action_card'',
      ''wecom_action_result'']"

definition NON_RETRYABLE_PROVIDER_CODES :: "pstr list" where
  "NON_RETRYABLE_PROVIDER_CODES = map (\<lambda>code. asc ''420'' @ digits_of code) [27..<52]"

section \<open>Row operations\<close>

definition claimable_notice :: "time \<Rightarrow> notification_record \<Rightarrow> bool" where
  "claimable_notice now n = (nr_status n \<in> set [''pending'', ''retrying''] \<or>
     (nr_status n = ''processing'' \<and>
      (case nr_processing_lease_expires_at n of None \<Rightarrow> False | Some e \<Rightarrow> e \<le> now)))"

definition release_notice :: "notification_record \<Rightarrow> notification_record" where
  "release_notice n = n\<lparr>nr_processing_started_at := None, nr_processing_lease_expires_at := None,
     nr_processing_claim_token := None\<rparr>"

definition suppress_notice :: "notification_record \<Rightarrow> notification_record" where
  "suppress_notice n = release_notice (n\<lparr>nr_status := ''suppressed''\<rparr>)"

definition claim_notice :: "time \<Rightarrow> pstr \<Rightarrow> notification_record \<Rightarrow> notification_record" where
  "claim_notice now tk n = n\<lparr>nr_status := ''processing'', nr_processing_started_at := Some now,
     nr_processing_lease_expires_at := Some (now + NOTIFICATION_LEASE), nr_processing_claim_token := Some tk\<rparr>"

datatype send_outcome =
    Sent time
  | Send_Failed bool
  | Receipt_Suppressed "(string \<times> nat) list"

definition counts_value :: "(string \<times> nat) list \<Rightarrow> pyval" where
  "counts_value counts = PDict (map (\<lambda>(c, k). (asc c, PInt (int k))) counts)"

definition settle_notice :: "pstr \<Rightarrow> send_outcome \<Rightarrow> notification_record \<Rightarrow> notification_record" where
  "settle_notice tk out n =
     (if nr_processing_claim_token n \<noteq> Some tk then n
      else case out of
        Sent now \<Rightarrow> (release_notice n)\<lparr>nr_status := ''succeeded'', nr_attempts := nr_attempts n + 1, nr_sent_at := Some now\<rparr>
      | Send_Failed retryable \<Rightarrow>
          (release_notice n)\<lparr>nr_status := (if retryable then ''retrying'' else ''failed''), nr_attempts := nr_attempts n + 1\<rparr>
      | Receipt_Suppressed counts \<Rightarrow>
          (suppress_notice n)\<lparr>nr_payload := Some (dset (asc ''receipt_outcome_counts'') (counts_value counts)
             (dset (asc ''suppression_reason'') (PStr (asc ''all_failed_messages_have_independent_failure_notice''))
               (the_default [] (nr_payload n))))\<rparr>)"

section \<open>Dependencies\<close>

definition iter_values :: "pyval \<Rightarrow> pyval list option" where
  "iter_values v = (case v of PList xs \<Rightarrow> Some xs | PStr s \<Rightarrow> Some (map (\<lambda>c. PStr [c]) s)
     | PDict d \<Rightarrow> Some (map (\<lambda>(k, _). PStr k) d) | _ \<Rightarrow> None)"

fun dependency_open :: "db \<Rightarrow> notification_record \<Rightarrow> pyval list \<Rightarrow> bool res" where
  "dependency_open d n [] = Inr False"
| "dependency_open d n (v # vs) =
     (case v of
        PStr k \<Rightarrow>
          (case get_notice d k of
             None \<Rightarrow> Inr True
           | Some x \<Rightarrow> if nr_sales_user_id x \<noteq> nr_sales_user_id n \<or> nr_status x \<noteq> ''succeeded'' then Inr True
                       else dependency_open d n vs)
      | PNone \<Rightarrow> Inr True
      | PBool _ \<Rightarrow> Inl (RuntimeError ''database'')
      | PInt _ \<Rightarrow> Inl (RuntimeError ''database'')
      | _ \<Rightarrow> Inl (TypeError ''unhashable''))"

definition delivery_blocked :: "db \<Rightarrow> notification_record \<Rightarrow> bool res" where
  "delivery_blocked d n =
     (let metadata = the_default [] (nr_payload n);
          dependencies = the_default (PList []) (dget (asc ''depends_on'') metadata)
      in if py_truthy (py_get (asc ''delivery_pending'') metadata) then Inr True
         else case iter_values dependencies of
           None \<Rightarrow> Inl (TypeError ''not iterable'')
         | Some vs \<Rightarrow> dependency_open d n vs)"

definition receipt_is_deferred :: "env \<Rightarrow> fields option \<Rightarrow> time \<Rightarrow> bool" where
  "receipt_is_deferred env payload now =
     (case receipt_deadline env (the_default [] payload) of None \<Rightarrow> False | Some deadline \<Rightarrow> now < deadline)"

text \<open>
  The claiming transaction: no result when the row is not to be sent now; otherwise recipient, content and
  payload of the claimed row.
\<close>

definition claim_pending ::
  "env \<Rightarrow> settings \<Rightarrow> time \<Rightarrow> pstr \<Rightarrow> pstr \<Rightarrow> db \<Rightarrow> ((pstr \<times> pstr option \<times> fields option) option \<times> db) res" where
  "claim_pending env s now tk k d =
     (case get_notice d k of
        None \<Rightarrow> Inr (None, d)
      | Some n \<Rightarrow>
          if \<not> claimable_notice now n then Inr (None, d)
          else case delivery_blocked d n of
            Inl e \<Rightarrow> Inl e
          | Inr True \<Rightarrow> Inr (None, d)
          | Inr False \<Rightarrow>
              if nr_notification_type n = ''lead_progress_summary'' \<and>
                 (\<not> lead_progress_enabled s \<or>
                  (case get_actor d (nr_sales_user_id n) of None \<Rightarrow> True | Some a \<Rightarrow> \<not> sa_is_active a))
              then Inr (None, upd_notice k suppress_notice d)
              else if nr_notification_type n = ''daily_unsubmitted_lead_reminder'' \<and>
                 \<not> daily_reminder_is_current env now (nr_sales_user_id n)
                     (py_get (asc ''business_date'') (the_default [] (nr_payload n))) d
              then Inr (None, upd_notice k suppress_notice d)
              else if nr_notification_type n = ''lead_intake_receipt'' \<and> receipt_is_deferred env (nr_payload n) now
              then Inr (None, d)
              else Inr (Some (nr_sales_user_id n, nr_content n, nr_payload n),
                     upd_notice k (claim_notice now tk) d))"

section \<open>The receipt text\<close>

definition receipt_event :: "db \<Rightarrow> pstr \<Rightarrow> pstr \<Rightarrow> outbox_event option" where
  "receipt_event d u m = find (\<lambda>e. ob_message_id e = m \<and> ob_sales_user_id e = u \<and> ob_event_type e = ''message_received'')
     (rev (outbox_events d))"

definition segment_recorded :: "db \<Rightarrow> pstr \<Rightarrow> lead_message_resolution \<Rightarrow> bool" where
  "segment_recorded d m r =
     (case (lr_lead_id r, find (\<lambda>s. ss_source_message_id s = m \<and> ss_source_segment_index s = lr_segment_index r)
         (rev (smart_table_syncs d))) of
        (Some i, Some sync) \<Rightarrow>
          ss_status sync = ''succeeded'' \<and> ss_smart_table_record_id sync \<notin> {None, Some []} \<and> i \<noteq> [] \<and>
          (case get_lead d i of None \<Rightarrow> False
           | Some l \<Rightarrow> ld_smart_table_record_id l = ss_smart_table_record_id sync)
      | _ \<Rightarrow> False)"

definition failure_notified :: "db \<Rightarrow> pstr \<Rightarrow> pstr \<Rightarrow> bool" where
  "failure_notified d u m = list_ex (\<lambda>n. nr_sales_user_id n = u \<and> nr_source_message_id n = m \<and>
     nr_notification_type n = ''lead_processing_failed'' \<and>
     nr_status n \<in> set [''pending'', ''processing'', ''retrying'', ''succeeded'']) (notification_records d)"

definition receipt_category :: "db \<Rightarrow> pstr \<Rightarrow> pstr \<Rightarrow> string" where
  "receipt_category d u m =
     (case receipt_event d u m of
        None \<Rightarrow> ''unknown''
      | Some e \<Rightarrow>
          if ob_status e \<in> set [''pending'', ''processing''] then ''processing''
          else if ob_status e = ''retrying'' then ''retrying''
          else if ob_status e \<in> set RECEIPT_TERMINAL_OUTBOX_STATUSES
          then (let rs = filter (\<lambda>r. lr_message_id r = m) (lead_message_resolutions d);
                    states = map lr_status rs;
                    assigned = filter (\<lambda>r. lr_status r = ''assigned'') rs
                in if ob_status e = ''failed_pending_review''
                   then (if failure_notified d u m then ''failed_notified'' else ''failed'')
                   else if ob_status e = ''ignored'' then ''ignored''
                   else if ob_status e = ''succeeded'' \<and> (''unassigned'' \<in> set states \<or> ''quote_unresolved'' \<in> set states)
                   then ''unassigned''
                   else if ob_status e = ''succeeded'' \<and> ''assigned'' \<in> set states
                   then (if assigned \<noteq> [] \<and> list_all (segment_recorded d m) assigned then ''recorded'' else ''completed'')
                   else ''finished'')
          else ''unknown'')"

text \<open>The categories that leave \<^verbatim>\<open>all_finished\<close> true.\<close>

definition receipt_finished :: "string \<Rightarrow> bool" where
  "receipt_finished c = (c \<notin> set [''unknown'', ''processing'', ''retrying''])"

definition receipt_counts :: "string list \<Rightarrow> (string \<times> nat) list" where
  "receipt_counts cs = foldl (\<lambda>acc c. dset c (the_default 0 (dget c acc) + 1) acc) [] cs"

definition receipt_label :: "string \<Rightarrow> pstr" where
  "receipt_label c =
     (if c = ''processing'' then l_processing else if c = ''recorded'' then l_recorded
      else if c = ''completed'' then l_completed else if c = ''unassigned'' then l_unassigned
      else if c = ''retrying'' then l_retrying else if c = ''failed'' then l_failed
      else if c = ''failed_notified'' then l_failed_notified else if c = ''ignored'' then l_ignored
      else if c = ''finished'' then l_finished else l_unknown)"

definition receipt_ids :: "pstr \<Rightarrow> fields option \<Rightarrow> pstr list" where
  "receipt_ids source payload =
     (let ids = (case payload of None \<Rightarrow> [] | Some p \<Rightarrow> receipt_message_ids p) in if ids = [] then [source] else ids)"

definition receipt_content ::
  "db \<Rightarrow> pstr \<Rightarrow> pstr \<Rightarrow> fields option \<Rightarrow> pstr \<times> (string \<times> nat) list \<times> bool" where
  "receipt_content d u source payload =
     (let ids = receipt_ids source payload;
          categories = map (receipt_category d u) ids;
          counts = receipt_counts categories;
          count = length ids
      in if counts = [(''processing'', count)] then (receipt_text count, counts, False)
         else if list_all receipt_finished categories \<and> counts = [(''failed_notified'', count)] then ([], counts, True)
         else (n_received_a @ digits_of count @ n_received_c @
                 py_join [0xFF0C] (map (\<lambda>(c, k). digits_of k @ n_item @ receipt_label c) (filter (\<lambda>(_, k). k \<noteq> 0) counts)) @ [0x3002],
               counts, False))"

section \<open>The message body\<close>

definition markdown_body :: "pstr \<Rightarrow> pyval" where
  "markdown_body content = PDict [(asc ''msgtype'', PStr (asc ''markdown'')),
     (asc ''markdown'', PDict [(asc ''content'', PStr content)])]"

definition text_content :: "pyval \<Rightarrow> pstr option" where
  "text_content v = (case v of PDict f \<Rightarrow> (case py_get (asc ''content'') f of PStr s \<Rightarrow> Some s | _ \<Rightarrow> None) | _ \<Rightarrow> None)"

definition key_error :: exn where
  "key_error = (plain_exn (asc ''KeyError'') [C_LookupError])\<lparr>ex_text := [0x27] @ asc ''template_card'' @ [0x27]\<rparr>"

definition build_supported_body :: "fields option \<Rightarrow> pstr option \<Rightarrow> exn + pyval" where
  "build_supported_body payload content =
     (let fallback = markdown_body (if content \<in> {None, Some []} then n_system else the content);
          p = the_default [] payload;
          msgtype = py_get (asc ''msgtype'') p
      in if msgtype = PStr (asc ''template_card'')
         then (case dget (asc ''template_card'') p of
                 None \<Rightarrow> Inl key_error
               | Some v \<Rightarrow> Inr (PDict [(asc ''msgtype'', msgtype), (asc ''template_card'', v)]))
         else if msgtype = PStr (asc ''markdown'') \<and> text_content (py_get (asc ''markdown'') p) \<noteq> None
         then Inr (PDict [(asc ''msgtype'', msgtype), (asc ''markdown'', py_get (asc ''markdown'') p)])
         else if msgtype = PStr (asc ''text'')
         then (case text_content (py_get (asc ''text'') p) of Some s \<Rightarrow> Inr (markdown_body s) | None \<Rightarrow> Inr fallback)
         else Inr fallback)"

definition SDK_ERROR_CODE :: re where
  "SDK_ERROR_CODE = Cat (lit_re (asc ''errcode='')) (Grp 1 (plus_re (Cls py_isdecimal)))"

definition provider_error_code :: "exn \<Rightarrow> pstr option" where
  "provider_error_code e = (case re_search SDK_ERROR_CODE (ex_text e) of None \<Rightarrow> None | Some g \<Rightarrow> re_group 1 g)"

definition send_retryable :: "exn \<Rightarrow> bool" where
  "send_retryable e = (case provider_error_code e of None \<Rightarrow> True | Some c \<Rightarrow> c \<notin> set NON_RETRYABLE_PROVIDER_CODES)"

section \<open>Sending\<close>

definition notice_body ::
  "db \<Rightarrow> notification_record \<Rightarrow> pstr \<times> pstr option \<times> fields option \<Rightarrow> (string \<times> nat) list + (exn + pyval)" where
  "notice_body d n claimed = (case claimed of (u, content, payload) \<Rightarrow>
     (case (if nr_notification_type n = ''lead_intake_receipt''
            then (case receipt_content d u (nr_source_message_id n) payload of
                    (text, counts, suppressed) \<Rightarrow> if suppressed then Inl counts else Inr (Some text))
            else Inr content) of
        Inl counts \<Rightarrow> Inl counts
      | Inr content' \<Rightarrow>
          Inr (if nr_notification_type n = ''daily_unsubmitted_lead_reminder'' then Inr (markdown_body n_daily)
               else build_supported_body payload content')))"

definition send_one ::
  "env \<Rightarrow> settings \<Rightarrow> 'w message_client \<Rightarrow> time \<Rightarrow> pstr \<Rightarrow> notification_record \<Rightarrow> db \<Rightarrow> 'w \<Rightarrow> (exc + nat) \<times> db \<times> 'w" where
  "send_one env s client now tk n d w =
     (let k = nr_notification_key n
      in case claim_pending env s now tk k d of
           Inl e \<Rightarrow> (Inl e, d, w)
         | Inr (None, d1) \<Rightarrow> (Inr 0, d1, w)
         | Inr (Some (u, content, payload), d1) \<Rightarrow>
             (case notice_body d1 n (u, content, payload) of
                Inl counts \<Rightarrow> (Inr 0, upd_notice k (settle_notice tk (Receipt_Suppressed counts)) d1, w)
              | Inr (Inl e) \<Rightarrow> (Inr 0, upd_notice k (settle_notice tk (Send_Failed (send_retryable e))) d1, w)
              | Inr (Inr body) \<Rightarrow>
                  (case client u body d1 w of
                     (Inl e, d2, w2) \<Rightarrow> (Inr 0, upd_notice k (settle_notice tk (Send_Failed (send_retryable e))) d2, w2)
                   | (Inr _, d2, w2) \<Rightarrow> (Inr 1, upd_notice k (settle_notice tk (Sent now)) d2, w2))))"

fun send_all ::
  "env \<Rightarrow> settings \<Rightarrow> 'w message_client \<Rightarrow> time \<Rightarrow> (pstr \<Rightarrow> pstr) \<Rightarrow> notification_record list \<Rightarrow> db \<Rightarrow> 'w \<Rightarrow> (exc + nat) \<times> db \<times> 'w" where
  "send_all env s client now tok [] d w = (Inr 0, d, w)"
| "send_all env s client now tok (n # ns) d w =
     (case send_one env s client now (tok (nr_notification_key n)) n d w of
        (Inl e, d1, w1) \<Rightarrow> (Inl e, d1, w1)
      | (Inr k, d1, w1) \<Rightarrow>
          (case send_all env s client now tok ns d1 w1 of
             (Inl e, d2, w2) \<Rightarrow> (Inl e, d2, w2)
           | (Inr m, d2, w2) \<Rightarrow> (Inr (k + m), d2, w2)))"

definition pending_notices :: "env \<Rightarrow> time \<Rightarrow> db \<Rightarrow> notification_record list" where
  "pending_notices env now d =
     sort_key nr_created_at (sort_key (\<lambda>n. e_collation env (nr_notification_key n))
       (filter (\<lambda>n. nr_notification_type n \<in> set SUPPORTED_NOTIFICATION_TYPES \<and> claimable_notice now n)
         (notification_records d)))"

definition send_pending_once ::
  "env \<Rightarrow> settings \<Rightarrow> 'w message_client \<Rightarrow> time \<Rightarrow> (pstr \<Rightarrow> pstr) \<Rightarrow> db \<Rightarrow> 'w \<Rightarrow> (exc + nat) \<times> db \<times> 'w" where
  "send_pending_once env s client now tok d w = send_all env s client now tok (pending_notices env now d) d w"

section \<open>Correctness\<close>

text \<open>The claim token fences a notification row.\<close>

interpretation notice_lease: fenced_lease claimable_notice claim_notice
  "\<lambda>tk n. nr_processing_claim_token n = Some tk" settle_notice
  by unfold_locales
    (auto simp: claim_notice_def settle_notice_def release_notice_def suppress_notice_def split: send_outcome.splits)

definition notice_step :: "(pstr, send_outcome) lease_event \<Rightarrow> notification_record \<Rightarrow> notification_record" where
  "notice_step e n = (case e of
     Try_Claim now tk \<Rightarrow> if claimable_notice now n then claim_notice now tk n else n
   | Settle tk out \<Rightarrow> settle_notice tk out n)"

lemma notice_run: "fold notice_step es n = notice_lease.lease_run es n"
proof -
  have "notice_step = notice_lease.lease_step"
    by (auto simp: fun_eq_iff notice_step_def notice_lease.lease_step_def split: lease_event.splits)
  then show ?thesis by (simp add: notice_lease.lease_run_def)
qed

lemma notice_key_simps [simp]:
  "nr_notification_key (claim_notice now tk n) = nr_notification_key n"
  "nr_notification_key (suppress_notice n) = nr_notification_key n"
  "nr_notification_key (settle_notice tk out n) = nr_notification_key n"
  by (auto simp: claim_notice_def suppress_notice_def release_notice_def settle_notice_def split: send_outcome.splits)

lemma tupd_fixpoint:
  assumes "tget key k t = Some r" and "distinct (map key t)" and "f r = r"
  shows "tupd key k f t = t"
proof -
  have "x = r" if "x \<in> set t" "key x = k" for x
    using that assms(1,2) tget_unique by fastforce
  with assms(3) show ?thesis unfolding tupd_def by (intro map_idI) auto
qed

text \<open>
  C33. A sender that lost its claim has no effect: if, while its message is on the way, the lease runs out and
  another sender claims the notification, then whatever the senders do afterwards (short of the
  first one claiming again), the first sender's late result leaves the database as it finds it,
  whether the send succeeded or failed.
\<close>

theorem superseded_send_no_effect:
  assumes "claim_pending env s now tk (nr_notification_key n) d = Inr (Some c, d1)"
    and "notice_body d1 n c = Inr (Inr body)"
    and "client (fst c) body d1 w = (r, d2, w2)"
    and "distinct (map nr_notification_key (notification_records d2))"
    and "get_notice d2 (nr_notification_key n) = Some (fold notice_step es (claim_notice now' tk' m))"
    and "claimable_notice now' m" and "tk' \<noteq> tk" and "tk \<notin> claims_of es"
  shows "snd (send_one env s client now tk n d w) = (d2, w2)"
proof -
  have stale: "settle_notice tk out (fold notice_step es (claim_notice now' tk' m)) = fold notice_step es (claim_notice now' tk' m)" for out
    unfolding notice_run by (rule notice_lease.superseded_settle_dropped [OF assms(6-8)])
  have "upd_notice (nr_notification_key n) (settle_notice tk out) d2 = d2" for out
    using tupd_fixpoint [where f = "settle_notice tk out", OF assms(5,4) stale] by simp
  then show ?thesis
    using assms(1-3) by (cases c; cases r) (auto simp: send_one_def)
qed

lemma dependency_open_map:
  "dependency_open d n (map PStr ks) =
     Inr (list_ex (\<lambda>k. case get_notice d k of None \<Rightarrow> True
        | Some x \<Rightarrow> nr_sales_user_id x \<noteq> nr_sales_user_id n \<or> nr_status x \<noteq> ''succeeded'') ks)"
  by (induction ks) (auto split: option.splits)

text \<open>
  A notification waits for the ones it depends on: if any of its dependencies is missing, belongs to
  another recipient or has not been delivered, it is neither claimed nor sent, and nothing changes.
\<close>

theorem dependencies_before_send:
  assumes "get_notice d (nr_notification_key n) = Some n" and "nr_payload n = Some p"
    and "dget (asc ''depends_on'') p = Some (PList (map PStr ks))" and "k \<in> set ks"
    and "\<nexists>x. get_notice d k = Some x \<and> nr_sales_user_id x = nr_sales_user_id n \<and> nr_status x = ''succeeded''"
  shows "send_one env s client now tk n d w = (Inr 0, d, w)"
proof -
  have "list_ex (\<lambda>k. case get_notice d k of None \<Rightarrow> True
      | Some x \<Rightarrow> nr_sales_user_id x \<noteq> nr_sales_user_id n \<or> nr_status x \<noteq> ''succeeded'') ks"
    unfolding list_ex_iff using assms(4,5) by (intro bexI [of _ k]) (auto split: option.splits)
  then have "delivery_blocked d n = Inr True"
    using assms(2,3) by (simp add: delivery_blocked_def iter_values_def dependency_open_map Let_def)
  with assms(1) have "claim_pending env s now tk (nr_notification_key n) d = Inr (None, d)"
    by (simp add: claim_pending_def)
  then show ?thesis by (simp add: send_one_def)
qed

lemma claim_pending_other:
  assumes "claim_pending env s now tk k d = Inr (c, d1)" and "k' \<noteq> k"
  shows "get_notice d1 k' = get_notice d k'"
  using assms by (auto simp: claim_pending_def tget_tupd_other split: option.splits if_splits sum.splits bool.splits)

definition settled_status :: "string \<Rightarrow> bool" where
  "settled_status st = (st \<notin> set [''pending'', ''retrying'', ''processing''])"

text \<open>A client during whose sends nobody else touches the database.\<close>

definition quiet_client :: "'w message_client \<Rightarrow> bool" where
  "quiet_client client = (\<forall>u b d w. fst (snd (client u b d w)) = d)"

lemma quiet_clientD: "quiet_client client \<Longrightarrow> client u b d w = (r, d', w') \<Longrightarrow> d' = d"
  by (metis quiet_client_def fst_conv snd_conv)

lemma send_one_keeps_settled:
  assumes "quiet_client client" and "get_notice d k = Some m" and "settled_status (nr_status m)"
    and "send_one env s client now tk n d w = (r, d', w')"
  shows "get_notice d' k = Some m"
proof (cases "nr_notification_key n = k")
  case True
  with assms(2-4) show ?thesis
    by (auto simp: send_one_def claim_pending_def claimable_notice_def settled_status_def)
next
  case False
  have kept: "get_notice (upd_notice (nr_notification_key n) (settle_notice tk out) e) k = get_notice e k" for out e
    using False by (simp add: tget_tupd_other)
  show ?thesis
  proof (cases "claim_pending env s now tk (nr_notification_key n) d")
    case (Inl e)
    with assms(2,4) show ?thesis by (simp add: send_one_def)
  next
    case (Inr cd)
    obtain c d1 where cd: "cd = (c, d1)" by (cases cd)
    have d1: "get_notice d1 k = Some m"
      using claim_pending_other [of env s now tk _ d c d1 k] Inr cd False assms(2) by simp
    have "d' = d1 \<or> (\<exists>out. d' = upd_notice (nr_notification_key n) (settle_notice tk out) d1)"
      using assms(4) Inr cd
      by (auto simp: send_one_def Let_def dest!: quiet_clientD [OF assms(1)] split: option.splits sum.splits prod.splits)
    with d1 kept show ?thesis by auto
  qed
qed

lemma send_all_keeps_settled:
  assumes "quiet_client client" and "settled_status (nr_status m)"
  shows "get_notice d k = Some m \<Longrightarrow> send_all env s client now tok ns d w = (r, d', w') \<Longrightarrow> get_notice d' k = Some m"
proof (induction ns arbitrary: d w r d' w')
  case Nil
  then show ?case by simp
next
  case (Cons n ns)
  obtain x d1 w1 where one: "send_one env s client now (tok (nr_notification_key n)) n d w = (x, d1, w1)"
    by (metis prod_cases3)
  have d1: "get_notice d1 k = Some m"
    using send_one_keeps_settled [OF assms(1) Cons.prems(1) assms(2) one] .
  obtain y d2 w2 where rest: "send_all env s client now tok ns d1 w1 = (y, d2, w2)" by (metis prod_cases3)
  from Cons.IH [OF d1 rest] d1 Cons.prems(2) one rest show ?case by (auto split: sum.splits)
qed

text \<open>
  A settled notification is never sent or changed again: a pass of the sender, run alone, keeps every
  row that has succeeded, failed for good or been suppressed exactly as it is.
\<close>

theorem settled_notice_kept:
  assumes "quiet_client client"
    and "get_notice d k = Some m" and "nr_status m \<in> {''succeeded'', ''failed'', ''suppressed''}"
    and "send_pending_once env s client now tok d w = (r, d', w')"
  shows "get_notice d' k = Some m"
proof -
  have "settled_status (nr_status m)" using assms(3) by (auto simp: settled_status_def)
  from send_all_keeps_settled [OF assms(1) this assms(2)] assms(4) show ?thesis
    unfolding send_pending_once_def by blast
qed

lemma receipt_counts_snoc:
  "receipt_counts (cs @ [c]) = dset c (the_default 0 (dget c (receipt_counts cs)) + 1) (receipt_counts cs)"
  by (simp add: receipt_counts_def)

lemma receipt_counts_get: "the_default 0 (dget c (receipt_counts cs)) = count_list cs c"
proof (induction cs rule: rev_induct)
  case Nil
  then show ?case by (simp add: receipt_counts_def dget_def)
next
  case (snoc x xs)
  then show ?case by (auto simp: receipt_counts_snoc)
qed

lemma receipt_counts_keys: "fst ` set (receipt_counts cs) = set cs" "distinct (map fst (receipt_counts cs))"
proof (induction cs rule: rev_induct)
  case Nil
  { case 1 then show ?case by (simp add: receipt_counts_def) }
  { case 2 then show ?case by (simp add: receipt_counts_def) }
next
  case (snoc x xs)
  { case 1 from snoc(1) show ?case by (simp add: receipt_counts_snoc dset_keys) }
  { case 2 from snoc(2) show ?case by (simp add: receipt_counts_snoc dset_distinct) }
qed

lemma count_list_all: "list_all (\<lambda>x. x = c) cs \<Longrightarrow> count_list cs c = length cs"
  by (induction cs) auto

lemma receipt_counts_single:
  assumes "cs \<noteq> []"
  shows "receipt_counts cs = [(c, length cs)] \<longleftrightarrow> list_all (\<lambda>x. x = c) cs"
proof
  assume "receipt_counts cs = [(c, length cs)]"
  then have "set cs = {c}" using receipt_counts_keys(1) [of cs] by simp
  then show "list_all (\<lambda>x. x = c) cs" by (simp add: list_all_iff)
next
  assume all: "list_all (\<lambda>x. x = c) cs"
  with assms have "set cs = {c}" by (cases cs) (auto simp: list_all_iff)
  then have keys: "set (map fst (receipt_counts cs)) = {c}" using receipt_counts_keys(1) [of cs] by simp
  have "length (receipt_counts cs) = 1"
    using distinct_card [OF receipt_counts_keys(2) [of cs]] keys by simp
  then obtain v where v: "receipt_counts cs = [(c, v)]"
    using keys by (auto simp: length_Suc_conv)
  with receipt_counts_get [of c cs] count_list_all [OF all] show "receipt_counts cs = [(c, length cs)]"
    by (simp add: dget_def)
qed

lemma receipt_ids_ne: "receipt_ids src p \<noteq> []"
  by (simp add: receipt_ids_def Let_def)

lemma count_list_map: "count_list (map f xs) c = length (filter (\<lambda>x. f x = c) xs)"
  by (induction xs) auto

text \<open>
  A receipt accounts for every message exactly once, by its present state, and is withheld just in case
  every one of its messages failed for good and has a failure notice of its own.
\<close>

theorem receipt_accounts_every_message:
  "the_default 0 (dget c (fst (snd (receipt_content d u src p)))) =
     length (filter (\<lambda>m. receipt_category d u m = c) (receipt_ids src p)) \<and>
   snd (snd (receipt_content d u src p)) =
     list_all (\<lambda>m. (case receipt_event d u m of None \<Rightarrow> False | Some e \<Rightarrow> ob_status e = ''failed_pending_review'') \<and>
       failure_notified d u m) (receipt_ids src p)"
proof -
  let ?ids = "receipt_ids src p"
  let ?cs = "map (receipt_category d u) ?ids"
  have ne: "?cs \<noteq> []" using receipt_ids_ne by simp
  have cat: "receipt_category d u m = ''failed_notified'' \<longleftrightarrow>
      (case receipt_event d u m of None \<Rightarrow> False | Some e \<Rightarrow> ob_status e = ''failed_pending_review'') \<and> failure_notified d u m" for m
    by (auto simp: receipt_category_def RECEIPT_TERMINAL_OUTBOX_STATUSES_def Let_def split: option.splits)
  have counts: "fst (snd (receipt_content d u src p)) = receipt_counts ?cs"
    by (simp add: receipt_content_def Let_def)
  have single: "receipt_counts ?cs = [(x, length ?ids)] \<longleftrightarrow> list_all (\<lambda>m. receipt_category d u m = x) ?ids" for x
    using receipt_counts_single [OF ne, of x] by (simp add: list.pred_map comp_def)
  have fin: "list_all receipt_finished ?cs" if "list_all (\<lambda>m. receipt_category d u m = ''failed_notified'') ?ids"
    using that by (auto simp: list_all_iff receipt_finished_def)
  have "snd (snd (receipt_content d u src p)) = list_all (\<lambda>m. receipt_category d u m = ''failed_notified'') ?ids"
    unfolding receipt_content_def Let_def using single [of "''failed_notified''"] single [of "''processing''"] fin receipt_ids_ne [of src p]
    by (auto simp: list_all_iff)
  with counts show ?thesis by (simp add: receipt_counts_get count_list_map cat)
qed

text \<open>A small queue: a first notice, and a second one that depends on it.\<close>

definition first_notice :: notification_record where
  "first_notice = (blank_notice (asc ''k0'') (asc ''amy'') (asc ''m1'') ''wecom_action_result'' 0)\<lparr>nr_content := Some (asc ''hi'')\<rparr>"

definition second_notice :: notification_record where
  "second_notice = (blank_notice (asc ''k1'') (asc ''amy'') (asc ''m1'') ''wecom_action_card'' 0)
     \<lparr>nr_payload := Some [(asc ''depends_on'', PList [PStr (asc ''k0'')])]\<rparr>"

definition queue_db :: db where
  "queue_db = empty_db\<lparr>notification_records := [first_notice, second_notice]\<rparr>"

definition log_client :: "(pstr \<times> pyval) list message_client" where
  "log_client u b d w = (Inr (), d, w @ [(u, b)])"

lemma queue_db_rows [simp]:
  "get_notice queue_db (asc ''k0'') = Some first_notice" "get_notice queue_db (asc ''k1'') = Some second_notice"
  "nr_notification_key first_notice = asc ''k0''" "nr_notification_key second_notice = asc ''k1''"
  "nr_sales_user_id first_notice = asc ''amy''" "nr_status first_notice = ''pending''" "nr_payload first_notice = None"
  "nr_notification_type first_notice = ''wecom_action_result''"
  "notification_records queue_db = [first_notice, second_notice]"
  by (simp_all add: queue_db_def first_notice_def second_notice_def blank_notice_def)

text \<open>A client during whose send another sender takes over the first notice.\<close>

definition takeover_client :: "unit message_client" where
  "takeover_client u b d w = (Inr (), upd_notice (asc ''k0'') (claim_notice (minutes 10) (asc ''b'')) d, w)"

lemma first_claim:
  "claim_pending plain_env example_settings 0 (asc ''a'') (asc ''k0'') queue_db =
     Inr (Some (asc ''amy'', Some (asc ''hi''), None), upd_notice (asc ''k0'') (claim_notice 0 (asc ''a'')) queue_db)"
  by (simp add: claim_pending_def claimable_notice_def delivery_blocked_def iter_values_def py_get_def dget_def)
    (simp add: first_notice_def)

lemma first_body: "notice_body d first_notice (asc ''amy'', Some (asc ''hi''), None) = Inr (Inr (markdown_body (asc ''hi'')))"
  by (simp add: notice_body_def build_supported_body_def py_get_def dget_def)

theorem superseded_send_no_effect_witness:
  "\<exists>d2. takeover_client (asc ''amy'') (markdown_body (asc ''hi''))
       (upd_notice (asc ''k0'') (claim_notice 0 (asc ''a'')) queue_db) () = (Inr (), d2, ()) \<and>
     snd (send_one plain_env example_settings takeover_client 0 (asc ''a'') first_notice queue_db ()) = (d2, ())"
proof -
  let ?d1 = "upd_notice (asc ''k0'') (claim_notice 0 (asc ''a'')) queue_db"
  let ?d2 = "upd_notice (asc ''k0'') (claim_notice (minutes 10) (asc ''b'')) ?d1"
  let ?m = "claim_notice 0 (asc ''a'') first_notice"
  have c: "claim_pending plain_env example_settings 0 (asc ''a'') (nr_notification_key first_notice) queue_db =
      Inr (Some (asc ''amy'', Some (asc ''hi''), None), ?d1)" using first_claim by simp
  have cl: "takeover_client (fst (asc ''amy'', Some (asc ''hi''), None)) (markdown_body (asc ''hi'')) ?d1 () = (Inr (), ?d2, ())"
    by (simp add: takeover_client_def)
  have dist: "distinct (map nr_notification_key (notification_records ?d2))" by (simp add: tupd_def)
  have row: "get_notice ?d2 (nr_notification_key first_notice) =
      Some (fold notice_step [] (claim_notice (minutes 10) (asc ''b'') ?m))" by (simp add: tget_tupd_same)
  have "claimable_notice (minutes 10) ?m"
    by (simp add: claimable_notice_def claim_notice_def NOTIFICATION_LEASE_def minutes_def)
  from superseded_send_no_effect [where client = takeover_client, OF c first_body cl dist row this] cl show ?thesis by simp
qed

theorem dependencies_before_send_witness:
  "send_one plain_env example_settings log_client 0 (asc ''a'') second_notice queue_db [] = (Inr 0, queue_db, [])"
proof (rule dependencies_before_send [where ks = "[asc ''k0'']" and k = "asc ''k0''" and
      p = "[(asc ''depends_on'', PList [PStr (asc ''k0'')])]"])
  show "nr_payload second_notice = Some [(asc ''depends_on'', PList [PStr (asc ''k0'')])]"
    by (simp add: second_notice_def)
qed (simp_all add: dget_def)

theorem settled_notice_kept_witness:
  "\<exists>r d' w'. send_pending_once plain_env example_settings log_client 0 (\<lambda>k. k)
      (queue_db\<lparr>notification_records := [first_notice\<lparr>nr_status := ''succeeded''\<rparr>, second_notice]\<rparr>) [] = (r, d', w') \<and>
    get_notice d' (asc ''k0'') = Some (first_notice\<lparr>nr_status := ''succeeded''\<rparr>)"
proof -
  let ?d = "queue_db\<lparr>notification_records := [first_notice\<lparr>nr_status := ''succeeded''\<rparr>, second_notice]\<rparr>"
  obtain r d' w' where run: "send_pending_once plain_env example_settings log_client 0 (\<lambda>k. k) ?d [] = (r, d', w')"
    by (metis prod_cases3)
  have "quiet_client log_client" by (simp add: quiet_client_def log_client_def)
  moreover have "get_notice ?d (asc ''k0'') = Some (first_notice\<lparr>nr_status := ''succeeded''\<rparr>)" by simp
  ultimately have "get_notice d' (asc ''k0'') = Some (first_notice\<lparr>nr_status := ''succeeded''\<rparr>)"
    using settled_notice_kept [OF _ _ _ run] by simp
  with run show ?thesis by blast
qed

text \<open>
  A deliverable notification is delivered: a claimable row of an ordinary kind with nothing to wait for and
  a supported body, whose send succeeds, is counted as sent and ends up succeeded, with one more
  attempt, the sending time and no claim.
\<close>

theorem send_delivers:
  assumes "get_notice d (nr_notification_key n) = Some n" and "claimable_notice now n"
    and "delivery_blocked d n = Inr False"
    and "nr_notification_type n \<notin> {''lead_progress_summary'', ''daily_unsubmitted_lead_reminder'', ''lead_intake_receipt''}"
    and "build_supported_body (nr_payload n) (nr_content n) = Inr body"
    and "d1 = upd_notice (nr_notification_key n) (claim_notice now tk) d"
    and "client (nr_sales_user_id n) body d1 w = (Inr (), d1, w2)"
  shows "\<exists>d' n'. send_one env s client now tk n d w = (Inr 1, d', w2) \<and>
    get_notice d' (nr_notification_key n) = Some n' \<and> nr_status n' = ''succeeded'' \<and>
    nr_attempts n' = nr_attempts n + 1 \<and> nr_sent_at n' = Some now \<and> nr_processing_claim_token n' = None"
proof -
  let ?k = "nr_notification_key n"
  let ?d' = "upd_notice ?k (settle_notice tk (Sent now)) d1"
  have "claim_pending env s now tk ?k d = Inr (Some (nr_sales_user_id n, nr_content n, nr_payload n), d1)"
    using assms(1-4,6) by (simp add: claim_pending_def)
  moreover have "notice_body d1 n (nr_sales_user_id n, nr_content n, nr_payload n) = Inr (Inr body)"
    using assms(4,5) by (simp add: notice_body_def)
  ultimately have run: "send_one env s client now tk n d w = (Inr 1, ?d', w2)"
    using assms(7) by (simp add: send_one_def)
  have "get_notice d1 ?k = Some (claim_notice now tk n)" using assms(1,6) by (simp add: tget_tupd_same)
  then have "get_notice ?d' ?k = Some (settle_notice tk (Sent now) (claim_notice now tk n))" by (simp add: tget_tupd_same)
  moreover have "nr_status (settle_notice tk (Sent now) (claim_notice now tk n)) = ''succeeded''"
    "nr_attempts (settle_notice tk (Sent now) (claim_notice now tk n)) = nr_attempts n + 1"
    "nr_sent_at (settle_notice tk (Sent now) (claim_notice now tk n)) = Some now"
    "nr_processing_claim_token (settle_notice tk (Sent now) (claim_notice now tk n)) = None"
    by (simp_all add: settle_notice_def claim_notice_def release_notice_def)
  ultimately show ?thesis using run by blast
qed

theorem send_delivers_witness:
  "\<exists>d' n'. send_one plain_env example_settings log_client 0 (asc ''a'') first_notice queue_db [] =
      (Inr 1, d', [(asc ''amy'', markdown_body (asc ''hi''))]) \<and>
    get_notice d' (asc ''k0'') = Some n' \<and> nr_status n' = ''succeeded''"
proof -
  let ?d1 = "upd_notice (nr_notification_key first_notice) (claim_notice 0 (asc ''a'')) queue_db"
  have get: "get_notice queue_db (nr_notification_key first_notice) = Some first_notice" by simp
  have cl: "claimable_notice 0 first_notice" by (simp add: claimable_notice_def)
  have bl: "delivery_blocked queue_db first_notice = Inr False"
    by (simp add: delivery_blocked_def iter_values_def py_get_def dget_def)
  have ty: "nr_notification_type first_notice \<notin> {''lead_progress_summary'', ''daily_unsubmitted_lead_reminder'', ''lead_intake_receipt''}"
    by simp
  have bd: "build_supported_body (nr_payload first_notice) (nr_content first_notice) = Inr (markdown_body (asc ''hi''))"
    by (simp add: build_supported_body_def py_get_def dget_def) (simp add: first_notice_def)
  have send: "log_client (nr_sales_user_id first_notice) (markdown_body (asc ''hi'')) ?d1 [] =
      (Inr (), ?d1, [(asc ''amy'', markdown_body (asc ''hi''))])" by (simp add: log_client_def)
  from send_delivers [where client = log_client, OF get cl bl ty bd refl send, of plain_env example_settings] show ?thesis by auto
qed

end
