(* ===== verification/Retention.thy ===== *)
theory Retention
  imports Failures Env Interfaces
begin

text \<open>
  \<^verbatim>\<open>app/media/retention.py\<close>: expiry of stored media and message bodies. Each stored object has a cleanup
  operation (and, when it was uploaded, an ingest operation) that a worker claims under a token, a
  generation and a lease; every later write is conditional on that claim. Remote effects go
  through the storage provider (\<^verbatim>\<open>app/media/storage.py\<close>), a parameter. One clock reading serves a call;
  operation identifiers and claim tokens (UUIDs) are arguments.
\<close>

section \<open>Policy\<close>

record retention_settings =
  media_retention_policy_version :: "pstr option"
  media_retention_days :: "int option"
  message_payload_retention_days :: "int option"
  notification_payload_retention_days :: "int option"

record retention_policy =
  rp_version :: pstr
  rp_media_days :: int
  rp_message_days :: int
  rp_notification_days :: int

definition retention_policy_is_configured :: "retention_settings \<Rightarrow> bool" where
  "retention_policy_is_configured s =
     (media_retention_policy_version s \<notin> {None, Some []} \<and> media_retention_days s \<noteq> None \<and>
      message_payload_retention_days s \<noteq> None \<and> notification_payload_retention_days s \<noteq> None)"

definition validate_policy :: "retention_policy \<Rightarrow> retention_policy res" where
  "validate_policy p =
     (if py_strip (rp_version p) = [] then Inl (ValueError ''version empty'')
      else if list_ex (\<lambda>v. v \<le> 0 \<or> 36500 < v) [rp_media_days p, rp_message_days p, rp_notification_days p]
      then Inl (ValueError ''days out of range'') else Inr p)"

definition policy_from_settings :: "retention_settings \<Rightarrow> retention_policy res" where
  "policy_from_settings s =
     (if \<not> retention_policy_is_configured s then Inl (RuntimeError ''retention_policy_not_configured'')
      else validate_policy \<lparr>rp_version = the (media_retention_policy_version s),
        rp_media_days = the (media_retention_days s), rp_message_days = the (message_payload_retention_days s),
        rp_notification_days = the (notification_payload_retention_days s)\<rparr>)"

section \<open>Storage provider\<close>

datatype storage_delete_outcome = CONFIRMED_DELETED | NOT_FOUND | UNKNOWN_OUTCOME

definition outcome_value :: "storage_delete_outcome \<Rightarrow> string" where
  "outcome_value out = (case out of CONFIRMED_DELETED \<Rightarrow> ''confirmed_deleted'' | NOT_FOUND \<Rightarrow> ''not_found''
     | UNKNOWN_OUTCOME \<Rightarrow> ''unknown'')"

text \<open>What the service reads of a stored object's description (\<^verbatim>\<open>StoredObject\<close>, \<^verbatim>\<open>StorageObjectMetadata\<close>).\<close>

record stored_object =
  so_object_etag :: "pstr option"
  so_object_encryption_mode :: "pstr option"

text \<open>\<open>st_put\<close> takes content, suffix, key, content type and digest.\<close>

record 'w storage_provider =
  st_head :: "pstr \<Rightarrow> 'w \<Rightarrow> (exn + stored_object option) \<times> 'w"
  st_delete :: "pstr \<Rightarrow> 'w \<Rightarrow> (exn + storage_delete_outcome) \<times> 'w"
  st_put :: "pstr \<Rightarrow> pstr \<Rightarrow> pstr \<Rightarrow> pstr option \<Rightarrow> pstr option \<Rightarrow> 'w \<Rightarrow> (exn + stored_object) \<times> 'w"

section \<open>Cleanup operations\<close>

abbreviation get_cleanup :: "db \<Rightarrow> pstr \<Rightarrow> storage_cleanup_operation option" where
  "get_cleanup d i \<equiv> tget so_id i (storage_cleanup_operations d)"

abbreviation upd_cleanup :: "pstr \<Rightarrow> (storage_cleanup_operation \<Rightarrow> storage_cleanup_operation) \<Rightarrow> db \<Rightarrow> db" where
  "upd_cleanup i f d \<equiv> d\<lparr>storage_cleanup_operations := tupd so_id i f (storage_cleanup_operations d)\<rparr>"

abbreviation get_attachment :: "db \<Rightarrow> pstr \<Rightarrow> message_attachment option" where
  "get_attachment d i \<equiv> tget at_id i (message_attachments d)"

abbreviation upd_attachment :: "pstr \<Rightarrow> (message_attachment \<Rightarrow> message_attachment) \<Rightarrow> db \<Rightarrow> db" where
  "upd_attachment i f d \<equiv> d\<lparr>message_attachments := tupd at_id i f (message_attachments d)\<rparr>"

type_synonym lease_claim = "pstr \<times> int"

definition digest :: "env \<Rightarrow> pstr option \<Rightarrow> pstr option" where
  "digest env v = (case v of None \<Rightarrow> None | Some s \<Rightarrow> if s = [] then None else Some (e_sha256 env s))"

definition new_cleanup :: "env \<Rightarrow> retention_policy \<Rightarrow> time \<Rightarrow> pstr \<Rightarrow> message_attachment \<Rightarrow> storage_cleanup_operation" where
  "new_cleanup env p now new_id a =
     \<lparr>so_id = new_id, so_operation_key = asc ''media:'' @ at_id a, so_data_class = ''raw_media_object'',
      so_target_type = ''message_attachment'', so_target_id = at_id a, so_storage_provider = at_storage_provider a,
      so_storage_key = at_storage_key a, so_storage_key_digest = digest env (at_storage_key a),
      so_policy_version = (if at_retention_policy_version a \<in> {None, Some []} then rp_version p
                           else the (at_retention_policy_version a)),
      so_retention_cutoff = the_default now (at_retention_expires_at a), so_status = ''pending'',
      so_claim_token = None, so_generation = 0, so_processing_started_at = None, so_lease_expires_at = None,
      so_remote_outcome = None, so_remote_started_at = None, so_attempt_count = 0, so_failure_kind = None,
      so_failure_summary = None, so_created_at = now, so_updated_at = now, so_completed_at = None\<rparr>"

definition issue_attachment_cleanup :: "env \<Rightarrow> retention_policy \<Rightarrow> time \<Rightarrow> pstr \<Rightarrow> pstr \<Rightarrow> db \<Rightarrow> (pstr \<times> db) res" where
  "issue_attachment_cleanup env p now new_id i d =
     (case get_attachment d i of
        None \<Rightarrow> Inl (ValueError ''attachment_not_found'')
      | Some a \<Rightarrow>
          (let (r, d1) = (case find (\<lambda>r. so_operation_key r = asc ''media:'' @ i) (storage_cleanup_operations d) of
                 Some r \<Rightarrow> (r, d)
               | None \<Rightarrow> (let r = new_cleanup env p now new_id a
                         in (r, d\<lparr>storage_cleanup_operations := tadd r (storage_cleanup_operations d)\<rparr>)))
           in if at_deletion_status a = ''deleted'' \<and> so_status r \<noteq> ''succeeded''
              then Inl (ValueError ''attachment_tombstone_recovery_required'')
              else Inr (so_id r, upd_attachment i (\<lambda>a. a\<lparr>at_cleanup_operation_id := Some (so_id r)\<rparr>) d1)))"

definition cleanup_claimable :: "time \<Rightarrow> storage_cleanup_operation \<Rightarrow> bool" where
  "cleanup_claimable now r = (so_status r \<in> set [''pending'', ''retrying'', ''reconcile_required''] \<or>
     (so_status r = ''processing'' \<and> (case so_lease_expires_at r of None \<Rightarrow> True | Some e \<Rightarrow> e \<le> now)))"

definition claim_row :: "int \<Rightarrow> time \<Rightarrow> pstr \<Rightarrow> storage_cleanup_operation \<Rightarrow> storage_cleanup_operation" where
  "claim_row lease_seconds now tk r = r\<lparr>so_status := ''processing'', so_claim_token := Some tk,
     so_generation := so_generation r + 1, so_attempt_count := so_attempt_count r + 1,
     so_processing_started_at := Some now, so_lease_expires_at := Some (now + seconds lease_seconds), so_updated_at := now\<rparr>"

definition cleanup_claim :: "time \<Rightarrow> pstr \<Rightarrow> int \<Rightarrow> pstr \<Rightarrow> db \<Rightarrow> (lease_claim option \<times> db) res" where
  "cleanup_claim now tk lease_seconds i d =
     (if lease_seconds \<le> 0 then Inl (ValueError ''lease_seconds'')
      else case get_cleanup d i of
        None \<Rightarrow> Inr (None, d)
      | Some r \<Rightarrow> if cleanup_claimable now r
                  then Inr (Some (tk, so_generation r + 1), upd_cleanup i (claim_row lease_seconds now tk) d)
                  else Inr (None, d))"

text \<open>The condition every write of a worker carries, and the conditional write itself (its row count as truth value).\<close>

definition holds_claim :: "lease_claim \<Rightarrow> storage_cleanup_operation \<Rightarrow> bool" where
  "holds_claim c r = (so_status r = ''processing'' \<and> so_claim_token r = Some (fst c) \<and> so_generation r = snd c)"

definition fenced_write ::
  "pstr \<Rightarrow> lease_claim \<Rightarrow> (storage_cleanup_operation \<Rightarrow> storage_cleanup_operation) \<Rightarrow> db \<Rightarrow> bool \<times> db" where
  "fenced_write i c f d =
     (case get_cleanup d i of
        None \<Rightarrow> (False, d)
      | Some r \<Rightarrow> if holds_claim c r then (True, upd_cleanup i f d) else (False, d))"

definition set_remote_outcome :: "time \<Rightarrow> pstr \<Rightarrow> lease_claim \<Rightarrow> storage_delete_outcome \<Rightarrow> db \<Rightarrow> bool \<times> db" where
  "set_remote_outcome now i c out d =
     fenced_write i c (\<lambda>r. r\<lparr>so_remote_outcome := Some (outcome_value out), so_updated_at := now\<rparr>) d"

definition mark_remote_started :: "time \<Rightarrow> pstr \<Rightarrow> lease_claim \<Rightarrow> db \<Rightarrow> bool \<times> db" where
  "mark_remote_started now i c d =
     fenced_write i c (\<lambda>r. r\<lparr>so_remote_started_at := Some now, so_updated_at := now\<rparr>) d"

definition fail_row :: "time \<Rightarrow> string \<Rightarrow> pstr \<Rightarrow> bool \<Rightarrow> storage_cleanup_operation \<Rightarrow> storage_cleanup_operation" where
  "fail_row now failure_kind summary reconcile r =
     r\<lparr>so_status := (if reconcile then ''reconcile_required'' else ''retrying''),
       so_remote_outcome := (if reconcile then Some (outcome_value UNKNOWN_OUTCOME) else None),
       so_failure_kind := Some failure_kind, so_failure_summary := Some summary,
       so_updated_at := now, so_lease_expires_at := None\<rparr>"

definition mark_failure :: "time \<Rightarrow> pstr \<Rightarrow> lease_claim \<Rightarrow> string \<Rightarrow> pstr \<Rightarrow> bool \<Rightarrow> db \<Rightarrow> bool \<times> db" where
  "mark_failure now i c failure_kind summary reconcile d =
     fenced_write i c (fail_row now failure_kind summary reconcile) d"

definition cleanup_done_row :: "time \<Rightarrow> storage_cleanup_operation \<Rightarrow> storage_cleanup_operation" where
  "cleanup_done_row now r = r\<lparr>so_status := ''succeeded'', so_completed_at := Some now, so_updated_at := now,
     so_lease_expires_at := None, so_storage_key := None\<rparr>"

definition tombstone :: "time \<Rightarrow> pstr \<Rightarrow> message_attachment \<Rightarrow> message_attachment" where
  "tombstone now i a = a\<lparr>at_storage_key := None, at_storage_etag := None, at_deletion_status := ''deleted'',
     at_deleted_at := Some now, at_deletion_reason := Some ''retention_cleanup'', at_cleanup_operation_id := Some i\<rparr>"

definition proven_gone :: "storage_cleanup_operation \<Rightarrow> bool" where
  "proven_gone r = (so_remote_outcome r \<in>
     {Some (outcome_value CONFIRMED_DELETED), Some (outcome_value NOT_FOUND)})"

definition finalize_success :: "time \<Rightarrow> pstr \<Rightarrow> lease_claim \<Rightarrow> db \<Rightarrow> bool \<times> db" where
  "finalize_success now i c d =
     (case get_cleanup d i of
        None \<Rightarrow> (False, d)
      | Some r \<Rightarrow>
          if \<not> proven_gone r then (False, d)
          else case get_attachment d (so_target_id r) of
            None \<Rightarrow> (False, d)
          | Some _ \<Rightarrow>
              (case fenced_write i c (cleanup_done_row now) d of
                 (False, _) \<Rightarrow> (False, d)
               | (True, d1) \<Rightarrow> (True, upd_attachment (so_target_id r) (tombstone now i) d1)))"

definition conclude :: "time \<Rightarrow> pstr \<Rightarrow> lease_claim \<Rightarrow> storage_delete_outcome \<Rightarrow> db \<Rightarrow> string \<times> db" where
  "conclude now i c out d =
     (case set_remote_outcome now i c out d of
        (False, d1) \<Rightarrow> (''stale_claim'', d1)
      | (True, d1) \<Rightarrow>
          (case finalize_success now i c d1 of
             (True, d2) \<Rightarrow> (''succeeded'', d2)
           | (False, d2) \<Rightarrow> (''stale_claim'', d2)))"

text \<open>The work under a claim: look at the object, delete it if it is there, record what is known.\<close>

definition delete_claimed ::
  "'w storage_provider \<Rightarrow> time \<Rightarrow> pstr \<Rightarrow> lease_claim \<Rightarrow> pstr \<Rightarrow> db \<Rightarrow> 'w \<Rightarrow> string \<times> db \<times> 'w" where
  "delete_claimed st now i c key d w =
     (case st_head st key w of
        (Inl _, w1) \<Rightarrow> (''reconcile_required'', snd (mark_failure now i c ''head_failed'' m_head_failed True d), w1)
      | (Inr None, w1) \<Rightarrow> (case conclude now i c NOT_FOUND d of (s, d1) \<Rightarrow> (s, d1, w1))
      | (Inr (Some _), w1) \<Rightarrow>
          (case mark_remote_started now i c d of
             (False, d1) \<Rightarrow> (''stale_claim'', d1, w1)
           | (True, d1) \<Rightarrow>
               (case st_delete st key w1 of
                  (Inr CONFIRMED_DELETED, w2) \<Rightarrow> (case conclude now i c CONFIRMED_DELETED d1 of (s, d2) \<Rightarrow> (s, d2, w2))
                | (Inr NOT_FOUND, w2) \<Rightarrow> (case conclude now i c NOT_FOUND d1 of (s, d2) \<Rightarrow> (s, d2, w2))
                | (_, w2) \<Rightarrow> (''reconcile_required'', snd (mark_failure now i c ''delete_unknown'' m_delete_unknown True d1), w2))))"

text \<open>The key an operation works on: its own, else its attachment's.\<close>

definition object_key :: "db \<Rightarrow> storage_cleanup_operation \<Rightarrow> pstr option" where
  "object_key d r = (if so_storage_key r \<in> {None, Some []}
     then (case get_attachment d (so_target_id r) of None \<Rightarrow> None | Some a \<Rightarrow> at_storage_key a) else so_storage_key r)"

definition cleanup_execute ::
  "'w storage_provider \<Rightarrow> time \<Rightarrow> pstr \<Rightarrow> int \<Rightarrow> pstr \<Rightarrow> db \<Rightarrow> 'w \<Rightarrow> string res \<times> db \<times> 'w" where
  "cleanup_execute st now tk lease_seconds i d w =
     (case cleanup_claim now tk lease_seconds i d of
        Inl e \<Rightarrow> (Inl e, d, w)
      | Inr (None, d1) \<Rightarrow> (Inr ''not_claimed'', d1, w)
      | Inr (Some c, d1) \<Rightarrow>
          (case get_cleanup d1 i of
             None \<Rightarrow> (Inr ''missing_operation'', d1, w)
           | Some r \<Rightarrow>
               (let attachment = get_attachment d1 (so_target_id r);
                    key = object_key d1 r
                in if (case attachment of None \<Rightarrow> False | Some a \<Rightarrow> at_deletion_status a = ''deleted'') \<and> proven_gone r
                   then (case conclude now i c NOT_FOUND d1 of (s, d2) \<Rightarrow> (Inr s, d2, w))
                   else if key \<in> {None, Some []}
                   then (Inr ''failed_pending_review'',
                         snd (mark_failure now i c ''storage_key_missing'' m_key_missing False d1), w)
                   else (case delete_claimed st now i c (the key) d1 w of (s, d2, w2) \<Rightarrow> (Inr s, d2, w2)))))"

section \<open>The scheduler\<close>

definition due_attachments :: "env \<Rightarrow> time \<Rightarrow> (time \<times> pstr) option \<Rightarrow> db \<Rightarrow> message_attachment list" where
  "due_attachments env now cursor d =
     sort_key (\<lambda>a. the_default 0 (at_retention_expires_at a)) (sort_key (\<lambda>a. e_collation env (at_id a))
       (filter (\<lambda>a. at_deletion_status a = ''active'' \<and>
          (case at_retention_expires_at a of None \<Rightarrow> False
           | Some e \<Rightarrow> e \<le> now \<and> (case cursor of None \<Rightarrow> True
               | Some (t, i) \<Rightarrow> t < e \<or> (e = t \<and> e_collation env i < e_collation env (at_id a)))) \<and>
          at_cleanup_operation_id a = None) (message_attachments d)))"

fun issue_all :: "env \<Rightarrow> retention_policy \<Rightarrow> time \<Rightarrow> (pstr \<Rightarrow> pstr) \<Rightarrow> pstr list \<Rightarrow> db \<Rightarrow> pstr list res \<times> db" where
  "issue_all env p now new_id [] d = (Inr [], d)"
| "issue_all env p now new_id (i # is) d =
     (case issue_attachment_cleanup env p now (new_id i) i d of
        Inl e \<Rightarrow> (Inl e, d)
      | Inr (r, d1) \<Rightarrow>
          (case issue_all env p now new_id is d1 of
             (Inl e, d2) \<Rightarrow> (Inl e, d2)
           | (Inr rs, d2) \<Rightarrow> (Inr (r # rs), d2)))"

definition scan_and_issue ::
  "env \<Rightarrow> retention_policy \<Rightarrow> int \<Rightarrow> time \<Rightarrow> (time \<times> pstr) option \<Rightarrow> (pstr \<Rightarrow> pstr) \<Rightarrow> db \<Rightarrow> pstr list res \<times> db" where
  "scan_and_issue env p batch_size now cursor new_id d =
     (if batch_size \<le> 0 then (Inl (ValueError ''batch_size''), d)
      else issue_all env p now new_id (map at_id (take (nat batch_size) (due_attachments env now cursor d))) d)"

definition runnable_operation_ids :: "env \<Rightarrow> int \<Rightarrow> time \<Rightarrow> db \<Rightarrow> pstr list res" where
  "runnable_operation_ids env batch_size now d =
     (if batch_size \<le> 0 then Inl (ValueError ''batch_size'')
      else Inr (map so_id (take (nat batch_size)
        (sort_key so_created_at (sort_key (\<lambda>r. e_collation env (so_id r))
          (filter (cleanup_claimable now) (storage_cleanup_operations d)))))))"

section \<open>Ingest operations\<close>

abbreviation get_ingest :: "db \<Rightarrow> pstr \<Rightarrow> storage_ingest_operation option" where
  "get_ingest d i \<equiv> tget si_id i (storage_ingest_operations d)"

abbreviation upd_ingest :: "pstr \<Rightarrow> (storage_ingest_operation \<Rightarrow> storage_ingest_operation) \<Rightarrow> db \<Rightarrow> db" where
  "upd_ingest i f d \<equiv> d\<lparr>storage_ingest_operations := tupd si_id i f (storage_ingest_operations d)\<rparr>"

definition ingest_claimable :: "time \<Rightarrow> storage_ingest_operation \<Rightarrow> bool" where
  "ingest_claimable now r = (si_status r \<in> set [''pending'', ''retrying'', ''reconcile_required''] \<or>
     (si_status r = ''processing'' \<and> (case si_lease_expires_at r of None \<Rightarrow> True | Some e \<Rightarrow> e \<le> now)))"

definition ingest_claim_row :: "int \<Rightarrow> time \<Rightarrow> pstr \<Rightarrow> storage_ingest_operation \<Rightarrow> storage_ingest_operation" where
  "ingest_claim_row lease_seconds now tk r = r\<lparr>si_status := ''processing'', si_claim_token := Some tk,
     si_generation := si_generation r + 1, si_attempt_count := si_attempt_count r + 1,
     si_processing_started_at := Some now, si_lease_expires_at := Some (now + seconds lease_seconds), si_updated_at := now\<rparr>"

definition ingest_claim :: "time \<Rightarrow> pstr \<Rightarrow> int \<Rightarrow> pstr \<Rightarrow> db \<Rightarrow> lease_claim option \<times> db" where
  "ingest_claim now tk lease_seconds i d =
     (case get_ingest d i of
        None \<Rightarrow> (None, d)
      | Some r \<Rightarrow> if ingest_claimable now r
                  then (Some (tk, si_generation r + 1), upd_ingest i (ingest_claim_row lease_seconds now tk) d)
                  else (None, d))"

definition holds_ingest :: "lease_claim \<Rightarrow> storage_ingest_operation \<Rightarrow> bool" where
  "holds_ingest c r = (si_status r = ''processing'' \<and> si_claim_token r = Some (fst c) \<and> si_generation r = snd c)"

definition fenced_ingest ::
  "pstr \<Rightarrow> lease_claim \<Rightarrow> (storage_ingest_operation \<Rightarrow> storage_ingest_operation) \<Rightarrow> db \<Rightarrow> bool \<times> db" where
  "fenced_ingest i c f d =
     (case get_ingest d i of
        None \<Rightarrow> (False, d)
      | Some r \<Rightarrow> if holds_ingest c r then (True, upd_ingest i f d) else (False, d))"

definition ingest_mark_remote_started :: "time \<Rightarrow> pstr \<Rightarrow> lease_claim \<Rightarrow> db \<Rightarrow> bool \<times> db" where
  "ingest_mark_remote_started now i c d =
     fenced_ingest i c (\<lambda>r. r\<lparr>si_remote_started_at := Some now, si_updated_at := now\<rparr>) d"

definition remote_status_row :: "time \<Rightarrow> string \<Rightarrow> string \<Rightarrow> storage_ingest_operation \<Rightarrow> storage_ingest_operation" where
  "remote_status_row now out summary r = r\<lparr>si_remote_outcome := Some out, si_failure_summary := Some summary,
     si_status := (if out = ''unknown'' then ''reconcile_required'' else if out = ''not_found'' then ''failed_pending_review''
                   else ''processing''),
     si_lease_expires_at := None, si_updated_at := now\<rparr>"

definition set_remote_status :: "time \<Rightarrow> pstr \<Rightarrow> lease_claim \<Rightarrow> string \<Rightarrow> string \<Rightarrow> db \<Rightarrow> bool \<times> db" where
  "set_remote_status now i c out summary d = fenced_ingest i c (remote_status_row now out summary) d"

definition ingest_done_row :: "time \<Rightarrow> storage_ingest_operation \<Rightarrow> storage_ingest_operation" where
  "ingest_done_row now r = r\<lparr>si_status := ''succeeded'', si_completed_at := Some now, si_updated_at := now,
     si_lease_expires_at := None, si_storage_key := None\<rparr>"

definition ingest_finalize :: "time \<Rightarrow> pstr \<Rightarrow> lease_claim \<Rightarrow> stored_object \<Rightarrow> db \<Rightarrow> bool \<times> db" where
  "ingest_finalize now i c stored d =
     (case get_ingest d i of
        None \<Rightarrow> (False, d)
      | Some r \<Rightarrow>
          if si_remote_outcome r \<notin> {Some ''exists'', Some ''put_succeeded''} then (False, d)
          else case get_attachment d (si_attachment_id r) of
            None \<Rightarrow> (False, d)
          | Some a \<Rightarrow>
              (case fenced_ingest i c (ingest_done_row now) d of
                 (False, _) \<Rightarrow> (False, d)
               | (True, d1) \<Rightarrow>
                   (let terminal = (at_processing_status a = ''failed_pending_review'');
                        d2 = upd_attachment (at_id a) (\<lambda>a. a\<lparr>
                          at_processing_status := (if terminal then at_processing_status a else ''pending''),
                          at_storage_etag := so_object_etag stored,
                          at_storage_encryption_mode := so_object_encryption_mode stored\<rparr>) d1
                    in (True,
                        if list_ex (\<lambda>t. mp_attachment_id t = at_id a) (media_processing_tasks d2) then d2
                        else d2\<lparr>media_processing_tasks := tadd \<lparr>mp_attachment_id = at_id a, mp_task_type = at_media_kind a,
                               mp_status = (if terminal then ''failed_pending_review'' else ''pending'')\<rparr>
                               (media_processing_tasks d2)\<rparr>))))"

definition adopt_object :: "time \<Rightarrow> pstr \<Rightarrow> lease_claim \<Rightarrow> stored_object \<Rightarrow> db \<Rightarrow> string \<times> db" where
  "adopt_object now i c stored d =
     (case set_remote_status now i c ''exists'' ''head_exists'' d of
        (False, d1) \<Rightarrow> (''stale_claim'', d1)
      | (True, d1) \<Rightarrow>
          (case ingest_finalize now i c stored d1 of
             (True, d2) \<Rightarrow> (''succeeded'', d2)
           | (False, d2) \<Rightarrow> (''stale_claim'', d2)))"

definition put_object ::
  "'w storage_provider \<Rightarrow> time \<Rightarrow> pstr \<Rightarrow> lease_claim \<Rightarrow> pstr \<Rightarrow> pstr \<Rightarrow> storage_ingest_operation \<Rightarrow> pstr \<Rightarrow> db \<Rightarrow> 'w \<Rightarrow>
   string \<times> db \<times> 'w" where
  "put_object st now i c content sfx r key d w =
     (case ingest_mark_remote_started now i c d of
        (False, d1) \<Rightarrow> (''stale_claim'', d1, w)
      | (True, d1) \<Rightarrow>
          (case st_put st content sfx key (si_content_type r) (si_content_sha256 r) w of
             (Inl _, w1) \<Rightarrow> (''reconcile_required'', snd (set_remote_status now i c ''unknown'' ''put_unknown'' d1), w1)
           | (Inr stored, w1) \<Rightarrow>
               (case set_remote_status now i c ''put_succeeded'' ''put_succeeded'' d1 of
                  (False, d2) \<Rightarrow> (''stale_claim'', d2, w1)
                | (True, d2) \<Rightarrow>
                    (case ingest_finalize now i c stored d2 of
                       (True, d3) \<Rightarrow> (''succeeded'', d3, w1)
                     | (False, d3) \<Rightarrow> (''reconcile_required'', d3, w1)))))"

definition put_or_reconcile ::
  "'w storage_provider \<Rightarrow> time \<Rightarrow> pstr \<Rightarrow> lease_claim \<Rightarrow> pstr \<Rightarrow> pstr \<Rightarrow> bool \<Rightarrow> db \<Rightarrow> 'w \<Rightarrow> string \<times> db \<times> 'w" where
  "put_or_reconcile st now i c content sfx head_checked d w =
     (case get_ingest d i of
        None \<Rightarrow> (''failed_pending_review'', d, w)
      | Some r \<Rightarrow>
          if si_storage_key r \<in> {None, Some []} then (''failed_pending_review'', d, w)
          else let key = the (si_storage_key r)
               in if head_checked then put_object st now i c content sfx r key d w
                  else (case st_head st key w of
                          (Inl _, w1) \<Rightarrow> (''reconcile_required'', snd (set_remote_status now i c ''unknown'' ''head_failed'' d), w1)
                        | (Inr (Some stored), w1) \<Rightarrow> (case adopt_object now i c stored d of (s, d1) \<Rightarrow> (s, d1, w1))
                        | (Inr None, w1) \<Rightarrow> put_object st now i c content sfx r key d w1))"

definition ingest_upload ::
  "'w storage_provider \<Rightarrow> time \<Rightarrow> pstr \<Rightarrow> int \<Rightarrow> pstr \<Rightarrow> pstr \<Rightarrow> pstr \<Rightarrow> db \<Rightarrow> 'w \<Rightarrow> string \<times> db \<times> 'w" where
  "ingest_upload st now tk timeout_seconds content sfx i d w =
     (case ingest_claim now tk (max 30 (timeout_seconds + 10)) i d of
        (None, d1) \<Rightarrow> (''not_claimed'', d1, w)
      | (Some c, d1) \<Rightarrow> put_or_reconcile st now i c content sfx False d1 w)"

definition ingest_reconcile ::
  "'w storage_provider \<Rightarrow> time \<Rightarrow> pstr \<Rightarrow> pstr option \<Rightarrow> pstr \<Rightarrow> pstr \<Rightarrow> db \<Rightarrow> 'w \<Rightarrow> string \<times> db \<times> 'w" where
  "ingest_reconcile st now tk content sfx i d w =
     (case ingest_claim now tk 300 i d of
        (None, d1) \<Rightarrow> (''not_claimed'', d1, w)
      | (Some c, d1) \<Rightarrow>
          (case get_ingest d1 i of
             None \<Rightarrow> (''missing_operation'', d1, w)
           | Some r \<Rightarrow>
               if si_storage_key r \<in> {None, Some []} then (''failed_pending_review'', d1, w)
               else (case st_head st (the (si_storage_key r)) w of
                       (Inl _, w1) \<Rightarrow> (''reconcile_required'', snd (set_remote_status now i c ''unknown'' ''head_failed'' d1), w1)
                     | (Inr (Some stored), w1) \<Rightarrow> (case adopt_object now i c stored d1 of (s, d2) \<Rightarrow> (s, d2, w1))
                     | (Inr None, w1) \<Rightarrow>
                         (case content of
                            None \<Rightarrow> (''failed_pending_review'', snd (set_remote_status now i c ''not_found'' ''object_missing'' d1), w1)
                          | Some x \<Rightarrow> put_or_reconcile st now i c x sfx True d1 w1))))"

section \<open>Scrubbing message bodies\<close>

definition active_message_ids :: "db \<Rightarrow> pstr list" where
  "active_message_ids d =
     map ob_message_id (filter (\<lambda>e. ob_status e \<in> set [''pending'', ''processing'', ''retrying'']) (outbox_events d)) @
     map ra_message_id (filter (\<lambda>r. ra_status r \<in> set [''pending'', ''processing'', ''retrying'']) (message_retry_attempts d)) @
     concat (map (\<lambda>l. case ld_source_message_id l of None \<Rightarrow> [] | Some m \<Rightarrow> [m])
       (filter (\<lambda>l. ld_lifecycle_state l \<in> set [''temporary'', ''pending_create'', ''pending_update'']) (leads d))) @
     map cs_request_message_id (filter (\<lambda>s. cs_status s \<in> set [''pending'', ''batch_pending'', ''processing'', ''retrying''])
       (crm_sync_records d)) @
     map ss_source_message_id (filter (\<lambda>s. ss_status s \<in> set [''pending'', ''processing'', ''retrying'']) (smart_table_syncs d)) @
     concat (map (\<lambda>x. case ax_message_id x of None \<Rightarrow> [] | Some m \<Rightarrow> [m])
       (filter (\<lambda>x. ax_status x \<in> set [''pending'', ''processing'', ''retrying'']) (ai_execution_records d))) @
     map at_message_id (filter (\<lambda>a. list_ex (\<lambda>t. mp_attachment_id t = at_id a \<and>
       mp_status t \<in> set [''pending'', ''processing'', ''retrying'']) (media_processing_tasks d)) (message_attachments d))"

definition scrubbed_payload :: fields where
  "scrubbed_payload = [(asc ''_retention'', PStr (asc ''scrubbed''))]"

definition scrubbable_message :: "time \<Rightarrow> pstr list \<Rightarrow> incoming_message \<Rightarrow> bool" where
  "scrubbable_message cutoff active m = (im_received_at m \<le> cutoff \<and> im_scrubbed_at m = None \<and>
     \<not> im_requires_media_enrichment m \<and> im_message_id m \<notin> set active \<and>
     (\<not> py_eq (PDict (im_raw_payload m)) (PDict scrubbed_payload) \<or> im_normalized_text m \<notin> {None, Some []}))"

definition scrub_message :: "retention_policy \<Rightarrow> time \<Rightarrow> incoming_message \<Rightarrow> incoming_message" where
  "scrub_message p now m = m\<lparr>im_raw_payload := scrubbed_payload, im_normalized_text := None,
     im_scrubbed_at := Some now, im_retention_policy_version := Some (rp_version p)\<rparr>"

definition scrubbable_notice :: "time \<Rightarrow> notification_record \<Rightarrow> bool" where
  "scrubbable_notice cutoff n = (nr_created_at n \<le> cutoff \<and> nr_scrubbed_at n = None \<and>
     nr_status n \<in> set [''succeeded'', ''failed'', ''denied'', ''expired''] \<and>
     nr_processing_claim_token n = None \<and> nr_processing_lease_expires_at n = None \<and>
     (nr_payload n \<noteq> None \<or> nr_content n \<noteq> None))"

definition scrub_notice :: "retention_policy \<Rightarrow> time \<Rightarrow> notification_record \<Rightarrow> notification_record" where
  "scrub_notice p now n = n\<lparr>nr_payload := None, nr_content := None, nr_scrubbed_at := Some now,
     nr_retention_policy_version := Some (rp_version p)\<rparr>"

definition scrub_expired_payloads :: "retention_policy \<Rightarrow> time \<Rightarrow> db \<Rightarrow> (nat \<times> nat) \<times> db" where
  "scrub_expired_payloads p now d =
     (let message_ok = scrubbable_message (now - days (rp_message_days p)) (active_message_ids d);
          notice_ok = scrubbable_notice (now - days (rp_notification_days p))
      in ((length (filter message_ok (incoming_messages d)), length (filter notice_ok (notification_records d))),
          d\<lparr>incoming_messages := map (\<lambda>m. if message_ok m then scrub_message p now m else m) (incoming_messages d),
            notification_records := map (\<lambda>n. if notice_ok n then scrub_notice p now n else n) (notification_records d)\<rparr>))"

end
