(* ===== verification/Retention_Correct.thy ===== *)
theory Retention_Correct
  imports Retention
begin

text \<open>
  Correctness of \<^verbatim>\<open>Retention\<close>: the claims fence the workers (interpretations of \<open>fenced_lease\<close> on the
  cleanup and the ingest rows), an attachment is marked deleted only on proof that the object is
  gone, and scrubbing removes exactly the bodies of finished, expired messages.
\<close>

section \<open>Fencing\<close>

datatype cleanup_outcome =
    Cleanup_Done time
  | Cleanup_Failed time string pstr bool

definition settle_cleanup :: "pstr \<Rightarrow> cleanup_outcome \<Rightarrow> storage_cleanup_operation \<Rightarrow> storage_cleanup_operation" where
  "settle_cleanup tk out r =
     (if so_status r = ''processing'' \<and> so_claim_token r = Some tk
      then (case out of Cleanup_Done now \<Rightarrow> cleanup_done_row now r
                      | Cleanup_Failed now k s b \<Rightarrow> fail_row now k s b r)
      else r)"

interpretation cleanup_lease: fenced_lease cleanup_claimable "claim_row lease_seconds"
  "\<lambda>tk r. so_status r = ''processing'' \<and> so_claim_token r = Some tk" settle_cleanup
  for lease_seconds
  by unfold_locales
    (auto simp: claim_row_def settle_cleanup_def cleanup_done_row_def fail_row_def split: cleanup_outcome.splits)

definition cleanup_step ::
  "int \<Rightarrow> (pstr, cleanup_outcome) lease_event \<Rightarrow> storage_cleanup_operation \<Rightarrow> storage_cleanup_operation" where
  "cleanup_step lease_seconds e r = (case e of
     Try_Claim now tk \<Rightarrow> if cleanup_claimable now r then claim_row lease_seconds now tk r else r
   | Settle tk out \<Rightarrow> settle_cleanup tk out r)"

lemma cleanup_run: "fold (cleanup_step lease_seconds) es r = cleanup_lease.lease_run lease_seconds es r"
proof -
  have "cleanup_step lease_seconds = cleanup_lease.lease_step lease_seconds"
    by (auto simp: fun_eq_iff cleanup_step_def cleanup_lease.lease_step_def split: lease_event.splits)
  then show ?thesis by (simp add: cleanup_lease.lease_run_def)
qed

lemma fenced_write_stale:
  assumes "get_cleanup d i = Some r" and "\<not> holds_claim c r"
  shows "fenced_write i c f d = (False, d)"
  using assms by (simp add: fenced_write_def)

text \<open>
  A cleanup worker that lost its claim can do nothing: once another worker has claimed the operation
  and whatever the workers did since (short of the first one claiming again), none of the first
  worker's writes - the remote facts, a failure, the completion with its tombstone - has any effect.
\<close>

theorem superseded_cleanup_no_effect:
  assumes "get_cleanup d i = Some (fold (cleanup_step lease_seconds) es (claim_row lease_seconds now tk r))"
    and "cleanup_claimable now r" and "tk \<noteq> fst c" and "fst c \<notin> claims_of es"
  shows "set_remote_outcome now' i c out d = (False, d) \<and> mark_remote_started now' i c d = (False, d) \<and>
    mark_failure now' i c kind summary b d = (False, d) \<and> finalize_success now' i c d = (False, d)"
proof -
  let ?r = "fold (cleanup_step lease_seconds) es (claim_row lease_seconds now tk r)"
  have "\<not> (so_status ?r = ''processing'' \<and> so_claim_token ?r = Some (fst c))"
    unfolding cleanup_run
    by (rule cleanup_lease.run_keeps_stale [OF cleanup_lease.claim_excludes [OF assms(2) assms(3) [symmetric]] assms(4)])
  then have "\<not> holds_claim c ?r" by (auto simp: holds_claim_def)
  from fenced_write_stale [OF assms(1) this] show ?thesis
    by (simp add: set_remote_outcome_def mark_remote_started_def mark_failure_def finalize_success_def split: option.splits)
qed

text \<open>An in-memory object store (the keys present), and an expired attachment with its cleanup operation.\<close>

definition plain_object :: stored_object where
  "plain_object = \<lparr>so_object_etag = None, so_object_encryption_mode = None\<rparr>"

definition memory_store :: "pstr list storage_provider" where
  "memory_store = \<lparr>st_head = (\<lambda>k w. (Inr (if k \<in> set w then Some plain_object else None), w)),
     st_delete = (\<lambda>k w. if k \<in> set w then (Inr CONFIRMED_DELETED, removeAll k w) else (Inr NOT_FOUND, w)),
     st_put = (\<lambda>x s k t h w. (Inr plain_object, k # w))\<rparr>"

definition old_attachment :: message_attachment where
  "old_attachment = \<lparr>at_id = asc ''a1'', at_message_id = asc ''m1'', at_media_kind = ''image'', at_storage_key = Some (asc ''k1''),
     at_storage_provider = Some (asc ''local''), at_storage_encryption_mode = None, at_storage_etag = None,
     at_processing_status = ''succeeded'', at_retention_expires_at = Some 0, at_retention_policy_version = Some (asc ''v1''),
     at_deletion_status = ''active'', at_deleted_at = None, at_deletion_reason = None, at_cleanup_operation_id = None\<rparr>"

definition example_policy :: retention_policy where
  "example_policy = \<lparr>rp_version = asc ''v1'', rp_media_days = 30, rp_message_days = 30, rp_notification_days = 30\<rparr>"

definition old_cleanup :: storage_cleanup_operation where
  "old_cleanup = new_cleanup plain_env example_policy 0 (asc ''o1'') old_attachment"

definition cleanup_db :: "storage_cleanup_operation \<Rightarrow> db" where
  "cleanup_db r = empty_db\<lparr>message_attachments := [old_attachment], storage_cleanup_operations := [r]\<rparr>"

lemma old_cleanup_simps [simp]:
  "so_id old_cleanup = asc ''o1''" "so_target_id old_cleanup = asc ''a1''" "so_storage_key old_cleanup = Some (asc ''k1'')"
  "so_status old_cleanup = ''pending''" "so_remote_outcome old_cleanup = None"
  "at_id old_attachment = asc ''a1''" "at_deletion_status old_attachment = ''active''"
  "get_attachment (cleanup_db r) (asc ''a1'') = Some old_attachment"
  "so_id r = asc ''o1'' \<Longrightarrow> get_cleanup (cleanup_db r) (asc ''o1'') = Some r"
  by (simp_all add: old_cleanup_def new_cleanup_def old_attachment_def cleanup_db_def)

lemma old_cleanup_claimable: "cleanup_claimable now old_cleanup"
  by (simp add: cleanup_claimable_def)

theorem superseded_cleanup_no_effect_witness:
  "finalize_success 9 (asc ''o1'') (asc ''t1'', 1) (cleanup_db (claim_row 60 5 (asc ''t2'') old_cleanup)) =
     (False, cleanup_db (claim_row 60 5 (asc ''t2'') old_cleanup))"
proof -
  let ?d = "cleanup_db (claim_row 60 5 (asc ''t2'') old_cleanup)"
  have g: "get_cleanup ?d (asc ''o1'') = Some (fold (cleanup_step 60) [] (claim_row 60 5 (asc ''t2'') old_cleanup))"
    by (simp add: cleanup_db_def) (simp add: claim_row_def)
  show ?thesis
    using superseded_cleanup_no_effect [OF g old_cleanup_claimable, of "(asc ''t1'', 1)"] by simp
qed

datatype ingest_outcome =
    Ingest_Done time
  | Ingest_Unknown time string
  | Ingest_Missing time string

definition settle_ingest :: "pstr \<Rightarrow> ingest_outcome \<Rightarrow> storage_ingest_operation \<Rightarrow> storage_ingest_operation" where
  "settle_ingest tk out r =
     (if si_status r = ''processing'' \<and> si_claim_token r = Some tk
      then (case out of Ingest_Done now \<Rightarrow> ingest_done_row now r
              | Ingest_Unknown now s \<Rightarrow> remote_status_row now ''unknown'' s r
              | Ingest_Missing now s \<Rightarrow> remote_status_row now ''not_found'' s r)
      else r)"

interpretation ingest_lease: fenced_lease ingest_claimable "ingest_claim_row lease_seconds"
  "\<lambda>tk r. si_status r = ''processing'' \<and> si_claim_token r = Some tk" settle_ingest
  for lease_seconds
  by unfold_locales
    (auto simp: ingest_claim_row_def settle_ingest_def ingest_done_row_def remote_status_row_def split: ingest_outcome.splits)

definition ingest_step ::
  "int \<Rightarrow> (pstr, ingest_outcome) lease_event \<Rightarrow> storage_ingest_operation \<Rightarrow> storage_ingest_operation" where
  "ingest_step lease_seconds e r = (case e of
     Try_Claim now tk \<Rightarrow> if ingest_claimable now r then ingest_claim_row lease_seconds now tk r else r
   | Settle tk out \<Rightarrow> settle_ingest tk out r)"

lemma ingest_run: "fold (ingest_step lease_seconds) es r = ingest_lease.lease_run lease_seconds es r"
proof -
  have "ingest_step lease_seconds = ingest_lease.lease_step lease_seconds"
    by (auto simp: fun_eq_iff ingest_step_def ingest_lease.lease_step_def split: lease_event.splits)
  then show ?thesis by (simp add: ingest_lease.lease_run_def)
qed

text \<open>
  The same fence protects uploads: a stale upload worker can neither record a remote fact nor complete
  the attachment.
\<close>

theorem superseded_upload_no_effect:
  assumes "get_ingest d i = Some (fold (ingest_step lease_seconds) es (ingest_claim_row lease_seconds now tk r))"
    and "ingest_claimable now r" and "tk \<noteq> fst c" and "fst c \<notin> claims_of es"
  shows "set_remote_status now' i c out summary d = (False, d) \<and> ingest_mark_remote_started now' i c d = (False, d) \<and>
    ingest_finalize now' i c stored d = (False, d)"
proof -
  let ?r = "fold (ingest_step lease_seconds) es (ingest_claim_row lease_seconds now tk r)"
  have "\<not> (si_status ?r = ''processing'' \<and> si_claim_token ?r = Some (fst c))"
    unfolding ingest_run
    by (rule ingest_lease.run_keeps_stale [OF ingest_lease.claim_excludes [OF assms(2) assms(3) [symmetric]] assms(4)])
  then have "\<not> holds_ingest c ?r" by (auto simp: holds_ingest_def)
  with assms(1) show ?thesis
    by (simp add: set_remote_status_def ingest_mark_remote_started_def ingest_finalize_def fenced_ingest_def split: option.splits)
qed

definition old_ingest :: storage_ingest_operation where
  "old_ingest = \<lparr>si_id = asc ''g1'', si_attachment_id = asc ''a1'', si_storage_key = Some (asc ''k1''), si_content_sha256 = None,
     si_content_type = None, si_status = ''pending'', si_remote_outcome = None, si_remote_started_at = None,
     si_claim_token = None, si_generation = 0, si_attempt_count = 0, si_processing_started_at = None,
     si_lease_expires_at = None, si_failure_summary = None, si_updated_at = 0, si_completed_at = None\<rparr>"

theorem superseded_upload_no_effect_witness:
  "\<exists>d. get_ingest d (asc ''g1'') = Some (ingest_claim_row 60 5 (asc ''t2'') old_ingest) \<and>
     ingest_finalize 9 (asc ''g1'') (asc ''t1'', 1) plain_object d = (False, d)"
proof -
  let ?d = "empty_db\<lparr>storage_ingest_operations := [ingest_claim_row 60 5 (asc ''t2'') old_ingest]\<rparr>"
  have g: "get_ingest ?d (asc ''g1'') = Some (fold (ingest_step 60) [] (ingest_claim_row 60 5 (asc ''t2'') old_ingest))"
    by (simp add: ingest_claim_row_def old_ingest_def)
  have "ingest_claimable 5 old_ingest" by (simp add: ingest_claimable_def old_ingest_def)
  from superseded_upload_no_effect [OF g this, of "(asc ''t1'', 1)"]
  have "ingest_finalize 9 (asc ''g1'') (asc ''t1'', 1) plain_object ?d = (False, ?d)" by simp
  moreover from g have "get_ingest ?d (asc ''g1'') = Some (ingest_claim_row 60 5 (asc ''t2'') old_ingest)"
    unfolding fold_simps .
  ultimately show ?thesis by blast
qed

section \<open>Tombstones\<close>

lemma fenced_write_attachments: "message_attachments (snd (fenced_write i c f d)) = message_attachments d"
  by (simp add: fenced_write_def split: option.splits)

lemma mark_failure_attachments [simp]: "message_attachments (snd (mark_failure now i c k s b d)) = message_attachments d"
  by (simp add: mark_failure_def fenced_write_attachments)

text \<open>The one place that writes a tombstone.\<close>

lemma conclude_attachments:
  assumes "conclude now i c out d = (s, d')" and "get_cleanup d i = Some r"
  shows "message_attachments d' = message_attachments d \<or>
    message_attachments d' = tupd at_id (so_target_id r) (tombstone now i) (message_attachments d)"
  using assms
  by (auto simp: conclude_def set_remote_outcome_def finalize_success_def fenced_write_def tget_tupd_same
      split: option.splits if_splits prod.splits bool.splits)

definition seen_gone :: "'w storage_provider \<Rightarrow> pstr \<Rightarrow> bool" where
  "seen_gone st key = ((\<exists>w w'. st_head st key w = (Inr None, w')) \<or>
     (\<exists>w w' out. st_delete st key w = (Inr out, w') \<and> out \<in> {CONFIRMED_DELETED, NOT_FOUND}))"

lemma started_attachments:
  assumes "mark_remote_started now i c d = (b, d1)" and "get_cleanup d i = Some r"
  shows "message_attachments d1 = message_attachments d \<and> (\<exists>r1. get_cleanup d1 i = Some r1 \<and> so_target_id r1 = so_target_id r)"
  using assms by (auto simp: mark_remote_started_def fenced_write_def tget_tupd_same split: if_splits)

lemma delete_claimed_attachments:
  assumes "delete_claimed st now i c key d w = (s, d', w')" and "get_cleanup d i = Some r"
  shows "message_attachments d' = message_attachments d \<or>
    (message_attachments d' = tupd at_id (so_target_id r) (tombstone now i) (message_attachments d) \<and> seen_gone st key)"
proof -
  obtain h w1 where h: "st_head st key w = (h, w1)" by (cases "st_head st key w")
  consider (err) e where "h = Inl e" | (absent) "h = Inr None" | (present) x where "h = Inr (Some x)"
    by (cases h; cases "projr h") auto
  then show ?thesis
  proof cases
    case err
    with assms(1) h show ?thesis by (auto simp: delete_claimed_def)
  next
    case absent
    then have "seen_gone st key" using h by (auto simp: seen_gone_def)
    with absent assms h show ?thesis
      by (auto simp: delete_claimed_def split: prod.splits dest!: conclude_attachments)
  next
    case present
    obtain b d1 where st: "mark_remote_started now i c d = (b, d1)" by (cases "mark_remote_started now i c d")
    from started_attachments [OF st assms(2)] obtain r1 where
      d1: "message_attachments d1 = message_attachments d" "get_cleanup d1 i = Some r1" "so_target_id r1 = so_target_id r" by blast
    obtain x w2 where dl: "st_delete st key w1 = (x, w2)" by (cases "st_delete st key w1")
    have gone: "seen_gone st key" if "x = Inr out" "out \<in> {CONFIRMED_DELETED, NOT_FOUND}" for out
      using that dl unfolding seen_gone_def by blast
    show ?thesis
      using assms(1) h present st dl d1 gone
      by (auto simp: delete_claimed_def split: bool.splits sum.splits storage_delete_outcome.splits prod.splits
          dest!: conclude_attachments)
  qed
qed

lemma claim_keeps:
  assumes "cleanup_claim now tk lease_seconds i d = Inr (Some c, d1)"
  shows "\<exists>r. get_cleanup d i = Some r \<and> cleanup_claimable now r \<and> c = (tk, so_generation r + 1) \<and>
    d1 = upd_cleanup i (claim_row lease_seconds now tk) d \<and> get_cleanup d1 i = Some (claim_row lease_seconds now tk r)"
  using assms by (auto simp: cleanup_claim_def claim_row_def tget_tupd_same split: if_splits option.splits)

lemma claim_row_simps [simp]:
  "so_id (claim_row l now tk r) = so_id r" "so_target_id (claim_row l now tk r) = so_target_id r"
  "so_storage_key (claim_row l now tk r) = so_storage_key r" "so_remote_outcome (claim_row l now tk r) = so_remote_outcome r"
  "proven_gone (claim_row l now tk r) = proven_gone r" "object_key d (claim_row l now tk r) = object_key d r"
  by (simp_all add: claim_row_def proven_gone_def object_key_def)

lemma get_cleanup_upd:
  assumes "get_cleanup d i = Some r" and "\<And>x. so_id (f x) = so_id x"
  shows "get_cleanup (upd_cleanup i f d) i = Some (f r)"
  using assms by (simp add: tget_tupd_same)

lemma object_key_frame [simp]: "object_key (upd_cleanup i f d) r = object_key d r"
  by (simp add: object_key_def)

text \<open>\<open>cleanup_execute\<close> after the claim.\<close>

lemma execute_claimed:
  assumes "cleanup_claim now tk lease_seconds i d = Inr (Some c, d1)" and "get_cleanup d i = Some r"
  shows "cleanup_execute st now tk lease_seconds i d w =
    (if (case get_attachment d (so_target_id r) of None \<Rightarrow> False | Some a \<Rightarrow> at_deletion_status a = ''deleted'') \<and> proven_gone r
     then (case conclude now i c NOT_FOUND d1 of (s, d2) \<Rightarrow> (Inr s, d2, w))
     else if object_key d r \<in> {None, Some []}
     then (Inr ''failed_pending_review'', snd (mark_failure now i c ''storage_key_missing'' m_key_missing False d1), w)
     else (case delete_claimed st now i c (the (object_key d r)) d1 w of (s, d2, w2) \<Rightarrow> (Inr s, d2, w2)))"
proof -
  from claim_keeps [OF assms(1)] assms(2) have d1: "d1 = upd_cleanup i (claim_row lease_seconds now tk) d"
    "get_cleanup d1 i = Some (claim_row lease_seconds now tk r)" by auto
  have att: "get_attachment d1 x = get_attachment d x" for x by (simp add: d1(1))
  have key: "object_key d1 r = object_key d r" by (simp add: d1(1))
  show ?thesis
    unfolding cleanup_execute_def assms(1) by (simp add: d1(2) key Let_def att)
qed

text \<open>
  C34. An attachment is marked deleted only on proof: if an execution of a cleanup operation marks an attachment
  deleted that was not, then it is the operation's own target and the storage provider has
  reported, for its object key, that the object is absent or that it has been deleted.
\<close>

theorem tombstone_only_on_proof:
  assumes "cleanup_execute st now tk lease_seconds i d w = (s, d', w')"
    and "get_attachment d a = Some x" and "at_deletion_status x \<noteq> ''deleted''"
    and "get_attachment d' a = Some y" and "at_deletion_status y = ''deleted''"
  shows "\<exists>r key. get_cleanup d i = Some r \<and> so_target_id r = a \<and> object_key d r = Some key \<and> seen_gone st key"
proof -
  have changed: "message_attachments d' \<noteq> message_attachments d" using assms(2-5) by auto
  then obtain c d1 where cl: "cleanup_claim now tk lease_seconds i d = Inr (Some c, d1)"
    using assms(1) by (auto simp: cleanup_execute_def cleanup_claim_def split: if_splits option.splits)
  from claim_keeps [OF cl] obtain r where r: "get_cleanup d i = Some r" "get_cleanup d1 i = Some (claim_row lease_seconds now tk r)"
    "message_attachments d1 = message_attachments d" by auto
  have target: "so_target_id r = a" if "message_attachments d' = tupd at_id (so_target_id r) (tombstone now i) (message_attachments d)"
  proof (rule ccontr)
    assume "so_target_id r \<noteq> a"
    then have "get_attachment d' a = get_attachment d a" unfolding that by (simp add: tget_tupd_other tombstone_def)
    with assms(2-5) show False by simp
  qed
  show ?thesis
  proof (cases "(case get_attachment d (so_target_id r) of None \<Rightarrow> False | Some a \<Rightarrow> at_deletion_status a = ''deleted'') \<and> proven_gone r")
    case True
    then have "conclude now i c NOT_FOUND d1 = (the (case s of Inr v \<Rightarrow> Some v | Inl _ \<Rightarrow> None), d')"
      using assms(1) execute_claimed [OF cl r(1), of st w] by (auto split: prod.splits)
    from conclude_attachments [OF this r(2)] changed r(3)
    have "message_attachments d' = tupd at_id (so_target_id r) (tombstone now i) (message_attachments d)" by simp
    from target [OF this] True assms(2,3) show ?thesis by simp
  next
    case False
    then have key: "object_key d r \<notin> {None, Some []}"
      using assms(1) changed r(3) execute_claimed [OF cl r(1), of st w] by (auto split: if_splits)
    then obtain k where k: "object_key d r = Some k" by auto
    obtain v where "delete_claimed st now i c k d1 w = (v, d', w')"
      using assms(1) False key k execute_claimed [OF cl r(1), of st w] by (auto split: prod.splits if_splits)
    from delete_claimed_attachments [OF this r(2)] changed r(3)
    have "message_attachments d' = tupd at_id (so_target_id r) (tombstone now i) (message_attachments d)" "seen_gone st k"
      by auto
    with target k r(1) show ?thesis by blast
  qed
qed

text \<open>
  An expired object is deleted and the operation completes: for a claimable operation whose attachment
  still has its object, if the provider finds and deletes the object, the execution answers success,
  the operation is recorded as succeeded, and the attachment carries the tombstone and no key.
\<close>

theorem cleanup_completes:
  assumes "0 < lease_seconds" and "get_cleanup d i = Some r" and "cleanup_claimable now r"
    and "get_attachment d (so_target_id r) = Some a" and "at_deletion_status a \<noteq> ''deleted''"
    and "so_storage_key r = Some key" and "key \<noteq> []"
    and "st_head st key w = (Inr (Some x), w1)" and "st_delete st key w1 = (Inr CONFIRMED_DELETED, w2)"
  shows "\<exists>d' r' a'. cleanup_execute st now tk lease_seconds i d w = (Inr ''succeeded'', d', w2) \<and>
    get_cleanup d' i = Some r' \<and> so_status r' = ''succeeded'' \<and> so_storage_key r' = None \<and>
    get_attachment d' (so_target_id r) = Some a' \<and> at_deletion_status a' = ''deleted'' \<and> at_storage_key a' = None"
proof -
  let ?c = "(tk, so_generation r + 1)"
  let ?r1 = "claim_row lease_seconds now tk r"
  let ?d1 = "upd_cleanup i (claim_row lease_seconds now tk) d"
  have cl: "cleanup_claim now tk lease_seconds i d = Inr (Some ?c, ?d1)"
    using assms(1-3) by (simp add: cleanup_claim_def)
  let ?f2 = "\<lambda>r. r\<lparr>so_remote_started_at := Some now, so_updated_at := now\<rparr>"
  let ?d2 = "upd_cleanup i ?f2 ?d1"
  let ?f3 = "\<lambda>r. r\<lparr>so_remote_outcome := Some (outcome_value CONFIRMED_DELETED), so_updated_at := now\<rparr>"
  let ?d3 = "upd_cleanup i ?f3 ?d2"
  let ?d4 = "upd_attachment (so_target_id r) (tombstone now i) (upd_cleanup i (cleanup_done_row now) ?d3)"
  have g1: "get_cleanup ?d1 i = Some ?r1" by (rule get_cleanup_upd [OF assms(2)]) simp
  have g2: "get_cleanup ?d2 i = Some (?f2 ?r1)" by (rule get_cleanup_upd [OF g1]) simp
  have g3: "get_cleanup ?d3 i = Some (?f3 (?f2 ?r1))" by (rule get_cleanup_upd [OF g2]) simp
  have h: "holds_claim ?c ?r1" "holds_claim ?c (?f2 ?r1)" "holds_claim ?c (?f3 (?f2 ?r1))"
    by (simp_all add: holds_claim_def claim_row_def)
  have m: "mark_remote_started now i ?c ?d1 = (True, ?d2)"
    unfolding mark_remote_started_def fenced_write_def g1 using h(1) by simp
  have so: "set_remote_outcome now i ?c CONFIRMED_DELETED ?d2 = (True, ?d3)"
    unfolding set_remote_outcome_def fenced_write_def g2 using h(2) by simp
  have fin: "finalize_success now i ?c ?d3 = (True, ?d4)"
    unfolding finalize_success_def fenced_write_def g3 using h(3) assms(4) by (simp add: proven_gone_def)
  have "conclude now i ?c CONFIRMED_DELETED ?d2 = (''succeeded'', ?d4)"
    unfolding conclude_def so using fin by simp
  then have del: "delete_claimed st now i ?c key ?d1 w = (''succeeded'', ?d4, w2)"
    unfolding delete_claimed_def using assms(8,9) m by simp
  have "object_key d r = Some key" using assms(6,7) by (simp add: object_key_def)
  then have run: "cleanup_execute st now tk lease_seconds i d w = (Inr ''succeeded'', ?d4, w2)"
    using execute_claimed [OF cl assms(2), of st w] assms(4,5,7) del by simp
  have "get_cleanup ?d4 i = Some (cleanup_done_row now (?f3 (?f2 ?r1)))"
    using get_cleanup_upd [OF g3, of "cleanup_done_row now"] by (simp add: cleanup_done_row_def)
  moreover have "get_attachment ?d4 (so_target_id r) = Some (tombstone now i a)"
    using assms(4) by (simp add: tget_tupd_same tombstone_def)
  ultimately show ?thesis using run by (simp add: cleanup_done_row_def tombstone_def)
qed

theorem cleanup_completes_witness:
  "\<exists>d'. cleanup_execute memory_store 5 (asc ''t1'') 60 (asc ''o1'') (cleanup_db old_cleanup) [asc ''k1''] = (Inr ''succeeded'', d', [])"
proof -
  have h: "st_head memory_store (asc ''k1'') [asc ''k1''] = (Inr (Some plain_object), [asc ''k1''])"
    and del: "st_delete memory_store (asc ''k1'') [asc ''k1''] = (Inr CONFIRMED_DELETED, [])"
    by (simp_all add: memory_store_def)
  have g: "get_cleanup (cleanup_db old_cleanup) (asc ''o1'') = Some old_cleanup" by simp
  have a: "get_attachment (cleanup_db old_cleanup) (so_target_id old_cleanup) = Some old_attachment" by simp
  have s: "at_deletion_status old_attachment \<noteq> ''deleted''" "so_storage_key old_cleanup = Some (asc ''k1'')" "asc ''k1'' \<noteq> []" by simp_all
  from cleanup_completes [OF _ g old_cleanup_claimable a s h del, of 60 5 "asc ''t1''"] show ?thesis by auto
qed

theorem tombstone_only_on_proof_witness:
  "\<exists>s d' w' y. cleanup_execute memory_store 5 (asc ''t1'') 60 (asc ''o1'') (cleanup_db old_cleanup) [] = (s, d', w') \<and>
     get_attachment d' (asc ''a1'') = Some y \<and> at_deletion_status y = ''deleted'' \<and> (\<exists>key. seen_gone memory_store key)"
proof -
  let ?d = "cleanup_db old_cleanup"
  have "\<exists>d' y. cleanup_execute memory_store 5 (asc ''t1'') 60 (asc ''o1'') ?d [] = (Inr ''succeeded'', d', []) \<and>
      get_attachment d' (asc ''a1'') = Some y \<and> at_deletion_status y = ''deleted''"
    by (simp add: cleanup_execute_def cleanup_claim_def old_cleanup_claimable object_key_def delete_claimed_def memory_store_def
        conclude_def set_remote_outcome_def fenced_write_def finalize_success_def tget_tupd_same proven_gone_def outcome_value_def
        holds_claim_def claim_row_def tombstone_def)
  then obtain d' y where run: "cleanup_execute memory_store 5 (asc ''t1'') 60 (asc ''o1'') ?d [] = (Inr ''succeeded'', d', [])"
    and y: "get_attachment d' (asc ''a1'') = Some y" "at_deletion_status y = ''deleted''" by blast
  have a: "get_attachment ?d (asc ''a1'') = Some old_attachment" "at_deletion_status old_attachment \<noteq> ''deleted''" by simp_all
  from tombstone_only_on_proof [OF run a y] run y show ?thesis by blast
qed

text \<open>
  An operation without an object key is retried for ever: its execution answers that the operation
  failed and awaits review, but what is stored is a state every later scan claims again.
\<close>

theorem missing_key_retried_forever:
  assumes "0 < lease_seconds" and "get_cleanup d i = Some r" and "cleanup_claimable now r"
    and "object_key d r \<in> {None, Some []}" and "\<not> proven_gone r"
  shows "\<exists>d' r'. cleanup_execute st now tk lease_seconds i d w = (Inr ''failed_pending_review'', d', w) \<and>
    get_cleanup d' i = Some r' \<and> so_status r' = ''retrying'' \<and> list_all (\<lambda>later. cleanup_claimable later r') laters"
proof -
  let ?c = "(tk, so_generation r + 1)"
  let ?d1 = "upd_cleanup i (claim_row lease_seconds now tk) d"
  let ?f = "fail_row now ''storage_key_missing'' m_key_missing False"
  have cl: "cleanup_claim now tk lease_seconds i d = Inr (Some ?c, ?d1)"
    using assms(1-3) by (simp add: cleanup_claim_def)
  have g1: "get_cleanup ?d1 i = Some (claim_row lease_seconds now tk r)" by (rule get_cleanup_upd [OF assms(2)]) simp
  have "mark_failure now i ?c ''storage_key_missing'' m_key_missing False ?d1 = (True, upd_cleanup i ?f ?d1)"
    unfolding mark_failure_def fenced_write_def g1 by (simp add: holds_claim_def claim_row_def)
  then have run: "cleanup_execute st now tk lease_seconds i d w = (Inr ''failed_pending_review'', upd_cleanup i ?f ?d1, w)"
    using execute_claimed [OF cl assms(2), of st w] assms(4,5) by simp
  have "get_cleanup (upd_cleanup i ?f ?d1) i = Some (?f (claim_row lease_seconds now tk r))"
    by (rule get_cleanup_upd [OF g1]) (simp add: fail_row_def)
  moreover have "so_status (?f (claim_row lease_seconds now tk r)) = ''retrying''"
    "list_all (\<lambda>later. cleanup_claimable later (?f (claim_row lease_seconds now tk r))) laters"
    by (simp_all add: fail_row_def cleanup_claimable_def list_all_iff)
  ultimately show ?thesis using run by blast
qed

theorem missing_key_retried_forever_witness:
  "\<exists>d' r'. cleanup_execute memory_store 5 (asc ''t1'') 60 (asc ''o1'')
      (empty_db\<lparr>storage_cleanup_operations := [old_cleanup\<lparr>so_storage_key := None\<rparr>]\<rparr>) [] = (Inr ''failed_pending_review'', d', []) \<and>
    get_cleanup d' (asc ''o1'') = Some r' \<and> cleanup_claimable 6 r'"
proof -
  let ?r = "old_cleanup\<lparr>so_storage_key := None\<rparr>"
  let ?d = "empty_db\<lparr>storage_cleanup_operations := [?r]\<rparr>"
  have g: "get_cleanup ?d (asc ''o1'') = Some ?r" by simp
  have c: "cleanup_claimable 5 ?r" by (simp add: cleanup_claimable_def)
  have k: "object_key ?d ?r \<in> {None, Some []}" "\<not> proven_gone ?r" by (simp_all add: object_key_def empty_db_def proven_gone_def)
  from missing_key_retried_forever [OF _ g c k, of 60 memory_store "asc ''t1''" "[]" "[6]"] show ?thesis by auto
qed

section \<open>Scrubbing\<close>

lemma scrub_again [simp]:
  "\<not> scrubbable_message c active (scrub_message p now m)" "\<not> scrubbable_notice c (scrub_notice p now n)"
  by (simp_all add: scrubbable_message_def scrub_message_def scrubbable_notice_def scrub_notice_def)

lemma active_frame [simp]:
  "active_message_ids (d\<lparr>incoming_messages := ms, notification_records := ns\<rparr>) = active_message_ids d"
  by (simp add: active_message_ids_def)

lemma map_guard_idem:
  assumes "\<And>x. \<not> ok (f x)"
  shows "filter ok (map (\<lambda>x. if ok x then f x else x) xs) = []"
    "map (\<lambda>x. if ok x then f x else x) (map (\<lambda>x. if ok x then f x else x) xs) = map (\<lambda>x. if ok x then f x else x) xs"
  by (induction xs) (auto simp: assms)

text \<open>
  Scrubbing is idempotent: a second run at the same time finds nothing to scrub and changes nothing.
\<close>

theorem scrub_idempotent:
  "scrub_expired_payloads p now (snd (scrub_expired_payloads p now d)) = ((0, 0), snd (scrub_expired_payloads p now d))"
  by (simp add: scrub_expired_payloads_def Let_def map_guard_idem)

text \<open>
  Scrubbing removes only bodies nobody needs: after a run every message is still there under its key, sender
  and sequence number, and a message that is still being worked on (by the queue, a retry, a lead not
  yet finished, a CRM or table synchronisation, an AI call or a media task), or is younger than the
  retention period, keeps its body.
\<close>

theorem scrub_keeps_needed:
  assumes "m \<in> set (incoming_messages d)"
  shows "\<exists>m'\<in>set (incoming_messages (snd (scrub_expired_payloads p now d))).
    im_message_id m' = im_message_id m \<and> im_sales_user_id m' = im_sales_user_id m \<and> im_sequence m' = im_sequence m \<and>
    (im_message_id m \<in> set (active_message_ids d) \<or> im_received_at m > now - days (rp_message_days p) \<longrightarrow> m' = m)"
proof -
  let ?ok = "scrubbable_message (now - days (rp_message_days p)) (active_message_ids d)"
  let ?m = "if ?ok m then scrub_message p now m else m"
  have "?m \<in> set (incoming_messages (snd (scrub_expired_payloads p now d)))"
    using assms by (auto simp: scrub_expired_payloads_def Let_def)
  moreover have "im_message_id ?m = im_message_id m \<and> im_sales_user_id ?m = im_sales_user_id m \<and> im_sequence ?m = im_sequence m"
    by (simp add: scrub_message_def)
  moreover have "im_message_id m \<in> set (active_message_ids d) \<or> im_received_at m > now - days (rp_message_days p) \<longrightarrow> ?m = m"
    by (auto simp: scrubbable_message_def)
  ultimately show ?thesis by blast
qed

definition recent_message :: incoming_message where
  "recent_message = \<lparr>im_message_id = asc ''m1'', im_sales_user_id = asc ''amy'', im_sequence = 1, im_raw_payload = [],
     im_normalized_text = Some (asc ''hi''), im_chat_id = None, im_chat_type = None, im_requires_media_enrichment = False,
     im_scrubbed_at = None, im_retention_policy_version = None, im_received_at = 0\<rparr>"

theorem scrub_keeps_needed_witness:
  "\<exists>m'\<in>set (incoming_messages (snd (scrub_expired_payloads example_policy 0 (empty_db\<lparr>incoming_messages := [recent_message]\<rparr>)))).
     m' = recent_message"
proof -
  have "recent_message \<in> set (incoming_messages (empty_db\<lparr>incoming_messages := [recent_message]\<rparr>))" by simp
  from scrub_keeps_needed [OF this, of example_policy 0] show ?thesis
    by (simp add: recent_message_def example_policy_def days_def)
qed

end
