(* ===== verification/Crm_Gateway.thy ===== *)
theory Crm_Gateway
  imports Failures Env Py_Re "HOL-Library.List_Lexorder" "HOL-Library.Multiset"
begin

text \<open>
  The CRM port. \<open>submit_lead\<close> of \<^verbatim>\<open>app/crm/adapter.py\<close> is implemented by \<^verbatim>\<open>SopCRMAdapter\<close>
  (\<^verbatim>\<open>app/crm/sop.py\<close>): one signed form request and a strict reading of the reply, every deviation an
  exception that carries a category. The HTTP client and the RSA signature are arguments: the client answers
  with a status and a decoded body (none when the body is not JSON) or fails, the signer maps a text to
  its signature in base64. \<^verbatim>\<open>MockCRMAdapter\<close> (\<^verbatim>\<open>app/crm/mock.py\<close>) remembers the result of each
  idempotency key. \<^verbatim>\<open>EmployeeDirectory\<close> (\<^verbatim>\<open>app/crm/employee_directory.py\<close>) turns the owner's display
  name into the CRM employee number; the rows are those of the decoded CSV file.
\<close>

datatype crm_action = CREATE | FOLLOW_UP

record crm_create_result =
  cr_crm_lead_id :: "pstr option"
  cr_crm_lead_owner_user_id :: "pstr option"
  cr_response_summary :: pstr
  cr_action :: crm_action

type_synonym 'w crm_adapter = "fields \<Rightarrow> pstr \<Rightarrow> pstr \<Rightarrow> 'w \<Rightarrow> (exn + crm_create_result) \<times> 'w"

section \<open>Duplicate messages\<close>

definition DUPLICATE_ENTITY_MESSAGE_HASHES :: "(pstr \<times> string) list" where
  "DUPLICATE_ENTITY_MESSAGE_HASHES =
     [(asc ''3e767f7522343ef3d9328eafd549855a6e1aa55829509bf29dbe75a6e4686da6b8'', ''lead'')]"

definition duplicate_entity_type_for_digest :: "pstr \<Rightarrow> string" where
  "duplicate_entity_type_for_digest digest = the_default ''unknown'' (dget digest DUPLICATE_ENTITY_MESSAGE_HASHES)"

definition classify_duplicate_entity_message :: "env \<Rightarrow> pyval \<Rightarrow> string" where
  "classify_duplicate_entity_message env message =
     (case message of
        PStr s \<Rightarrow> if length s > 1024 then ''unknown'' else duplicate_entity_type_for_digest (e_sha256 env s)
      | _ \<Rightarrow> ''unknown'')"

section \<open>The signed request\<close>

record sop_config =
  sop_url :: pstr
  sop_app_id :: pstr
  sop_token :: pstr
  sop_authorization :: "pstr option"

definition sop_init ::
  "(pstr \<Rightarrow> exc + bool) \<Rightarrow> pstr \<Rightarrow> pstr \<Rightarrow> pstr \<Rightarrow> pstr \<Rightarrow> pstr option \<Rightarrow> sop_config res" where
  "sop_init load_key url app_id token private_key authorization =
     (if list_ex (\<lambda>v. py_strip v = []) [url, app_id, token, private_key] then Inl (ValueError ''crm sop configuration'')
      else case load_key private_key of
        Inl e \<Rightarrow> Inl e
      | Inr is_rsa \<Rightarrow>
          if \<not> is_rsa then Inl (ValueError ''rsa key required'')
          else Inr \<lparr>sop_url = url, sop_app_id = app_id, sop_token = token,
                    sop_authorization = (case authorization of None \<Rightarrow> None
                      | Some a \<Rightarrow> if py_strip a = [] then None else Some (py_strip a))\<rparr>)"

definition request_params :: "env \<Rightarrow> sop_config \<Rightarrow> time \<Rightarrow> pstr \<Rightarrow> fields \<Rightarrow> (pstr \<times> pstr) list" where
  "request_params env c now method biz_content =
     [(asc ''app_id'', sop_app_id c), (asc ''method'', method), (asc ''format'', asc ''json''),
      (asc ''charset'', asc ''utf-8''), (asc ''sign_type'', asc ''RSA2''),
      (asc ''timestamp'', e_shanghai_text env now), (asc ''version'', asc ''1.0''),
      (asc ''app_auth_token'', sop_token c), (asc ''biz_content'', e_json env False biz_content)]"

definition sign_text :: "(pstr \<times> pstr) list \<Rightarrow> pstr" where
  "sign_text params =
     py_join [0x26] (map (\<lambda>(k, v). k @ [0x3D] @ v) (filter (\<lambda>(k, v). v \<noteq> []) (sort_key fst params)))"

definition request_headers :: "sop_config \<Rightarrow> (pstr \<times> pstr) list" where
  "request_headers c = (asc ''Content-Type'', asc ''application/x-www-form-urlencoded'') #
     (case sop_authorization c of None \<Rightarrow> [] | Some a \<Rightarrow> [(asc ''Authorization'', a)])"

datatype http_reply =
    Reply int "pyval option"
  | Http_Timeout
  | Http_Error
  | Http_Type_Error

type_synonym 'w http_client = "pstr \<Rightarrow> (pstr \<times> pstr) list \<Rightarrow> (pstr \<times> pstr) list \<Rightarrow> 'w \<Rightarrow> http_reply \<times> 'w"

section \<open>Reading the reply\<close>

definition sop_error :: "string \<Rightarrow> int option \<Rightarrow> pstr option \<Rightarrow> pstr option \<Rightarrow> exn" where
  "sop_error category http_status error_code sub_code =
     \<lparr>ex_type_name = asc ''SopCRMError'', ex_bases = [], ex_category = PStr (asc category),
      ex_http_status = (case http_status of None \<Rightarrow> PNone | Some s \<Rightarrow> PInt s),
      ex_sub_code = (case sub_code of None \<Rightarrow> PNone | Some s \<Rightarrow> PStr s),
      ex_error_code = (case error_code of None \<Rightarrow> PNone | Some s \<Rightarrow> PStr s),
      ex_remote_record_id = PNone, ex_external_error_code = PNone, ex_duplicate_entity_type = PNone,
      ex_text = []\<rparr>"

definition category_of_status :: "int \<Rightarrow> string" where
  "category_of_status status =
     (if status = 401 then ''authentication'' else if status \<ge> 400 then ''gateway'' else ''malformed_response'')"

fun str_or_int :: "pyval \<Rightarrow> bool" where
  "str_or_int (PStr _) = True"
| "str_or_int (PInt _) = True"
| "str_or_int (PBool _) = True"
| "str_or_int _ = False"

definition AUTH_CODES :: "string list" where
  "AUTH_CODES = [''missing-signature'', ''invalid-signature'', ''invalid-app-id'', ''invalid-timestamp'',
     ''invalid-auth-token'', ''invalid-app-auth-token'', ''aop.invalid-auth-token'', ''aop.invalid-app-auth-token'']"

definition GATEWAY_CODES :: "string list" where
  "GATEWAY_CODES = [''route-no-permissions'', ''invalid-content-type'', ''insufficient-isv-permissions'']"

definition code_text :: "env \<Rightarrow> pyval \<Rightarrow> pstr option" where
  "code_text env v = (if str_or_int v then Some (py_str env v) else None)"

definition rejection_category :: "int \<Rightarrow> pstr \<Rightarrow> fields \<Rightarrow> string" where
  "rejection_category status classification_code reply =
     (let category =
        (if list_ex (\<lambda>t. py_contains (asc t) classification_code) AUTH_CODES then ''authentication''
         else if list_ex (\<lambda>t. py_contains (asc t) classification_code) GATEWAY_CODES then ''gateway''
         else if classification_code \<noteq> [] then ''business''
         else if list_ex (\<lambda>k. dget (asc k) reply \<noteq> None) [''status'', ''message'', ''msg''] then ''gateway''
         else ''malformed_response'')
      in if status = 401 then ''authentication''
         else if status \<ge> 400 \<and> category = ''business'' then ''gateway'' else category)"

text \<open>\<^verbatim>\<open>a or b\<close> on optional texts.\<close>

definition or_text :: "pstr option \<Rightarrow> pstr option \<Rightarrow> pstr option" where
  "or_text a b = (if a = None \<or> a = Some [] then b else a)"

definition rejection :: "env \<Rightarrow> int \<Rightarrow> pyval \<Rightarrow> fields \<Rightarrow> exn" where
  "rejection env status code reply =
     (let error_code = code_text env (py_get (asc ''error_code'') reply);
          sub_code = code_text env (py_get (asc ''sub_code'') reply)
      in sop_error (rejection_category status (the_default [] (or_text sub_code (or_text error_code (Some [])))) reply)
           (Some status) (or_text error_code (code_text env code)) sub_code)"

definition read_reply :: "env \<Rightarrow> http_reply \<Rightarrow> exn + fields" where
  "read_reply env r =
     (case r of
        Http_Timeout \<Rightarrow> Inl (sop_error ''transport'' None None None)
      | Http_Error \<Rightarrow> Inl (sop_error ''transport'' None None None)
      | Http_Type_Error \<Rightarrow> Inl (sop_error ''malformed_response'' None None None)
      | Reply status None \<Rightarrow> Inl (sop_error (category_of_status status) (Some status) None None)
      | Reply status (Some (PDict reply)) \<Rightarrow>
          (let code = py_get (asc ''code'') reply
           in if \<not> str_or_int code then Inl (sop_error (category_of_status status) (Some status) None None)
              else if \<not> (py_eq code (PInt 0) \<or> py_eq code (PInt 200)) then Inl (rejection env status code reply)
              else if status \<ge> 400
              then Inl (sop_error (if status = 401 then ''authentication'' else ''gateway'') (Some status) None None)
              else case py_get (asc ''data'') reply of
                PDict data \<Rightarrow> Inr data
              | _ \<Rightarrow> Inl (sop_error ''malformed_response'' (Some status) None None))
      | Reply status (Some _) \<Rightarrow> Inl (sop_error ''malformed_response'' (Some status) None None))"

definition sop_call ::
  "env \<Rightarrow> 'w http_client \<Rightarrow> (pstr \<Rightarrow> pstr) \<Rightarrow> sop_config \<Rightarrow> time \<Rightarrow> pstr \<Rightarrow> fields \<Rightarrow> 'w \<Rightarrow> (exn + fields) \<times> 'w" where
  "sop_call env post sign c now method biz_content w =
     (let params = request_params env c now method biz_content;
          signed = params @ [(asc ''sign'', sign (sign_text params))]
      in case post (sop_url c) signed (request_headers c) w of (r, w1) \<Rightarrow> (read_reply env r, w1))"

definition read_submit_data :: "env \<Rightarrow> pstr \<Rightarrow> fields \<Rightarrow> exn + crm_create_result" where
  "read_submit_data env crm_user_id data =
     (if py_get (asc ''action'') data = PStr (asc ''CREATE'')
      then (case py_get (asc ''leadId'') data of
              PStr s \<Rightarrow>
                if py_strip s = [] then Inl (sop_error ''malformed_response'' None None None)
                else Inr \<lparr>cr_crm_lead_id = Some s, cr_crm_lead_owner_user_id = Some crm_user_id,
                          cr_response_summary = asc ''CRM submit CREATE succeeded'', cr_action = CREATE\<rparr>
            | PInt i \<Rightarrow>
                Inr \<lparr>cr_crm_lead_id = Some (str_of_int i), cr_crm_lead_owner_user_id = Some crm_user_id,
                     cr_response_summary = asc ''CRM submit CREATE succeeded'', cr_action = CREATE\<rparr>
            | _ \<Rightarrow> Inl (sop_error ''malformed_response'' None None None))
      else if py_get (asc ''action'') data = PStr (asc ''FOLLOW_UP'')
      then Inr \<lparr>cr_crm_lead_id = None, cr_crm_lead_owner_user_id = None,
                cr_response_summary = asc ''CRM submit FOLLOW_UP succeeded'', cr_action = FOLLOW_UP\<rparr>
      else Inl (sop_error ''malformed_response'' None None None))"

definition sop_submit_lead ::
  "env \<Rightarrow> 'w http_client \<Rightarrow> (pstr \<Rightarrow> pstr) \<Rightarrow> sop_config \<Rightarrow> time \<Rightarrow> 'w crm_adapter" where
  "sop_submit_lead env post sign c now payload idempotency_key crm_user_id w =
     (let body = dset (asc ''headerId'') (PStr crm_user_id)
                   (dset (asc ''requestId'') (PStr (e_sha256 env idempotency_key)) payload)
      in case sop_call env post sign c now (asc ''crm_submit_lead'') body w of
           (Inl e, w1) \<Rightarrow> (Inl e, w1)
         | (Inr data, w1) \<Rightarrow> (read_submit_data env crm_user_id data, w1))"

section \<open>The mock CRM\<close>

record mock_crm =
  mc_calls :: nat
  mc_payloads :: "fields list"
  mc_idempotency_keys :: "pstr list"
  mc_crm_user_ids :: "pstr list"
  mc_submit_calls :: nat
  mc_submit_payloads :: "fields list"
  mc_submit_results :: "(pstr \<times> crm_create_result) list"
  mc_search_results :: "(pstr \<times> pstr \<times> pstr) list"

definition empty_crm :: mock_crm where
  "empty_crm = \<lparr>mc_calls = 0, mc_payloads = [], mc_idempotency_keys = [], mc_crm_user_ids = [],
     mc_submit_calls = 0, mc_submit_payloads = [], mc_submit_results = [], mc_search_results = []\<rparr>"

definition mock_create_minimum :: "fields \<Rightarrow> bool" where
  "mock_create_minimum payload =
     (py_truthy (py_get (asc ''name'') payload) \<and>
      (py_truthy (py_get (asc ''businessLine'') payload) \<or>
       py_truthy (py_get (asc ''product_line_data_permission'') payload)) \<and>
      list_all (\<lambda>k. py_truthy (py_get (asc k) payload))
        [''source'', ''contactName'', ''contactTitle'', ''communicationWay'', ''mobile'', ''remark''])"

definition crm_value_error :: exn where
  "crm_value_error = \<lparr>ex_type_name = asc ''ValueError'', ex_bases = [C_ValueError], ex_category = PNone,
     ex_http_status = PNone, ex_sub_code = PNone, ex_error_code = PNone, ex_remote_record_id = PNone,
     ex_external_error_code = PNone, ex_duplicate_entity_type = PNone, ex_text = []\<rparr>"

definition mock_create_lead :: "env \<Rightarrow> mock_crm crm_adapter" where
  "mock_create_lead env payload idempotency_key crm_user_id w =
     (if \<not> mock_create_minimum payload then (Inl crm_value_error, w)
      else let lead_id = asc ''mock-crm-'' @ take 24 (e_sha256 env idempotency_key)
           in (Inr \<lparr>cr_crm_lead_id = Some lead_id, cr_crm_lead_owner_user_id = Some crm_user_id,
                 cr_response_summary = s_mock_created, cr_action = CREATE\<rparr>,
            w\<lparr>mc_calls := mc_calls w + 1, mc_payloads := mc_payloads w @ [payload],
              mc_idempotency_keys := mc_idempotency_keys w @ [idempotency_key],
              mc_crm_user_ids := mc_crm_user_ids w @ [crm_user_id],
              mc_search_results := (case py_get (asc ''name'') payload of
                 PStr name \<Rightarrow> dset name (lead_id, crm_user_id) (mc_search_results w) | _ \<Rightarrow> mc_search_results w)\<rparr>))"

definition mock_submit_lead :: "env \<Rightarrow> mock_crm crm_adapter" where
  "mock_submit_lead env payload idempotency_key crm_user_id w =
     (let w1 = w\<lparr>mc_submit_calls := mc_submit_calls w + 1, mc_submit_payloads := mc_submit_payloads w @ [payload]\<rparr>
      in case dget idempotency_key (mc_submit_results w) of
           Some r \<Rightarrow> (Inr r, w1)
         | None \<Rightarrow>
             (case mock_create_lead env payload idempotency_key crm_user_id w1 of
                (Inl e, w2) \<Rightarrow> (Inl e, w2)
              | (Inr c, w2) \<Rightarrow>
                  (let r = \<lparr>cr_crm_lead_id = cr_crm_lead_id c, cr_crm_lead_owner_user_id = cr_crm_lead_owner_user_id c,
                            cr_response_summary = asc ''CRM submit succeeded'', cr_action = CREATE\<rparr>
                   in (Inr r, w2\<lparr>mc_submit_results := dset idempotency_key r (mc_submit_results w2)\<rparr>))))"

text \<open>
  What the service relies on of the CRM: a request whose idempotency key has been used creates nothing new, and a
  positive answer that names a lead means that one exists under the key. \<open>made\<close> counts the leads created under a key.
\<close>

locale idempotent_crm =
  fixes ok :: "'w \<Rightarrow> bool"
    and submit :: "'w crm_adapter"
    and made :: "'w \<Rightarrow> pstr \<Rightarrow> nat"
  assumes submit_ok: "ok w \<Longrightarrow> submit p k u w = (res, w') \<Longrightarrow> ok w'"
    and submit_once: "ok w \<Longrightarrow> submit p k u w = (res, w') \<Longrightarrow>
      made w' k' = made w k' \<or> (k' = k \<and> made w k = 0 \<and> made w' k = 1)"
    and submit_made: "ok w \<Longrightarrow> submit p k u w = (Inr r, w') \<Longrightarrow> cr_crm_lead_id r \<noteq> None \<Longrightarrow> 1 \<le> made w' k"
begin

lemma made_mono: "ok w \<Longrightarrow> submit p k u w = (res, w') \<Longrightarrow> made w k' \<le> made w' k'"
  using submit_once [of w p k u res w' k'] by auto

lemma made_le_1: "ok w \<Longrightarrow> submit p k u w = (res, w') \<Longrightarrow> made w k' \<le> 1 \<Longrightarrow> made w' k' \<le> 1"
  using submit_once [of w p k u res w' k'] by auto

end

definition mock_crm_ok :: "mock_crm \<Rightarrow> bool" where
  "mock_crm_ok w = (distinct (mc_idempotency_keys w) \<and> set (mc_idempotency_keys w) = fst ` set (mc_submit_results w))"

lemma mock_submit_lead_cases:
  assumes "mock_submit_lead env p k u w = (res, w')"
  obtains (known) r where "dget k (mc_submit_results w) = Some r" "res = Inr r"
      "mc_idempotency_keys w' = mc_idempotency_keys w" "mc_submit_results w' = mc_submit_results w"
  | (rejected) e where "res = Inl e" "mc_idempotency_keys w' = mc_idempotency_keys w" "mc_submit_results w' = mc_submit_results w"
  | (made) r where "dget k (mc_submit_results w) = None" "res = Inr r"
      "mc_idempotency_keys w' = mc_idempotency_keys w @ [k]" "mc_submit_results w' = dset k r (mc_submit_results w)"
  using assms
  by (auto simp: mock_submit_lead_def mock_create_lead_def Let_def split: option.splits if_splits)

lemma dget_None_iff: "dget k d = None \<longleftrightarrow> k \<notin> fst ` set d"
  by (simp add: dget_def map_of_eq_None_iff)

lemma count_append1: "count_list (xs @ [y]) x = count_list xs x + (if x = y then 1 else 0)"
  by (induction xs) auto

interpretation mock_crm: idempotent_crm mock_crm_ok "mock_submit_lead env" "\<lambda>w. count_list (mc_idempotency_keys w)" for env
proof
  fix w w' p k u res
  assume ok: "mock_crm_ok w" and s: "mock_submit_lead env p k u w = (res, w')"
  from s show "mock_crm_ok w'"
  proof (cases rule: mock_submit_lead_cases)
    case (made r)
    then have "k \<notin> set (mc_idempotency_keys w)" using ok by (simp add: mock_crm_ok_def dget_None_iff)
    with made ok show ?thesis by (auto simp: mock_crm_ok_def dset_keys)
  qed (use ok in \<open>auto simp: mock_crm_ok_def\<close>)
  show "count_list (mc_idempotency_keys w') k' = count_list (mc_idempotency_keys w) k' \<or>
      (k' = k \<and> count_list (mc_idempotency_keys w) k = 0 \<and> count_list (mc_idempotency_keys w') k = 1)" for k'
    using s
  proof (cases rule: mock_submit_lead_cases)
    case (made r)
    then have "k \<notin> set (mc_idempotency_keys w)" using ok by (simp add: mock_crm_ok_def dget_None_iff)
    with made show ?thesis by (auto simp: count_append1 count_list_0_iff)
  qed auto
next
  fix w w' p k u r
  assume ok: "mock_crm_ok w" and s: "mock_submit_lead env p k u w = (Inr r, w')"
  from s show "1 \<le> count_list (mc_idempotency_keys w') k"
  proof (cases rule: mock_submit_lead_cases)
    case (known r')
    then have "k \<in> set (mc_idempotency_keys w)" using ok dget_None_iff [of k "mc_submit_results w"] by (auto simp: mock_crm_ok_def)
    with known show ?thesis using count_list_0_iff [of "mc_idempotency_keys w" k] by (simp add: Suc_le_eq)
  next
    case (made r')
    then show ?thesis by (simp add: count_append1)
  qed auto
qed

section \<open>The employee directory\<close>

record employee =
  em_employee_id :: pstr
  em_name :: pstr
  em_nickname :: pstr

definition directory_load :: "env \<Rightarrow> fields list \<Rightarrow> employee list option" where
  "directory_load env rows =
     (case rows of
        [] \<Rightarrow> None
      | r # _ \<Rightarrow>
          if fst ` set r \<noteq> {asc ''id'', asc ''name'', asc ''nickname''} then None
          else Some (filter (\<lambda>e. em_employee_id e \<noteq> [] \<and> (em_name e \<noteq> [] \<or> em_nickname e \<noteq> []))
                 (map (\<lambda>r. \<lparr>em_employee_id = py_strip (py_str env (py_get (asc ''id'') r)),
                            em_name = py_strip (py_str env (py_get (asc ''name'') r)),
                            em_nickname = py_strip (py_str env (py_get (asc ''nickname'') r))\<rparr>) rows)))"

text \<open>
  The pattern of the combined form of a display name, a name followed by a nickname in ASCII or full-width
  parentheses. The source repeats lazily; the nickname holds no parenthesis, so a full match is unique.
\<close>

definition open_paren :: "cp \<Rightarrow> bool" where "open_paren c = (c = 0x28 \<or> c = 0xFF08)"

definition close_paren :: "cp \<Rightarrow> bool" where "close_paren c = (c = 0x29 \<or> c = 0xFF09)"

definition combined_name_re :: re where
  "combined_name_re = Cat (Grp 1 (plus_re (Cls (\<lambda>c. c \<noteq> 0x0A))))
     (Cat (Cls open_paren) (Cat (Grp 2 (plus_re (Cls (\<lambda>c. \<not> open_paren c \<and> \<not> close_paren c)))) (Cls close_paren)))"

definition display_parts :: "pstr \<Rightarrow> pstr \<times> pstr option" where
  "display_parts normalized =
     (case re_fullmatch combined_name_re normalized of
        None \<Rightarrow> (normalized, None)
      | Some g \<Rightarrow> (py_strip (the_default [] (re_group 1 g)), Some (py_strip (the_default [] (re_group 2 g)))))"

definition sole :: "'a list \<Rightarrow> 'a option" where
  "sole xs = (case dedup xs of [x] \<Rightarrow> Some x | _ \<Rightarrow> None)"

text \<open>\<^verbatim>\<open>EmployeeDirectoryError\<close> is \<open>None\<close>.\<close>

definition directory_resolve :: "employee list \<Rightarrow> pstr \<Rightarrow> pstr option" where
  "directory_resolve es owner =
     (let normalized = py_strip owner;
          (display_name, nickname) = display_parts normalized;
          name_matches = map em_employee_id (filter (\<lambda>e. display_name \<noteq> [] \<and> display_name = em_name e) es);
          by_nickname = sole (map em_employee_id (filter (\<lambda>e. normalized \<noteq> [] \<and> normalized = em_nickname e) es))
      in case sole name_matches of
           Some i \<Rightarrow> Some i
         | None \<Rightarrow>
             if name_matches \<noteq> [] \<and> nickname \<noteq> None \<and> nickname \<noteq> Some []
             then (case sole (map em_employee_id (filter (\<lambda>e. em_employee_id e \<in> set name_matches \<and>
                     Some (em_nickname e) = nickname) es)) of
                     Some i \<Rightarrow> Some i
                   | None \<Rightarrow> by_nickname)
             else by_nickname)"

section \<open>Properties of the request\<close>

text \<open>
  The signed text does not depend on the order in which the parameters were put together: two parameter
  lists with the same entries and one value per key have the same signed text.
\<close>

theorem sign_text_canonical:
  assumes "mset ps = mset qs" and "distinct (map fst ps)"
  shows "sign_text ps = sign_text qs"
proof -
  have sets: "set ps = set qs" using assms(1) by (rule mset_eq_setD)
  have dq: "distinct (map fst qs)"
    using assms by (metis mset_map mset_eq_imp_distinct_iff)
  have "sort_key fst ps = sort_key fst qs"
    by (rule map_sorted_distinct_set_unique [where f = fst])
       (use sets dq assms(2) in \<open>auto simp: distinct_map\<close>)
  then show ?thesis by (simp add: sign_text_def)
qed


text \<open>One valid order of the same request, as a concrete instance.\<close>

theorem sign_text_canonical_witness:
  "sign_text [(asc ''b'', asc ''2''), (asc ''a'', asc ''1''), (asc ''c'', [])] = asc ''a=1&b=2''"
proof -
  have "sign_text [(asc ''b'', asc ''2''), (asc ''a'', asc ''1''), (asc ''c'', [])] =
      sign_text [(asc ''a'', asc ''1''), (asc ''b'', asc ''2''), (asc ''c'', [])]"
    by (rule sign_text_canonical) (simp_all add: add_mset_commute)
  also have "\<dots> = asc ''a=1&b=2''" by code_simp
  finally show ?thesis .
qed

section \<open>Properties of the reply\<close>

lemma duplicate_key_length: "length ''3e767f7522343ef3d9328eafd549855a6e1aa55829509bf29dbe75a6e4686da6b8'' \<noteq> 64"
  by simp

definition sop_categories :: "string list" where
  "sop_categories = [''transport'', ''authentication'', ''business'', ''gateway'', ''malformed_response'']"

definition sop_exn :: "exn \<Rightarrow> bool" where
  "sop_exn e = (ex_type_name e = asc ''SopCRMError'' \<and> ex_bases e = [] \<and>
     ex_category e \<in> PStr ` asc ` set sop_categories)"

lemma sop_error_fields [simp]:
  "ex_category (sop_error c h e s) = PStr (asc c)" "ex_bases (sop_error c h e s) = []"
  "ex_type_name (sop_error c h e s) = asc ''SopCRMError''"
  "ex_http_status (sop_error c h e s) = (case h of None \<Rightarrow> PNone | Some i \<Rightarrow> PInt i)"
  by (simp_all add: sop_error_def)

lemma sop_error_exn: "c \<in> set sop_categories \<Longrightarrow> sop_exn (sop_error c h e s)"
  by (simp add: sop_exn_def)

lemma reply_categories:
  "category_of_status status \<in> set sop_categories" "rejection_category status code reply \<in> set sop_categories"
  "sop_exn (rejection env status v reply)"
  by (auto simp: category_of_status_def rejection_category_def rejection_def sop_categories_def Let_def
      intro!: sop_error_exn)

lemma fixed_categories:
  "''transport'' \<in> set sop_categories" "''malformed_response'' \<in> set sop_categories"
  "''authentication'' \<in> set sop_categories" "''gateway'' \<in> set sop_categories"
  by (simp_all add: sop_categories_def)

lemma read_reply_exn: "read_reply env r = Inl e \<Longrightarrow> sop_exn e"
  using reply_categories fixed_categories
  by (auto simp: read_reply_def Let_def sop_error_exn split: http_reply.splits option.splits pyval.splits if_splits)

lemma read_submit_data_exn: "read_submit_data env u data = Inl e \<Longrightarrow> sop_exn e"
  using fixed_categories by (auto simp: read_submit_data_def sop_error_exn split: if_splits pyval.splits)

lemma sop_submit_lead_exn:
  "sop_submit_lead env post sign c now p k u w = (Inl e, w') \<Longrightarrow> sop_exn e"
  by (auto simp: sop_submit_lead_def sop_call_def Let_def split: prod.splits sum.splits
      dest: read_reply_exn read_submit_data_exn)

text \<open>
  Every failure of the gateway adapter is decided: the task layer classifies it as transient or as permanent,
  never as unknown. It is transient, and so repeated, exactly when the request did not get through or
  the gateway answered with a status or a code of the retryable kind.
\<close>

theorem sop_failure_decided:
  assumes "sop_submit_lead env post sign c now payload key user w = (Inl e, w')"
  shows "classify_task_failure e \<noteq> UNKNOWN \<and>
    (classify_task_failure e = TRANSIENT \<longleftrightarrow>
       ex_category e = PStr (asc ''transport'') \<or>
       (ex_category e = PStr (asc ''gateway'') \<and> gateway_category e = TRANSIENT))"
proof -
  have "sop_exn e" using sop_submit_lead_exn [OF assms] .
  then obtain c where c: "ex_category e = PStr (asc c)" "c \<in> set sop_categories" and b: "ex_bases e = []"
    by (auto simp: sop_exn_def)
  have "gateway_category e \<noteq> UNKNOWN" by (simp add: gateway_category_def Let_def)
  with c b show ?thesis
    by (auto simp: classify_task_failure_def isinstance_def sop_categories_def permanent_categories_def Let_def
        split: if_splits)
qed

theorem sop_failure_decided_witness:
  "\<exists>e w. sop_submit_lead plain_env (\<lambda>url ps hs w. (Http_Timeout, w)) id
      \<lparr>sop_url = [], sop_app_id = [], sop_token = [], sop_authorization = None\<rparr> 0 [] [] [] () = (Inl e, w) \<and>
    classify_task_failure e \<noteq> UNKNOWN"
proof -
  have h: "sop_submit_lead plain_env (\<lambda>url ps hs w. (Http_Timeout, w)) id
      \<lparr>sop_url = [], sop_app_id = [], sop_token = [], sop_authorization = None\<rparr> 0 [] [] [] () =
    (Inl (sop_error ''transport'' None None None), ())"
    by (simp add: sop_submit_lead_def sop_call_def Let_def read_reply_def)
  from sop_failure_decided [OF h] h show ?thesis by blast
qed

text \<open>
  A submission counts as successful only on a positive reply: the status is below 400, the reply's code is
  0 or 200, and its data names the action; a creation has a lead number that is not blank and belongs to the
  submitting user, a follow-up has neither.
\<close>

theorem sop_success_sound:
  assumes "sop_submit_lead env post sign c now payload key user w = (Inr r, w')"
  shows "\<exists>ps hs status reply data. post (sop_url c) ps hs w = (Reply status (Some (PDict reply)), w') \<and> status < 400 \<and>
    (py_eq (py_get (asc ''code'') reply) (PInt 0) \<or> py_eq (py_get (asc ''code'') reply) (PInt 200)) \<and>
    py_get (asc ''data'') reply = PDict data \<and>
    (case cr_action r of
       CREATE \<Rightarrow> py_get (asc ''action'') data = PStr (asc ''CREATE'') \<and> cr_crm_lead_owner_user_id r = Some user \<and>
         (\<exists>i. cr_crm_lead_id r = Some i \<and> i \<noteq> [])
     | FOLLOW_UP \<Rightarrow> py_get (asc ''action'') data = PStr (asc ''FOLLOW_UP'') \<and>
         cr_crm_lead_id r = None \<and> cr_crm_lead_owner_user_id r = None)"
proof -
  obtain ps hs rep data where post: "post (sop_url c) ps hs w = (rep, w')"
    and rep: "read_reply env rep = Inr data" and data: "read_submit_data env user data = Inr r"
    using assms by (auto simp: sop_submit_lead_def sop_call_def Let_def split: prod.splits sum.splits)
  obtain status reply where "rep = Reply status (Some (PDict reply))" "status < 400"
      "py_eq (py_get (asc ''code'') reply) (PInt 0) \<or> py_eq (py_get (asc ''code'') reply) (PInt 200)"
      "py_get (asc ''data'') reply = PDict data"
    using rep by (auto simp: read_reply_def Let_def split: http_reply.splits option.splits pyval.splits if_splits)
  moreover have "str_of_int i \<noteq> []" for i by (simp add: str_of_int_def)
  then have "case cr_action r of
       CREATE \<Rightarrow> py_get (asc ''action'') data = PStr (asc ''CREATE'') \<and> cr_crm_lead_owner_user_id r = Some user \<and>
         (\<exists>i. cr_crm_lead_id r = Some i \<and> i \<noteq> [])
     | FOLLOW_UP \<Rightarrow> py_get (asc ''action'') data = PStr (asc ''FOLLOW_UP'') \<and>
         cr_crm_lead_id r = None \<and> cr_crm_lead_owner_user_id r = None"
    using data by (auto simp: read_submit_data_def split: if_splits pyval.splits)
  ultimately show ?thesis using post by blast
qed

definition good_reply :: pyval where
  "good_reply = PDict [(asc ''code'', PInt 0), (asc ''data'', PDict [(asc ''action'', PStr (asc ''CREATE'')), (asc ''leadId'', PInt 42)])]"

theorem sop_success_sound_witness:
  "\<exists>r. sop_submit_lead plain_env (\<lambda>url ps hs w. (Reply 200 (Some good_reply), w)) id
      \<lparr>sop_url = [], sop_app_id = [], sop_token = [], sop_authorization = None\<rparr> 0 [] [] (asc ''7'') () = (Inr r, ()) \<and>
    cr_crm_lead_owner_user_id r = Some (asc ''7'')"
proof -
  obtain r where r: "sop_submit_lead plain_env (\<lambda>url ps hs w. (Reply 200 (Some good_reply), w)) id
      \<lparr>sop_url = [], sop_app_id = [], sop_token = [], sop_authorization = None\<rparr> 0 [] [] (asc ''7'') () = (Inr r, ())"
      "cr_action r = CREATE"
    by (simp add: sop_submit_lead_def sop_call_def Let_def read_reply_def good_reply_def py_get_def dget_def
        read_submit_data_def)
  from sop_success_sound [OF r(1)] r show ?thesis by auto
qed

text \<open>
  The only entry of the table of known duplicate messages has 66 characters, so no SHA-256 digest, which has
  64, ever equals it: every duplicate message is classified as unknown.
\<close>

theorem duplicate_table_never_matches:
  assumes "\<And>s. length (e_sha256 env s) = 64"
  shows "classify_duplicate_entity_message env message = ''unknown''"
proof -
  have "dget (e_sha256 env s) DUPLICATE_ENTITY_MESSAGE_HASHES = None" for s
  proof -
    have "e_sha256 env s \<noteq> asc ''3e767f7522343ef3d9328eafd549855a6e1aa55829509bf29dbe75a6e4686da6b8''"
      using assms [of s] by (metis length_asc duplicate_key_length)
    then show ?thesis by (simp add: dget_def DUPLICATE_ENTITY_MESSAGE_HASHES_def)
  qed
  then show ?thesis
    by (simp add: classify_duplicate_entity_message_def duplicate_entity_type_for_digest_def split: pyval.splits)
qed

theorem duplicate_table_never_matches_witness:
  "classify_duplicate_entity_message (plain_env\<lparr>e_sha256 := \<lambda>_. replicate 64 0x61\<rparr>) (PStr (asc ''x'')) = ''unknown''"
  by (rule duplicate_table_never_matches) simp


section \<open>Properties of the directory\<close>

lemma sole_Some: "sole xs = Some x \<longleftrightarrow> set xs = {x}"
proof
  assume "sole xs = Some x"
  then have "dedup xs = [x]" by (auto simp: sole_def split: list.splits)
  then show "set xs = {x}" by (metis set_dedup empty_set list.simps(15))
next
  assume "set xs = {x}"
  then have d: "set (dedup xs) = {x}" "length (dedup xs) = 1"
    using distinct_card [OF distinct_dedup, of xs] by simp_all
  then have "dedup xs = [x]" by (cases "dedup xs") auto
  then show "sole xs = Some x" by (simp add: sole_def)
qed

definition named_like :: "pstr \<Rightarrow> employee \<Rightarrow> bool" where
  "named_like owner e =
     (let n = fst (display_parts (py_strip owner)) in n \<noteq> [] \<and> em_name e = n)"

definition nicknamed_like :: "pstr \<Rightarrow> employee \<Rightarrow> bool" where
  "nicknamed_like owner e = (py_strip owner \<noteq> [] \<and> em_nickname e = py_strip owner)"

text \<open>
  The directory never guesses: an employee number it returns is that of an employee whose name is the name
  part of the display name or whose nickname is the whole of it, and no other employee's number fits as well.
  Either all employees of that name have it, or the name is shared and the nickname picks it out
  among them, or all employees of that nickname have it.
\<close>

theorem directory_resolve_sound:
  assumes "directory_resolve es owner = Some i"
  shows "(\<exists>e\<in>set es. em_employee_id e = i \<and> (named_like owner e \<or> nicknamed_like owner e \<or>
       Some (em_nickname e) = snd (display_parts (py_strip owner)))) \<and>
    ((\<forall>e\<in>set es. named_like owner e \<longrightarrow> em_employee_id e = i) \<or>
     (\<forall>e\<in>set es. named_like owner e \<and> Some (em_nickname e) = snd (display_parts (py_strip owner)) \<longrightarrow> em_employee_id e = i) \<or>
     (\<forall>e\<in>set es. nicknamed_like owner e \<longrightarrow> em_employee_id e = i))"
proof -
  obtain dn nick where parts: "display_parts (py_strip owner) = (dn, nick)" by (cases "display_parts (py_strip owner)")
  let ?names = "map em_employee_id (filter (\<lambda>e. dn \<noteq> [] \<and> dn = em_name e) es)"
  let ?nicks = "map em_employee_id (filter (\<lambda>e. em_employee_id e \<in> set ?names \<and> Some (em_nickname e) = nick) es)"
  let ?by = "map em_employee_id (filter (\<lambda>e. py_strip owner \<noteq> [] \<and> py_strip owner = em_nickname e) es)"
  have "sole ?names = Some i \<or> sole ?nicks = Some i \<or> sole ?by = Some i"
    using assms parts by (auto simp: directory_resolve_def Let_def split: option.splits if_splits)
  then have "set ?names = {i} \<or> set ?nicks = {i} \<or> set ?by = {i}" unfolding sole_Some .
  then show ?thesis
  proof (elim disjE)
    assume h: "set ?names = {i}"
    have "i \<in> set ?names" unfolding h by simp
    then have "\<exists>e\<in>set es. em_employee_id e = i \<and> named_like owner e"
      using parts by (auto simp: named_like_def Let_def)
    moreover have "\<forall>e\<in>set es. named_like owner e \<longrightarrow> em_employee_id e = i"
      using h parts by (auto simp: named_like_def Let_def)
    ultimately show ?thesis by blast
  next
    assume h: "set ?nicks = {i}"
    have "i \<in> set ?nicks" unfolding h by simp
    then have "\<exists>e\<in>set es. em_employee_id e = i \<and> Some (em_nickname e) = nick" by auto
    moreover have "\<forall>e\<in>set es. named_like owner e \<and> Some (em_nickname e) = nick \<longrightarrow> em_employee_id e = i"
      using h parts by (fastforce simp: named_like_def Let_def)
    ultimately show ?thesis using parts by auto
  next
    assume h: "set ?by = {i}"
    have "i \<in> set ?by" unfolding h by simp
    then have "\<exists>e\<in>set es. em_employee_id e = i \<and> nicknamed_like owner e"
      by (auto simp: nicknamed_like_def)
    moreover have "\<forall>e\<in>set es. nicknamed_like owner e \<longrightarrow> em_employee_id e = i"
      using h by (auto simp: nicknamed_like_def)
    ultimately show ?thesis by blast
  qed
qed

definition two_lis :: "employee list" where
  "two_lis = [\<lparr>em_employee_id = asc ''1'', em_name = asc ''Li'', em_nickname = asc ''a''\<rparr>,
              \<lparr>em_employee_id = asc ''2'', em_name = asc ''Li'', em_nickname = asc ''b''\<rparr>]"

theorem directory_resolve_sound_witness:
  "directory_resolve two_lis (asc ''Li (b)'') = Some (asc ''2'') \<and>
   (\<exists>e\<in>set two_lis. em_employee_id e = asc ''2'')"
proof -
  have h: "directory_resolve two_lis (asc ''Li (b)'') = Some (asc ''2'')" by code_simp
  from h directory_resolve_sound [OF h] show ?thesis by blast
qed

text \<open>
  A combined display name whose nickname contradicts the directory is not rejected when the name alone is
  unique: the employee of that name is returned.
\<close>

theorem directory_ignores_wrong_nickname:
  "directory_resolve [\<lparr>em_employee_id = asc ''1'', em_name = asc ''Li'', em_nickname = asc ''a''\<rparr>] (asc ''Li(b)'') =
   Some (asc ''1'')"
  by code_simp

end
