(* ===== verification/Crm_Payload.thy ===== *)
theory Crm_Payload
  imports Env Vocab
begin

text \<open>
  \<^verbatim>\<open>app/crm/payload.py\<close>: the translation of a table row into the fields of the CRM interface. Labels become
  the numbers of the CRM dictionaries, dates and the entry time fixed text forms, the remark gets its
  prefix and is held to the length the interface accepts; a value that has no sure translation
  is an error, never a guess. \<^verbatim>\<open>CrmEnumMappingError\<close> is the constructor \<open>Enum_Missing\<close>, every other
  \<^verbatim>\<open>CrmPayloadError\<close> is \<open>Payload_Invalid\<close>, and \<open>Unhashable\<close> is the \<^verbatim>\<open>TypeError\<close> of testing an unhashable value
  for membership in a set.
\<close>

datatype payload_error = Enum_Missing pstr pyval | Payload_Invalid pstr | Unhashable

definition CRM_FIELD_NAMES :: "(pstr \<times> string) list" where
  "CRM_FIELD_NAMES =
     [(f_business_line, ''businessLine''), (f_lead_name, ''name''), (f_lead_source, ''source''),
      (f_contact, ''contactName''), (f_title, ''contactTitle''), (f_comm_way, ''communicationWay''),
      (f_mobile, ''mobile''), (f_phone, ''telephone''), (f_email, ''email''), (f_industry, ''industry''),
      (f_level, ''customer_level''), (f_process, ''process''), (f_next_contact, ''contactDate''),
      (f_entry_time, ''entryTime''), (f_remark, ''remark''), (f_international, ''isInternational'')]"

type_synonym dictionary = "(pstr \<times> int) list"

definition BUSINESS_LINE_IDS :: dictionary where
  "BUSINESS_LINE_IDS = [(v_cobot, 1), (k_line_2, 2)]"

definition LEAD_SOURCE_IDS :: dictionary where
  "LEAD_SOURCE_IDS =
     [(k_source_1, 1), (k_source_2, 2), (k_source_3, 3), (k_source_4, 4), (k_source_5, 5), (k_source_6, 6),
      (k_source_7, 7), (k_source_8, 8), (k_source_9, 9), (k_source_10, 10), (k_source_11, 11),
      (k_source_12, 12), (k_source_13, 13), (k_source_14, 14), (k_source_15, 15)]"

definition INDUSTRY_IDS :: dictionary where
  "INDUSTRY_IDS =
     [(k_industry_1, 1), (k_industry_2, 2), (k_industry_3, 3), (k_industry_4, 4), (k_industry_5, 5),
      (k_industry_6, 6), (k_industry_7, 7), (k_industry_8, 8), (k_industry_9, 9), (k_industry_10, 10),
      (k_industry_11, 11), (k_industry_12, 12), (k_industry_13, 13), (k_industry_14, 14),
      (k_industry_15, 15), (k_industry_16, 16), (v_other, 17)]"

definition COMMUNICATION_WAY_IDS :: dictionary where
  "COMMUNICATION_WAY_IDS =
     [(k_way_1, 1), (k_way_2, 2), (k_way_3, 3), (k_way_4, 4), (v_activity, 5), (k_way_6, 6), (k_way_7, 7),
      (k_way_8, 8), (k_way_100, 100), (k_way_200, 200), (k_way_300, 300)]"

definition PROCESS_IDS :: dictionary where
  "PROCESS_IDS =
     [(k_process_1, 1), (k_process_2, 2), (k_process_3, 3), (k_process_4, 4), (k_process_5, 5),
      (k_process_6, 6), (k_process_7, 7), (k_process_8, 8), (k_process_9, 9), (k_process_10, 10),
      (k_process_11, 11), (k_process_12, 12), (k_process_13, 13), (v_other, 14)]"

datatype level_scheme = Legacy | Current

definition CUSTOMER_LEVEL_IDS :: "level_scheme \<Rightarrow> dictionary" where
  "CUSTOMER_LEVEL_IDS s = (case s of
     Legacy \<Rightarrow> [(k_level_key, 1), (k_level_normal, 2), (k_level_low, 3)]
   | Current \<Rightarrow> [(k_level_key, 10000), (k_level_normal, 9000), (k_level_low, 8000)])"

definition dictionary_value :: "pstr \<Rightarrow> pyval \<Rightarrow> dictionary \<Rightarrow> payload_error + pyval" where
  "dictionary_value field_name v options =
     (case v of
        PStr s \<Rightarrow> (case dget s options of None \<Rightarrow> Inl (Enum_Missing field_name v) | Some i \<Rightarrow> Inr (PInt i))
      | _ \<Rightarrow> Inl (Enum_Missing field_name v))"

fun dictionary_values :: "pstr \<Rightarrow> pyval list \<Rightarrow> dictionary \<Rightarrow> payload_error + pyval list" where
  "dictionary_values field_name [] options = Inr []"
| "dictionary_values field_name (v # vs) options =
     (case dictionary_value field_name v options of
        Inl e \<Rightarrow> Inl e
      | Inr i \<Rightarrow> (case dictionary_values field_name vs options of Inl e \<Rightarrow> Inl e | Inr is \<Rightarrow> Inr (i # is)))"

text \<open>\<^verbatim>\<open>str.replace\<close> of one character by a text.\<close>

definition replace_chr :: "cp \<Rightarrow> pstr \<Rightarrow> pstr \<Rightarrow> pstr" where
  "replace_chr c t s = concat (map (\<lambda>x. if x = c then t else [x]) s)"

definition day_of :: "int \<Rightarrow> int" where
  "day_of wall = wall div days 1"

definition date_value :: "env \<Rightarrow> pyval \<Rightarrow> payload_error + pyval" where
  "date_value env v =
     (case v of
        PTime t \<Rightarrow> Inr (PStr (e_date_iso env (day_of t)))
      | PNaive t \<Rightarrow> Inr (PStr (e_date_iso env (day_of t)))
      | PDate n \<Rightarrow> Inr (PStr (e_date_iso env n))
      | PStr s \<Rightarrow>
          (let normalized = replace_chr 0x2F [0x2D] (py_strip s)
           in case e_parse_datetime env (replace_chr 0x5A (asc ''+00:00'') normalized) of
                Some (Aware t wall) \<Rightarrow> Inr (PStr (e_date_iso env (day_of wall)))
              | Some (Naive wall) \<Rightarrow> Inr (PStr (e_date_iso env (day_of wall)))
              | None \<Rightarrow>
                  (case e_date_from_iso env normalized of
                     Some n \<Rightarrow> Inr (PStr (e_date_iso env n))
                   | None \<Rightarrow> Inl (Payload_Invalid f_next_contact)))
      | _ \<Rightarrow> Inl (Payload_Invalid f_next_contact))"

definition entry_time_value :: "env \<Rightarrow> pyval \<Rightarrow> payload_error + pyval" where
  "entry_time_value env v =
     (case v of
        PTime t \<Rightarrow> Inr (PStr (e_minute_text env (e_shanghai_local env t)))
      | PNaive t \<Rightarrow> Inr (PStr (e_minute_text env t))
      | PDate n \<Rightarrow> Inr (PStr (e_minute_text env (days n)))
      | PStr s \<Rightarrow>
          (case e_parse_datetime env (replace_chr 0x5A (asc ''+00:00'') (replace_chr 0x2F [0x2D] (py_strip s))) of
             Some (Aware t wall) \<Rightarrow> Inr (PStr (e_minute_text env (e_shanghai_local env t)))
           | Some (Naive wall) \<Rightarrow> Inr (PStr (e_minute_text env wall))
           | None \<Rightarrow> Inl (Payload_Invalid f_entry_time))
      | _ \<Rightarrow> Inl (Payload_Invalid f_entry_time))"

definition remark_value :: "pyval \<Rightarrow> payload_error + pyval" where
  "remark_value v =
     (case v of
        PStr s \<Rightarrow>
          (let stripped = py_strip s;
               remark = (if prefix r_ai_prefix stripped then stripped else r_ai_prefix @ stripped)
           in if 30 \<le> length remark \<and> length remark \<le> 1000 then Inr (PStr remark)
              else Inl (Payload_Invalid f_remark))
      | _ \<Rightarrow> Inl (Payload_Invalid f_remark))"

fun unhashable :: "pyval \<Rightarrow> bool" where
  "unhashable (PList _) = True"
| "unhashable (PDict _) = True"
| "unhashable _ = False"

definition international_value :: "pyval \<Rightarrow> payload_error + pyval" where
  "international_value v =
     (if unhashable v then Inl Unhashable
      else if \<not> list_ex (py_eq v) [PStr v_domestic, PStr v_foreign, PBool True, PBool False]
      then Inl (Payload_Invalid f_international)
      else Inr (PBool (py_eq v (PStr v_foreign) \<or> v = PBool True)))"

definition convert_field :: "env \<Rightarrow> level_scheme \<Rightarrow> pstr \<Rightarrow> pyval \<Rightarrow> payload_error + pyval" where
  "convert_field env scheme field_name v =
     (if field_name = f_business_line then dictionary_value field_name v BUSINESS_LINE_IDS
      else if field_name = f_lead_source then dictionary_value field_name v LEAD_SOURCE_IDS
      else if field_name = f_industry then dictionary_value field_name v INDUSTRY_IDS
      else if field_name = f_comm_way then dictionary_value field_name v COMMUNICATION_WAY_IDS
      else if field_name = f_level then dictionary_value field_name v (CUSTOMER_LEVEL_IDS scheme)
      else if field_name = f_process
      then (case dictionary_values field_name (case v of PList xs \<Rightarrow> xs | _ \<Rightarrow> [v]) PROCESS_IDS of
              Inl e \<Rightarrow> Inl e | Inr is \<Rightarrow> Inr (PList is))
      else if field_name = f_international then international_value v
      else if field_name = f_next_contact then date_value env v
      else if field_name = f_entry_time then entry_time_value env v
      else if field_name = f_remark then remark_value v
      else (case v of PStr s \<Rightarrow> Inr (PStr (py_strip s)) | _ \<Rightarrow> Inl (Payload_Invalid field_name)))"

fun build_fields :: "env \<Rightarrow> level_scheme \<Rightarrow> fields \<Rightarrow> (pstr \<times> string) list \<Rightarrow> payload_error + fields" where
  "build_fields env scheme flds [] = Inr []"
| "build_fields env scheme flds ((field_name, crm_name) # ns) =
     (let v = py_get field_name flds
      in if blank3 v then build_fields env scheme flds ns
         else case convert_field env scheme field_name v of
           Inl e \<Rightarrow> Inl e
         | Inr x \<Rightarrow> (case build_fields env scheme flds ns of Inl e \<Rightarrow> Inl e | Inr p \<Rightarrow> Inr ((asc crm_name, x) # p)))"

definition set_default :: "pstr \<Rightarrow> pyval \<Rightarrow> fields \<Rightarrow> fields" where
  "set_default k v d = (if dget k d = None then dset k v d else d)"

definition payload_build :: "env \<Rightarrow> level_scheme \<Rightarrow> fields \<Rightarrow> pstr option \<Rightarrow> payload_error + fields" where
  "payload_build env scheme flds tyc_customer_id =
     (case build_fields env scheme flds CRM_FIELD_NAMES of
        Inl e \<Rightarrow> Inl e
      | Inr p0 \<Rightarrow>
          (let p = set_default (asc ''isInternational'') (PBool False) p0
           in case tyc_customer_id of
                Some t \<Rightarrow> if t \<noteq> [] \<and> py_get (asc ''isInternational'') p \<noteq> PBool True
                          then Inr (dset (asc ''tycCustomerId'') (PStr (py_strip t)) p) else Inr p
              | None \<Rightarrow> Inr p))"

section \<open>What a built payload looks like\<close>

definition ids :: "dictionary \<Rightarrow> pyval list" where
  "ids options = map (PInt \<circ> snd) options"

definition dictionary_for :: "level_scheme \<Rightarrow> pstr \<Rightarrow> dictionary option" where
  "dictionary_for scheme k =
     map_of [(asc ''businessLine'', BUSINESS_LINE_IDS), (asc ''source'', LEAD_SOURCE_IDS),
       (asc ''industry'', INDUSTRY_IDS), (asc ''communicationWay'', COMMUNICATION_WAY_IDS),
       (asc ''customer_level'', CUSTOMER_LEVEL_IDS scheme)] k"

definition entry_ok :: "level_scheme \<Rightarrow> pstr \<times> pyval \<Rightarrow> bool" where
  "entry_ok scheme e =
     (case e of (k, v) \<Rightarrow>
        (case dictionary_for scheme k of
           Some options \<Rightarrow> v \<in> set (ids options)
         | None \<Rightarrow>
             if k = asc ''process'' then (case v of PList is \<Rightarrow> set is \<subseteq> set (ids PROCESS_IDS) | _ \<Rightarrow> False)
             else if k = asc ''isInternational'' then v = PBool True \<or> v = PBool False
             else if k = asc ''remark'' then
               (case v of PStr s \<Rightarrow> prefix r_ai_prefix s \<and> 30 \<le> length s \<and> length s \<le> 1000 | _ \<Rightarrow> False)
             else is_str v))"

lemma dictionary_value_InrD:
  "dictionary_value f v options = Inr x \<Longrightarrow> x \<in> set (ids options)"
  by (force simp: dictionary_value_def dget_def ids_def split: pyval.splits option.splits dest: map_of_SomeD)

lemma dictionary_values_InrD:
  "dictionary_values f vs options = Inr xs \<Longrightarrow> set xs \<subseteq> set (ids options)"
  by (induction vs arbitrary: xs) (auto split: sum.splits dest!: dictionary_value_InrD)

lemma convert_text:
  "date_value env v = Inr x \<Longrightarrow> is_str x" "entry_time_value env v = Inr x \<Longrightarrow> is_str x"
  "(case v of PStr s \<Rightarrow> Inr (PStr (py_strip s)) | _ \<Rightarrow> Inl e) = Inr x \<Longrightarrow> is_str x"
  by (auto simp: date_value_def entry_time_value_def Let_def
      split: pyval.splits option.splits parsed_datetime.splits)

lemma remark_value_InrD:
  "remark_value v = Inr x \<Longrightarrow>
     \<exists>s. x = PStr s \<and> prefix r_ai_prefix s \<and> 30 \<le> length s \<and> length s \<le> 1000"
  by (auto simp: remark_value_def Let_def split: pyval.splits if_splits)

lemma international_value_InrD: "international_value v = Inr x \<Longrightarrow> \<exists>b. x = PBool b"
  by (auto simp: international_value_def split: if_splits)

lemmas crm_names_defs = CRM_FIELD_NAMES_def dictionary_for_def vocab

lemma convert_field_ok:
  assumes n: "(field_name, crm_name) \<in> set CRM_FIELD_NAMES"
    and c: "convert_field env scheme field_name v = Inr x"
  shows "entry_ok scheme (asc crm_name, x)"
  using n c unfolding CRM_FIELD_NAMES_def
  by (simp only: list.set insert_iff empty_iff prod.inject simp_thms)
     (elim disjE conjE; simp add: convert_field_def entry_ok_def dictionary_for_def vocab
       dictionary_value_InrD convert_text; fastforce split: sum.splits
       dest: dictionary_values_InrD international_value_InrD remark_value_InrD)

lemma build_fields_ok:
  "build_fields env scheme flds ns = Inr p \<Longrightarrow> set ns \<subseteq> set CRM_FIELD_NAMES \<Longrightarrow>
     list_all (entry_ok scheme) p \<and> fst ` set p \<subseteq> (\<lambda>n. asc (snd n)) ` set ns \<and>
     (distinct (map (\<lambda>n. asc (snd n)) ns) \<longrightarrow> distinct (map fst p))"
proof (induction ns arbitrary: p)
  case Nil
  then show ?case by simp
next
  case (Cons a ns)
  obtain f c where a: "a = (f, c)" by (cases a)
  show ?case
  proof (cases "blank3 (py_get f flds)")
    case True
    with Cons a show ?thesis by auto
  next
    case False
    with Cons.prems(1) a obtain x q where x: "convert_field env scheme f (py_get f flds) = Inr x"
      and q: "build_fields env scheme flds ns = Inr q" and p: "p = (asc c, x) # q"
      by (auto simp: Let_def split: sum.splits)
    have "entry_ok scheme (asc c, x)" using convert_field_ok [OF _ x] Cons.prems(2) a by auto
    moreover have "list_all (entry_ok scheme) q \<and> fst ` set q \<subseteq> (\<lambda>n. asc (snd n)) ` set ns \<and>
       (distinct (map (\<lambda>n. asc (snd n)) ns) \<longrightarrow> distinct (map fst q))"
      using Cons.IH [OF q] Cons.prems(2) by auto
    ultimately show ?thesis using p a by auto
  qed
qed

lemma crm_names_distinct: "distinct (map (\<lambda>n. asc (snd n)) CRM_FIELD_NAMES)"
  by (simp add: CRM_FIELD_NAMES_def)

lemma dset_all:
  "list_all (entry_ok scheme) p \<Longrightarrow> entry_ok scheme (k, v) \<Longrightarrow> list_all (entry_ok scheme) (dset k v p)"
  by (induction k v p rule: dset.induct) auto

text \<open>
  C18. Every payload the builder returns has the shape the CRM interface expects: each key occurs once; the five
  dictionary fields hold numbers of their dictionaries and the process field a list of such numbers; the
  international flag is present and a boolean; the remark carries the prefix and has 30 to 1000
  characters; every other entry is a text. The company register's number is sent only with a
  domestic customer.
\<close>

theorem payload_well_typed:
  assumes "payload_build env scheme flds tyc = Inr p"
  shows "distinct (map fst p) \<and> list_all (entry_ok scheme) p \<and>
    (\<exists>b. dget (asc ''isInternational'') p = Some (PBool b) \<and> (b \<longrightarrow> dget (asc ''tycCustomerId'') p = None))"
proof -
  obtain p0 where p0: "build_fields env scheme flds CRM_FIELD_NAMES = Inr p0"
    using assms by (auto simp: payload_build_def split: sum.splits)
  have ok: "list_all (entry_ok scheme) p0" and dis: "distinct (map fst p0)"
    and sub: "fst ` set p0 \<subseteq> (\<lambda>n. asc (snd n)) ` set CRM_FIELD_NAMES"
    using build_fields_ok [OF p0] crm_names_distinct by auto
  then have tyc: "dget (asc ''tycCustomerId'') p0 = None"
    by (force simp: dget_def map_of_eq_None_iff CRM_FIELD_NAMES_def)
  let ?p1 = "set_default (asc ''isInternational'') (PBool False) p0"
  have flag: "entry_ok scheme (asc ''isInternational'', PBool False)"
    by (simp add: entry_ok_def dictionary_for_def)
  have p1: "list_all (entry_ok scheme) ?p1" "distinct (map fst ?p1)" "dget (asc ''tycCustomerId'') ?p1 = None"
    using ok dis tyc dset_all [OF ok flag] by (auto simp: set_default_def dset_distinct)
  have "\<exists>v. dget (asc ''isInternational'') ?p1 = Some v" by (auto simp: set_default_def)
  then obtain v where v: "dget (asc ''isInternational'') ?p1 = Some v" ..
  then have "entry_ok scheme (asc ''isInternational'', v)"
    using p1(1) unfolding dget_def list_all_iff by (blast dest: map_of_SomeD)
  then obtain b where b: "v = PBool b" by (auto simp: entry_ok_def dictionary_for_def)
  have tycid: "entry_ok scheme (asc ''tycCustomerId'', PStr t)" for t
    by (simp add: entry_ok_def dictionary_for_def)
  show ?thesis
    using assms p0 p1 v b dset_all [OF p1(1) tycid]
    by (auto simp: payload_build_def Let_def py_get_def dset_distinct split: option.splits if_splits)
qed


definition example_row :: fields where
  "example_row =
     [(f_business_line, PStr v_cobot), (f_lead_name, PStr (asc ''  ACME  '')), (f_industry, PStr v_other),
      (f_process, PList [PStr k_process_1, PStr v_other]), (f_entry_time, PTime 7),
      (f_remark, PStr (replicate 40 0x78)), (f_international, PStr v_foreign)]"

definition example_payload :: fields where
  "example_payload =
     [(asc ''businessLine'', PInt 1), (asc ''name'', PStr (asc ''ACME'')), (asc ''industry'', PInt 17),
      (asc ''process'', PList [PInt 1, PInt 14]), (asc ''entryTime'', PStr (asc ''7'')),
      (asc ''remark'', PStr (r_ai_prefix @ replicate 40 0x78)), (asc ''isInternational'', PBool True)]"

lemma example_payload_built: "payload_build plain_env Current example_row (Some (asc ''t1'')) = Inr example_payload"
  by code_simp

theorem payload_well_typed_witness: "list_all (entry_ok Current) example_payload"
  using payload_well_typed [OF example_payload_built] by blast

section \<open>The dictionaries are codes\<close>

definition label_of :: "dictionary \<Rightarrow> int \<Rightarrow> pstr option" where
  "label_of options i = map_of (map (\<lambda>(s, j). (j, s)) options) i"

definition crm_dictionaries :: "dictionary list" where
  "crm_dictionaries = [BUSINESS_LINE_IDS, LEAD_SOURCE_IDS, INDUSTRY_IDS, COMMUNICATION_WAY_IDS, PROCESS_IDS,
     CUSTOMER_LEVEL_IDS Legacy, CUSTOMER_LEVEL_IDS Current]"

lemma dictionary_codes: "list_all (\<lambda>options. distinct (map fst options) \<and> distinct (map snd options)) crm_dictionaries"
  by code_simp

lemma label_of_value:
  assumes "distinct (map snd options)" and "dget s options = Some i"
  shows "label_of options i = Some s"
proof -
  have "(s, i) \<in> set options" using assms(2) by (auto simp: dget_def dest: map_of_SomeD)
  then have "(i, s) \<in> set (map (\<lambda>(s, j). (j, s)) options)" by force
  moreover have "distinct (map fst (map (\<lambda>(s, j). (j, s)) options))"
    using assms(1) by (simp add: comp_def case_prod_unfold)
  ultimately show ?thesis by (simp add: label_of_def)
qed

text \<open>
  The translation of a label into a number of a CRM dictionary loses nothing: in each of the dictionaries,
  in both versions of the customer levels, the number determines the label it came from.
\<close>

theorem dictionary_roundtrip:
  assumes "options \<in> set crm_dictionaries" and "dictionary_value field_name v options = Inr (PInt i)"
  shows "\<exists>s. v = PStr s \<and> label_of options i = Some s"
proof -
  obtain s where "v = PStr s" "dget s options = Some i"
    using assms(2) by (auto simp: dictionary_value_def split: pyval.splits option.splits)
  moreover have "distinct (map snd options)"
    using dictionary_codes assms(1) by (simp add: list_all_iff)
  ultimately show ?thesis using label_of_value by blast
qed

theorem dictionary_roundtrip_witness: "label_of INDUSTRY_IDS 17 = Some v_other"
proof -
  have "INDUSTRY_IDS \<in> set crm_dictionaries" by (simp add: crm_dictionaries_def)
  moreover have "dictionary_value f_industry (PStr v_other) INDUSTRY_IDS = Inr (PInt 17)" by code_simp
  ultimately show ?thesis using dictionary_roundtrip by blast
qed

section \<open>What the payload depends on\<close>

lemma build_fields_cong:
  "(\<And>n c. (n, c) \<in> set ns \<Longrightarrow> py_get n f = py_get n g) \<Longrightarrow>
     build_fields env scheme f ns = build_fields env scheme g ns"
proof (induction ns)
  case (Cons a ns)
  obtain n c where a: "a = (n, c)" by (cases a)
  have "py_get n f = py_get n g" using Cons.prems [of n c] a by simp
  moreover have "build_fields env scheme f ns = build_fields env scheme g ns"
    using Cons.prems by (intro Cons.IH) auto
  ultimately show ?case using a by (simp only: build_fields.simps)
qed simp

lemma payload_build_cong:
  "(\<And>n c. (n, c) \<in> set CRM_FIELD_NAMES \<Longrightarrow> py_get n f = py_get n g) \<Longrightarrow>
     payload_build env scheme f tyc = payload_build env scheme g tyc"
  unfolding payload_build_def using build_fields_cong [of CRM_FIELD_NAMES f g env scheme] by simp

text \<open>
  The number 1 in the international column passes the check of the allowed values, because it equals
  \<^verbatim>\<open>True\<close> there, but is sent to the CRM as a domestic customer; a list in that column
  leaves the builder as a \<^verbatim>\<open>TypeError\<close>, which is not one of its documented errors.
\<close>

theorem international_flag_anomalies:
  "international_value (PBool True) = Inr (PBool True) \<and> international_value (PInt 1) = Inr (PBool False) \<and>
   international_value (PList (x # xs)) = Inl Unhashable"
  by (simp add: international_value_def vocab)

end
