(* ===== verification/Crm_Sync.thy ===== *)
theory Crm_Sync
  imports Discard Crm_Gateway Crm_Payload Smart_Table
begin

text \<open>
  The life of one CRM submission, the part of \<^verbatim>\<open>app/crm/service.py\<close> that talks to the CRM
  (\<^verbatim>\<open>_claim_and_call\<close> and what it uses). A row of \<^verbatim>\<open>crm_sync_records\<close> holds the frozen payload and
  idempotency key. A worker claims the row in one transaction, calls the CRM outside of any transaction, and
  stores what it learnt in a second transaction, which has an effect only while the claim is still its
  own: the claim is identified by the time it was taken and the number of the attempt. Success activates or
  releases the reservation of the company's identity, moves the lead to \<^verbatim>\<open>synced\<close> and overrules a pending discard;
  a definite failure lets the pending discard take effect; an unknown outcome settles nothing.
  Attributes of exceptions have the types the adapters give them: the HTTP status is an integer or absent, the
  entity type of a duplicate a text or absent.
\<close>

record crm_config =
  crm_create_retry_count :: int
  crm_create_retry_delay_seconds :: int
  crm_level_scheme :: level_scheme

definition CRM_PROCESSING_LEASE :: time where
  "CRM_PROCESSING_LEASE = minutes 5"

abbreviation get_sync :: "db \<Rightarrow> nat \<Rightarrow> crm_sync_record option" where
  "get_sync d i \<equiv> tget cs_id i (crm_sync_records d)"

abbreviation upd_sync :: "nat \<Rightarrow> (crm_sync_record \<Rightarrow> crm_sync_record) \<Rightarrow> db \<Rightarrow> db" where
  "upd_sync i f d \<equiv> d\<lparr>crm_sync_records := tupd cs_id i f (crm_sync_records d)\<rparr>"

definition opt_str :: "pstr option \<Rightarrow> pyval" where
  "opt_str x = (case x of None \<Rightarrow> PNone | Some s \<Rightarrow> PStr s)"

section \<open>Audit and failure evidence\<close>

definition record_audit_for_sync :: "time \<Rightarrow> crm_sync_record \<Rightarrow> pstr \<Rightarrow> string \<Rightarrow> fields \<Rightarrow> db \<Rightarrow> db" where
  "record_audit_for_sync now s u event_type details d =
     audit_once (cs_request_message_id s) u event_type
       (dmerge [(asc ''lead_id'', PStr (cs_lead_id s)), (asc ''record_id'', PStr (cs_smart_table_record_id s)),
          (asc ''crm_sync_record_id'', PStr (digits_of (cs_id s)))] details) now d"

record crm_failure_evidence =
  ev_failure_category :: string
  ev_adapter_category :: "string option"
  ev_http_status :: pyval
  ev_failure_code :: "pstr option"
  ev_duplicate_entity_type :: "string option"

definition category_value :: "task_failure_category \<Rightarrow> string" where
  "category_value c = (case c of TRANSIENT \<Rightarrow> ''transient'' | PERMANENT \<Rightarrow> ''permanent'' | UNKNOWN \<Rightarrow> ''unknown'')"

definition ADAPTER_CATEGORIES :: "string list" where
  "ADAPTER_CATEGORIES = [''transport'', ''authentication'', ''business'', ''business_rejection'',
     ''duplicate_target_unavailable'', ''gateway'', ''malformed_response'']"

definition DUPLICATE_ENTITY_TYPES :: "string list" where
  "DUPLICATE_ENTITY_TYPES = [''lead'', ''customer'', ''dealer'', ''unknown'']"

text \<open>The text of a list of known ones a value is equal to.\<close>

definition known_text :: "string list \<Rightarrow> pyval \<Rightarrow> string option" where
  "known_text known v = find (\<lambda>s. v = PStr (asc s)) known"

definition protocol_code :: "env \<Rightarrow> exn \<Rightarrow> pstr option" where
  "protocol_code env e =
     (let code = (if py_truthy (ex_sub_code e) then ex_sub_code e else ex_error_code e)
      in if \<not> str_or_int code then None
         else let normalized = py_strip (py_str env code)
              in if normalized \<noteq> [] \<and> length normalized \<le> 64 \<and>
                    list_all (\<lambda>c. e_isalnum env c \<or> c \<in> set (asc ''._:-'')) normalized
                 then Some normalized else None)"

definition crm_failure_evidence_of :: "env \<Rightarrow> exn \<Rightarrow> crm_failure_evidence" where
  "crm_failure_evidence_of env e =
     \<lparr>ev_failure_category = category_value (classify_task_failure e),
      ev_adapter_category = known_text ADAPTER_CATEGORIES (ex_category e),
      ev_http_status = (if int_of (ex_http_status e) \<noteq> None then ex_http_status e else PNone),
      ev_failure_code = protocol_code env e,
      ev_duplicate_entity_type = known_text DUPLICATE_ENTITY_TYPES (ex_duplicate_entity_type e)\<rparr>"

definition evidence_details :: "crm_failure_evidence \<Rightarrow> fields" where
  "evidence_details ev =
     [(asc ''failure_category'', str_of (ev_failure_category ev)),
      (asc ''adapter_category'', (case ev_adapter_category ev of None \<Rightarrow> PNone | Some c \<Rightarrow> str_of c)),
      (asc ''http_status'', ev_http_status ev), (asc ''failure_code'', opt_str (ev_failure_code ev))] @
     (case ev_duplicate_entity_type ev of None \<Rightarrow> [] | Some t \<Rightarrow> [(asc ''duplicate_entity_type'', str_of t)])"

section \<open>What blocks, what is current\<close>

definition update_unfinished :: "crm_sync_record \<Rightarrow> bool" where
  "update_unfinished s =
     (cs_status s \<in> set [''pending'', ''retrying'', ''processing''] \<or>
      (cs_status s = ''failed_pending_review'' \<and>
        (cs_failure_category s = Some ''unknown'' \<or> (cs_attempts s > 0 \<and> cs_failure_kind s = None))))"

definition unfinished_update :: "db \<Rightarrow> pstr \<Rightarrow> nat option \<Rightarrow> crm_sync_record option" where
  "unfinished_update d lead_id exclude =
     max_by (\<lambda>s. - int (cs_id s))
       (filter (\<lambda>s. cs_lead_id s = lead_id \<and> cs_operation s = ''update'' \<and> exclude \<noteq> Some (cs_id s) \<and> update_unfinished s)
         (crm_sync_records d))"

definition py_contains_opt :: "string \<Rightarrow> pstr option \<Rightarrow> bool" where
  "py_contains_opt t s = py_contains (asc t) (the_default [] s)"

definition completed_sync_outcome :: "crm_sync_record \<Rightarrow> string" where
  "completed_sync_outcome s =
     (if cs_status s = ''succeeded'' \<and>
         (py_contains_opt ''FOLLOW_UP'' (cs_response_summary s) \<or> (cs_operation s = ''create'' \<and> cs_crm_lead_id s = None))
      then ''followed_up'' else cs_status s)"

type_synonym sync_claim = "time \<times> int"

definition claim_is_current :: "crm_sync_record \<Rightarrow> sync_claim \<Rightarrow> bool" where
  "claim_is_current s c =
     (cs_status s = ''processing'' \<and> cs_attempts s = snd c \<and> cs_processing_started_at s = Some (fst c))"

section \<open>Settling parts\<close>

definition release_sync :: "crm_sync_record \<Rightarrow> crm_sync_record" where
  "release_sync s = s\<lparr>cs_processing_started_at := None, cs_processing_lease_expires_at := None\<rparr>"

definition unknown_row :: "time \<Rightarrow> crm_sync_record \<Rightarrow> crm_sync_record" where
  "unknown_row now s = (release_sync s)\<lparr>cs_status := ''failed_pending_review'', cs_next_retry_at := None,
     cs_failure_category := Some ''unknown'', cs_failure_summary := Some (asc ''crm_external_outcome_unknown''),
     cs_failed_at := Some now, cs_response_summary := Some (asc ''CRM external outcome unknown'')\<rparr>"

definition mark_unknown_crm_outcome :: "crm_config \<Rightarrow> time \<Rightarrow> crm_sync_record \<Rightarrow> pstr \<Rightarrow> db \<Rightarrow> db" where
  "mark_unknown_crm_outcome cfg now s u d =
     record_audit_for_sync now s u ''crm_external_outcome_unknown''
       [(asc ''failure_category'', str_of ''unknown''), (asc ''attempts'', PInt (cs_attempts s)),
        (asc ''retry_limit'', PInt (crm_create_retry_count cfg))]
       (upd_sync (cs_id s) (unknown_row now) d)"

definition identity_of_sync :: "db \<Rightarrow> crm_sync_record \<Rightarrow> crm_company_identity option" where
  "identity_of_sync d s = find (\<lambda>i. ci_creating_sync_record_id i = Some (cs_id s)) (crm_company_identities d)"

abbreviation upd_identity :: "pstr \<Rightarrow> (crm_company_identity \<Rightarrow> crm_company_identity) \<Rightarrow> db \<Rightarrow> db" where
  "upd_identity n f d \<equiv> d\<lparr>crm_company_identities := tupd ci_standard_company_name n f (crm_company_identities d)\<rparr>"

abbreviation del_identity :: "pstr \<Rightarrow> db \<Rightarrow> db" where
  "del_identity n d \<equiv> d\<lparr>crm_company_identities :=
     tdel (\<lambda>i. ci_standard_company_name i = n) (crm_company_identities d)\<rparr>"

definition fail_company_identity :: "time \<Rightarrow> crm_sync_record \<Rightarrow> pstr \<Rightarrow> db \<Rightarrow> db" where
  "fail_company_identity now s u d =
     (if cs_operation s \<noteq> ''create'' then d
      else case identity_of_sync d s of
        None \<Rightarrow> d
      | Some i \<Rightarrow> record_audit_for_sync now s u ''crm_global_identity_failed_pending_review'' []
                   (upd_identity (ci_standard_company_name i) (\<lambda>x. x\<lparr>ci_state := ''failed_pending_review''\<rparr>) d))"

text \<open>Writing a state the lead already has is no change of the row.\<close>

definition set_lifecycle :: "time \<Rightarrow> string \<Rightarrow> lead \<Rightarrow> lead" where
  "set_lifecycle now st l =
     (if ld_lifecycle_state l = st then l else l\<lparr>ld_lifecycle_state := st, ld_updated_at := now\<rparr>)"

definition coordination_details :: "lead \<Rightarrow> lead_discard_request \<Rightarrow> string \<Rightarrow> nat \<Rightarrow> fields" where
  "coordination_details l r new_state sync_id =
     [(asc ''lead_id'', PStr (ld_id l)), (asc ''operator_user_id'', PStr (dr_operator_user_id r)),
      (asc ''operator_role'', str_of (dr_operator_role r)),
      (asc ''old_lifecycle_state'', str_of (ld_lifecycle_state l)), (asc ''new_lifecycle_state'', str_of new_state),
      (asc ''crm_sync_record_id'', PInt (int sync_id)), (asc ''discard_request_id'', PInt (int (dr_id r)))]"

abbreviation upd_discard :: "nat \<Rightarrow> (lead_discard_request \<Rightarrow> lead_discard_request) \<Rightarrow> db \<Rightarrow> db" where
  "upd_discard i f d \<equiv> d\<lparr>lead_discard_requests := tupd dr_id i f (lead_discard_requests d)\<rparr>"

definition finalize_pending_discard :: "time \<Rightarrow> crm_sync_record \<Rightarrow> db \<Rightarrow> db" where
  "finalize_pending_discard now s d =
     (if cs_operation s \<noteq> ''create'' then d
      else case (tget dr_lead_id (cs_lead_id s) (lead_discard_requests d), get_lead d (cs_lead_id s)) of
        (Some r, Some l) \<Rightarrow>
          if dr_status r \<noteq> ''pending'' then d
          else record_lead_audit l (dr_operator_user_id r) ''lead_discarded_after_crm_create_failed''
                 (coordination_details l r ''discarded'' (cs_id s)) now
                 (upd_lead (ld_id l) (set_lifecycle now ''discarded'')
                   (upd_discard (dr_id r) (\<lambda>x. x\<lparr>dr_status := ''effective'', dr_completed_at := Some now\<rparr>) d))
      | _ \<Rightarrow> d)"

definition retry_result_key :: "env \<Rightarrow> nat \<Rightarrow> pstr" where
  "retry_result_key env i = e_sha256 env (asc ''crm_retry_result:'' @ digits_of i)"

definition retry_result_content :: "crm_sync_record \<Rightarrow> pstr" where
  "retry_result_content s =
     (let raw = py_get (asc ''name'') (cs_canonical_payload s);
          lead_name = safe_audit_text (case raw of PStr n \<Rightarrow> n | _ \<Rightarrow> s_this_lead) 120
      in if cs_status s = ''succeeded''
         then s_retry_done @ lead_name @ r_comma @
              (if py_contains_opt ''FOLLOW_UP'' (cs_response_summary s) then s_retry_follow else s_retry_ok) @ r_stop
         else if cs_failure_category s = Some ''unknown''
         then s_retry_unknown_a @ lead_name @ s_retry_unknown_b
         else s_retry_fail_a @ lead_name @ s_retry_fail_b)"

definition enqueue_crm_retry_result_notification :: "env \<Rightarrow> time \<Rightarrow> nat \<Rightarrow> db \<Rightarrow> db" where
  "enqueue_crm_retry_result_notification env now i d =
     (case get_sync d i of
        None \<Rightarrow> d
      | Some s \<Rightarrow>
          let key = retry_result_key env i
          in if get_notice d key \<noteq> None then d
             else d\<lparr>notification_records := tadd
               ((blank_notice key (cs_submitting_sales_user_id s) (cs_request_message_id s) ''crm_submission_retry_summary'' now)
                 \<lparr>nr_content := Some (retry_result_content s)\<rparr>) (notification_records d)\<rparr>)"

section \<open>Claiming\<close>

datatype claim_outcome = Refused string | Claimed sync_claim fields pstr "pstr option"

definition lease_expired :: "time \<Rightarrow> crm_sync_record \<Rightarrow> bool" where
  "lease_expired now s = (cs_status s = ''processing'' \<and>
     (case cs_processing_lease_expires_at s of None \<Rightarrow> False | Some e \<Rightarrow> e \<le> now))"

definition outcome_unknown :: "crm_sync_record \<Rightarrow> bool" where
  "outcome_unknown s = (cs_status s = ''failed_pending_review'' \<and> cs_failure_category s = Some ''unknown'')"

definition claim_row :: "time \<Rightarrow> crm_sync_record \<Rightarrow> crm_sync_record" where
  "claim_row now s =
     (let s1 = (if cs_status s = ''awaiting_duplicate_confirmation''
                then s\<lparr>cs_crm_lead_id := None, cs_crm_lead_owner_user_id := None, cs_response_summary := None\<rparr> else s)
      in s1\<lparr>cs_status := ''processing'', cs_next_retry_at := None, cs_attempts := cs_attempts s + 1,
            cs_processing_started_at := Some now, cs_processing_lease_expires_at := Some (now + CRM_PROCESSING_LEASE)\<rparr>)"

definition review_or_processing :: "crm_sync_record \<Rightarrow> string" where
  "review_or_processing s = (if cs_status s = ''failed_pending_review'' then ''failed_pending_review'' else ''processing'')"

definition claim_sync :: "crm_config \<Rightarrow> env \<Rightarrow> time \<Rightarrow> nat \<Rightarrow> pstr \<Rightarrow> bool \<Rightarrow> db \<Rightarrow> claim_outcome \<times> db" where
  "claim_sync cfg env now i u notify d =
     (case get_sync d i of
        None \<Rightarrow> (Refused ''failed_pending_review'', d)
      | Some s \<Rightarrow>
          if cs_status s \<notin> set [''pending'', ''retrying'', ''awaiting_duplicate_confirmation''] \<and>
             \<not> lease_expired now s \<and> \<not> outcome_unknown s
          then (Refused (completed_sync_outcome s), d)
          else case unfinished_update d (cs_lead_id s) (Some i) of
            Some x \<Rightarrow> (Refused (review_or_processing x), d)
          | None \<Rightarrow>
              if cs_operation s = ''update'' \<and> cs_attempts s > 0 \<and> lease_expired now s
              then (Refused ''failed_pending_review'', mark_unknown_crm_outcome cfg now s u d)
              else if cs_attempts s \<ge> crm_create_retry_count cfg \<and> \<not> (lease_expired now s \<or> outcome_unknown s)
              then (Refused ''failed_pending_review'',
                    (let d1 = mark_unknown_crm_outcome cfg now s u d
                     in if notify then enqueue_crm_retry_result_notification env now i d1 else d1))
              else (Claimed (now, cs_attempts s + 1) (cs_canonical_payload s) (cs_idempotency_key s) (cs_submitting_crm_user_id s),
                    upd_sync i (claim_row now) d))"

text \<open>The creations the repeating task takes up.\<close>

definition due_create :: "time \<Rightarrow> crm_sync_record \<Rightarrow> bool" where
  "due_create now s =
     (cs_operation s = ''create'' \<and>
      ((cs_status s = ''retrying'' \<and> cs_failure_category s = Some ''transient'' \<and>
          (case cs_next_retry_at s of None \<Rightarrow> False | Some t \<Rightarrow> t \<le> now)) \<or>
       (cs_status s = ''processing'' \<and>
          (case cs_processing_lease_expires_at s of None \<Rightarrow> False | Some t \<Rightarrow> t \<le> now))))"

section \<open>Storing the result\<close>

definition success_row :: "time \<Rightarrow> crm_create_result \<Rightarrow> crm_sync_record \<Rightarrow> crm_sync_record" where
  "success_row now r s =
     (release_sync s)\<lparr>cs_status := ''succeeded'', cs_next_retry_at := None,
        cs_crm_lead_id := (if cr_crm_lead_id r = None then cs_crm_lead_id s else cr_crm_lead_id r),
        cs_crm_lead_owner_user_id := (if cr_crm_lead_owner_user_id r = None then cs_crm_lead_owner_user_id s
                                      else cr_crm_lead_owner_user_id r),
        cs_response_summary := Some (take 256 (cr_response_summary r)), cs_completed_at := Some now\<rparr>"

definition settle_identity :: "time \<Rightarrow> crm_sync_record \<Rightarrow> pstr \<Rightarrow> db \<Rightarrow> db" where
  "settle_identity now s u d =
     (case identity_of_sync d s of
        None \<Rightarrow> d
      | Some i \<Rightarrow>
          if cs_crm_lead_id s = None \<and> cs_operation s = ''create''
          then record_audit_for_sync now s u ''crm_global_identity_reservation_released_after_unified_submit'' []
                 (del_identity (ci_standard_company_name i) d)
          else if cs_crm_lead_id s \<noteq> None
          then record_audit_for_sync now s u ''crm_global_identity_activated'' []
                 (upd_identity (ci_standard_company_name i)
                   (\<lambda>x. x\<lparr>ci_state := ''active'', ci_crm_lead_id := cs_crm_lead_id s,
                           ci_crm_lead_owner_user_id := cs_crm_lead_owner_user_id s\<rparr>) d)
          else d)"

definition overrule_discard :: "time \<Rightarrow> crm_sync_record \<Rightarrow> lead \<Rightarrow> db \<Rightarrow> db" where
  "overrule_discard now s l d =
     (case tget dr_lead_id (ld_id l) (lead_discard_requests d) of
        None \<Rightarrow> d
      | Some r \<Rightarrow>
          if dr_status r \<notin> set [''pending'', ''effective''] then d
          else record_lead_audit l (dr_operator_user_id r) ''discard_request_not_effective''
                 (coordination_details l r ''synced'' (cs_id s)) now
                 (upd_discard (dr_id r) (\<lambda>x. x\<lparr>dr_status := ''not_effective'', dr_completed_at := Some now\<rparr>) d))"

text \<open>The left result is the answer of a call that stored nothing; the right one is the lead now synchronised.\<close>

definition settle_success ::
  "env \<Rightarrow> time \<Rightarrow> nat \<Rightarrow> pstr \<Rightarrow> sync_claim \<Rightarrow> crm_create_result \<Rightarrow> bool \<Rightarrow> db \<Rightarrow> (string + pstr) \<times> db" where
  "settle_success env now i u c r notify d =
     (case get_sync d i of
        None \<Rightarrow> (Inl ''failed_pending_review'', d)
      | Some s \<Rightarrow>
          (case get_lead d (cs_lead_id s) of
             None \<Rightarrow> (Inl ''failed_pending_review'', d)
           | Some l \<Rightarrow>
               if \<not> claim_is_current s c then (Inl (completed_sync_outcome s), d)
               else let s1 = success_row now r s;
                        d1 = settle_identity now s1 u (upd_sync i (success_row now r) d);
                        d2 = upd_lead (ld_id l) (set_lifecycle now ''synced'') d1;
                        d3 = overrule_discard now s1 l d2;
                        event = (if cr_action r = FOLLOW_UP then ''crm_follow_up_succeeded''
                                 else ''crm_'' @ cs_operation s @ ''_succeeded'');
                        d4 = record_audit_for_sync now s1 u event [] d3
                    in (Inr (ld_id l), if notify then enqueue_crm_retry_result_notification env now i d4 else d4)))"

definition failure_kind_of :: "crm_failure_evidence \<Rightarrow> exn \<Rightarrow> pstr" where
  "failure_kind_of ev e = (case ev_adapter_category ev of Some c \<Rightarrow> asc c | None \<Rightarrow> ex_type_name e)"

definition failure_row :: "env \<Rightarrow> exn \<Rightarrow> crm_sync_record \<Rightarrow> crm_sync_record" where
  "failure_row env e s =
     (let ev = crm_failure_evidence_of env e
      in (release_sync s)\<lparr>cs_failure_category := Some (ev_failure_category ev),
           cs_failure_kind := Some (failure_kind_of ev e),
           cs_failure_code := (if ev_failure_code ev = None then cs_failure_code s else ev_failure_code ev),
           cs_failure_summary := Some (safe_failure_summary e)\<rparr>)"

definition remote_outcome_open :: "env \<Rightarrow> exn \<Rightarrow> crm_sync_record \<Rightarrow> bool" where
  "remote_outcome_open env e s =
     (classify_task_failure e = UNKNOWN \<or>
      (cs_operation s = ''update'' \<and>
        (failure_kind_of (crm_failure_evidence_of env e) e = asc ''malformed_response'' \<or>
         (case int_of (ex_http_status e) of None \<Rightarrow> False | Some h \<Rightarrow> h \<ge> 500))))"

definition record_crm_failure ::
  "crm_config \<Rightarrow> env \<Rightarrow> time \<Rightarrow> nat \<Rightarrow> pstr \<Rightarrow> exn \<Rightarrow> sync_claim \<Rightarrow> bool \<Rightarrow> db \<Rightarrow> string \<times> db" where
  "record_crm_failure cfg env now i u e c notify d =
     (case get_sync d i of
        None \<Rightarrow> (''failed_pending_review'', d)
      | Some s \<Rightarrow>
          if \<not> claim_is_current s c then (cs_status s, d)
          else let f = (\<lambda>x. (failure_row env e x)\<lparr>cs_status := ''failed_pending_review'', cs_failed_at := Some now,
                            cs_next_retry_at := None\<rparr>);
                   s1 = f s;
                   d1 = upd_sync i f d;
                   d2 = (if remote_outcome_open env e s then mark_unknown_crm_outcome cfg now s1 u d1
                         else record_audit_for_sync now s1 u (''crm_'' @ cs_operation s @ ''_failed'')
                                (evidence_details (crm_failure_evidence_of env e))
                                (finalize_pending_discard now s1 (fail_company_identity now s1 u
                                  (upd_sync i (\<lambda>x. x\<lparr>cs_response_summary := Some (asc (''CRM '' @ cs_operation s @ '' failed''))\<rparr>) d1))))
               in (''failed_pending_review'', if notify then enqueue_crm_retry_result_notification env now i d2 else d2))"

definition transport_summary :: "env \<Rightarrow> crm_failure_evidence \<Rightarrow> pstr" where
  "transport_summary env ev =
     (if ev_http_status ev \<noteq> PNone
      then asc ''CRM gateway HTTP '' @ py_str env (ev_http_status ev) @
           (case ev_failure_code ev of None \<Rightarrow> [] | Some code \<Rightarrow> asc '' code '' @ code)
      else case ev_failure_code ev of None \<Rightarrow> asc ''CRM transport error'' | Some code \<Rightarrow> asc ''CRM gateway code '' @ code)"

definition retry_delay :: "crm_config \<Rightarrow> int \<Rightarrow> time" where
  "retry_delay cfg attempts = seconds (crm_create_retry_delay_seconds cfg * 2 ^ nat (attempts - 1))"

definition record_crm_transport_failure ::
  "crm_config \<Rightarrow> env \<Rightarrow> time \<Rightarrow> nat \<Rightarrow> pstr \<Rightarrow> exn \<Rightarrow> sync_claim \<Rightarrow> bool \<Rightarrow> db \<Rightarrow> string \<times> db" where
  "record_crm_transport_failure cfg env now i u e c notify d =
     (case get_sync d i of
        None \<Rightarrow> (''failed_pending_review'', d)
      | Some s \<Rightarrow>
          if \<not> claim_is_current s c then (cs_status s, d)
          else let f = (\<lambda>x. (failure_row env e x)\<lparr>cs_response_summary :=
                          Some (transport_summary env (crm_failure_evidence_of env e))\<rparr>);
                   s1 = f s;
                   d1 = upd_sync i f d
               in if cs_operation s = ''update''
                  then (''failed_pending_review'', mark_unknown_crm_outcome cfg now s1 u d1)
                  else if notify \<and> cs_attempts s \<ge> crm_create_retry_count cfg
                  then (''failed_pending_review'',
                        enqueue_crm_retry_result_notification env now i (mark_unknown_crm_outcome cfg now s1 u d1))
                  else (''retrying'',
                        upd_sync i (\<lambda>x. x\<lparr>cs_status := ''retrying'',
                          cs_next_retry_at := Some (now + retry_delay cfg (cs_attempts s))\<rparr>) d1))"

section \<open>One submission\<close>

text \<open>
  The ports of the submission service, on one remote world: the CRM, and the table with the member directory behind
  it. Reads do not change the world; a failing write may have.
\<close>

datatype record_query =
    By_Ids "pstr list"
  | By_Owner "pstr list" "(pstr \<times> pstr) list option" "pstr option" "int option"

record 'w crm_ports =
  cp_submit_lead :: "'w crm_adapter"
  cp_resolve_member :: "pstr \<Rightarrow> pstr option \<Rightarrow> 'w \<Rightarrow> exn + pstr"
  cp_get_records :: "record_query \<Rightarrow> 'w \<Rightarrow> exn + st_record list"
  cp_update_record :: "pstr \<Rightarrow> fields \<Rightarrow> 'w \<Rightarrow> (exn + st_record) \<times> 'w"
  cp_update_records :: "(pstr \<times> fields) list \<Rightarrow> 'w \<Rightarrow> (exn + st_record list) \<times> 'w"

definition project_submission_status :: "time \<Rightarrow> pstr \<Rightarrow> lead \<Rightarrow> lead" where
  "project_submission_status now st l =
     (let v = dset f_submit_status (PStr st) (ld_field_values l)
      in if v = ld_field_values l then l else l\<lparr>ld_field_values := v, ld_updated_at := now\<rparr>)"

definition set_smart_table_submission_status ::
  "'w crm_ports \<Rightarrow> time \<Rightarrow> pstr \<Rightarrow> pstr \<Rightarrow> db \<Rightarrow> 'w \<Rightarrow> (exn + unit) \<times> db \<times> 'w" where
  "set_smart_table_submission_status cp now lead_id st d w =
     (case get_lead d lead_id of
        None \<Rightarrow> (Inr (), d, w)
      | Some l \<Rightarrow>
          (case ld_smart_table_record_id l of
             None \<Rightarrow> (Inr (), d, w)
           | Some rid \<Rightarrow>
               (case cp_update_record cp rid [(f_submit_status, PStr st)] w of
                  (Inl e, w1) \<Rightarrow> (Inl e, d, w1)
                | (Inr _, w1) \<Rightarrow> (Inr (), upd_lead lead_id (project_submission_status now st) d, w1))))"

definition settle_result ::
  "crm_config \<Rightarrow> env \<Rightarrow> time \<Rightarrow> nat \<Rightarrow> pstr \<Rightarrow> sync_claim \<Rightarrow> bool \<Rightarrow> exn + crm_create_result \<Rightarrow> db \<Rightarrow>
   (string \<times> pstr option) \<times> db" where
  "settle_result cfg env now i u c notify res d =
     (case res of
        Inl e \<Rightarrow>
          if classify_task_failure e = TRANSIENT
          then (case record_crm_transport_failure cfg env now i u e c notify d of (out, d1) \<Rightarrow> ((out, None), d1))
          else (case record_crm_failure cfg env now i u e c notify d of (out, d1) \<Rightarrow> ((out, None), d1))
      | Inr r \<Rightarrow>
          (case settle_success env now i u c r notify d of
             (Inl out, d1) \<Rightarrow> ((out, None), d1)
           | (Inr lead_id, d1) \<Rightarrow>
               ((if cr_action r = FOLLOW_UP then ''followed_up'' else ''succeeded'', Some lead_id), d1)))"

definition settle_call ::
  "crm_config \<Rightarrow> env \<Rightarrow> 'w crm_ports \<Rightarrow> time \<Rightarrow> nat \<Rightarrow> pstr \<Rightarrow> sync_claim \<Rightarrow> bool \<Rightarrow> bool \<Rightarrow>
   exn + crm_create_result \<Rightarrow> db \<Rightarrow> 'w \<Rightarrow> string \<times> db \<times> 'w" where
  "settle_call cfg env cp now i u c notify defer res d w =
     (case settle_result cfg env now i u c notify res d of
        ((out, None), d1) \<Rightarrow> (out, d1, w)
      | ((out, Some lead_id), d1) \<Rightarrow>
          if defer then (out, d1, w)
          else case set_smart_table_submission_status cp now lead_id v_submitted d1 w of
            (_, d2, w1) \<Rightarrow> (out, d2, w1))"

definition claim_and_call ::
  "crm_config \<Rightarrow> env \<Rightarrow> 'w crm_ports \<Rightarrow> time \<Rightarrow> time \<Rightarrow> nat \<Rightarrow> pstr \<Rightarrow> bool \<Rightarrow> bool \<Rightarrow> db \<Rightarrow> 'w \<Rightarrow> string \<times> db \<times> 'w" where
  "claim_and_call cfg env cp now1 now2 i u notify defer d w =
     (case claim_sync cfg env now1 i u notify d of
        (Refused out, d1) \<Rightarrow> (out, d1, w)
      | (Claimed c payload key crm_user, d1) \<Rightarrow>
          (case crm_user of
             None \<Rightarrow> settle_call cfg env cp now2 i u c notify defer (Inl crm_value_error) d1 w
           | Some cu \<Rightarrow>
               (case cp_submit_lead cp payload key cu w of
                  (res, w1) \<Rightarrow> settle_call cfg env cp now2 i u c notify defer res d1 w1)))"

end
