(* ===== verification/Crm_Submit.thy ===== *)
theory Crm_Submit
  imports Crm_Sync
begin

text \<open>
  The submission of single leads, the other half of \<^verbatim>\<open>app/crm/service.py\<close>: from a row of the table, read when the command
  arrived, to a frozen submission and its call (\<open>Crm_Sync\<close>). Creations (\<open>submit_create\<close>) and updates
  (\<open>submit_update\<close>) check the owner column, the submission status, the capture date, the required fields and the CRM
  dictionaries on that row, never on the lead's own columns; a creation also reserves the company's
  identity. The functions return an exception or an outcome, the database and the remote world. One reading of the clock
  serves a whole call. A set of user identifiers is a list without repetition; where the source iterates over a set,
  the first failing lookup in list order is the one raised.
\<close>

type_synonym ('a, 'w) run = "(exn + 'a) \<times> db \<times> 'w"

record submission_command =
  sc_text :: pstr
  sc_sales_user_id :: pstr
  sc_request_message_id :: pstr
  sc_target_lead_id :: "pstr option"
  sc_target_owner_name :: "pstr option"
  sc_owner_scope_user_ids :: "pstr list option"
  sc_target_capture_date :: "int option"

datatype submission_item_status =
    CREATED | UPDATED | FOLLOWED_UP | UNCHANGED | INCOMPLETE | DUPLICATE_CONFIRMATION | MAPPING_MISSING | PROCESSING
  | RETRYING | FAILED_PENDING_REVIEW | COMPANY_IDENTITY_REVIEW | NOT_SUBMITTED

record submission_item_result =
  it_lead_id :: pstr
  it_status :: submission_item_status
  it_reason_code :: "string option"
  it_missing_fields :: "pstr list"
  it_failure_category :: "string option"
  it_adapter_category :: "string option"
  it_failure_code :: "pstr option"

text \<open>
  \<^verbatim>\<open>duplicate\<close>, \<^verbatim>\<open>http_status\<close> and \<^verbatim>\<open>duplicate_entity_type\<close> are never set by the service any more and are left out, as
  is the list of duplicate confirmations they would fill.
\<close>

record create_submission_outcome =
  co_status :: string
  co_missing_fields :: "pstr list"
  co_reason_code :: "string option"
  co_failure_category :: "string option"
  co_adapter_category :: "string option"
  co_failure_code :: "pstr option"

record submission_batch_result =
  br_succeeded :: nat
  br_incomplete :: nat
  br_incomplete_missing_fields :: "pstr list"
  br_retrying :: nat
  br_processing :: nat
  br_failed_pending_review :: nat
  br_incomplete_lead_ids :: "pstr list"
  br_updated :: nat
  br_unchanged :: nat
  br_company_identity_review :: nat
  br_mapping_missing :: nat
  br_items :: "submission_item_result list"
  br_not_submitted :: nat
  br_followed_up :: nat

definition empty_batch :: submission_batch_result where
  "empty_batch = \<lparr>br_succeeded = 0, br_incomplete = 0, br_incomplete_missing_fields = [], br_retrying = 0, br_processing = 0,
     br_failed_pending_review = 0, br_incomplete_lead_ids = [], br_updated = 0, br_unchanged = 0,
     br_company_identity_review = 0, br_mapping_missing = 0, br_items = [], br_not_submitted = 0, br_followed_up = 0\<rparr>"

section \<open>Results\<close>

definition merge_missing_fields :: "pstr list \<Rightarrow> pstr list \<Rightarrow> pstr list" where
  "merge_missing_fields current additional = dedup (current @ additional)"

definition CREATE_REASON_CODES :: "(string \<times> string) list" where
  "CREATE_REASON_CODES =
     [(''incomplete'', ''missing_required_fields''), (''duplicate_confirmation'', ''duplicate_confirmation_required''),
      (''mapping_missing'', ''crm_user_mapping_missing''), (''processing'', ''sync_processing''),
      (''retrying'', ''crm_create_retrying''), (''failed_pending_review'', ''crm_create_failed_pending_review''),
      (''not_submitted'', ''candidate_state_changed''), (''followed_up'', ''crm_followed_up'')]"

definition ITEM_STATUS_BY_OUTCOME :: "(string \<times> submission_item_status) list" where
  "ITEM_STATUS_BY_OUTCOME =
     [(''succeeded'', CREATED), (''updated'', UPDATED), (''followed_up'', FOLLOWED_UP), (''unchanged'', UNCHANGED),
      (''incomplete'', INCOMPLETE), (''duplicate_confirmation'', DUPLICATE_CONFIRMATION), (''mapping_missing'', MAPPING_MISSING),
      (''processing'', PROCESSING), (''retrying'', RETRYING), (''failed_pending_review'', FAILED_PENDING_REVIEW),
      (''company_identity_review'', COMPANY_IDENTITY_REVIEW), (''not_submitted'', NOT_SUBMITTED)]"

definition create_outcome :: "string \<Rightarrow> create_submission_outcome" where
  "create_outcome status = \<lparr>co_status = status, co_missing_fields = [], co_reason_code = dget status CREATE_REASON_CODES,
     co_failure_category = None, co_adapter_category = None, co_failure_code = None\<rparr>"

definition create_outcome_because :: "string \<Rightarrow> string \<Rightarrow> create_submission_outcome" where
  "create_outcome_because status reason = (create_outcome status)\<lparr>co_reason_code := Some reason\<rparr>"

definition stale_snapshot_outcome :: create_submission_outcome where
  "stale_snapshot_outcome = (create_outcome_because ''failed_pending_review'' ''wecom_smart_table_retryable'')
     \<lparr>co_failure_category := Some ''transient'', co_adapter_category := Some ''transport''\<rparr>"

definition item_of_outcome :: "pstr \<Rightarrow> create_submission_outcome \<Rightarrow> submission_item_result" where
  "item_of_outcome lead_id out =
     \<lparr>it_lead_id = lead_id, it_status = the_default FAILED_PENDING_REVIEW (dget (co_status out) ITEM_STATUS_BY_OUTCOME),
      it_reason_code = co_reason_code out, it_missing_fields = co_missing_fields out,
      it_failure_category = co_failure_category out, it_adapter_category = co_adapter_category out,
      it_failure_code = co_failure_code out\<rparr>"

definition one_if :: "bool \<Rightarrow> nat" where
  "one_if b = (if b then 1 else 0)"

definition append_create_result ::
  "submission_batch_result \<Rightarrow> pstr \<Rightarrow> create_submission_outcome \<Rightarrow> submission_batch_result" where
  "append_create_result b lead_id out =
     b\<lparr>br_succeeded := br_succeeded b + one_if (co_status out = ''succeeded''),
       br_followed_up := br_followed_up b + one_if (co_status out = ''followed_up''),
       br_incomplete := br_incomplete b + one_if (co_status out = ''incomplete''),
       br_incomplete_missing_fields := merge_missing_fields (br_incomplete_missing_fields b) (co_missing_fields out),
       br_retrying := br_retrying b + one_if (co_status out = ''retrying''),
       br_processing := br_processing b + one_if (co_status out = ''processing''),
       br_failed_pending_review := br_failed_pending_review b + one_if (co_status out = ''failed_pending_review''),
       br_incomplete_lead_ids := (if co_status out = ''incomplete'' then br_incomplete_lead_ids b @ [lead_id] else br_incomplete_lead_ids b),
       br_mapping_missing := br_mapping_missing b + one_if (co_status out = ''mapping_missing''),
       br_company_identity_review := br_company_identity_review b + one_if (co_status out = ''company_identity_review''),
       br_not_submitted := br_not_submitted b + one_if (co_status out = ''not_submitted''),
       br_items := br_items b @ [item_of_outcome lead_id out]\<rparr>"

definition UPDATE_ITEM_STATUS :: "(string \<times> submission_item_status) list" where
  "UPDATE_ITEM_STATUS = [(''succeeded'', UPDATED), (''followed_up'', FOLLOWED_UP), (''unchanged'', UNCHANGED),
     (''incomplete'', INCOMPLETE), (''enum_mapping_missing'', INCOMPLETE)]"

definition UPDATE_REASON_CODES :: "(string \<times> string) list" where
  "UPDATE_REASON_CODES =
     [(''followed_up'', ''crm_followed_up''), (''enum_mapping_missing'', ''crm_enum_mapping_missing''),
      (''incomplete'', ''crm_update_incomplete''), (''mapping_missing'', ''crm_user_mapping_missing''),
      (''processing'', ''sync_processing''), (''retrying'', ''crm_update_retrying''),
      (''company_identity_review'', ''company_identity_change_pending_review''),
      (''failed_pending_review'', ''crm_update_failed_pending_review''),
      (''smart_table_read_failed'', ''wecom_smart_table_retryable'')]"

definition item_of_update :: "pstr \<Rightarrow> string \<Rightarrow> submission_item_result" where
  "item_of_update lead_id status =
     \<lparr>it_lead_id = lead_id,
      it_status = (case dget status UPDATE_ITEM_STATUS of Some x \<Rightarrow> x
        | None \<Rightarrow> the_default FAILED_PENDING_REVIEW (dget status ITEM_STATUS_BY_OUTCOME)),
      it_reason_code = dget status UPDATE_REASON_CODES, it_missing_fields = [], it_failure_category = None,
      it_adapter_category = None, it_failure_code = None\<rparr>"

definition append_update_result :: "submission_batch_result \<Rightarrow> pstr \<Rightarrow> string \<Rightarrow> submission_batch_result" where
  "append_update_result b lead_id status =
     b\<lparr>br_retrying := br_retrying b + one_if (status = ''retrying''),
       br_incomplete := br_incomplete b + one_if (status \<in> set [''incomplete'', ''enum_mapping_missing'']),
       br_processing := br_processing b + one_if (status = ''processing''),
       br_failed_pending_review := br_failed_pending_review b + one_if (status \<in> set [''failed_pending_review'', ''smart_table_read_failed'']),
       br_updated := br_updated b + one_if (status = ''succeeded''),
       br_followed_up := br_followed_up b + one_if (status = ''followed_up''),
       br_unchanged := br_unchanged b + one_if (status = ''unchanged''),
       br_company_identity_review := br_company_identity_review b + one_if (status = ''company_identity_review''),
       br_mapping_missing := br_mapping_missing b + one_if (status = ''mapping_missing''),
       br_items := br_items b @ [item_of_update lead_id status]\<rparr>"

section \<open>Whose row it is\<close>

text \<open>The text between the first opening and the next closing bracket, unless it is empty.\<close>

definition bracket_part :: "cp \<Rightarrow> cp \<Rightarrow> pstr \<Rightarrow> pstr list" where
  "bracket_part opening closing s =
     (let rest = drop 1 (dropWhile (\<lambda>c. c \<noteq> opening) s)
      in if opening \<in> set s \<and> closing \<in> set rest \<and> takeWhile (\<lambda>c. c \<noteq> closing) rest \<noteq> []
         then [py_strip (takeWhile (\<lambda>c. c \<noteq> closing) rest)] else [])"

fun resolve_matches ::
  "(pstr \<Rightarrow> pstr option \<Rightarrow> 'w \<Rightarrow> exn + pstr) \<Rightarrow> (pstr \<times> pstr) list \<Rightarrow> pstr \<Rightarrow> 'w \<Rightarrow> pstr list \<Rightarrow> exn + pstr list" where
  "resolve_matches resolve names raw w [] = Inr []"
| "resolve_matches resolve names raw w (u # us) =
     (case resolve u (dget u names) w of
        Inl e \<Rightarrow> Inl e
      | Inr m \<Rightarrow> (case resolve_matches resolve names raw w us of
                   Inl e \<Rightarrow> Inl e | Inr xs \<Rightarrow> Inr (if m = raw then u # xs else xs)))"

definition owner_names :: "st_record \<Rightarrow> pstr list" where
  "owner_names r =
     (let raw = (case py_get f_owner (rec_fields r) of PStr s \<Rightarrow> [s] | _ \<Rightarrow> []);
          shown = (case dget f_owner (rec_member_names r) of Some s \<Rightarrow> [s] | None \<Rightarrow> []);
          names = filter (\<lambda>s. s \<noteq> []) (map py_strip (raw @ shown))
      in names @ concat (map (\<lambda>v. bracket_part 0xFF08 0xFF09 v @ bracket_part 0x28 0x29 v) names))"

definition table_owner_user_id ::
  "'w crm_ports \<Rightarrow> st_record \<Rightarrow> pstr list \<Rightarrow> (pstr \<times> pstr) list \<Rightarrow> 'w \<Rightarrow> exn + pstr option" where
  "table_owner_user_id cp r owner_user_ids display_names w =
     (let by_name = Inr (sole (map fst (filter (\<lambda>(u, n). u \<in> set owner_user_ids \<and> py_strip n \<in> set (owner_names r)) display_names)))
      in case py_get f_owner (rec_fields r) of
           PStr raw \<Rightarrow>
             if raw \<in> set owner_user_ids then Inr (Some raw)
             else if raw = [] then by_name
             else (case resolve_matches (cp_resolve_member cp) display_names raw w (dedup owner_user_ids) of
                     Inl e \<Rightarrow> Inl e
                   | Inr [] \<Rightarrow> by_name
                   | Inr ms \<Rightarrow> Inr (sole ms))
         | _ \<Rightarrow> by_name)"

definition read_smart_table_record :: "'w crm_ports \<Rightarrow> pstr \<Rightarrow> 'w \<Rightarrow> exn + st_record option" where
  "read_smart_table_record cp rid w =
     (case cp_get_records cp (By_Ids [rid]) w of Inl e \<Rightarrow> Inl e | Inr rs \<Rightarrow> Inr (find (\<lambda>r. rec_id r = rid) rs))"

definition directory_exn :: exn where
  "directory_exn = plain_exn (asc ''EmployeeDirectoryError'') []"

text \<open>The employee number of the owner named in the row; no number when the name is missing or not unique.\<close>

definition owner_of_record :: "employee list \<Rightarrow> st_record option \<Rightarrow> pstr option" where
  "owner_of_record es r =
     (case r of
        None \<Rightarrow> None
      | Some r \<Rightarrow>
          if \<not> blank2 (py_get f_owner (rec_fields r)) \<and> \<not> is_str (py_get f_owner (rec_fields r)) then None
          else case dget f_owner (rec_member_names r) of
            None \<Rightarrow> None
          | Some n \<Rightarrow> if py_strip n = [] then None else directory_resolve es (py_strip n))"

definition resolve_crm_owner ::
  "'w crm_ports \<Rightarrow> employee list option \<Rightarrow> lead \<Rightarrow> st_record option \<Rightarrow> 'w \<Rightarrow> exn + pstr option" where
  "resolve_crm_owner cp directory l initial w =
     (case directory of
        None \<Rightarrow> Inl directory_exn
      | Some es \<Rightarrow>
          (case ld_smart_table_record_id l of
             None \<Rightarrow> Inr None
           | Some rid \<Rightarrow>
               if rid = [] then Inr None
               else if (case initial of Some r \<Rightarrow> rec_id r = rid | None \<Rightarrow> False) then Inr (owner_of_record es initial)
               else (case read_smart_table_record cp rid w of Inl e \<Rightarrow> Inl e | Inr r \<Rightarrow> Inr (owner_of_record es r))))"

definition may_submit_for_others :: "'w crm_ports \<Rightarrow> db \<Rightarrow> pstr \<Rightarrow> 'w \<Rightarrow> bool" where
  "may_submit_for_others cp d u w =
     (case get_actor d u of
        None \<Rightarrow> False
      | Some a \<Rightarrow> sa_is_active a \<and>
          can_submit_other_sales_leads
            (\<lambda>x. case cp_resolve_member cp x None w of Inl _ \<Rightarrow> None | Inr m \<Rightarrow> Some (PStr m)) d (Some a))"

text \<open>The display names of the owners in question, with the name given in a dated command for a single owner.\<close>

definition named_actors :: "db \<Rightarrow> pstr list \<Rightarrow> (pstr \<times> pstr) list" where
  "named_actors d us =
     concat (map (\<lambda>a. case sa_display_name a of
         Some n \<Rightarrow> if sa_wecom_user_id a \<in> set us \<and> py_strip n \<noteq> [] then [(sa_wecom_user_id a, n)] else []
       | None \<Rightarrow> []) (sales_authorizations d))"

definition command_owner_names :: "db \<Rightarrow> submission_command \<Rightarrow> pstr list \<Rightarrow> (pstr \<times> pstr) list" where
  "command_owner_names d c us =
     (case (sc_target_capture_date c, us, sc_target_owner_name c) of
        (Some _, [u], Some n) \<Rightarrow> if n = [] then named_actors d us else dset u n (named_actors d us)
      | _ \<Rightarrow> named_actors d us)"

definition own_display_name :: "db \<Rightarrow> pstr \<Rightarrow> (pstr \<times> pstr) list" where
  "own_display_name d u = (case get_actor d u of None \<Rightarrow> []
     | Some a \<Rightarrow> (case sa_display_name a of None \<Rightarrow> [] | Some n \<Rightarrow> if n = [] then [] else [(u, n)]))"

section \<open>The frozen payload\<close>

definition py_or :: "pyval \<Rightarrow> pyval \<Rightarrow> pyval" where
  "py_or a b = (if py_truthy a then a else b)"

definition canonical_payload :: "env \<Rightarrow> crm_config \<Rightarrow> fields \<Rightarrow> pstr option \<Rightarrow> time \<Rightarrow> payload_error + fields" where
  "canonical_payload env cfg flds tyc fallback =
     payload_build env (crm_level_scheme cfg)
       (if py_truthy (py_get f_entry_time flds) then flds
        else dset f_entry_time (py_or (py_get f_created_time flds) (PTime fallback)) flds) tyc"

definition reliable_tyc_customer_id :: "lead \<Rightarrow> fields \<Rightarrow> pstr option" where
  "reliable_tyc_customer_id l flds =
     (if ld_company_verification_status l \<noteq> ''tyc_verified'' then None
      else case (ld_tyc_customer_id l, py_get f_lead_name flds) of
        (Some i, PStr n) \<Rightarrow> if i = [] \<or> ld_standard_company_name l \<noteq> Some n then None else Some i
      | _ \<Rightarrow> None)"

definition snapshot_hash :: "env \<Rightarrow> fields \<Rightarrow> pstr" where
  "snapshot_hash env payload = e_sha256 env (e_json env True payload)"

definition BUSINESS_COMPLETENESS_FIELDS :: "pstr list" where
  "BUSINESS_COMPLETENESS_FIELDS =
     [f_business_line, f_lead_name, f_lead_source, f_contact, f_title, f_comm_way, f_mobile, f_remark]"

definition CRM_REQUIRED_FIELDS :: "pstr list" where
  "CRM_REQUIRED_FIELDS = BUSINESS_COMPLETENESS_FIELDS @ [f_industry]"

definition missing_business_fields :: "fields \<Rightarrow> pstr list" where
  "missing_business_fields flds = filter (\<lambda>n. \<not> py_truthy (py_get n flds)) BUSINESS_COMPLETENESS_FIELDS"

definition missing_crm_minimum :: "fields \<Rightarrow> pstr list" where
  "missing_crm_minimum flds = filter (\<lambda>n. \<not> py_truthy (py_get n flds)) CRM_REQUIRED_FIELDS"

definition shanghai_date :: "env \<Rightarrow> time \<Rightarrow> int" where
  "shanghai_date env t = day_of (e_shanghai_local env t)"

definition parse_capture_date :: "env \<Rightarrow> pyval \<Rightarrow> int option" where
  "parse_capture_date env v =
     (case v of
        PTime t \<Rightarrow> Some (shanghai_date env t)
      | PNaive t \<Rightarrow> Some (shanghai_date env t)
      | PDate n \<Rightarrow> Some n
      | PStr s \<Rightarrow>
          (let normalized = py_strip s
           in if normalized = [] then None
              else case e_parse_datetime env (replace_chr 0x5A (asc ''+00:00'') normalized) of
                None \<Rightarrow> e_date_from_iso env (take 10 normalized)
              | Some (Naive wall) \<Rightarrow> Some (day_of wall)
              | Some (Aware t wall) \<Rightarrow> Some (shanghai_date env t))
      | _ \<Rightarrow> None)"

definition row_capture_date :: "env \<Rightarrow> fields \<Rightarrow> int option" where
  "row_capture_date env flds = parse_capture_date env (py_or (py_get f_entry_time flds) (py_get f_created_time flds))"

definition unsubmitted_status :: "pyval \<Rightarrow> bool" where
  "unsubmitted_status v = list_ex (py_eq v) [PNone, PStr [], PStr v_unsubmitted]"

definition allowed_submission_status :: "pstr \<Rightarrow> pyval \<Rightarrow> bool" where
  "allowed_submission_status text v = (if text = c_abandoned then py_eq v (PStr v_abandoned) else unsubmitted_status v)"

definition expected_capture_date :: "env \<Rightarrow> time \<Rightarrow> submission_command \<Rightarrow> int option" where
  "expected_capture_date env now c = (if sc_text c = c_today then Some (shanghai_date env now) else sc_target_capture_date c)"

definition date_matches :: "env \<Rightarrow> int option \<Rightarrow> fields \<Rightarrow> bool" where
  "date_matches env expected flds = (case expected of None \<Rightarrow> True | Some n \<Rightarrow> row_capture_date env flds = Some n)"

definition snapshot_fields :: "st_record \<Rightarrow> fields" where
  "snapshot_fields r = filter (\<lambda>(n, v). n \<noteq> f_ai_confirm) (rec_fields r)"

definition last_successful_sync :: "db \<Rightarrow> pstr \<Rightarrow> crm_sync_record option" where
  "last_successful_sync d lead_id =
     (let rows = filter (\<lambda>s. cs_lead_id s = lead_id \<and> cs_status s = ''succeeded'') (crm_sync_records d);
          newest_first = max_by (\<lambda>s. int (cs_id s))
      in case max_by (\<lambda>s. the_default 0 (cs_completed_at s)) (filter (\<lambda>s. cs_completed_at s \<noteq> None) rows) of
           None \<Rightarrow> newest_first rows
         | Some t \<Rightarrow> newest_first (filter (\<lambda>s. cs_completed_at s = cs_completed_at t) rows))"

section \<open>Freezing a creation\<close>

definition integrity_exn :: exn where
  "integrity_exn = plain_exn (asc ''IntegrityError'') []"

definition type_exn :: exn where
  "type_exn = plain_exn (asc ''TypeError'') []"

definition audit_command :: "time \<Rightarrow> submission_command \<Rightarrow> string \<Rightarrow> fields \<Rightarrow> db \<Rightarrow> db" where
  "audit_command now c event_type details d =
     audit_once (sc_request_message_id c) (sc_sales_user_id c) event_type details now d"

definition new_sync ::
  "time \<Rightarrow> nat \<Rightarrow> lead \<Rightarrow> submission_command \<Rightarrow> string \<Rightarrow> pstr \<Rightarrow> fields \<Rightarrow> pstr \<Rightarrow> pstr option \<Rightarrow> crm_sync_record" where
  "new_sync now i l c operation key payload digest crm_user =
     \<lparr>cs_id = i, cs_lead_id = ld_id l, cs_operation = operation, cs_generation = None,
      cs_request_message_id = sc_request_message_id c, cs_crm_lead_id = None, cs_crm_lead_owner_user_id = None,
      cs_status = ''pending'', cs_attempts = 0, cs_failure_category = None, cs_supersedes_sync_record_id = None,
      cs_smart_table_record_id = the_default [] (ld_smart_table_record_id l), cs_idempotency_key = key,
      cs_canonical_payload = payload, cs_snapshot_hash = digest, cs_submitting_sales_user_id = sc_sales_user_id c,
      cs_submitting_crm_user_id = crm_user, cs_processing_started_at = None, cs_processing_lease_expires_at = None,
      cs_next_retry_at = None, cs_failure_kind = None, cs_failure_code = None, cs_failure_summary = None,
      cs_failed_at = None, cs_response_summary = None, cs_created_at = now, cs_completed_at = None\<rparr>"

text \<open>The unique indexes of the table: the key, a creation's generation per lead, the direct successor, an update's digest per lead.\<close>

definition sync_conflict :: "crm_sync_record \<Rightarrow> crm_sync_record \<Rightarrow> bool" where
  "sync_conflict s t =
     (cs_idempotency_key s = cs_idempotency_key t \<or>
      (cs_operation s = ''create'' \<and> cs_operation t = ''create'' \<and> cs_lead_id s = cs_lead_id t \<and>
         cs_generation s \<noteq> None \<and> cs_generation s = cs_generation t) \<or>
      (cs_supersedes_sync_record_id s \<noteq> None \<and> cs_supersedes_sync_record_id s = cs_supersedes_sync_record_id t) \<or>
      (cs_operation s = ''update'' \<and> cs_operation t = ''update'' \<and> cs_lead_id s = cs_lead_id t \<and>
         cs_snapshot_hash s = cs_snapshot_hash t))"

definition insert_sync :: "crm_sync_record \<Rightarrow> db \<Rightarrow> db option" where
  "insert_sync s d =
     (if list_ex (sync_conflict s) (crm_sync_records d) then None
      else Some (d\<lparr>crm_sync_records := tadd s (crm_sync_records d)\<rparr>))"

definition mapping_missing_key :: "env \<Rightarrow> string \<Rightarrow> lead \<Rightarrow> submission_command \<Rightarrow> pstr" where
  "mapping_missing_key env operation l c =
     asc ''crm:validation:mapping_missing:'' @
     e_sha256 env (asc operation @ asc '':'' @ ld_id l @ asc '':'' @ sc_request_message_id c)"

definition record_mapping_missing ::
  "env \<Rightarrow> time \<Rightarrow> lead \<Rightarrow> submission_command \<Rightarrow> fields \<Rightarrow> pstr \<Rightarrow> string \<Rightarrow> db \<Rightarrow> db" where
  "record_mapping_missing env now l c payload digest operation d =
     (let key = mapping_missing_key env operation l c;
          s = (new_sync now (next_id cs_id (crm_sync_records d)) l c ''validation'' key payload digest None)
                \<lparr>cs_status := ''failed_pending_review'', cs_failure_category := Some ''permanent'',
                 cs_failure_kind := Some (asc ''validation_failed''), cs_failure_code := Some (asc ''mapping_missing''),
                 cs_failure_summary := Some s_mapping_missing, cs_failed_at := Some now, cs_completed_at := Some now\<rparr>;
          d1 = (if list_ex (\<lambda>x. cs_idempotency_key x = key) (crm_sync_records d) then d
                else record_audit_for_sync now s (sc_sales_user_id c) ''crm_mapping_missing'' []
                       (d\<lparr>crm_sync_records := tadd s (crm_sync_records d)\<rparr>))
      in if operation = ''update'' \<and> ld_lifecycle_state l = ''synced''
         then upd_lead (ld_id l) (set_lifecycle now ''pending_update'') d1 else d1)"

definition create_key :: "lead \<Rightarrow> int \<Rightarrow> pstr" where
  "create_key l generation = asc ''crm:create:'' @ ld_id l @ (if generation = 1 then [] else asc '':g'' @ str_of_int generation)"

definition reopen_row :: "crm_sync_record \<Rightarrow> crm_sync_record" where
  "reopen_row s = s\<lparr>cs_status := ''pending'', cs_crm_lead_id := None, cs_crm_lead_owner_user_id := None, cs_response_summary := None\<rparr>"

text \<open>What the latest creation attempt means for a new one: an answer, a row to reuse, or a new generation.\<close>

datatype create_plan = Answered create_submission_outcome | Reuse nat | Generation int "nat option"

definition plan_create :: "submission_command \<Rightarrow> fields \<Rightarrow> crm_sync_record option \<Rightarrow> create_plan" where
  "plan_create c row existing =
     (case existing of
        None \<Rightarrow> if sc_text c = c_abandoned then Answered (create_outcome ''incomplete'') else Generation 1 None
      | Some s \<Rightarrow>
          if cs_status s = ''succeeded'' then Answered (create_outcome_because ''not_submitted'' ''already_submitted'')
          else if cs_status s = ''awaiting_duplicate_confirmation'' then Reuse (cs_id s)
          else if cs_status s = ''abandoned'' \<and> (sc_text c = c_abandoned \<or> unsubmitted_status (py_get f_submit_status row))
          then Generation ((case cs_generation s of None \<Rightarrow> 1 | Some g \<Rightarrow> if g = 0 then 1 else g) + 1) (Some (cs_id s))
          else Answered (create_outcome (cs_status s)))"

abbreviation get_identity :: "db \<Rightarrow> pstr \<Rightarrow> crm_company_identity option" where
  "get_identity d n \<equiv> tget ci_standard_company_name n (crm_company_identities d)"

definition identity_answer :: "crm_company_identity option \<Rightarrow> pstr \<Rightarrow> create_submission_outcome option" where
  "identity_answer x lead_id =
     (case x of
        None \<Rightarrow> None
      | Some i \<Rightarrow>
          if ci_state i = ''reserving'' \<and> ci_creating_lead_id i \<noteq> Some lead_id
          then Some (create_outcome_because ''processing'' ''crm_company_identity_processing'')
          else if ci_state i \<notin> set [''reserving'', ''active'']
          then Some (create_outcome_because ''company_identity_review'' ''crm_company_identity_pending_review'')
          else None)"

definition reserve_identity :: "pstr \<Rightarrow> pstr \<Rightarrow> nat \<Rightarrow> db \<Rightarrow> db" where
  "reserve_identity name lead_id sync_id d =
     (case get_identity d name of
        None \<Rightarrow> d\<lparr>crm_company_identities := tadd
                 \<lparr>ci_standard_company_name = name, ci_crm_lead_id = None, ci_crm_lead_owner_user_id = None,
                  ci_state = ''reserving'', ci_creating_lead_id = Some lead_id, ci_creating_sync_record_id = Some sync_id\<rparr>
                 (crm_company_identities d)\<rparr>
      | Some i \<Rightarrow>
          if ci_state i = ''reserving''
          then upd_identity name (\<lambda>x. x\<lparr>ci_creating_lead_id := Some lead_id, ci_creating_sync_record_id := Some sync_id\<rparr>) d
          else d)"

text \<open>A result is the answer of the call, or the submission to be claimed.\<close>

definition freeze_generation ::
  "time \<Rightarrow> lead \<Rightarrow> submission_command \<Rightarrow> fields \<Rightarrow> pstr \<Rightarrow> pstr \<Rightarrow> pstr \<Rightarrow> int \<Rightarrow> nat option \<Rightarrow> db \<Rightarrow>
   (create_submission_outcome + nat) \<times> db" where
  "freeze_generation now l c payload digest name crm_user generation supersedes d =
     (case identity_answer (get_identity d name) (ld_id l) of
        Some out \<Rightarrow> (Inl out, d)
      | None \<Rightarrow>
          (let i = next_id cs_id (crm_sync_records d);
               s = (new_sync now i l c ''create'' (create_key l generation) payload digest (Some crm_user))
                     \<lparr>cs_generation := Some generation, cs_supersedes_sync_record_id := supersedes\<rparr>
           in case insert_sync s d of
                None \<Rightarrow> (Inl (create_outcome ''processing''), d)
              | Some d1 \<Rightarrow> (Inr i, reserve_identity name (ld_id l) i d1)))"

definition owner_ids_of :: "submission_command \<Rightarrow> pstr list" where
  "owner_ids_of c = (case sc_owner_scope_user_ids c of Some (u # us) \<Rightarrow> u # us | _ \<Rightarrow> [sc_sales_user_id c])"

definition not_authorized :: create_submission_outcome where
  "not_authorized = create_outcome_because ''not_submitted'' ''crm_cross_owner_submission_not_authorized''"

definition create_freeze ::
  "env \<Rightarrow> 'w crm_ports \<Rightarrow> employee list option \<Rightarrow> time \<Rightarrow> pstr \<Rightarrow> submission_command \<Rightarrow> st_record \<Rightarrow>
   (pstr \<times> pstr) list \<Rightarrow> fields \<Rightarrow> pstr \<Rightarrow> pstr \<Rightarrow> db \<Rightarrow> 'w \<Rightarrow> (exn + create_submission_outcome + nat) \<times> db" where
  "create_freeze env cp directory now lead_id c r names payload digest name d w =
     (if sc_owner_scope_user_ids c \<noteq> None \<and> \<not> may_submit_for_others cp d (sc_sales_user_id c) w
      then (Inr (Inl not_authorized), d)
      else case get_lead d lead_id of
        None \<Rightarrow> (Inr (Inl (create_outcome ''not_submitted'')), d)
      | Some l \<Rightarrow>
          if ld_smart_table_record_id l \<noteq> Some (rec_id r) then (Inr (Inl (create_outcome ''not_submitted'')), d)
          else case table_owner_user_id cp r (owner_ids_of c) names w of
            Inl e \<Rightarrow> (Inl e, d)
          | Inr owner \<Rightarrow>
              if owner = None \<or> \<not> allowed_submission_status (sc_text c) (py_get f_submit_status (rec_fields r)) \<or>
                 \<not> date_matches env (expected_capture_date env now c) (rec_fields r)
              then (Inr (Inl (create_outcome ''not_submitted'')), d)
              else if unfinished_update d lead_id None \<noteq> None
              then (Inr (Inl (create_outcome_because ''failed_pending_review'' ''crm_outcome_unknown'')), d)
              else case resolve_crm_owner cp directory l (Some r) w of
                Inl e \<Rightarrow> (Inl e, d)
              | Inr None \<Rightarrow> (Inr (Inl (create_outcome ''mapping_missing'')), record_mapping_missing env now l c payload digest ''create'' d)
              | Inr (Some crm_user) \<Rightarrow>
                  (case plan_create c (rec_fields r) (latest_crm_create_sync d lead_id) of
                     Answered out \<Rightarrow> (Inr (Inl out), d)
                   | Reuse i \<Rightarrow> (Inr (Inr i), upd_sync i reopen_row d)
                   | Generation g supersedes \<Rightarrow>
                       (case freeze_generation now l c payload digest name crm_user g supersedes d of (res, d1) \<Rightarrow> (Inr res, d1))))"

section \<open>A creation\<close>

text \<open>What is decided before the row is looked at: an answer, a frozen submission to go on with, or the lead.\<close>

datatype start_state = Start_Answer create_submission_outcome | Start_Resume nat | Start_Lead lead

definition create_start ::
  "'w crm_ports \<Rightarrow> pstr \<Rightarrow> submission_command \<Rightarrow> st_record option \<Rightarrow> db \<Rightarrow> 'w \<Rightarrow> start_state" where
  "create_start cp lead_id c initial d w =
     (if sc_owner_scope_user_ids c \<noteq> None \<and> \<not> may_submit_for_others cp d (sc_sales_user_id c) w
      then Start_Answer not_authorized
      else case get_lead d lead_id of
        None \<Rightarrow> Start_Answer (create_outcome ''not_submitted'')
      | Some l \<Rightarrow>
          (case ld_smart_table_record_id l of
             None \<Rightarrow> Start_Answer (create_outcome ''not_submitted'')
           | Some rid \<Rightarrow>
               (case unfinished_update d lead_id None of
                  Some x \<Rightarrow> Start_Answer (create_outcome_because (review_or_processing x) ''crm_outcome_unknown'')
                | None \<Rightarrow>
                    (case latest_crm_create_sync d lead_id of
                       None \<Rightarrow> Start_Lead l
                     | Some s \<Rightarrow>
                         if cs_status s = ''succeeded'' then Start_Answer (create_outcome_because ''not_submitted'' ''already_submitted'')
                         else if cs_status s = ''abandoned''
                         then (if sc_text c = c_abandoned \<and>
                                  (case initial of None \<Rightarrow> False
                                   | Some r \<Rightarrow> rec_id r = rid \<and> py_eq (py_get f_submit_status (rec_fields r)) (PStr v_abandoned))
                               then Start_Lead l
                               else Start_Answer (create_outcome_because ''not_submitted'' ''submission_abandoned''))
                         else Start_Resume (cs_id s)))))"

text \<open>The checks on the row, with the audit of what is missing, up to the frozen payload.\<close>

definition create_payload ::
  "env \<Rightarrow> crm_config \<Rightarrow> 'w crm_ports \<Rightarrow> time \<Rightarrow> lead \<Rightarrow> submission_command \<Rightarrow> st_record \<Rightarrow> (pstr \<times> pstr) list \<Rightarrow> db \<Rightarrow> 'w \<Rightarrow>
   (exn + create_submission_outcome + fields) \<times> db" where
  "create_payload env cfg cp now l c r names d w =
     (let flds = snapshot_fields r
      in case table_owner_user_id cp r (owner_ids_of c) names w of
           Inl e \<Rightarrow> (Inl e, d)
         | Inr owner \<Rightarrow>
             if owner = None \<or> \<not> allowed_submission_status (sc_text c) (py_get f_submit_status flds) \<or>
                \<not> date_matches env (expected_capture_date env now c) flds
             then (Inr (Inl (create_outcome ''not_submitted'')), d)
             else let d1 = (if missing_business_fields flds \<noteq> [] then audit_command now c ''crm_business_fields_incomplete'' [] d else d)
                  in if missing_crm_minimum flds \<noteq> []
                     then (Inr (Inl ((create_outcome ''incomplete'')\<lparr>co_missing_fields := missing_crm_minimum flds\<rparr>)),
                           audit_command now c ''crm_create_incomplete'' [] d1)
                     else case canonical_payload env cfg flds (reliable_tyc_customer_id l flds) (ld_created_at l) of
                       Inl (Enum_Missing f v) \<Rightarrow>
                         (Inr (Inl ((create_outcome_because ''incomplete'' ''crm_enum_mapping_missing'')
                              \<lparr>co_missing_fields := [f @ s_no_mapping @ py_str env v]\<rparr>)),
                          audit_command now c ''crm_create_enum_mapping_missing'' [(asc ''field_name'', PStr f)] d1)
                     | Inl (Payload_Invalid f) \<Rightarrow>
                         (Inr (Inl (create_outcome ''incomplete'')), audit_command now c ''crm_create_payload_invalid'' [] d1)
                     | Inl Unhashable \<Rightarrow> (Inl type_exn, d1)
                     | Inr payload \<Rightarrow> (Inr (Inr payload), d1))"

definition identity_before_submit :: "crm_company_identity option \<Rightarrow> pstr \<Rightarrow> create_submission_outcome option" where
  "identity_before_submit x lead_id =
     (case x of
        None \<Rightarrow> None
      | Some i \<Rightarrow>
          if ci_state i = ''reserving'' \<and> ci_creating_lead_id i \<noteq> Some lead_id
          then Some (create_outcome_because ''processing'' ''crm_company_identity_processing'')
          else if ci_state i = ''failed_pending_review''
          then Some (create_outcome_because ''company_identity_review'' ''crm_company_identity_pending_review'')
          else None)"

definition submit_create_once ::
  "env \<Rightarrow> crm_config \<Rightarrow> 'w crm_ports \<Rightarrow> employee list option \<Rightarrow> time \<Rightarrow> pstr \<Rightarrow> submission_command \<Rightarrow> st_record option \<Rightarrow>
   bool \<Rightarrow> db \<Rightarrow> 'w \<Rightarrow> (create_submission_outcome, 'w) run" where
  "submit_create_once env cfg cp directory now lead_id c initial defer d w =
     (let go = (\<lambda>i d1. case claim_and_call cfg env cp now now i (sc_sales_user_id c) False defer d1 w of
                  (out, d2, w1) \<Rightarrow> (Inr (create_outcome out), d2, w1));
          names = command_owner_names d c (owner_ids_of c)
      in case create_start cp lead_id c initial d w of
           Start_Answer out \<Rightarrow> (Inr out, d, w)
         | Start_Resume i \<Rightarrow> go i d
         | Start_Lead l \<Rightarrow>
             (case initial of
                None \<Rightarrow> (Inr stale_snapshot_outcome, d, w)
              | Some r \<Rightarrow>
                  if ld_smart_table_record_id l \<noteq> Some (rec_id r) then (Inr stale_snapshot_outcome, d, w)
                  else case create_payload env cfg cp now l c r names d w of
                    (Inl e, d1) \<Rightarrow> (Inl e, d1, w)
                  | (Inr (Inl out), d1) \<Rightarrow> (Inr out, d1, w)
                  | (Inr (Inr payload), d1) \<Rightarrow>
                      (case py_get (asc ''name'') payload of
                         PStr name \<Rightarrow>
                           if name = [] then (Inr (create_outcome ''incomplete''), d1, w)
                           else (case resolve_crm_owner cp directory l (Some r) w of
                                   Inl e \<Rightarrow> (Inl e, d1, w)
                                 | Inr None \<Rightarrow>
                                     (Inr (create_outcome ''mapping_missing''),
                                      record_mapping_missing env now l c payload (snapshot_hash env payload) ''create'' d1, w)
                                 | Inr (Some _) \<Rightarrow>
                                     (case identity_before_submit (get_identity d1 name) lead_id of
                                        Some out \<Rightarrow> (Inr out, d1, w)
                                      | None \<Rightarrow>
                                          (case create_freeze env cp directory now lead_id c r names payload (snapshot_hash env payload) name d1 w of
                                             (Inl e, d2) \<Rightarrow> (Inl e, d2, w)
                                           | (Inr (Inl out), d2) \<Rightarrow> (Inr out, d2, w)
                                           | (Inr (Inr i), d2) \<Rightarrow> go i d2)))
                       | _ \<Rightarrow> (Inr (create_outcome ''incomplete''), d1, w))))"

definition transient_code :: "exn \<Rightarrow> pstr option" where
  "transient_code e = (case ex_error_code e of PStr s \<Rightarrow> Some s
     | _ \<Rightarrow> (case ex_external_error_code e of PInt i \<Rightarrow> Some (str_of_int i) | _ \<Rightarrow> None))"

definition retryable_table_code :: "pstr option \<Rightarrow> bool" where
  "retryable_table_code code = (code \<in> set [Some (asc ''rate_limited''), Some (asc ''network_error'')])"

definition submit_create ::
  "env \<Rightarrow> crm_config \<Rightarrow> 'w crm_ports \<Rightarrow> employee list option \<Rightarrow> time \<Rightarrow> pstr \<Rightarrow> submission_command \<Rightarrow> st_record option \<Rightarrow>
   bool \<Rightarrow> db \<Rightarrow> 'w \<Rightarrow> create_submission_outcome \<times> db \<times> 'w" where
  "submit_create env cfg cp directory now lead_id c initial defer d w =
     (case submit_create_once env cfg cp directory now lead_id c initial defer d w of
        (Inr out, d1, w1) \<Rightarrow> (out, d1, w1)
      | (Inl e, d1, w1) \<Rightarrow>
          if latest_crm_create_sync d1 lead_id = None \<and> classify_task_failure e = TRANSIENT
          then ((create_outcome_because ''failed_pending_review''
                   (if retryable_table_code (transient_code e) then ''wecom_smart_table_retryable'' else ''pre_crm_transient_failure''))
                  \<lparr>co_failure_category := Some ''transient'', co_adapter_category := Some ''transport'',
                   co_failure_code := transient_code e\<rparr>, d1, w1)
          else (create_outcome ''failed_pending_review'', d1, w1))"

section \<open>An update\<close>

definition latest_payload_differs :: "fields \<Rightarrow> fields \<Rightarrow> bool" where
  "latest_payload_differs payload previous = (\<not> py_eq (PDict payload) (PDict previous))"

text \<open>
  The event of a changed company name is added without looking for an earlier one of the same message, so the unique key of
  message and event type can reject the whole transaction.
\<close>

definition identity_change_review :: "time \<Rightarrow> submission_command \<Rightarrow> pstr \<Rightarrow> pyval \<Rightarrow> pyval \<Rightarrow> db \<Rightarrow> db option" where
  "identity_change_review now c lead_id old_name new_name d =
     (case get_lead d lead_id of
        None \<Rightarrow> Some d
      | Some l \<Rightarrow>
          if audit_exists d (sc_request_message_id c) ''company_identity_change_pending_review'' then None
          else Some (add_audit_event (sc_request_message_id c) (sc_sales_user_id c) ''company_identity_change_pending_review''
                 [(asc ''old_standard_company_name'', old_name), (asc ''new_candidate_company_name'', new_name),
                  (asc ''lead_id'', PStr lead_id), (asc ''smart_table_record_id'', opt_str (ld_smart_table_record_id l)),
                  (asc ''smart_table_owner_user_id'', PStr (ld_smart_table_owner_user_id l))] now
                 (upd_lead lead_id (set_lifecycle now ''company_identity_change_pending_review'') d)))"

definition update_key :: "pstr \<Rightarrow> pstr \<Rightarrow> pstr" where
  "update_key lead_id digest = asc ''crm:update:'' @ lead_id @ asc '':'' @ digest"

definition own_row ::
  "'w crm_ports \<Rightarrow> submission_command \<Rightarrow> (pstr \<times> pstr) list \<Rightarrow> lead option \<Rightarrow> st_record \<Rightarrow> 'w \<Rightarrow> exn + bool" where
  "own_row cp c names l r w =
     (if (case l of None \<Rightarrow> True | Some l \<Rightarrow> ld_smart_table_record_id l \<noteq> Some (rec_id r)) then Inr False
      else case table_owner_user_id cp r [sc_sales_user_id c] names w of
        Inl e \<Rightarrow> Inl e
      | Inr owner \<Rightarrow> Inr (owner = Some (sc_sales_user_id c)))"

text \<open>The freezing transaction of an update: an answer, or the submission to be claimed.\<close>

definition update_freeze ::
  "env \<Rightarrow> 'w crm_ports \<Rightarrow> employee list option \<Rightarrow> time \<Rightarrow> pstr \<Rightarrow> submission_command \<Rightarrow> st_record \<Rightarrow> (pstr \<times> pstr) list \<Rightarrow>
   crm_sync_record \<Rightarrow> fields \<Rightarrow> db \<Rightarrow> 'w \<Rightarrow> (exn + string + nat) \<times> db" where
  "update_freeze env cp directory now lead_id c r names latest payload d w =
     (case own_row cp c names (get_lead d lead_id) r w of
        Inl e \<Rightarrow> (Inl e, d)
      | Inr False \<Rightarrow> (Inr (Inl ''incomplete''), d)
      | Inr True \<Rightarrow>
          (let l = the (get_lead d lead_id); digest = snapshot_hash env payload
           in case unfinished_update d lead_id None of
                Some x \<Rightarrow> (Inr (Inl (review_or_processing x)), d)
              | None \<Rightarrow>
                  (case resolve_crm_owner cp directory l (Some r) w of
                     Inl e \<Rightarrow> (Inl e, d)
                   | Inr None \<Rightarrow> (Inr (Inl ''mapping_missing''), record_mapping_missing env now l c payload digest ''update'' d)
                   | Inr (Some crm_user) \<Rightarrow>
                       (case find (\<lambda>s. cs_lead_id s = lead_id \<and> cs_operation s = ''update'' \<and> cs_snapshot_hash s = digest) (crm_sync_records d) of
                          Some s \<Rightarrow> if cs_status s = ''succeeded'' then (Inr (Inl ''unchanged''), d) else (Inr (Inr (cs_id s)), d)
                        | None \<Rightarrow>
                            (let i = next_id cs_id (crm_sync_records d);
                                 s = (new_sync now i l c ''update'' (update_key lead_id digest) payload digest (Some crm_user))
                                       \<lparr>cs_crm_lead_id := cs_crm_lead_id latest, cs_crm_lead_owner_user_id := cs_crm_lead_owner_user_id latest\<rparr>
                             in case insert_sync s d of
                                  None \<Rightarrow> (Inl integrity_exn, d)
                                | Some d1 \<Rightarrow> (Inr (Inr i), record_audit_for_sync now s (sc_sales_user_id c) ''crm_update_created'' [] d1))))))"

definition submit_update ::
  "env \<Rightarrow> crm_config \<Rightarrow> 'w crm_ports \<Rightarrow> employee list option \<Rightarrow> time \<Rightarrow> pstr \<Rightarrow> submission_command \<Rightarrow> st_record \<Rightarrow> db \<Rightarrow> 'w \<Rightarrow>
   (string, 'w) run" where
  "submit_update env cfg cp directory now lead_id c r d w =
     (let go = (\<lambda>i d1. case claim_and_call cfg env cp now now i (sc_sales_user_id c) False False d1 w of
                  (out, d2, w1) \<Rightarrow> (Inr out, d2, w1));
          names = own_display_name d (sc_sales_user_id c)
      in case (get_lead d lead_id, last_successful_sync d lead_id) of
           (Some l, Some latest) \<Rightarrow>
             if ld_smart_table_record_id l = None then (Inr ''incomplete'', d, w)
             else (case unfinished_update d lead_id None of
                     Some x \<Rightarrow> go (cs_id x) d
                   | None \<Rightarrow>
                       (case own_row cp c names (Some l) r w of
                          Inl e \<Rightarrow> (Inl e, d, w)
                        | Inr False \<Rightarrow> (Inr ''incomplete'', d, w)
                        | Inr True \<Rightarrow>
                            (let flds = snapshot_fields r; previous = cs_canonical_payload latest
                             in case canonical_payload env cfg flds (reliable_tyc_customer_id l flds) (ld_created_at l) of
                                  Inl (Enum_Missing f v) \<Rightarrow>
                                    (Inr ''enum_mapping_missing'',
                                     audit_command now c ''crm_update_enum_mapping_missing'' [(asc ''field_name'', PStr f)]
                                       (if ld_lifecycle_state l = ''synced'' then upd_lead lead_id (set_lifecycle now ''pending_update'') d else d), w)
                                | Inl (Payload_Invalid f) \<Rightarrow> (Inr ''incomplete'', audit_command now c ''crm_update_payload_invalid'' [] d, w)
                                | Inl Unhashable \<Rightarrow> (Inl type_exn, d, w)
                                | Inr payload \<Rightarrow>
                                    if \<not> py_eq (py_get (asc ''name'') payload) (py_get (asc ''name'') previous)
                                    then (case identity_change_review now c lead_id (py_get (asc ''name'') previous) (py_get (asc ''name'') payload) d of
                                            None \<Rightarrow> (Inl integrity_exn, d, w)
                                          | Some d1 \<Rightarrow> (Inr ''company_identity_review'', d1, w))
                                    else if \<not> latest_payload_differs payload previous
                                    then (Inr ''unchanged'',
                                          (if ld_lifecycle_state l = ''pending_update'' then upd_lead lead_id (set_lifecycle now ''synced'') d else d), w)
                                    else (case update_freeze env cp directory now lead_id c r names latest payload d w of
                                            (Inl e, d1) \<Rightarrow> (Inl e, d1, w)
                                          | (Inr (Inl out), d1) \<Rightarrow> (Inr out, d1, w)
                                          | (Inr (Inr i), d1) \<Rightarrow> go i d1))))
         | _ \<Rightarrow> (Inr ''incomplete'', d, w))"

section \<open>Writing the status back\<close>

text \<open>The newest creation or update of each lead of a batch, by row number.\<close>

definition newest_sync :: "db \<Rightarrow> pstr \<Rightarrow> crm_sync_record option" where
  "newest_sync d lead_id =
     max_by (\<lambda>s. int (cs_id s)) (filter (\<lambda>s. cs_lead_id s = lead_id \<and> cs_operation s \<in> set [''create'', ''update'']) (crm_sync_records d))"

definition synced_rows :: "db \<Rightarrow> pstr list \<Rightarrow> (pstr \<times> pstr) list" where
  "synced_rows d lead_ids =
     concat (map (\<lambda>i. case (newest_sync d i, get_lead d i) of
         (Some s, Some l) \<Rightarrow>
           (case ld_smart_table_record_id l of
              Some rid \<Rightarrow> if cs_status s = ''succeeded'' \<and> rid \<noteq> [] then [(i, rid)] else []
            | None \<Rightarrow> [])
       | _ \<Rightarrow> []) (dedup lead_ids))"

definition write_back_batch_submission_status ::
  "'w crm_ports \<Rightarrow> time \<Rightarrow> pstr list \<Rightarrow> db \<Rightarrow> 'w \<Rightarrow> db \<times> 'w" where
  "write_back_batch_submission_status cp now lead_ids d w =
     (let rows = synced_rows d lead_ids
      in if rows = [] then (d, w)
         else case cp_update_records cp (map (\<lambda>(i, rid). (rid, [(f_submit_status, PStr v_submitted)])) rows) w of
           (Inl e, w1) \<Rightarrow> (d, w1)
         | (Inr _, w1) \<Rightarrow> (foldl (\<lambda>d (i, rid). upd_lead i (project_submission_status now v_submitted) d) d rows, w1))"

section \<open>Batches\<close>

type_synonym create_job = "pstr \<times> submission_command \<times> st_record option"

fun submit_create_jobs ::
  "env \<Rightarrow> crm_config \<Rightarrow> 'w crm_ports \<Rightarrow> employee list option \<Rightarrow> time \<Rightarrow> create_job list \<Rightarrow> db \<Rightarrow> 'w \<Rightarrow>
   (pstr \<times> create_submission_outcome) list \<times> db \<times> 'w" where
  "submit_create_jobs env cfg cp directory now [] d w = ([], d, w)"
| "submit_create_jobs env cfg cp directory now ((lead_id, c, r) # js) d w =
     (case submit_create env cfg cp directory now lead_id c r True d w of
        (out, d1, w1) \<Rightarrow>
          (case submit_create_jobs env cfg cp directory now js d1 w1 of (outs, d2, w2) \<Rightarrow> ((lead_id, out) # outs, d2, w2)))"

definition submit_create_batch ::
  "env \<Rightarrow> crm_config \<Rightarrow> 'w crm_ports \<Rightarrow> employee list option \<Rightarrow> time \<Rightarrow> create_job list \<Rightarrow> db \<Rightarrow> 'w \<Rightarrow>
   (pstr \<times> create_submission_outcome) list \<times> db \<times> 'w" where
  "submit_create_batch env cfg cp directory now js d w =
     (if js = [] then ([], d, w)
      else case submit_create_jobs env cfg cp directory now js d w of
        (outs, d1, w1) \<Rightarrow>
          (case write_back_batch_submission_status cp now (map fst js) d1 w1 of (d2, w2) \<Rightarrow> (outs, d2, w2)))"

definition collect_results ::
  "(pstr \<Rightarrow> create_submission_outcome) \<Rightarrow> pstr list \<Rightarrow> submission_batch_result" where
  "collect_results outcome lead_ids = foldl (\<lambda>b i. append_create_result b i (outcome i)) empty_batch lead_ids"

definition snapshot_failure :: "exn \<Rightarrow> create_submission_outcome" where
  "snapshot_failure e =
     (let category = category_value (classify_task_failure e)
      in (create_outcome_because ''failed_pending_review''
            (if retryable_table_code (transient_code e) then ''wecom_smart_table_retryable'' else ''smart_table_snapshot_failed''))
           \<lparr>co_failure_category := Some category,
            co_adapter_category := (if category = ''transient'' then Some ''transport'' else None),
            co_failure_code := transient_code e\<rparr>)"

text \<open>The command that names one lead; the row was read with the command or is read here.\<close>

definition submit_target ::
  "env \<Rightarrow> crm_config \<Rightarrow> 'w crm_ports \<Rightarrow> employee list option \<Rightarrow> time \<Rightarrow> submission_command \<Rightarrow> st_record list option \<Rightarrow> db \<Rightarrow> 'w \<Rightarrow>
   (submission_batch_result, 'w) run" where
  "submit_target env cfg cp directory now c initial_records d w =
     (case sc_target_lead_id c of
        None \<Rightarrow> (Inl value_exn, d, w)
      | Some lead_id \<Rightarrow>
          (let answer = (\<lambda>out. append_create_result empty_batch lead_id out)
           in case get_lead d lead_id of
                None \<Rightarrow> (Inr (answer (create_outcome_because ''not_submitted'' ''candidate_state_changed'')), d, w)
              | Some l \<Rightarrow>
                  (case ld_smart_table_record_id l of
                     None \<Rightarrow> (Inr (answer (create_outcome_because ''not_submitted'' ''candidate_state_changed'')), d, w)
                   | Some rid \<Rightarrow>
                       (let found = (case initial_records of
                              Some rs \<Rightarrow> Inr (tget rec_id rid rs)
                            | None \<Rightarrow> if rid = [] then Inr None else read_smart_table_record cp rid w)
                        in case found of
                             Inl e \<Rightarrow> (Inr (answer (snapshot_failure e)), d, w)
                           | Inr None \<Rightarrow> (Inr (answer stale_snapshot_outcome), d, w)
                           | Inr (Some r) \<Rightarrow>
                               (case submit_create env cfg cp directory now lead_id c (Some r) False d w of
                                  (out, d1, w1) \<Rightarrow> (Inr (answer out), d1, w1))))))"

end
