(* ===== verification/Crm_Batch.thy ===== *)
theory Crm_Batch
  imports Crm_Submit "HOL-Library.List_Lexorder"
begin

text \<open>
  Batches of CRM submissions, the remaining operations of \<^verbatim>\<open>app/crm/service.py\<close>: the candidates shown on a card, the selected
  ones when the card comes back, the retry of incomplete leads, the updates of one owner, the confirmation of duplicates
  and the repeating task. The source runs the items of a large batch on a thread pool; here they run one after
  the other in the order of the batch, which is what it does for one item and on SQLite. The callback that stores each item's result is
  represented by the list of items it is called with.
\<close>

definition py_permission_exn :: exn where
  "py_permission_exn = plain_exn (asc ''PermissionError'') [C_PermissionError, C_OSError]"

record submission_candidate =
  sn_lead_id :: pstr
  sn_company_name :: pstr
  sn_owner_user_id :: pstr
  sn_record :: st_record

record duplicate_confirmation_result =
  dc_submitted :: nat
  dc_abandoned :: nat
  dc_remaining :: nat
  dc_failed :: nat
  dc_failure_reasons :: "pstr list"

section \<open>The newest creation of many leads\<close>

definition generation_rank :: "crm_sync_record \<Rightarrow> int" where
  "generation_rank s = (case cs_generation s of None \<Rightarrow> 0 | Some g \<Rightarrow> - g)"

text \<open>One query for all leads: by lead, generation downwards with the missing ones last, and number downwards.\<close>

definition creates_in_order :: "db \<Rightarrow> pstr list \<Rightarrow> crm_sync_record list" where
  "creates_in_order d lids =
     sort_key cs_lead_id (sort_key (\<lambda>s. cs_generation s = None) (sort_key generation_rank (sort_key (\<lambda>s. - int (cs_id s))
       (filter (\<lambda>s. cs_lead_id s \<in> set lids \<and> cs_operation s = ''create'') (crm_sync_records d)))))"

definition dsetdefault :: "'k \<Rightarrow> 'v \<Rightarrow> ('k \<times> 'v) list \<Rightarrow> ('k \<times> 'v) list" where
  "dsetdefault k v m = (if dget k m = None then m @ [(k, v)] else m)"

definition latest_sync_by_lead :: "db \<Rightarrow> pstr list \<Rightarrow> (pstr \<times> crm_sync_record) list" where
  "latest_sync_by_lead d lids = foldl (\<lambda>m s. dsetdefault (cs_lead_id s) s m) [] (creates_in_order d lids)"

definition lead_of_record :: "db \<Rightarrow> pstr \<Rightarrow> lead option" where
  "lead_of_record d rid = find (\<lambda>l. ld_smart_table_record_id l = Some rid) (leads d)"

section \<open>Candidates\<close>

definition candidate_commands :: "pstr list" where
  "candidate_commands = [c_today, c_all_mine, c_abandoned, c_cross_owner]"

definition blocks_candidate :: "pstr \<Rightarrow> string option \<Rightarrow> bool" where
  "blocks_candidate text status =
     (status = Some ''succeeded'' \<or> (status = Some ''abandoned'' \<and> text \<noteq> c_abandoned))"

definition candidate_name :: "pyval \<Rightarrow> pstr" where
  "candidate_name v = (case v of PStr s \<Rightarrow> if py_strip s = [] then s_name_pending else py_strip s | _ \<Rightarrow> s_name_pending)"

fun candidates_of ::
  "env \<Rightarrow> 'w crm_ports \<Rightarrow> pstr \<Rightarrow> pstr list \<Rightarrow> (pstr \<times> pstr) list \<Rightarrow> int option \<Rightarrow> (pstr \<times> crm_sync_record) list \<Rightarrow> db \<Rightarrow> 'w \<Rightarrow>
   st_record list \<Rightarrow> exn + submission_candidate list" where
  "candidates_of env cp text owners names expected syncs d w [] = Inr []"
| "candidates_of env cp text owners names expected syncs d w (r # rs) =
     (case table_owner_user_id cp r owners names w of
        Inl e \<Rightarrow> Inl e
      | Inr owner \<Rightarrow>
          (case candidates_of env cp text owners names expected syncs d w rs of
             Inl e \<Rightarrow> Inl e
           | Inr cs \<Rightarrow>
               Inr (case (owner, lead_of_record d (rec_id r)) of
                      (Some u, Some l) \<Rightarrow>
                        if allowed_submission_status text (py_get f_submit_status (rec_fields r)) \<and>
                           date_matches env expected (rec_fields r) \<and>
                           \<not> blocks_candidate text (map_option cs_status (dget (ld_id l) syncs))
                        then \<lparr>sn_lead_id = ld_id l, sn_company_name = candidate_name (py_get f_lead_name (rec_fields r)),
                              sn_owner_user_id = u, sn_record = r\<rparr> # cs
                        else cs
                    | _ \<Rightarrow> cs)))"

definition nonempty_names :: "(pstr \<times> pstr) list \<Rightarrow> (pstr \<times> pstr) list option" where
  "nonempty_names names = (if names = [] then None else Some names)"

definition list_submission_candidates ::
  "env \<Rightarrow> 'w crm_ports \<Rightarrow> time \<Rightarrow> pstr \<Rightarrow> pstr \<Rightarrow> pstr list option \<Rightarrow> int option \<Rightarrow> (pstr \<times> pstr) list \<Rightarrow> st_record list option \<Rightarrow>
   db \<Rightarrow> 'w \<Rightarrow> exn + submission_candidate list" where
  "list_submission_candidates env cp now text sales_user_id scope target_date given_names given_records d w =
     (let cross = (text = c_cross_owner)
      in if text \<notin> set candidate_commands then Inl value_exn
         else if cross \<noteq> (scope \<noteq> None) then Inl value_exn
         else if target_date \<noteq> None \<and> text \<notin> set [c_all_mine, c_cross_owner] then Inl value_exn
         else let owners = (case scope of Some (u # us) \<Rightarrow> u # us | _ \<Rightarrow> [sales_user_id]);
                  capture_date = (if text = c_today then Some (shanghai_date env now) else target_date);
                  names = (if given_names = [] then named_actors d owners else given_names)
              in if cross \<and> \<not> may_submit_for_others cp d sales_user_id w then Inl value_exn
                 else case (case given_records of
                              Some rs \<Rightarrow> Inr rs
                            | None \<Rightarrow> cp_get_records cp (By_Owner owners (nonempty_names names)
                                 (Some (if text = c_abandoned then v_abandoned else v_unsubmitted)) capture_date) w) of
                        Inl e \<Rightarrow> Inl e
                      | Inr rs \<Rightarrow>
                          (let lids = concat (map (\<lambda>r. case lead_of_record d (rec_id r) of None \<Rightarrow> [] | Some l \<Rightarrow> [ld_id l]) rs)
                           in candidates_of env cp text owners names capture_date (latest_sync_by_lead d lids) d w rs))"

section \<open>A card comes back\<close>

text \<open>The selected leads whose newest creation does not rule them out, with the number of their row.\<close>

definition selectable :: "db \<Rightarrow> pstr \<Rightarrow> bool \<Rightarrow> (pstr \<times> crm_sync_record) list \<Rightarrow> pstr \<Rightarrow> bool" where
  "selectable d text authorized syncs lead_id =
     (get_lead d lead_id \<noteq> None \<and> \<not> blocks_candidate text (map_option cs_status (dget lead_id syncs)) \<and>
      (text = c_cross_owner \<longrightarrow> authorized))"

definition record_id_of :: "db \<Rightarrow> pstr \<Rightarrow> pstr option" where
  "record_id_of d lead_id = (case get_lead d lead_id of None \<Rightarrow> None | Some l \<Rightarrow> ld_smart_table_record_id l)"

definition row_snapshot :: "st_record list \<Rightarrow> pstr option \<Rightarrow> st_record option" where
  "row_snapshot rs rid = tget rec_id (the_default [] rid) rs"

text \<open>The rows of the selected leads and the outcomes decided without a submission.\<close>

definition selected_snapshot ::
  "'w crm_ports \<Rightarrow> st_record list option \<Rightarrow> db \<Rightarrow> pstr list \<Rightarrow> 'w \<Rightarrow>
   st_record list \<times> (pstr \<times> create_submission_outcome) list" where
  "selected_snapshot cp initial d valid w =
     (let rids = dedup (concat (map (\<lambda>i. case record_id_of d i of None \<Rightarrow> [] | Some rid \<Rightarrow> [rid]) valid));
          with_row = filter (\<lambda>i. record_id_of d i \<noteq> None) valid;
          lost = (\<lambda>rs. map (\<lambda>i. (i, stale_snapshot_outcome))
                    (filter (\<lambda>i. tget rec_id (the (record_id_of d i)) rs = None) with_row))
      in case initial of
           Some rs \<Rightarrow> (rs, lost rs)
         | None \<Rightarrow>
             if rids = [] then ([], [])
             else case cp_get_records cp (By_Ids rids) w of
               Inl e \<Rightarrow> ([], map (\<lambda>i. (i, snapshot_failure e)) with_row)
             | Inr rs \<Rightarrow> (let kept = filter (\<lambda>r. rec_id r \<in> set rids) rs in (kept, lost kept)))"

fun still_valid ::
  "env \<Rightarrow> 'w crm_ports \<Rightarrow> pstr \<Rightarrow> pstr list \<Rightarrow> (pstr \<times> pstr) list \<Rightarrow> int option \<Rightarrow> st_record list \<Rightarrow> db \<Rightarrow> 'w \<Rightarrow> pstr list \<Rightarrow>
   exn + pstr list" where
  "still_valid env cp text owners names expected rs d w [] = Inr []"
| "still_valid env cp text owners names expected rs d w (i # is) =
     (case (case row_snapshot rs (record_id_of d i) of
              None \<Rightarrow> Inr True
            | Some r \<Rightarrow>
                (case table_owner_user_id cp r owners names w of
                   Inl e \<Rightarrow> Inl e
                 | Inr owner \<Rightarrow>
                     Inr (owner \<noteq> None \<and> allowed_submission_status text (py_get f_submit_status (rec_fields r)) \<and>
                          date_matches env expected (rec_fields r)))) of
        Inl e \<Rightarrow> Inl e
      | Inr ok \<Rightarrow>
          (case still_valid env cp text owners names expected rs d w is of
             Inl e \<Rightarrow> Inl e | Inr valid \<Rightarrow> Inr (if ok then i # valid else valid)))"

definition invalid_outcome :: "bool \<Rightarrow> create_submission_outcome" where
  "invalid_outcome refused = (if refused then not_authorized else create_outcome ''not_submitted'')"

definition outcome_for ::
  "(pstr \<times> create_submission_outcome) list \<Rightarrow> (pstr \<times> create_submission_outcome) list \<Rightarrow> create_submission_outcome \<Rightarrow> pstr \<Rightarrow>
   create_submission_outcome" where
  "outcome_for outcomes preflight invalid i =
     (case dget i outcomes of Some out \<Rightarrow> out | None \<Rightarrow> the_default invalid (dget i preflight))"

definition submit_selected ::
  "env \<Rightarrow> crm_config \<Rightarrow> 'w crm_ports \<Rightarrow> employee list option \<Rightarrow> time \<Rightarrow> submission_command \<Rightarrow> pstr list \<Rightarrow> st_record list option \<Rightarrow>
   db \<Rightarrow> 'w \<Rightarrow> (submission_batch_result \<times> submission_item_result list, 'w) run" where
  "submit_selected env cfg cp directory now c selected_lead_ids initial d w =
     (let text = sc_text c; cross = (text = c_cross_owner)
      in if text \<notin> set candidate_commands then (Inl value_exn, d, w)
         else if cross \<noteq> (sc_owner_scope_user_ids c \<noteq> None) then (Inl value_exn, d, w)
         else if sc_target_capture_date c \<noteq> None \<and> \<not> cross then (Inl value_exn, d, w)
         else let selected = dedup selected_lead_ids;
                  authorized = (\<not> cross \<or> may_submit_for_others cp d (sc_sales_user_id c) w);
                  owners = (if cross then the_default [] (sc_owner_scope_user_ids c) else [sc_sales_user_id c]);
                  names = command_owner_names d c owners;
                  syncs = latest_sync_by_lead d selected;
                  first_valid = filter (selectable d text authorized syncs) selected;
                  (rs, preflight) = selected_snapshot cp initial d first_valid w
              in case still_valid env cp text owners names (expected_capture_date env now c) rs d w first_valid of
                   Inl e \<Rightarrow> (Inl e, d, w)
                 | Inr valid \<Rightarrow>
                     (let invalid = filter (\<lambda>i. i \<notin> set valid) selected;
                          refusal = invalid_outcome (cross \<and> \<not> authorized);
                          c1 = c\<lparr>sc_target_lead_id := None\<rparr>;
                          jobs = map (\<lambda>i. (i, c1, row_snapshot rs (record_id_of d i)))
                                   (filter (\<lambda>i. i \<in> set valid \<and> dget i preflight = None) selected)
                      in case submit_create_batch env cfg cp directory now jobs d w of
                           (outs, d1, w1) \<Rightarrow>
                             (Inr (collect_results (outcome_for outs preflight refusal) selected,
                                   map (\<lambda>i. item_of_outcome i refusal) invalid @
                                   map (\<lambda>(i, out). item_of_outcome i out) preflight @
                                   map (\<lambda>(i, out). item_of_outcome i out) outs), d1, w1)))"

section \<open>The retry of incomplete leads\<close>

datatype retry_state = Retry_No string | Retry_Row pstr

definition retry_state_of :: "submission_command \<Rightarrow> db \<Rightarrow> pstr \<Rightarrow> retry_state" where
  "retry_state_of c d lead_id =
     (case record_id_of d lead_id of
        None \<Rightarrow> Retry_No ''candidate_state_changed''
      | Some rid \<Rightarrow>
          (case latest_crm_create_sync d lead_id of
             Some s \<Rightarrow>
               if cs_status s = ''succeeded''
               then Retry_No (if cs_request_message_id s = sc_request_message_id c then ''request_succeeded'' else ''already_submitted'')
               else Retry_Row rid
           | None \<Rightarrow> Retry_Row rid))"

fun retry_jobs ::
  "'w crm_ports \<Rightarrow> submission_command \<Rightarrow> (pstr \<times> pstr) list \<Rightarrow> st_record list \<Rightarrow> db \<Rightarrow> 'w \<Rightarrow> pstr list \<Rightarrow> exn + create_job list" where
  "retry_jobs cp c names rs d w [] = Inr []"
| "retry_jobs cp c names rs d w (i # is) =
     (case (case retry_state_of c d i of
              Retry_No _ \<Rightarrow> Inr None
            | Retry_Row rid \<Rightarrow>
                (case tget rec_id rid rs of
                   None \<Rightarrow> Inr None
                 | Some r \<Rightarrow>
                     (case table_owner_user_id cp r [sc_sales_user_id c] names w of
                        Inl e \<Rightarrow> Inl e
                      | Inr owner \<Rightarrow>
                          Inr (if owner = Some (sc_sales_user_id c) \<and> unsubmitted_status (py_get f_submit_status (rec_fields r))
                               then Some r else None)))) of
        Inl e \<Rightarrow> Inl e
      | Inr found \<Rightarrow>
          (case retry_jobs cp c names rs d w is of
             Inl e \<Rightarrow> Inl e
           | Inr js \<Rightarrow>
               Inr (case found of
                      None \<Rightarrow> js
                    | Some r \<Rightarrow> (i, \<lparr>sc_text = c_target, sc_sales_user_id = sc_sales_user_id c,
                                    sc_request_message_id = sc_request_message_id c, sc_target_lead_id = Some i,
                                    sc_target_owner_name = None, sc_owner_scope_user_ids = None,
                                    sc_target_capture_date = None\<rparr>, Some r) # js)))"

definition retry_refusal :: "submission_command \<Rightarrow> db \<Rightarrow> pstr \<Rightarrow> create_submission_outcome" where
  "retry_refusal c d i =
     (case retry_state_of c d i of
        Retry_No reason \<Rightarrow> if reason = ''request_succeeded'' then create_outcome ''succeeded''
                           else create_outcome_because ''not_submitted'' reason
      | Retry_Row _ \<Rightarrow> create_outcome_because ''not_submitted'' ''candidate_state_changed'')"

definition submit_incomplete_retry ::
  "env \<Rightarrow> crm_config \<Rightarrow> 'w crm_ports \<Rightarrow> employee list option \<Rightarrow> time \<Rightarrow> submission_command \<Rightarrow> pstr list \<Rightarrow> db \<Rightarrow> 'w \<Rightarrow>
   (submission_batch_result, 'w) run" where
  "submit_incomplete_retry env cfg cp directory now c selected_lead_ids d w =
     (if sc_text c \<noteq> c_retry_incomplete then (Inl value_exn, d, w)
      else let selected = dedup selected_lead_ids;
               names = own_display_name d (sc_sales_user_id c);
               rids = dedup (concat (map (\<lambda>i. case retry_state_of c d i of Retry_No _ \<Rightarrow> [] | Retry_Row rid \<Rightarrow> [rid]) selected))
           in case (if rids = [] then Inr [] else cp_get_records cp (By_Ids rids) w) of
                Inl e \<Rightarrow> (Inl e, d, w)
              | Inr rs \<Rightarrow>
                  (case retry_jobs cp c names rs d w selected of
                     Inl e \<Rightarrow> (Inl e, d, w)
                   | Inr jobs \<Rightarrow>
                       (case submit_create_batch env cfg cp directory now jobs d w of
                          (outs, d1, w1) \<Rightarrow>
                            (Inr (collect_results (\<lambda>i. the_default (retry_refusal c d i) (dget i outs)) selected), d1, w1))))"

section \<open>The updates of one owner\<close>

text \<open>The update of the caller that is still open, and whether a lead has been submitted and has none.\<close>

definition open_update_of :: "submission_command \<Rightarrow> db \<Rightarrow> lead \<Rightarrow> (pstr \<times> nat) list" where
  "open_update_of c d l =
     (if ld_smart_table_record_id l = None \<or> last_successful_sync d (ld_id l) = None then []
      else case unfinished_update d (ld_id l) None of
        None \<Rightarrow> []
      | Some s \<Rightarrow> if cs_submitting_sales_user_id s = sc_sales_user_id c then [(ld_id l, cs_id s)] else [])"

definition update_candidate :: "db \<Rightarrow> lead \<Rightarrow> bool" where
  "update_candidate d l =
     (ld_smart_table_record_id l \<noteq> None \<and> last_successful_sync d (ld_id l) \<noteq> None \<and> unfinished_update d (ld_id l) None = None)"

fun resume_updates ::
  "env \<Rightarrow> crm_config \<Rightarrow> 'w crm_ports \<Rightarrow> time \<Rightarrow> pstr \<Rightarrow> (pstr \<times> nat) list \<Rightarrow> db \<Rightarrow> 'w \<Rightarrow> (pstr \<times> string) list \<times> db \<times> 'w" where
  "resume_updates env cfg cp now u [] d w = ([], d, w)"
| "resume_updates env cfg cp now u ((lead_id, i) # xs) d w =
     (case claim_and_call cfg env cp now now i u False False d w of
        (out, d1, w1) \<Rightarrow>
          (case resume_updates env cfg cp now u xs d1 w1 of (outs, d2, w2) \<Rightarrow> ((lead_id, out) # outs, d2, w2)))"

fun own_snapshot ::
  "'w crm_ports \<Rightarrow> pstr \<Rightarrow> (pstr \<times> pstr) list \<Rightarrow> 'w \<Rightarrow> st_record list \<Rightarrow> exn + (pstr \<times> st_record) list \<Rightarrow> exn + (pstr \<times> st_record) list" where
  "own_snapshot cp u names w [] acc = acc"
| "own_snapshot cp u names w (r # rs) acc =
     (case acc of
        Inl e \<Rightarrow> Inl e
      | Inr m \<Rightarrow>
          (case table_owner_user_id cp r [u] names w of
             Inl e \<Rightarrow> Inl e
           | Inr owner \<Rightarrow> own_snapshot cp u names w rs (Inr (if owner = Some u then dset (rec_id r) r m else m))))"

fun submit_each_update ::
  "env \<Rightarrow> crm_config \<Rightarrow> 'w crm_ports \<Rightarrow> employee list option \<Rightarrow> time \<Rightarrow> submission_command \<Rightarrow> (pstr \<times> st_record) list \<Rightarrow> db \<Rightarrow> 'w \<Rightarrow>
   (pstr \<times> string) list \<times> db \<times> 'w" where
  "submit_each_update env cfg cp directory now c [] d w = ([], d, w)"
| "submit_each_update env cfg cp directory now c ((lead_id, r) # xs) d w =
     (case submit_update env cfg cp directory now lead_id c r d w of
        (res, d1, w1) \<Rightarrow>
          (case submit_each_update env cfg cp directory now c xs d1 w1 of
             (outs, d2, w2) \<Rightarrow>
               ((lead_id, (case res of Inl e \<Rightarrow> ''failed_pending_review'' | Inr out \<Rightarrow> out)) # outs, d2, w2)))"

definition collect_updates :: "(pstr \<times> string) list \<Rightarrow> submission_batch_result" where
  "collect_updates outs = foldl (\<lambda>b (i, st). append_update_result b i st) empty_batch outs"

definition submit_updates ::
  "env \<Rightarrow> crm_config \<Rightarrow> 'w crm_ports \<Rightarrow> employee list option \<Rightarrow> time \<Rightarrow> submission_command \<Rightarrow> db \<Rightarrow> 'w \<Rightarrow>
   (submission_batch_result, 'w) run" where
  "submit_updates env cfg cp directory now c d w =
     (let u = sc_sales_user_id c;
          names = own_display_name d u;
          pending = concat (map (open_update_of c d) (leads d));
          candidates_exist = list_ex (update_candidate d) (leads d);
          read_failures = map ld_id (filter (\<lambda>l. update_candidate d l \<and> ld_smart_table_owner_user_id l = u) (leads d))
      in case resume_updates env cfg cp now u pending d w of
           (resumed, d1, w1) \<Rightarrow>
             if \<not> candidates_exist then (Inr (collect_updates resumed), d1, w1)
             else case cp_get_records cp (By_Owner [u] (nonempty_names names) None None) w1 of
               Inl e \<Rightarrow>
                 (Inr (collect_updates (map (\<lambda>i. (i, ''smart_table_read_failed'')) read_failures @
                                        filter (\<lambda>(i, st). i \<notin> set read_failures) resumed)), d1, w1)
             | Inr rs \<Rightarrow>
                 (case own_snapshot cp u names w1 rs (Inr []) of
                    Inl e \<Rightarrow> (Inl e, d1, w1)
                  | Inr snapshot \<Rightarrow>
                      (let todo = concat (map (\<lambda>(rid, r). case lead_of_record d1 rid of
                                    None \<Rightarrow> []
                                  | Some l \<Rightarrow> if ld_id l \<in> set (map fst pending) \<or> last_successful_sync d1 (ld_id l) = None then []
                                              else [(ld_id l, r)]) snapshot)
                       in case submit_each_update env cfg cp directory now c todo d1 w1 of
                            (outs, d2, w2) \<Rightarrow>
                              (Inr (collect_updates (outs @ filter (\<lambda>(i, st). i \<notin> set (map fst todo)) resumed)), d2, w2))))"

definition submit ::
  "env \<Rightarrow> crm_config \<Rightarrow> 'w crm_ports \<Rightarrow> employee list option \<Rightarrow> time \<Rightarrow> submission_command \<Rightarrow> st_record list option \<Rightarrow> db \<Rightarrow> 'w \<Rightarrow>
   (submission_batch_result, 'w) run" where
  "submit env cfg cp directory now c initial_records d w =
     (if sc_text c = c_updates then submit_updates env cfg cp directory now c d w
      else if sc_text c \<in> set candidate_commands then (Inl value_exn, d, w)
      else if sc_text c \<noteq> c_target then (Inl value_exn, d, w)
      else submit_target env cfg cp directory now c initial_records d w)"

section \<open>The repeating task\<close>

definition retry_rank :: "crm_sync_record \<Rightarrow> bool \<times> time" where
  "retry_rank s = (case cs_next_retry_at s of None \<Rightarrow> (True, 0) | Some t \<Rightarrow> (False, t))"

text \<open>The creations due, by the time of the retry (none last) and the number.\<close>

definition due_creates :: "time \<Rightarrow> db \<Rightarrow> crm_sync_record list" where
  "due_creates now d =
     sort_key (\<lambda>s. fst (retry_rank s)) (sort_key (\<lambda>s. snd (retry_rank s)) (sort_key (\<lambda>s. int (cs_id s))
       (filter (due_create now) (crm_sync_records d))))"

definition pending_writebacks :: "db \<Rightarrow> pstr list" where
  "pending_writebacks d =
     map ld_id (sort_key (\<lambda>l. case newest_sync d (ld_id l) of None \<Rightarrow> 0 | Some s \<Rightarrow> cs_id s)
       (filter (\<lambda>l. ld_smart_table_record_id l \<noteq> None \<and> py_get f_submit_status (ld_field_values l) \<noteq> PStr v_submitted \<and>
            (case newest_sync d (ld_id l) of None \<Rightarrow> False | Some s \<Rightarrow> cs_status s = ''succeeded'')) (leads d)))"

fun retry_each ::
  "env \<Rightarrow> crm_config \<Rightarrow> 'w crm_ports \<Rightarrow> time \<Rightarrow> crm_sync_record list \<Rightarrow> db \<Rightarrow> 'w \<Rightarrow> db \<times> 'w" where
  "retry_each env cfg cp now [] d w = (d, w)"
| "retry_each env cfg cp now (s # ss) d w =
     (case claim_and_call cfg env cp now now (cs_id s) (cs_submitting_sales_user_id s) True True d w of
        (out, d1, w1) \<Rightarrow> retry_each env cfg cp now ss d1 w1)"

definition retry_due_creates ::
  "env \<Rightarrow> crm_config \<Rightarrow> 'w crm_ports \<Rightarrow> time \<Rightarrow> int \<Rightarrow> db \<Rightarrow> 'w \<Rightarrow> (nat, 'w) run" where
  "retry_due_creates env cfg cp now limit d w =
     (if limit \<le> 0 then (Inl value_exn, d, w)
      else let due = take (nat limit) (due_creates now d);
               back = take (nat limit) (pending_writebacks d)
           in case retry_each env cfg cp now due d w of
                (d1, w1) \<Rightarrow>
                  (case write_back_batch_submission_status cp now (dedup (back @ map cs_lead_id due)) d1 w1 of
                     (d2, w2) \<Rightarrow> (Inr (length due), d2, w2)))"

section \<open>Confirmed duplicates\<close>

definition is_capture_date_owned_candidate ::
  "env \<Rightarrow> lead \<Rightarrow> pstr list \<Rightarrow> int \<Rightarrow> time option \<Rightarrow> fields \<Rightarrow> bool \<Rightarrow> bool" where
  "is_capture_date_owned_candidate env l owners capture_date received flds prefer_table_date =
     (let table_date = parse_capture_date env (py_or (py_or (py_or (py_get f_entry_time flds) (py_get f_created_time flds))
            (py_get f_entry_time (ld_field_values l))) (py_get f_created_time (ld_field_values l)));
          d1 = (if prefer_table_date then table_date else None);
          d2 = (case (d1, received) of (None, Some t) \<Rightarrow> Some (shanghai_date env t) | _ \<Rightarrow> d1);
          d3 = (if d2 = None then table_date else d2);
          captured = (case d3 of None \<Rightarrow> shanghai_date env (ld_created_at l) | Some n \<Rightarrow> n)
      in ld_smart_table_owner_user_id l \<in> set owners \<and> captured = capture_date)"

definition awaiting_rows :: "pstr \<Rightarrow> pstr list \<Rightarrow> pstr list \<Rightarrow> db \<Rightarrow> (crm_sync_record \<times> lead) list" where
  "awaiting_rows message owners frozen d =
     concat (map (\<lambda>s. case get_lead d (cs_lead_id s) of
         None \<Rightarrow> []
       | Some l \<Rightarrow>
           if cs_request_message_id s = message \<and> cs_operation s = ''create'' \<and>
              cs_status s = ''awaiting_duplicate_confirmation'' \<and> ld_smart_table_owner_user_id l \<in> set owners \<and>
              (frozen = [] \<or> ld_id l \<in> set frozen)
           then [(s, l)] else []) (crm_sync_records d))"

definition duplicate_failure_reason :: "crm_sync_record option \<Rightarrow> pstr" where
  "duplicate_failure_reason x =
     (case x of
        None \<Rightarrow> s_dup_unknown
      | Some s \<Rightarrow>
          if cs_failure_category s = Some ''unknown'' \<or>
             (cs_operation s = ''update'' \<and> cs_attempts s > 0 \<and> cs_failure_kind s = None) then s_dup_unknown
          else if cs_failure_kind s = Some (asc ''authentication'') then s_dup_auth
          else if cs_failure_kind s \<in> set [Some (asc ''business''), Some (asc ''business_rejection'')] then s_dup_business
          else if cs_failure_kind s = Some (asc ''gateway'') then s_dup_gateway
          else s_dup_other)"

definition abandoned_row :: "time \<Rightarrow> crm_sync_record \<Rightarrow> crm_sync_record" where
  "abandoned_row now s = s\<lparr>cs_status := ''abandoned'', cs_failure_category := Some ''user_abandoned'',
     cs_response_summary := Some s_stopped, cs_completed_at := Some now\<rparr>"

definition abandon_duplicate :: "time \<Rightarrow> pstr \<Rightarrow> crm_sync_record \<Rightarrow> db \<Rightarrow> db" where
  "abandon_duplicate now u s d =
     (let d1 = upd_sync (cs_id s) (abandoned_row now) d;
          d2 = (case identity_of_sync d1 s of
                  None \<Rightarrow> d1
                | Some i \<Rightarrow> if ci_state i = ''reserving'' then del_identity (ci_standard_company_name i) d1 else d1)
      in record_audit_for_sync now (abandoned_row now s) u ''crm_duplicate_submission_abandoned'' [] d2)"

definition confirmed_row :: "crm_sync_record \<Rightarrow> crm_sync_record" where
  "confirmed_row s = s\<lparr>cs_operation := ''update'', cs_idempotency_key := update_key (cs_lead_id s) (cs_snapshot_hash s),
     cs_status := ''pending'', cs_response_summary := None\<rparr>"

text \<open>The changed row must still satisfy the unique indexes.\<close>

definition confirm_duplicate :: "time \<Rightarrow> pstr \<Rightarrow> crm_sync_record \<Rightarrow> db \<Rightarrow> db option" where
  "confirm_duplicate now u s d =
     (if list_ex (\<lambda>t. cs_id t \<noteq> cs_id s \<and> sync_conflict (confirmed_row s) t) (crm_sync_records d) then None
      else Some (record_audit_for_sync now (confirmed_row s) u ''crm_duplicate_update_confirmed'' []
                   (upd_sync (cs_id s) confirmed_row d)))"

record duplicate_decision =
  dd_abandoned :: "pstr list"
  dd_confirmed :: "(nat \<times> pstr) list"
  dd_remaining :: nat

fun decide_duplicates ::
  "time \<Rightarrow> pstr \<Rightarrow> bool \<Rightarrow> pstr list \<Rightarrow> (lead \<Rightarrow> bool) \<Rightarrow> (crm_sync_record \<times> lead) list \<Rightarrow> duplicate_decision \<Rightarrow> db \<Rightarrow>
   (duplicate_decision \<times> db) option" where
  "decide_duplicates now u continue selected in_range [] a d = Some (a, d)"
| "decide_duplicates now u continue selected in_range ((s, l) # rows) a d =
     (if \<not> in_range l then decide_duplicates now u continue selected in_range rows (a\<lparr>dd_remaining := dd_remaining a + 1\<rparr>) d
      else if \<not> continue
      then decide_duplicates now u continue selected in_range rows (a\<lparr>dd_abandoned := dd_abandoned a @ [ld_id l]\<rparr>)
             (abandon_duplicate now u s d)
      else if ld_id l \<notin> set selected
      then decide_duplicates now u continue selected in_range rows (a\<lparr>dd_remaining := dd_remaining a + 1\<rparr>) d
      else case confirm_duplicate now u s d of
        None \<Rightarrow> None
      | Some d1 \<Rightarrow> decide_duplicates now u continue selected in_range rows
                     (a\<lparr>dd_confirmed := dd_confirmed a @ [(cs_id s, ld_id l)]\<rparr>) d1)"

fun mark_abandoned :: "'w crm_ports \<Rightarrow> time \<Rightarrow> pstr list \<Rightarrow> db \<Rightarrow> 'w \<Rightarrow> (unit, 'w) run" where
  "mark_abandoned cp now [] d w = (Inr (), d, w)"
| "mark_abandoned cp now (i # is) d w =
     (case set_smart_table_submission_status cp now i v_abandoned d w of
        (Inl e, d1, w1) \<Rightarrow> (Inl e, d1, w1)
      | (Inr _, d1, w1) \<Rightarrow> mark_abandoned cp now is d1 w1)"

fun submit_confirmed ::
  "env \<Rightarrow> crm_config \<Rightarrow> 'w crm_ports \<Rightarrow> time \<Rightarrow> pstr \<Rightarrow> nat list \<Rightarrow> duplicate_confirmation_result \<Rightarrow> db \<Rightarrow> 'w \<Rightarrow>
   duplicate_confirmation_result \<times> db \<times> 'w" where
  "submit_confirmed env cfg cp now u [] res d w = (res, d, w)"
| "submit_confirmed env cfg cp now u (i # is) res d w =
     (case claim_and_call cfg env cp now now i u False True d w of
        (out, d1, w1) \<Rightarrow>
          submit_confirmed env cfg cp now u is
            (if out = ''succeeded'' then res\<lparr>dc_submitted := dc_submitted res + 1\<rparr>
             else res\<lparr>dc_failed := dc_failed res + 1,
                      dc_failure_reasons := dedup (dc_failure_reasons res @ [duplicate_failure_reason (get_sync d1 i)])\<rparr>) d1 w1)"

definition act_on_duplicates ::
  "env \<Rightarrow> crm_config \<Rightarrow> 'w crm_ports \<Rightarrow> time \<Rightarrow> pstr \<Rightarrow> bool \<Rightarrow> pstr list \<Rightarrow> (lead \<Rightarrow> bool) \<Rightarrow> (crm_sync_record \<times> lead) list \<Rightarrow>
   db \<Rightarrow> 'w \<Rightarrow> (duplicate_confirmation_result, 'w) run" where
  "act_on_duplicates env cfg cp now u continue selected in_range rows d w =
     (let none = \<lparr>dc_submitted = 0, dc_abandoned = 0, dc_remaining = 0, dc_failed = 0, dc_failure_reasons = []\<rparr>
      in case decide_duplicates now u continue selected in_range rows
                \<lparr>dd_abandoned = [], dd_confirmed = [], dd_remaining = 0\<rparr> d of
           None \<Rightarrow> (Inl integrity_exn, d, w)
         | Some (a, d1) \<Rightarrow>
             if \<not> continue
             then (case mark_abandoned cp now (dd_abandoned a) d1 w of
                     (Inl e, d2, w1) \<Rightarrow> (Inl e, d2, w1)
                   | (Inr _, d2, w1) \<Rightarrow> (Inr (none\<lparr>dc_abandoned := length (dd_abandoned a)\<rparr>), d2, w1))
             else (case submit_confirmed env cfg cp now u (map fst (dd_confirmed a)) (none\<lparr>dc_remaining := dd_remaining a\<rparr>) d1 w of
                     (res, d2, w1) \<Rightarrow>
                       (case write_back_batch_submission_status cp now (map snd (dd_confirmed a)) d2 w1 of
                          (d3, w2) \<Rightarrow> (Inr res, d3, w2))))"

definition resolve_duplicate_confirmation ::
  "env \<Rightarrow> crm_config \<Rightarrow> 'w crm_ports \<Rightarrow> time \<Rightarrow> pstr \<Rightarrow> pstr \<Rightarrow> bool \<Rightarrow> pstr list \<Rightarrow> pstr list \<Rightarrow> pstr list option \<Rightarrow> int option \<Rightarrow>
   db \<Rightarrow> 'w \<Rightarrow> (duplicate_confirmation_result, 'w) run" where
  "resolve_duplicate_confirmation env cfg cp now message u continue selected frozen scope target_date d w =
     (let owners = (case scope of Some (x # xs) \<Rightarrow> x # xs | _ \<Rightarrow> [u]);
          rows = awaiting_rows message owners frozen d;
          rids = dedup (concat (map (\<lambda>(s, l). case ld_smart_table_record_id l of None \<Rightarrow> [] | Some rid \<Rightarrow> [rid]) rows))
      in case (if target_date = None \<or> rids = [] then Inr [] else cp_get_records cp (By_Ids rids) w) of
           Inl e \<Rightarrow> (Inl e, d, w)
         | Inr snapshot \<Rightarrow>
             if scope \<noteq> None \<and> (scope = Some [] \<or> \<not> may_submit_for_others cp d u w) then (Inl py_permission_exn, d, w)
             else let received = (\<lambda>l. case ld_source_message_id l of None \<Rightarrow> None
                                    | Some m \<Rightarrow> map_option im_received_at (get_message d m));
                      table_fields = (\<lambda>l. case tget rec_id (the_default [] (ld_smart_table_record_id l)) snapshot of
                                    None \<Rightarrow> ld_field_values l | Some r \<Rightarrow> rec_fields r);
                      in_range = (\<lambda>l. case target_date of None \<Rightarrow> True
                                    | Some n \<Rightarrow> is_capture_date_owned_candidate env l owners n (received l) (table_fields l) True)
                  in act_on_duplicates env cfg cp now u continue selected in_range rows d w)"

end
