(* ===== verification/Crm_Sync_Correct.thy ===== *)
theory Crm_Sync_Correct
  imports Crm_Sync
begin

text \<open>
  What the submission protocol of \<open>Crm_Sync\<close> guarantees, for any interleaving of the workers' transactions: results are
  fenced by the claim number, the payload and the idempotency key are frozen, success is final, a definite failure and
  nothing else lets a waiting discard take effect, automatic repetition ends, and, with a CRM that honours the
  idempotency key, each submission creates at most one CRM lead, crashes and expired leases included.
\<close>

section \<open>Frames\<close>

lemma record_audit_for_sync_frame [simp]:
  "crm_sync_records (record_audit_for_sync now s u t x d) = crm_sync_records d"
  "crm_company_identities (record_audit_for_sync now s u t x d) = crm_company_identities d"
  "leads (record_audit_for_sync now s u t x d) = leads d"
  "lead_discard_requests (record_audit_for_sync now s u t x d) = lead_discard_requests d"
  "notification_records (record_audit_for_sync now s u t x d) = notification_records d"
  "sales_authorizations (record_audit_for_sync now s u t x d) = sales_authorizations d"
  by (simp_all add: record_audit_for_sync_def)

lemma enqueue_frame [simp]:
  "crm_sync_records (enqueue_crm_retry_result_notification env now i d) = crm_sync_records d"
  "crm_company_identities (enqueue_crm_retry_result_notification env now i d) = crm_company_identities d"
  "leads (enqueue_crm_retry_result_notification env now i d) = leads d"
  "lead_discard_requests (enqueue_crm_retry_result_notification env now i d) = lead_discard_requests d"
  "sales_authorizations (enqueue_crm_retry_result_notification env now i d) = sales_authorizations d"
  by (simp_all add: enqueue_crm_retry_result_notification_def Let_def split: option.splits)

lemma mark_unknown_frame [simp]:
  "crm_sync_records (mark_unknown_crm_outcome cfg now s u d) = tupd cs_id (cs_id s) (unknown_row now) (crm_sync_records d)"
  "crm_company_identities (mark_unknown_crm_outcome cfg now s u d) = crm_company_identities d"
  "leads (mark_unknown_crm_outcome cfg now s u d) = leads d"
  "lead_discard_requests (mark_unknown_crm_outcome cfg now s u d) = lead_discard_requests d"
  by (simp_all add: mark_unknown_crm_outcome_def)

lemma fail_company_identity_frame [simp]:
  "crm_sync_records (fail_company_identity now s u d) = crm_sync_records d"
  "leads (fail_company_identity now s u d) = leads d"
  "lead_discard_requests (fail_company_identity now s u d) = lead_discard_requests d"
  by (simp_all add: fail_company_identity_def split: option.splits)

lemma finalize_pending_discard_frame [simp]:
  "crm_sync_records (finalize_pending_discard now s d) = crm_sync_records d"
  "crm_company_identities (finalize_pending_discard now s d) = crm_company_identities d"
  by (simp_all add: finalize_pending_discard_def split: option.splits)

lemma settle_identity_frame [simp]:
  "crm_sync_records (settle_identity now s u d) = crm_sync_records d"
  "leads (settle_identity now s u d) = leads d"
  "lead_discard_requests (settle_identity now s u d) = lead_discard_requests d"
  by (simp_all add: settle_identity_def split: option.splits)

lemma overrule_discard_frame [simp]:
  "crm_sync_records (overrule_discard now s l d) = crm_sync_records d"
  "leads (overrule_discard now s l d) = leads d"
  "crm_company_identities (overrule_discard now s l d) = crm_company_identities d"
  by (simp_all add: overrule_discard_def split: option.splits)

section \<open>Rows\<close>

definition frozen ::
  "crm_sync_record \<Rightarrow> nat \<times> pstr \<times> string \<times> int option \<times> nat option \<times> pstr \<times> pstr \<times> fields \<times> pstr \<times> pstr \<times>
     pstr \<times> pstr option" where
  "frozen s = (cs_id s, cs_lead_id s, cs_operation s, cs_generation s, cs_supersedes_sync_record_id s,
     cs_smart_table_record_id s, cs_idempotency_key s, cs_canonical_payload s, cs_snapshot_hash s,
     cs_request_message_id s, cs_submitting_sales_user_id s, cs_submitting_crm_user_id s)"

lemma frozen_rows [simp]:
  "frozen (unknown_row now s) = frozen s" "frozen (claim_row now s) = frozen s" "frozen (success_row now r s) = frozen s"
  "frozen (failure_row env e s) = frozen s" "frozen (release_sync s) = frozen s"
  by (simp_all add: frozen_def unknown_row_def claim_row_def success_row_def failure_row_def release_sync_def Let_def)

lemma row_ids [simp]:
  "cs_id (unknown_row now s) = cs_id s" "cs_id (claim_row now s) = cs_id s" "cs_id (success_row now r s) = cs_id s"
  "cs_id (failure_row env e s) = cs_id s" "cs_id (release_sync s) = cs_id s"
  by (simp_all add: unknown_row_def claim_row_def success_row_def failure_row_def release_sync_def Let_def)

lemma row_attempts [simp]:
  "cs_attempts (unknown_row now s) = cs_attempts s" "cs_attempts (claim_row now s) = cs_attempts s + 1"
  "cs_attempts (success_row now r s) = cs_attempts s" "cs_attempts (failure_row env e s) = cs_attempts s"
  by (simp_all add: unknown_row_def claim_row_def success_row_def failure_row_def release_sync_def Let_def)

lemma row_status [simp]:
  "cs_status (unknown_row now s) = ''failed_pending_review''" "cs_status (claim_row now s) = ''processing''"
  "cs_status (success_row now r s) = ''succeeded''"
  by (simp_all add: unknown_row_def claim_row_def success_row_def)

text \<open>What the three results of a call write into the row.\<close>

definition result_row ::
  "crm_config \<Rightarrow> env \<Rightarrow> time \<Rightarrow> bool \<Rightarrow> exn + crm_create_result \<Rightarrow> crm_sync_record \<Rightarrow> crm_sync_record" where
  "result_row cfg env now notify res s =
     (case res of
        Inr r \<Rightarrow> success_row now r s
      | Inl e \<Rightarrow>
          if classify_task_failure e = TRANSIENT
          then (let s1 = (failure_row env e s)\<lparr>cs_response_summary := Some (transport_summary env (crm_failure_evidence_of env e))\<rparr>
                in if cs_operation s = ''update'' \<or> (notify \<and> cs_attempts s \<ge> crm_create_retry_count cfg) then unknown_row now s1
                   else s1\<lparr>cs_status := ''retrying'', cs_next_retry_at := Some (now + retry_delay cfg (cs_attempts s))\<rparr>)
          else (let s1 = (failure_row env e s)\<lparr>cs_status := ''failed_pending_review'', cs_failed_at := Some now, cs_next_retry_at := None\<rparr>
                in if remote_outcome_open env e s then unknown_row now s1
                   else s1\<lparr>cs_response_summary := Some (asc (''CRM '' @ cs_operation s @ '' failed''))\<rparr>))"

lemma frozen_upd [simp]:
  "frozen (s\<lparr>cs_status := x\<rparr>) = frozen s" "frozen (s\<lparr>cs_failed_at := t\<rparr>) = frozen s" "frozen (s\<lparr>cs_next_retry_at := t\<rparr>) = frozen s"
  "frozen (s\<lparr>cs_response_summary := y\<rparr>) = frozen s"
  by (simp_all add: frozen_def)

lemma result_row_frozen [simp]: "frozen (result_row cfg env now notify res s) = frozen s"
  by (simp add: result_row_def Let_def split: sum.splits)

lemma result_row_id [simp]: "cs_id (result_row cfg env now notify res s) = cs_id s"
  by (simp add: result_row_def Let_def split: sum.splits)

lemma result_row_attempts [simp]: "cs_attempts (result_row cfg env now notify res s) = cs_attempts s"
  by (simp add: result_row_def Let_def split: sum.splits)

lemma result_row_status:
  "cs_status (result_row cfg env now notify res s) \<in> {''succeeded'', ''failed_pending_review'', ''retrying''}"
  by (simp add: result_row_def Let_def split: sum.splits)

lemma result_row_not_processing [simp]: "cs_status (result_row cfg env now notify res s) \<noteq> ''processing''"
  using result_row_status [of cfg env now notify res s] by auto

text \<open>The result of a worker whose claim is not current leaves the database as it is.\<close>

lemma settle_stale:
  "\<forall>s. get_sync d i = Some s \<longrightarrow> \<not> claim_is_current s c \<Longrightarrow> snd (settle_result cfg env now i u c notify res d) = d"
  by (auto simp: settle_result_def record_crm_transport_failure_def record_crm_failure_def settle_success_def
      split: sum.splits option.splits if_splits prod.splits)

lemma settle_current:
  assumes s: "get_sync d i = Some s" and c: "claim_is_current s c" and l: "get_lead d (cs_lead_id s) \<noteq> None"
  shows "get_sync (snd (settle_result cfg env now i u c notify res d)) i = Some (result_row cfg env now notify res s)"
proof -
  have i: "cs_id s = i" using s by (auto dest: tget_SomeD)
  show ?thesis
  proof (cases res)
    case (Inr r)
    with s c l i show ?thesis
      by (auto simp: settle_result_def settle_success_def result_row_def Let_def tget_tupd_same split: option.splits if_splits)
  next
    case (Inl e)
    show ?thesis
    proof (cases "classify_task_failure e = TRANSIENT")
      case True
      with Inl s c i show ?thesis
        by (auto simp: settle_result_def record_crm_transport_failure_def result_row_def Let_def tget_tupd_same)
    next
      case False
      with Inl s c i show ?thesis
        by (auto simp: settle_result_def record_crm_failure_def result_row_def Let_def tget_tupd_same)
    qed
  qed
qed


lemma settle_other:
  "j \<noteq> i \<Longrightarrow> get_sync (snd (settle_result cfg env now i u c notify res d)) j = get_sync d j"
proof (cases "\<exists>s. get_sync d i = Some s \<and> claim_is_current s c")
  case False
  then show ?thesis by (simp add: settle_stale)
next
  case True
  assume j: "j \<noteq> i"
  then obtain s where s: "get_sync d i = Some s" "claim_is_current s c" using True by blast
  then have i: "cs_id s = i" by (auto dest: tget_SomeD)
  have other: "tget cs_id j (tupd cs_id i f t) = tget cs_id j t" if "\<And>x. cs_id (f x) = cs_id x" for f t
    using that j by (intro tget_tupd_other) auto
  show ?thesis
    using s i
    by (auto simp: settle_result_def settle_success_def record_crm_transport_failure_def record_crm_failure_def Let_def other
        split: sum.splits option.splits if_splits prod.splits)
qed

section \<open>The effect of a claim\<close>

definition claimable :: "crm_config \<Rightarrow> time \<Rightarrow> db \<Rightarrow> crm_sync_record \<Rightarrow> bool" where
  "claimable cfg now d s =
     ((cs_status s \<in> set [''pending'', ''retrying'', ''awaiting_duplicate_confirmation''] \<and>
         cs_attempts s < crm_create_retry_count cfg \<or>
       lease_expired now s \<and> \<not> (cs_operation s = ''update'' \<and> cs_attempts s > 0) \<or> outcome_unknown s) \<and>
      unfinished_update d (cs_lead_id s) (Some (cs_id s)) = None)"

lemma status_apart:
  "outcome_unknown s \<Longrightarrow> cs_status s = ''failed_pending_review''" "lease_expired now s \<Longrightarrow> cs_status s = ''processing''"
  by (simp_all add: outcome_unknown_def lease_expired_def)

lemma claim_sync_claimed:
  "claim_sync cfg env now i u notify d = (Claimed c p k cu, d') \<longleftrightarrow>
     (\<exists>s. get_sync d i = Some s \<and> claimable cfg now d s \<and> c = (now, cs_attempts s + 1) \<and> p = cs_canonical_payload s \<and>
        k = cs_idempotency_key s \<and> cu = cs_submitting_crm_user_id s \<and> d' = upd_sync i (claim_row now) d)"
proof (cases "get_sync d i")
  case None
  then show ?thesis by (simp add: claim_sync_def)
next
  case (Some s)
  then have i: "cs_id s = i" by (auto dest: tget_SomeD)
  show ?thesis
    using Some i status_apart(1) [of s] status_apart(2) [of now s]
    by (auto simp: claim_sync_def claimable_def Let_def split: option.splits if_splits)
qed

lemma claim_sync_refused:
  assumes "claim_sync cfg env now i u notify d = (Refused out, d')"
  shows "crm_sync_records d' = crm_sync_records d \<or>
    (\<exists>s. get_sync d i = Some s \<and> crm_sync_records d' = tupd cs_id i (unknown_row now) (crm_sync_records d) \<and>
       cs_status s \<in> set [''pending'', ''retrying'', ''awaiting_duplicate_confirmation'', ''processing''] \<and>
       out = ''failed_pending_review'')"
proof (cases "get_sync d i")
  case None
  with assms show ?thesis by (simp add: claim_sync_def)
next
  case (Some s)
  then have "cs_id s = i" by (auto dest: tget_SomeD)
  with Some assms status_apart(1) [of s] status_apart(2) [of now s] show ?thesis
    by (auto simp: claim_sync_def Let_def split: option.splits if_splits)
qed

lemma claim_is_current_claim_row: "claim_is_current (claim_row now s) (t, n) \<longleftrightarrow> t = now \<and> n = cs_attempts s + 1"
  by (auto simp: claim_is_current_def claim_row_def Let_def)


section \<open>Fencing\<close>

definition sync_level :: "nat \<Rightarrow> db \<Rightarrow> int" where
  "sync_level i d = (case get_sync d i of None \<Rightarrow> 0 | Some s \<Rightarrow> cs_attempts s)"

definition claim_live :: "nat \<Rightarrow> sync_claim \<Rightarrow> db \<Rightarrow> bool" where
  "claim_live i c d = (case get_sync d i of None \<Rightarrow> False | Some s \<Rightarrow> claim_is_current s c)"

lemma claim_sync_row:
  assumes "get_sync d i = Some s"
  obtains (claimed) "claimable cfg now d s" "get_sync (snd (claim_sync cfg env now i u notify d)) i = Some (claim_row now s)"
  | (kept) "\<not> claimable cfg now d s" "get_sync (snd (claim_sync cfg env now i u notify d)) i = Some s"
  | (given_up) "\<not> claimable cfg now d s" "get_sync (snd (claim_sync cfg env now i u notify d)) i = Some (unknown_row now s)"
      "cs_status s \<in> set [''pending'', ''retrying'', ''awaiting_duplicate_confirmation'', ''processing'']"
proof (cases "claim_sync cfg env now i u notify d")
  case (Pair out d')
  show thesis
  proof (cases out)
    case (Claimed c p k cu)
    with Pair have "claim_sync cfg env now i u notify d = (Claimed c p k cu, d')" by simp
    then have "claimable cfg now d s" "d' = upd_sync i (claim_row now) d"
      using assms unfolding claim_sync_claimed by auto
    with Pair assms show thesis by (intro claimed) (simp_all add: tget_tupd_same)
  next
    case (Refused o')
    with Pair have r: "claim_sync cfg env now i u notify d = (Refused o', d')" by simp
    have nc: "\<not> claimable cfg now d s"
      using r assms claim_sync_claimed [of cfg env now i u notify d "(now, cs_attempts s + 1)"] by fastforce
    from claim_sync_refused [OF r] assms Pair nc show thesis
      by (auto simp: tget_tupd_same intro: kept given_up)
  qed
qed

lemma claim_sync_none: "get_sync d i = None \<Longrightarrow> snd (claim_sync cfg env now i u notify d) = d"
  by (simp add: claim_sync_def)

lemma claim_sync_other: "j \<noteq> i \<Longrightarrow> get_sync (snd (claim_sync cfg env now i u notify d)) j = get_sync d j"
proof (cases "claim_sync cfg env now i u notify d")
  case (Pair out d')
  assume j: "j \<noteq> i"
  have other: "tget cs_id j (tupd cs_id i f t) = tget cs_id j t" if "\<And>x. cs_id (f x) = cs_id x" for f t
    using that j by (intro tget_tupd_other) auto
  show ?thesis
  proof (cases out)
    case (Claimed c p k cu)
    with Pair have "claim_sync cfg env now i u notify d = (Claimed c p k cu, d')" by simp
    then have "d' = upd_sync i (claim_row now) d" unfolding claim_sync_claimed by blast
    with Pair show ?thesis by (simp add: other)
  next
    case (Refused o')
    with Pair claim_sync_refused [of cfg env now i u notify d o' d'] show ?thesis by (auto simp: other)
  qed
qed

lemma claim_sync_leads [simp]: "leads (snd (claim_sync cfg env now i u notify d)) = leads d"
  by (simp add: claim_sync_def Let_def split: option.splits)

lemma settle_result_row:
  assumes "get_sync d i = Some s"
  obtains (stored) "claim_is_current s c"
      "get_sync (snd (settle_result cfg env now i u c notify res d)) i = Some (result_row cfg env now notify res s)"
  | (kept) "snd (settle_result cfg env now i u c notify res d) = d"
proof (cases "claim_is_current s c")
  case False
  with assms show thesis by (intro kept settle_stale) auto
next
  case True
  show thesis
  proof (cases "get_lead d (cs_lead_id s)")
    case None
    show thesis
    proof (cases res)
      case (Inr r)
      with None assms show thesis by (intro kept) (simp add: settle_result_def settle_success_def)
    next
      case (Inl e)
      have "get_sync (snd (settle_result cfg env now i u c notify res d)) i = Some (result_row cfg env now notify res s)"
        using assms True Inl tget_SomeD [OF assms]
        by (auto simp: settle_result_def record_crm_failure_def record_crm_transport_failure_def result_row_def Let_def tget_tupd_same)
      with True show thesis by (rule stored)
    qed
  next
    case (Some l)
    with assms True show thesis by (intro stored settle_current) auto
  qed
qed

lemma settle_result_none: "get_sync d i = None \<Longrightarrow> snd (settle_result cfg env now i u c notify res d) = d"
  by (rule settle_stale) simp

section \<open>Events\<close>

text \<open>
  The transactions of all workers, in any order and on any rows: claims, and the storing of results under any claim,
  current or not.
\<close>

datatype crm_event =
    Ev_Claim time nat pstr bool
  | Ev_Settle time nat pstr sync_claim bool "exn + crm_create_result"

fun crm_event_step :: "crm_config \<Rightarrow> env \<Rightarrow> crm_event \<Rightarrow> db \<Rightarrow> db" where
  "crm_event_step cfg env (Ev_Claim now i u notify) d = snd (claim_sync cfg env now i u notify d)"
| "crm_event_step cfg env (Ev_Settle now i u c notify res) d = snd (settle_result cfg env now i u c notify res d)"

definition crm_events :: "crm_config \<Rightarrow> env \<Rightarrow> crm_event list \<Rightarrow> db \<Rightarrow> db" where
  "crm_events cfg env es d = fold (crm_event_step cfg env) es d"

text \<open>What one event can do to one row.\<close>

datatype row_change = Kept | Taken time | Given_Up time | Stored time bool "exn + crm_create_result"

fun changed :: "crm_config \<Rightarrow> env \<Rightarrow> row_change \<Rightarrow> crm_sync_record \<Rightarrow> crm_sync_record" where
  "changed cfg env Kept s = s"
| "changed cfg env (Taken now) s = claim_row now s"
| "changed cfg env (Given_Up now) s = unknown_row now s"
| "changed cfg env (Stored now notify res) s = result_row cfg env now notify res s"

fun change_ok :: "row_change \<Rightarrow> crm_sync_record \<Rightarrow> bool" where
  "change_ok Kept s = True"
| "change_ok (Taken now) s =
     (cs_status s \<in> set [''pending'', ''retrying'', ''awaiting_duplicate_confirmation''] \<or> lease_expired now s \<or> outcome_unknown s)"
| "change_ok (Given_Up now) s =
     (cs_status s \<in> set [''pending'', ''retrying'', ''awaiting_duplicate_confirmation'', ''processing''])"
| "change_ok (Stored now notify res) s = (cs_status s = ''processing'')"

fun caused_by :: "crm_event \<Rightarrow> nat \<Rightarrow> row_change \<Rightarrow> bool" where
  "caused_by (Ev_Claim now j u notify) i c = (c = Kept \<or> (j = i \<and> (c = Taken now \<or> c = Given_Up now)))"
| "caused_by (Ev_Settle now j u tok notify res) i c = (c = Kept \<or> (j = i \<and> c = Stored now notify res))"

lemma event_row:
  assumes "get_sync d i = Some s"
  obtains c where "caused_by e i c" "change_ok c s" "get_sync (crm_event_step cfg env e d) i = Some (changed cfg env c s)"
proof (cases e)
  case (Ev_Claim now j u notify)
  show thesis
  proof (cases "j = i")
    case False
    with assms Ev_Claim show thesis by (intro that [of Kept]) (simp_all add: claim_sync_other)
  next
    case True
    show thesis
    proof (rule claim_sync_row [OF assms, of cfg now env u notify])
      assume "claimable cfg now d s" "get_sync (snd (claim_sync cfg env now i u notify d)) i = Some (claim_row now s)"
      with True Ev_Claim show thesis by (intro that [of "Taken now"]) (auto simp: claimable_def)
    next
      assume "get_sync (snd (claim_sync cfg env now i u notify d)) i = Some s"
      with True Ev_Claim show thesis by (intro that [of Kept]) simp_all
    next
      assume "get_sync (snd (claim_sync cfg env now i u notify d)) i = Some (unknown_row now s)"
        "cs_status s \<in> set [''pending'', ''retrying'', ''awaiting_duplicate_confirmation'', ''processing'']"
      with True Ev_Claim show thesis by (intro that [of "Given_Up now"]) simp_all
    qed
  qed
next
  case (Ev_Settle now j u c notify res)
  show thesis
  proof (cases "j = i")
    case False
    with assms Ev_Settle show thesis by (intro that [of Kept]) (simp_all add: settle_other)
  next
    case True
    show thesis
    proof (rule settle_result_row [OF assms, of c cfg env now u notify res])
      assume "claim_is_current s c"
        "get_sync (snd (settle_result cfg env now i u c notify res d)) i = Some (result_row cfg env now notify res s)"
      with True Ev_Settle show thesis
        by (intro that [of "Stored now notify res"]) (simp_all add: claim_is_current_def)
    next
      assume "snd (settle_result cfg env now i u c notify res d) = d"
      with True Ev_Settle assms show thesis by (intro that [of Kept]) simp_all
    qed
  qed
qed

lemma event_none: "get_sync d i = None \<Longrightarrow> get_sync (crm_event_step cfg env e d) i = None"
proof (cases e)
  case (Ev_Claim now j u notify)
  assume "get_sync d i = None"
  with Ev_Claim show ?thesis
    using claim_sync_other [of i j cfg env now u notify d] by (cases "i = j") (simp_all add: claim_sync_none)
next
  case (Ev_Settle now j u c notify res)
  assume "get_sync d i = None"
  with Ev_Settle show ?thesis
    using settle_other [of i j cfg env now u c notify res d] by (cases "i = j") (simp_all add: settle_result_none)
qed

lemma changed_attempts: "cs_attempts s \<le> cs_attempts (changed cfg env c s)"
  by (cases c) simp_all

lemma changed_frozen [simp]: "frozen (changed cfg env c s) = frozen s"
  by (cases c) simp_all

lemma changed_current:
  "cs_attempts (changed cfg env c s) = cs_attempts s \<Longrightarrow> claim_is_current (changed cfg env c s) tok \<Longrightarrow> claim_is_current s tok"
  by (cases c) (auto simp: claim_is_current_def)

interpretation crm_lease: counted_lease "sync_level i" "claim_live i" "crm_event_step cfg env"
    "\<lambda>c (now, u, notify, res) d. snd (settle_result cfg env now i u c notify res d)"
  for cfg env i
proof
  fix t n d
  show "n = sync_level i d" if "claim_live i (t, n) d"
    using that by (auto simp: claim_live_def sync_level_def claim_is_current_def split: option.splits)
next
  fix e d tok
  show "sync_level i d \<le> sync_level i (crm_event_step cfg env e d)"
  proof (cases "get_sync d i")
    case (Some s)
    then obtain c where "get_sync (crm_event_step cfg env e d) i = Some (changed cfg env c s)" using event_row by metis
    with Some show ?thesis by (simp add: sync_level_def changed_attempts)
  qed (simp add: sync_level_def event_none)
  show "claim_live i tok d" if "sync_level i (crm_event_step cfg env e d) = sync_level i d" "claim_live i tok (crm_event_step cfg env e d)"
  proof (cases "get_sync d i")
    case (Some s)
    then obtain c where "get_sync (crm_event_step cfg env e d) i = Some (changed cfg env c s)" using event_row by metis
    with Some that show ?thesis by (auto simp: sync_level_def claim_live_def dest: changed_current)
  qed (use that in \<open>simp add: claim_live_def event_none\<close>)
next
  fix tok and o' :: "time \<times> pstr \<times> bool \<times> (exn + crm_create_result)" and d tok'
  obtain now u notify res where o: "o' = (now, u, notify, res)" by (cases o')
  let ?d' = "case o' of (now, u, notify, res) \<Rightarrow> \<lambda>d. snd (settle_result cfg env now i u tok notify res d)"
  show "?d' d = d" if "\<not> claim_live i tok d"
    using that settle_stale by (auto simp: o claim_live_def split: option.splits)
  have "sync_level i (?d' d) = sync_level i d \<and> (?d' d = d \<or> \<not> claim_live i tok' (?d' d))"
  proof (cases "get_sync d i")
    case None
    then show ?thesis by (simp add: o settle_result_none)
  next
    case (Some s)
    show ?thesis
      by (rule settle_result_row [OF Some, of tok cfg env now u notify res])
         (use Some result_row_status [of cfg env now notify res s] in \<open>auto simp: o sync_level_def claim_live_def claim_is_current_def\<close>)
  qed
  then show "sync_level i (?d' d) = sync_level i d" "?d' d = d \<or> \<not> claim_live i tok' (?d' d)" by auto
qed

lemma counted_run_events:
  "crm_lease.counted_run cfg env i (map Counted_Claim es) d = crm_events cfg env es d"
  unfolding crm_lease.counted_run_def crm_events_def
  by (induction es arbitrary: d) (simp_all add: crm_lease.counted_step_def)

section \<open>Properties\<close>

text \<open>
  C13. A worker that has been overtaken cannot store its result: once a later attempt on the same submission has been claimed,
  whatever claims and results of any workers follow, the earlier worker's result leaves the database exactly as it is.
\<close>

theorem overtaken_crm_result_dropped:
  assumes "n < sync_level i d"
  shows "snd (settle_result cfg env now i u (t, n) notify res (crm_events cfg env es d)) = crm_events cfg env es d"
  using crm_lease.overtaken_settle_dropped
    [OF assms, of cfg env t "(now, u, notify, res)" "map Counted_Claim es", unfolded counted_run_events]
  by simp

definition example_config :: crm_config where
  "example_config = \<lparr>crm_create_retry_count = 3, crm_create_retry_delay_seconds = 30, crm_level_scheme = Current\<rparr>"

theorem overtaken_crm_result_dropped_witness:
  "snd (settle_result example_config plain_env 9 1
     (asc ''amy'') (5, 1) False (Inl crm_value_error)
     (crm_events example_config plain_env []
       (empty_db\<lparr>crm_sync_records := [(sync_row 1 (Some 1) ''processing'')\<lparr>cs_attempts := 2\<rparr>]\<rparr>))) =
   crm_events example_config plain_env []
       (empty_db\<lparr>crm_sync_records := [(sync_row 1 (Some 1) ''processing'')\<lparr>cs_attempts := 2\<rparr>]\<rparr>)"
  by (rule overtaken_crm_result_dropped) (simp add: sync_level_def sync_row_def)

text \<open>
  A successful submission is final and every submission is frozen: whatever claims and results of any workers follow, the
  row of a succeeded submission keeps every column, and the row of any submission keeps its lead, operation,
  generation, payload, idempotency key, requester and CRM user, while the number of attempts never falls.
\<close>

theorem crm_submission_stable:
  assumes "get_sync d i = Some s"
  shows "\<exists>s'. get_sync (crm_events cfg env es d) i = Some s' \<and> frozen s' = frozen s \<and> cs_attempts s \<le> cs_attempts s' \<and>
    (cs_status s = ''succeeded'' \<longrightarrow> s' = s)"
  using assms
proof (induction es arbitrary: d s)
  case Nil
  then show ?case by (simp add: crm_events_def)
next
  case (Cons e es)
  obtain c where c: "change_ok c s" "get_sync (crm_event_step cfg env e d) i = Some (changed cfg env c s)"
    using event_row [OF Cons.prems] by metis
  obtain s' where s': "get_sync (crm_events cfg env es (crm_event_step cfg env e d)) i = Some s'"
      "frozen s' = frozen (changed cfg env c s)" "cs_attempts (changed cfg env c s) \<le> cs_attempts s'"
      "cs_status (changed cfg env c s) = ''succeeded'' \<longrightarrow> s' = changed cfg env c s"
    using Cons.IH [OF c(2)] by blast
  have "changed cfg env c s = s" if "cs_status s = ''succeeded''"
    using c(1) that by (cases c) (auto simp: lease_expired_def outcome_unknown_def)
  with s' changed_attempts [of s cfg env c] show ?case
    by (auto simp: crm_events_def)
qed

theorem crm_submission_stable_witness:
  "get_sync (crm_events example_config plain_env
     [Ev_Claim 0 1 (asc ''amy'') True, Ev_Settle 1 1 (asc ''amy'') (0, 1) False (Inl crm_value_error)]
     (empty_db\<lparr>crm_sync_records := [sync_row 1 (Some 1) ''succeeded'']\<rparr>)) 1 = Some (sync_row 1 (Some 1) ''succeeded'')"
proof -
  have "get_sync (empty_db\<lparr>crm_sync_records := [sync_row 1 (Some 1) ''succeeded'']\<rparr>) 1 = Some (sync_row 1 (Some 1) ''succeeded'')"
    by (simp add: sync_row_def)
  from crm_submission_stable [OF this] show ?thesis by (simp add: sync_row_def)
qed

section \<open>The protocol\<close>

text \<open>
  The abstract life of a submission: waiting for a worker, worked on in a numbered attempt, succeeded, of unknown
  outcome, or closed.
\<close>

datatype sync_phase = Waiting | Working | Succeeded | In_Doubt | Closed

definition phase_of :: "crm_sync_record \<Rightarrow> sync_phase \<times> int" where
  "phase_of s =
     ((if cs_status s \<in> set [''pending'', ''retrying'', ''awaiting_duplicate_confirmation''] then Waiting
       else if cs_status s = ''processing'' then Working
       else if cs_status s = ''succeeded'' then Succeeded
       else if outcome_unknown s then In_Doubt else Closed), cs_attempts s)"

inductive protocol :: "sync_phase \<times> int \<Rightarrow> sync_phase \<times> int \<Rightarrow> bool" where
  take: "p \<in> {Waiting, Working, In_Doubt} \<Longrightarrow> protocol (p, n) (Working, n + 1)"
| succeed: "protocol (Working, n) (Succeeded, n)"
| again: "protocol (Working, n) (Waiting, n)"
| doubt: "p \<in> {Waiting, Working} \<Longrightarrow> protocol (p, n) (In_Doubt, n)"
| close: "protocol (Working, n) (Closed, n)"

inductive_cases protocol_from_Succeeded: "protocol (Succeeded, n) y"
inductive_cases protocol_from_Closed: "protocol (Closed, n) y"

lemma protocol_final: "protocol\<^sup>*\<^sup>* x y \<Longrightarrow> fst x \<in> {Succeeded, Closed} \<Longrightarrow> y = x"
proof (induction rule: rtranclp_induct)
  case (step y z)
  then show ?case by (cases x) (auto elim: protocol_from_Succeeded protocol_from_Closed)
qed simp

lemma unknown_row_phase: "phase_of (unknown_row now s) = (In_Doubt, cs_attempts s)"
  by (simp add: phase_of_def outcome_unknown_def unknown_row_def release_sync_def)

lemma result_row_phase:
  "\<exists>p. phase_of (result_row cfg env now notify res s) = (p, cs_attempts s) \<and> p \<in> {Succeeded, Waiting, In_Doubt, Closed}"
  using result_row_status [of cfg env now notify res s] by (auto simp: phase_of_def)

lemma changed_protocol:
  assumes "change_ok c s"
  shows "protocol\<^sup>=\<^sup>= (phase_of s) (phase_of (changed cfg env c s))"
proof (cases c)
  case Kept
  then show ?thesis by simp
next
  case (Taken now)
  then have "fst (phase_of s) \<in> {Waiting, Working, In_Doubt}"
    using assms by (auto simp: phase_of_def lease_expired_def outcome_unknown_def)
  moreover have "phase_of (claim_row now s) = (Working, cs_attempts s + 1)" by (simp add: phase_of_def)
  moreover have "snd (phase_of s) = cs_attempts s" by (simp add: phase_of_def)
  ultimately show ?thesis using Taken protocol.take by (cases "phase_of s") auto
next
  case (Given_Up now)
  then have "fst (phase_of s) \<in> {Waiting, Working}" "snd (phase_of s) = cs_attempts s"
    using assms by (auto simp: phase_of_def)
  with Given_Up show ?thesis using protocol.doubt by (cases "phase_of s") (auto simp: unknown_row_phase)
next
  case (Stored now notify res)
  then have "phase_of s = (Working, cs_attempts s)" using assms by (simp add: phase_of_def)
  with Stored result_row_phase [of cfg env now notify res s] show ?thesis by (auto intro: protocol.intros)
qed

text \<open>
  C14. The database implements the protocol: through every sequence of claims and results of any workers, the phase and the attempt
  number of each submission move only along the transitions of the abstract protocol, so that
  success and closure are final there as well.
\<close>

theorem crm_sync_refines_protocol:
  assumes "get_sync d i = Some s"
  shows "\<exists>s'. get_sync (crm_events cfg env es d) i = Some s' \<and> protocol\<^sup>*\<^sup>* (phase_of s) (phase_of s')"
  using assms
proof (induction es arbitrary: d s)
  case Nil
  then show ?case by (auto simp: crm_events_def)
next
  case (Cons e es)
  obtain c where c: "change_ok c s" "get_sync (crm_event_step cfg env e d) i = Some (changed cfg env c s)"
    using event_row [OF Cons.prems] by metis
  obtain s' where "get_sync (crm_events cfg env es (crm_event_step cfg env e d)) i = Some s'"
      "protocol\<^sup>*\<^sup>* (phase_of (changed cfg env c s)) (phase_of s')"
    using Cons.IH [OF c(2)] by blast
  moreover have "protocol\<^sup>*\<^sup>* (phase_of s) (phase_of (changed cfg env c s))"
    using changed_protocol [OF c(1), of cfg env] by auto
  ultimately show ?case by (auto simp: crm_events_def intro: rtranclp_trans)
qed

theorem crm_sync_refines_protocol_witness:
  "\<exists>s'. get_sync (crm_events example_config plain_env
     [Ev_Claim 0 1 (asc ''amy'') True] (empty_db\<lparr>crm_sync_records := [sync_row 1 (Some 1) ''pending'']\<rparr>)) 1 = Some s' \<and>
     protocol\<^sup>*\<^sup>* (Waiting, 0) (phase_of s')"
proof -
  let ?d = "empty_db\<lparr>crm_sync_records := [sync_row 1 (Some 1) ''pending'']\<rparr>"
  have s: "get_sync ?d 1 = Some (sync_row 1 (Some 1) ''pending'')" by (simp add: sync_row_def)
  have p: "phase_of (sync_row 1 (Some 1) ''pending'') = (Waiting, 0)" by (simp add: phase_of_def sync_row_def)
  show ?thesis using crm_sync_refines_protocol [OF s] unfolding p .
qed

section \<open>Exactly once\<close>

text \<open>
  The workers of all processes: claims given out and not yet sent, answers received and not yet stored. A worker can
  die at any point, which drops its call or its answer.
\<close>

record 'w crm_system =
  sy_db :: db
  sy_world :: 'w
  sy_calls :: "(nat \<times> sync_claim \<times> fields \<times> pstr \<times> pstr option) list"
  sy_answers :: "(nat \<times> sync_claim \<times> (exn + crm_create_result)) list"

inductive crm_run :: "crm_config \<Rightarrow> env \<Rightarrow> 'w crm_adapter \<Rightarrow> 'w crm_system \<Rightarrow> 'w crm_system \<Rightarrow> bool"
  for cfg env submit where
  claimed: "claim_sync cfg env now i u notify (sy_db y) = (Claimed c p k cu, d) \<Longrightarrow>
     crm_run cfg env submit y (y\<lparr>sy_db := d, sy_calls := (i, c, p, k, cu) # sy_calls y\<rparr>)"
| refused: "claim_sync cfg env now i u notify (sy_db y) = (Refused out, d) \<Longrightarrow>
     crm_run cfg env submit y (y\<lparr>sy_db := d\<rparr>)"
| called: "sy_calls y = xs @ (i, c, p, k, Some cu) # zs \<Longrightarrow> submit p k cu (sy_world y) = (res, w) \<Longrightarrow>
     crm_run cfg env submit y (y\<lparr>sy_world := w, sy_calls := xs @ zs, sy_answers := (i, c, res) # sy_answers y\<rparr>)"
| no_user: "sy_calls y = xs @ (i, c, p, k, None) # zs \<Longrightarrow>
     crm_run cfg env submit y (y\<lparr>sy_calls := xs @ zs, sy_answers := (i, c, Inl crm_value_error) # sy_answers y\<rparr>)"
| stored: "sy_answers y = xs @ (i, c, res) # zs \<Longrightarrow>
     crm_run cfg env submit y (y\<lparr>sy_db := snd (settle_result cfg env now i u c notify res (sy_db y)), sy_answers := xs @ zs\<rparr>)"
| died_calling: "sy_calls y = xs @ call # zs \<Longrightarrow> crm_run cfg env submit y (y\<lparr>sy_calls := xs @ zs\<rparr>)"
| died_storing: "sy_answers y = xs @ a # zs \<Longrightarrow> crm_run cfg env submit y (y\<lparr>sy_answers := xs @ zs\<rparr>)"

definition key_of :: "db \<Rightarrow> nat \<Rightarrow> pstr option" where
  "key_of d i = map_option cs_idempotency_key (get_sync d i)"

lemma event_key: "key_of (crm_event_step cfg env e d) i = key_of d i"
proof (cases "get_sync d i")
  case None
  then show ?thesis by (simp add: key_of_def event_none)
next
  case (Some s)
  then obtain c where "get_sync (crm_event_step cfg env e d) i = Some (changed cfg env c s)" using event_row by metis
  moreover have "cs_idempotency_key (changed cfg env c s) = cs_idempotency_key s"
    using changed_frozen [of cfg env c s] by (simp add: frozen_def)
  ultimately show ?thesis using Some by (simp add: key_of_def)
qed

lemma changed_lead_id:
  "cs_crm_lead_id (changed cfg env c s) = Some x \<Longrightarrow>
     cs_crm_lead_id s = Some x \<or> (\<exists>now notify r. c = Stored now notify (Inr r) \<and> cr_crm_lead_id r = Some x)"
  by (cases c) (auto simp: claim_row_def unknown_row_def release_sync_def result_row_def success_row_def failure_row_def Let_def
      split: if_splits sum.splits)

definition submissions_ok :: "('w \<Rightarrow> pstr \<Rightarrow> nat) \<Rightarrow> 'w crm_system \<Rightarrow> bool" where
  "submissions_ok made y =
     ((\<forall>(i, c, p, k, cu) \<in> set (sy_calls y). key_of (sy_db y) i = Some k) \<and>
      (\<forall>(i, c, res) \<in> set (sy_answers y). \<forall>r. res = Inr r \<and> cr_crm_lead_id r \<noteq> None \<longrightarrow>
         (\<exists>k. key_of (sy_db y) i = Some k \<and> 1 \<le> made (sy_world y) k)) \<and>
      (\<forall>i s. get_sync (sy_db y) i = Some s \<and> cs_crm_lead_id s \<noteq> None \<longrightarrow> 1 \<le> made (sy_world y) (cs_idempotency_key s)))"

lemma submissions_ok_event:
  assumes ok: "submissions_ok made y"
    and e: "\<And>now i u c notify r. e = Ev_Settle now i u c notify (Inr r) \<Longrightarrow> cr_crm_lead_id r \<noteq> None \<Longrightarrow>
      \<exists>k. key_of (sy_db y) i = Some k \<and> 1 \<le> made (sy_world y) k"
  shows "submissions_ok made (y\<lparr>sy_db := crm_event_step cfg env e (sy_db y)\<rparr>)"
proof -
  have "1 \<le> made (sy_world y) (cs_idempotency_key s')"
    if s': "get_sync (crm_event_step cfg env e (sy_db y)) i = Some s'" "cs_crm_lead_id s' \<noteq> None" for i s'
  proof -
    obtain s where s: "get_sync (sy_db y) i = Some s"
      using s'(1) event_none by (metis not_None_eq)
    obtain c where c: "caused_by e i c" "get_sync (crm_event_step cfg env e (sy_db y)) i = Some (changed cfg env c s)"
      using event_row [OF s] by metis
    have k: "cs_idempotency_key s' = cs_idempotency_key s"
      using c(2) s'(1) changed_frozen [of cfg env c s] by (simp add: frozen_def)
    obtain x where "cs_crm_lead_id (changed cfg env c s) = Some x" using c(2) s' by auto
    from changed_lead_id [OF this] show ?thesis
    proof
      assume "cs_crm_lead_id s = Some x"
      with ok s k show ?thesis by (auto simp: submissions_ok_def)
    next
      assume "\<exists>now notify r. c = Stored now notify (Inr r) \<and> cr_crm_lead_id r = Some x"
      then obtain now notify r where r: "c = Stored now notify (Inr r)" "cr_crm_lead_id r = Some x" by blast
      then obtain u tok where "e = Ev_Settle now i u tok notify (Inr r)" using c(1) by (cases e) auto
      with e r s k show ?thesis by (fastforce simp: key_of_def)
    qed
  qed
  then have "\<forall>i s'. get_sync (crm_event_step cfg env e (sy_db y)) i = Some s' \<and> cs_crm_lead_id s' \<noteq> None \<longrightarrow>
      1 \<le> made (sy_world y) (cs_idempotency_key s')" by blast
  with ok show ?thesis unfolding submissions_ok_def by (simp add: event_key)
qed


context idempotent_crm
begin

lemma crm_run_keeps:
  assumes "crm_run cfg env submit y y'" and "submissions_ok made y" and "ok (sy_world y)"
  shows "submissions_ok made y' \<and> ok (sy_world y') \<and> (made (sy_world y) k \<le> 1 \<longrightarrow> made (sy_world y') k \<le> 1)"
  using assms
proof (induction rule: crm_run.induct)
  case (claimed now i u notify y c p k' cu d)
  have d: "d = crm_event_step cfg env (Ev_Claim now i u notify) (sy_db y)" using claimed(1) by simp
  obtain s where "get_sync (sy_db y) i = Some s" "k' = cs_idempotency_key s"
    using claimed(1) unfolding claim_sync_claimed by blast
  then have "key_of d i = Some k'" unfolding d event_key by (simp add: key_of_def)
  moreover have "submissions_ok made (y\<lparr>sy_db := d\<rparr>)" unfolding d using claimed(2) by (rule submissions_ok_event) simp
  ultimately show ?case using claimed(3) by (auto simp: submissions_ok_def)
next
  case (refused now i u notify y out d)
  have d: "d = crm_event_step cfg env (Ev_Claim now i u notify) (sy_db y)" using refused(1) by simp
  show ?case unfolding d using submissions_ok_event [OF refused(2), of "Ev_Claim now i u notify" cfg env] refused(3) by simp
next
  case (called y xs i c p k' cu zs res w)
  have mono: "made (sy_world y) x \<le> made w x" for x using made_mono [OF called(4,2)] .
  have "ok w" "made (sy_world y) k \<le> 1 \<longrightarrow> made w k \<le> 1"
    using submit_ok [OF called(4,2)] made_le_1 [OF called(4,2)] by auto
  moreover have "key_of (sy_db y) i = Some k'" using called(1,3) by (simp add: submissions_ok_def)
  then have "\<exists>k. key_of (sy_db y) i = Some k \<and> 1 \<le> made w k" if "res = Inr r" "cr_crm_lead_id r \<noteq> None" for r
    using submit_made [OF called(4)] called(2) that by blast
  moreover have "\<exists>k. key_of (sy_db y) j = Some k \<and> 1 \<le> made w k"
    if "(j, c', Inr r) \<in> set (sy_answers y)" "cr_crm_lead_id r \<noteq> None" for j c' r
    using called(3) that mono unfolding submissions_ok_def by (fastforce intro: order_trans)
  moreover have "1 \<le> made w (cs_idempotency_key s)" if "get_sync (sy_db y) j = Some s" "cs_crm_lead_id s \<noteq> None" for j s
  proof -
    have "1 \<le> made (sy_world y) (cs_idempotency_key s)" using called(3) that unfolding submissions_ok_def by blast
    with mono [of "cs_idempotency_key s"] show ?thesis by linarith
  qed
  ultimately show ?case using called(1,3) by (auto simp: submissions_ok_def)
next
  case (no_user y xs i c p k' zs)
  then show ?case by (auto simp: submissions_ok_def)
next
  case (stored y xs i c res zs now u notify)
  let ?e = "Ev_Settle now i u c notify res"
  have "submissions_ok made (y\<lparr>sy_db := crm_event_step cfg env ?e (sy_db y)\<rparr>)"
    using stored(2) by (rule submissions_ok_event) (use stored(1,2) in \<open>auto simp: submissions_ok_def\<close>)
  then show ?case using stored(1,3) by (auto simp: submissions_ok_def)
next
  case (died_calling y xs call zs)
  then show ?case by (auto simp: submissions_ok_def)
next
  case (died_storing y xs a zs)
  then show ?case by (auto simp: submissions_ok_def)
qed

lemma crm_runs_once:
  assumes "(crm_run cfg env submit)\<^sup>*\<^sup>* y y'" and "submissions_ok made y" and "ok (sy_world y)" and "made (sy_world y) k \<le> 1"
  shows "submissions_ok made y' \<and> ok (sy_world y') \<and> made (sy_world y') k \<le> 1"
  using assms by (induction rule: rtranclp_induct) (auto dest: crm_run_keeps)

end


definition mock_payload :: fields where
  "mock_payload = map (\<lambda>k. (asc k, PStr (asc ''x''))) [''name'', ''businessLine'', ''source'', ''contactName'', ''contactTitle'', ''communicationWay'', ''mobile'', ''remark'']"

definition fresh_system :: "mock_crm crm_system" where
  "fresh_system = \<lparr>sy_db = empty_db\<lparr>crm_sync_records := [(sync_row 1 (Some 1) ''pending'')
     \<lparr>cs_canonical_payload := mock_payload, cs_submitting_crm_user_id := Some (asc ''7'')\<rparr>]\<rparr>,
     sy_world = empty_crm, sy_calls = [], sy_answers = []\<rparr>"

definition claimed_system :: "mock_crm crm_system" where
  "claimed_system = fresh_system\<lparr>sy_db := snd (claim_sync example_config plain_env 5 1 (asc ''amy'') False (sy_db fresh_system)),
     sy_calls := [(1, (5, 1), mock_payload, asc ''crm:create:L'', Some (asc ''7''))]\<rparr>"

definition called_system :: "mock_crm crm_system" where
  "called_system = claimed_system\<lparr>sy_world := snd (mock_submit_lead plain_env mock_payload (asc ''crm:create:L'') (asc ''7'') empty_crm), sy_calls := [],
     sy_answers := [(1, (5, 1), fst (mock_submit_lead plain_env mock_payload (asc ''crm:create:L'') (asc ''7'') empty_crm))]\<rparr>"


section \<open>Waiting discards\<close>

lemma finalize_requests:
  "lead_discard_requests (finalize_pending_discard now s d) =
     (case (tget dr_lead_id (cs_lead_id s) (lead_discard_requests d), get_lead d (cs_lead_id s)) of
        (Some r, Some l) \<Rightarrow>
          if cs_operation s = ''create'' \<and> dr_status r = ''pending''
          then tupd dr_id (dr_id r) (\<lambda>x. x\<lparr>dr_status := ''effective'', dr_completed_at := Some now\<rparr>) (lead_discard_requests d)
          else lead_discard_requests d
      | _ \<Rightarrow> lead_discard_requests d)"
  by (auto simp: finalize_pending_discard_def split: option.splits)

lemma overrule_requests:
  "lead_discard_requests (overrule_discard now s l d) =
     (case tget dr_lead_id (ld_id l) (lead_discard_requests d) of
        None \<Rightarrow> lead_discard_requests d
      | Some r \<Rightarrow>
          if dr_status r \<in> set [''pending'', ''effective'']
          then tupd dr_id (dr_id r) (\<lambda>x. x\<lparr>dr_status := ''not_effective'', dr_completed_at := Some now\<rparr>) (lead_discard_requests d)
          else lead_discard_requests d)"
  by (auto simp: overrule_discard_def split: option.splits)

lemma overrule_cases:
  "lead_discard_requests (overrule_discard now s l d) = lead_discard_requests d \<or>
   (\<exists>k. lead_discard_requests (overrule_discard now s l d) =
      tupd dr_id k (\<lambda>x. x\<lparr>dr_status := ''not_effective'', dr_completed_at := Some now\<rparr>) (lead_discard_requests d))"
  by (auto simp: overrule_requests split: option.splits)

lemma requests_after:
  assumes "get_sync d i = Some s" and "claim_is_current s c"
  shows "lead_discard_requests (snd (settle_result cfg env now i u c notify res d)) =
    (case res of
       Inr r \<Rightarrow> (case get_lead d (cs_lead_id s) of None \<Rightarrow> lead_discard_requests d
                | Some l \<Rightarrow> lead_discard_requests (overrule_discard now s l d))
     | Inl e \<Rightarrow> if classify_task_failure e = PERMANENT \<and> \<not> remote_outcome_open env e s
               then lead_discard_requests (finalize_pending_discard now s d) else lead_discard_requests d)"
proof -
  have lead: "cs_lead_id (failure_row env e s) = cs_lead_id s" "cs_operation (failure_row env e s) = cs_operation s"
    "cs_lead_id (success_row now r s) = cs_lead_id s" for e r
    by (simp_all add: failure_row_def success_row_def release_sync_def Let_def)
  have open_unknown: "remote_outcome_open env e s" if "classify_task_failure e = UNKNOWN" for e
    using that by (simp add: remote_outcome_open_def)
  show ?thesis
    using assms open_unknown
    by (auto simp: settle_result_def settle_success_def record_crm_failure_def record_crm_transport_failure_def
        finalize_requests overrule_requests lead Let_def split: sum.splits option.splits if_splits)
       (metis task_failure_category.exhaust open_unknown)+
qed

text \<open>
  C19. A discard that waits for the CRM takes effect only on a definite failure: when storing a worker's result makes a discard request
  effective, the worker's claim is current, the submission is a creation of the request's own lead, and the CRM
  call failed with an error that is classified as permanent. Neither a success, nor a transport failure, nor an
  error of unknown outcome, nor a late result does.
\<close>

theorem discard_effective_only_on_failure:
  assumes ids: "distinct (map dr_id (lead_discard_requests d))"
    and before: "tget dr_id q (lead_discard_requests d) = Some r" "dr_status r \<noteq> ''effective''"
    and after: "tget dr_id q (lead_discard_requests (snd (settle_result cfg env now i u c notify res d))) = Some r'"
      "dr_status r' = ''effective''"
  shows "\<exists>s e. get_sync d i = Some s \<and> claim_is_current s c \<and> cs_operation s = ''create'' \<and> cs_lead_id s = dr_lead_id r \<and>
    res = Inl e \<and> classify_task_failure e = PERMANENT"
proof -
  have "\<exists>s. get_sync d i = Some s \<and> claim_is_current s c"
    using before after settle_stale [of i d c cfg env now u notify res] by (metis option.inject)
  then obtain s where s: "get_sync d i = Some s" "claim_is_current s c" by blast
  have changed: "r' = (if q = k then f r else r)"
    if "lead_discard_requests (snd (settle_result cfg env now i u c notify res d)) = tupd dr_id k f (lead_discard_requests d)"
      "\<And>y. dr_id (f y) = dr_id y" for k f
  proof (cases "q = k")
    case True
    with that after before show ?thesis by (simp add: tget_tupd_same)
  next
    case False
    with that after before tget_tupd_other [of dr_id f q k] show ?thesis by simp
  qed
  note eff = requests_after [OF s, of cfg env now u notify res]
  show ?thesis
  proof (cases res)
    case (Inr x)
    let ?f = "\<lambda>x. x\<lparr>dr_status := ''not_effective'', dr_completed_at := Some now\<rparr>"
    have "lead_discard_requests (snd (settle_result cfg env now i u c notify res d)) = lead_discard_requests d \<or>
      (\<exists>k. lead_discard_requests (snd (settle_result cfg env now i u c notify res d)) =
         tupd dr_id k ?f (lead_discard_requests d))"
      using eff Inr overrule_cases by (auto split: option.splits)
    then show ?thesis
    proof
      assume "lead_discard_requests (snd (settle_result cfg env now i u c notify res d)) = lead_discard_requests d"
      with before after show ?thesis by simp
    next
      assume "\<exists>k. lead_discard_requests (snd (settle_result cfg env now i u c notify res d)) =
         tupd dr_id k ?f (lead_discard_requests d)"
      then obtain k where "lead_discard_requests (snd (settle_result cfg env now i u c notify res d)) =
         tupd dr_id k ?f (lead_discard_requests d)" ..
      then have "r' = (if q = k then ?f r else r)" by (rule changed) simp
      with before after show ?thesis by (auto split: if_splits)
    qed
  next
    case (Inl e)
    show ?thesis
    proof (cases "classify_task_failure e = PERMANENT \<and> \<not> remote_outcome_open env e s")
      case False
      with Inl eff before after show ?thesis by auto
    next
      case True
      then have e: "lead_discard_requests (snd (settle_result cfg env now i u c notify res d)) =
          lead_discard_requests (finalize_pending_discard now s d)" using eff Inl by simp
      then obtain x l where x: "tget dr_lead_id (cs_lead_id s) (lead_discard_requests d) = Some x" "cs_operation s = ''create''"
          "lead_discard_requests (snd (settle_result cfg env now i u c notify res d)) =
             tupd dr_id (dr_id x) (\<lambda>x. x\<lparr>dr_status := ''effective'', dr_completed_at := Some now\<rparr>) (lead_discard_requests d)"
        using before after by (auto simp: finalize_requests split: option.splits if_splits)
      then have "q = dr_id x" using changed [OF x(3)] before after by (auto split: if_splits)
      then have "r = x" using x(1) before ids by (metis tget_SomeD tget_unique option.inject)
      with x Inl True s show ?thesis by (auto dest: tget_SomeD)
    qed
  qed
qed


definition waiting_lead :: lead where
  "waiting_lead = \<lparr>ld_id = asc ''L'', ld_source_message_id = Some (asc ''m1''), ld_source_segment_index = 0,
     ld_original_capturing_sales_user_id = asc ''amy'', ld_smart_table_owner_user_id = asc ''amy'',
     ld_smart_table_record_id = Some (asc ''r1''), ld_lifecycle_state = ''pending_create'', ld_field_values = [],
     ld_enrichment_values = [], ld_standard_company_name = None, ld_company_region = ''unknown'',
     ld_company_verification_status = ''unverified'', ld_tyc_customer_id = None, ld_company_confirmed_by_user = False,
     ld_created_at = 0, ld_updated_at = 0\<rparr>"

definition waiting_request :: lead_discard_request where
  "waiting_request = \<lparr>dr_id = 4, dr_lead_id = asc ''L'', dr_operator_user_id = asc ''amy'', dr_operator_role = ''sales'',
     dr_operation_id = None, dr_reason = asc ''wrong'', dr_status = ''pending'', dr_created_at = 0, dr_completed_at = None\<rparr>"

definition working_row :: crm_sync_record where
  "working_row = (sync_row 1 (Some 1) ''processing'')\<lparr>cs_attempts := 1, cs_processing_started_at := Some 5,
     cs_processing_lease_expires_at := Some (5 + CRM_PROCESSING_LEASE)\<rparr>"

definition waiting_db :: db where
  "waiting_db = empty_db\<lparr>leads := [waiting_lead], lead_discard_requests := [waiting_request],
     crm_sync_records := [working_row]\<rparr>"

lemma waiting_db_current:
  "get_sync waiting_db 1 = Some working_row" "claim_is_current working_row (5, 1)"
  "cs_lead_id working_row = asc ''L''" "cs_operation working_row = ''create''"
  "get_lead waiting_db (asc ''L'') = Some waiting_lead"
  by (simp_all add: waiting_db_def working_row_def claim_is_current_def sync_row_def waiting_lead_def)

theorem discard_effective_only_on_failure_witness:
  "\<exists>s e. get_sync waiting_db 1 = Some s \<and> claim_is_current s (5, 1) \<and> Inl crm_value_error = Inl e \<and>
     classify_task_failure e = PERMANENT"
proof -
  let ?d' = "snd (settle_result example_config plain_env 9 1 (asc ''amy'') (5, 1) False (Inl crm_value_error) waiting_db)"
  let ?r' = "waiting_request\<lparr>dr_status := ''effective'', dr_completed_at := Some 9\<rparr>"
  have cl: "classify_task_failure crm_value_error = PERMANENT" by code_simp
  have "\<not> remote_outcome_open plain_env crm_value_error working_row"
    using cl by (simp add: remote_outcome_open_def working_row_def sync_row_def)
  then have "lead_discard_requests ?d' = [?r']"
    using requests_after [OF waiting_db_current(1,2), of example_config plain_env 9 "asc ''amy''" False "Inl crm_value_error"] cl
      waiting_db_current
    by (simp add: finalize_requests waiting_db_def waiting_request_def tupd_def)
  then have "tget dr_id 4 (lead_discard_requests ?d') = Some ?r'" by (simp add: waiting_request_def)
  moreover have "distinct (map dr_id (lead_discard_requests waiting_db))"
    "tget dr_id 4 (lead_discard_requests waiting_db) = Some waiting_request" "dr_status waiting_request \<noteq> ''effective''"
    "dr_status ?r' = ''effective''"
    by (simp_all add: waiting_db_def waiting_request_def)
  ultimately show ?thesis using discard_effective_only_on_failure by blast
qed

text \<open>
  C40. A reply that cannot be read is taken for a refusal of the creation. The gateway answers a creation with HTTP status 200 and a body
  that is not JSON, so that the CRM may well have created the lead: the submission is stored as a permanent failure
  and the waiting discard takes effect. The same reply to an update is stored as an unknown outcome.
\<close>

theorem unreadable_create_reply_settled_as_failure:
  assumes "get_sync d i = Some s" and "claim_is_current s c"
    and "cs_operation s = ''create''" and "get_lead d (cs_lead_id s) = Some l"
    and "tget dr_lead_id (cs_lead_id s) (lead_discard_requests d) = Some r" and "dr_status r = ''pending''"
    and "fst (sop_submit_lead env (\<lambda>url ps hs w. (Reply 200 None, w)) sign conf t p k cu w) = res"
  shows "\<exists>s'. get_sync (snd (settle_result cfg env now i u c notify res d)) i = Some s' \<and>
      cs_status s' = ''failed_pending_review'' \<and> cs_failure_category s' = Some ''permanent'' \<and>
      tget dr_id (dr_id r) (lead_discard_requests (snd (settle_result cfg env now i u c notify res d))) =
        map_option (\<lambda>x. x\<lparr>dr_status := ''effective'', dr_completed_at := Some now\<rparr>) (tget dr_id (dr_id r) (lead_discard_requests d))"
proof -
  let ?e = "sop_error ''malformed_response'' (Some 200) None None"
  have res: "res = Inl ?e"
    using assms(7) by (auto simp: sop_submit_lead_def sop_call_def read_reply_def category_of_status_def Let_def)
  have cl: "classify_task_failure ?e = PERMANENT"
    by (simp add: classify_task_failure_def isinstance_def permanent_categories_def)
  have closed: "\<not> remote_outcome_open env ?e s" using cl assms(3) by (simp add: remote_outcome_open_def)
  have "get_sync (snd (settle_result cfg env now i u c notify res d)) i = Some (result_row cfg env now notify res s)"
    using settle_current [OF assms(1,2)] assms(4) by simp
  moreover have "cs_status (result_row cfg env now notify res s) = ''failed_pending_review''"
    "cs_failure_category (result_row cfg env now notify res s) = Some ''permanent''"
    using res cl closed
    by (simp_all add: result_row_def failure_row_def crm_failure_evidence_of_def category_value_def Let_def)
  moreover have "lead_discard_requests (snd (settle_result cfg env now i u c notify res d)) =
      tupd dr_id (dr_id r) (\<lambda>x. x\<lparr>dr_status := ''effective'', dr_completed_at := Some now\<rparr>) (lead_discard_requests d)"
    using requests_after [OF assms(1,2), of cfg env now u notify res] res cl closed assms(3-6) by (simp add: finalize_requests)
  ultimately show ?thesis by (simp add: tget_tupd_same)
qed

theorem unreadable_create_reply_settled_as_failure_witness:
  "\<exists>s'. get_sync (snd (settle_result example_config plain_env 9 1 (asc ''amy'') (5, 1) False
      (fst (sop_submit_lead plain_env (\<lambda>url ps hs w. (Reply 200 None, w)) id
        \<lparr>sop_url = [], sop_app_id = [], sop_token = [], sop_authorization = None\<rparr> 0 [] [] [] ())) waiting_db)) 1 = Some s' \<and>
    cs_failure_category s' = Some ''permanent''"
  using unreadable_create_reply_settled_as_failure [OF waiting_db_current(1,2,4), of waiting_lead waiting_request plain_env id
      "\<lparr>sop_url = [], sop_app_id = [], sop_token = [], sop_authorization = None\<rparr>" 0 "[]" "[]" "[]" "()" _ example_config 9 "asc ''amy''" False,
      OF _ _ _ refl]
    waiting_db_current(3,5)
  by (auto simp: waiting_db_def waiting_request_def)


section \<open>Automatic repetition\<close>

text \<open>The rounds of the repeating task in which one submission is due, with the times of the claim and of the answer.\<close>

fun due_rounds ::
  "crm_config \<Rightarrow> env \<Rightarrow> 'w crm_ports \<Rightarrow> nat \<Rightarrow> pstr \<Rightarrow> (time \<times> time) list \<Rightarrow> db \<Rightarrow> 'w \<Rightarrow> nat" where
  "due_rounds cfg env cp i u [] d w = 0"
| "due_rounds cfg env cp i u ((t1, t2) # ts) d w =
     (case get_sync d i of
        None \<Rightarrow> 0
      | Some s \<Rightarrow>
          if due_create t1 s
          then (case claim_and_call cfg env cp t1 t2 i u True True d w of (out, d', w') \<Rightarrow> Suc (due_rounds cfg env cp i u ts d' w'))
          else due_rounds cfg env cp i u ts d w)"

lemma unfinished_update_other:
  assumes "\<And>j. j \<noteq> i \<Longrightarrow> get_sync d' j = get_sync d j" and "map cs_id (crm_sync_records d') = map cs_id (crm_sync_records d)"
    and "distinct (map cs_id (crm_sync_records d))" and "unfinished_update d l (Some i) = None"
  shows "unfinished_update d' l (Some i) = None"
proof -
  have "s \<in> set (crm_sync_records d)" if "s \<in> set (crm_sync_records d')" "cs_id s \<noteq> i" for s
  proof -
    have "distinct (map cs_id (crm_sync_records d'))" using assms(2,3) by simp
    then have "get_sync d' (cs_id s) = Some s" using that(1) by (intro tget_unique) auto
    then have "get_sync d (cs_id s) = Some s" using assms(1) that(2) by metis
    then show ?thesis by (auto dest: tget_SomeD)
  qed
  moreover have "filter (\<lambda>s. cs_lead_id s = l \<and> cs_operation s = ''update'' \<and> Some i \<noteq> Some (cs_id s) \<and> update_unfinished s)
      (crm_sync_records d) = []"
    using assms(4) by (simp add: unfinished_update_def)
  ultimately have "filter (\<lambda>s. cs_lead_id s = l \<and> cs_operation s = ''update'' \<and> Some i \<noteq> Some (cs_id s) \<and> update_unfinished s)
      (crm_sync_records d') = []"
    by (auto simp: filter_empty_conv)
  then show ?thesis by (simp add: unfinished_update_def)
qed

lemma event_ids: "map cs_id (crm_sync_records (crm_event_step cfg env e d)) = map cs_id (crm_sync_records d)"
proof (cases e)
  case (Ev_Claim now i u notify)
  then show ?thesis
    by (simp add: claim_sync_def Let_def tupd_keys split: option.splits)
next
  case (Ev_Settle now i u c notify res)
  then show ?thesis
    by (auto simp: settle_result_def settle_success_def record_crm_failure_def record_crm_transport_failure_def Let_def tupd_keys
        split: sum.splits option.splits)
qed

lemma event_other: "j \<noteq> i \<Longrightarrow> (e = Ev_Claim now i u notify \<or> e = Ev_Settle now i u c notify res) \<Longrightarrow>
  get_sync (crm_event_step cfg env e d) j = get_sync d j"
  by (auto simp: claim_sync_other settle_other)

lemma settle_keeps_leads:
  "get_lead (snd (settle_result cfg env now i u c notify res d)) l = None \<longleftrightarrow> get_lead d l = None"
proof -
  have same: "tget ld_id l (tupd ld_id k f t) = None \<longleftrightarrow> tget ld_id l t = None" if "\<And>x. ld_id (f x) = ld_id x" for k f t
    using that by (cases "l = k") (simp_all add: tget_tupd_same tget_tupd_other)
  have fin: "get_lead (finalize_pending_discard now s d) l = None \<longleftrightarrow> get_lead d l = None" for s d
    by (auto simp: finalize_pending_discard_def same set_lifecycle_def split: option.splits)
  show ?thesis
    by (auto simp: settle_result_def settle_success_def record_crm_failure_def record_crm_transport_failure_def Let_def fin same
        set_lifecycle_def split: sum.splits option.splits)
qed

lemma claim_and_call_refused:
  "claim_sync cfg env now1 i u notify d = (Refused out, d1) \<Longrightarrow>
     claim_and_call cfg env cp now1 now2 i u notify defer d w = (out, d1, w)"
  by (simp add: claim_and_call_def)

lemma claim_and_call_claimed:
  assumes "claim_sync cfg env now1 i u notify d = (Claimed c p k cu, d1)"
  obtains res out w' where "claim_and_call cfg env cp now1 now2 i u notify True d w =
      (out, snd (settle_result cfg env now2 i u c notify res d1), w')"
proof -
  have settle: "settle_call cfg env cp now2 i u c notify True res d1 w' =
      (fst (settle_call cfg env cp now2 i u c notify True res d1 w'), snd (settle_result cfg env now2 i u c notify res d1), w')" for res w'
    by (auto simp: settle_call_def split: prod.splits option.splits)
  show thesis
  proof (cases cu)
    case None
    with assms have "claim_and_call cfg env cp now1 now2 i u notify True d w =
        settle_call cfg env cp now2 i u c notify True (Inl crm_value_error) d1 w"
      by (simp add: claim_and_call_def)
    also note settle
    finally show thesis by (rule that)
  next
    case (Some a)
    obtain res w' where "cp_submit_lead cp p k a w = (res, w')" by fastforce
    with Some assms have "claim_and_call cfg env cp now1 now2 i u notify True d w = settle_call cfg env cp now2 i u c notify True res d1 w'"
      by (simp add: claim_and_call_def)
    also note settle
    finally show thesis by (rule that)
  qed
qed

lemma claim_exhausted:
  assumes "get_sync d i = Some s" and "cs_status s = ''retrying''" and "unfinished_update d (cs_lead_id s) (Some i) = None"
    and "crm_create_retry_count cfg \<le> cs_attempts s"
  shows "get_sync (snd (claim_sync cfg env now i u notify d)) i = Some (unknown_row now s)"
proof -
  have "\<not> lease_expired now s" "\<not> outcome_unknown s" using assms(2) by (simp_all add: lease_expired_def outcome_unknown_def)
  with assms tget_SomeD [OF assms(1)] show ?thesis by (simp add: claim_sync_def Let_def tget_tupd_same)
qed

lemma due_rounds_idle:
  "get_sync d i = Some s \<Longrightarrow> cs_status s \<notin> {''retrying'', ''processing''} \<Longrightarrow> due_rounds cfg env cp i u ts d w = 0"
  by (induction ts) (auto simp: due_create_def)

lemma result_row_again:
  assumes "cs_status (result_row cfg env now True res s) = ''retrying''"
  shows "cs_attempts s < crm_create_retry_count cfg"
  using assms by (auto simp: result_row_def Let_def split: sum.splits if_splits)



definition timeout_ports :: "unit crm_ports" where
  "timeout_ports = \<lparr>cp_submit_lead = (\<lambda>p k u w. (Inl (sop_error ''transport'' None None None), w)),
     cp_resolve_member = (\<lambda>u n w. Inr u), cp_get_records = (\<lambda>q w. Inr []),
     cp_update_record = (\<lambda>i f w. (Inl crm_value_error, w)), cp_update_records = (\<lambda>us w. (Inl crm_value_error, w))\<rparr>"


section \<open>Success\<close>

text \<open>
  A stored success is complete. Under a current claim it marks the submission as succeeded, moves the lead to the synchronised state
  whatever its state was, turns a pending or effective discard of the lead into one that has no effect, and settles the
  reserved company identity: bound to the CRM lead and its owner when there is one, released when the CRM
  only added a follow-up to a creation.
\<close>

theorem crm_success_complete:
  fixes cfg :: crm_config and env :: env and now :: time and u :: pstr and notify :: bool and r :: crm_create_result
  assumes s: "get_sync d i = Some s" "claim_is_current s c" and l: "get_lead d (cs_lead_id s) = Some l"
    and ids: "distinct (map ci_standard_company_name (crm_company_identities d))"
    and x: "identity_of_sync d s = Some x"
  defines "d' \<equiv> snd (settle_result cfg env now i u c notify (Inr r) d)"
  shows "get_sync d' i = Some (success_row now r s) \<and> get_lead d' (ld_id l) = Some (set_lifecycle now ''synced'' l) \<and>
    (\<forall>q. tget dr_lead_id (ld_id l) (lead_discard_requests d) = Some q \<and> dr_status q \<in> {''pending'', ''effective''} \<longrightarrow>
       (\<exists>q'. tget dr_id (dr_id q) (lead_discard_requests d') = Some q' \<and> dr_status q' = ''not_effective'')) \<and>
    (let lead_id = cs_crm_lead_id (success_row now r s);
         x' = tget ci_standard_company_name (ci_standard_company_name x) (crm_company_identities d')
     in if lead_id \<noteq> None
        then x' = Some (x\<lparr>ci_state := ''active'', ci_crm_lead_id := lead_id,
                          ci_crm_lead_owner_user_id := cs_crm_lead_owner_user_id (success_row now r s)\<rparr>)
        else x' = (if cs_operation s = ''create'' then None else Some x))"
proof -
  have lid: "ld_id l = cs_lead_id s" using l by (auto dest: tget_SomeD)
  have op: "cs_operation (success_row now r s) = cs_operation s" "cs_id (success_row now r s) = cs_id s"
    by (simp_all add: success_row_def release_sync_def)
  have xs: "x \<in> set (crm_company_identities d)" using x by (auto simp: identity_of_sync_def dest: find_SomeD)
  have gx: "tget ci_standard_company_name (ci_standard_company_name x) (crm_company_identities d) = Some x"
    using tget_unique [OF ids xs] .
  have nx: "tget ci_standard_company_name (ci_standard_company_name x)
      (tdel (\<lambda>y. ci_standard_company_name y = ci_standard_company_name x) (crm_company_identities d)) = None"
    by (auto simp: tget_None_iff tdel_def)
  have idn: "identity_of_sync (upd_sync i (success_row now r) d) (success_row now r s) = Some x"
    using x op by (simp add: identity_of_sync_def)
  have "get_sync d' i = Some (success_row now r s)"
    using settle_current [OF s, of cfg env now u notify "Inr r"] l by (simp add: d'_def result_row_def)
  moreover have "get_lead d' (ld_id l) = Some (set_lifecycle now ''synced'' l)"
    using s l lid by (simp add: d'_def settle_result_def settle_success_def Let_def tget_tupd_same set_lifecycle_def)
  moreover have "crm_company_identities d' = crm_company_identities (settle_identity now (success_row now r s) u (upd_sync i (success_row now r) d))"
    using s l lid by (simp add: d'_def settle_result_def settle_success_def Let_def)
  then have "let lead_id = cs_crm_lead_id (success_row now r s);
         x' = tget ci_standard_company_name (ci_standard_company_name x) (crm_company_identities d')
     in if lead_id \<noteq> None
        then x' = Some (x\<lparr>ci_state := ''active'', ci_crm_lead_id := lead_id,
                          ci_crm_lead_owner_user_id := cs_crm_lead_owner_user_id (success_row now r s)\<rparr>)
        else x' = (if cs_operation s = ''create'' then None else Some x)"
    using idn gx nx op by (simp add: settle_identity_def Let_def tget_tupd_same)
  moreover have "\<exists>q'. tget dr_id (dr_id q) (lead_discard_requests d') = Some q' \<and> dr_status q' = ''not_effective''"
    if q: "tget dr_lead_id (ld_id l) (lead_discard_requests d) = Some q" and True: "dr_status q \<in> {''pending'', ''effective''}" for q
  proof -
    have "q \<in> set (lead_discard_requests d)" using q by (auto dest: tget_SomeD)
    then obtain q0 where q0: "tget dr_id (dr_id q) (lead_discard_requests d) = Some q0"
      by (metis image_eqI tget_None_iff not_None_eq)
    have "lead_discard_requests d' = tupd dr_id (dr_id q)
        (\<lambda>x. x\<lparr>dr_status := ''not_effective'', dr_completed_at := Some now\<rparr>) (lead_discard_requests d)"
      using requests_after [OF s, of cfg env now u notify "Inr r"] l q True by (simp add: d'_def overrule_requests)
    with q0 show ?thesis by (simp add: tget_tupd_same)
  qed
  ultimately show ?thesis by simp
qed

definition reserved_identity :: crm_company_identity where
  "reserved_identity = \<lparr>ci_standard_company_name = asc ''ACME'', ci_crm_lead_id = None, ci_crm_lead_owner_user_id = None,
     ci_state = ''reserving'', ci_creating_lead_id = Some (asc ''L''), ci_creating_sync_record_id = Some 1\<rparr>"

theorem crm_success_complete_witness:
  "get_lead (snd (settle_result example_config plain_env 9 1 (asc ''amy'') (5, 1) False
      (Inr \<lparr>cr_crm_lead_id = Some (asc ''42''), cr_crm_lead_owner_user_id = None, cr_response_summary = [], cr_action = CREATE\<rparr>)
      (waiting_db\<lparr>crm_company_identities := [reserved_identity]\<rparr>))) (asc ''L'') =
   Some (set_lifecycle 9 ''synced'' waiting_lead)"
proof -
  let ?d = "waiting_db\<lparr>crm_company_identities := [reserved_identity]\<rparr>"
  have h: "get_sync ?d 1 = Some working_row" "get_lead ?d (cs_lead_id working_row) = Some waiting_lead"
    "distinct (map ci_standard_company_name (crm_company_identities ?d))" "identity_of_sync ?d working_row = Some reserved_identity"
    using waiting_db_current
    by (simp_all add: identity_of_sync_def reserved_identity_def working_row_def sync_row_def)
  have "ld_id waiting_lead = asc ''L''" by (simp add: waiting_lead_def)
  with crm_success_complete [OF h(1) waiting_db_current(2) h(2-4)] show ?thesis by auto
qed

end
