(* ===== verification/Crm_Batch_Correct.thy ===== *)
theory Crm_Batch_Correct
  imports Crm_Batch Crm_Sync_Correct
begin

text \<open>
  The submission service as a transition system. The batch queries are shown to agree with the query for one lead. Then
  the invariant of the submission table: no two rows compete for an idempotency key, a generation, a predecessor or a digest, and of the
  creations of a lead only the newest can be alive. Every transaction (\<open>crm_tx\<close>) keeps it, and every entry point of the service is a run
  of these transactions, between which other workers may act.
\<close>

section \<open>The newest creation\<close>

lemma newest_simps [simp]:
  "newest None s = Some s" "newest (Some b) s = Some (if newer_sync s b then s else b)"
  by (simp_all add: newest_def)

lemma newest_not_None [simp]: "foldl newest (Some b) xs \<noteq> None"
  by (induction xs arbitrary: b) auto

lemma newest_None_iff [simp]: "foldl newest None xs = None \<longleftrightarrow> xs = []"
  by (cases xs) simp_all

lemma newest_mem: "foldl newest b xs = Some m \<Longrightarrow> m \<in> set xs \<or> b = Some m"
proof (induction xs arbitrary: b)
  case (Cons x xs)
  then have "foldl newest (newest b x) xs = Some m" by simp
  from Cons.IH [OF this] show ?case by (cases b) (auto split: if_splits)
qed simp

lemma newest_fold:
  "foldl newest None xs = Some m \<Longrightarrow>
     (\<forall>y\<in>set xs. \<not> newer_sync y m) \<and> (\<exists>zs. filter (\<lambda>y. \<not> newer_sync m y) xs = m # zs)"
proof (induction xs arbitrary: m rule: rev_induct)
  case Nil
  then show ?case by simp
next
  case (snoc x xs)
  show ?case
  proof (cases "foldl newest None xs")
    case None
    then have "xs = []" by (cases xs) auto
    with snoc.prems show ?thesis by (auto simp: newer_sync_def split: option.splits)
  next
    case (Some b)
    note ih = snoc.IH [OF Some]
    show ?thesis
    proof (cases "newer_sync x b")
      case True
      with snoc.prems Some have m: "m = x" by simp
      have worse: "newer_sync x y" if "y \<in> set xs" for y
        using True ih that by (auto simp: newer_sync_def split: option.splits)
      have "\<not> newer_sync y x" if "y \<in> set xs" for y
        using worse [OF that] by (auto simp: newer_sync_def split: option.splits)
      with worse show ?thesis by (auto simp: m newer_sync_def filter_empty_conv split: option.splits)
    next
      case False
      with snoc.prems Some ih show ?thesis by auto
    qed
  qed
qed

lemma sort_key_first:
  assumes "sort_key f xs = h # t"
  shows "(\<forall>y\<in>set xs. f h \<le> f y) \<and> (\<exists>zs. filter (\<lambda>y. f y = f h) xs = h # zs)"
proof -
  have "sorted (map f (h # t))" using sorted_sort_key [of f xs] by (simp only: assms)
  moreover have "set xs = set (h # t)" by (metis assms set_sort)
  moreover have "filter (\<lambda>y. f y = f h) xs = filter (\<lambda>y. f y = f h) (h # t)"
    using sort_key_stable [of f "f h" xs] by (simp add: assms)
  ultimately show ?thesis by (auto simp del: sort_key_stable)
qed

text \<open>Three stable sorts, the last one on the first key.\<close>

lemma sort_three_first:
  assumes "sort_key f (sort_key g (sort_key k xs)) = h # t"
  shows "(\<forall>y\<in>set xs. f h < f y \<or> f h = f y \<and> (g h < g y \<or> g h = g y \<and> k h \<le> k y)) \<and>
    (\<exists>zs. filter (\<lambda>y. f y = f h \<and> g y = g h \<and> k y = k h) xs = h # zs)"
proof -
  from sort_key_first [OF assms] obtain zs where f: "\<forall>y\<in>set xs. f h \<le> f y"
    and "sort_key g (sort_key k (filter (\<lambda>y. f y = f h) xs)) = h # zs"
    by (auto simp: filter_sort)
  from sort_key_first [OF this(2)] obtain zs' where g: "\<forall>y\<in>set xs. f y = f h \<longrightarrow> g h \<le> g y"
    and "sort_key k (filter (\<lambda>y. g y = g h) (filter (\<lambda>y. f y = f h) xs)) = h # zs'"
    by (auto simp: filter_sort)
  from sort_key_first [OF this(2)] obtain zs'' where "\<forall>y\<in>set xs. f y = f h \<and> g y = g h \<longrightarrow> k h \<le> k y"
    and "filter (\<lambda>y. f y = f h \<and> g y = g h \<and> k y = k h) xs = h # zs''"
    by (auto simp: conj_ac)
  with f g show ?thesis by force
qed

definition creation_order :: "crm_sync_record list \<Rightarrow> crm_sync_record list" where
  "creation_order xs = sort_key (\<lambda>s. cs_generation s = None) (sort_key generation_rank (sort_key (\<lambda>s. - int (cs_id s)) xs))"

lemma creation_order_first:
  assumes "creation_order xs = h # t"
  shows "(\<forall>y\<in>set xs. \<not> newer_sync y h) \<and> (\<exists>zs. filter (\<lambda>y. \<not> newer_sync h y) xs = h # zs)"
proof -
  from sort_three_first [OF assms [unfolded creation_order_def]] obtain zs where
    best: "\<forall>y\<in>set xs. (cs_generation h = None) < (cs_generation y = None) \<or> (cs_generation h = None) = (cs_generation y = None) \<and>
      (generation_rank h < generation_rank y \<or> generation_rank h = generation_rank y \<and> - int (cs_id h) \<le> - int (cs_id y))"
    and first: "filter (\<lambda>y. (cs_generation y = None) = (cs_generation h = None) \<and> generation_rank y = generation_rank h \<and>
      - int (cs_id y) = - int (cs_id h)) xs = h # zs" by blast
  have "\<not> newer_sync y h" if "y \<in> set xs" for y
    using bspec [OF best that] by (auto simp: newer_sync_def generation_rank_def split: option.splits)
  moreover have "\<not> newer_sync h y \<longleftrightarrow> (cs_generation y = None) = (cs_generation h = None) \<and> generation_rank y = generation_rank h \<and>
      - int (cs_id y) = - int (cs_id h)" if "y \<in> set xs" for y
    using bspec [OF best that] by (auto simp: newer_sync_def generation_rank_def split: option.splits)
  then have "filter (\<lambda>y. \<not> newer_sync h y) xs = h # zs" by (subst first [symmetric]) (rule filter_cong [OF refl])
  ultimately show ?thesis by blast
qed

lemma creation_order_newest: "foldl newest None xs = (case creation_order xs of [] \<Rightarrow> None | h # t \<Rightarrow> Some h)"
proof (cases "creation_order xs")
  case Nil
  then have "xs = []" by (metis creation_order_def set_empty set_sort)
  with Nil show ?thesis by simp
next
  case (Cons h t)
  then have "xs \<noteq> []" by (auto simp: creation_order_def)
  then obtain m where m: "foldl newest None xs = Some m" by (cases "foldl newest None xs") (auto simp: neq_Nil_conv)
  from newest_fold [OF this] creation_order_first [OF Cons] obtain zs zs' where
    mm: "\<forall>y\<in>set xs. \<not> newer_sync y m" "filter (\<lambda>y. \<not> newer_sync m y) xs = m # zs" and
    hh: "\<forall>y\<in>set xs. \<not> newer_sync y h" "filter (\<lambda>y. \<not> newer_sync h y) xs = h # zs'" by blast
  have "m \<in> set xs" "h \<in> set xs" using mm(2) hh(2) by (auto dest!: arg_cong [where f = set])
  with mm(1) hh(1) have eq: "\<not> newer_sync m h" "\<not> newer_sync h m" by auto
  then have "newer_sync m y \<longleftrightarrow> newer_sync h y" for y
    by (auto simp: newer_sync_def split: option.splits)
  then have "m # zs = h # zs'" using mm(2) hh(2) by (simp only:)
  with Cons m show ?thesis by simp
qed

lemma find_first: "find P xs = (case filter P xs of [] \<Rightarrow> None | h # t \<Rightarrow> Some h)"
  by (induction xs) auto

lemma sort_const:
  assumes "\<forall>x\<in>set xs. f x = c"
  shows "sort_key f xs = xs"
  using assms by (induction xs) (simp_all add: insort_is_Cons)

lemma setdefault_fold:
  "dget k (foldl (\<lambda>m s. dsetdefault (cs_lead_id s) s m) m xs) =
     (case dget k m of Some v \<Rightarrow> Some v | None \<Rightarrow> find (\<lambda>s. cs_lead_id s = k) xs)"
proof (induction xs arbitrary: m)
  case Nil
  then show ?case by (simp split: option.splits)
next
  case (Cons s xs)
  have "dget k (dsetdefault (cs_lead_id s) s m) = (case dget k m of Some v \<Rightarrow> Some v | None \<Rightarrow> if cs_lead_id s = k then Some s else None)"
    by (auto simp: dsetdefault_def dget_def map_add_def split: option.splits)
  with Cons.IH show ?case by (auto split: option.splits)
qed

lemma latest_sync_by_lead_get:
  "dget l (latest_sync_by_lead d lids) = (if l \<in> set lids then latest_crm_create_sync d l else None)"
proof -
  let ?R = "filter (\<lambda>s. cs_lead_id s \<in> set lids \<and> cs_operation s = ''create'') (crm_sync_records d)"
  let ?F = "filter (\<lambda>s. cs_lead_id s = l) ?R"
  have "dget l (latest_sync_by_lead d lids) = find (\<lambda>s. cs_lead_id s = l) (creates_in_order d lids)"
    unfolding latest_sync_by_lead_def setdefault_fold by (simp add: dget_def)
  also have "\<dots> = (case filter (\<lambda>s. cs_lead_id s = l) (creates_in_order d lids) of [] \<Rightarrow> None | h # t \<Rightarrow> Some h)"
    by (rule find_first)
  also have "filter (\<lambda>s. cs_lead_id s = l) (creates_in_order d lids) = creation_order ?F"
    by (simp add: creates_in_order_def creation_order_def filter_sort sort_const [where c = l])
  also have "(case creation_order ?F of [] \<Rightarrow> None | h # t \<Rightarrow> Some h) = foldl newest None ?F"
    by (simp add: creation_order_newest)
  also have "\<dots> = (if l \<in> set lids then latest_crm_create_sync d l else None)"
  proof (cases "l \<in> set lids")
    case True
    then have "?F = filter (\<lambda>s. cs_lead_id s = l \<and> cs_operation s = ''create'') (crm_sync_records d)"
      by (auto intro: filter_cong)
    with True show ?thesis by (simp add: latest_crm_create_sync_def)
  next
    case False
    then have "?F = []" by (auto simp: filter_empty_conv)
    with False show ?thesis by simp
  qed
  finally show ?thesis .
qed

section \<open>The submission table\<close>

definition creation :: "crm_sync_record \<Rightarrow> bool" where
  "creation s = (cs_operation s = ''create'')"

definition submissions_inv :: "db \<Rightarrow> bool" where
  "submissions_inv d =
     (distinct (map cs_id (crm_sync_records d)) \<and>
      (\<forall>s\<in>set (crm_sync_records d). \<forall>t\<in>set (crm_sync_records d). cs_id s \<noteq> cs_id t \<longrightarrow> \<not> sync_conflict s t) \<and>
      (\<forall>s\<in>set (crm_sync_records d). \<forall>t\<in>set (crm_sync_records d).
         creation s \<and> creation t \<and> cs_lead_id s = cs_lead_id t \<and> newer_sync t s \<longrightarrow> cs_status s = ''abandoned''))"

text \<open>A row as a later row of the same number: the frozen columns, and what is abandoned stays so.\<close>

definition evolved :: "crm_sync_record \<Rightarrow> crm_sync_record \<Rightarrow> bool" where
  "evolved s t = (frozen t = frozen s \<and> (cs_status s = ''abandoned'' \<longrightarrow> cs_status t = ''abandoned''))"

lemma evolved_refl [simp]: "evolved s s"
  by (simp add: evolved_def)

lemma evolved_columns:
  assumes "evolved s s'"
  shows "cs_id s' = cs_id s" "cs_lead_id s' = cs_lead_id s" "creation s' = creation s"
    "newer_sync s' t \<longleftrightarrow> newer_sync s t" "newer_sync t s' \<longleftrightarrow> newer_sync t s"
    "sync_conflict s' t \<longleftrightarrow> sync_conflict s t" "sync_conflict t s' \<longleftrightarrow> sync_conflict t s"
proof -
  from assms have "cs_id s' = cs_id s" "cs_lead_id s' = cs_lead_id s" "cs_operation s' = cs_operation s"
    "cs_generation s' = cs_generation s" "cs_supersedes_sync_record_id s' = cs_supersedes_sync_record_id s"
    "cs_idempotency_key s' = cs_idempotency_key s" "cs_snapshot_hash s' = cs_snapshot_hash s"
    by (simp_all add: evolved_def frozen_def)
  then show "cs_id s' = cs_id s" "cs_lead_id s' = cs_lead_id s" "creation s' = creation s"
    "newer_sync s' t \<longleftrightarrow> newer_sync s t" "newer_sync t s' \<longleftrightarrow> newer_sync t s"
    "sync_conflict s' t \<longleftrightarrow> sync_conflict s t" "sync_conflict t s' \<longleftrightarrow> sync_conflict t s"
    by (simp_all add: creation_def newer_sync_def sync_conflict_def split: option.split)
qed

lemma submissions_inv_evolved:
  assumes "submissions_inv d" and "list_all2 evolved (crm_sync_records d) (crm_sync_records d')"
  shows "submissions_inv d'"
proof -
  have "map cs_id (crm_sync_records d') = map cs_id (crm_sync_records d)"
    using assms(2) by (induction rule: list_all2_induct) (auto dest: evolved_columns(1))
  moreover have origin: "\<exists>s\<in>set (crm_sync_records d). evolved s t" if "t \<in> set (crm_sync_records d')" for t
    using assms(2) that by (metis list_all2_conv_all_nth in_set_conv_nth)
  have "\<not> sync_conflict s t" if "s \<in> set (crm_sync_records d')" "t \<in> set (crm_sync_records d')" "cs_id s \<noteq> cs_id t" for s t
  proof -
    from origin [OF that(1)] origin [OF that(2)] obtain s0 t0 where
      "s0 \<in> set (crm_sync_records d)" "evolved s0 s" "t0 \<in> set (crm_sync_records d)" "evolved t0 t" by blast
    with that(3) assms(1) show ?thesis by (simp add: submissions_inv_def evolved_columns)
  qed
  moreover have "cs_status s = ''abandoned''"
    if "s \<in> set (crm_sync_records d')" "t \<in> set (crm_sync_records d')" "creation s" "creation t" "cs_lead_id s = cs_lead_id t" "newer_sync t s" for s t
  proof -
    from origin [OF that(1)] origin [OF that(2)] obtain s0 t0 where
      0: "s0 \<in> set (crm_sync_records d)" "evolved s0 s" "t0 \<in> set (crm_sync_records d)" "evolved t0 t" by blast
    with that have "creation s0 \<and> creation t0 \<and> cs_lead_id s0 = cs_lead_id t0 \<and> newer_sync t0 s0" by (simp add: evolved_columns)
    with 0 assms(1) have "cs_status s0 = ''abandoned''" unfolding submissions_inv_def by blast
    with \<open>evolved s0 s\<close> show ?thesis by (simp add: evolved_def)
  qed
  ultimately show ?thesis using assms(1) by (simp add: submissions_inv_def)
qed

lemma evolved_by_key:
  assumes "distinct (map cs_id xs)" and "map cs_id ys = map cs_id xs"
    and "\<And>i s. tget cs_id i xs = Some s \<Longrightarrow> \<exists>t. tget cs_id i ys = Some t \<and> evolved s t"
  shows "list_all2 evolved xs ys"
proof (intro list_all2_all_nthI)
  show len: "length xs = length ys" using assms(2) by (metis length_map)
  fix n assume n: "n < length xs"
  with len assms(2) have key: "cs_id (ys ! n) = cs_id (xs ! n)" by (metis nth_map)
  have "tget cs_id (cs_id (xs ! n)) xs = Some (xs ! n)" using assms(1) n by (simp add: tget_unique)
  moreover have "tget cs_id (cs_id (xs ! n)) ys = Some (ys ! n)"
    using assms(1,2) n len key tget_unique [of cs_id ys "ys ! n"] by simp
  ultimately show "evolved (xs ! n) (ys ! n)" using assms(3) by fastforce
qed

lemma changed_evolved: "change_ok c s \<Longrightarrow> evolved s (changed cfg env c s)"
  by (cases c) (auto simp: evolved_def lease_expired_def outcome_unknown_def)

lemma submissions_inv_event: "submissions_inv d \<Longrightarrow> submissions_inv (crm_event_step cfg env e d)"
proof (rule submissions_inv_evolved)
  assume inv: "submissions_inv d"
  have "\<exists>t. get_sync (crm_event_step cfg env e d) i = Some t \<and> evolved s t" if "get_sync d i = Some s" for i s
    using event_row [OF that, of e cfg env] changed_evolved by metis
  then show "list_all2 evolved (crm_sync_records d) (crm_sync_records (crm_event_step cfg env e d))"
    using inv by (intro evolved_by_key event_ids) (simp_all add: submissions_inv_def)
qed

lemma submissions_inv_cong: "crm_sync_records d' = crm_sync_records d \<Longrightarrow> submissions_inv d' \<longleftrightarrow> submissions_inv d"
  by (simp add: submissions_inv_def)

lemma submissions_inv_add:
  assumes "submissions_inv d" and rows: "crm_sync_records d' = tadd x (crm_sync_records d)"
    and "\<forall>s\<in>set (crm_sync_records d). cs_id s \<noteq> cs_id x"
    and "\<forall>s\<in>set (crm_sync_records d). \<not> sync_conflict x s"
    and "\<forall>s\<in>set (crm_sync_records d). creation x \<and> creation s \<and> cs_lead_id s = cs_lead_id x \<longrightarrow>
           \<not> newer_sync s x \<and> cs_status s = ''abandoned''"
  shows "submissions_inv d'"
proof -
  have sym: "sync_conflict s x \<longleftrightarrow> sync_conflict x s" for s
    unfolding sync_conflict_def by (rule iffI; elim disjE conjE; simp)
  have irr: "\<not> newer_sync x x" by (simp add: newer_sync_def split: option.splits)
  have "distinct (map cs_id (crm_sync_records d'))"
    using assms(1,3) by (auto simp: rows submissions_inv_def simp del: set_tadd)
  moreover have "\<forall>s\<in>set (crm_sync_records d'). \<forall>t\<in>set (crm_sync_records d'). cs_id s \<noteq> cs_id t \<longrightarrow> \<not> sync_conflict s t"
    using assms(1,4) sym unfolding rows submissions_inv_def set_tadd by blast
  moreover have "\<forall>s\<in>set (crm_sync_records d'). \<forall>t\<in>set (crm_sync_records d').
      creation s \<and> creation t \<and> cs_lead_id s = cs_lead_id t \<and> newer_sync t s \<longrightarrow> cs_status s = ''abandoned''"
    using assms(1,5) irr unfolding rows submissions_inv_def set_tadd by (metis insert_iff)
  ultimately show ?thesis by (simp add: submissions_inv_def)
qed

lemma next_sync_id_fresh: "\<forall>s\<in>set xs. cs_id s \<noteq> next_id cs_id xs"
  using next_id_fresh [of _ xs cs_id] by fastforce

lemma submissions_inv_mapping_missing:
  assumes "submissions_inv d"
  shows "submissions_inv (record_mapping_missing env now l c payload digest operation d)"
proof (cases "list_ex (\<lambda>x. cs_idempotency_key x = mapping_missing_key env operation l c) (crm_sync_records d)")
  case True
  then have "crm_sync_records (record_mapping_missing env now l c payload digest operation d) = crm_sync_records d"
    by (auto simp: record_mapping_missing_def Let_def)
  from iffD2 [OF submissions_inv_cong, OF this assms] show ?thesis .
next
  case False
  define x where "x = (new_sync now (next_id cs_id (crm_sync_records d)) l c ''validation'' (mapping_missing_key env operation l c) payload digest None)
    \<lparr>cs_status := ''failed_pending_review'', cs_failure_category := Some ''permanent'',
     cs_failure_kind := Some (asc ''validation_failed''), cs_failure_code := Some (asc ''mapping_missing''),
     cs_failure_summary := Some s_mapping_missing, cs_failed_at := Some now, cs_completed_at := Some now\<rparr>"
  show ?thesis
  proof (rule submissions_inv_add [OF assms])
    show "crm_sync_records (record_mapping_missing env now l c payload digest operation d) = tadd x (crm_sync_records d)"
      using False by (auto simp: record_mapping_missing_def Let_def x_def)
    show "\<forall>s\<in>set (crm_sync_records d). cs_id s \<noteq> cs_id x"
      using next_sync_id_fresh by (simp add: x_def new_sync_def)
    show "\<forall>s\<in>set (crm_sync_records d). \<not> sync_conflict x s"
      using False by (auto simp: x_def new_sync_def sync_conflict_def list_ex_iff)
    show "\<forall>s\<in>set (crm_sync_records d). creation x \<and> creation s \<and> cs_lead_id s = cs_lead_id x \<longrightarrow>
        \<not> newer_sync s x \<and> cs_status s = ''abandoned''"
      by (simp add: x_def new_sync_def creation_def)
  qed
qed

text \<open>A new creation follows the newest one, which is abandoned or absent.\<close>

lemma plan_create_generation:
  assumes "plan_create c row existing = Generation g prev"
  shows "(existing = None \<and> g = 1) \<or>
    (\<exists>s. existing = Some s \<and> cs_status s = ''abandoned'' \<and> (case cs_generation s of None \<Rightarrow> True | Some h \<Rightarrow> h < g))"
  using assms by (auto simp: plan_create_def split: option.splits if_splits)

lemma latest_creation_cases:
  assumes "s \<in> set (crm_sync_records d)" and "creation s" and "cs_lead_id s = lead_id"
  obtains m where "latest_crm_create_sync d lead_id = Some m" "m \<in> set (crm_sync_records d)" "creation m" "cs_lead_id m = lead_id"
    "\<not> newer_sync s m"
proof -
  let ?xs = "filter (\<lambda>s. cs_lead_id s = lead_id \<and> cs_operation s = ''create'') (crm_sync_records d)"
  from assms have s: "s \<in> set ?xs" by (simp add: creation_def)
  then obtain m where m: "foldl newest None ?xs = Some m" by (cases "foldl newest None ?xs") (simp_all, fastforce simp: filter_empty_conv)
  from newest_fold [OF m] newest_mem [OF m] s have "\<not> newer_sync s m" "m \<in> set ?xs" by blast+
  with m that show thesis by (auto simp: latest_crm_create_sync_def creation_def)
qed

lemma newest_is_newer:
  assumes "submissions_inv d" and "s \<in> set (crm_sync_records d)" and "creation s" and "cs_lead_id s = lead_id"
    and "latest_crm_create_sync d lead_id = Some m" and "cs_status m = ''abandoned''"
  shows "cs_status s = ''abandoned''"
proof -
  from latest_creation_cases [OF assms(2-4)] assms(5)
  have m: "m \<in> set (crm_sync_records d)" "creation m" "cs_lead_id m = lead_id" "\<not> newer_sync s m" by auto
  show ?thesis
  proof (cases "cs_id s = cs_id m")
    case True
    with assms(1,2) m(1) have "s = m" by (metis submissions_inv_def tget_unique option.inject)
    with assms(6) show ?thesis by simp
  next
    case False
    with m(4) have "newer_sync m s" by (auto simp: newer_sync_def split: option.splits)
    with assms(3,4) m have "creation s \<and> creation m \<and> cs_lead_id s = cs_lead_id m \<and> newer_sync m s" by simp
    with assms(1,2) m(1) show ?thesis unfolding submissions_inv_def by blast
  qed
qed

lemma insert_sync_inv:
  assumes "submissions_inv d" and "insert_sync x d = Some d'" and "cs_id x = next_id cs_id (crm_sync_records d)"
    and "\<forall>s\<in>set (crm_sync_records d). creation x \<and> creation s \<and> cs_lead_id s = cs_lead_id x \<longrightarrow>
           \<not> newer_sync s x \<and> cs_status s = ''abandoned''"
  shows "submissions_inv d'"
proof (rule submissions_inv_add [OF assms(1)])
  show "crm_sync_records d' = tadd x (crm_sync_records d)" "\<forall>s\<in>set (crm_sync_records d). \<not> sync_conflict x s"
    using assms(2) by (auto simp: insert_sync_def list_ex_iff split: if_splits)
  show "\<forall>s\<in>set (crm_sync_records d). cs_id s \<noteq> cs_id x" using next_sync_id_fresh by (simp add: assms(3))
qed (rule assms(4))

lemma reserve_identity_rows [simp]: "crm_sync_records (reserve_identity name lead_id i d) = crm_sync_records d"
  by (simp add: reserve_identity_def split: option.splits)

lemma submissions_inv_freeze_generation:
  assumes "submissions_inv d" and "ld_id l = lead_id"
    and plan: "plan_create c row (latest_crm_create_sync d lead_id) = Generation g prev"
    and run: "freeze_generation now l c payload digest name crm_user g prev d = (res, d')"
  shows "submissions_inv d'"
proof -
  define x where "x = (new_sync now (next_id cs_id (crm_sync_records d)) l c ''create'' (create_key l g) payload digest (Some crm_user))
    \<lparr>cs_generation := Some g, cs_supersedes_sync_record_id := prev\<rparr>"
  have "d' = d \<or> (\<exists>d1. insert_sync x d = Some d1 \<and> crm_sync_records d' = crm_sync_records d1)"
    using run by (auto simp: freeze_generation_def x_def Let_def split: option.splits)
  moreover have "submissions_inv d1" if "insert_sync x d = Some d1" for d1
  proof (rule insert_sync_inv [OF assms(1) that])
    show "cs_id x = next_id cs_id (crm_sync_records d)" by (simp add: x_def new_sync_def)
    have "\<not> newer_sync s x \<and> cs_status s = ''abandoned''"
      if s: "s \<in> set (crm_sync_records d)" "creation s" "cs_lead_id s = cs_lead_id x" for s
    proof -
      from s(3) assms(2) have lead: "cs_lead_id s = lead_id" by (simp add: x_def new_sync_def)
      from latest_creation_cases [OF s(1,2) lead] obtain m where
        m: "latest_crm_create_sync d lead_id = Some m" "\<not> newer_sync s m" by blast
      with plan_create_generation [OF plan] have ab: "cs_status m = ''abandoned''"
        and g: "case cs_generation m of None \<Rightarrow> True | Some h \<Rightarrow> h < g" by auto
      have "\<not> newer_sync s x"
        using m(2) g by (auto simp: newer_sync_def x_def split: option.splits)
      with newest_is_newer [OF assms(1) s(1,2) lead m(1) ab] show ?thesis by simp
    qed
    then show "\<forall>s\<in>set (crm_sync_records d). creation x \<and> creation s \<and> cs_lead_id s = cs_lead_id x \<longrightarrow>
        \<not> newer_sync s x \<and> cs_status s = ''abandoned''" by blast
  qed
  ultimately show ?thesis using assms(1) submissions_inv_cong by metis
qed

lemma upd_sync_evolved:
  assumes "\<And>s. get_sync d i = Some s \<Longrightarrow> evolved s (f s)" and "distinct (map cs_id (crm_sync_records d))"
  shows "list_all2 evolved (crm_sync_records d) (tupd cs_id i f (crm_sync_records d))"
proof -
  have "evolved s (if cs_id s = i then f s else s)" if "s \<in> set (crm_sync_records d)" for s
    using assms(1) tget_unique [OF assms(2) that] by auto
  then show ?thesis by (simp add: tupd_def list_all2_conv_all_nth)
qed

lemma latest_mem: "latest_crm_create_sync d lead_id = Some m \<Longrightarrow> m \<in> set (crm_sync_records d)"
  unfolding latest_crm_create_sync_def by (drule newest_mem) simp

lemma submissions_inv_reuse:
  assumes "submissions_inv d" and "plan_create c row (latest_crm_create_sync d lead_id) = Reuse i"
  shows "submissions_inv (upd_sync i reopen_row d)"
proof -
  have d: "distinct (map cs_id (crm_sync_records d))" using assms(1) by (simp add: submissions_inv_def)
  from assms(2) obtain m where m: "latest_crm_create_sync d lead_id = Some m" "cs_id m = i" "cs_status m \<noteq> ''abandoned''"
    by (auto simp: plan_create_def split: option.splits if_splits)
  then have "get_sync d i = Some m" using tget_unique [OF d latest_mem [OF m(1)]] by simp
  with m have "list_all2 evolved (crm_sync_records d) (tupd cs_id i reopen_row (crm_sync_records d))"
    by (intro upd_sync_evolved d) (simp add: evolved_def frozen_def reopen_row_def)
  then show ?thesis by (intro submissions_inv_evolved [OF assms(1)]) simp
qed

lemma submissions_inv_create_freeze:
  assumes "submissions_inv d"
  shows "submissions_inv (snd (create_freeze env cp directory now lead_id c r names payload digest name d w))"
proof -
  have gen: "submissions_inv d1" if "get_lead d lead_id = Some l"
    "plan_create c (rec_fields r) (latest_crm_create_sync d lead_id) = Generation g prev"
    "freeze_generation now l c payload digest name u g prev d = (res, d1)" for l g prev u res d1
    using submissions_inv_freeze_generation [OF assms _ that(2,3)] that(1) by (auto dest: tget_SomeD)
  show ?thesis
    using assms
    by (simp add: create_freeze_def submissions_inv_mapping_missing submissions_inv_reuse gen
        split: option.split sum.split create_plan.split prod.split)
qed

lemma submissions_inv_update_freeze:
  assumes "submissions_inv d"
  shows "submissions_inv (snd (update_freeze env cp directory now lead_id c r names latest payload d w))"
proof -
  have ins: "submissions_inv (record_audit_for_sync now y u e x d1)" if "insert_sync s d = Some d1"
    "cs_id s = next_id cs_id (crm_sync_records d)" "cs_operation s = ''update''" for s y u e x d1
  proof -
    have "submissions_inv d1" using insert_sync_inv [OF assms that(1,2)] that(3) by (simp add: creation_def)
    then show ?thesis by (rule iffD2 [OF submissions_inv_cong, rotated]) simp
  qed
  show ?thesis
    using assms
    by (simp add: update_freeze_def Let_def submissions_inv_mapping_missing
        split: option.split sum.split bool.split) (auto intro: ins simp: new_sync_def)
qed

lemma set_tupd_one:
  assumes "distinct (map key xs)" and "tget key k xs = Some s" and "t \<in> set (tupd key k f xs)"
  shows "t = f s \<or> (t \<in> set xs \<and> key t \<noteq> k)"
proof -
  from assms(3) obtain x where x: "x \<in> set xs" "t = (if key x = k then f x else x)" by (auto simp: tupd_def)
  show ?thesis
  proof (cases "key x = k")
    case True
    with assms(1,2) x have "x = s" using tget_unique [OF assms(1) x(1)] by simp
    with x True show ?thesis by simp
  qed (use x in simp)
qed

lemma confirmed_row_id [simp]: "cs_id (confirmed_row s) = cs_id s"
  by (simp add: confirmed_row_def)

lemma submissions_inv_confirm:
  assumes inv: "submissions_inv d" and s: "get_sync d (cs_id s) = Some s" and run: "confirm_duplicate now u s d = Some d'"
  shows "submissions_inv d'"
proof -
  have dist: "distinct (map cs_id (crm_sync_records d))" using inv by (simp add: submissions_inv_def)
  have rows: "crm_sync_records d' = tupd cs_id (cs_id s) confirmed_row (crm_sync_records d)"
    and free: "\<forall>t\<in>set (crm_sync_records d). cs_id t \<noteq> cs_id s \<longrightarrow> \<not> sync_conflict (confirmed_row s) t"
    using run by (auto simp: confirm_duplicate_def list_ex_iff split: if_splits)
  have sym: "sync_conflict a b \<longleftrightarrow> sync_conflict b a" for a b
    unfolding sync_conflict_def by (rule iffI; elim disjE conjE; simp)
  have origin: "t = confirmed_row s \<or> t \<in> set (crm_sync_records d) \<and> cs_id t \<noteq> cs_id s" if "t \<in> set (crm_sync_records d')" for t
    using set_tupd_one [OF dist s, of t confirmed_row] that rows by simp
  have nc: "\<not> creation (confirmed_row s)" by (simp add: creation_def confirmed_row_def)
  have "distinct (map cs_id (crm_sync_records d'))" using dist by (simp add: rows tupd_keys)
  moreover have "\<not> sync_conflict a b" if "a \<in> set (crm_sync_records d')" "b \<in> set (crm_sync_records d')" "cs_id a \<noteq> cs_id b" for a b
  proof -
    note ab = that
    consider "a = confirmed_row s" "b \<in> set (crm_sync_records d)" "cs_id b \<noteq> cs_id s"
      | "b = confirmed_row s" "a \<in> set (crm_sync_records d)" "cs_id a \<noteq> cs_id s"
      | "a \<in> set (crm_sync_records d)" "b \<in> set (crm_sync_records d)"
      using origin [OF ab(1)] origin [OF ab(2)] ab(3) by auto
    then show ?thesis using free sym inv ab(3) unfolding submissions_inv_def by cases blast+
  qed
  moreover have "cs_status a = ''abandoned''" if "a \<in> set (crm_sync_records d')" "b \<in> set (crm_sync_records d')"
    "creation a \<and> creation b \<and> cs_lead_id a = cs_lead_id b \<and> newer_sync b a" for a b
  proof -
    from that nc have "a \<noteq> confirmed_row s" "b \<noteq> confirmed_row s" by auto
    with origin that(1,2) have "a \<in> set (crm_sync_records d)" "b \<in> set (crm_sync_records d)" by blast+
    with inv that(3) show ?thesis unfolding submissions_inv_def by blast
  qed
  ultimately show ?thesis unfolding submissions_inv_def by blast
qed

lemma submissions_inv_abandon:
  assumes "submissions_inv d"
  shows "submissions_inv (abandon_duplicate now u s d)"
proof (rule submissions_inv_evolved [OF assms])
  have "crm_sync_records (abandon_duplicate now u s d) = tupd cs_id (cs_id s) (abandoned_row now) (crm_sync_records d)"
    by (simp add: abandon_duplicate_def Let_def split: option.split)
  moreover have "list_all2 evolved (crm_sync_records d) (tupd cs_id (cs_id s) (abandoned_row now) (crm_sync_records d))"
    using assms by (intro upd_sync_evolved) (simp_all add: evolved_def frozen_def abandoned_row_def submissions_inv_def)
  ultimately show "list_all2 evolved (crm_sync_records d) (crm_sync_records (abandon_duplicate now u s d))" by simp
qed

lemma abandon_other:
  "j \<noteq> cs_id s \<Longrightarrow> get_sync (abandon_duplicate now u s d) j = get_sync d j"
  by (simp add: abandon_duplicate_def Let_def abandoned_row_def tget_tupd_other split: option.split)

lemma confirm_other:
  "confirm_duplicate now u s d = Some d' \<Longrightarrow> j \<noteq> cs_id s \<Longrightarrow> get_sync d' j = get_sync d j"
  by (auto simp: confirm_duplicate_def confirmed_row_def tget_tupd_other split: if_splits)

lemma submissions_inv_decide:
  assumes "submissions_inv d" and "distinct (map (\<lambda>x. cs_id (fst x)) rows)"
    and "\<forall>(s, l)\<in>set rows. get_sync d (cs_id s) = Some s"
    and "decide_duplicates now u continue selected in_range rows a d = Some (a', d')"
  shows "submissions_inv d'"
  using assms
proof (induction rows arbitrary: a d)
  case (Cons sl rows)
  obtain s l where sl: "sl = (s, l)" by fastforce
  have others: "\<forall>(t, l)\<in>set rows. cs_id t \<noteq> cs_id s" using Cons.prems(2) sl by force
  have s: "get_sync d (cs_id s) = Some s" and rest: "\<forall>(t, l)\<in>set rows. get_sync d (cs_id t) = Some t"
    and dist: "distinct (map (\<lambda>x. cs_id (fst x)) rows)" using Cons.prems sl by auto
  note ih = Cons.IH [OF _ dist]
  consider a1 where "decide_duplicates now u continue selected in_range rows a1 d = Some (a', d')"
    | a1 where "decide_duplicates now u continue selected in_range rows a1 (abandon_duplicate now u s d) = Some (a', d')"
    | a1 d1 where "confirm_duplicate now u s d = Some d1" "decide_duplicates now u continue selected in_range rows a1 d1 = Some (a', d')"
    using Cons.prems(4) sl by (auto split: if_splits option.splits)
  then show ?case
  proof cases
    case 1
    from ih [OF Cons.prems(1) rest 1] show ?thesis .
  next
    case 2
    have "\<forall>(t, l)\<in>set rows. get_sync (abandon_duplicate now u s d) (cs_id t) = Some t"
      using rest others by (fastforce simp: abandon_other)
    from ih [OF submissions_inv_abandon [OF Cons.prems(1)] this 2] show ?thesis .
  next
    case 3
    have "\<forall>(t, l)\<in>set rows. get_sync d1 (cs_id t) = Some t"
      using rest others confirm_other [OF 3(1)] by fastforce
    from ih [OF submissions_inv_confirm [OF Cons.prems(1) s 3(1)] this 3(2)] show ?thesis .
  qed
qed simp

lemma awaiting_rows_current:
  assumes "distinct (map cs_id (crm_sync_records d))"
  shows "distinct (map (\<lambda>x. cs_id (fst x)) (awaiting_rows message owners chosen d))"
    and "\<forall>(s, l)\<in>set (awaiting_rows message owners chosen d). get_sync d (cs_id s) = Some s"
proof -
  define F where "F = (\<lambda>s :: crm_sync_record. case get_lead d (cs_lead_id s) of None \<Rightarrow> [] | Some l \<Rightarrow>
      if cs_request_message_id s = message \<and> cs_operation s = ''create'' \<and> cs_status s = ''awaiting_duplicate_confirmation'' \<and>
         ld_smart_table_owner_user_id l \<in> set owners \<and> (chosen = [] \<or> ld_id l \<in> set chosen) then [(s, l)] else [])"
  have rows: "awaiting_rows message owners chosen d = concat (map F (crm_sync_records d))" by (simp add: awaiting_rows_def F_def)
  have F: "F s = [] \<or> (\<exists>l. F s = [(s, l)])" for s by (auto simp: F_def split: option.split)
  have memF: "p \<in> set (F s) \<Longrightarrow> fst p = s" for p s using F [of s] by auto
  have "distinct (map (\<lambda>x. cs_id (fst x)) (concat (map F xs)))" if "distinct (map cs_id xs)" for xs
    using that
  proof (induction xs)
    case (Cons x xs)
    then show ?case using F [of x] by (auto dest: memF)
  qed simp
  with assms show "distinct (map (\<lambda>x. cs_id (fst x)) (awaiting_rows message owners chosen d))" by (simp add: rows)
  have "s \<in> set (crm_sync_records d)" if "(s, l) \<in> set (awaiting_rows message owners chosen d)" for s l
    using that by (auto simp: awaiting_rows_def split: option.splits if_splits)
  then show "\<forall>(s, l)\<in>set (awaiting_rows message owners chosen d). get_sync d (cs_id s) = Some s"
    using tget_unique [OF assms] by auto
qed

section \<open>Transactions\<close>

text \<open>
  The steps of the whole system on the database and the remote world: the transactions of the submission service with any arguments,
  by any worker, and anything else that leaves the submission table alone (no other component writes it).
\<close>

inductive crm_tx :: "db \<times> 'w \<Rightarrow> db \<times> 'w \<Rightarrow> bool" where
  tx_event: "crm_tx (d, w) (crm_event_step cfg env e d, w)"
| tx_create: "crm_tx (d, w) (snd (create_freeze env cp directory now lead_id c r names payload digest name d w), w)"
| tx_update: "crm_tx (d, w) (snd (update_freeze env cp directory now lead_id c r names latest payload d w), w)"
| tx_missing: "crm_tx (d, w) (record_mapping_missing env now l c payload digest operation d, w)"
| tx_decide: "decide_duplicates now u continue selected in_range (awaiting_rows message owners chosen d) a d = Some (a', d') \<Longrightarrow>
    crm_tx (d, w) (d', w)"
| tx_elsewhere: "crm_sync_records d' = crm_sync_records d \<Longrightarrow> crm_tx (d, w) (d', w')"

lemma crm_tx_inv: "crm_tx x y \<Longrightarrow> submissions_inv (fst x) \<Longrightarrow> submissions_inv (fst y)"
proof (induction rule: crm_tx.induct)
  case (tx_decide now u continue selected in_range message owners chosen d a a' d' w)
  then have inv: "submissions_inv d" by simp
  then have dist: "distinct (map cs_id (crm_sync_records d))" by (simp add: submissions_inv_def)
  from submissions_inv_decide [OF inv awaiting_rows_current [OF dist] tx_decide(1)] show ?case by simp
next
  case (tx_elsewhere d' d w w')
  then show ?case using submissions_inv_cong by (metis fst_conv)
qed (simp_all add: submissions_inv_event submissions_inv_create_freeze submissions_inv_update_freeze submissions_inv_mapping_missing)

lemma crm_txs_inv: "crm_tx\<^sup>*\<^sup>* x y \<Longrightarrow> submissions_inv (fst x) \<Longrightarrow> submissions_inv (fst y)"
  by (induction rule: rtranclp_induct) (auto intro: crm_tx_inv)

lemmas tx_step = converse_rtranclp_into_rtranclp
lemmas tx_elsewheres = r_into_rtranclp [of crm_tx, OF tx_elsewhere]

lemma settle_call_txs:
  assumes "settle_call cfg env cp now i u c notify defer res d w = (out, d', w')"
  shows "crm_tx\<^sup>*\<^sup>* (d, w) (d', w')"
proof -
  define d1 where "d1 = snd (settle_result cfg env now i u c notify res d)"
  have ev: "crm_tx (d, w) (d1, w)"
    using tx_event [of d w cfg env "Ev_Settle now i u c notify res"] by (simp add: d1_def)
  have "crm_sync_records d' = crm_sync_records d1"
    using assms by (auto simp: settle_call_def set_smart_table_submission_status_def d1_def split: prod.splits option.splits sum.splits if_splits)
  then have "crm_tx (d1, w) (d', w')" by (rule tx_elsewhere)
  with ev show ?thesis by (meson rtranclp.rtrancl_into_rtrancl r_into_rtranclp)
qed

lemma claim_and_call_txs: "crm_tx\<^sup>*\<^sup>* (d, w) (snd (claim_and_call cfg env cp now1 now2 i u notify defer d w))"
proof -
  obtain cl d1 where cl: "claim_sync cfg env now1 i u notify d = (cl, d1)" by fastforce
  then have ev: "crm_tx (d, w) (d1, w)"
    using tx_event [of d w cfg env "Ev_Claim now1 i u notify"] by simp
  show ?thesis
  proof (cases cl)
    case (Refused out)
    with cl ev show ?thesis by (simp add: claim_and_call_def r_into_rtranclp)
  next
    case (Claimed tok p k cu)
    obtain res w1 where call: "claim_and_call cfg env cp now1 now2 i u notify defer d w =
        settle_call cfg env cp now2 i u tok notify defer res d1 w1"
      using cl Claimed by (cases cu; cases "cp_submit_lead cp p k (the cu) w") (auto simp: claim_and_call_def)
    obtain out d2 w2 where settle: "settle_call cfg env cp now2 i u tok notify defer res d1 w1 = (out, d2, w2)"
      by (rule prod_cases3)
    have "crm_tx (d1, w) (d1, w1)" by (rule tx_elsewhere) simp
    with ev settle_call_txs [OF settle] call settle show ?thesis by (auto intro: tx_step)
  qed
qed

lemma audit_once_rows [simp]: "crm_sync_records (audit_command now c e x d) = crm_sync_records d"
  by (simp add: audit_command_def)

lemma create_payload_rows: "create_payload env cfg cp now l c r names d w = (res, d') \<Longrightarrow> crm_sync_records d' = crm_sync_records d"
  by (auto simp: create_payload_def Let_def split: if_splits sum.splits payload_error.splits)

lemma submit_create_once_txs:
  "crm_tx\<^sup>*\<^sup>* (d, w) (snd (submit_create_once env cfg cp directory now lead_id c initial defer d w))"
proof -
  have go: "crm_tx\<^sup>*\<^sup>* (x, w) (d2, w1)" if "claim_and_call cfg env cp now now i (sc_sales_user_id c) False defer x w = (out, d2, w1)" for i x out d2 w1
    using claim_and_call_txs [of x w cfg env cp now now i "sc_sales_user_id c" False "defer"] that by simp
  have pay: "crm_tx\<^sup>*\<^sup>* (d, w) (d1, w)" if "create_payload env cfg cp now l c r names d w = (res, d1)" for l r names res d1
    using create_payload_rows [OF that] by (rule tx_elsewheres)
  have frz: "crm_tx\<^sup>*\<^sup>* (d, w) (d2, w)" if "create_payload env cfg cp now l c r names d w = (res, d1)"
    "create_freeze env cp directory now lead_id c r names payload digest name d1 w = (res', d2)" for l r names res d1 payload digest name res' d2
    using pay [OF that(1)] tx_create [of d1 w env cp directory now lead_id c r names payload digest name] that(2)
    by (simp add: rtranclp.rtrancl_into_rtrancl)
  have miss: "crm_tx\<^sup>*\<^sup>* (d, w) (record_mapping_missing env now l c payload digest ''create'' d1, w)"
    if "create_payload env cfg cp now l c r names d w = (res, d1)" for l r names res d1 payload digest
    using pay [OF that] tx_missing by (rule rtranclp.rtrancl_into_rtrancl)
  have frz_go: "crm_tx\<^sup>*\<^sup>* (d, w) (d3, w1)" if "create_payload env cfg cp now l c r names d w = (res, d1)"
    "create_freeze env cp directory now lead_id c r names payload digest name d1 w = (res', d2)"
    "claim_and_call cfg env cp now now i (sc_sales_user_id c) False defer d2 w = (out, d3, w1)"
    for l r names res d1 payload digest name res' d2 i out d3 w1
    using frz [OF that(1,2)] go [OF that(3)] by (rule rtranclp_trans)
  show ?thesis
    by (auto simp: submit_create_once_def Let_def split: start_state.split option.split prod.split sum.split pyval.split
        intro: go pay frz miss frz_go)
qed

lemma txs_trans: "crm_tx\<^sup>*\<^sup>* (d, w) (snd r) \<Longrightarrow> r = (out, d1, w1) \<Longrightarrow> crm_tx\<^sup>*\<^sup>* (d1, w1) z \<Longrightarrow> crm_tx\<^sup>*\<^sup>* (d, w) z"
  by auto

lemma submit_create_txs: "crm_tx\<^sup>*\<^sup>* (d, w) (snd (submit_create env cfg cp directory now lead_id c initial defer d w))"
  using submit_create_once_txs [of d w env cfg cp directory now lead_id c initial "defer"]
  by (auto simp: submit_create_def split: prod.split sum.split)

lemma write_back_fold_rows:
  "crm_sync_records (foldl (\<lambda>d (i, rid). upd_lead i (project_submission_status now st) d) d rows) = crm_sync_records d"
  by (induction rows arbitrary: d) auto

lemma write_back_txs: "crm_tx\<^sup>*\<^sup>* (d, w) (write_back_batch_submission_status cp now lead_ids d w)"
proof (cases "write_back_batch_submission_status cp now lead_ids d w")
  case (Pair d' w')
  then have "crm_sync_records d' = crm_sync_records d"
    by (auto simp: write_back_batch_submission_status_def Let_def write_back_fold_rows split: if_splits prod.splits sum.splits)
  with Pair show ?thesis by (simp add: tx_elsewheres)
qed

lemma submit_create_jobs_txs: "crm_tx\<^sup>*\<^sup>* (d, w) (snd (submit_create_jobs env cfg cp directory now js d w))"
proof (induction js arbitrary: d w)
  case (Cons j js)
  obtain lead_id c r where j: "j = (lead_id, c, r)" by (rule prod_cases3)
  obtain out d1 w1 where o: "submit_create env cfg cp directory now lead_id c r True d w = (out, d1, w1)" by (rule prod_cases3)
  show ?case
    using txs_trans [OF submit_create_txs o Cons.IH] by (auto simp: j o split: prod.split)
qed simp

lemma submit_create_batch_txs: "crm_tx\<^sup>*\<^sup>* (d, w) (snd (submit_create_batch env cfg cp directory now js d w))"
proof -
  obtain outs d1 w1 where o: "submit_create_jobs env cfg cp directory now js d w = (outs, d1, w1)" by (rule prod_cases3)
  show ?thesis
    using txs_trans [OF submit_create_jobs_txs o write_back_txs] by (auto simp: submit_create_batch_def o split: prod.split)
qed

lemma submit_selected_txs: "crm_tx\<^sup>*\<^sup>* (d, w) (snd (submit_selected env cfg cp directory now c selected initial d w))"
proof -
  have batch: "crm_tx\<^sup>*\<^sup>* (d, w) (d1, w1)" if "submit_create_batch env cfg cp directory now js d w = (outs, d1, w1)" for js outs d1 w1
    using submit_create_batch_txs [of d w env cfg cp directory now js] that by simp
  show ?thesis by (auto simp: submit_selected_def Let_def split: prod.split sum.split intro: batch)
qed

lemma submit_incomplete_retry_txs:
  "crm_tx\<^sup>*\<^sup>* (d, w) (snd (submit_incomplete_retry env cfg cp directory now c selected d w))"
proof -
  have batch: "crm_tx\<^sup>*\<^sup>* (d, w) (d1, w1)" if "submit_create_batch env cfg cp directory now js d w = (outs, d1, w1)" for js outs d1 w1
    using submit_create_batch_txs [of d w env cfg cp directory now js] that by simp
  show ?thesis by (auto simp: submit_incomplete_retry_def Let_def split: prod.split sum.split intro: batch)
qed

lemma identity_change_review_rows:
  "identity_change_review now c lead_id old new d = Some d' \<Longrightarrow> crm_sync_records d' = crm_sync_records d"
  by (auto simp: identity_change_review_def split: option.splits if_splits)

lemma submit_update_txs: "crm_tx\<^sup>*\<^sup>* (d, w) (snd (submit_update env cfg cp directory now lead_id c r d w))"
proof -
  have go: "crm_tx\<^sup>*\<^sup>* (x, w) (d2, w1)" if "claim_and_call cfg env cp now now i (sc_sales_user_id c) False False x w = (out, d2, w1)" for i x out d2 w1
    using claim_and_call_txs [of x w cfg env cp now now i "sc_sales_user_id c" False False] that by simp
  have frz: "crm_tx\<^sup>*\<^sup>* (d, w) (d2, w)" if "update_freeze env cp directory now lead_id c r names latest payload d w = (res, d2)"
    for names latest payload res d2
    using tx_update [of d w env cp directory now lead_id c r names latest payload] that by (simp add: r_into_rtranclp)
  have frz_go: "crm_tx\<^sup>*\<^sup>* (d, w) (d3, w1)" if "update_freeze env cp directory now lead_id c r names latest payload d w = (res, d2)"
    "claim_and_call cfg env cp now now i (sc_sales_user_id c) False False d2 w = (out, d3, w1)"
    for names latest payload res d2 i out d3 w1
    using frz [OF that(1)] go [OF that(2)] by (rule rtranclp_trans)
  have review: "crm_tx\<^sup>*\<^sup>* (d, w) (d1, w)" if "identity_change_review now c lead_id old new d = Some d1" for old new d1
    using identity_change_review_rows [OF that] by (rule tx_elsewheres)
  have other: "crm_tx\<^sup>*\<^sup>* (d, w) (audit_command now c e x d, w)" "crm_tx\<^sup>*\<^sup>* (d, w) (upd_lead i f d, w)"
    "crm_tx\<^sup>*\<^sup>* (d, w) (audit_command now c e x (upd_lead i f d), w)" for e x i f
    by (rule tx_elsewheres; simp)+
  show ?thesis
    by (auto simp: submit_update_def Let_def
        split: option.split prod.split sum.split bool.split payload_error.split
        intro: go frz frz_go review other)
qed

lemma resume_updates_txs: "crm_tx\<^sup>*\<^sup>* (d, w) (snd (resume_updates env cfg cp now u xs d w))"
proof (induction xs arbitrary: d w)
  case (Cons x xs)
  obtain lead_id i where x: "x = (lead_id, i)" by fastforce
  obtain out d1 w1 where o: "claim_and_call cfg env cp now now i u False False d w = (out, d1, w1)" by (rule prod_cases3)
  show ?case
    using txs_trans [OF claim_and_call_txs o Cons.IH] by (auto simp: x o split: prod.split)
qed simp

lemma submit_each_update_txs: "crm_tx\<^sup>*\<^sup>* (d, w) (snd (submit_each_update env cfg cp directory now c xs d w))"
proof (induction xs arbitrary: d w)
  case (Cons x xs)
  obtain lead_id r where x: "x = (lead_id, r)" by fastforce
  obtain out d1 w1 where o: "submit_update env cfg cp directory now lead_id c r d w = (out, d1, w1)" by (rule prod_cases3)
  show ?case
    using txs_trans [OF submit_update_txs o Cons.IH] by (auto simp: x o split: prod.split)
qed simp

lemma submit_updates_txs: "crm_tx\<^sup>*\<^sup>* (d, w) (snd (submit_updates env cfg cp directory now c d w))"
proof -
  define pending where "pending = concat (map (open_update_of c d) (leads d))"
  obtain outs d1 w1 where o: "resume_updates env cfg cp now (sc_sales_user_id c) pending d w = (outs, d1, w1)"
    by (rule prod_cases3)
  have first: "crm_tx\<^sup>*\<^sup>* (d, w) (d1, w1)"
    using resume_updates_txs [of d w env cfg cp now "sc_sales_user_id c" pending] by (simp add: o)
  have rest: "crm_tx\<^sup>*\<^sup>* (d, w) (d2, w2)" if "submit_each_update env cfg cp directory now c xs d1 w1 = (res, d2, w2)" for xs res d2 w2
    using rtranclp_trans [OF first submit_each_update_txs [of d1 w1 env cfg cp directory now c xs]] that by simp
  show ?thesis
    using first by (auto simp: submit_updates_def Let_def o [unfolded pending_def] split: prod.split sum.split intro: rest)
qed

lemma submit_txs: "crm_tx\<^sup>*\<^sup>* (d, w) (snd (submit env cfg cp directory now c initial d w))"
proof -
  have create: "crm_tx\<^sup>*\<^sup>* (d, w) (d1, w1)" if "submit_create env cfg cp directory now i c r False d w = (outs, d1, w1)" for i r outs d1 w1
    using submit_create_txs [of d w env cfg cp directory now i c r False] that by simp
  show ?thesis
    by (auto simp: submit_def submit_target_def Let_def submit_updates_txs split: option.split prod.split sum.split intro: create)
qed

lemma mark_abandoned_rows: "mark_abandoned cp now is d w = (res, d', w') \<Longrightarrow> crm_sync_records d' = crm_sync_records d"
proof (induction "is" arbitrary: d w)
  case (Cons i "is")
  obtain x d1 w1 where o: "set_smart_table_submission_status cp now i v_abandoned d w = (x, d1, w1)" by (rule prod_cases3)
  then have "crm_sync_records d1 = crm_sync_records d"
    by (auto simp: set_smart_table_submission_status_def split: option.splits prod.splits sum.splits)
  with Cons.IH [of d1 w1] Cons.prems o show ?case by (auto split: sum.splits)
qed simp

lemma submit_confirmed_txs: "crm_tx\<^sup>*\<^sup>* (d, w) (snd (submit_confirmed env cfg cp now u is res d w))"
proof (induction "is" arbitrary: res d w)
  case (Cons i "is")
  obtain out d1 w1 where o: "claim_and_call cfg env cp now now i u False True d w = (out, d1, w1)" by (rule prod_cases3)
  show ?case
    using txs_trans [OF claim_and_call_txs o Cons.IH] by (simp add: o)
qed simp

lemma act_on_duplicates_txs:
  "crm_tx\<^sup>*\<^sup>* (d, w) (snd (act_on_duplicates env cfg cp now u continue selected in_range (awaiting_rows message owners chosen d) d w))"
proof -
  let ?decide = "decide_duplicates now u continue selected in_range (awaiting_rows message owners chosen d)
    \<lparr>dd_abandoned = [], dd_confirmed = [], dd_remaining = 0\<rparr> d"
  show ?thesis
  proof (cases ?decide)
    case None
    then show ?thesis by (simp add: act_on_duplicates_def)
  next
    case (Some x)
    then obtain a d1 where dec: "?decide = Some (a, d1)" by (cases x) simp
    have first: "crm_tx\<^sup>*\<^sup>* (d, w) (d1, w)" using tx_decide [OF dec] by (rule r_into_rtranclp)
    have mark: "crm_tx\<^sup>*\<^sup>* (d, w) (d2, w1)" if "mark_abandoned cp now is d1 w = (res, d2, w1)" for "is" res d2 w1
      using first tx_elsewheres [OF mark_abandoned_rows [OF that]] by (rule rtranclp_trans)
    have subm: "crm_tx\<^sup>*\<^sup>* (d, w) (write_back_batch_submission_status cp now lids d2 w1)"
      if "submit_confirmed env cfg cp now u is res0 d1 w = (res, d2, w1)" for "is" res0 res d2 w1 lids
      using rtranclp_trans [OF first txs_trans [OF submit_confirmed_txs that write_back_txs]] .
    show ?thesis
      by (auto simp: act_on_duplicates_def dec Let_def split: sum.split prod.split intro: mark subm)
  qed
qed

lemma resolve_duplicate_confirmation_txs:
  "crm_tx\<^sup>*\<^sup>* (d, w) (snd (resolve_duplicate_confirmation env cfg cp now message u continue selected chosen scope target_date d w))"
  by (simp add: resolve_duplicate_confirmation_def Let_def act_on_duplicates_txs split: sum.split)

lemma retry_each_txs: "crm_tx\<^sup>*\<^sup>* (d, w) (retry_each env cfg cp now ss d w)"
proof (induction ss arbitrary: d w)
  case (Cons s ss)
  obtain out d1 w1 where o: "claim_and_call cfg env cp now now (cs_id s) (cs_submitting_sales_user_id s) True True d w = (out, d1, w1)"
    by (rule prod_cases3)
  show ?case using txs_trans [OF claim_and_call_txs o Cons.IH] by (simp add: o)
qed simp

lemma retry_due_creates_txs: "crm_tx\<^sup>*\<^sup>* (d, w) (snd (retry_due_creates env cfg cp now limit d w))"
proof -
  have "crm_tx\<^sup>*\<^sup>* (d, w) (write_back_batch_submission_status cp now lids d1 w1)" if "retry_each env cfg cp now ss d w = (d1, w1)"
    for ss d1 w1 lids
    using rtranclp_trans [OF retry_each_txs [of d w env cfg cp now ss, unfolded that] write_back_txs] .
  then show ?thesis by (auto simp: retry_due_creates_def Let_def case_prod_beta split: prod.split)
qed

end
