(* ===== verification/Crm_Submit_Correct.thy ===== *)
theory Crm_Submit_Correct
  imports Crm_Batch_Correct "HOL-Library.Multiset"
begin

text \<open>
  Correctness of the submission service (\<open>Crm_Submit\<close>, \<open>Crm_Batch\<close>) on top of \<open>Crm_Batch_Correct\<close>: one live creation per lead under any interleaving,
  what the freezing of a creation presupposes, the accounting of a batch, and two deviations.
\<close>

section \<open>Properties\<close>

text \<open>
  C10. However the workers' transactions interleave, the submission table keeps its promises to the CRM: idempotency keys
  are unique, and of the creations of one lead at most one is not abandoned, the newest.
\<close>

theorem one_live_creation:
  assumes "submissions_inv d" and "crm_tx\<^sup>*\<^sup>* (d, w) (d', w')"
  shows "distinct (map cs_idempotency_key (crm_sync_records d')) \<and>
    (\<forall>s\<in>set (crm_sync_records d'). cs_operation s = ''create'' \<and> cs_status s \<noteq> ''abandoned'' \<longrightarrow>
       latest_crm_create_sync d' (cs_lead_id s) = Some s)"
proof -
  have inv: "submissions_inv d'" using crm_txs_inv [OF assms(2)] assms(1) by simp
  then have dist: "distinct (map cs_id (crm_sync_records d'))" by (simp add: submissions_inv_def)
  have "inj_on cs_idempotency_key (set (crm_sync_records d'))"
  proof (rule inj_onI)
    fix s t assume st: "s \<in> set (crm_sync_records d')" "t \<in> set (crm_sync_records d')" "cs_idempotency_key s = cs_idempotency_key t"
    then have "cs_id s = cs_id t" using inv unfolding submissions_inv_def sync_conflict_def by blast
    then show "s = t" using st tget_unique [OF dist] by (metis option.inject)
  qed
  then have "distinct (map cs_idempotency_key (crm_sync_records d'))"
    using dist by (simp add: distinct_map)
  moreover have "latest_crm_create_sync d' (cs_lead_id s) = Some s"
    if s: "s \<in> set (crm_sync_records d')" "cs_operation s = ''create''" "cs_status s \<noteq> ''abandoned''" for s
  proof -
    obtain m where m: "latest_crm_create_sync d' (cs_lead_id s) = Some m" "m \<in> set (crm_sync_records d')" "creation m"
      "cs_lead_id m = cs_lead_id s" "\<not> newer_sync s m"
      using latest_creation_cases [of s d' "cs_lead_id s"] s by (auto simp: creation_def)
    have "\<not> newer_sync m s" using inv s m unfolding submissions_inv_def creation_def by metis
    with m(5) have "cs_id m = cs_id s" by (auto simp: newer_sync_def split: option.splits)
    with m(1,2) s(1) tget_unique [OF dist] show ?thesis by (metis option.inject)
  qed
  ultimately show ?thesis by blast
qed


text \<open>
  C17. The one query for many leads finds for each of them what the query for one lead finds.
\<close>

theorem latest_sync_by_lead_agrees:
  "dget l (latest_sync_by_lead d lids) = (if l \<in> set lids then latest_crm_create_sync d l else None)"
  by (rule latest_sync_by_lead_get)

section \<open>Batches\<close>

lemma collect_results_items:
  "br_items (collect_results f xs) = map (\<lambda>i. item_of_outcome i (f i)) xs"
proof -
  have "br_items (foldl (\<lambda>b i. append_create_result b i (f i)) b xs) = br_items b @ map (\<lambda>i. item_of_outcome i (f i)) xs" for b
    by (induction xs arbitrary: b) (simp_all add: append_create_result_def)
  then show ?thesis by (simp add: collect_results_def empty_batch_def)
qed

lemma submit_create_batch_keys:
  "submit_create_batch env cfg cp directory now js d w = (outs, d', w') \<Longrightarrow> map fst outs = map fst js"
proof -
  have jobs: "map fst (fst (submit_create_jobs env cfg cp directory now js d w)) = map fst js" for d w
    by (induction js arbitrary: d w) (auto split: prod.split, metis fst_conv)
  assume "submit_create_batch env cfg cp directory now js d w = (outs, d', w')"
  then show ?thesis using jobs [of d w] by (auto simp: submit_create_batch_def split: if_splits prod.splits)
qed

lemma still_valid_sub:
  "still_valid env cp text owners names expected rs d w is = Inr valid \<Longrightarrow>
     set valid \<subseteq> set is \<and> {i \<in> set is. row_snapshot rs (record_id_of d i) = None} \<subseteq> set valid"
proof (induction "is" arbitrary: valid)
  case (Cons i "is")
  from Cons.prems obtain ok valid' where
    v: "still_valid env cp text owners names expected rs d w is = Inr valid'" "valid = (if ok then i # valid' else valid')"
    and ok: "row_snapshot rs (record_id_of d i) = None \<Longrightarrow> ok"
    by (auto split: sum.splits option.splits)
  from Cons.IH [OF v(1)] v(2) ok show ?case by auto
qed simp

lemma selected_snapshot_keys:
  assumes "selected_snapshot cp initial d valid w = (rs, preflight)" and "distinct valid"
  shows "distinct (map fst preflight)" "set (map fst preflight) \<subseteq> {i \<in> set valid. row_snapshot rs (record_id_of d i) = None}"
  using assms
  by (auto simp: selected_snapshot_def Let_def row_snapshot_def comp_def split: option.splits if_splits sum.splits)

lemma dget_keys: "dget k m = None \<longleftrightarrow> k \<notin> set (map fst m)"
  by (simp add: dget_def map_of_eq_None_iff)

lemma dget_pair: "distinct (map fst m) \<Longrightarrow> (k, v) \<in> set m \<Longrightarrow> dget k m = Some v"
  by (simp add: dget_def)

text \<open>
  C16. The answer to a card accounts for every selected lead exactly once, in the order of the selection, and the callback that stores
  the results is told exactly these items.
\<close>

theorem selected_batch_accounts:
  assumes "submit_selected env cfg cp directory now c selected initial d w = (Inr (res, reported), d', w')"
  shows "map it_lead_id (br_items res) = dedup selected \<and> mset reported = mset (br_items res)"
proof -
  define authorized where "authorized = (\<not> sc_text c = c_cross_owner \<or> may_submit_for_others cp d (sc_sales_user_id c) w)"
  define first where "first = filter (selectable d (sc_text c) authorized (latest_sync_by_lead d (dedup selected))) (dedup selected)"
  obtain rs preflight where snap: "selected_snapshot cp initial d first w = (rs, preflight)" by fastforce
  from assms obtain owners names valid refusal outs where
    valid: "still_valid env cp (sc_text c) owners names (expected_capture_date env now c) rs d w first = Inr valid"
    and batch: "submit_create_batch env cfg cp directory now
        (map (\<lambda>i. (i, c\<lparr>sc_target_lead_id := None\<rparr>, row_snapshot rs (record_id_of d i)))
          (filter (\<lambda>i. i \<in> set valid \<and> dget i preflight = None) (dedup selected))) d w = (outs, d', w')"
    and res: "res = collect_results (outcome_for outs preflight refusal) (dedup selected)"
    and reported: "reported = map (\<lambda>i. item_of_outcome i refusal) (filter (\<lambda>i. i \<notin> set valid) (dedup selected)) @
        map (\<lambda>(i, out). item_of_outcome i out) preflight @ map (\<lambda>(i, out). item_of_outcome i out) outs"
    using snap unfolding submit_selected_def Let_def authorized_def first_def
    by (auto split: if_splits sum.splits prod.splits)
  let ?f = "outcome_for outs preflight refusal"
  have keys: "map fst outs = filter (\<lambda>i. i \<in> set valid \<and> dget i preflight = None) (dedup selected)"
    using submit_create_batch_keys [OF batch] by (simp add: comp_def)
  have pre: "distinct (map fst preflight)" "set (map fst preflight) \<subseteq> {i \<in> set first. row_snapshot rs (record_id_of d i) = None}"
    using selected_snapshot_keys [OF snap] by (simp_all add: first_def)
  have sub: "set (map fst preflight) \<subseteq> set valid" "set valid \<subseteq> set (dedup selected)"
    using still_valid_sub [OF valid] pre(2) by (auto simp: first_def)
  have outs: "distinct (map fst outs)" by (simp add: keys)
  have "?f i = refusal" if "i \<notin> set valid" for i
  proof -
    have "dget i outs = None" unfolding dget_keys keys using that by simp
    moreover have "dget i preflight = None" unfolding dget_keys using that sub(1) by blast
    ultimately show ?thesis by (simp add: outcome_for_def)
  qed
  moreover have "?f i = out" if "(i, out) \<in> set preflight" for i out
  proof -
    from that have "dget i preflight = Some out" by (rule dget_pair [OF pre(1)])
    moreover from this have "dget i outs = None" unfolding dget_keys [of i outs] keys by simp
    ultimately show ?thesis by (simp add: outcome_for_def)
  qed
  moreover have "?f i = out" if "(i, out) \<in> set outs" for i out
    using dget_pair [OF outs that] by (simp add: outcome_for_def)
  ultimately have rep: "reported = map (\<lambda>i. item_of_outcome i (?f i)) (filter (\<lambda>i. i \<notin> set valid) (dedup selected) @ map fst preflight @ map fst outs)"
    unfolding reported by auto
  have "mset (filter (\<lambda>i. i \<notin> set valid) (dedup selected) @ map fst preflight @ map fst outs) = mset (dedup selected)"
    using pre(1) outs sub by (intro set_eq_iff_mset_eq_distinct [THEN iffD1]) (auto simp: keys dget_keys)
  then have "mset reported = image_mset (\<lambda>i. item_of_outcome i (?f i)) (mset (dedup selected))" by (simp only: rep mset_map)
  moreover have "br_items res = map (\<lambda>i. item_of_outcome i (?f i)) (dedup selected)" by (simp add: res collect_results_items)
  ultimately show ?thesis by (simp add: item_of_outcome_def comp_def)
qed

section \<open>What a creation presupposes\<close>

lemma map_frozen_tupd: "(\<And>x. frozen (f x) = frozen x) \<Longrightarrow> map frozen (tupd cs_id i f t) = map frozen t"
  by (induction t) (auto simp: tupd_def)

lemma event_frozen: "map frozen (crm_sync_records (crm_event_step cfg env e d)) = map frozen (crm_sync_records d)"
proof (cases e)
  case (Ev_Claim now i u notify)
  then show ?thesis
    by (simp add: claim_sync_def Let_def map_frozen_tupd split: option.splits)
next
  case (Ev_Settle now i u c notify res)
  then show ?thesis
    by (auto simp: settle_result_def settle_success_def record_crm_failure_def record_crm_transport_failure_def Let_def map_frozen_tupd
        split: sum.splits option.splits)
qed

lemma claim_and_call_frozen:
  assumes "claim_and_call cfg env cp now1 now2 i u notify defer d w = (out, d', w')"
  shows "map frozen (crm_sync_records d') = map frozen (crm_sync_records d)"
proof -
  have settle: "map frozen (crm_sync_records d2) = map frozen (crm_sync_records d1)"
    if "settle_call cfg env cp now2 i u tok notify defer res d1 w1 = (out, d2, w2)" for tok res d1 w1 d2 w2
  proof -
    have "crm_sync_records d2 = crm_sync_records (snd (settle_result cfg env now2 i u tok notify res d1))"
      using that by (auto simp: settle_call_def set_smart_table_submission_status_def split: prod.splits option.splits sum.splits if_splits)
    with event_frozen [of cfg env "Ev_Settle now2 i u tok notify res" d1] show ?thesis by simp
  qed
  obtain cl d1 where cl: "claim_sync cfg env now1 i u notify d = (cl, d1)" by fastforce
  with event_frozen [of cfg env "Ev_Claim now1 i u notify" d]
  have "map frozen (crm_sync_records d1) = map frozen (crm_sync_records d)" by simp
  with assms cl settle show ?thesis
    by (auto simp: claim_and_call_def split: claim_outcome.splits option.splits prod.splits)
qed

definition created_by :: "db \<Rightarrow> db \<Rightarrow> crm_sync_record \<Rightarrow> bool" where
  "created_by d d' s = (s \<in> set (crm_sync_records d') \<and> cs_operation s = ''create'' \<and> cs_id s \<notin> cs_id ` set (crm_sync_records d))"

lemma created_by_frozen:
  assumes "created_by d d' s" and "map frozen (crm_sync_records d') = map frozen (crm_sync_records d1)"
  obtains s1 where "created_by d d1 s1" "frozen s1 = frozen s"
proof -
  from assms have "frozen s \<in> frozen ` set (crm_sync_records d1)"
    by (metis created_by_def image_eqI list.set_map)
  then obtain s1 where "s1 \<in> set (crm_sync_records d1)" "frozen s1 = frozen s" by auto
  with assms(1) that show thesis by (auto simp: created_by_def frozen_def)
qed

lemma created_by_cong: "crm_sync_records d1 = crm_sync_records d \<Longrightarrow> created_by d d1 s \<longleftrightarrow> False"
  "crm_sync_records d1 = crm_sync_records d \<Longrightarrow> created_by d1 d2 s \<longleftrightarrow> created_by d d2 s"
  by (auto simp: created_by_def)

lemma mapping_missing_creates_none: "\<not> created_by d (record_mapping_missing env now l c payload digest operation d) s"
  by (auto simp: created_by_def record_mapping_missing_def Let_def new_sync_def)

lemma freeze_generation_creates:
  assumes "freeze_generation now l c payload digest name crm_user g prev d = (res, d')" and "created_by d d' s"
  shows "cs_lead_id s = ld_id l \<and> cs_canonical_payload s = payload \<and> cs_snapshot_hash s = digest \<and>
    cs_submitting_crm_user_id s = Some crm_user \<and> cs_request_message_id s = sc_request_message_id c \<and>
    identity_answer (get_identity d name) (ld_id l) = None"
  using assms by (auto simp: freeze_generation_def insert_sync_def created_by_def new_sync_def Let_def split: option.splits if_splits)

text \<open>What the freezing transaction demands of the row and the lead.\<close>

definition create_checked ::
  "env \<Rightarrow> 'w crm_ports \<Rightarrow> employee list option \<Rightarrow> time \<Rightarrow> submission_command \<Rightarrow> (pstr \<times> pstr) list \<Rightarrow> lead \<Rightarrow> st_record \<Rightarrow> pstr \<Rightarrow>
   db \<Rightarrow> 'w \<Rightarrow> crm_sync_record \<Rightarrow> bool" where
  "create_checked env cp directory now c names l r name d w s =
     ((sc_owner_scope_user_ids c \<noteq> None \<longrightarrow> may_submit_for_others cp d (sc_sales_user_id c) w) \<and>
      ld_smart_table_record_id l = Some (rec_id r) \<and>
      (\<exists>owner. table_owner_user_id cp r (owner_ids_of c) names w = Inr (Some owner)) \<and>
      allowed_submission_status (sc_text c) (py_get f_submit_status (rec_fields r)) \<and>
      date_matches env (expected_capture_date env now c) (rec_fields r) \<and>
      unfinished_update d (ld_id l) None = None \<and>
      cs_submitting_crm_user_id s \<noteq> None \<and> resolve_crm_owner cp directory l (Some r) w = Inr (cs_submitting_crm_user_id s) \<and>
      identity_answer (get_identity d name) (ld_id l) = None \<and>
      (case latest_crm_create_sync d (ld_id l) of None \<Rightarrow> True | Some t \<Rightarrow> cs_status t = ''abandoned''))"

lemma create_freeze_creates:
  assumes "create_freeze env cp directory now lead_id c r names payload digest name d w = (res, d')" and "created_by d d' s"
  shows "\<exists>l. get_lead d lead_id = Some l \<and> create_checked env cp directory now c names l r name d w s \<and> cs_lead_id s = lead_id \<and>
    cs_canonical_payload s = payload \<and> cs_snapshot_hash s = digest \<and> cs_request_message_id s = sc_request_message_id c"
proof -
  have no: "\<not> created_by d d s" "\<not> created_by d (upd_sync i reopen_row d) s" for i
    by (auto simp: created_by_def tupd_def reopen_row_def split: if_splits)
  obtain l crm_user g prev res' owner where
    l: "get_lead d lead_id = Some l"
    and ok: "sc_owner_scope_user_ids c \<noteq> None \<longrightarrow> may_submit_for_others cp d (sc_sales_user_id c) w"
      "ld_smart_table_record_id l = Some (rec_id r)" "table_owner_user_id cp r (owner_ids_of c) names w = Inr (Some owner)"
      "allowed_submission_status (sc_text c) (py_get f_submit_status (rec_fields r))"
      "date_matches env (expected_capture_date env now c) (rec_fields r)" "unfinished_update d lead_id None = None"
      "resolve_crm_owner cp directory l (Some r) w = Inr (Some crm_user)"
    and plan: "plan_create c (rec_fields r) (latest_crm_create_sync d lead_id) = Generation g prev"
    and run: "freeze_generation now l c payload digest name crm_user g prev d = (res', d')"
    using assms no mapping_missing_creates_none
    by (auto simp: create_freeze_def split: if_splits option.splits sum.splits create_plan.splits prod.splits)
  have "ld_id l = lead_id" using l by (auto dest: tget_SomeD)
  with freeze_generation_creates [OF run assms(2)] plan_create_generation [OF plan] l ok show ?thesis
    by (auto simp: create_checked_def)
qed

lemma create_payload_frame:
  assumes "create_payload env cfg cp now l c r names d w = (res, d')"
  shows "leads d' = leads d" "sales_authorizations d' = sales_authorizations d" "crm_sync_records d' = crm_sync_records d"
    "crm_company_identities d' = crm_company_identities d"
  using assms by (auto simp: create_payload_def audit_command_def Let_def split: if_splits sum.splits payload_error.splits)

lemma create_payload_built:
  assumes "create_payload env cfg cp now l c r names d w = (Inr (Inr payload), d')"
  shows "missing_crm_minimum (snapshot_fields r) = [] \<and>
    canonical_payload env cfg (snapshot_fields r) (reliable_tyc_customer_id l (snapshot_fields r)) (ld_created_at l) = Inr payload"
  using assms by (auto simp: create_payload_def Let_def split: if_splits sum.splits payload_error.splits)

lemma create_checked_cong:
  assumes "leads d' = leads d" "sales_authorizations d' = sales_authorizations d" "crm_sync_records d' = crm_sync_records d"
    "crm_company_identities d' = crm_company_identities d"
  shows "create_checked env cp directory now c names l r name d' w s = create_checked env cp directory now c names l r name d w s"
  unfolding create_checked_def may_submit_for_others_def can_submit_other_sales_leads_def unfinished_update_def
    latest_crm_create_sync_def assms by (rule refl)

lemma created_by_same [simp]: "\<not> created_by d d s"
  by (auto simp: created_by_def)

text \<open>
  C11. A new creation is frozen only from a row that was checked: it is the row read for this lead, its owner is the sales person or in the
  authorised scope, its submission status and capture date fit the command, no required field is missing, the dictionaries translate it, the CRM knows its
  owner, no update is open, no other lead has reserved the company and the lead's earlier creations are abandoned. The frozen
  payload is the translation of that very row.
\<close>

theorem new_creation_checked:
  assumes "submit_create env cfg cp directory now lead_id c initial defer d w = (out, d', w')" and "created_by d d' s"
  shows "\<exists>l r name. get_lead d lead_id = Some l \<and> initial = Some r \<and> cs_lead_id s = lead_id \<and>
    create_checked env cp directory now c (command_owner_names d c (owner_ids_of c)) l r name d w s \<and>
    missing_crm_minimum (snapshot_fields r) = [] \<and>
    canonical_payload env cfg (snapshot_fields r) (reliable_tyc_customer_id l (snapshot_fields r)) (ld_created_at l) =
      Inr (cs_canonical_payload s) \<and>
    py_get (asc ''name'') (cs_canonical_payload s) = PStr name \<and> name \<noteq> [] \<and>
    cs_snapshot_hash s = snapshot_hash env (cs_canonical_payload s) \<and> cs_request_message_id s = sc_request_message_id c"
proof -
  let ?names = "command_owner_names d c (owner_ids_of c)"
  obtain res where once: "submit_create_once env cfg cp directory now lead_id c initial defer d w = (res, d', w')"
    using assms(1) by (auto simp: submit_create_def split: prod.splits sum.splits if_splits)
  have same: "\<not> created_by d d1 s" if "create_payload env cfg cp now l c r ?names d w = (x, d1)" for l r x d1
    using create_payload_frame(3) [OF that] by (simp add: created_by_def)
  have missing: "\<not> created_by d (record_mapping_missing env now l c payload digest ''create'' d1) s"
    if "create_payload env cfg cp now l c r ?names d w = (x, d1)" for l r x d1 payload digest
    using mapping_missing_creates_none [of d1] created_by_cong(2) [OF create_payload_frame(3) [OF that]] by metis
  have resume: "\<not> created_by d d2 s" if "map frozen (crm_sync_records d2) = map frozen (crm_sync_records d)" for d2
    using created_by_frozen [OF _ that] created_by_same by metis
  from once assms(2) obtain l r d1 payload name res' d2 where
    start: "create_start cp lead_id c initial d w = Start_Lead l" and r: "initial = Some r"
    and pay: "create_payload env cfg cp now l c r ?names d w = (Inr (Inr payload), d1)"
    and name: "py_get (asc ''name'') payload = PStr name" "name \<noteq> []"
    and frz: "create_freeze env cp directory now lead_id c r ?names payload (snapshot_hash env payload) name d1 w = (res', d2)"
    and last: "map frozen (crm_sync_records d') = map frozen (crm_sync_records d2)"
    by (auto simp: submit_create_once_def Let_def same missing resume
        split: start_state.splits option.splits if_splits prod.splits sum.splits pyval.splits dest!: claim_and_call_frozen)
  note frame = create_payload_frame [OF pay]
  obtain s1 where "created_by d d2 s1" and s1: "frozen s1 = frozen s"
    by (rule created_by_frozen [OF assms(2) last])
  then have "created_by d1 d2 s1" by (simp add: created_by_cong(2) [OF frame(3)])
  have cols: "create_checked env cp directory now c ?names x r name d1 w s1 = create_checked env cp directory now c ?names x r name d w s"
    "cs_lead_id s1 = cs_lead_id s" "cs_canonical_payload s1 = cs_canonical_payload s" "cs_snapshot_hash s1 = cs_snapshot_hash s"
    "cs_request_message_id s1 = cs_request_message_id s" for x
    unfolding create_checked_cong [OF frame] using s1 by (simp_all add: create_checked_def frozen_def)
  from create_freeze_creates [OF frz \<open>created_by d1 d2 s1\<close>] obtain l' where
    l': "get_lead d lead_id = Some l'" "create_checked env cp directory now c ?names l' r name d w s"
      "cs_lead_id s = lead_id" "cs_canonical_payload s = payload" "cs_snapshot_hash s = snapshot_hash env payload"
      "cs_request_message_id s = sc_request_message_id c"
    unfolding cols frame by blast
  moreover have "l' = l"
    using start l'(1) by (auto simp: create_start_def split: if_splits option.splits)
  ultimately show ?thesis using create_payload_built [OF pay] r name by auto
qed

definition full_row :: fields where
  "full_row = [(f_business_line, PStr v_cobot), (f_lead_name, PStr (asc ''ACME'')), (f_lead_source, PStr k_source_1),
     (f_contact, PStr (asc ''Bo'')), (f_title, PStr (asc ''CEO'')), (f_comm_way, PStr k_way_1), (f_mobile, PStr (asc ''13800000000'')),
     (f_remark, PStr (replicate 40 0x78)), (f_industry, PStr v_other), (f_owner, PStr (asc ''amy'')), (f_entry_time, PTime 7)]"

definition full_record :: st_record where
  "full_record = \<lparr>rec_id = asc ''r1'', rec_fields = full_row, rec_member_names = [(f_owner, asc ''Amy'')]\<rparr>"

definition target_command :: submission_command where
  "target_command = \<lparr>sc_text = c_target, sc_sales_user_id = asc ''amy'', sc_request_message_id = asc ''m9'',
     sc_target_lead_id = Some (asc ''L''), sc_target_owner_name = None, sc_owner_scope_user_ids = None, sc_target_capture_date = None\<rparr>"

definition ready_db :: db where
  "ready_db = empty_db\<lparr>leads := [waiting_lead]\<rparr>"

definition example_directory :: "employee list" where
  "example_directory = [\<lparr>em_employee_id = asc ''7'', em_name = asc ''Amy'', em_nickname = asc ''A''\<rparr>]"

definition example_run :: "create_submission_outcome \<times> db \<times> unit" where
  "example_run = submit_create plain_env example_config timeout_ports (Some example_directory) 5 (asc ''L'') target_command
     (Some full_record) False ready_db ()"

theorem new_creation_checked_witness:
  "\<exists>s l r. created_by ready_db (fst (snd example_run)) s \<and> get_lead ready_db (asc ''L'') = Some l \<and>
     missing_crm_minimum (snapshot_fields r) = [] \<and> Some r = Some full_record"
proof -
  obtain out d' w' where run: "submit_create plain_env example_config timeout_ports (Some example_directory) 5 (asc ''L'') target_command
      (Some full_record) False ready_db () = (out, d', w')" by (rule prod_cases3)
  then have d': "d' = fst (snd example_run)" by (simp add: example_run_def)
  have "map cs_operation (crm_sync_records (fst (snd example_run))) = [''create'']" by code_simp
  then obtain s where s: "s \<in> set (crm_sync_records d')" "cs_operation s = ''create''" by (auto simp: d' map_eq_Cons_conv)
  then have c: "created_by ready_db d' s" by (simp add: created_by_def ready_db_def empty_db_def)
  from new_creation_checked [OF run c] c show ?thesis by (auto simp: d')
qed

theorem one_live_creation_witness:
  "distinct (map cs_idempotency_key (crm_sync_records (fst (snd example_run)))) \<and>
    map (\<lambda>s. latest_crm_create_sync (fst (snd example_run)) (cs_lead_id s)) (crm_sync_records (fst (snd example_run))) =
      map Some (crm_sync_records (fst (snd example_run)))"
proof -
  have "submissions_inv ready_db" by (simp add: submissions_inv_def ready_db_def empty_db_def)
  moreover have "crm_tx\<^sup>*\<^sup>* (ready_db, ()) (fst (snd example_run), snd (snd example_run))"
    unfolding prod.collapse
    using submit_create_txs [of ready_db "()" plain_env example_config timeout_ports "Some example_directory" 5 "asc ''L''" target_command
      "Some full_record" False] by (simp add: example_run_def)
  ultimately have *: "distinct (map cs_idempotency_key (crm_sync_records (fst (snd example_run)))) \<and>
    (\<forall>s\<in>set (crm_sync_records (fst (snd example_run))). cs_operation s = ''create'' \<and> cs_status s \<noteq> ''abandoned'' \<longrightarrow>
       latest_crm_create_sync (fst (snd example_run)) (cs_lead_id s) = Some s)"
    by (rule one_live_creation)
  have "list_all (\<lambda>s. cs_operation s = ''create'' \<and> cs_status s \<noteq> ''abandoned'') (crm_sync_records (fst (snd example_run)))" by code_simp
  with * show ?thesis by (simp add: list_all_iff)
qed

definition card_command :: submission_command where
  "card_command = target_command\<lparr>sc_text := c_all_mine, sc_target_lead_id := None\<rparr>"

definition card_run :: "(submission_batch_result \<times> submission_item_result list, unit) run" where
  "card_run = submit_selected plain_env example_config timeout_ports (Some example_directory) 5 card_command
     [asc ''L'', asc ''X'', asc ''L''] (Some [full_record]) ready_db ()"

theorem selected_batch_accounts_witness:
  "\<exists>res reported d' w'. card_run = (Inr (res, reported), d', w') \<and>
     map it_lead_id (br_items res) = [asc ''L'', asc ''X''] \<and> mset reported = mset (br_items res)"
proof -
  have "(case fst card_run of Inl _ \<Rightarrow> False | Inr _ \<Rightarrow> True)" by code_simp
  then obtain res reported where "fst card_run = Inr (res, reported)" by (auto split: sum.splits)
  then obtain d' w' where run: "card_run = (Inr (res, reported), d', w')" by (metis prod.collapse)
  from selected_batch_accounts [OF run [unfolded card_run_def]] have
    "map it_lead_id (br_items res) = dedup [asc ''L'', asc ''X'', asc ''L'']" "mset reported = mset (br_items res)" by blast+
  moreover have "dedup [asc ''L'', asc ''X'', asc ''L''] = [asc ''L'', asc ''X'']" by (simp add: asc_def)
  ultimately have "map it_lead_id (br_items res) = [asc ''L'', asc ''X'']" by simp
  with run \<open>mset reported = mset (br_items res)\<close> show ?thesis by (intro exI conjI)
qed

section \<open>Deviations\<close>

text \<open>
  One message can bring at most one changed company name to review: once the update command has moved a lead to review, the next lead whose name changed
  under the same command violates the unique key of the audit trail, and its transaction is rolled back.
\<close>

theorem second_identity_change_rejected:
  assumes "identity_change_review now c first_lead o1 n1 d = Some d1" and "get_lead d first_lead \<noteq> None" and "get_lead d1 second_lead \<noteq> None"
  shows "identity_change_review now' c second_lead o2 n2 d1 = None"
  using assms by (auto simp: identity_change_review_def audit_exists_def audit_keys_def add_audit_event_def enqueue_audit_mirror_def Let_def list_ex_iff
      split: option.splits if_splits)

definition two_leads :: db where
  "two_leads = empty_db\<lparr>leads := [waiting_lead, waiting_lead\<lparr>ld_id := asc ''M'', ld_smart_table_record_id := Some (asc ''r2'')\<rparr>]\<rparr>"

theorem second_identity_change_rejected_witness:
  "\<exists>d1. identity_change_review 5 target_command (asc ''L'') PNone (PStr (asc ''B'')) two_leads = Some d1 \<and>
     identity_change_review 6 target_command (asc ''M'') PNone (PStr (asc ''C'')) d1 = None"
proof -
  let ?r = "identity_change_review 5 target_command (asc ''L'') PNone (PStr (asc ''B'')) two_leads"
  have "(case ?r of None \<Rightarrow> False | Some d1 \<Rightarrow> (case get_lead d1 (asc ''M'') of None \<Rightarrow> False | Some _ \<Rightarrow> True))" by code_simp
  then obtain d1 where d1: "?r = Some d1" "get_lead d1 (asc ''M'') \<noteq> None" by (auto split: option.splits)
  moreover have "get_lead two_leads (asc ''L'') \<noteq> None" by (simp add: two_leads_def waiting_lead_def)
  ultimately show ?thesis using second_identity_change_rejected by blast
qed

text \<open>
  A confirmed duplicate that the CRM answers with a follow-up, the answer its unified interface gives for a known company, is stored as succeeded and yet
  counted as a failure, with the text that its remote result is unknown.
\<close>

theorem confirmed_follow_up_counted_failed:
  assumes "get_sync d i = Some s" and "claimable cfg now d s" and "cs_operation s = ''update''" and "cs_attempts s \<ge> 0"
    and "cs_failure_kind s = None" and "cs_submitting_crm_user_id s = Some cu" and "get_lead d (cs_lead_id s) = Some l"
    and "cp_submit_lead cp (cs_canonical_payload s) (cs_idempotency_key s) cu w = (Inr r, w1)" and "cr_action r = FOLLOW_UP"
  shows "\<exists>d1. submit_confirmed env cfg cp now u [i] res d w =
      (res\<lparr>dc_failed := dc_failed res + 1, dc_failure_reasons := dedup (dc_failure_reasons res @ [s_dup_unknown])\<rparr>, d1, w1) \<and>
    (\<exists>s1. get_sync d1 i = Some s1 \<and> cs_status s1 = ''succeeded'')"
proof -
  let ?tok = "(now, cs_attempts s + 1)"
  let ?d1 = "upd_sync i (claim_row now) d"
  have claim: "claim_sync cfg env now i u False d = (Claimed ?tok (cs_canonical_payload s) (cs_idempotency_key s) (Some cu), ?d1)"
    unfolding claim_sync_claimed using assms(1,2,6) by auto
  have row: "get_sync ?d1 i = Some (claim_row now s)" using assms(1) by (simp add: tget_tupd_same)
  have lead: "get_lead ?d1 (cs_lead_id (claim_row now s)) = Some l" using assms(7) by (simp add: claim_row_def Let_def)
  have cur: "claim_is_current (claim_row now s) ?tok" by (simp add: claim_is_current_claim_row)
  define d2 where "d2 = snd (settle_result cfg env now i u ?tok False (Inr r) ?d1)"
  have stored: "get_sync d2 i = Some (success_row now r (claim_row now s))"
    using settle_current [OF row cur, of cfg env now u False "Inr r"] lead by (simp add: d2_def result_row_def)
  have out: "fst (settle_result cfg env now i u ?tok False (Inr r) ?d1) = (''followed_up'', Some (ld_id l))"
    using row lead cur assms(9) by (simp add: settle_result_def settle_success_def Let_def)
  have call: "claim_and_call cfg env cp now now i u False True d w = (''followed_up'', d2, w1)"
    using claim assms(8) out
    by (cases "settle_result cfg env now i u ?tok False (Inr r) ?d1") (simp add: claim_and_call_def settle_call_def d2_def)
  have "duplicate_failure_reason (get_sync d2 i) = s_dup_unknown"
    using stored assms(3,4,5) by (simp add: duplicate_failure_reason_def success_row_def claim_row_def release_sync_def Let_def)
  with call stored show ?thesis by auto
qed

definition follow_up_ports :: "unit crm_ports" where
  "follow_up_ports = timeout_ports\<lparr>cp_submit_lead := (\<lambda>p k u w. (Inr \<lparr>cr_crm_lead_id = None, cr_crm_lead_owner_user_id = None,
     cr_response_summary = asc ''FOLLOW_UP'', cr_action = FOLLOW_UP\<rparr>, w))\<rparr>"

theorem confirmed_follow_up_counted_failed_witness:
  "let s = (sync_row 1 None ''pending'')\<lparr>cs_operation := ''update'', cs_submitting_crm_user_id := Some (asc ''7''), cs_failure_kind := None\<rparr>
   in dc_failed (fst (submit_confirmed plain_env example_config follow_up_ports 5 (asc ''amy'') [1]
        \<lparr>dc_submitted = 0, dc_abandoned = 0, dc_remaining = 0, dc_failed = 0, dc_failure_reasons = []\<rparr>
        (ready_db\<lparr>crm_sync_records := [s]\<rparr>) ())) = 1"
proof -
  let ?s = "(sync_row 1 None ''pending'')\<lparr>cs_operation := ''update'', cs_submitting_crm_user_id := Some (asc ''7''), cs_failure_kind := None\<rparr>"
  let ?d = "ready_db\<lparr>crm_sync_records := [?s]\<rparr>"
  have 1: "get_sync ?d 1 = Some ?s" by (simp add: sync_row_def)
  have 2: "claimable example_config 5 ?d ?s"
    by (simp add: claimable_def sync_row_def example_config_def unfinished_update_def)
  have 3: "get_lead ?d (cs_lead_id ?s) = Some waiting_lead" by (simp add: ready_db_def waiting_lead_def sync_row_def)
  have 4: "cp_submit_lead follow_up_ports (cs_canonical_payload ?s) (cs_idempotency_key ?s) (asc ''7'') () =
      (Inr \<lparr>cr_crm_lead_id = None, cr_crm_lead_owner_user_id = None, cr_response_summary = asc ''FOLLOW_UP'', cr_action = FOLLOW_UP\<rparr>, ())"
    by (simp add: follow_up_ports_def)
  from confirmed_follow_up_counted_failed [OF 1 2 _ _ _ _ 3 4, of plain_env "asc ''amy''"
      "\<lparr>dc_submitted = 0, dc_abandoned = 0, dc_remaining = 0, dc_failed = 0, dc_failure_reasons = []\<rparr>"]
  show ?thesis by (auto simp: sync_row_def Let_def)
qed

end
