(* ===== verification/Audit_Mirror.thy ===== *)
theory Audit_Mirror
  imports Smart_Table Actors Intake "HOL-Library.List_Lexorder"
begin

text \<open>
  The copy of the audit trail in a separate sheet of the smart table: \<^verbatim>\<open>app/smart_table/audit.py\<close> (what a
  row of the sheet holds and how a batch of events is written) and the mirror tasks of \<^verbatim>\<open>workers/tasks.py\<close>
  (claim, finish, put off, batch, dispatch). The sheet is a record of the four adapter operations the
  sink calls. Every update of a mirror row stamps \<open>am_updated_at\<close> (\<^verbatim>\<open>onupdate=utc_now\<close>). Claim tokens
  are an argument: a function from the row to the token drawn for it.
\<close>

section \<open>The sheet\<close>

datatype st_field_type =
    TEXT | LONG_TEXT | PHONE_NUMBER | EMAIL | SINGLE_SELECT | MULTI_SELECT | DATE | ATTACHMENT
  | LOCATION | MEMBER | REFERENCE

type_synonym st_schema = "(pstr \<times> st_field_type) list"

definition get_field :: "st_schema \<Rightarrow> pstr \<Rightarrow> st_field_type option" where
  "get_field schema name =
     map_option snd (find (\<lambda>(n, t). removeprefix [0x2A] n = removeprefix [0x2A] name) schema)"

record 'w audit_sheet =
  sh_get_schema :: "'w \<Rightarrow> (exn + st_schema) \<times> 'w"
  sh_find_by_values :: "pstr \<Rightarrow> pstr list \<Rightarrow> 'w \<Rightarrow> (exn + st_record list) \<times> 'w"
  sh_update_record :: "pstr \<Rightarrow> fields \<Rightarrow> 'w \<Rightarrow> (exn + st_record) \<times> 'w"
  sh_create_records :: "fields list \<Rightarrow> st_actor \<Rightarrow> 'w \<Rightarrow> (exn + st_record list) \<times> 'w"

definition MAX_AUDIT_ORIGINAL_MESSAGE_LENGTH :: nat where
  "MAX_AUDIT_ORIGINAL_MESSAGE_LENGTH = 2000"

definition DETAIL_FIELDS :: "(string \<times> pstr) list" where
  "DETAIL_FIELDS = [(''smart_table_record_id'', a_record_id), (''action_id'', a_action_id),
     (''operation'', a_operation), (''status'', a_status), (''reason_code'', a_reason),
     (''missing_fields'', a_missing), (''failure_category'', a_failure_category),
     (''failure_code'', a_failure_code), (''crm_operation'', a_crm_operation)]"

definition AUDIT_MIRROR_FIELD_NAMES :: "pstr list" where
  "AUDIT_MIRROR_FIELD_NAMES = [a_key, a_event_id, a_time, a_operator, a_message_id, a_original,
     a_lead_id, a_record_id, a_action_id, a_operation, a_status, a_reason, a_missing,
     a_failure_category, a_failure_code, a_crm_operation]"

definition build_mock_audit_schema :: st_schema where
  "build_mock_audit_schema = map (\<lambda>n. (n, if n = a_operator then MEMBER else TEXT)) AUDIT_MIRROR_FIELD_NAMES"

section \<open>The row of an event\<close>

definition mirror_key :: "business_audit_event \<Rightarrow> exn + pstr" where
  "mirror_key ev = (if ba_message_id ev = [] then Inl value_exn else Inr (asc ''message:'' @ ba_message_id ev))"

definition detail_text :: "string \<Rightarrow> pyval \<Rightarrow> pstr" where
  "detail_text name v =
     (if name = ''missing_fields''
      then (case v of PList xs \<Rightarrow> if list_all is_str xs
                                  then py_join r_pause (map (\<lambda>x. case x of PStr s \<Rightarrow> s | _ \<Rightarrow> []) xs) else []
            | _ \<Rightarrow> [])
      else (case v of PStr s \<Rightarrow> take 256 s | _ \<Rightarrow> []))"

definition build_fields :: "env \<Rightarrow> business_audit_event \<Rightarrow> pstr option \<Rightarrow> pstr option \<Rightarrow> exn + fields" where
  "build_fields env ev original lead_id =
     (case mirror_key ev of
        Inl e \<Rightarrow> Inl e
      | Inr key \<Rightarrow>
          Inr ([(a_key, PStr key), (a_event_id, PStr (digits_of (ba_id ev))),
                (a_time, PStr (e_iso env (ba_created_at ev))), (a_operator, PStr (py_strip (ba_sales_user_id ev))),
                (a_message_id, PStr (ba_message_id ev))] @
               (case lead_id of
                  Some l \<Rightarrow> if py_strip l = [] then [] else [(a_lead_id, PStr (py_strip l))]
                | None \<Rightarrow> []) @
               (case original of
                  Some s \<Rightarrow> if py_strip s = [] then []
                            else [(a_original, PStr (take MAX_AUDIT_ORIGINAL_MESSAGE_LENGTH (py_strip s)))]
                | None \<Rightarrow> []) @
               map (\<lambda>(name, out). (out, PStr (detail_text name (py_get (asc name) (ba_details ev))))) DETAIL_FIELDS))"

section \<open>Writing a batch\<close>

type_synonym mirror_entry = "business_audit_event \<times> pstr option \<times> pstr option"

definition not_older :: "business_audit_event \<Rightarrow> business_audit_event \<Rightarrow> bool" where
  "not_older a b = (ba_created_at b < ba_created_at a \<or> ba_created_at b = ba_created_at a \<and> ba_id b \<le> ba_id a)"

definition keep_latest :: "mirror_entry \<Rightarrow> (pstr \<times> mirror_entry) list \<Rightarrow> (pstr \<times> mirror_entry) list" where
  "keep_latest x acc =
     (case dget (ba_message_id (fst x)) acc of
        None \<Rightarrow> dset (ba_message_id (fst x)) x acc
      | Some p \<Rightarrow> if not_older (fst x) (fst p) then dset (ba_message_id (fst x)) x acc else acc)"

definition latest_by_message :: "mirror_entry list \<Rightarrow> (pstr \<times> mirror_entry) list" where
  "latest_by_message xs = fold keep_latest xs []"

fun fields_by_message :: "env \<Rightarrow> (pstr \<times> mirror_entry) list \<Rightarrow> exn + (pstr \<times> fields) list" where
  "fields_by_message env [] = Inr []"
| "fields_by_message env ((m, ev, original, lead_id) # xs) =
     (case build_fields env ev original lead_id of
        Inl e \<Rightarrow> Inl e
      | Inr f \<Rightarrow> (case fields_by_message env xs of Inl e \<Rightarrow> Inl e | Inr fs \<Rightarrow> Inr ((m, f) # fs)))"

definition configuration_exn :: exn where
  "configuration_exn = plain_exn (asc ''SmartTableAdapterConfigurationError'') [C_PermanentTaskFailure]"

definition runtime_exn :: exn where
  "runtime_exn = plain_exn (asc ''RuntimeError'') []"

definition schema_usable :: "st_schema \<Rightarrow> bool" where
  "schema_usable schema =
     (list_all (\<lambda>n. get_field schema n \<noteq> None) AUDIT_MIRROR_FIELD_NAMES \<and> get_field schema a_operator = Some MEMBER)"

text \<open>The rows found, grouped by their message in the order of first appearance; of each group the row with the current key, else the one with the least identifier.\<close>

definition message_of_row :: "(pstr \<times> fields) list \<Rightarrow> st_record \<Rightarrow> pstr option" where
  "message_of_row fs r = (case py_get a_message_id (rec_fields r) of
     PStr m \<Rightarrow> if dget m fs = None then None else Some m | _ \<Rightarrow> None)"

definition rows_by_message :: "(pstr \<times> fields) list \<Rightarrow> st_record list \<Rightarrow> (pstr \<times> st_record list) list" where
  "rows_by_message fs rs =
     fold (\<lambda>r acc. case message_of_row fs r of
             None \<Rightarrow> acc
           | Some m \<Rightarrow> dset m (the_default [] (dget m acc) @ [r]) acc) rs []"

definition existing_row :: "fields \<Rightarrow> st_record list \<Rightarrow> st_record" where
  "existing_row f rows =
     (case find (\<lambda>r. py_eq (py_get a_key (rec_fields r)) (py_get a_key f)) rows of
        Some r \<Rightarrow> r
      | None \<Rightarrow> hd (sort_key rec_id rows))"

definition update_fields :: "st_schema \<Rightarrow> fields \<Rightarrow> fields" where
  "update_fields schema f =
     (let f1 = (if get_field schema a_event_type \<noteq> None then dset a_event_type (PStr []) f else f)
      in if dget a_lead_id f1 = None then dset a_lead_id (PStr []) f1 else f1)"

fun update_rows ::
  "'w audit_sheet \<Rightarrow> st_schema \<Rightarrow> (pstr \<times> fields) list \<Rightarrow> (pstr \<times> st_record list) list \<Rightarrow> 'w \<Rightarrow>
   (exn + (pstr \<times> st_record) list) \<times> 'w" where
  "update_rows sh schema fs [] w = (Inr [], w)"
| "update_rows sh schema fs ((m, rows) # gs) w =
     (let f = the_default [] (dget m fs)
      in case sh_update_record sh (rec_id (existing_row f rows)) (update_fields schema f) w of
           (Inl e, w1) \<Rightarrow> (Inl e, w1)
         | (Inr r, w1) \<Rightarrow>
             (case update_rows sh schema fs gs w1 of
                (Inl e, w2) \<Rightarrow> (Inl e, w2)
              | (Inr rs, w2) \<Rightarrow> (Inr ((m, r) # rs), w2)))"

definition write_rows ::
  "'w audit_sheet \<Rightarrow> st_schema \<Rightarrow> (pstr \<times> fields) list \<Rightarrow> st_record list \<Rightarrow> 'w \<Rightarrow> (exn + (pstr \<times> st_record) list) \<times> 'w" where
  "write_rows sh schema fs found w =
     (case update_rows sh schema fs (rows_by_message fs found) w of
        (Inl e, w1) \<Rightarrow> (Inl e, w1)
      | (Inr updated, w1) \<Rightarrow>
          (let missing = filter (\<lambda>(m, f). dget m updated = None) fs
           in case sh_create_records sh (map snd missing) ROBOT w1 of
                (Inl e, w2) \<Rightarrow> (Inl e, w2)
              | (Inr created, w2) \<Rightarrow>
                  if length created \<noteq> length missing then (Inl runtime_exn, w2)
                  else (Inr (updated @ zip (map fst missing) created), w2)))"

definition mirror_batch ::
  "env \<Rightarrow> 'w audit_sheet \<Rightarrow> mirror_entry list \<Rightarrow> 'w \<Rightarrow> (exn + st_record list) \<times> 'w" where
  "mirror_batch env sh xs w =
     (if xs = [] then (Inr [], w)
      else case fields_by_message env (latest_by_message xs) of
        Inl e \<Rightarrow> (Inl e, w)
      | Inr fs \<Rightarrow>
          (case sh_get_schema sh w of
             (Inl e, w1) \<Rightarrow> (Inl e, w1)
           | (Inr schema, w1) \<Rightarrow>
               if \<not> schema_usable schema then (Inl configuration_exn, w1)
               else case sh_find_by_values sh a_message_id (map fst fs) w1 of
                 (Inl e, w2) \<Rightarrow> (Inl e, w2)
               | (Inr found, w2) \<Rightarrow>
                   (case write_rows sh schema fs found w2 of
                      (Inl e, w3) \<Rightarrow> (Inl e, w3)
                    | (Inr rows, w3) \<Rightarrow> (Inr (map (\<lambda>x. the (dget (ba_message_id (fst x)) rows)) xs), w3))))"

definition mock_sheet :: "pstr \<Rightarrow> (pyval \<Rightarrow> pstr) \<Rightarrow> mock_table audit_sheet" where
  "mock_sheet now_text to_str = \<lparr>sh_get_schema = (\<lambda>w. (Inr build_mock_audit_schema, w)),
     sh_find_by_values = (\<lambda>n vs w. (Inr (mock_find_records_by_field_values n vs w), w)),
     sh_update_record = mock_update_record,
     sh_create_records = mock_create_records now_text to_str\<rparr>"

section \<open>The mirror tasks\<close>

record worker_settings =
  lead_processing_timeout_seconds :: int
  audit_mirror_batch_size :: int

definition example_worker_settings :: worker_settings where
  "example_worker_settings = \<lparr>lead_processing_timeout_seconds = 300, audit_mirror_batch_size = 10\<rparr>"

definition COMPLETED_CHECKPOINT_STATUSES :: "string list" where
  "COMPLETED_CHECKPOINT_STATUSES = [''succeeded'', ''ignored'', ''unauthorized'', ''invalid'',
     ''failed_pending_review'', ''batch_pending'']"

abbreviation get_mirror :: "db \<Rightarrow> nat \<Rightarrow> audit_mirror_outbox option" where
  "get_mirror d i \<equiv> tget am_id i (audit_mirrors d)"

abbreviation upd_mirror :: "nat \<Rightarrow> (audit_mirror_outbox \<Rightarrow> audit_mirror_outbox) \<Rightarrow> db \<Rightarrow> db" where
  "upd_mirror i f d \<equiv> d\<lparr>audit_mirrors := tupd am_id i f (audit_mirrors d)\<rparr>"

definition audit_retry_delay_seconds :: "int \<Rightarrow> int" where
  "audit_retry_delay_seconds attempts =
     (if attempts \<le> 1 then 30 else if attempts = 2 then 60 else if attempts = 3 then 120 else 300)"

definition audit_mirror_retry_due :: "time \<Rightarrow> audit_mirror_outbox \<Rightarrow> bool" where
  "audit_mirror_retry_due now m =
     (am_attempts m \<le> 1 \<and> am_updated_at m \<le> now - seconds (audit_retry_delay_seconds 1) \<or>
      am_attempts m = 2 \<and> am_updated_at m \<le> now - seconds (audit_retry_delay_seconds 2) \<or>
      am_attempts m = 3 \<and> am_updated_at m \<le> now - seconds (audit_retry_delay_seconds 3) \<or>
      am_attempts m \<ge> 4 \<and> am_updated_at m \<le> now - seconds (audit_retry_delay_seconds 4))"

definition mirror_abandoned :: "worker_settings \<Rightarrow> time \<Rightarrow> audit_mirror_outbox \<Rightarrow> bool" where
  "mirror_abandoned ws now m =
     (am_status m = ''processing'' \<and>
      (case am_processing_started_at m of
         None \<Rightarrow> False | Some t \<Rightarrow> t < now - seconds (lead_processing_timeout_seconds ws)))"

definition mirror_claimable :: "worker_settings \<Rightarrow> time \<Rightarrow> audit_mirror_outbox \<Rightarrow> bool" where
  "mirror_claimable ws now m =
     (am_status m = ''pending'' \<or>
      am_status m = ''retrying'' \<and> (am_dispatch_lease_expires_at m \<noteq> None \<or> audit_mirror_retry_due now m) \<or>
      mirror_abandoned ws now m)"

definition mirror_taken :: "time \<Rightarrow> pstr \<Rightarrow> audit_mirror_outbox \<Rightarrow> audit_mirror_outbox" where
  "mirror_taken now token m = m\<lparr>am_status := ''processing'', am_attempts := am_attempts m + 1,
     am_processing_started_at := Some now, am_dispatch_lease_expires_at := None,
     am_claim_token := Some token, am_failure_category := None, am_failure_code := None,
     am_updated_at := now\<rparr>"

definition claim_audit_mirror_outbox ::
  "worker_settings \<Rightarrow> time \<Rightarrow> pstr \<Rightarrow> nat \<Rightarrow> db \<Rightarrow> pstr option \<times> db" where
  "claim_audit_mirror_outbox ws now token i d =
     (case get_mirror d i of
        None \<Rightarrow> (None, d)
      | Some m \<Rightarrow> if mirror_claimable ws now m then (Some token, upd_mirror i (mirror_taken now token) d) else (None, d))"

definition mirror_held :: "pstr \<Rightarrow> audit_mirror_outbox \<Rightarrow> bool" where
  "mirror_held token m = (am_status m = ''processing'' \<and> am_claim_token m = Some token)"

text \<open>The outcome of a mirror attempt: confirmed, or failed with the exception (or none).\<close>

datatype mirror_outcome = Mirrored | Mirror_Failed "exn option"

definition category_value :: "task_failure_category \<Rightarrow> string" where
  "category_value c = (case c of TRANSIENT \<Rightarrow> ''transient'' | PERMANENT \<Rightarrow> ''permanent'' | UNKNOWN \<Rightarrow> ''unknown'')"

definition mirror_failure_category :: "exn option \<Rightarrow> task_failure_category" where
  "mirror_failure_category e = (case e of None \<Rightarrow> UNKNOWN | Some x \<Rightarrow> classify_task_failure x)"

definition mirror_settled :: "time \<Rightarrow> mirror_outcome \<Rightarrow> audit_mirror_outbox \<Rightarrow> audit_mirror_outbox" where
  "mirror_settled now out m =
     (let m1 = m\<lparr>am_processing_started_at := None, am_dispatch_lease_expires_at := None,
                 am_claim_token := None, am_updated_at := now\<rparr>
      in case out of
           Mirrored \<Rightarrow> m1\<lparr>am_status := ''succeeded'', am_failure_category := None, am_failure_code := None\<rparr>
         | Mirror_Failed e \<Rightarrow>
             m1\<lparr>am_status := (if mirror_failure_category e = TRANSIENT then ''retrying'' else ''failed_pending_review''),
                am_failure_category := Some (category_value (mirror_failure_category e)),
                am_failure_code := (case e of None \<Rightarrow> am_failure_code m | Some x \<Rightarrow> Some (take 64 (ex_type_name x)))\<rparr>)"

definition finish_audit_mirror ::
  "time \<Rightarrow> nat \<Rightarrow> pstr \<Rightarrow> mirror_outcome \<Rightarrow> db \<Rightarrow> string \<times> db" where
  "finish_audit_mirror now i token out d =
     (case get_mirror d i of
        None \<Rightarrow> (''stale'', d)
      | Some m \<Rightarrow>
          if \<not> mirror_held token m then (''stale'', d)
          else (am_status (mirror_settled now out m), upd_mirror i (mirror_settled now out) d))"

definition mirror_deferred :: "time \<Rightarrow> audit_mirror_outbox \<Rightarrow> audit_mirror_outbox" where
  "mirror_deferred now m = m\<lparr>am_status := ''waiting_source'', am_attempts := max 0 (am_attempts m - 1),
     am_processing_started_at := None, am_dispatch_lease_expires_at := None, am_claim_token := None,
     am_failure_category := None, am_failure_code := None, am_updated_at := now\<rparr>"

definition defer_audit_mirror :: "time \<Rightarrow> nat \<Rightarrow> pstr \<Rightarrow> db \<Rightarrow> db" where
  "defer_audit_mirror now i token d =
     (case get_mirror d i of
        None \<Rightarrow> d
      | Some m \<Rightarrow> if mirror_held token m then upd_mirror i (mirror_deferred now) d else d)"

section \<open>The lead an event belongs to\<close>

definition resolve_audit_lead_id :: "db \<Rightarrow> business_audit_event \<Rightarrow> pstr option" where
  "resolve_audit_lead_id d ev =
     (let by_message =
        (let resolved = remdups (concat (map (\<lambda>r. case lr_lead_id r of
                   Some l \<Rightarrow> if lr_message_id r = ba_message_id ev \<and> py_strip l \<noteq> [] then [l] else [] | None \<Rightarrow> [])
                 (lead_message_resolutions d)))
         in case resolved of
              [l] \<Rightarrow> Some l
            | _ # _ # _ \<Rightarrow> None
            | [] \<Rightarrow>
                (case filter (\<lambda>l. ld_source_message_id l = Some (ba_message_id ev)) (leads d) of
                   [l] \<Rightarrow> Some (ld_id l) | _ \<Rightarrow> None));
          by_record =
        (case py_get (asc ''smart_table_record_id'') (ba_details ev) of
           PStr rid \<Rightarrow>
             (if py_strip rid = [] then by_message
              else case filter (\<lambda>l. ld_smart_table_record_id l = Some rid) (leads d) of
                [l] \<Rightarrow> Some (ld_id l) | _ # _ # _ \<Rightarrow> None | [] \<Rightarrow> by_message)
         | _ \<Rightarrow> by_message)
      in case py_get (asc ''lead_id'') (ba_details ev) of
           PStr l \<Rightarrow> if py_strip l = [] then by_record else Some (py_strip l)
         | _ \<Rightarrow> by_record)"

definition should_wait_for_audit_lead_resolution :: "db \<Rightarrow> business_audit_event \<Rightarrow> pstr option \<Rightarrow> bool" where
  "should_wait_for_audit_lead_resolution d ev resolved =
     (resolved = None \<and>
      (case tget ob_message_id (ba_message_id ev) (outbox_events d) of
         None \<Rightarrow> False
       | Some o1 \<Rightarrow> ob_status o1 \<notin> set COMPLETED_CHECKPOINT_STATUSES))"

section \<open>A batch of mirror tasks\<close>

text \<open>A batch of one is filled up with leased rows from the queue.\<close>

definition mirror_peers :: "worker_settings \<Rightarrow> time \<Rightarrow> db \<Rightarrow> nat \<Rightarrow> nat list" where
  "mirror_peers ws now d i =
     take (nat (audit_mirror_batch_size ws - 1)) (map am_id (sort_key am_id
       (filter (\<lambda>m. am_id m \<noteq> i \<and> am_dispatch_lease_expires_at m \<noteq> None \<and>
                    (am_status m = ''pending'' \<or> am_status m = ''retrying'' \<and> audit_mirror_retry_due now m))
          (audit_mirrors d))))"

definition mirror_batch_ids :: "worker_settings \<Rightarrow> time \<Rightarrow> db \<Rightarrow> nat list \<Rightarrow> nat list" where
  "mirror_batch_ids ws now d ids =
     (case dedup ids of [i] \<Rightarrow> i # mirror_peers ws now d i | is \<Rightarrow> is)"

fun claim_mirrors ::
  "worker_settings \<Rightarrow> time \<Rightarrow> (nat \<Rightarrow> pstr) \<Rightarrow> nat list \<Rightarrow> db \<Rightarrow> (nat \<times> pstr) list \<times> db" where
  "claim_mirrors ws now tok [] d = ([], d)"
| "claim_mirrors ws now tok (i # is) d =
     (case claim_audit_mirror_outbox ws now (tok i) i d of
        (claim, d1) \<Rightarrow>
          (case claim_mirrors ws now tok is d1 of
             (claims, d2) \<Rightarrow> ((case claim of None \<Rightarrow> claims | Some t \<Rightarrow> (i, t) # claims), d2)))"

datatype mirror_plan = Event_Missing | Source_Pending | Ready mirror_entry

definition plan_mirror :: "db \<Rightarrow> nat \<Rightarrow> mirror_plan" where
  "plan_mirror d i =
     (case get_mirror d i of
        None \<Rightarrow> Event_Missing
      | Some m \<Rightarrow>
          (case tget ba_id (am_audit_event_id m) (business_audit_events d) of
             None \<Rightarrow> Event_Missing
           | Some ev \<Rightarrow>
               (let original = (case get_message d (ba_message_id ev) of
                      None \<Rightarrow> None
                    | Some msg \<Rightarrow> if im_scrubbed_at msg = None then im_normalized_text msg else None);
                    lead_id = resolve_audit_lead_id d ev
                in if should_wait_for_audit_lead_resolution d ev lead_id then Source_Pending
                   else Ready (ev, original, lead_id))))"

definition finish_all :: "time \<Rightarrow> mirror_outcome \<Rightarrow> (nat \<times> pstr) list \<Rightarrow> db \<Rightarrow> string list \<times> db" where
  "finish_all now out claims d =
     fold (\<lambda>(i, t) (sts, d1). case finish_audit_mirror now i t out d1 of (st, d2) \<Rightarrow> (sts @ [st], d2)) claims ([], d)"

definition planned :: "(mirror_plan \<Rightarrow> bool) \<Rightarrow> db \<Rightarrow> (nat \<times> pstr) list \<Rightarrow> (nat \<times> pstr) list" where
  "planned p d claims = filter (\<lambda>(i, t). p (plan_mirror d i)) claims"

definition is_ready :: "mirror_plan \<Rightarrow> bool" where
  "is_ready p = (case p of Ready x \<Rightarrow> True | _ \<Rightarrow> False)"

definition ready_entry :: "mirror_plan \<Rightarrow> mirror_entry list" where
  "ready_entry p = (case p of Ready x \<Rightarrow> [x] | _ \<Rightarrow> [])"

definition batch_status :: "string list \<Rightarrow> string" where
  "batch_status sts =
     (if ''retrying'' \<in> set sts then ''retrying''
      else if ''failed_pending_review'' \<in> set sts then ''failed_pending_review'' else ''stale'')"

definition consume_audit_mirror_batch ::
  "env \<Rightarrow> worker_settings \<Rightarrow> 'w audit_sheet \<Rightarrow> time \<Rightarrow> (nat \<Rightarrow> pstr) \<Rightarrow> nat list \<Rightarrow> db \<Rightarrow> 'w \<Rightarrow> string \<times> db \<times> 'w" where
  "consume_audit_mirror_batch env ws sh now tok ids d w =
     (case claim_mirrors ws now tok (mirror_batch_ids ws now d ids) d of
        (claims, d1) \<Rightarrow>
          if claims = [] then (''already_processing'', d1, w)
          else
            let missing = planned (\<lambda>p. p = Event_Missing) d1 claims;
                waiting = planned (\<lambda>p. p = Source_Pending) d1 claims;
                ready = planned is_ready d1 claims;
                entries = concat (map (\<lambda>(i, t). ready_entry (plan_mirror d1 i)) claims);
                d2 = snd (finish_all now (Mirror_Failed (Some value_exn)) missing d1);
                d3 = fold (\<lambda>(i, t). defer_audit_mirror now i t) waiting d2
            in if ready = [] then (if missing \<noteq> [] then ''failed_pending_review'' else ''deferred'', d3, w)
               else case mirror_batch env sh entries w of
                 (Inl e, w1) \<Rightarrow>
                   (case finish_all now (Mirror_Failed (Some e)) ready d3 of (sts, d4) \<Rightarrow> (batch_status sts, d4, w1))
               | (Inr _, w1) \<Rightarrow> (''succeeded'', snd (finish_all now Mirrored ready d3), w1))"

section \<open>Dispatch\<close>

definition source_outbox_pending :: "db \<Rightarrow> audit_mirror_outbox \<Rightarrow> bool" where
  "source_outbox_pending d m =
     list_ex (\<lambda>ev. ba_id ev = am_audit_event_id m \<and>
       list_ex (\<lambda>o1. ob_message_id o1 = ba_message_id ev \<and> ob_status o1 \<notin> set COMPLETED_CHECKPOINT_STATUSES) (outbox_events d))
       (business_audit_events d)"

definition mirror_active :: "worker_settings \<Rightarrow> time \<Rightarrow> audit_mirror_outbox \<Rightarrow> bool" where
  "mirror_active ws now m =
     ((case am_dispatch_lease_expires_at m of None \<Rightarrow> False | Some t \<Rightarrow> now < t) \<or>
      am_status m = ''processing'' \<and>
      (case am_processing_started_at m of
         None \<Rightarrow> False | Some t \<Rightarrow> now - seconds (lead_processing_timeout_seconds ws) \<le> t))"

definition mirror_dispatchable :: "worker_settings \<Rightarrow> time \<Rightarrow> db \<Rightarrow> audit_mirror_outbox \<Rightarrow> bool" where
  "mirror_dispatchable ws now d m =
     ((case am_dispatch_lease_expires_at m of None \<Rightarrow> True | Some t \<Rightarrow> t \<le> now) \<and>
      \<not> source_outbox_pending d m \<and>
      (am_status m \<in> {''pending'', ''waiting_source''} \<or>
       am_status m = ''retrying'' \<and> audit_mirror_retry_due now m \<or> mirror_abandoned ws now m))"

definition dispatch_order :: "audit_mirror_outbox list \<Rightarrow> audit_mirror_outbox list" where
  "dispatch_order ms = sort_key (\<lambda>m. am_status m \<noteq> ''pending'') (sort_key am_updated_at (sort_key am_id ms))"

definition mirrors_to_dispatch :: "worker_settings \<Rightarrow> time \<Rightarrow> db \<Rightarrow> audit_mirror_outbox list" where
  "mirrors_to_dispatch ws now d =
     (if list_ex (mirror_active ws now) (audit_mirrors d) then []
      else take (nat (audit_mirror_batch_size ws))
             (dispatch_order (filter (mirror_dispatchable ws now d) (audit_mirrors d))))"

definition mirror_leased :: "worker_settings \<Rightarrow> time \<Rightarrow> audit_mirror_outbox \<Rightarrow> audit_mirror_outbox" where
  "mirror_leased ws now m =
     m\<lparr>am_status := (if am_status m = ''waiting_source'' then ''pending'' else am_status m),
       am_dispatch_lease_expires_at := Some (now + seconds (lead_processing_timeout_seconds ws)),
       am_updated_at := now\<rparr>"

text \<open>
  The identifiers of the batch handed to the worker, and the database with their leases. \<open>lock\<close> says
  whether the advisory lock of the dispatcher was free.
\<close>

definition consume_pending_audit_mirrors ::
  "worker_settings \<Rightarrow> bool \<Rightarrow> time \<Rightarrow> db \<Rightarrow> nat list \<times> db" where
  "consume_pending_audit_mirrors ws lock now d =
     (if \<not> lock then ([], d)
      else let ids = map am_id (mirrors_to_dispatch ws now d)
           in (ids, fold (\<lambda>i. upd_mirror i (mirror_leased ws now)) ids d))"

end
