(* ===== verification/Audit_Mirror_Correct.thy ===== *)
theory Audit_Mirror_Correct
  imports Audit_Mirror
begin

text \<open>
  Correctness of the audit mirror: the mirror task is fenced, a batch changes nothing but mirror rows and leaves none of them
  claimed, and what the dispatcher leases the worker can claim. One finding: the sheet shows the event written last, not the
  newest.
\<close>

section \<open>One row\<close>

definition settle_mirror :: "pstr \<Rightarrow> time \<times> mirror_outcome \<Rightarrow> audit_mirror_outbox \<Rightarrow> audit_mirror_outbox" where
  "settle_mirror token x m = (if mirror_held token m then mirror_settled (fst x) (snd x) m else m)"

definition put_off_mirror :: "time \<Rightarrow> pstr \<Rightarrow> audit_mirror_outbox \<Rightarrow> audit_mirror_outbox" where
  "put_off_mirror now token m = (if mirror_held token m then mirror_deferred now m else m)"

definition take_mirror :: "worker_settings \<Rightarrow> time \<Rightarrow> pstr \<Rightarrow> audit_mirror_outbox \<Rightarrow> audit_mirror_outbox" where
  "take_mirror ws now token m = (if mirror_claimable ws now m then mirror_taken now token m else m)"

lemma mirror_settled_simps [simp]:
  "am_id (mirror_settled now out m) = am_id m" "am_audit_event_id (mirror_settled now out m) = am_audit_event_id m"
  "am_claim_token (mirror_settled now out m) = None" "am_processing_started_at (mirror_settled now out m) = None"
  by (simp_all add: mirror_settled_def Let_def split: mirror_outcome.split)

lemma mirror_settled_status:
  "am_status (mirror_settled now out m) \<in> {''succeeded'', ''retrying'', ''failed_pending_review''}"
  "am_status (mirror_settled now out m) = ''succeeded'' \<longleftrightarrow> out = Mirrored"
  by (auto simp: mirror_settled_def Let_def split: mirror_outcome.split)

lemma mirror_row_simps [simp]:
  "am_id (mirror_taken now token m) = am_id m" "am_audit_event_id (mirror_taken now token m) = am_audit_event_id m"
  "mirror_held token' (mirror_taken now token m) \<longleftrightarrow> token' = token"
  "am_id (mirror_deferred now m) = am_id m" "am_claim_token (mirror_deferred now m) = None"
  "am_processing_started_at (mirror_deferred now m) = None" "am_status (mirror_deferred now m) = ''waiting_source''"
  "am_id (mirror_leased ws now m) = am_id m" "am_id (settle_mirror token x m) = am_id m"
  "am_id (put_off_mirror now token m) = am_id m" "am_id (take_mirror ws now token m) = am_id m"
  by (auto simp: mirror_taken_def mirror_held_def mirror_deferred_def mirror_leased_def settle_mirror_def put_off_mirror_def take_mirror_def)

interpretation am: fenced_lease "mirror_claimable ws" mirror_taken mirror_held settle_mirror for ws
  by unfold_locales (auto simp: settle_mirror_def, simp add: mirror_held_def)

section \<open>Steps on the table\<close>

text \<open>The database without its mirror rows: what mirroring must not touch.\<close>

definition business_of :: "db \<Rightarrow> db" where
  "business_of d = d\<lparr>audit_mirrors := []\<rparr>"

lemma business_of_upd [simp]: "business_of (d\<lparr>audit_mirrors := ms\<rparr>) = business_of d"
  by (simp add: business_of_def)

lemma business_ofD:
  assumes "business_of d = business_of d'"
  shows "business_audit_events d = business_audit_events d'" "incoming_messages d = incoming_messages d'"
    "lead_message_resolutions d = lead_message_resolutions d'" "leads d = leads d'" "outbox_events d = outbox_events d'"
proof -
  have "business_audit_events (business_of d) = business_audit_events (business_of d')"
    "incoming_messages (business_of d) = incoming_messages (business_of d')"
    "lead_message_resolutions (business_of d) = lead_message_resolutions (business_of d')"
    "leads (business_of d) = leads (business_of d')" "outbox_events (business_of d) = outbox_events (business_of d')"
    by (simp_all only: assms)
  then show "business_audit_events d = business_audit_events d'" "incoming_messages d = incoming_messages d'"
    "lead_message_resolutions d = lead_message_resolutions d'" "leads d = leads d'" "outbox_events d = outbox_events d'"
    by (simp_all add: business_of_def)
qed

text \<open>A step that rewrites one row by a function keeps the business state and all other rows.\<close>

definition row_step :: "(audit_mirror_outbox \<Rightarrow> audit_mirror_outbox) \<Rightarrow> nat \<Rightarrow> db \<Rightarrow> db \<Rightarrow> bool" where
  "row_step h i d d' \<longleftrightarrow> business_of d' = business_of d \<and>
     (\<forall>j. get_mirror d' j = (if j = i then map_option h (get_mirror d j) else get_mirror d j))"

lemma row_step_upd:
  assumes "\<And>m. am_id (f m) = am_id m" and "\<And>m. get_mirror d i = Some m \<Longrightarrow> f m = h m"
  shows "row_step h i d (upd_mirror i f d)"
  using assms by (auto simp: row_step_def tget_tupd_same tget_tupd_other option.map_comp intro!: option.map_cong)

lemma row_step_id: "(\<And>m. get_mirror d i = Some m \<Longrightarrow> h m = m) \<Longrightarrow> row_step h i d d"
  by (cases "get_mirror d i") (auto simp: row_step_def)

lemma finish_row_step: "row_step (\<lambda>m. settle_mirror token (now, out) m) i d (snd (finish_audit_mirror now i token out d))"
  by (auto simp: finish_audit_mirror_def settle_mirror_def split: option.split intro!: row_step_upd row_step_id)

lemma defer_row_step: "row_step (put_off_mirror now token) i d (defer_audit_mirror now i token d)"
  by (auto simp: defer_audit_mirror_def put_off_mirror_def split: option.split intro!: row_step_upd row_step_id)

lemma claim_row_step: "row_step (take_mirror ws now token) i d (snd (claim_audit_mirror_outbox ws now token i d))"
  by (auto simp: claim_audit_mirror_outbox_def take_mirror_def split: option.split intro!: row_step_upd row_step_id)

lemma row_steps:
  assumes "\<And>i t d. row_step (h t) i d (f i t d)" and "distinct (map fst xs)"
  shows "business_of (fold (\<lambda>(i, t). f i t) xs d) = business_of d"
    and "get_mirror (fold (\<lambda>(i, t). f i t) xs d) j =
      (case map_of xs j of None \<Rightarrow> get_mirror d j | Some t \<Rightarrow> map_option (h t) (get_mirror d j))"
proof -
  have "business_of (fold (\<lambda>(i, t). f i t) xs d) = business_of d \<and>
    get_mirror (fold (\<lambda>(i, t). f i t) xs d) j =
      (case map_of xs j of None \<Rightarrow> get_mirror d j | Some t \<Rightarrow> map_option (h t) (get_mirror d j))"
    using assms(2)
  proof (induction xs arbitrary: d)
    case (Cons x xs)
    obtain i t where x: "x = (i, t)" by fastforce
    have "map_of xs i = None" using Cons.prems x by (auto simp: map_of_eq_None_iff)
    with Cons assms(1) [of t i d] x show ?case by (auto simp: row_step_def split: option.splits)
  qed simp
  then show "business_of (fold (\<lambda>(i, t). f i t) xs d) = business_of d"
    and "get_mirror (fold (\<lambda>(i, t). f i t) xs d) j =
      (case map_of xs j of None \<Rightarrow> get_mirror d j | Some t \<Rightarrow> map_option (h t) (get_mirror d j))" by auto
qed

lemma finish_all_db: "snd (finish_all now out xs d) = fold (\<lambda>(i, t) d. snd (finish_audit_mirror now i t out d)) xs d"
proof -
  have "snd (fold (\<lambda>(i, t) (sts, d1). case finish_audit_mirror now i t out d1 of (st, d2) \<Rightarrow> (sts @ [st], d2)) xs (sts, d)) =
      fold (\<lambda>(i, t) d. snd (finish_audit_mirror now i t out d)) xs d" for sts
    by (induction xs arbitrary: sts d) (auto split: prod.split)
  then show ?thesis by (simp add: finish_all_def)
qed

lemma claim_mirrors_result:
  assumes "distinct is" and "claim_mirrors ws now tok is d = (claims, d1)"
  shows "business_of d1 = business_of d"
    and "claims = map (\<lambda>i. (i, tok i)) (filter (\<lambda>i. \<exists>m. get_mirror d i = Some m \<and> mirror_claimable ws now m) is)"
    and "get_mirror d1 j = (if j \<in> set is then map_option (take_mirror ws now (tok j)) (get_mirror d j) else get_mirror d j)"
proof -
  have "business_of d1 = business_of d \<and>
    claims = map (\<lambda>i. (i, tok i)) (filter (\<lambda>i. \<exists>m. get_mirror d i = Some m \<and> mirror_claimable ws now m) is) \<and>
    (\<forall>j. get_mirror d1 j = (if j \<in> set is then map_option (take_mirror ws now (tok j)) (get_mirror d j) else get_mirror d j))"
    using assms
  proof (induction "is" arbitrary: d claims d1)
    case (Cons i "is")
    obtain c d2 where step: "claim_audit_mirror_outbox ws now (tok i) i d = (c, d2)" by fastforce
    obtain cs d3 where rest: "claim_mirrors ws now tok is d2 = (cs, d3)" by fastforce
    have rs: "row_step (take_mirror ws now (tok i)) i d d2" using claim_row_step [of ws now "tok i" i d] step by simp
    have c: "c = (if \<exists>m. get_mirror d i = Some m \<and> mirror_claimable ws now m then Some (tok i) else None)"
      using step by (auto simp: claim_audit_mirror_outbox_def split: option.splits if_splits)
    have same: "get_mirror d2 j = get_mirror d j" if "j \<in> set is" for j
      using that rs Cons.prems(1) by (auto simp: row_step_def)
    have f: "filter (\<lambda>i. \<exists>m. get_mirror d2 i = Some m \<and> mirror_claimable ws now m) is =
        filter (\<lambda>i. \<exists>m. get_mirror d i = Some m \<and> mirror_claimable ws now m) is"
      using same by (intro filter_cong) auto
    have "claims = (case c of None \<Rightarrow> cs | Some t \<Rightarrow> (i, t) # cs)" "d1 = d3"
      using Cons.prems(2) step rest by simp_all
    moreover have "distinct is" "i \<notin> set is" using Cons.prems(1) by simp_all
    moreover note IH = Cons.IH [OF \<open>distinct is\<close> rest, unfolded f]
    ultimately show ?case using rs c by (auto simp: row_step_def split: if_splits)
  qed simp
  then show "business_of d1 = business_of d"
    and "claims = map (\<lambda>i. (i, tok i)) (filter (\<lambda>i. \<exists>m. get_mirror d i = Some m \<and> mirror_claimable ws now m) is)"
    and "get_mirror d1 j = (if j \<in> set is then map_option (take_mirror ws now (tok j)) (get_mirror d j) else get_mirror d j)"
    by auto
qed

section \<open>A batch\<close>

definition mirrors_keyed :: "db \<Rightarrow> bool" where
  "mirrors_keyed d = distinct (map am_id (audit_mirrors d))"

lemma mirror_batch_ids_distinct:
  assumes "mirrors_keyed d"
  shows "distinct (mirror_batch_ids ws now d ids)"
proof -
  have "distinct (map am_id (sort_key am_id (filter p (audit_mirrors d))))" for p
    using assms by (auto simp: mirrors_keyed_def distinct_map inj_on_def)
  moreover have "i \<notin> set (mirror_peers ws now d i)" for i
    by (auto simp: mirror_peers_def dest!: in_set_takeD)
  ultimately show ?thesis
    using distinct_dedup [of ids] unfolding mirror_batch_ids_def
    by (auto simp: mirror_peers_def split: list.split simp del: distinct_dedup)
qed

lemma plan_mirror_cong:
  assumes "business_of d' = business_of d" and "get_mirror d' i = Some m'" and "get_mirror d i = Some m"
    and "am_audit_event_id m' = am_audit_event_id m"
  shows "plan_mirror d' i = plan_mirror d i"
proof -
  note b = business_ofD [OF assms(1)]
  have "resolve_audit_lead_id d' ev = resolve_audit_lead_id d ev"
    "should_wait_for_audit_lead_resolution d' ev x = should_wait_for_audit_lead_resolution d ev x" for ev x
    unfolding resolve_audit_lead_id_def should_wait_for_audit_lead_resolution_def b by (rule refl)+
  then show ?thesis unfolding plan_mirror_def assms(2,3) option.case assms(4) b by presburger
qed

text \<open>A row a batch has dealt with: settled or put off, and not claimed any more.\<close>

definition released :: "audit_mirror_outbox \<Rightarrow> bool" where
  "released m = (am_status m \<in> {''succeeded'', ''retrying'', ''failed_pending_review'', ''waiting_source''} \<and>
     am_claim_token m = None \<and> am_processing_started_at m = None)"

lemma settled_released: "mirror_held t m \<Longrightarrow> released (settle_mirror t x m)"
  using mirror_settled_status(1) [of "fst x" "snd x" m] by (auto simp: released_def settle_mirror_def)

lemma put_off_released: "mirror_held t m \<Longrightarrow> released (put_off_mirror now t m)"
  by (simp add: released_def put_off_mirror_def)

lemma planned_map_of:
  assumes "distinct (map fst claims)"
  shows "map_of (planned p d claims) i = (case map_of claims i of Some t \<Rightarrow> if p (plan_mirror d i) then Some t else None | None \<Rightarrow> None)"
  using assms unfolding planned_def
proof (induction claims)
  case (Cons c cs)
  obtain j t where c: "c = (j, t)" by fastforce
  have "map_of cs j = None" "map_of (filter (\<lambda>(i, t). p (plan_mirror d i)) cs) j = None"
    using Cons.prems c by (auto simp: map_of_eq_None_iff)
  with Cons c show ?case by (auto split: option.split)
qed simp

lemma planned_distinct: "distinct (map fst claims) \<Longrightarrow> distinct (map fst (planned p d claims))"
  by (auto simp: planned_def distinct_map inj_on_def)

text \<open>The effect of the three dispositions on the claimed rows.\<close>

definition disposed :: "time \<Rightarrow> mirror_outcome \<Rightarrow> mirror_plan \<Rightarrow> pstr \<Rightarrow> audit_mirror_outbox \<Rightarrow> audit_mirror_outbox" where
  "disposed now out p t m = (case p of
     Event_Missing \<Rightarrow> settle_mirror t (now, Mirror_Failed (Some value_exn)) m
   | Source_Pending \<Rightarrow> put_off_mirror now t m
   | Ready x \<Rightarrow> settle_mirror t (now, out) m)"

lemma dispose_claims:
  assumes dist: "distinct (map fst claims)"
    and d2: "d2 = snd (finish_all now (Mirror_Failed (Some value_exn)) (planned (\<lambda>p. p = Event_Missing) d1 claims) d1)"
    and d3: "d3 = fold (\<lambda>(i, t). defer_audit_mirror now i t) (planned (\<lambda>p. p = Source_Pending) d1 claims) d2"
    and d4: "d4 = snd (finish_all now out (planned is_ready d1 claims) d3)"
  shows "business_of d4 = business_of d1"
    and "get_mirror d4 j = (case map_of claims j of None \<Rightarrow> get_mirror d1 j
      | Some t \<Rightarrow> map_option (disposed now out (plan_mirror d1 j) t) (get_mirror d1 j))"
proof -
  note d = planned_distinct [OF dist]
  note s2 = row_steps [where h = "\<lambda>t. settle_mirror t (now, Mirror_Failed (Some value_exn))" and f = "\<lambda>i t d. snd (finish_audit_mirror now i t (Mirror_Failed (Some value_exn)) d)",
      OF finish_row_step d]
  note s3 = row_steps [where h = "put_off_mirror now" and f = "defer_audit_mirror now", OF defer_row_step d]
  note s4 = row_steps [where h = "\<lambda>t. settle_mirror t (now, out)" and f = "\<lambda>i t d. snd (finish_audit_mirror now i t out d)", OF finish_row_step d]
  show "business_of d4 = business_of d1"
    unfolding d4 d3 d2 finish_all_db using s2(1) s3(1) s4(1) by simp
  show "get_mirror d4 j = (case map_of claims j of None \<Rightarrow> get_mirror d1 j
      | Some t \<Rightarrow> map_option (disposed now out (plan_mirror d1 j) t) (get_mirror d1 j))"
    unfolding d4 d3 d2 finish_all_db s4(2) s3(2) s2(2) planned_map_of [OF dist]
    by (cases "get_mirror d1 j"; cases "map_of claims j"; cases "plan_mirror d1 j") (auto simp: disposed_def is_ready_def)
qed

lemma batch_effect:
  assumes "mirrors_keyed d" and "consume_audit_mirror_batch env ws sh now tok ids d w = (st, d', w')"
  shows "business_of d' = business_of d" and
    "get_mirror d i = Some m \<Longrightarrow>
       \<exists>m'. get_mirror d' i = Some m' \<and> (m' = m \<or> released m') \<and>
         (am_status m' = ''succeeded'' \<longrightarrow> m' = m \<or>
            (\<exists>x xs rows. plan_mirror d i = Ready x \<and> x \<in> set xs \<and> mirror_batch env sh xs w = (Inr rows, w')))"
proof -
  let ?ids = "mirror_batch_ids ws now d ids"
  obtain claims d1 where run: "claim_mirrors ws now tok ?ids d = (claims, d1)" by fastforce
  note c = claim_mirrors_result [OF mirror_batch_ids_distinct [OF assms(1)] run]
  have dist: "distinct (map fst claims)"
    using mirror_batch_ids_distinct [OF assms(1)] by (simp add: c(2) comp_def)
  let ?entries = "concat (map (\<lambda>(i, t). ready_entry (plan_mirror d1 i)) claims)"
  let ?d3 = "fold (\<lambda>(i, t). defer_audit_mirror now i t) (planned (\<lambda>p. p = Source_Pending) d1 claims)
    (snd (finish_all now (Mirror_Failed (Some value_exn)) (planned (\<lambda>p. p = Event_Missing) d1 claims) d1))"
  have out: "\<exists>out. d' = snd (finish_all now out (planned is_ready d1 claims) ?d3) \<and>
     (planned is_ready d1 claims \<noteq> [] \<and> out = Mirrored \<longrightarrow> (\<exists>rows. mirror_batch env sh ?entries w = (Inr rows, w')))"
  proof (cases "planned is_ready d1 claims = []")
    case True
    then have "d' = ?d3" using assms(2) run by (auto simp: consume_audit_mirror_batch_def Let_def planned_def finish_all_def split: if_splits)
    then show ?thesis using True by (simp add: finish_all_def)
  next
    case False
    then have ne: "claims \<noteq> []" by (auto simp: planned_def)
    obtain r w1 where mb: "mirror_batch env sh ?entries w = (r, w1)" by fastforce
    show ?thesis
    proof (cases r)
      case (Inl e)
      with False ne assms(2) run mb have "d' = snd (finish_all now (Mirror_Failed (Some e)) (planned is_ready d1 claims) ?d3)"
        by (auto simp: consume_audit_mirror_batch_def Let_def split: prod.splits)
      then show ?thesis by blast
    next
      case (Inr rows)
      with False ne assms(2) run mb have "d' = snd (finish_all now Mirrored (planned is_ready d1 claims) ?d3)" "w' = w1"
        by (auto simp: consume_audit_mirror_batch_def Let_def)
      with mb Inr show ?thesis by blast
    qed
  qed
  then obtain out where d': "d' = snd (finish_all now out (planned is_ready d1 claims) ?d3)"
    and ok: "planned is_ready d1 claims \<noteq> [] \<and> out = Mirrored \<longrightarrow> (\<exists>rows. mirror_batch env sh ?entries w = (Inr rows, w'))" by blast
  note e = dispose_claims [OF dist refl refl d']
  show "business_of d' = business_of d" using e(1) c(1) by simp
  show "\<exists>m'. get_mirror d' i = Some m' \<and> (m' = m \<or> released m') \<and>
       (am_status m' = ''succeeded'' \<longrightarrow> m' = m \<or>
          (\<exists>x xs rows. plan_mirror d i = Ready x \<and> x \<in> set xs \<and> mirror_batch env sh xs w = (Inr rows, w')))"
    if m: "get_mirror d i = Some m"
  proof (cases "map_of claims i")
    case None
    then have "i \<notin> set ?ids \<or> \<not> mirror_claimable ws now m"
      using m by (auto simp: c(2) map_of_eq_None_iff image_iff)
    then have "get_mirror d1 i = Some m" using c(3) [of i] m by (auto simp: take_mirror_def)
    with None e(2) show ?thesis by simp
  next
    case (Some t)
    then have mem: "(i, t) \<in> set claims" by (rule map_of_SomeD)
    then have t: "t = tok i" "i \<in> set ?ids" "mirror_claimable ws now m" using m by (auto simp: c(2))
    let ?m = "mirror_taken now t m"
    have m1: "get_mirror d1 i = Some ?m" using c(3) [of i] m t by (simp add: take_mirror_def)
    have p: "plan_mirror d1 i = plan_mirror d i" by (rule plan_mirror_cong [OF c(1) m1 m]) simp
    have d'm: "get_mirror d' i = Some (disposed now out (plan_mirror d i) t ?m)" using e(2) [of i] Some m1 p by simp
    show ?thesis
    proof (cases "plan_mirror d i")
      case (Ready x)
      let ?m' = "settle_mirror t (now, out) ?m"
      have g: "get_mirror d' i = Some ?m'" using d'm Ready by (simp add: disposed_def)
      have r: "released ?m'" by (rule settled_released) simp
      have "ready_entry (plan_mirror d1 i) = [x]" unfolding p Ready by (simp add: ready_entry_def)
      then have x: "x \<in> set ?entries" using mem by (auto intro!: bexI [of _ "(i, t)"])
      have ne: "planned is_ready d1 claims \<noteq> []"
        using mem p Ready by (auto simp: planned_def filter_empty_conv is_ready_def intro!: bexI [of _ "(i, t)"])
      have "\<exists>x xs rows. plan_mirror d i = Ready x \<and> x \<in> set xs \<and> mirror_batch env sh xs w = (Inr rows, w')"
        if "am_status ?m' = ''succeeded''"
      proof -
        have "out = Mirrored" using that mirror_settled_status(2) [of now out ?m] by (simp add: settle_mirror_def)
        with ok ne obtain rows where "mirror_batch env sh ?entries w = (Inr rows, w')" by blast
        with Ready x show ?thesis by (intro exI conjI)
      qed
      with g r show ?thesis by (intro exI [of _ ?m'] conjI impI disjI2)
    qed (use d'm settled_released [of t ?m] put_off_released [of t ?m] mirror_settled_status(2) [of now "Mirror_Failed (Some value_exn)" ?m] in
        \<open>auto simp: disposed_def settle_mirror_def put_off_mirror_def\<close>)
  qed
qed


section \<open>Dispatch\<close>

lemma dispatch_order_set [simp]: "set (dispatch_order ms) = set ms"
  by (simp add: dispatch_order_def)

lemma dispatch_ids_distinct:
  assumes "mirrors_keyed d"
  shows "distinct (map am_id (mirrors_to_dispatch ws now d))"
proof -
  have "distinct (map am_id (dispatch_order (filter p (audit_mirrors d))))" for p
    using assms by (auto simp: mirrors_keyed_def distinct_map inj_on_def dispatch_order_def)
  then show ?thesis by (simp add: mirrors_to_dispatch_def take_map [symmetric])
qed

lemma leased_rows:
  assumes "mirrors_keyed d" and "consume_pending_audit_mirrors ws True now d = (ids, d')"
  shows "get_mirror d' i = (if i \<in> set ids then map_option (mirror_leased ws now) (get_mirror d i) else get_mirror d i)"
proof -
  let ?ids = "map am_id (mirrors_to_dispatch ws now d)"
  have ids: "ids = ?ids" "d' = fold (\<lambda>i. upd_mirror i (mirror_leased ws now)) ?ids d"
    using assms(2) by (auto simp: consume_pending_audit_mirrors_def Let_def)
  have "get_mirror (fold (\<lambda>i. upd_mirror i (mirror_leased ws now)) xs d) i =
      (if i \<in> set xs then map_option (mirror_leased ws now) (get_mirror d i) else get_mirror d i)" if "distinct xs" for xs
    using that
  proof (induction xs arbitrary: d)
    case (Cons x xs)
    then show ?case by (cases "i = x") (simp_all add: tget_tupd_same tget_tupd_other)
  qed simp
  from this [OF dispatch_ids_distinct [OF assms(1), of ws now]] show ?thesis by (simp only: ids)
qed

lemma dispatch_effect:
  assumes "mirrors_keyed d" and "consume_pending_audit_mirrors ws True now d = (ids, d')"
  shows "i \<in> set ids \<Longrightarrow> now \<le> now' \<Longrightarrow> \<exists>m. get_mirror d' i = Some m \<and> mirror_claimable ws now' m"
    and "length ids \<le> nat (audit_mirror_batch_size ws)"
    and "ids \<noteq> [] \<longleftrightarrow> 0 < audit_mirror_batch_size ws \<and> \<not> list_ex (mirror_active ws now) (audit_mirrors d) \<and>
      list_ex (mirror_dispatchable ws now d) (audit_mirrors d)"
proof -
  have ids: "ids = map am_id (mirrors_to_dispatch ws now d)"
    using assms(2) by (simp add: consume_pending_audit_mirrors_def Let_def)
  show "length ids \<le> nat (audit_mirror_batch_size ws)" by (simp add: ids mirrors_to_dispatch_def)
  have "dispatch_order ms = [] \<longleftrightarrow> ms = []" for ms by (metis dispatch_order_set set_empty)
  then show "ids \<noteq> [] \<longleftrightarrow> 0 < audit_mirror_batch_size ws \<and> \<not> list_ex (mirror_active ws now) (audit_mirrors d) \<and>
      list_ex (mirror_dispatchable ws now d) (audit_mirrors d)"
    by (auto simp: ids mirrors_to_dispatch_def filter_empty_conv list_ex_iff)
  show "\<exists>m. get_mirror d' i = Some m \<and> mirror_claimable ws now' m" if i: "i \<in> set ids" and le: "now \<le> now'"
  proof -
    obtain m where m: "m \<in> set (audit_mirrors d)" "am_id m = i" "mirror_dispatchable ws now d m"
      using i by (auto simp: ids mirrors_to_dispatch_def dest!: in_set_takeD split: if_splits)
    have "get_mirror d i = Some m" using tget_unique [OF assms(1) [unfolded mirrors_keyed_def] m(1)] m(2) by simp
    then have "get_mirror d' i = Some (mirror_leased ws now m)" using leased_rows [OF assms, of i] i by simp
    moreover have "mirror_claimable ws now' (mirror_leased ws now m)"
      using m(3) le by (auto simp: mirror_claimable_def mirror_dispatchable_def mirror_leased_def mirror_abandoned_def split: option.splits)
    ultimately show ?thesis by blast
  qed
qed

text \<open>
  The audit queue moves: when the dispatcher's lock is free, no batch is under way and some task is due, a pass leases a non-empty batch, no larger than configured;
  and every task it leases can be claimed by the worker at any later instant, so a
  leased task is never stuck between the two. While a batch is under way nothing is leased.
\<close>

theorem dispatched_mirror_claimable:
  assumes "mirrors_keyed d" and "consume_pending_audit_mirrors ws True now d = (ids, d')"
  shows "(ids \<noteq> [] \<longleftrightarrow> 0 < audit_mirror_batch_size ws \<and> \<not> list_ex (mirror_active ws now) (audit_mirrors d) \<and>
      list_ex (mirror_dispatchable ws now d) (audit_mirrors d)) \<and>
    length ids \<le> nat (audit_mirror_batch_size ws) \<and>
    (\<forall>i now'. i \<in> set ids \<and> now \<le> now' \<longrightarrow> (\<exists>m. get_mirror d' i = Some m \<and> mirror_claimable ws now' m))"
  using dispatch_effect [OF assms] by blast

section \<open>What the sheet shows\<close>

text \<open>The columns of an event's row.\<close>

lemma columns_distinct: "distinct (AUDIT_MIRROR_FIELD_NAMES @ [f_entry_time])"
  by code_simp

lemma columns_distinct_rev: "distinct (f_entry_time # rev AUDIT_MIRROR_FIELD_NAMES)"
  by code_simp

lemmas column_ne = columns_distinct [unfolded AUDIT_MIRROR_FIELD_NAMES_def, simplified]
  columns_distinct_rev [unfolded AUDIT_MIRROR_FIELD_NAMES_def, simplified]

lemma columns_writable: "n \<in> set AUDIT_MIRROR_FIELD_NAMES \<Longrightarrow> \<not> read_only_field n"
proof -
  have "list_all (\<lambda>n. \<not> read_only_field n) AUDIT_MIRROR_FIELD_NAMES" by code_simp
  then show "n \<in> set AUDIT_MIRROR_FIELD_NAMES \<Longrightarrow> \<not> read_only_field n" by (simp add: list_all_iff)
qed

lemma build_fields_shape:
  assumes "build_fields env ev original lead_id = Inr f"
  obtains ls os g where "f = [(a_key, PStr (asc ''message:'' @ ba_message_id ev)), (a_event_id, PStr (digits_of (ba_id ev))),
         (a_time, PStr (e_iso env (ba_created_at ev))), (a_operator, PStr (py_strip (ba_sales_user_id ev))),
         (a_message_id, PStr (ba_message_id ev))] @ ls @ os @ map (\<lambda>(name, out). (out, g name)) DETAIL_FIELDS"
    "map fst ls \<in> {[], [a_lead_id]}" "map fst os \<in> {[], [a_original]}"
proof -
  let ?ls = "case lead_id of Some l \<Rightarrow> if py_strip l = [] then [] else [(a_lead_id, PStr (py_strip l))] | None \<Rightarrow> []"
  let ?os = "case original of Some s \<Rightarrow> if py_strip s = [] then []
      else [(a_original, PStr (take MAX_AUDIT_ORIGINAL_MESSAGE_LENGTH (py_strip s)))] | None \<Rightarrow> []"
  have "mirror_key ev = Inr (asc ''message:'' @ ba_message_id ev)"
    using assms by (cases "ba_message_id ev = []") (simp_all add: build_fields_def mirror_key_def)
  moreover have "map fst ?ls \<in> {[], [a_lead_id]}" "map fst ?os \<in> {[], [a_original]}" by (simp_all split: option.split)
  ultimately show thesis
    using assms that [of ?ls ?os "\<lambda>name. PStr (detail_text name (py_get (asc name) (ba_details ev)))"]
    unfolding build_fields_def by (simp only: sum.case sum.inject)
qed

lemma build_fields_columns:
  assumes "build_fields env ev original lead_id = Inr f"
  shows "dget a_event_id f = Some (PStr (digits_of (ba_id ev)))" "dget a_message_id f = Some (PStr (ba_message_id ev))"
    "dget a_key f = Some (PStr (asc ''message:'' @ ba_message_id ev))" "fst ` set f \<subseteq> set AUDIT_MIRROR_FIELD_NAMES"
    "distinct (map fst f)"
proof -
  obtain ls os g where f: "f = [(a_key, PStr (asc ''message:'' @ ba_message_id ev)), (a_event_id, PStr (digits_of (ba_id ev))),
         (a_time, PStr (e_iso env (ba_created_at ev))), (a_operator, PStr (py_strip (ba_sales_user_id ev))),
         (a_message_id, PStr (ba_message_id ev))] @ ls @ os @ map (\<lambda>(name, out). (out, g name)) DETAIL_FIELDS"
    and l: "map fst ls \<in> {[], [a_lead_id]}" and o1: "map fst os \<in> {[], [a_original]}"
    by (rule build_fields_shape [OF assms])
  show "dget a_event_id f = Some (PStr (digits_of (ba_id ev)))" "dget a_message_id f = Some (PStr (ba_message_id ev))"
    "dget a_key f = Some (PStr (asc ''message:'' @ ba_message_id ev))"
    by (simp_all add: f dget_def column_ne)
  have m: "map fst f = [a_key, a_event_id, a_time, a_operator, a_message_id] @ map fst ls @ map fst os @ map snd DETAIL_FIELDS"
    by (simp add: f comp_def case_prod_unfold)
  show "distinct (map fst f)" unfolding m using l o1
    by (elim insertE emptyE) (simp_all add: DETAIL_FIELDS_def column_ne)
  have "fst ` set f = set (map fst f)" by simp
  also have "\<dots> \<subseteq> set AUDIT_MIRROR_FIELD_NAMES" unfolding m using l o1
    by (elim insertE emptyE) (simp_all add: DETAIL_FIELDS_def AUDIT_MIRROR_FIELD_NAMES_def)
  finally show "fst ` set f \<subseteq> set AUDIT_MIRROR_FIELD_NAMES" .
qed

lemma mock_update_fields:
  assumes "build_fields env ev original lead_id = Inr f"
  shows "dget a_event_id (update_fields build_mock_audit_schema f) = Some (PStr (digits_of (ba_id ev)))"
    and "dget a_message_id (update_fields build_mock_audit_schema f) = Some (PStr (ba_message_id ev))"
    and "\<not> list_ex (\<lambda>(name, v). read_only_field name) (update_fields build_mock_audit_schema f)"
    and "distinct (map fst (update_fields build_mock_audit_schema f))"
proof -
  note c = build_fields_columns [OF assms]
  have u: "update_fields build_mock_audit_schema f = (if dget a_lead_id f = None then dset a_lead_id (PStr []) f else f)"
  proof -
    have "get_field build_mock_audit_schema a_event_type = None" by code_simp
    then show ?thesis by (simp add: update_fields_def)
  qed
  show "dget a_event_id (update_fields build_mock_audit_schema f) = Some (PStr (digits_of (ba_id ev)))"
    "dget a_message_id (update_fields build_mock_audit_schema f) = Some (PStr (ba_message_id ev))"
    using c(1,2) by (simp_all add: u column_ne)
  show "distinct (map fst (update_fields build_mock_audit_schema f))" unfolding u by (split if_split) (use c(5) dset_distinct [OF c(5)] in blast)
  have "a_lead_id \<in> set AUDIT_MIRROR_FIELD_NAMES" by (simp add: AUDIT_MIRROR_FIELD_NAMES_def)
  then have "fst ` set (update_fields build_mock_audit_schema f) \<subseteq> set AUDIT_MIRROR_FIELD_NAMES"
    using c(4) by (simp add: u dset_keys)
  then show "\<not> list_ex (\<lambda>(name, v). read_only_field name) (update_fields build_mock_audit_schema f)"
    using columns_writable by (fastforce simp: list_ex_iff)
qed

lemma mock_schema_usable: "schema_usable build_mock_audit_schema"
  by code_simp

text \<open>Mirroring one event on a sheet that has one row for its message replaces the contents of that row.\<close>

lemma mirror_one_event:
  assumes r: "mk_records w = [r]" "py_get a_message_id (rec_fields r) = PStr (ba_message_id ev)" and m: "ba_message_id ev \<noteq> []"
  obtains r' rows where "mirror_batch env (mock_sheet nt ts) [(ev, original, lead_id)] w = (Inr rows, w\<lparr>mk_records := [r']\<rparr>)"
    "py_get a_event_id (rec_fields r') = PStr (digits_of (ba_id ev))" "py_get a_message_id (rec_fields r') = PStr (ba_message_id ev)"
proof -
  obtain f where f: "build_fields env ev original lead_id = Inr f"
    using m by (simp add: build_fields_def mirror_key_def)
  let ?u = "update_fields build_mock_audit_schema f"
  let ?r = "\<lparr>rec_id = rec_id r, rec_fields = dmerge (rec_fields r) ?u, rec_member_names = rec_member_names r\<rparr>"
  note c = mock_update_fields [OF f]
  have fs: "fields_by_message env (latest_by_message [(ev, original, lead_id)]) = Inr [(ba_message_id ev, f)]"
    by (simp add: latest_by_message_def keep_latest_def dget_def f)
  have rows: "rows_by_message [(ba_message_id ev, f)] [r] = [(ba_message_id ev, [r])]"
    using r(2) by (simp add: rows_by_message_def message_of_row_def dget_def)
  have ex: "existing_row f [r] = r" by (simp add: existing_row_def)
  have find: "mock_find_records_by_field_values a_message_id [ba_message_id ev] w = [r]"
    using r by (simp add: mock_find_records_by_field_values_def)
  have upd: "mock_update_record (rec_id r) ?u w = (Inr ?r, w\<lparr>mk_records := [?r]\<rparr>)"
    using c(3) r(1) by (simp add: mock_update_record_def tupd_def Let_def)
  have wr: "write_rows (mock_sheet nt ts) build_mock_audit_schema [(ba_message_id ev, f)] [r] w =
      (Inr [(ba_message_id ev, ?r)], w\<lparr>mk_records := [?r]\<rparr>)"
    unfolding write_rows_def rows
    by (simp add: mock_sheet_def Let_def dget_def ex upd del: mock_update_record_def)
  have "mirror_batch env (mock_sheet nt ts) [(ev, original, lead_id)] w = (Inr [?r], w\<lparr>mk_records := [?r]\<rparr>)"
    unfolding mirror_batch_def fs
    using mock_schema_usable wr find by (simp add: mock_sheet_def dget_def)
  moreover have "py_get a_event_id (rec_fields ?r) = PStr (digits_of (ba_id ev))"
    "py_get a_message_id (rec_fields ?r) = PStr (ba_message_id ev)"
    using c by (simp_all add: py_get_def dget_dmerge)
  ultimately show thesis by (rule that)
qed

text \<open>
  C25. The sheet shows the event written last, not the newest: when an event of a message has been mirrored and an older event of
  the same message is mirrored in a later batch (a retry, for instance), the message's row afterwards
  shows the older event. Only within one batch are the events compared by age.
\<close>

theorem late_event_overwrites_newer:
  assumes "mk_records w = [r]" and "py_get a_message_id (rec_fields r) = PStr (ba_message_id old)"
    and "ba_message_id old \<noteq> []" and "ba_message_id new = ba_message_id old" and "\<not> not_older old new"
    and "mirror_batch env (mock_sheet nt ts) [(new, on, ln)] w = (r1, w1)"
    and "mirror_batch env (mock_sheet nt ts) [(old, oo, lo)] w1 = (r2, w2)"
  shows "\<exists>rows r'. r2 = Inr rows \<and> mk_records w2 = [r'] \<and> py_get a_event_id (rec_fields r') = PStr (digits_of (ba_id old))"
proof -
  obtain r1' rows where s1: "w1 = w\<lparr>mk_records := [r1']\<rparr>" "py_get a_message_id (rec_fields r1') = PStr (ba_message_id old)"
    using mirror_one_event [of w r new env nt ts on ln] assms(1-4,6) by (metis prod.inject)
  obtain r2' rows2 where "w2 = w1\<lparr>mk_records := [r2']\<rparr>" "r2 = Inr rows2" "py_get a_event_id (rec_fields r2') = PStr (digits_of (ba_id old))"
  proof (rule mirror_one_event [of w1 r1' old env nt ts oo lo])
    show "mk_records w1 = [r1']" by (simp add: s1(1))
    show "py_get a_message_id (rec_fields r1') = PStr (ba_message_id old)" by (rule s1(2))
    show "ba_message_id old \<noteq> []" by (rule assms(3))
  qed (use assms(7) that in auto)
  then show ?thesis by simp
qed

section \<open>Examples\<close>

definition sample_event :: "nat \<Rightarrow> business_audit_event" where
  "sample_event i = \<lparr>ba_id = i, ba_message_id = asc ''m1'', ba_sales_user_id = asc ''u'', ba_event_type = ''message_received'',
     ba_details = [(asc ''lead_id'', PStr (asc ''L1''))], ba_created_at = int i\<rparr>"

text \<open>Two events of one message, their mirror tasks waiting.\<close>

definition audit_db :: db where
  "audit_db = add_audit_event (asc ''m1'') (asc ''u'') ''lead_created'' [(asc ''lead_id'', PStr (asc ''L1''))] 2
     (add_audit_event (asc ''m1'') (asc ''u'') ''message_received'' [] 1 empty_db)"

definition audit_table :: mock_table where
  "audit_table = empty_mock\<lparr>mk_require_owner := False,
     mk_records := [\<lparr>rec_id = asc ''r1'', rec_fields = [(a_message_id, PStr (asc ''m1''))], rec_member_names = []\<rparr>]\<rparr>"

lemma audit_db_keyed: "mirrors_keyed audit_db"
  by code_simp


theorem dispatched_mirror_claimable_witness:
  "fst (consume_pending_audit_mirrors example_worker_settings True 10 audit_db) = [1, 2] \<and>
   (\<exists>m. get_mirror (snd (consume_pending_audit_mirrors example_worker_settings True 10 audit_db)) 2 = Some m \<and>
     mirror_claimable example_worker_settings 20 m)"
proof
  show ids: "fst (consume_pending_audit_mirrors example_worker_settings True 10 audit_db) = [1, 2]" by code_simp
  show "\<exists>m. get_mirror (snd (consume_pending_audit_mirrors example_worker_settings True 10 audit_db)) 2 = Some m \<and>
     mirror_claimable example_worker_settings 20 m"
    using dispatched_mirror_claimable [OF audit_db_keyed surjective_pairing, of example_worker_settings 10] ids by simp
qed

theorem late_event_overwrites_newer_witness:
  "map (\<lambda>r. py_get a_event_id (rec_fields r)) (mk_records (snd (mirror_batch plain_env (mock_sheet [] (\<lambda>v. [])) [(sample_event 1, None, None)]
     (snd (mirror_batch plain_env (mock_sheet [] (\<lambda>v. [])) [(sample_event 2, None, None)] audit_table))))) = [PStr (asc ''1'')]"
proof -
  let ?sh = "mock_sheet [] (\<lambda>v. [])"
  let ?b = "\<lambda>i. mirror_batch plain_env ?sh [(sample_event i, None, None)]"
  have "\<exists>rows r'. fst (?b 1 (snd (?b 2 audit_table))) = Inr rows \<and> mk_records (snd (?b 1 (snd (?b 2 audit_table)))) = [r'] \<and>
      py_get a_event_id (rec_fields r') = PStr (digits_of (ba_id (sample_event 1)))"
  proof (rule late_event_overwrites_newer [OF _ _ _ _ _ surjective_pairing surjective_pairing])
    show "mk_records audit_table = [hd (mk_records audit_table)]" by (simp add: audit_table_def)
    show "py_get a_message_id (rec_fields (hd (mk_records audit_table))) = PStr (ba_message_id (sample_event 1))" by code_simp
    show "\<not> not_older (sample_event 1) (sample_event 2)" by code_simp
  qed (simp_all add: sample_event_def)
  moreover have "digits_of (ba_id (sample_event 1)) = asc ''1''" by code_simp
  ultimately show ?thesis by (elim exE conjE) (simp only: list.map)
qed

end
