(* ===== verification/Dispatch.thy ===== *)
theory Dispatch
  imports Audit_Mirror
begin

text \<open>
  The dispatcher of the message queue in \<^verbatim>\<open>workers/tasks.py\<close>: which queued messages are handed to the
  workers and how a worker takes over the hand-over. Each claim is its own transaction; \<open>free u\<close> says
  whether the processing lock of the sender's stream could be taken (\<^verbatim>\<open>pg_try_advisory_xact_lock\<close>), \<open>lock\<close>
  whether the dispatcher's own lock was free. One clock reading serves one scan, as in the source.
\<close>

definition LEAD_OUTBOX_MAX_IN_FLIGHT :: int where
  "LEAD_OUTBOX_MAX_IN_FLIGHT = 4"

abbreviation get_event :: "db \<Rightarrow> nat \<Rightarrow> outbox_event option" where
  "get_event d i \<equiv> tget ob_id i (outbox_events d)"

abbreviation upd_event :: "nat \<Rightarrow> (outbox_event \<Rightarrow> outbox_event) \<Rightarrow> db \<Rightarrow> db" where
  "upd_event i f d \<equiv> d\<lparr>outbox_events := tupd ob_id i f (outbox_events d)\<rparr>"

record dispatch_claim =
  dc_event_id :: nat
  dc_claimed_at :: time
  dc_recover_expired_lease :: bool

definition completed :: "outbox_event \<Rightarrow> bool" where
  "completed e = (ob_status e \<in> set COMPLETED_CHECKPOINT_STATUSES)"

definition event_in_flight :: "time \<Rightarrow> outbox_event \<Rightarrow> bool" where
  "event_in_flight expired_before e =
     (ob_status e = ''processing'' \<and>
      (case ob_processing_started_at e of None \<Rightarrow> False | Some t \<Rightarrow> expired_before \<le> t))"

definition event_waiting :: "time \<Rightarrow> outbox_event \<Rightarrow> bool" where
  "event_waiting expired_before e =
     (ob_status e \<in> {''pending'', ''retrying''} \<or>
      ob_status e = ''processing'' \<and>
      (case ob_processing_started_at e of None \<Rightarrow> False | Some t \<Rightarrow> t < expired_before))"

definition unfinished_before :: "db \<Rightarrow> outbox_event \<Rightarrow> bool" where
  "unfinished_before d e =
     list_ex (\<lambda>p. ob_sales_user_id p = ob_sales_user_id e \<and> ob_sequence p < ob_sequence e \<and> \<not> completed p)
       (outbox_events d)"

definition in_flight_count :: "time \<Rightarrow> db \<Rightarrow> int" where
  "in_flight_count expired_before d = int (length (filter (event_in_flight expired_before) (outbox_events d)))"

definition dispatch_candidates :: "time \<Rightarrow> db \<Rightarrow> nat list" where
  "dispatch_candidates expired_before d =
     map ob_id (sort_key ob_created_at (sort_key ob_id
       (filter (\<lambda>e. event_waiting expired_before e \<and> \<not> unfinished_before d e) (outbox_events d))))"

definition processing_lease_expired :: "outbox_event \<Rightarrow> time \<Rightarrow> time \<Rightarrow> bool" where
  "processing_lease_expired e now lease_timeout =
     (ob_status e = ''processing'' \<and>
      (case ob_processing_started_at e of None \<Rightarrow> False | Some t \<Rightarrow> t + lease_timeout < now))"

definition event_claimed :: "time \<Rightarrow> outbox_event \<Rightarrow> outbox_event" where
  "event_claimed now e = e\<lparr>ob_status := ''processing'', ob_processing_started_at := Some now\<rparr>"

definition claim_lead_outbox_event ::
  "(pstr \<Rightarrow> bool) \<Rightarrow> time \<Rightarrow> time \<Rightarrow> nat \<Rightarrow> db \<Rightarrow> dispatch_claim option res \<times> db" where
  "claim_lead_outbox_event free now lease_timeout i d =
     (case get_event d i of
        None \<Rightarrow> (Inr None, d)
      | Some e \<Rightarrow>
          if \<not> free (ob_sales_user_id e) then (Inr None, d)
          else if get_actor d (ob_sales_user_id e) = None then (Inl (ValueError ''actor registry''), d)
          else let lease_expired = processing_lease_expired e now lease_timeout
               in if ob_status e \<notin> {''pending'', ''retrying''} \<and> \<not> lease_expired then (Inr None, d)
                  else if unfinished_before d e then (Inr None, d)
                  else (Inr (Some \<lparr>dc_event_id = i, dc_claimed_at = now, dc_recover_expired_lease = lease_expired\<rparr>),
                        upd_event i (event_claimed now) d))"

text \<open>The loop over the candidates, with the number of free places.\<close>

fun claim_events ::
  "(pstr \<Rightarrow> bool) \<Rightarrow> time \<Rightarrow> time \<Rightarrow> nat \<Rightarrow> nat list \<Rightarrow> db \<Rightarrow> dispatch_claim list res \<times> db" where
  "claim_events free now lease_timeout slots [] d = (Inr [], d)"
| "claim_events free now lease_timeout slots (i # is) d =
     (case claim_lead_outbox_event free now lease_timeout i d of
        (Inl e, d1) \<Rightarrow> (Inl e, d1)
      | (Inr None, d1) \<Rightarrow> claim_events free now lease_timeout slots is d1
      | (Inr (Some c), d1) \<Rightarrow>
          if slots \<le> 1 then (Inr [c], d1)
          else (case claim_events free now lease_timeout (slots - 1) is d1 of
                  (Inl e, d2) \<Rightarrow> (Inl e, d2)
                | (Inr cs, d2) \<Rightarrow> (Inr (c # cs), d2)))"

definition claim_dispatchable_lead_outbox_events ::
  "(pstr \<Rightarrow> bool) \<Rightarrow> time \<Rightarrow> time \<Rightarrow> int \<Rightarrow> db \<Rightarrow> dispatch_claim list res \<times> db" where
  "claim_dispatchable_lead_outbox_events free now lease_timeout max_in_flight d =
     (let expired_before = now - lease_timeout
      in if max_in_flight < 1 then (Inl (ValueError ''max_in_flight''), d)
         else let slots = max_in_flight - in_flight_count expired_before d
              in if slots \<le> 0 then (Inr [], d)
                 else claim_events free now lease_timeout (nat slots) (dispatch_candidates expired_before d) d)"

definition consume_pending_lead_outbox_events ::
  "worker_settings \<Rightarrow> bool \<Rightarrow> (pstr \<Rightarrow> bool) \<Rightarrow> time \<Rightarrow> db \<Rightarrow> dispatch_claim list res \<times> db" where
  "consume_pending_lead_outbox_events ws lock free now d =
     (if \<not> lock then (Inr [], d)
      else claim_dispatchable_lead_outbox_events free now (seconds (lead_processing_timeout_seconds ws))
             LEAD_OUTBOX_MAX_IN_FLIGHT d)"

text \<open>
  The take-over of a claim by the worker: a conditional update whose token is the claim's own time.
  The task carries the time as text, which the worker reads back.
\<close>

definition take_lead_outbox_claim :: "env \<Rightarrow> time \<Rightarrow> nat \<Rightarrow> pstr \<Rightarrow> db \<Rightarrow> bool res \<times> db" where
  "take_lead_outbox_claim env now i claimed_at d =
     (case e_from_iso env claimed_at of
        None \<Rightarrow> (Inl (ValueError ''isoformat''), d)
      | Some scheduled_at \<Rightarrow>
          if list_ex (\<lambda>e. ob_id e = i \<and> ob_status e = ''processing'' \<and> ob_processing_started_at e = Some scheduled_at)
               (outbox_events d)
          then (Inr True, d\<lparr>outbox_events := map (\<lambda>e. if ob_id e = i \<and> ob_status e = ''processing'' \<and>
                   ob_processing_started_at e = Some scheduled_at
                 then e\<lparr>ob_processing_started_at := Some now\<rparr> else e) (outbox_events d)\<rparr>)
          else (Inr False, d))"

end
