(* ===== verification/Dispatch_Correct.thy ===== *)
theory Dispatch_Correct
  imports Dispatch
begin

text \<open>
  What the dispatcher of the message queue guarantees: messages of one sender are handed out one at a
  time and in order, the number of messages in work is bounded, no candidate is passed over while
  places are free, and a hand-over is accepted by one worker only.
\<close>

lemma lease_expired_iff: "processing_lease_expired e now t \<longleftrightarrow>
   ob_status e = ''processing'' \<and> (\<exists>s. ob_processing_started_at e = Some s \<and> s < now - t)"
  by (auto simp: processing_lease_expired_def split: option.splits)

lemma waiting_iff: "event_waiting (now - t) e \<longleftrightarrow>
   ob_status e \<in> {''pending'', ''retrying''} \<or> processing_lease_expired e now t"
  by (auto simp: event_waiting_def processing_lease_expired_def split: option.splits)

lemma waiting_not_completed: "event_waiting b e \<Longrightarrow> \<not> completed e"
  by (auto simp: event_waiting_def completed_def COMPLETED_CHECKPOINT_STATUSES_def)

lemma waiting_not_in_flight: "event_waiting b e \<Longrightarrow> \<not> event_in_flight b e"
  by (auto simp: event_waiting_def event_in_flight_def split: option.splits)

lemma event_claimed_simps [simp]:
  "ob_id (event_claimed now e) = ob_id e" "ob_sales_user_id (event_claimed now e) = ob_sales_user_id e"
  "ob_sequence (event_claimed now e) = ob_sequence e" "ob_status (event_claimed now e) = ''processing''"
  "ob_processing_started_at (event_claimed now e) = Some now" "ob_message_id (event_claimed now e) = ob_message_id e"
  "\<not> completed (event_claimed now e)"
  by (simp_all add: event_claimed_def completed_def COMPLETED_CHECKPOINT_STATUSES_def)

definition outbox_keyed :: "db \<Rightarrow> bool" where
  "outbox_keyed d = distinct (map ob_id (outbox_events d))"

text \<open>A message in work has no unfinished predecessor of the same sender.\<close>

definition in_order :: "db \<Rightarrow> bool" where
  "in_order d = list_all (\<lambda>e. ob_status e = ''processing'' \<longrightarrow> \<not> unfinished_before d e) (outbox_events d)"

section \<open>One claim\<close>

definition claimable_event :: "(pstr \<Rightarrow> bool) \<Rightarrow> time \<Rightarrow> time \<Rightarrow> db \<Rightarrow> outbox_event \<Rightarrow> bool" where
  "claimable_event free now t d e =
     (free (ob_sales_user_id e) \<and> get_actor d (ob_sales_user_id e) \<noteq> None \<and> event_waiting (now - t) e \<and>
      \<not> unfinished_before d e)"

definition claim_of :: "time \<Rightarrow> time \<Rightarrow> outbox_event \<Rightarrow> dispatch_claim" where
  "claim_of now t e = \<lparr>dc_event_id = ob_id e, dc_claimed_at = now, dc_recover_expired_lease = processing_lease_expired e now t\<rparr>"

lemma claim_event_yes:
  assumes "get_event d i = Some e" and "claimable_event free now t d e"
  shows "claim_lead_outbox_event free now t i d = (Inr (Some (claim_of now t e)), upd_event i (event_claimed now) d)"
proof -
  have "ob_id e = i" using tget_SomeD [OF assms(1)] by simp
  moreover have "ob_status e \<in> {''pending'', ''retrying''} \<or> processing_lease_expired e now t"
    using assms(2) by (simp only: claimable_event_def waiting_iff)
  ultimately show ?thesis
    using assms(2) unfolding claim_lead_outbox_event_def assms(1) Let_def
    by (simp add: claimable_event_def claim_of_def)
qed

lemma claim_event_no:
  assumes "get_event d i = Some e" and "\<not> claimable_event free now t d e"
  shows "claim_lead_outbox_event free now t i d =
    (if free (ob_sales_user_id e) \<and> get_actor d (ob_sales_user_id e) = None then Inl (ValueError ''actor registry'') else Inr None, d)"
  using assms(2) unfolding claim_lead_outbox_event_def assms(1) Let_def claimable_event_def waiting_iff by auto

lemma claim_event_cases [consumes 1, case_names claimed none unregistered]:
  assumes "claim_lead_outbox_event free now t i d = (r, d')"
    and "\<And>e. get_event d i = Some e \<Longrightarrow> claimable_event free now t d e \<Longrightarrow> r = Inr (Some (claim_of now t e)) \<Longrightarrow>
      d' = upd_event i (event_claimed now) d \<Longrightarrow> P"
    and "r = Inr None \<Longrightarrow> d' = d \<Longrightarrow> P"
    and "\<And>e. get_event d i = Some e \<Longrightarrow> get_actor d (ob_sales_user_id e) = None \<Longrightarrow> r = Inl (ValueError ''actor registry'') \<Longrightarrow> d' = d \<Longrightarrow> P"
  shows P
proof (cases "get_event d i")
  case None
  with assms(1,3) show P by (simp add: claim_lead_outbox_event_def)
next
  case (Some e)
  show P
  proof (cases "claimable_event free now t d e")
    case True
    with assms(1,2) Some claim_event_yes [OF Some True] show P by simp
  next
    case False
    note no = assms(1) [unfolded claim_event_no [OF Some False]]
    show P
    proof (cases "free (ob_sales_user_id e) \<and> get_actor d (ob_sales_user_id e) = None")
      case True
      with no show P by (intro assms(4) [OF Some]) simp_all
    next
      case False
      with no show P by (intro assms(3)) simp_all
    qed
  qed
qed

section \<open>What a claim changes\<close>

lemma keyed_get: "outbox_keyed d \<Longrightarrow> e \<in> set (outbox_events d) \<Longrightarrow> get_event d (ob_id e) = Some e"
  unfolding outbox_keyed_def by (rule tget_unique)

lemma claim_keeps_keyed: "outbox_keyed (upd_event i (event_claimed now) d) = outbox_keyed d"
  by (simp add: outbox_keyed_def tupd_keys)

lemma list_ex_map_cong: "(\<And>p. p \<in> set xs \<Longrightarrow> q (g p) = q p) \<Longrightarrow> list_ex q (map g xs) = list_ex q xs"
  by (induction xs) auto

lemma claim_keeps_unfinished:
  assumes "outbox_keyed d" and "get_event d i = Some e" and "\<not> completed e"
  shows "unfinished_before (upd_event i (event_claimed now) d) x = unfinished_before d x"
proof -
  have "completed (if ob_id p = i then event_claimed now p else p) = completed p" if "p \<in> set (outbox_events d)" for p
    using keyed_get [OF assms(1) that] assms(2,3) by auto
  then show ?thesis by (auto simp: unfinished_before_def tupd_def intro!: list_ex_map_cong split: if_splits)
qed

lemma claim_in_order:
  assumes "outbox_keyed d" and "get_event d i = Some e" and "claimable_event free now t d e" and "in_order d"
  shows "in_order (upd_event i (event_claimed now) d)"
proof -
  have nc: "\<not> completed e" using assms(3) by (auto simp: claimable_event_def dest: waiting_not_completed)
  have u: "unfinished_before d (event_claimed now p) = unfinished_before d p" for p by (simp add: unfinished_before_def)
  have pe: "p = e" if "p \<in> set (outbox_events d)" "ob_id p = i" for p
    using keyed_get [OF assms(1) that(1)] that(2) assms(2) by simp
  show ?thesis
    unfolding in_order_def list_all_iff claim_keeps_unfinished [OF assms(1,2) nc]
    using assms(3,4) pe by (auto simp: tupd_def u claimable_event_def in_order_def list_all_iff)
qed

lemma filter_tupd_one:
  assumes "distinct (map key t)" and "tget key k t = Some r" and "\<not> p r" and "p (f r)"
  shows "length (filter p (tupd key k f t)) = Suc (length (filter p t))"
  using assms
proof (induction t)
  case (Cons x xs)
  show ?case
  proof (cases "key x = k")
    case True
    have "tupd key k f xs = xs" using Cons.prems(1) True by (intro tupd_absent) (auto simp: tget_None_iff)
    with True Cons.prems show ?thesis by (simp add: tupd_def)
  next
    case False
    with Cons show ?thesis by (simp add: tupd_def)
  qed
qed simp

lemma claim_in_flight:
  assumes "outbox_keyed d" and "get_event d i = Some e" and "claimable_event free now t d e" and "0 \<le> t"
  shows "in_flight_count (now - t) (upd_event i (event_claimed now) d) = in_flight_count (now - t) d + 1"
proof -
  have "\<not> event_in_flight (now - t) e" using assms(3) by (simp add: claimable_event_def waiting_not_in_flight)
  moreover have "event_in_flight (now - t) (event_claimed now e)" using assms(4) by (simp add: event_in_flight_def)
  ultimately show ?thesis
    using filter_tupd_one [of ob_id "outbox_events d" i e "event_in_flight (now - t)"] assms(1,2)
    by (simp add: in_flight_count_def outbox_keyed_def)
qed

section \<open>One scan\<close>

lemma claim_events_keep:
  assumes "claim_events free now t n is d = (r, d')" and "outbox_keyed d" and "0 \<le> t" and "1 \<le> n"
  shows "outbox_keyed d' \<and> (in_order d \<longrightarrow> in_order d') \<and>
    in_flight_count (now - t) d' \<le> in_flight_count (now - t) d + int n"
  using assms
proof (induction free now t n "is" d arbitrary: r d' rule: claim_events.induct)
  case (2 free now t n i "is" d)
  obtain r1 d1 where step: "claim_lead_outbox_event free now t i d = (r1, d1)" by fastforce
  from step show ?case
  proof (cases rule: claim_event_cases)
    case (claimed e)
    have k1: "outbox_keyed d1" using 2(4) claimed by (simp add: claim_keeps_keyed)
    have o1: "in_order d \<longrightarrow> in_order d1" using claim_in_order [OF "2.prems"(2) claimed(1,2)] claimed(4) by simp
    have f1: "in_flight_count (now - t) d1 = in_flight_count (now - t) d + 1"
      using claim_in_flight [OF "2.prems"(2) claimed(1,2) "2.prems"(3)] claimed(4) by simp
    show ?thesis
    proof (cases "n \<le> 1")
      case True
      with 2(3,6) step claimed k1 o1 f1 show ?thesis by auto
    next
      case False
      obtain r2 d2 where rest: "claim_events free now t (n - 1) is d1 = (r2, d2)" by fastforce
      have "d' = d2" using "2.prems"(1) step claimed rest False by (auto split: sum.splits)
      with "2.IH"(2) [OF step [symmetric] claimed(3) refl False rest k1 "2.prems"(3)] False o1 f1 show ?thesis by auto
    qed
  next
    case none
    with 2 step show ?thesis by simp
  next
    case (unregistered e)
    with 2 step show ?thesis by simp
  qed
qed simp

lemma scan_cases:
  assumes "claim_dispatchable_lead_outbox_events free now t n d = (r, d')"
  obtains (idle) "d' = d" "n < 1 \<or> r = Inr []"
  | (scan) "1 \<le> n - in_flight_count (now - t) d"
      "claim_events free now t (nat (n - in_flight_count (now - t) d)) (dispatch_candidates (now - t) d) d = (r, d')"
  using assms by (auto simp: claim_dispatchable_lead_outbox_events_def Let_def split: if_splits)

lemma same_sender_same_place:
  assumes inv: "intake_inv d" and "e1 \<in> set (outbox_events d)" and "e2 \<in> set (outbox_events d)"
    and "ob_sales_user_id e1 = ob_sales_user_id e2" and "ob_sequence e1 = ob_sequence e2"
  shows "ob_message_id e1 = ob_message_id e2"
proof -
  let ?u = "ob_sales_user_id e1"
  have row: "\<exists>m\<in>set (incoming_messages d). (im_message_id m, im_sales_user_id m, im_sequence m) =
      (ob_message_id e, ob_sales_user_id e, ob_sequence e)" if "e \<in> set (outbox_events d)" for e
  proof -
    have "(ob_message_id e, ob_sales_user_id e, ob_sequence e) \<in>
        set (map (\<lambda>m. (im_message_id m, im_sales_user_id m, im_sequence m)) (incoming_messages d))"
      using inv that unfolding intake_inv_def by (metis (mono_tags, lifting) image_eqI list.set_map)
    then show ?thesis by auto
  qed
  obtain m1 m2 where m: "m1 \<in> set (incoming_messages d)" "m2 \<in> set (incoming_messages d)"
    "im_message_id m1 = ob_message_id e1" "im_message_id m2 = ob_message_id e2"
    "im_sales_user_id m1 = ?u" "im_sales_user_id m2 = ?u" "im_sequence m1 = im_sequence m2"
    using row [OF assms(2)] row [OF assms(3)] assms(4,5) by force
  let ?ms = "filter (\<lambda>m. im_sales_user_id m = ?u) (incoming_messages d)"
  have "distinct (map im_sequence ?ms)"
  proof -
    have "map im_sequence ?ms = [1..seq_of d ?u]" using inv by (simp only: intake_inv_def sequences_def)
    then show ?thesis by simp
  qed
  then have "inj_on im_sequence (set ?ms)" by (simp add: distinct_map)
  with m have "m1 = m2" by (auto dest: inj_onD)
  with m show ?thesis by simp
qed

lemma sender_registered:
  assumes inv: "intake_inv d" and "e \<in> set (outbox_events d)"
  shows "get_actor d (ob_sales_user_id e) \<noteq> None"
proof
  assume none: "get_actor d (ob_sales_user_id e) = None"
  have "(ob_message_id e, ob_sales_user_id e, ob_sequence e) \<in>
      set (map (\<lambda>m. (im_message_id m, im_sales_user_id m, im_sequence m)) (incoming_messages d))"
    using assms unfolding intake_inv_def by (metis (mono_tags, lifting) image_eqI list.set_map)
  then have "ob_sequence e \<in> set (sequences d (ob_sales_user_id e))" by (force simp: sequences_def)
  moreover have "sequences d (ob_sales_user_id e) = [1..0]" using inv none unfolding intake_inv_def seq_of_def by (metis option.simps(4))
  ultimately show False by simp
qed

lemma claim_events_places:
  assumes "claim_events free now t n is d = (r, d')"
  shows "map (\<lambda>e. (ob_message_id e, ob_sales_user_id e, ob_sequence e)) (outbox_events d') =
      map (\<lambda>e. (ob_message_id e, ob_sales_user_id e, ob_sequence e)) (outbox_events d) \<and>
    incoming_messages d' = incoming_messages d \<and> sales_authorizations d' = sales_authorizations d"
  using assms
proof (induction free now t n "is" d arbitrary: r d' rule: claim_events.induct)
  case (2 free now t n i "is" d)
  obtain r1 d1 where step: "claim_lead_outbox_event free now t i d = (r1, d1)" by fastforce
  from step show ?case
  proof (cases rule: claim_event_cases)
    case (claimed e)
    have k: "map (\<lambda>e. (ob_message_id e, ob_sales_user_id e, ob_sequence e)) (outbox_events d1) =
        map (\<lambda>e. (ob_message_id e, ob_sales_user_id e, ob_sequence e)) (outbox_events d)"
      using claimed(4) by (simp add: tupd_def)
    show ?thesis
    proof (cases "n \<le> 1")
      case True
      with 2(3) step claimed k show ?thesis by auto
    next
      case False
      obtain r2 d2 where rest: "claim_events free now t (n - 1) is d1 = (r2, d2)" by fastforce
      have "d' = d2" using "2.prems"(1) step claimed rest False by (auto split: sum.splits)
      moreover note "2.IH"(2) [OF step [symmetric] claimed(3) refl False rest]
      moreover have "incoming_messages d1 = incoming_messages d" "sales_authorizations d1 = sales_authorizations d" using claimed(4) by simp_all
      ultimately show ?thesis using k by (simp only: simp_thms)
    qed
  next
    case none
    have "claim_events free now t n is d1 = (r, d')" using "2.prems" step none by simp
    from "2.IH"(1) [OF step [symmetric] none(1) refl this] none(2) show ?thesis by (simp only:)
  next
    case (unregistered e)
    with "2.prems" step have "d' = d" by simp
    then show ?thesis by simp
  qed
qed simp

lemma claim_events_intake:
  assumes "claim_events free now t n is d = (r, d')" and "intake_inv d"
  shows "intake_inv d'"
  using claim_events_places [OF assms(1)] assms(2) by (simp add: intake_inv_def sequences_def seq_of_def)

text \<open>
  C9. The dispatcher keeps each sender's messages in order and bounds the work in progress: starting from a queue
  in which every message in work has only finished predecessors of its sender, a scan (with whatever streams locked, and even if it ends in an
  exception) leaves such a queue, in which at most one message per sender is in work, and the number of messages
  in work with a live lease does not exceed the given maximum unless it did before. It keeps the
  invariant of message intake.
\<close>

theorem dispatch_in_order_and_bounded:
  assumes "intake_inv d" and "outbox_keyed d" and "in_order d" and "0 \<le> t"
    and "claim_dispatchable_lead_outbox_events free now t n d = (r, d')"
  shows "intake_inv d' \<and> outbox_keyed d' \<and> in_order d' \<and>
    in_flight_count (now - t) d' \<le> max n (in_flight_count (now - t) d) \<and>
    (\<forall>e1 e2. e1 \<in> set (outbox_events d') \<and> e2 \<in> set (outbox_events d') \<and> ob_status e1 = ''processing'' \<and>
       ob_status e2 = ''processing'' \<and> ob_sales_user_id e1 = ob_sales_user_id e2 \<longrightarrow> ob_message_id e1 = ob_message_id e2)"
proof -
  have main: "intake_inv d' \<and> outbox_keyed d' \<and> in_order d' \<and> in_flight_count (now - t) d' \<le> max n (in_flight_count (now - t) d)"
    using assms(5)
  proof (cases rule: scan_cases)
    case idle
    with assms show ?thesis by simp
  next
    case scan
    with claim_events_keep [OF scan(2) assms(2,4)] claim_events_intake [OF scan(2) assms(1)] assms(3) show ?thesis by auto
  qed
  moreover have "ob_message_id e1 = ob_message_id e2"
    if e: "e1 \<in> set (outbox_events d')" "e2 \<in> set (outbox_events d')" "ob_status e1 = ''processing''"
      "ob_status e2 = ''processing''" "ob_sales_user_id e1 = ob_sales_user_id e2" for e1 e2
  proof (rule same_sender_same_place [OF _ e(1,2,5)])
    have nc: "\<not> completed e1" "\<not> completed e2" using e(3,4) by (simp_all add: completed_def COMPLETED_CHECKPOINT_STATUSES_def)
    have "\<not> ob_sequence e1 < ob_sequence e2" "\<not> ob_sequence e2 < ob_sequence e1"
      using main e nc by (auto simp: in_order_def unfinished_before_def list_all_iff list_ex_iff)
    then show "ob_sequence e1 = ob_sequence e2" by simp
  qed (simp add: main)
  ultimately show ?thesis by blast
qed

section \<open>Nothing is passed over\<close>

lemma claim_keeps_claimable:
  assumes "outbox_keyed d" and "get_event d i = Some e" and "claimable_event free now t d e"
    and "get_event d j = Some x" and "claimable_event free now t d x" and "i \<noteq> j"
  shows "get_event (upd_event i (event_claimed now) d) j = Some x \<and> claimable_event free now t (upd_event i (event_claimed now) d) x"
proof -
  have nc: "\<not> completed e" using assms(3) by (auto simp: claimable_event_def dest: waiting_not_completed)
  show ?thesis
    using assms claim_keeps_unfinished [OF assms(1,2) nc] by (simp add: claimable_event_def tget_tupd_other)
qed

lemma claim_events_all:
  assumes "outbox_keyed d" and "distinct is" and "1 \<le> n"
    and "\<And>i. i \<in> set is \<Longrightarrow> \<exists>e. get_event d i = Some e \<and> claimable_event free now t d e"
  shows "fst (claim_events free now t n is d) = Inr (map (\<lambda>i. claim_of now t (the (get_event d i))) (take n is))"
  using assms
proof (induction "is" arbitrary: n d)
  case (Cons i "is")
  obtain e where e: "get_event d i = Some e" "claimable_event free now t d e" using Cons.prems(4) by auto
  let ?d = "upd_event i (event_claimed now) d"
  have step: "claim_lead_outbox_event free now t i d = (Inr (Some (claim_of now t e)), ?d)" by (rule claim_event_yes [OF e])
  show ?case
  proof (cases "n \<le> 1")
    case True
    with Cons.prems(3) have "n = 1" by simp
    then show ?thesis using step e by simp
  next
    case False
    have keep: "get_event ?d j = get_event d j" if "j \<in> set is" for j
    proof -
      have "j \<noteq> i" using that Cons.prems(2) by auto
      then show ?thesis by (simp add: tget_tupd_other)
    qed
    have "fst (claim_events free now t (n - 1) is ?d) = Inr (map (\<lambda>j. claim_of now t (the (get_event ?d j))) (take (n - 1) is))"
    proof (rule Cons.IH)
      show "outbox_keyed ?d" using Cons.prems(1) by (simp add: claim_keeps_keyed)
      show "\<exists>e. get_event ?d j = Some e \<and> claimable_event free now t ?d e" if "j \<in> set is" for j
        using Cons.prems(2,4) claim_keeps_claimable [OF Cons.prems(1) e] that by (metis distinct.simps(2) list.set_intros(2))
    qed (use Cons.prems False in auto)
    also have "map (\<lambda>j. claim_of now t (the (get_event ?d j))) (take (n - 1) is) = map (\<lambda>j. claim_of now t (the (get_event d j))) (take (n - 1) is)"
      using keep by (auto dest: in_set_takeD)
    finally have rest: "fst (claim_events free now t (n - 1) is ?d) = Inr (map (\<lambda>j. claim_of now t (the (get_event d j))) (take (n - 1) is))" .
    have "take n (i # is) = i # take (n - 1) is" using False by (simp add: take_Cons')
    with step e False rest show ?thesis by (auto split: prod.splits sum.splits)
  qed
qed simp

lemma candidate_claimable:
  assumes "intake_inv d" and "outbox_keyed d" and "i \<in> set (dispatch_candidates (now - t) d)" and "\<And>u. free u"
  shows "\<exists>e. get_event d i = Some e \<and> claimable_event free now t d e"
  using assms keyed_get [OF assms(2)] sender_registered [OF assms(1)]
  by (fastforce simp: dispatch_candidates_def claimable_event_def)

lemma candidates_distinct: "outbox_keyed d \<Longrightarrow> distinct (dispatch_candidates b d)"
  by (auto simp: dispatch_candidates_def outbox_keyed_def distinct_map inj_on_def)

text \<open>
  No message is passed over: when no stream is locked and the number of messages in work is below the maximum, a scan ends without an
  exception and claims the oldest candidates, exactly as many as there are free places, each with its own hand-over fact. The
  registry entry the claim insists on is there because message intake made it.
\<close>

theorem dispatch_fills_places:
  assumes "intake_inv d" and "outbox_keyed d" and "\<And>u. free u" and "in_flight_count (now - t) d < n"
  shows "fst (claim_dispatchable_lead_outbox_events free now t n d) =
    Inr (map (\<lambda>i. claim_of now t (the (get_event d i)))
          (take (nat (n - in_flight_count (now - t) d)) (dispatch_candidates (now - t) d)))"
proof -
  have "0 \<le> in_flight_count (now - t) d" by (simp add: in_flight_count_def)
  moreover have "fst (claim_events free now t (nat (n - in_flight_count (now - t) d)) (dispatch_candidates (now - t) d) d) =
    Inr (map (\<lambda>i. claim_of now t (the (get_event d i)))
          (take (nat (n - in_flight_count (now - t) d)) (dispatch_candidates (now - t) d)))"
    using assms by (intro claim_events_all candidates_distinct candidate_claimable) auto
  ultimately show ?thesis using assms(4) by (simp add: claim_dispatchable_lead_outbox_events_def Let_def)
qed

section \<open>One worker per hand-over\<close>

text \<open>The steps that move the clock of a claim: scans of the dispatcher and take-overs by workers.\<close>

datatype queue_job =
    Scan "pstr \<Rightarrow> bool" time time int
  | Take_Over time nat pstr

primrec job_time :: "queue_job \<Rightarrow> time" where
  "job_time (Scan free now t n) = now"
| "job_time (Take_Over now i s) = now"

primrec queue_step :: "env \<Rightarrow> queue_job \<Rightarrow> db \<Rightarrow> db" where
  "queue_step env (Scan free now t n) d = snd (claim_dispatchable_lead_outbox_events free now t n d)"
| "queue_step env (Take_Over now i s) d = snd (take_lead_outbox_claim env now i s d)"

definition stamped :: "time \<Rightarrow> nat \<Rightarrow> db \<Rightarrow> bool" where
  "stamped t i d = list_ex (\<lambda>e. ob_id e = i \<and> ob_processing_started_at e = Some t) (outbox_events d)"

lemma claim_events_stamp:
  assumes "claim_events free now u n is d = (r, d')" and "now \<noteq> t" and "\<not> stamped t i d"
  shows "\<not> stamped t i d'"
  using assms
proof (induction free now u n "is" d arbitrary: r d' rule: claim_events.induct)
  case (2 free now u n j "is" d)
  obtain r1 d1 where step: "claim_lead_outbox_event free now u j d = (r1, d1)" by fastforce
  from step show ?case
  proof (cases rule: claim_event_cases)
    case (claimed e)
    have s1: "\<not> stamped t i d1" using claimed(4) 2(4,5) by (auto simp: stamped_def list_ex_iff tupd_def split: if_splits)
    show ?thesis
    proof (cases "n \<le> 1")
      case True
      with 2(3) step claimed s1 show ?thesis by auto
    next
      case False
      obtain r2 d2 where rest: "claim_events free now u (n - 1) is d1 = (r2, d2)" by fastforce
      have "d' = d2" using "2.prems"(1) step claimed rest False by (auto split: sum.splits)
      with "2.IH"(2) [OF step [symmetric] claimed(3) refl False rest 2(4) s1] show ?thesis by simp
    qed
  next
    case none
    have "claim_events free now u n is d1 = (r, d')" using "2.prems" step none by simp
    from "2.IH"(1) [OF step [symmetric] none(1) refl this 2(4)] none(2) 2(5) show ?thesis by simp
  next
    case (unregistered e)
    with "2.prems" step show ?thesis by simp
  qed
qed simp

lemma take_over_stamp:
  assumes "now \<noteq> t" and "\<not> stamped t i d"
  shows "\<not> stamped t i (snd (take_lead_outbox_claim env now j s d))"
  using assms by (auto simp: take_lead_outbox_claim_def stamped_def list_ex_iff split: option.splits if_splits)

lemma queue_step_stamp:
  assumes "job_time j \<noteq> t" and "\<not> stamped t i d"
  shows "\<not> stamped t i (queue_step env j d)"
proof (cases j)
  case (Scan free now u n)
  obtain r d' where run: "claim_dispatchable_lead_outbox_events free now u n d = (r, d')" by fastforce
  from run show ?thesis
  proof (cases rule: scan_cases)
    case idle
    with Scan run assms show ?thesis by simp
  next
    case scan
    from claim_events_stamp [OF scan(2) _ assms(2)] Scan run assms(1) show ?thesis by simp
  qed
next
  case (Take_Over now k s)
  with assms take_over_stamp show ?thesis by simp
qed

lemma taken_not_stamped:
  assumes "take_lead_outbox_claim env now i s d = (Inr True, d')" and "e_from_iso env s = Some t" and "now \<noteq> t"
    and "outbox_keyed d"
  shows "\<not> stamped t i d'"
proof
  let ?m = "\<lambda>e. ob_id e = i \<and> ob_status e = ''processing'' \<and> ob_processing_started_at e = Some t"
  let ?g = "\<lambda>e. if ?m e then e\<lparr>ob_processing_started_at := Some now\<rparr> else e"
  have "list_ex ?m (outbox_events d) \<and> outbox_events d' = map ?g (outbox_events d)"
    using assms(1,2) by (auto simp: take_lead_outbox_claim_def split: if_splits)
  then obtain e0 where e0: "e0 \<in> set (outbox_events d)" "?m e0" and d': "outbox_events d' = map ?g (outbox_events d)"
    unfolding list_ex_iff by blast
  assume "stamped t i d'"
  then obtain e where e: "e \<in> set (outbox_events d)" "ob_id (?g e) = i" "ob_processing_started_at (?g e) = Some t"
    unfolding stamped_def d' list_ex_iff set_map by blast
  have "\<not> ?m e" using e(3) assms(3) by (auto split: if_splits)
  moreover from this e(2) have "ob_id e = i" by (simp split: if_splits)
  ultimately show False using keyed_get [OF assms(4) e(1)] keyed_get [OF assms(4) e0(1)] e0(2) by simp
qed

text \<open>
  C22. A hand-over is accepted once: after a worker has taken over a claim, no later task that carries the same claim
  time is let in, whatever scans and take-overs happen in between at other instants. A message delivered twice by the
  task queue is therefore worked on once per claim.
\<close>

theorem claim_taken_over_once:
  assumes "outbox_keyed d" and "e_from_iso env s = Some t" and "now \<noteq> t"
    and "take_lead_outbox_claim env now i s d = (Inr True, d')"
    and "\<And>j. j \<in> set js \<Longrightarrow> job_time j \<noteq> t"
  shows "fst (take_lead_outbox_claim env now' i s (fold (queue_step env) js d')) = Inr False"
proof -
  have "\<not> stamped t i (fold (queue_step env) js x)" if "\<not> stamped t i x" for x
    using that assms(5)
  proof (induction js arbitrary: x)
    case (Cons j js)
    from Cons.IH [of "queue_step env j x"] queue_step_stamp [OF _ Cons.prems(1)] Cons.prems(2) show ?case by simp
  qed simp
  from this [OF taken_not_stamped [OF assms(4,2,3,1)]] assms(2) show ?thesis
    by (auto simp: take_lead_outbox_claim_def stamped_def list_ex_iff)
qed

section \<open>Examples\<close>

definition queued :: "nat \<Rightarrow> string \<Rightarrow> string \<Rightarrow> int \<Rightarrow> outbox_event" where
  "queued i m u n = new_outbox_event i (hello\<lparr>ic_message_id := asc m, ic_sales_user_id := asc u\<rparr>) n ''message_received'' (int i)"

definition arrived :: "string \<Rightarrow> string \<Rightarrow> int \<Rightarrow> incoming_message" where
  "arrived m u n = new_message (hello\<lparr>ic_message_id := asc m, ic_sales_user_id := asc u\<rparr>) n 0"

definition sender :: "string \<Rightarrow> int \<Rightarrow> sales_authorization" where
  "sender u n = (register_actor (hello\<lparr>ic_sales_user_id := asc u\<rparr>) 0)\<lparr>sa_next_message_sequence := n\<rparr>"

text \<open>Two messages of one sender, the first of them waiting, and one of another.\<close>

definition waiting_queue :: db where
  "waiting_queue = empty_db\<lparr>sales_authorizations := [sender ''u'' 2, sender ''v'' 1],
     incoming_messages := [arrived ''m1'' ''u'' 1, arrived ''m2'' ''u'' 2, arrived ''m3'' ''v'' 1],
     outbox_events := [queued 1 ''m1'' ''u'' 1, queued 2 ''m2'' ''u'' 2, queued 3 ''m3'' ''v'' 1]\<rparr>"

lemmas waiting_queue_defs = waiting_queue_def empty_db_def sender_def register_actor_def arrived_def new_message_def queued_def new_outbox_event_def hello_def

lemma waiting_queue_intake: "intake_inv waiting_queue"
proof -
  have seq: "seq_of waiting_queue x = (if x = asc ''u'' then 2 else if x = asc ''v'' then 1 else 0)" for x
    by (simp add: seq_of_def waiting_queue_defs new_actor_def)
  have seqs: "sequences waiting_queue x = (if x = asc ''u'' then [1, 2] else if x = asc ''v'' then [1] else [])" for x
    by (simp add: sequences_def waiting_queue_defs)
  have "[1..2::int] = [1, 2]" by code_simp
  then have "0 \<le> seq_of waiting_queue x \<and> sequences waiting_queue x = [1..seq_of waiting_queue x]" for x
    unfolding seq seqs by simp
  moreover have "distinct (map im_message_id (incoming_messages waiting_queue))"
    "map (\<lambda>e. (ob_message_id e, ob_sales_user_id e, ob_sequence e)) (outbox_events waiting_queue) =
     map (\<lambda>m. (im_message_id m, im_sales_user_id m, im_sequence m)) (incoming_messages waiting_queue)"
    by (simp_all add: waiting_queue_defs)
  ultimately show ?thesis unfolding intake_inv_def by blast
qed

lemma waiting_queue_wf: "outbox_keyed waiting_queue" "in_order waiting_queue"
  by code_simp+

theorem dispatch_in_order_and_bounded_witness:
  "in_order (snd (claim_dispatchable_lead_outbox_events (\<lambda>u. True) 100 10 4 waiting_queue)) \<and>
   map ob_status (outbox_events (snd (claim_dispatchable_lead_outbox_events (\<lambda>u. True) 100 10 4 waiting_queue))) =
     [''processing'', ''pending'', ''processing'']"
proof
  show "in_order (snd (claim_dispatchable_lead_outbox_events (\<lambda>u. True) 100 10 4 waiting_queue))"
    using dispatch_in_order_and_bounded [OF waiting_queue_intake waiting_queue_wf _ surjective_pairing, of 10 "\<lambda>u. True" 100 4] by simp
  show "map ob_status (outbox_events (snd (claim_dispatchable_lead_outbox_events (\<lambda>u. True) 100 10 4 waiting_queue))) =
     [''processing'', ''pending'', ''processing'']" by code_simp
qed

theorem dispatch_fills_places_witness:
  "fst (claim_dispatchable_lead_outbox_events (\<lambda>u. True) 100 10 4 waiting_queue) =
     Inr [\<lparr>dc_event_id = 1, dc_claimed_at = 100, dc_recover_expired_lease = False\<rparr>,
          \<lparr>dc_event_id = 3, dc_claimed_at = 100, dc_recover_expired_lease = False\<rparr>]"
proof -
  have "in_flight_count (100 - 10) waiting_queue < 4" by code_simp
  from dispatch_fills_places [OF waiting_queue_intake waiting_queue_wf(1) TrueI this] show ?thesis
    by (rule trans) code_simp
qed

definition handed_over :: db where
  "handed_over = snd (claim_dispatchable_lead_outbox_events (\<lambda>u. True) 100 10 4 waiting_queue)"

theorem claim_taken_over_once_witness:
  "fst (take_lead_outbox_claim plain_env 130 1 (str_of_int 100)
     (fold (queue_step plain_env) [Scan (\<lambda>u. True) 120 10 4] (snd (take_lead_outbox_claim plain_env 110 1 (str_of_int 100) handed_over)))) = Inr False"
proof (rule claim_taken_over_once)
  show "outbox_keyed handed_over" by code_simp
  show "e_from_iso plain_env (str_of_int 100) = Some 100" by code_simp
  show "take_lead_outbox_claim plain_env 110 1 (str_of_int 100) handed_over =
      (Inr True, snd (take_lead_outbox_claim plain_env 110 1 (str_of_int 100) handed_over))"
    by (rule prod_eqI) code_simp+
qed simp_all

end
