(* ===== verification/Wecom_Card.thy ===== *)
theory Wecom_Card
  imports Crm_Batch Commands
begin

text \<open>
  The data of the action cards (\<^verbatim>\<open>app/wecom_bot/actions.py\<close>): the closed vocabulary of actions and event keys, the checks a
  card's context passes before it is stored, the card itself and its frozen update, and the splitting of long
  result texts. A context is a dictionary of Python values; what leaves \<open>safe_context\<close> is stored with the action.
\<close>

section \<open>Vocabulary\<close>

definition CARD_EVENT_KEY_CRM_FIELD_CONFIRM :: pstr where "CARD_EVENT_KEY_CRM_FIELD_CONFIRM = asc ''crm.field_confirmation.confirm''"
definition CARD_EVENT_KEY_CRM_DUPLICATE_CONTINUE :: pstr where "CARD_EVENT_KEY_CRM_DUPLICATE_CONTINUE = asc ''crm.duplicate_confirmation.continue''"
definition CARD_EVENT_KEY_CRM_DUPLICATE_STOP :: pstr where "CARD_EVENT_KEY_CRM_DUPLICATE_STOP = asc ''crm.duplicate_confirmation.stop''"
definition CARD_EVENT_KEY_CRM_COMPANY_CONFIRM :: pstr where "CARD_EVENT_KEY_CRM_COMPANY_CONFIRM = asc ''crm.company_submission.confirm''"
definition CARD_EVENT_KEY_CRM_BATCH_SUBMISSION :: pstr where "CARD_EVENT_KEY_CRM_BATCH_SUBMISSION = asc ''crm.batch_submission.confirm''"
definition CARD_EVENT_KEY_CRM_BATCH_SELECT_ALL :: pstr where "CARD_EVENT_KEY_CRM_BATCH_SELECT_ALL = asc ''crm.batch_submission.select_all''"
definition CARD_EVENT_KEY_DISCARD_CONFIRM :: pstr where "CARD_EVENT_KEY_DISCARD_CONFIRM = asc ''lead.discard.confirm''"
definition CARD_EVENT_KEY_REASSIGN_CONFIRM :: pstr where "CARD_EVENT_KEY_REASSIGN_CONFIRM = asc ''lead.reassignment.confirm''"

definition ALLOWED_CARD_EVENT_KEYS :: "pstr list" where
  "ALLOWED_CARD_EVENT_KEYS = [CARD_EVENT_KEY_CRM_FIELD_CONFIRM, CARD_EVENT_KEY_CRM_DUPLICATE_CONTINUE,
     CARD_EVENT_KEY_CRM_DUPLICATE_STOP, CARD_EVENT_KEY_CRM_COMPANY_CONFIRM, CARD_EVENT_KEY_CRM_BATCH_SUBMISSION,
     CARD_EVENT_KEY_CRM_BATCH_SELECT_ALL, CARD_EVENT_KEY_DISCARD_CONFIRM, CARD_EVENT_KEY_REASSIGN_CONFIRM]"

definition ACTION_EXPECTED_EVENT_KEYS :: "(string \<times> pstr) list" where
  "ACTION_EXPECTED_EVENT_KEYS =
     [(''crm_field_confirmation'', CARD_EVENT_KEY_CRM_FIELD_CONFIRM),
      (''crm_duplicate_confirmation'', CARD_EVENT_KEY_CRM_DUPLICATE_CONTINUE),
      (''crm_company_submission_confirmation'', CARD_EVENT_KEY_CRM_COMPANY_CONFIRM),
      (''crm_batch_submission'', CARD_EVENT_KEY_CRM_BATCH_SUBMISSION),
      (''lead_discard_confirmation'', CARD_EVENT_KEY_DISCARD_CONFIRM),
      (''lead_reassignment_confirmation'', CARD_EVENT_KEY_REASSIGN_CONFIRM)]"

definition CRM_SUBMISSION_ACTION_TYPES :: "string list" where
  "CRM_SUBMISSION_ACTION_TYPES = [''crm_field_confirmation'', ''crm_duplicate_confirmation'',
     ''crm_company_submission_confirmation'', ''crm_batch_submission'']"

definition requires_active_sales_authorization :: "string \<Rightarrow> fields \<Rightarrow> bool" where
  "requires_active_sales_authorization action_type ctx =
     (action_type \<notin> set CRM_SUBMISSION_ACTION_TYPES \<or>
      action_type \<in> {''crm_batch_submission'', ''crm_duplicate_confirmation''} \<and>
      py_get (asc ''owner_scope_user_ids'') ctx \<noteq> PNone)"

definition identifier_ok :: "pstr \<Rightarrow> bool" where
  "identifier_ok s = (1 \<le> length s \<and> length s \<le> 128 \<and> list_all request_id_char s)"

definition ACTION_LEASE :: time where "ACTION_LEASE = minutes 5"
definition ACTION_DEFAULT_EXPIRY :: time where "ACTION_DEFAULT_EXPIRY = minutes 10"

definition ACTION_TRANSITIONS :: "(string \<times> string list) list" where
  "ACTION_TRANSITIONS =
     [(''pending'', [''processing'', ''denied'', ''expired'']),
      (''processing'', [''succeeded'', ''denied'', ''failed'', ''pending_recovery'']),
      (''pending_recovery'', [''succeeded'', ''failed'']),
      (''failed'', []), (''succeeded'', []), (''denied'', []), (''expired'', [])]"

definition may_move :: "string \<Rightarrow> string \<Rightarrow> bool" where
  "may_move current new = (current = new \<or> new \<in> set (the_default [] (map_of ACTION_TRANSITIONS current)))"

definition transition_action :: "string \<Rightarrow> wecom_action \<Rightarrow> wecom_action res" where
  "transition_action new a =
     (if may_move (wa_status a) new then Inr (a\<lparr>wa_status := new\<rparr>) else Inl (RuntimeError ''InvalidActionTransition''))"

definition validate_action_definition :: "string \<Rightarrow> pstr \<Rightarrow> pstr \<Rightarrow> pstr \<Rightarrow> unit res" where
  "validate_action_definition action_type key target_type target_id =
     (if map_of ACTION_EXPECTED_EVENT_KEYS action_type = None then Inl (ValueError ''action_type'')
      else if key \<notin> set ALLOWED_CARD_EVENT_KEYS then Inl (ValueError ''action_key'')
      else if map_of ACTION_EXPECTED_EVENT_KEYS action_type \<noteq> Some key then Inl (ValueError ''action_key_mismatch'')
      else if \<not> identifier_ok target_id \<or> target_type = [] then Inl (ValueError ''target_id'')
      else if \<not> identifier_ok target_type then Inl (ValueError ''target_type'')
      else Inr ())"

section \<open>Redaction\<close>

definition word_char :: "env \<Rightarrow> cp \<Rightarrow> bool" where
  "word_char env c = (e_isalnum env c \<or> c = 0x5F)"

definition PII_EMAIL :: "env \<Rightarrow> re" where
  "PII_EMAIL env = Cat (Boundary (word_char env)) (Cat mail_part_re (Cat (chr_re 0x40) (Cat mail_part_re
     (Cat (chr_re 0x2E) (Cat mail_part_re (Boundary (word_char env)))))))"

definition PII_PHONE :: re where
  "PII_PHONE = Cat (NotBehind py_isdecimal) (Cat (opt_re (chr_re 0x2B)) (Cat (Cls py_isdecimal)
     (Cat (rep_re 6 6 (Cls (\<lambda>c. py_isdecimal c \<or> c \<in> {0x20, 0x28, 0x29, 0x2D})))
       (Cat (Star (Cls (\<lambda>c. py_isdecimal c \<or> c \<in> {0x20, 0x28, 0x29, 0x2D})))
         (Cat (Cls py_isdecimal) (NotAhead py_isdecimal))))))"

definition redact_text :: "env \<Rightarrow> pstr \<Rightarrow> nat \<Rightarrow> pstr" where
  "redact_text env s limit =
     take limit (re_sub PII_PHONE (\<lambda>_. asc ''[phone]'') (re_sub (PII_EMAIL env) (\<lambda>_. asc ''[email]'') s))"

definition safe_snapshot_value :: "env \<Rightarrow> pstr \<Rightarrow> pstr" where
  "safe_snapshot_value env s = asc ''sha256:'' @ e_sha256 env s"

section \<open>The context of an action\<close>

definition sget :: "string \<Rightarrow> fields \<Rightarrow> pstr option" where
  "sget k d = (case py_get (asc k) d of PStr s \<Rightarrow> Some s | _ \<Rightarrow> None)"

definition no_break :: "pstr \<Rightarrow> bool" where
  "no_break s = (0x0A \<notin> set s \<and> 0x0D \<notin> set s)"

definition plain_line :: "nat \<Rightarrow> pstr \<Rightarrow> bool" where
  "plain_line n s = (0 < length s \<and> length s \<le> n \<and> no_break s)"

definition has_keys :: "string list \<Rightarrow> fields \<Rightarrow> bool" where
  "has_keys ks d = (set (map fst d) = set (map asc ks))"

fun json_able :: "pyval \<Rightarrow> bool" where
  "json_able (PList xs) = list_all json_able xs"
| "json_able (PDict d) = list_all (\<lambda>kv. json_able (snd kv)) d"
| "json_able (PTime _) = False"
| "json_able (PNaive _) = False"
| "json_able (PDate _) = False"
| "json_able _ = True"

definition CONTEXT_KEYS :: "pstr list" where
  "CONTEXT_KEYS = map asc [''field_names'', ''field_values'', ''command_text'', ''request_message_id'', ''card_description'',
     ''display_text'', ''message_id'', ''segment_index'', ''reason'', ''duplicate_leads'', ''candidate_leads'',
     ''candidate_snapshots'', ''owner_scope_user_ids'', ''target_capture_date'', ''page'', ''page_count'', ''select_all_option_id'']"

definition select_all_pattern :: "pstr \<Rightarrow> bool" where
  "select_all_pattern s =
     (length s = 28 \<and> take 4 s = asc ''all-'' \<and> list_all (\<lambda>c. 0x30 \<le> c \<and> c \<le> 0x39 \<or> 0x61 \<le> c \<and> c \<le> 0x66) (drop 4 s))"

definition date_max_ordinal :: int where "date_max_ordinal = 3652059"

definition safe_lead_item :: "env \<Rightarrow> bool \<Rightarrow> pyval \<Rightarrow> pyval option" where
  "safe_lead_item env display_allowed v =
     (case v of
        PDict d \<Rightarrow>
          if \<not> (has_keys [''lead_id'', ''company_name''] d \<or>
                 display_allowed \<and> has_keys [''lead_id'', ''company_name'', ''display_text''] d) then None
          else (case (sget ''lead_id'' d, sget ''company_name'' d) of
            (Some i, Some c) \<Rightarrow>
              if \<not> identifier_ok i \<or> \<not> plain_line 512 c then None
              else let item = [(asc ''lead_id'', PStr i), (asc ''company_name'', PStr (redact_text env c 128))]
                   in if dget (asc ''display_text'') d = None then Some (PDict item)
                      else (case sget ''display_text'' d of
                              Some t \<Rightarrow> if plain_line 512 t
                                        then Some (PDict (item @ [(asc ''display_text'', PStr (redact_text env t 128))])) else None
                            | None \<Rightarrow> None)
          | _ \<Rightarrow> None)
      | _ \<Rightarrow> None)"

definition snapshot_ok :: "pyval \<Rightarrow> bool" where
  "snapshot_ok v =
     (case v of
        PDict d \<Rightarrow>
          has_keys [''lead_id'', ''record_id'', ''fields'', ''member_names''] d \<and>
          (case (sget ''lead_id'' d, sget ''record_id'' d) of
             (Some i, Some r) \<Rightarrow> identifier_ok i \<and> identifier_ok r | _ \<Rightarrow> False) \<and>
          (case (py_get (asc ''fields'') d, py_get (asc ''member_names'') d) of
             (PDict f, PDict n) \<Rightarrow>
               list_all (\<lambda>(name, v). 0 < length name \<and> length name \<le> 128) f \<and>
               list_all (\<lambda>(name, v). 0 < length name \<and> length name \<le> 128 \<and>
                 (case v of PStr s \<Rightarrow> length s \<le> 512 | _ \<Rightarrow> False)) n
           | _ \<Rightarrow> False) \<and>
          json_able v
      | _ \<Rightarrow> False)"

definition item_text :: "string \<Rightarrow> pyval \<Rightarrow> pstr option" where
  "item_text k v = (case v of PDict d \<Rightarrow> sget k d | _ \<Rightarrow> None)"

definition snapshots_ok :: "pyval list \<Rightarrow> bool" where
  "snapshots_ok xs = (list_all snapshot_ok xs \<and> distinct (map (item_text ''lead_id'') xs) \<and> distinct (map (item_text ''record_id'') xs))"

definition all_some :: "'a option list \<Rightarrow> 'a list option" where
  "all_some xs = (if None \<in> set xs then None else Some (map the xs))"

definition context_error :: "pyval res" where
  "context_error = Inl (ValueError ''context'')"

definition safe_list_value :: "env \<Rightarrow> pstr \<Rightarrow> pyval list \<Rightarrow> pyval res" where
  "safe_list_value env key xs =
     (let ok_size = (0 < length xs \<and> length xs \<le> 20)
      in if key = asc ''field_names'' \<and> list_all (\<lambda>x. case x of PStr s \<Rightarrow> plain_line 64 s | _ \<Rightarrow> False) xs then Inr (PList xs)
         else if key = asc ''duplicate_leads'' \<and> ok_size
           then (case all_some (map (safe_lead_item env False) xs) of Some ys \<Rightarrow> Inr (PList ys) | None \<Rightarrow> context_error)
         else if key = asc ''candidate_leads'' \<and> ok_size
           then (case all_some (map (safe_lead_item env True) xs) of Some ys \<Rightarrow> Inr (PList ys) | None \<Rightarrow> context_error)
         else if key = asc ''candidate_snapshots'' \<and> ok_size
           then (if snapshots_ok xs then Inr (PList xs) else context_error)
         else if key = asc ''owner_scope_user_ids'' \<and> ok_size \<and>
                 list_all (\<lambda>x. case x of PStr s \<Rightarrow> plain_line 128 s | _ \<Rightarrow> False) xs then Inr (PList (dedup xs))
         else context_error)"

definition safe_value :: "env \<Rightarrow> pstr \<Rightarrow> pyval \<Rightarrow> pyval res" where
  "safe_value env key v =
     (case v of
        PStr s \<Rightarrow>
          if key = asc ''select_all_option_id'' \<and> select_all_pattern s then Inr v
          else if 512 < length s \<or> \<not> no_break s then context_error
          else Inr (PStr (redact_text env s (if key = asc ''reason'' then 256 else 512)))
      | PBool b \<Rightarrow> if key \<in> set (map asc [''segment_index'', ''page'', ''page_count'']) then Inr v else context_error
      | PInt i \<Rightarrow>
          if key \<in> set (map asc [''segment_index'', ''page'', ''page_count'']) \<and> 0 \<le> i then Inr v
          else if key = asc ''target_capture_date'' \<and> 1 \<le> i \<and> i \<le> date_max_ordinal then Inr v
          else context_error
      | PDict d \<Rightarrow>
          if key = asc ''field_values'' \<and> length d \<le> 16 \<and>
             list_all (\<lambda>(n, x). 0 < length n \<and> length n \<le> 64 \<and> (case x of PStr s \<Rightarrow> plain_line 512 s | _ \<Rightarrow> False)) d
          then Inr (PDict (map (\<lambda>(n, x). (n, case x of PStr s \<Rightarrow> PStr (safe_snapshot_value env s) | _ \<Rightarrow> x)) d))
          else context_error
      | PNone \<Rightarrow> if key \<in> set (map asc [''owner_scope_user_ids'', ''target_capture_date'']) then Inr v else context_error
      | PList xs \<Rightarrow> safe_list_value env key xs
      | _ \<Rightarrow> context_error)"

fun safe_items :: "env \<Rightarrow> fields \<Rightarrow> fields res" where
  "safe_items env [] = Inr []"
| "safe_items env ((k, v) # d) =
     (case safe_value env k v of
        Inl e \<Rightarrow> Inl e
      | Inr x \<Rightarrow> (case safe_items env d of Inl e \<Rightarrow> Inl e | Inr r \<Rightarrow> Inr ((k, x) # r)))"

definition safe_context :: "env \<Rightarrow> fields \<Rightarrow> fields res" where
  "safe_context env ctx =
     (if list_ex (\<lambda>(k, v). k \<notin> set CONTEXT_KEYS) ctx then Inl (ValueError ''context'') else safe_items env ctx)"

definition context_lead_ids :: "pyval \<Rightarrow> pstr list" where
  "context_lead_ids v =
     (case v of
        PList xs \<Rightarrow>
          if xs = [] \<or> 20 < length xs then []
          else (case all_some (map (item_text ''lead_id'') xs) of
                  Some is \<Rightarrow> if list_all identifier_ok is \<and> distinct is then is else []
                | None \<Rightarrow> [])
      | _ \<Rightarrow> [])"

definition validate_candidate_snapshot_ids :: "pyval list \<Rightarrow> pyval list \<Rightarrow> bool" where
  "validate_candidate_snapshot_ids candidates snapshots =
     (candidates \<noteq> [] \<and> length candidates = length snapshots \<and>
      (case (all_some (map (item_text ''lead_id'') candidates), all_some (map (item_text ''lead_id'') snapshots)) of
         (Some cs, Some ss) \<Rightarrow> distinct cs \<and> distinct ss \<and> set cs = set ss
       | _ \<Rightarrow> False))"

text \<open>
  The rows a confirmed action submits: rebuilt from the stored snapshots, which must belong to the
  frozen candidates. Member names were checked to be texts when the context was stored.
\<close>

definition snapshot_record :: "pyval \<Rightarrow> (pstr \<times> st_record) option" where
  "snapshot_record v =
     (case v of
        PDict d \<Rightarrow>
          (case (sget ''lead_id'' d, sget ''record_id'' d, py_get (asc ''fields'') d, py_get (asc ''member_names'') d) of
             (Some i, Some r, PDict f, PDict n) \<Rightarrow>
               Some (i, \<lparr>rec_id = r, rec_fields = f,
                         rec_member_names = map (\<lambda>(k, x). (k, case x of PStr s \<Rightarrow> s | _ \<Rightarrow> [])) n\<rparr>)
           | _ \<Rightarrow> None)
      | _ \<Rightarrow> None)"

definition context_smart_table_records :: "pyval \<Rightarrow> pyval \<Rightarrow> st_record list res" where
  "context_smart_table_records snapshots candidates =
     (case (snapshots, candidates) of
        (PList xs, PList cs) \<Rightarrow>
          (case all_some (map snapshot_record xs) of
             None \<Rightarrow> Inl (ValueError ''snapshot'')
           | Some rs \<Rightarrow>
               if \<not> distinct (map fst rs) \<or> \<not> distinct (map (rec_id \<circ> snd) rs) then Inl (ValueError ''snapshot'')
               else if rs = [] \<or> set (map fst rs) \<noteq> set (concat (map (\<lambda>c. case item_text ''lead_id'' c of Some i \<Rightarrow> [i] | None \<Rightarrow> []) cs))
               then Inl (ValueError ''snapshot'')
               else Inr (map snd rs))
      | _ \<Rightarrow> Inl (ValueError ''snapshot''))"

definition discard_candidate_snapshots :: "wecom_action \<Rightarrow> wecom_action" where
  "discard_candidate_snapshots a =
     a\<lparr>wa_context := filter (\<lambda>(k, v). k \<noteq> asc ''candidate_snapshots'') (wa_context a)\<rparr>"

definition safe_operation_payload :: "env \<Rightarrow> fields \<Rightarrow> fields res" where
  "safe_operation_payload env payload =
     (if list_ex (\<lambda>(k, v). k \<noteq> asc ''field_values'') payload then Inl (ValueError ''operation payload'')
      else case py_get (asc ''field_values'') payload of
        PDict d \<Rightarrow>
          if 16 < length d \<or> \<not> list_all (\<lambda>(n, x). 0 < length n \<and> length n \<le> 64 \<and>
               (case x of PStr s \<Rightarrow> 0 < length s \<and> length s \<le> 512 | _ \<Rightarrow> False)) d
          then Inl (ValueError ''operation payload'')
          else Inr [(asc ''field_values'', PDict (map (\<lambda>(n, x). (n, case x of PStr s \<Rightarrow> PStr (safe_snapshot_value env s) | _ \<Rightarrow> x)) d))]
      | _ \<Rightarrow> Inl (ValueError ''operation payload''))"

definition issuance_key :: "env \<Rightarrow> pstr \<Rightarrow> string \<Rightarrow> pstr \<Rightarrow> pstr \<Rightarrow> fields \<Rightarrow> pstr" where
  "issuance_key env actor action_type target_type target_id ctx =
     e_sha256 env (py_join [0x7C] [actor, asc action_type, target_type, target_id, e_json env True ctx])"

section \<open>Texts\<close>

definition t_batch_menu :: pstr where [vocab]: "t_batch_menu = [0x6279, 0x91CF, 0x64CD, 0x4F5C]"
definition t_all_page :: pstr where [vocab]: "t_all_page = [0x5168, 0x9009, 0x672C, 0x9875]"
definition t_confirmed :: pstr where [vocab]: "t_confirmed = [0x5DF2, 0x786E, 0x8BA4, 0x63D0, 0x4EA4]"
definition t_state :: pstr where [vocab]: "t_state = [0x64CD, 0x4F5C, 0x72B6, 0x6001]"
definition t_list_names :: pstr where [vocab]: "t_list_names = [0x5F85, 0x63D0, 0x4EA4, 0x7EBF, 0x7D22]"
definition t_list_details :: pstr where [vocab]: "t_list_details = [0x5F85, 0x63D0, 0x4EA4, 0x7EBF, 0x7D22, 0x660E, 0x7EC6]"
definition t_page_open :: pstr where [vocab]: "t_page_open = [0xFF08, 0x7B2C, 0x20]"
definition t_page_close :: pstr where [vocab]: "t_page_close = [0x20, 0x9875, 0xFF09, 0x2A, 0x2A]"
definition t_lacking :: pstr where [vocab]: "t_lacking = [0x2D, 0x20, 0x7F3A, 0x5C11, 0xFF1A]"
definition t_num_open :: pstr where [vocab]: "t_num_open = [0x3010]"
definition t_num_close :: pstr where [vocab]: "t_num_close = [0x3011]"

definition py_replace :: "cp \<Rightarrow> pstr \<Rightarrow> pstr \<Rightarrow> pstr" where
  "py_replace c r s = concat (map (\<lambda>x. if x = c then r else [x]) s)"

definition escape_markdown :: "pstr \<Rightarrow> pstr" where
  "escape_markdown s =
     py_replace 0x5F [0x5C, 0x5F] (py_replace 0x2A [0x5C, 0x2A] (py_replace 0x60 [0x5C, 0x60] (py_replace 0x5C [0x5C, 0x5C] s)))"

text \<open>\<^verbatim>\<open>str.splitlines()\<close> and \<^verbatim>\<open>str.partition(sep)\<close>.\<close>

definition line_break :: "cp \<Rightarrow> bool" where
  "line_break c = (c \<in> {0x0A, 0x0B, 0x0C, 0x0D, 0x1C, 0x1D, 0x1E, 0x85, 0x2028, 0x2029})"

function py_splitlines :: "pstr \<Rightarrow> pstr list" where
  "py_splitlines s =
     (if s = [] then []
      else case dropWhile (\<lambda>c. \<not> line_break c) s of
        [] \<Rightarrow> [s]
      | b # t \<Rightarrow> takeWhile (\<lambda>c. \<not> line_break c) s #
                 py_splitlines (if b = 0x0D \<and> t \<noteq> [] \<and> hd t = 0x0A then tl t else t))"
  by pat_completeness auto
termination
proof (relation "measure length")
  fix s b and t :: pstr
  assume "dropWhile (\<lambda>c. \<not> line_break c) s = b # t"
  then have "length t < length s" using length_dropWhile_le [of "\<lambda>c. \<not> line_break c" s] by simp
  then show "(if b = 0x0D \<and> t \<noteq> [] \<and> hd t = 0x0A then tl t else t, s) \<in> measure length"
    by (cases t) auto
qed simp

declare py_splitlines.simps [simp del]

fun py_partition :: "pstr \<Rightarrow> pstr \<Rightarrow> (pstr \<times> pstr) option" where
  "py_partition sep [] = (if sep = [] then Some ([], []) else None)"
| "py_partition sep (c # s) =
     (if prefix sep (c # s) then Some ([], drop (length sep) (c # s))
      else map_option (\<lambda>(a, b). (c # a, b)) (py_partition sep s))"

definition join_line :: "pstr \<Rightarrow> pstr \<Rightarrow> pstr" where
  "join_line a b = a @ [0x0A] @ b"

primrec split_markdown_acc :: "pstr list \<Rightarrow> pstr \<Rightarrow> pstr list \<Rightarrow> pstr list" where
  "split_markdown_acc chunks current [] = (if current = [] then chunks else chunks @ [current])"
| "split_markdown_acc chunks current (l # ls) =
     (let candidate = (if current = [] then l else join_line current l)
      in if 480 < length candidate \<and> current \<noteq> [] then split_markdown_acc (chunks @ [current]) l ls
         else split_markdown_acc chunks candidate ls)"

definition split_markdown_lines :: "pstr \<Rightarrow> pstr list" where
  "split_markdown_lines summary =
     (let chunks = split_markdown_acc [] [] (py_splitlines summary) in if chunks = [] then [summary] else chunks)"

primrec split_detail_acc :: "pstr list \<Rightarrow> pstr \<Rightarrow> pstr list \<Rightarrow> pstr list" where
  "split_detail_acc chunks current [] = (if current = t_detail then chunks else chunks @ [current])"
| "split_detail_acc chunks current (l # ls) =
     (let candidate = join_line current l
      in if 480 < length candidate \<and> current \<noteq> t_detail
         then split_detail_acc (chunks @ [current]) (join_line t_detail l) ls
         else split_detail_acc chunks candidate ls)"

definition split_result_notifications :: "pstr \<Rightarrow> pstr list" where
  "split_result_notifications summary =
     (if length summary \<le> 480 then [summary]
      else case py_partition t_detail_sep summary of
        None \<Rightarrow> split_markdown_lines summary
      | Some (overview, detail) \<Rightarrow> split_detail_acc [overview] t_detail (py_splitlines detail))"

section \<open>Previews\<close>

definition SUBMISSION_PREVIEW_FIELDS :: "pstr list" where
  "SUBMISSION_PREVIEW_FIELDS = [f_business_line, f_lead_name, f_lead_source, f_contact, f_title, f_comm_way, f_mobile, f_remark,
     f_industry, f_submit_status]"

definition preview_card_value :: "env \<Rightarrow> pyval \<Rightarrow> pstr" where
  "preview_card_value env v =
     (if v \<in> {PNone, PStr [], PList [], PDict []} then t_empty_value
      else let text = (case v of PList _ \<Rightarrow> e_json_text env True v | PDict _ \<Rightarrow> e_json_text env True v | _ \<Rightarrow> py_str env v)
           in take 512 (py_join [0x20] (py_split (py_replace 0x0A [0x20] (py_replace 0x0D [0x20] text)))))"

definition preview_item :: "env \<Rightarrow> fields \<Rightarrow> pstr \<Rightarrow> pstr" where
  "preview_item env flds name =
     (let v0 = py_strip (preview_card_value env (py_get name flds));
          v1 = (if v0 = [] then t_empty_value else v0);
          v = (if 48 < length v1 then take 47 v1 @ t_ellipsis else v1);
          rendered = escape_markdown v
      in name @ r_colon @ (if v = t_empty_value then asc ''**'' @ rendered @ asc ''**'' else rendered))"

definition submission_preview_lines :: "env \<Rightarrow> fields \<Rightarrow> pstr list" where
  "submission_preview_lines env flds =
     (let items = map (preview_item env flds) SUBMISSION_PREVIEW_FIELDS
      in [py_join t_bar (take 3 items), py_join t_bar (take 3 (drop 3 items)), py_join t_bar (drop 6 items)])"

definition build_preview_markdown :: "env \<Rightarrow> fields \<Rightarrow> pstr" where
  "build_preview_markdown env flds = py_join [0x0A] (t_preview_head # submission_preview_lines env flds @ [t_preview_tail])"

definition utf8_len :: "pstr \<Rightarrow> nat" where
  "utf8_len s = sum_list (map (\<lambda>c. if c < 0x80 then 1 else if c < 0x800 then 2 else if c < 0x10000 then 3 else 4) s)"

definition candidate_block :: "env \<Rightarrow> bool \<Rightarrow> nat \<Rightarrow> fields \<Rightarrow> pstr option" where
  "candidate_block env name_only index c =
     (case sget ''company_name'' c of
        None \<Rightarrow> None
      | Some company \<Rightarrow>
          if company = [] then None
          else let label0 = (if name_only then company
                 else case sget ''display_text'' c of Some t \<Rightarrow> if t = [] then company else t | None \<Rightarrow> company);
               label1 = py_join [0x20] (py_split label0);
               label = (if 80 < length label1 then take 79 label1 @ t_ellipsis else label1);
               flds = (case py_get (asc ''field_values'') c of PDict f \<Rightarrow> f | _ \<Rightarrow> []);
               missing = (case py_get (asc ''missing_fields'') c of
                  PList xs \<Rightarrow> if xs \<noteq> [] \<and> list_all is_str xs \<and> \<not> name_only
                              then [t_lacking @ escape_markdown (py_join r_pause (map (\<lambda>x. case x of PStr s \<Rightarrow> s | _ \<Rightarrow> []) xs))] else []
                | _ \<Rightarrow> [])
             in Some (py_join [0x0A] ((t_num_open @ digits_of index @ t_num_close @ escape_markdown label) # missing @
                   (if name_only then [] else submission_preview_lines env flds))))"

primrec pack_blocks :: "pstr \<Rightarrow> pstr list \<Rightarrow> pstr \<Rightarrow> pstr list \<Rightarrow> pstr list" where
  "pack_blocks header chunks current [] = chunks @ [current]"
| "pack_blocks header chunks current (b # bs) =
     (let candidate = current @ [0x0A, 0x0A] @ b
      in if 4096 < utf8_len candidate \<and> current \<noteq> header
         then pack_blocks header (chunks @ [current]) (header @ [0x0A, 0x0A] @ b) bs
         else pack_blocks header chunks candidate bs)"

definition build_batch_submission_markdown :: "env \<Rightarrow> fields list \<Rightarrow> int \<Rightarrow> int \<Rightarrow> bool \<Rightarrow> pstr list res" where
  "build_batch_submission_markdown env candidates page page_count name_only =
     (if page < 1 \<or> page_count < page \<or> candidates = [] then Inl (ValueError ''page'')
      else case all_some (map (\<lambda>(i, c). candidate_block env name_only i c) (zip [1..<Suc (length candidates)] candidates)) of
        None \<Rightarrow> Inl (ValueError ''company_name'')
      | Some blocks \<Rightarrow>
          (let header = asc ''**'' @ (if name_only then t_list_names else t_list_details) @ t_page_open @
                 str_of_int page @ [0x2F] @ str_of_int page_count @ t_page_close
           in Inr (pack_blocks header [] header blocks)))"

section \<open>The card\<close>

definition batch_submission_card_copy :: "pstr \<Rightarrow> int \<Rightarrow> int \<Rightarrow> pstr \<times> pstr" where
  "batch_submission_card_copy command_text page page_count =
     (let title = (if py_contains t_word_abandoned command_text then t_title_abandoned else t_title_select);
          suf = (if 1 < page_count then t_page_a @ str_of_int page @ [0x2F] @ str_of_int page_count @ t_page_b else [])
      in (title @ suf, t_desc_batch @ suf))"

definition vote_option :: "pstr \<Rightarrow> pstr \<Rightarrow> pyval" where
  "vote_option i t = PDict [(asc ''id'', PStr i), (asc ''text'', PStr t), (asc ''is_checked'', PBool False)]"

definition card_option :: "nat \<times> pyval \<Rightarrow> pyval list" where
  "card_option x =
     (case snd x of
        PDict d \<Rightarrow>
          (case (sget ''lead_id'' d, sget ''company_name'' d) of
             (Some i, Some c) \<Rightarrow> [vote_option i (digits_of (fst x) @ asc ''. '' @ take 56 c)]
           | _ \<Rightarrow> [])
      | _ \<Rightarrow> [])"

record card_request =
  cr_task_id :: pstr
  cr_event_key :: pstr
  cr_title :: pstr
  cr_description :: pstr
  cr_duplicate_leads :: pyval
  cr_selection_options :: pyval
  cr_selection_key :: pstr
  cr_select_all_option_id :: pyval
  cr_has_preview :: bool

definition button_card :: "card_request \<Rightarrow> fields" where
  "button_card q =
     [(asc ''card_type'', PStr (asc ''button_interaction'')), (asc ''task_id'', PStr (cr_task_id q)),
      (asc ''main_title'', PDict [(asc ''title'', PStr (cr_title q)), (asc ''desc'', PStr (cr_description q))]),
      (asc ''button_list'', PList [PDict [(asc ''text'', PStr t_confirm), (asc ''style'', PInt 1), (asc ''key'', PStr (cr_event_key q))]])] @
     (if cr_has_preview q
      then [(asc ''horizontal_content_list'', PList [PDict [(asc ''keyname'', PStr t_preview_name), (asc ''value'', PStr t_preview_value)]])]
      else [])"

definition vote_options :: "card_request \<Rightarrow> pyval list \<Rightarrow> pyval list res" where
  "vote_options q xs =
     (let opts = concat (map card_option (zip [1..<Suc (length xs)] xs))
      in case cr_select_all_option_id q of
           PNone \<Rightarrow> Inr opts
         | PStr a \<Rightarrow>
             if cr_selection_key q \<noteq> CARD_EVENT_KEY_CRM_BATCH_SUBMISSION \<or> \<not> identifier_ok a \<or> 20 \<le> length opts \<or>
                list_ex (\<lambda>x. item_text ''id'' x = Some a) opts
             then Inl (ValueError ''select_all'')
             else Inr (vote_option a (t_all_a @ digits_of (length opts) @ t_all_b) # opts)
         | _ \<Rightarrow> Inl (ValueError ''select_all''))"

definition vote_card :: "card_request \<Rightarrow> pyval list \<Rightarrow> fields" where
  "vote_card q opts =
     (let selecting = (cr_selection_options q \<noteq> PNone);
          batch = (cr_selection_key q = CARD_EVENT_KEY_CRM_BATCH_SUBMISSION);
          submit_key = (if cr_selection_key q = [] then CARD_EVENT_KEY_CRM_DUPLICATE_CONTINUE else cr_selection_key q)
      in dset (asc ''card_type'') (PStr (asc ''vote_interaction'')) (filter (\<lambda>(k, v). k \<noteq> asc ''button_list'') (button_card q)) @
         [(asc ''checkbox'', PDict [(asc ''question_key'', PStr (if selecting then asc ''crm_submission_candidates'' else asc ''crm_duplicate_leads'')),
            (asc ''mode'', PInt (if batch then 1 else if selecting then 0 else 1)), (asc ''option_list'', PList opts)]),
          (asc ''submit_button'', PDict [(asc ''text'', PStr (if batch then t_submit_batch else if selecting then t_submit_choice else t_submit_continue)),
            (asc ''key'', PStr submit_key)])] @
         (if \<not> batch \<and> \<not> selecting
          then [(asc ''action_menu'', PDict [(asc ''desc'', PStr t_menu_dup),
                  (asc ''action_list'', PList [PDict [(asc ''text'', PStr t_stop), (asc ''key'', PStr CARD_EVENT_KEY_CRM_DUPLICATE_STOP)]])])]
          else []))"

definition build_action_card :: "env \<Rightarrow> card_request \<Rightarrow> fields res" where
  "build_action_card env q =
     (let options = (if cr_selection_options q \<noteq> PNone then cr_selection_options q else cr_duplicate_leads q);
          tcard = (case options of
             PList xs \<Rightarrow> if xs = [] then Inr (button_card q)
                         else (case vote_options q xs of Inl e \<Rightarrow> Inl e | Inr opts \<Rightarrow> Inr (vote_card q opts))
           | _ \<Rightarrow> Inr (button_card q))
      in case tcard of
           Inl e \<Rightarrow> Inl e
         | Inr c \<Rightarrow> if 8192 < utf8_len (e_json_text env False (PDict c)) then Inl (ValueError ''card size'') else Inr c)"

end
