(* ===== verification/Wecom_Callback.thy ===== *)
theory Wecom_Callback
  imports Wecom_Card
begin

text \<open>
  Issuing an action card and accepting its callback (\<^verbatim>\<open>WecomActionService.issue_action\<close>, \<^verbatim>\<open>TemplateCardCallbackParser\<close>,
  \<^verbatim>\<open>WecomActionService.claim_callback\<close> in \<^verbatim>\<open>app/wecom_bot/actions.py\<close>). Each is one transaction: an
  exception rolls it back. The action and task identifiers drawn for a new action are arguments. A callback frame is a
  dictionary of Python values. The savepoint branches that absorb a competing insert are not
  taken, since transactions are serialised.
\<close>

section \<open>The update of a voted card\<close>

record frozen_card_update =
  fu_task_id :: pstr
  fu_title :: pstr
  fu_description :: pstr
  fu_question_key :: pstr
  fu_mode :: int
  fu_options :: "(pstr \<times> pstr \<times> bool) list"
  fu_submit_text :: pstr
  fu_submit_key :: pstr
  fu_disable :: bool
  fu_replace_text :: "pstr option"
  fu_include_select_all_action :: bool

datatype frozen_update = Frozen_Vote frozen_card_update | Frozen_Button pstr pstr

definition vote_payload :: "frozen_card_update \<Rightarrow> fields" where
  "vote_payload u =
     [(asc ''card_type'', PStr (asc ''vote_interaction'')), (asc ''task_id'', PStr (fu_task_id u)),
      (asc ''main_title'', PDict [(asc ''title'', PStr (fu_title u)), (asc ''desc'', PStr (fu_description u))]),
      (asc ''checkbox'', PDict [(asc ''question_key'', PStr (fu_question_key u)),
         (asc ''option_list'', PList (map (\<lambda>(i, t, c). PDict [(asc ''id'', PStr i), (asc ''text'', PStr t), (asc ''is_checked'', PBool c)]) (fu_options u))),
         (asc ''disable'', PBool (fu_disable u)), (asc ''mode'', PInt (fu_mode u))]),
      (asc ''submit_button'', PDict [(asc ''text'', PStr (fu_submit_text u)), (asc ''key'', PStr (fu_submit_key u))])] @
     (if fu_include_select_all_action u
      then [(asc ''action_menu'', PDict [(asc ''desc'', PStr t_batch_menu),
              (asc ''action_list'', PList [PDict [(asc ''text'', PStr t_all_page), (asc ''key'', PStr CARD_EVENT_KEY_CRM_BATCH_SELECT_ALL)]])])]
      else []) @
     (case fu_replace_text u of Some t \<Rightarrow> [(asc ''replace_text'', PStr t)] | None \<Rightarrow> [])"

definition button_payload :: "pstr \<Rightarrow> pstr \<Rightarrow> fields" where
  "button_payload task_id action_key =
     [(asc ''card_type'', PStr (asc ''button_interaction'')), (asc ''task_id'', PStr task_id),
      (asc ''main_title'', PDict [(asc ''title'', PStr t_title_company), (asc ''desc'', PStr t_in_progress)]),
      (asc ''button_list'', PList [PDict [(asc ''text'', PStr t_confirm), (asc ''style'', PInt 1), (asc ''key'', PStr action_key)]]),
      (asc ''replace_text'', PStr t_confirmed)]"

definition batch_command_ok :: "fields \<Rightarrow> bool" where
  "batch_command_ok ctx =
     (case sget ''command_text'' ctx of Some c \<Rightarrow> c \<in> {c_abandoned, c_today, c_all_mine, c_cross_owner} | None \<Rightarrow> False)"

text \<open>The title and description the card had when it was issued, if its context still describes one.\<close>

definition frozen_copy :: "wecom_action \<Rightarrow> (pstr \<times> pstr) option" where
  "frozen_copy a =
     (let ctx = wa_context a
      in if wa_action_type a = ''crm_batch_submission''
         then (case (sget ''command_text'' ctx, py_get (asc ''page'') ctx, py_get (asc ''page_count'') ctx) of
                 (Some c, PInt page, PInt page_count) \<Rightarrow>
                   if \<not> batch_command_ok ctx \<or> page < 1 \<or> page_count < page \<or> wa_expected_action_key a \<noteq> CARD_EVENT_KEY_CRM_BATCH_SUBMISSION
                   then None
                   else if (if c = c_cross_owner
                            then (case py_get (asc ''owner_scope_user_ids'') ctx of
                                    PList us \<Rightarrow> us \<noteq> [] \<and> list_all (\<lambda>u. case u of PStr s \<Rightarrow> s \<noteq> [] | _ \<Rightarrow> False) us | _ \<Rightarrow> False)
                            else py_get (asc ''owner_scope_user_ids'') ctx = PNone)
                   then Some (batch_submission_card_copy c page page_count)
                   else None
               | _ \<Rightarrow> None)
         else if wa_action_type a = ''crm_company_submission_confirmation'' \<and> wa_target_type a = asc ''crm_company_candidates'' \<and>
                 wa_expected_action_key a = CARD_EVENT_KEY_CRM_COMPANY_CONFIRM
         then Some (t_title_select, the_default t_in_progress (sget ''card_description'' ctx))
         else if wa_action_type a = ''crm_duplicate_confirmation'' then Some (t_dup_found, t_dup_progress)
         else None)"

definition select_all_ok :: "wecom_action \<Rightarrow> pstr list \<Rightarrow> bool" where
  "select_all_ok a candidate_ids =
     (case py_get (asc ''select_all_option_id'') (wa_context a) of
        PNone \<Rightarrow> True
      | PStr s \<Rightarrow> identifier_ok s \<and> s = asc ''all-'' @ take 24 (wa_target_id a) \<and> s \<notin> set candidate_ids \<and> length candidate_ids < 20
      | _ \<Rightarrow> False)"

definition frozen_option :: "pstr list \<Rightarrow> pyval \<Rightarrow> (pstr \<times> pstr \<times> bool) option" where
  "frozen_option selected x =
     (case (item_text ''id'' x, item_text ''text'' x) of (Some i, Some t) \<Rightarrow> Some (i, t, i \<in> set selected) | _ \<Rightarrow> None)"

definition freeze_card :: "wecom_action \<Rightarrow> pstr list \<Rightarrow> pstr list \<Rightarrow> bool \<Rightarrow> pstr option \<Rightarrow> bool \<Rightarrow> fields \<Rightarrow> frozen_card_update option" where
  "freeze_card a expected selected disable replace include_all tcard =
     (case (py_get (asc ''main_title'') tcard, py_get (asc ''checkbox'') tcard, py_get (asc ''submit_button'') tcard) of
        (PDict mt, PDict cb, PDict sb) \<Rightarrow>
          (case py_get (asc ''option_list'') cb of
             PList raw \<Rightarrow>
               if py_get (asc ''card_type'') tcard \<noteq> PStr (asc ''vote_interaction'') \<or> map (item_text ''id'') raw \<noteq> map Some expected then None
               else (case (all_some (map (frozen_option selected) raw), sget ''title'' mt, sget ''desc'' mt, sget ''question_key'' cb,
                           py_get (asc ''mode'') cb, sget ''text'' sb, sget ''key'' sb) of
                       (Some opts, Some t, Some ds, Some q, PInt m, Some st, Some sk) \<Rightarrow>
                         Some \<lparr>fu_task_id = wa_task_id a, fu_title = t, fu_description = ds, fu_question_key = q, fu_mode = m,
                           fu_options = opts, fu_submit_text = st, fu_submit_key = sk, fu_disable = disable,
                           fu_replace_text = replace, fu_include_select_all_action = include_all\<rparr>
                     | _ \<Rightarrow> None)
           | _ \<Rightarrow> None)
      | _ \<Rightarrow> None)"

definition freeze_vote_card_update ::
  "env \<Rightarrow> wecom_action \<Rightarrow> pstr list \<Rightarrow> bool \<Rightarrow> pstr option \<Rightarrow> bool \<Rightarrow> frozen_card_update option res" where
  "freeze_vote_card_update env a selected disable replace include_all =
     (let dup = (wa_action_type a = ''crm_duplicate_confirmation'');
          candidates = py_get (asc (if dup then ''duplicate_leads'' else ''candidate_leads'')) (wa_context a);
          ids = context_lead_ids candidates;
          all_id = py_get (asc ''select_all_option_id'') (wa_context a)
      in if ids = [] then Inr None
         else case frozen_copy a of
           None \<Rightarrow> Inr None
         | Some (title, description) \<Rightarrow>
             if \<not> select_all_ok a ids then Inr None
             else (case build_action_card env \<lparr>cr_task_id = wa_task_id a, cr_event_key = wa_expected_action_key a, cr_title = title,
                      cr_description = description, cr_duplicate_leads = (if dup then candidates else PNone),
                      cr_selection_options = (if dup then PNone else candidates), cr_selection_key = wa_expected_action_key a,
                      cr_select_all_option_id = all_id, cr_has_preview = False\<rparr> of
                     Inl e \<Rightarrow> Inl e
                   | Inr tcard \<Rightarrow>
                       Inr (freeze_card a ((case all_id of PStr s \<Rightarrow> [s] | _ \<Rightarrow> []) @ ids) selected disable replace include_all tcard)))"

section \<open>Issuing an action\<close>

record action_request =
  aq_actor_user_id :: pstr
  aq_action_type :: string
  aq_target_type :: pstr
  aq_target_id :: pstr
  aq_expected_action_key :: pstr
  aq_context :: fields
  aq_title :: pstr
  aq_description :: pstr
  aq_source_message_id :: "pstr option"
  aq_expires_at :: "time option"
  aq_preview_fields :: "fields option"
  aq_preview_markdown_chunks :: "pstr list"
  aq_defer_delivery :: bool

definition actor_enabled :: "db \<Rightarrow> pstr \<Rightarrow> bool" where
  "actor_enabled d u = (case get_actor d u of None \<Rightarrow> False | Some a \<Rightarrow> sa_is_active a)"

definition card_notice_key :: "env \<Rightarrow> pstr \<Rightarrow> pstr" where
  "card_notice_key env action_id = e_sha256 env (asc ''wecom_action_card:'' @ action_id)"

definition preview_notices :: "env \<Rightarrow> time \<Rightarrow> pstr \<Rightarrow> action_request \<Rightarrow> pstr list \<Rightarrow> notification_record list" where
  "preview_notices env now action_id q chunks =
     map (\<lambda>(i, markdown).
       (blank_notice (e_sha256 env (asc ''wecom_action_preview:'' @ action_id @ asc '':'' @ digits_of i)) (aq_actor_user_id q)
          (case aq_source_message_id q of Some m \<Rightarrow> if m = [] then action_id else m | None \<Rightarrow> action_id) ''wecom_action_preview'' (now + int i))
       \<lparr>nr_content := Some t_preview_content,
        nr_payload := Some [(asc ''msgtype'', PStr (asc ''markdown'')), (asc ''markdown'', PDict [(asc ''content'', PStr markdown)]),
          (asc ''delivery_pending'', PBool (aq_defer_delivery q))]\<rparr>) (zip [0..<length chunks] chunks)"

definition card_notice :: "env \<Rightarrow> time \<Rightarrow> pstr \<Rightarrow> action_request \<Rightarrow> fields \<Rightarrow> notification_record" where
  "card_notice env now action_id q tcard =
     (blank_notice (card_notice_key env action_id) (aq_actor_user_id q)
        (case aq_source_message_id q of Some m \<Rightarrow> if m = [] then action_id else m | None \<Rightarrow> action_id) ''wecom_action_card'' now)
     \<lparr>nr_content := Some (aq_description q),
      nr_payload := Some [(asc ''msgtype'', PStr (asc ''template_card'')), (asc ''delivery_pending'', PBool (aq_defer_delivery q)),
        (asc ''template_card'', PDict tcard)]\<rparr>"

definition new_action :: "env \<Rightarrow> time \<Rightarrow> time \<Rightarrow> pstr \<Rightarrow> pstr \<Rightarrow> action_request \<Rightarrow> fields \<Rightarrow> wecom_action" where
  "new_action env now action_expiry action_id task_id q ctx =
     \<lparr>wa_id = action_id, wa_task_id = task_id,
      wa_issuance_key = Some (issuance_key env (aq_actor_user_id q) (aq_action_type q) (aq_target_type q) (aq_target_id q) ctx),
      wa_action_type = aq_action_type q, wa_bound_actor = aq_actor_user_id q, wa_target_type = aq_target_type q,
      wa_target_id = aq_target_id q, wa_expected_action_key = aq_expected_action_key q, wa_status = ''pending'',
      wa_expires_at = the_default (now + action_expiry) (aq_expires_at q), wa_claimed_at = None,
      wa_processing_lease_expires_at = None, wa_processed_at = None, wa_result_code = None, wa_result_summary = None,
      wa_context = ctx, wa_created_at = now\<rparr>"

definition card_request_of :: "action_request \<Rightarrow> pstr \<Rightarrow> fields \<Rightarrow> card_request" where
  "card_request_of q task_id ctx =
     \<lparr>cr_task_id = task_id, cr_event_key = aq_expected_action_key q, cr_title = aq_title q, cr_description = aq_description q,
      cr_duplicate_leads = py_get (asc ''duplicate_leads'') ctx, cr_selection_options = py_get (asc ''candidate_leads'') ctx,
      cr_selection_key = aq_expected_action_key q, cr_select_all_option_id = py_get (asc ''select_all_option_id'') ctx,
      cr_has_preview = (aq_preview_fields q \<noteq> None)\<rparr>"

text \<open>
  \<open>ready\<close> is the verified card capability, \<open>CardCapabilityUnavailable\<close> a runtime error. The result is the
  action, new or found under the same issuance key.
\<close>

definition issue_action ::
  "env \<Rightarrow> bool \<Rightarrow> time \<Rightarrow> time \<Rightarrow> pstr \<Rightarrow> pstr \<Rightarrow> action_request \<Rightarrow> db \<Rightarrow> (wecom_action \<times> db) res" where
  "issue_action env ready action_expiry now action_id task_id q d =
     (if \<not> ready then Inl (RuntimeError ''CardCapabilityUnavailable'')
      else case validate_action_definition (aq_action_type q) (aq_expected_action_key q) (aq_target_type q) (aq_target_id q) of
        Inl e \<Rightarrow> Inl e
      | Inr _ \<Rightarrow>
          if \<not> plain_line 128 (aq_title q) \<or> \<not> plain_line 256 (aq_description q) then Inl (ValueError ''card text'')
          else case safe_context env (aq_context q) of
            Inl e \<Rightarrow> Inl e
          | Inr ctx \<Rightarrow>
              if requires_active_sales_authorization (aq_action_type q) ctx \<and> \<not> actor_enabled d (aq_actor_user_id q)
              then Inl (PermissionError ''actor'')
              else let a = new_action env now action_expiry action_id task_id q ctx
                   in case tget wa_issuance_key (wa_issuance_key a) (wecom_actions d) of
                        Some existing \<Rightarrow> Inr (existing, d)
                      | None \<Rightarrow>
                          (let chunks = (case aq_preview_fields q of
                                 Some f \<Rightarrow> [build_preview_markdown env f] | None \<Rightarrow> aq_preview_markdown_chunks q)
                           in if [] \<in> set chunks then Inl (ValueError ''markdown'')
                              else case build_action_card env (card_request_of q task_id ctx) of
                                Inl e \<Rightarrow> Inl e
                              | Inr tcard \<Rightarrow>
                                  Inr (a, d\<lparr>wecom_actions := tadd a (wecom_actions d),
                                    notification_records := notification_records d @ preview_notices env now action_id q chunks @
                                      [card_notice env now action_id q tcard]\<rparr>)))"

section \<open>The kinds of actions\<close>

definition join_pause :: "pstr list \<Rightarrow> pstr" where
  "join_pause xs = py_join r_pause xs"

definition field_confirmation_request :: "pstr \<Rightarrow> pstr \<Rightarrow> pstr list \<Rightarrow> pstr \<Rightarrow> pstr \<Rightarrow> fields option \<Rightarrow> action_request" where
  "field_confirmation_request actor lead_id names command_text message_id values =
     \<lparr>aq_actor_user_id = actor, aq_action_type = ''crm_field_confirmation'', aq_target_type = asc ''lead'', aq_target_id = lead_id,
      aq_expected_action_key = CARD_EVENT_KEY_CRM_FIELD_CONFIRM,
      aq_context = [(asc ''field_names'', PList (map PStr names)), (asc ''command_text'', PStr command_text),
        (asc ''request_message_id'', PStr message_id)] @
        (case values of Some v \<Rightarrow> [(asc ''field_values'', PDict v)] | None \<Rightarrow> []),
      aq_title = t_title_fields, aq_description = t_desc_fields @ join_pause names, aq_source_message_id = Some message_id,
      aq_expires_at = None, aq_preview_fields = None, aq_preview_markdown_chunks = [], aq_defer_delivery = False\<rparr>"

definition opt_list :: "pstr list option \<Rightarrow> pyval" where
  "opt_list x = (case x of None \<Rightarrow> PNone | Some us \<Rightarrow> PList (map PStr us))"

definition opt_ordinal :: "int option \<Rightarrow> pyval" where
  "opt_ordinal x = (case x of None \<Rightarrow> PNone | Some n \<Rightarrow> PInt n)"

text \<open>The duplicates arrive as pairs of lead and company; a date is given by its proleptic ordinal.\<close>

definition duplicate_confirmation_request ::
  "env \<Rightarrow> pstr \<Rightarrow> pstr \<Rightarrow> (pstr \<times> pstr) list \<Rightarrow> pstr list option \<Rightarrow> int option \<Rightarrow> action_request" where
  "duplicate_confirmation_request env actor message_id duplicates owner_scope date =
     \<lparr>aq_actor_user_id = actor, aq_action_type = ''crm_duplicate_confirmation'', aq_target_type = asc ''crm_submission'',
      aq_target_id = e_sha256 env message_id, aq_expected_action_key = CARD_EVENT_KEY_CRM_DUPLICATE_CONTINUE,
      aq_context = [(asc ''duplicate_leads'', PList (map (\<lambda>(i, c). PDict [(asc ''lead_id'', PStr i), (asc ''company_name'', PStr c)]) duplicates)),
        (asc ''request_message_id'', PStr message_id), (asc ''owner_scope_user_ids'', opt_list owner_scope),
        (asc ''target_capture_date'', opt_ordinal date)],
      aq_title = t_title_dup, aq_description = t_desc_dup_a @ take 180 (join_pause (map snd duplicates)) @ t_desc_dup_b,
      aq_source_message_id = Some message_id, aq_expires_at = None, aq_preview_fields = None, aq_preview_markdown_chunks = [],
      aq_defer_delivery = False\<rparr>"

record batch_request =
  bq_actor_user_id :: pstr
  bq_request_message_id :: pstr
  bq_command_text :: pstr
  bq_candidates :: "fields list"
  bq_candidate_snapshots :: "fields list option"
  bq_preview_markdown_chunks :: "pstr list"
  bq_defer_delivery :: bool
  bq_page :: int
  bq_page_count :: int
  bq_owner_scope_user_ids :: "pstr list option"
  bq_target_capture_date :: "int option"

definition opt_snapshots :: "fields list option \<Rightarrow> fields" where
  "opt_snapshots x = (case x of Some ss \<Rightarrow> [(asc ''candidate_snapshots'', PList (map PDict ss))] | None \<Rightarrow> [])"

definition batch_scope_ok :: "batch_request \<Rightarrow> bool" where
  "batch_scope_ok b =
     (if bq_command_text b = c_cross_owner
      then (case bq_owner_scope_user_ids b of
              Some us \<Rightarrow> us \<noteq> [] \<and> length us \<le> 20 \<and> [] \<notin> set us | None \<Rightarrow> False)
      else bq_owner_scope_user_ids b = None \<and> (bq_target_capture_date b = None \<or> bq_command_text b = c_all_mine))"

definition batch_target_id :: "env \<Rightarrow> batch_request \<Rightarrow> pstr" where
  "batch_target_id env b = e_sha256 env (asc ''crm-batch-submission:'' @ bq_request_message_id b @ asc '':'' @ bq_command_text b @
     asc '':page:'' @ str_of_int (bq_page b))"

definition batch_submission_request :: "env \<Rightarrow> batch_request \<Rightarrow> action_request" where
  "batch_submission_request env b =
     (let target_id = batch_target_id env b; cp = batch_submission_card_copy (bq_command_text b) (bq_page b) (bq_page_count b)
      in \<lparr>aq_actor_user_id = bq_actor_user_id b, aq_action_type = ''crm_batch_submission'', aq_target_type = asc ''crm_batch_submission'',
          aq_target_id = target_id, aq_expected_action_key = CARD_EVENT_KEY_CRM_BATCH_SUBMISSION,
          aq_context = [(asc ''command_text'', PStr (bq_command_text b)), (asc ''request_message_id'', PStr (bq_request_message_id b)),
            (asc ''candidate_leads'', PList (map PDict (bq_candidates b)))] @ opt_snapshots (bq_candidate_snapshots b) @
            [(asc ''select_all_option_id'', PStr (asc ''all-'' @ take 24 target_id)),
             (asc ''page'', PInt (bq_page b)), (asc ''page_count'', PInt (bq_page_count b)),
             (asc ''owner_scope_user_ids'', opt_list (map_option dedup (bq_owner_scope_user_ids b))),
             (asc ''target_capture_date'', opt_ordinal (bq_target_capture_date b))],
          aq_title = fst cp, aq_description = snd cp, aq_source_message_id = Some (bq_request_message_id b), aq_expires_at = None,
          aq_preview_fields = None, aq_preview_markdown_chunks = bq_preview_markdown_chunks b, aq_defer_delivery = bq_defer_delivery b\<rparr>)"

definition issue_batch_submission_action ::
  "env \<Rightarrow> bool \<Rightarrow> time \<Rightarrow> time \<Rightarrow> pstr \<Rightarrow> pstr \<Rightarrow> batch_request \<Rightarrow> db \<Rightarrow> (wecom_action \<times> db) res" where
  "issue_batch_submission_action env ready expiry now action_id task_id b d =
     (if bq_candidates b = [] \<or> 19 < length (bq_candidates b) \<or> bq_page b < 1 \<or> bq_page_count b < bq_page b then Inl (ValueError ''candidates'')
      else if (case bq_candidate_snapshots b of
                 None \<Rightarrow> False | Some ss \<Rightarrow> \<not> validate_candidate_snapshot_ids (map PDict (bq_candidates b)) (map PDict ss)) then Inl (ValueError ''snapshots'')
      else if \<not> batch_scope_ok b then Inl (ValueError ''scope'')
      else issue_action env ready expiry now action_id task_id (batch_submission_request env b) d)"

definition company_submission_request ::
  "env \<Rightarrow> pstr \<Rightarrow> pstr \<Rightarrow> pstr \<Rightarrow> pstr \<Rightarrow> fields \<Rightarrow> fields option \<Rightarrow> pstr option \<Rightarrow> bool \<Rightarrow> action_request" where
  "company_submission_request env actor lead_id message_id company values snapshot display_text defer_delivery =
     \<lparr>aq_actor_user_id = actor, aq_action_type = ''crm_company_submission_confirmation'', aq_target_type = asc ''lead'',
      aq_target_id = lead_id, aq_expected_action_key = CARD_EVENT_KEY_CRM_COMPANY_CONFIRM,
      aq_context = [(asc ''request_message_id'', PStr message_id)] @ opt_snapshots (map_option (\<lambda>s. [s]) snapshot) @
        (case display_text of Some t \<Rightarrow> [(asc ''display_text'', PStr t)] | None \<Rightarrow> []),
      aq_title = t_title_company, aq_description = t_desc_company_a @ redact_text env company 96 @ t_desc_company_b,
      aq_source_message_id = Some message_id, aq_expires_at = None, aq_preview_fields = Some values, aq_preview_markdown_chunks = [],
      aq_defer_delivery = defer_delivery\<rparr>"

definition issue_company_submission_confirmation_action ::
  "env \<Rightarrow> bool \<Rightarrow> time \<Rightarrow> time \<Rightarrow> pstr \<Rightarrow> pstr \<Rightarrow> pstr \<Rightarrow> pstr \<Rightarrow> pstr \<Rightarrow> pstr \<Rightarrow> fields \<Rightarrow> fields option \<Rightarrow> pstr option \<Rightarrow> bool \<Rightarrow>
   db \<Rightarrow> (wecom_action \<times> db) res" where
  "issue_company_submission_confirmation_action env ready expiry now action_id task_id actor lead_id message_id company values snapshot
     display_text defer_delivery d =
     (if (case snapshot of
            None \<Rightarrow> False
          | Some s \<Rightarrow> \<not> validate_candidate_snapshot_ids [PDict [(asc ''lead_id'', PStr lead_id)]] [PDict s]) then Inl (ValueError ''snapshots'')
      else issue_action env ready expiry now action_id task_id
             (company_submission_request env actor lead_id message_id company values snapshot display_text defer_delivery) d)"

definition company_candidate_request ::
  "env \<Rightarrow> pstr \<Rightarrow> pstr \<Rightarrow> pstr \<Rightarrow> fields list \<Rightarrow> fields list option \<Rightarrow> bool \<Rightarrow> pstr list \<Rightarrow> bool \<Rightarrow> action_request" where
  "company_candidate_request env actor message_id company candidates snapshots contains_match chunks defer_delivery =
     (let description = t_desc_cand_a @ redact_text env company 96 @ t_desc_cand_b @ (if contains_match then t_contains else t_exact) @ t_desc_cand_c
      in \<lparr>aq_actor_user_id = actor, aq_action_type = ''crm_company_submission_confirmation'', aq_target_type = asc ''crm_company_candidates'',
          aq_target_id = e_sha256 env (asc ''crm-company-candidates:'' @ message_id @ asc '':'' @ company),
          aq_expected_action_key = CARD_EVENT_KEY_CRM_COMPANY_CONFIRM,
          aq_context = [(asc ''request_message_id'', PStr message_id), (asc ''candidate_leads'', PList (map PDict candidates))] @
            opt_snapshots snapshots @ [(asc ''card_description'', PStr description)],
          aq_title = t_title_select, aq_description = description, aq_source_message_id = Some message_id, aq_expires_at = None,
          aq_preview_fields = None, aq_preview_markdown_chunks = chunks, aq_defer_delivery = defer_delivery\<rparr>)"

definition issue_company_candidate_confirmation_action ::
  "env \<Rightarrow> bool \<Rightarrow> time \<Rightarrow> time \<Rightarrow> pstr \<Rightarrow> pstr \<Rightarrow> pstr \<Rightarrow> pstr \<Rightarrow> pstr \<Rightarrow> fields list \<Rightarrow> fields list option \<Rightarrow> bool \<Rightarrow> pstr list \<Rightarrow> bool \<Rightarrow>
   db \<Rightarrow> (wecom_action \<times> db) res" where
  "issue_company_candidate_confirmation_action env ready expiry now action_id task_id actor message_id company candidates snapshots
     contains_match chunks defer_delivery d =
     (if candidates = [] then Inl (ValueError ''candidates'')
      else if (case snapshots of
                 None \<Rightarrow> False | Some ss \<Rightarrow> \<not> validate_candidate_snapshot_ids (map PDict candidates) (map PDict ss)) then Inl (ValueError ''snapshots'')
      else issue_action env ready expiry now action_id task_id
             (company_candidate_request env actor message_id company candidates snapshots contains_match chunks defer_delivery) d)"

definition discard_request :: "pstr \<Rightarrow> pstr \<Rightarrow> pstr \<Rightarrow> pstr option \<Rightarrow> action_request" where
  "discard_request actor lead_id reason source =
     \<lparr>aq_actor_user_id = actor, aq_action_type = ''lead_discard_confirmation'', aq_target_type = asc ''lead'', aq_target_id = lead_id,
      aq_expected_action_key = CARD_EVENT_KEY_DISCARD_CONFIRM,
      aq_context = [(asc ''reason'', PStr reason)] @ (case source of Some m \<Rightarrow> [(asc ''request_message_id'', PStr m)] | None \<Rightarrow> []),
      aq_title = t_title_discard, aq_description = t_desc_discard, aq_source_message_id = source, aq_expires_at = None,
      aq_preview_fields = None, aq_preview_markdown_chunks = [], aq_defer_delivery = False\<rparr>"

definition reassignment_request :: "pstr \<Rightarrow> pstr \<Rightarrow> int \<Rightarrow> pstr \<Rightarrow> pstr \<Rightarrow> pstr option \<Rightarrow> action_request" where
  "reassignment_request actor message_id segment_index target_lead_id reason source =
     \<lparr>aq_actor_user_id = actor, aq_action_type = ''lead_reassignment_confirmation'', aq_target_type = asc ''lead'', aq_target_id = target_lead_id,
      aq_expected_action_key = CARD_EVENT_KEY_REASSIGN_CONFIRM,
      aq_context = [(asc ''message_id'', PStr message_id), (asc ''segment_index'', PInt segment_index), (asc ''reason'', PStr reason)] @
        (case source of Some m \<Rightarrow> [(asc ''request_message_id'', PStr m)] | None \<Rightarrow> []),
      aq_title = t_title_reassign, aq_description = t_desc_reassign,
      aq_source_message_id = (case source of Some m \<Rightarrow> if m = [] then Some message_id else source | None \<Rightarrow> Some message_id),
      aq_expires_at = None, aq_preview_fields = None, aq_preview_markdown_chunks = [], aq_defer_delivery = False\<rparr>"

section \<open>Reading a callback\<close>

record template_card_callback =
  cb_actor_user_id :: pstr
  cb_event_key :: pstr
  cb_task_id :: pstr
  cb_provider_msgid :: pstr
  cb_req_id :: pstr
  cb_card_type :: pstr
  cb_selected_option_ids :: "pstr list"

definition parse_error :: exc where "parse_error = ValueError ''CallbackParseError''"

definition cb_mapping :: "pyval \<Rightarrow> fields res" where
  "cb_mapping v = (case v of PDict d \<Rightarrow> Inr d | _ \<Rightarrow> Inl parse_error)"

definition cb_identifier :: "pyval \<Rightarrow> pstr res" where
  "cb_identifier v = (case v of PStr s \<Rightarrow> if identifier_ok s then Inr s else Inl parse_error | _ \<Rightarrow> Inl parse_error)"

fun collect_res :: "'a res list \<Rightarrow> 'a list res" where
  "collect_res [] = Inr []"
| "collect_res (Inl e # xs) = Inl e"
| "collect_res (Inr x # xs) = (case collect_res xs of Inl e \<Rightarrow> Inl e | Inr ys \<Rightarrow> Inr (x # ys))"

definition item_option_ids :: "pyval \<Rightarrow> pstr list res" where
  "item_option_ids item =
     (case cb_mapping item of
        Inl e \<Rightarrow> Inl e
      | Inr m \<Rightarrow>
          (case cb_mapping (py_get (asc ''option_ids'') m) of
             Inl e \<Rightarrow> Inl e
           | Inr o1 \<Rightarrow>
               (case py_get (asc ''option_id'') o1 of
                  PList vs \<Rightarrow> if 20 < length vs then Inl parse_error else collect_res (map cb_identifier vs)
                | _ \<Rightarrow> Inl parse_error)))"

definition selected_option_ids :: "pyval \<Rightarrow> pstr list res" where
  "selected_option_ids v =
     (if v = PNone then Inr []
      else case cb_mapping v of
        Inl e \<Rightarrow> Inl e
      | Inr sel \<Rightarrow>
          (case py_get (asc ''selected_item'') sel of
             PList items \<Rightarrow>
               if 20 < length items then Inl parse_error
               else (case collect_res (map item_option_ids items) of
                       Inl e \<Rightarrow> Inl e
                     | Inr is \<Rightarrow> if 20 < length (concat is) \<or> \<not> distinct (concat is) then Inl parse_error else Inr (concat is))
           | _ \<Rightarrow> Inl parse_error))"

definition parse_callback :: "fields \<Rightarrow> template_card_callback res" where
  "parse_callback frame =
     (if py_get (asc ''cmd'') frame \<noteq> PStr (asc ''aibot_event_callback'') then Inl parse_error
      else case cb_mapping (py_get (asc ''body'') frame) of
        Inl e \<Rightarrow> Inl e
      | Inr body \<Rightarrow>
          if py_get (asc ''msgtype'') body \<noteq> PStr (asc ''event'') then Inl parse_error
          else (case (cb_mapping (py_get (asc ''headers'') frame), cb_mapping (py_get (asc ''event'') body)) of
                  (Inr headers, Inr event) \<Rightarrow>
                    if py_get (asc ''eventtype'') event \<noteq> PStr (asc ''template_card_event'') then Inl parse_error
                    else (case (cb_mapping (py_get (asc ''template_card_event'') event), cb_mapping (py_get (asc ''from'') body)) of
                            (Inr ce, Inr from_user) \<Rightarrow>
                              (case (cb_identifier (py_get (asc ''userid'') from_user), cb_identifier (py_get (asc ''event_key'') ce),
                                     cb_identifier (py_get (asc ''task_id'') ce), cb_identifier (py_get (asc ''card_type'') ce),
                                     cb_identifier (py_get (asc ''msgid'') body), cb_identifier (py_get (asc ''req_id'') headers),
                                     selected_option_ids (py_get (asc ''selected_items'') ce)) of
                                 (Inr actor, Inr key, Inr task, Inr ctype, Inr msgid, Inr req, Inr sel) \<Rightarrow>
                                   if ctype \<notin> {asc ''button_interaction'', asc ''vote_interaction''} then Inl parse_error
                                   else Inr \<lparr>cb_actor_user_id = actor, cb_event_key = key, cb_task_id = task, cb_provider_msgid = msgid,
                                             cb_req_id = req, cb_card_type = ctype, cb_selected_option_ids = sel\<rparr>
                               | _ \<Rightarrow> Inl parse_error)
                          | _ \<Rightarrow> Inl parse_error)
                | _ \<Rightarrow> Inl parse_error))"

section \<open>Accepting a callback\<close>

record callback_claim_result =
  ccr_code :: string
  ccr_task_id :: pstr
  ccr_action_id :: "pstr option"
  ccr_summary :: pstr
  ccr_should_update_card :: bool
  ccr_frozen_card_update :: "frozen_update option"

definition claim_answer :: "string \<Rightarrow> pstr \<Rightarrow> pstr option \<Rightarrow> pstr \<Rightarrow> bool \<Rightarrow> callback_claim_result" where
  "claim_answer code task_id action_id summary upd =
     \<lparr>ccr_code = code, ccr_task_id = task_id, ccr_action_id = action_id, ccr_summary = summary,
      ccr_should_update_card = upd, ccr_frozen_card_update = None\<rparr>"

definition response_card :: "callback_claim_result \<Rightarrow> fields" where
  "response_card r =
     (case ccr_frozen_card_update r of
        Some u \<Rightarrow>
          if ccr_code r \<in> {''claimed'', ''select_all''}
          then (case u of Frozen_Vote v \<Rightarrow> vote_payload v | Frozen_Button t k \<Rightarrow> button_payload t k)
          else []
      | None \<Rightarrow> []) @
     (if ccr_code r \<in> {''claimed'', ''select_all''} \<and> ccr_frozen_card_update r \<noteq> None then []
      else [(asc ''card_type'', PStr (asc ''text_notice'')), (asc ''task_id'', PStr (ccr_task_id r)),
            (asc ''card_action'', PDict [(asc ''type'', PInt 0)]),
            (asc ''main_title'', PDict [(asc ''title'', PStr (if ccr_code r = ''claimed'' then t_replaced else t_state)),
               (asc ''desc'', PStr (if ccr_code r = ''claimed'' then t_in_progress else ccr_summary r))])])"

definition new_delivery :: "time \<Rightarrow> template_card_callback \<Rightarrow> pstr option \<Rightarrow> db \<Rightarrow> wecom_callback_delivery" where
  "new_delivery now cb action_id d =
     \<lparr>wd_id = next_id wd_id (wecom_callback_deliveries d), wd_action_id = action_id, wd_provider_msgid = cb_provider_msgid cb,
      wd_req_id = cb_req_id cb, wd_actor_user_id = cb_actor_user_id cb, wd_event_key = cb_event_key cb, wd_task_id = cb_task_id cb,
      wd_processing_status = ''received'', wd_result_code = None, wd_transport_stage = None, wd_transport_status = None,
      wd_transport_failure_code = None, wd_transport_failure_summary = None, wd_transport_failed_at = None,
      wd_received_at = now, wd_processed_at = None\<rparr>"

definition mark_delivery :: "time \<Rightarrow> string \<Rightarrow> string \<Rightarrow> wecom_callback_delivery \<Rightarrow> wecom_callback_delivery" where
  "mark_delivery now status code v = v\<lparr>wd_processing_status := status, wd_result_code := Some (asc code), wd_processed_at := Some now\<rparr>"

abbreviation upd_action :: "pstr \<Rightarrow> (wecom_action \<Rightarrow> wecom_action) \<Rightarrow> db \<Rightarrow> db" where
  "upd_action i f d \<equiv> d\<lparr>wecom_actions := tupd wa_id i f (wecom_actions d)\<rparr>"

abbreviation get_action :: "db \<Rightarrow> pstr \<Rightarrow> wecom_action option" where
  "get_action d i \<equiv> tget wa_id i (wecom_actions d)"

definition store_delivery :: "wecom_callback_delivery \<Rightarrow> db \<Rightarrow> db" where
  "store_delivery v d = d\<lparr>wecom_callback_deliveries := tadd v (wecom_callback_deliveries d)\<rparr>"

definition store_action :: "wecom_action \<Rightarrow> db \<Rightarrow> db" where
  "store_action a d = upd_action (wa_id a) (\<lambda>_. a) d"

definition reject_delivery ::
  "time \<Rightarrow> string \<Rightarrow> pstr \<Rightarrow> wecom_callback_delivery \<Rightarrow> db \<Rightarrow> callback_claim_result \<times> db" where
  "reject_delivery now code summary v d =
     (claim_answer code (wd_task_id v) (wd_action_id v) summary False, store_delivery (mark_delivery now ''rejected'' code v) d)"

definition deny_action ::
  "time \<Rightarrow> string \<Rightarrow> pstr \<Rightarrow> wecom_action \<Rightarrow> wecom_callback_delivery \<Rightarrow> db \<Rightarrow> callback_claim_result \<times> db" where
  "deny_action now code summary a v d =
     (let v1 = mark_delivery now ''rejected'' code v
      in if wa_status a \<noteq> ''pending'' then (claim_answer code (wa_task_id a) (Some (wa_id a)) summary False, store_delivery v1 d)
         else (claim_answer code (wa_task_id a) (Some (wa_id a)) summary True,
               store_delivery v1 (store_action ((discard_candidate_snapshots (a\<lparr>wa_status := ''denied''\<rparr>))
                 \<lparr>wa_processed_at := Some now, wa_result_code := Some (asc code), wa_result_summary := Some summary\<rparr>) d)))"

text \<open>What the checks of one kind of action decide: refuse, only tick all boxes, or go on (with the context extended by the selection).\<close>

datatype claim_check =
    Deny string pstr wecom_action
  | Tick_All frozen_update
  | Go_On wecom_action "frozen_update option"

definition extend_context :: "fields \<Rightarrow> wecom_action \<Rightarrow> wecom_action" where
  "extend_context new a = a\<lparr>wa_context := dmerge (wa_context a) new\<rparr>"

definition check_target :: "env \<Rightarrow> template_card_callback \<Rightarrow> wecom_action \<Rightarrow> db \<Rightarrow> claim_check res" where
  "check_target env cb a d =
     (let company = (wa_action_type a = ''crm_company_submission_confirmation'');
          cands = (if company then py_get (asc ''candidate_leads'') (wa_context a) else PNone)
      in if cands = PNone
         then (case get_lead d (wa_target_id a) of
                 None \<Rightarrow> Inr (Deny ''owner_mismatch'' t_not_owner a)
               | Some l \<Rightarrow>
                   if ld_smart_table_owner_user_id l \<noteq> cb_actor_user_id cb then Inr (Deny ''owner_mismatch'' t_not_owner a)
                   else if \<not> company then Inr (Go_On a None)
                   else if wa_expected_action_key a \<noteq> CARD_EVENT_KEY_CRM_COMPANY_CONFIRM then Inr (Deny ''invalid_action_context'' t_card_stale a)
                   else Inr (Go_On a (Some (Frozen_Button (wa_task_id a) (wa_expected_action_key a)))))
         else (case cb_selected_option_ids cb of
                 [i] \<Rightarrow>
                   if i \<notin> set (context_lead_ids cands) then Inr (Deny ''selection_mismatch'' t_choice_invalid a)
                   else if \<not> list_ex (\<lambda>l. ld_id l = i \<and> ld_smart_table_owner_user_id l = cb_actor_user_id cb) (leads d)
                   then Inr (Deny ''owner_mismatch'' t_choice_owner a)
                   else let a1 = extend_context [(asc ''selected_lead_id'', PStr i)] a
                        in (case freeze_vote_card_update env a1 [i] True (Some t_replaced) False of
                              Inl e \<Rightarrow> Inl e
                            | Inr None \<Rightarrow> Inr (Deny ''invalid_action_context'' t_candidates_stale a1)
                            | Inr (Some u) \<Rightarrow> Inr (Go_On a1 (Some (Frozen_Vote u))))
               | _ \<Rightarrow> Inr (Deny ''selection_mismatch'' t_choice_invalid a)))"

definition check_batch :: "env \<Rightarrow> template_card_callback \<Rightarrow> wecom_action \<Rightarrow> claim_check res" where
  "check_batch env cb a =
     (let ids = context_lead_ids (py_get (asc ''candidate_leads'') (wa_context a));
          sel = cb_selected_option_ids cb;
          all_id = (case py_get (asc ''select_all_option_id'') (wa_context a) of PStr s \<Rightarrow> [s] | _ \<Rightarrow> []);
          everything = (all_id \<noteq> [] \<and> hd all_id \<in> set sel)
      in if ids = [] then Inr (Deny ''invalid_action_context'' t_list_stale a)
         else if \<not> batch_command_ok (wa_context a) then Inr (Deny ''invalid_action_context'' t_command_invalid a)
         else if cb_event_key cb = CARD_EVENT_KEY_CRM_BATCH_SELECT_ALL
         then (case freeze_vote_card_update env a ids False None True of
                 Inl e \<Rightarrow> Inl e
               | Inr None \<Rightarrow> Inr (Deny ''invalid_action_context'' t_list_stale a)
               | Inr (Some u) \<Rightarrow> Inr (Tick_All (Frozen_Vote u)))
         else if \<not> select_all_ok a ids then Inr (Deny ''invalid_action_context'' t_list_stale a)
         else if sel = [] \<or> \<not> set sel \<subseteq> set (ids @ all_id) then Inr (Deny ''selection_mismatch'' t_select_one a)
         else (case freeze_vote_card_update env a (if everything then ids @ all_id else sel) True (Some t_replaced) False of
                 Inl e \<Rightarrow> Inl e
               | Inr None \<Rightarrow> Inr (Deny ''invalid_action_context'' t_candidates_stale a)
               | Inr (Some u) \<Rightarrow>
                   Inr (Go_On (extend_context [(asc ''selected_lead_ids'',
                           PList (map PStr (if everything then ids else filter (\<lambda>i. i \<in> set ids) sel)))] a) (Some (Frozen_Vote u)))))"

definition check_duplicates :: "env \<Rightarrow> template_card_callback \<Rightarrow> wecom_action \<Rightarrow> db \<Rightarrow> claim_check res" where
  "check_duplicates env cb a d =
     (let ids = context_lead_ids (py_get (asc ''duplicate_leads'') (wa_context a));
          sel = cb_selected_option_ids cb;
          owned = map ld_id (filter (\<lambda>l. ld_id l \<in> set ids \<and> ld_smart_table_owner_user_id l = cb_actor_user_id cb) (leads d))
      in if ids = [] \<or> set owned \<noteq> set ids then Inr (Deny ''owner_mismatch'' t_dup_owner a)
         else if \<not> set sel \<subseteq> set ids then Inr (Deny ''selection_mismatch'' t_dup_choice a)
         else (case freeze_vote_card_update env a sel True (Some t_replaced) False of
                 Inl e \<Rightarrow> Inl e
               | Inr None \<Rightarrow> Inr (Deny ''invalid_action_context'' t_dup_stale a)
               | Inr (Some u) \<Rightarrow>
                   Inr (Go_On (extend_context [(asc ''decision'',
                            PStr (asc (if cb_event_key cb = CARD_EVENT_KEY_CRM_DUPLICATE_CONTINUE then ''continue'' else ''stop''))),
                          (asc ''selected_lead_ids'', PList (map PStr sel))] a) (Some (Frozen_Vote u)))))"

definition check_callback :: "env \<Rightarrow> template_card_callback \<Rightarrow> wecom_action \<Rightarrow> db \<Rightarrow> claim_check res" where
  "check_callback env cb a d =
     (if wa_action_type a \<in> {''crm_field_confirmation'', ''crm_company_submission_confirmation''} then check_target env cb a d
      else if wa_action_type a = ''crm_batch_submission'' then check_batch env cb a
      else if wa_action_type a = ''crm_duplicate_confirmation'' then check_duplicates env cb a d
      else Inr (Go_On a None))"

definition event_key_matches :: "template_card_callback \<Rightarrow> wecom_action \<Rightarrow> bool" where
  "event_key_matches cb a =
     (if wa_action_type a = ''crm_duplicate_confirmation''
      then cb_event_key cb \<in> {CARD_EVENT_KEY_CRM_DUPLICATE_CONTINUE, CARD_EVENT_KEY_CRM_DUPLICATE_STOP}
      else cb_event_key cb = wa_expected_action_key a \<or>
           wa_action_type a = ''crm_batch_submission'' \<and> cb_event_key cb = CARD_EVENT_KEY_CRM_BATCH_SELECT_ALL)"

definition new_action_outbox :: "time \<Rightarrow> pstr \<Rightarrow> db \<Rightarrow> wecom_action_outbox" where
  "new_action_outbox now action_id d =
     \<lparr>wo_id = next_id wo_id (wecom_action_outboxes d), wo_action_id = action_id, wo_status = ''pending'', wo_attempts = 0,
      wo_dispatch_claimed_at = None, wo_dispatch_lease_expires_at = None, wo_processing_started_at = None,
      wo_processing_lease_expires_at = None, wo_claim_token = None, wo_domain_started_at = None, wo_domain_operation_key = None,
      wo_domain_operation_payload = None, wo_remote_effect_status = None, wo_remote_effect_at = None, wo_created_at = now\<rparr>"

definition accept_callback ::
  "time \<Rightarrow> frozen_update option \<Rightarrow> wecom_action \<Rightarrow> wecom_callback_delivery \<Rightarrow> db \<Rightarrow> callback_claim_result \<times> db" where
  "accept_callback now u a v d =
     ((claim_answer ''claimed'' (wa_task_id a) (Some (wa_id a)) t_claimed True)\<lparr>ccr_frozen_card_update := u\<rparr>,
      store_delivery (mark_delivery now ''claimed'' ''claimed'' v)
        (store_action (a\<lparr>wa_status := ''processing'', wa_claimed_at := Some now,
             wa_processing_lease_expires_at := Some (now + ACTION_LEASE)\<rparr>)
          (d\<lparr>wecom_action_outboxes := tadd (new_action_outbox now (wa_id a) d) (wecom_action_outboxes d)\<rparr>)))"

definition expire_action :: "time \<Rightarrow> wecom_action \<Rightarrow> wecom_callback_delivery \<Rightarrow> db \<Rightarrow> callback_claim_result \<times> db" where
  "expire_action now a v d =
     (claim_answer ''expired'' (wa_task_id a) (Some (wa_id a)) t_expired True,
      store_delivery (mark_delivery now ''rejected'' ''expired'' v)
        (store_action ((discard_candidate_snapshots (a\<lparr>wa_status := ''expired''\<rparr>))
           \<lparr>wa_processed_at := Some now, wa_result_code := Some (asc ''expired''), wa_result_summary := Some t_expired\<rparr>) d))"

definition claim_action ::
  "env \<Rightarrow> time \<Rightarrow> template_card_callback \<Rightarrow> wecom_action \<Rightarrow> wecom_callback_delivery \<Rightarrow> db \<Rightarrow> (callback_claim_result \<times> db) res" where
  "claim_action env now cb a v d =
     (if requires_active_sales_authorization (wa_action_type a) (wa_context a) \<and> \<not> actor_enabled d (cb_actor_user_id cb)
      then Inr (deny_action now ''actor_inactive'' t_actor_inactive a v d)
      else if cb_actor_user_id cb \<noteq> wa_bound_actor a then Inr (deny_action now ''actor_mismatch'' t_actor_mismatch a v d)
      else if cb_event_key cb \<notin> set ALLOWED_CARD_EVENT_KEYS then Inr (reject_delivery now ''unknown_event_key'' t_unknown_key v d)
      else if \<not> event_key_matches cb a then Inr (deny_action now ''event_key_mismatch'' t_key_mismatch a v d)
      else if wa_status a \<noteq> ''pending''
      then Inr (claim_answer (''action_'' @ wa_status a) (wa_task_id a) (Some (wa_id a))
                  (case wa_result_summary a of Some s \<Rightarrow> if s = [] then t_accepted else s | None \<Rightarrow> t_accepted) False,
                store_delivery (mark_delivery now ''duplicated'' (''action_'' @ wa_status a) v) d)
      else if wa_expires_at a \<le> now then Inr (expire_action now a v d)
      else case check_callback env cb a d of
        Inl e \<Rightarrow> Inl e
      | Inr (Deny code summary a1) \<Rightarrow> Inr (deny_action now code summary a1 v d)
      | Inr (Tick_All u) \<Rightarrow>
          Inr ((claim_answer ''select_all'' (wa_task_id a) (Some (wa_id a)) t_all_checked True)\<lparr>ccr_frozen_card_update := Some u\<rparr>,
               store_delivery (mark_delivery now ''completed'' ''all_selected'' v) d)
      | Inr (Go_On a1 u) \<Rightarrow> Inr (accept_callback now u a1 v d))"

definition claim_callback :: "env \<Rightarrow> bool \<Rightarrow> time \<Rightarrow> fields \<Rightarrow> db \<Rightarrow> (callback_claim_result \<times> db) res" where
  "claim_callback env ready now frame d =
     (case parse_callback frame of
        Inl e \<Rightarrow> Inl e
      | Inr cb \<Rightarrow>
          if \<not> ready then Inr (claim_answer ''card_callback_unavailable'' (cb_task_id cb) None t_unavailable False, d)
          else case tget wd_provider_msgid (cb_provider_msgid cb) (wecom_callback_deliveries d) of
            Some prev \<Rightarrow> Inr (claim_answer ''duplicate_delivery'' (cb_task_id cb) (wd_action_id prev) t_delivered False, d)
          | None \<Rightarrow>
              (case tget wa_task_id (cb_task_id cb) (wecom_actions d) of
                 None \<Rightarrow> Inr (reject_delivery now ''unknown_task'' t_unknown_task (new_delivery now cb None d) d)
               | Some a \<Rightarrow> claim_action env now cb a (new_delivery now cb (Some (wa_id a)) d) d))"

end
