(* ===== verification/Wecom_Execute.thy ===== *)
theory Wecom_Execute
  imports Wecom_Callback
begin

text \<open>
  The execution of an accepted action (\<^verbatim>\<open>WecomActionService.execute_action\<close> and its transactions in
  \<^verbatim>\<open>app/wecom_bot/actions.py\<close>): claim under a token and a lease, the domain service between two transactions, settlement,
  recovery of a lost worker from the stored results, and the notices of the outcome. The domain service is an argument: a
  function on the database and the remote world that returns a result code and a summary or fails. The
  clock is read once per transaction.
\<close>

section \<open>Saved results\<close>

definition CRM_SUBMISSION_RESULT_STATUSES :: "string list" where
  "CRM_SUBMISSION_RESULT_STATUSES = [''created'', ''updated'', ''followed_up'', ''unchanged'', ''incomplete'', ''duplicate_confirmation'',
     ''mapping_missing'', ''processing'', ''retrying'', ''failed_pending_review'', ''company_identity_review'', ''not_submitted'']"

definition selected_of_action :: "wecom_action \<Rightarrow> pyval option" where
  "selected_of_action a =
     (if wa_action_type a = ''crm_batch_submission'' then Some (py_get (asc ''selected_lead_ids'') (wa_context a))
      else if wa_action_type a = ''crm_company_submission_confirmation''
      then Some (PList [case dget (asc ''selected_lead_id'') (wa_context a) of Some v \<Rightarrow> v | None \<Rightarrow> PStr (wa_target_id a)])
      else None)"

definition str_list :: "pyval \<Rightarrow> pstr list option" where
  "str_list v = (case v of PList xs \<Rightarrow> all_some (map (\<lambda>x. case x of PStr s \<Rightarrow> Some s | _ \<Rightarrow> None) xs) | _ \<Rightarrow> None)"

fun read_saved :: "pstr list \<Rightarrow> (pstr \<times> pstr) list \<Rightarrow> pyval list \<Rightarrow> (pstr \<times> pstr) list option" where
  "read_saved selected acc [] = Some acc"
| "read_saved selected acc (x # xs) =
     (case (item_text ''lead_id'' x, item_text ''status'' x) of
        (Some i, Some st) \<Rightarrow>
          if i \<in> set selected \<and> st \<in> set (map asc CRM_SUBMISSION_RESULT_STATUSES) \<and> dget i acc = None
          then read_saved selected (acc @ [(i, st)]) xs else None
      | _ \<Rightarrow> None)"

definition count_status :: "(pstr \<times> pstr) list \<Rightarrow> string \<Rightarrow> nat" where
  "count_status saved st = length (filter (\<lambda>(i, s). s = asc st) saved)"

definition recovered_summary :: "pstr list \<Rightarrow> (pstr \<times> pstr) list \<Rightarrow> pstr" where
  "recovered_summary selected saved =
     (let n = count_status saved
      in t_rec_a @ digits_of (n ''created'' + n ''updated'') @ t_rec_b @ digits_of (n ''followed_up'') @ t_rec_c @ digits_of (n ''unchanged'') @
         t_rec_d @ digits_of (n ''incomplete'') @ t_rec_e @ digits_of (n ''processing'' + n ''duplicate_confirmation'') @ t_rec_f @
         digits_of (n ''retrying'') @ t_rec_g @ digits_of (n ''not_submitted'') @ t_rec_h @
         digits_of (n ''mapping_missing'' + n ''failed_pending_review'' + n ''company_identity_review'') @ t_rec_i @
         digits_of (length saved) @ [0x2F] @ digits_of (length selected) @ t_rec_j @
         (if length saved = length selected then [] else t_rec_k @ str_of_int (int (length selected) - int (length saved)) @ t_rec_l))"

definition saved_submission_results_summary :: "wecom_action \<Rightarrow> (pstr \<times> bool) option" where
  "saved_submission_results_summary a =
     (case selected_of_action a of
        None \<Rightarrow> None
      | Some sel \<Rightarrow>
          (case (str_list sel, py_get (asc ''submission_results'') (wa_context a)) of
             (Some selected, PList items) \<Rightarrow>
               if selected = [] \<or> items = [] then None
               else (case read_saved selected [] items of
                       None \<Rightarrow> None
                     | Some saved \<Rightarrow> Some (recovered_summary selected saved, length saved = length selected))
           | _ \<Rightarrow> None))"

section \<open>Notices and settlement\<close>

definition result_notice_key :: "env \<Rightarrow> pstr \<Rightarrow> nat \<Rightarrow> pstr" where
  "result_notice_key env action_id i = e_sha256 env (asc ''wecom_action_result:'' @ action_id @ asc '':'' @ digits_of i)"

definition add_result_notice :: "env \<Rightarrow> time \<Rightarrow> wecom_action \<Rightarrow> nat \<times> pstr \<Rightarrow> db \<Rightarrow> db" where
  "add_result_notice env now a x d =
     (let key = result_notice_key env (wa_id a) (fst x)
      in if get_notice d key \<noteq> None then d
         else d\<lparr>notification_records := tadd ((blank_notice key (wa_bound_actor a)
                 (the_default (wa_id a) (sget ''request_message_id'' (wa_context a))) ''wecom_action_result'' now)\<lparr>nr_content := Some (snd x)\<rparr>)
               (notification_records d)\<rparr>)"

definition add_result_notification :: "env \<Rightarrow> time \<Rightarrow> wecom_action \<Rightarrow> pstr \<Rightarrow> db \<Rightarrow> db" where
  "add_result_notification env now a summary d =
     (let chunks = split_result_notifications summary
      in fold (add_result_notice env now a) (zip [0..<length chunks] chunks) d)"

abbreviation get_action_outbox :: "db \<Rightarrow> pstr \<Rightarrow> wecom_action_outbox option" where
  "get_action_outbox d i \<equiv> tget wo_action_id i (wecom_action_outboxes d)"

abbreviation upd_action_outbox :: "pstr \<Rightarrow> (wecom_action_outbox \<Rightarrow> wecom_action_outbox) \<Rightarrow> db \<Rightarrow> db" where
  "upd_action_outbox i f d \<equiv> d\<lparr>wecom_action_outboxes := tupd wo_action_id i f (wecom_action_outboxes d)\<rparr>"

record action_execution_result =
  xr_code :: pstr
  xr_summary :: pstr
  xr_executed :: bool

definition exec_answer :: "pstr \<Rightarrow> pstr \<Rightarrow> bool \<Rightarrow> action_execution_result" where
  "exec_answer code summary executed = \<lparr>xr_code = code, xr_summary = summary, xr_executed = executed\<rparr>"

definition stale_answer :: action_execution_result where
  "stale_answer = exec_answer (asc ''stale_claim'') t_claim_lost False"

definition claim_current :: "pstr \<Rightarrow> wecom_action \<Rightarrow> wecom_action_outbox \<Rightarrow> bool" where
  "claim_current token a x = (wa_status a = ''processing'' \<and> wo_status x = ''processing'' \<and> wo_claim_token x = Some token)"

definition lease_alive :: "time \<Rightarrow> wecom_action_outbox \<Rightarrow> bool" where
  "lease_alive now x = (case wo_processing_lease_expires_at x of None \<Rightarrow> False | Some t \<Rightarrow> now < t)"

definition release_outbox :: "string \<Rightarrow> wecom_action_outbox \<Rightarrow> wecom_action_outbox" where
  "release_outbox st x = x\<lparr>wo_status := st, wo_processing_started_at := None, wo_processing_lease_expires_at := None\<rparr>"

definition complete_deliveries :: "pstr \<Rightarrow> pstr \<Rightarrow> db \<Rightarrow> db" where
  "complete_deliveries action_id code d = d\<lparr>wecom_callback_deliveries := map (\<lambda>v.
     if wd_action_id v = Some action_id \<and> wd_processing_status v = ''claimed''
     then v\<lparr>wd_processing_status := ''completed'', wd_result_code := Some code\<rparr> else v) (wecom_callback_deliveries d)\<rparr>"

definition finished_action :: "time \<Rightarrow> string \<Rightarrow> pstr \<Rightarrow> pstr \<Rightarrow> wecom_action \<Rightarrow> wecom_action" where
  "finished_action now status code summary a =
     (discard_candidate_snapshots (a\<lparr>wa_status := status\<rparr>))\<lparr>wa_processed_at := Some now, wa_processing_lease_expires_at := None,
       wa_result_code := Some code, wa_result_summary := Some summary\<rparr>"

definition finish_action ::
  "env \<Rightarrow> time \<Rightarrow> pstr \<Rightarrow> pstr \<Rightarrow> string \<Rightarrow> string \<Rightarrow> pstr \<Rightarrow> pstr \<Rightarrow> db \<Rightarrow> (action_execution_result \<times> db) res" where
  "finish_action env now action_id token status outbox_status code summary d =
     (case (get_action d action_id, get_action_outbox d action_id) of
        (Some a, Some x) \<Rightarrow>
          if \<not> claim_current token a x then Inr (stale_answer, d)
          else if \<not> may_move (wa_status a) status then Inl (RuntimeError ''InvalidActionTransition'')
          else let a1 = finished_action now status code (take 256 (hd (split_result_notifications summary))) a
               in Inr (exec_answer code summary True,
                       add_result_notification env now a1 summary (complete_deliveries action_id code
                         (upd_action_outbox action_id (release_outbox outbox_status) (store_action a1 d))))
      | _ \<Rightarrow> Inl (ValueError ''action''))"

section \<open>Claiming an execution\<close>

record action_snapshot =
  sn_id :: pstr
  sn_action_type :: string
  sn_bound_actor :: pstr
  sn_target_type :: pstr
  sn_target_id :: pstr
  sn_context :: fields
  sn_claim_token :: pstr

datatype exec_start = Answered action_execution_result | Started action_snapshot

definition undispatch :: "wecom_action_outbox \<Rightarrow> wecom_action_outbox" where
  "undispatch x = x\<lparr>wo_dispatch_claimed_at := None, wo_dispatch_lease_expires_at := None\<rparr>"

definition recover_action :: "env \<Rightarrow> time \<Rightarrow> wecom_action \<Rightarrow> db \<Rightarrow> exec_start \<times> db" where
  "recover_action env now a d =
     (let saved = saved_submission_results_summary a;
          complete = (case saved of Some (s, c) \<Rightarrow> c | None \<Rightarrow> False);
          summary = (case saved of Some (s, c) \<Rightarrow> s | None \<Rightarrow> t_lost);
          a1 = finished_action now (if complete then ''succeeded'' else ''pending_recovery'')
                 (asc (if complete then ''submission_results_recovered'' else ''domain_operation_recovery_required'')) (take 256 summary) a
      in (Answered (exec_answer (asc (if complete then ''recovered_results'' else ''recovery_required'')) summary False),
          add_result_notification env now a1 summary
            (upd_action_outbox (wa_id a) (\<lambda>x. (release_outbox (if complete then ''succeeded'' else ''failed'') x)\<lparr>wo_claim_token := None\<rparr>)
              (store_action a1 d))))"

definition refuse_action :: "env \<Rightarrow> time \<Rightarrow> wecom_action \<Rightarrow> db \<Rightarrow> exec_start \<times> db" where
  "refuse_action env now a d =
     (let a1 = (discard_candidate_snapshots (a\<lparr>wa_status := ''denied''\<rparr>))\<lparr>wa_processed_at := Some now,
                 wa_result_code := Some (asc ''actor_inactive''), wa_result_summary := Some t_operator_inactive\<rparr>
      in (Answered (exec_answer (asc ''actor_inactive'') t_operator_inactive False),
          add_result_notification env now a1 t_operator_inactive
            (upd_action_outbox (wa_id a) (release_outbox ''failed'') (store_action a1 d))))"

definition take_execution :: "time \<Rightarrow> pstr \<Rightarrow> wecom_action \<Rightarrow> db \<Rightarrow> exec_start \<times> db" where
  "take_execution now token a d =
     (Started \<lparr>sn_id = wa_id a, sn_action_type = wa_action_type a, sn_bound_actor = wa_bound_actor a, sn_target_type = wa_target_type a,
        sn_target_id = wa_target_id a, sn_context = wa_context a, sn_claim_token = token\<rparr>,
      upd_action_outbox (wa_id a) (\<lambda>x. x\<lparr>wo_status := ''processing'', wo_claim_token := Some token, wo_attempts := wo_attempts x + 1,
          wo_processing_started_at := Some now, wo_processing_lease_expires_at := Some (now + ACTION_LEASE)\<rparr>)
        (store_action (a\<lparr>wa_processing_lease_expires_at := Some (now + ACTION_LEASE)\<rparr>) d))"

definition begin_execution :: "env \<Rightarrow> time \<Rightarrow> pstr \<Rightarrow> pstr \<Rightarrow> db \<Rightarrow> (exec_start \<times> db) res" where
  "begin_execution env now token action_id d =
     (case (get_action_outbox d action_id, get_action d action_id) of
        (Some x, Some a) \<Rightarrow>
          (let d1 = upd_action_outbox action_id undispatch d;
               answer = (\<lambda>code s. (Answered (exec_answer code (case wa_result_summary a of Some r \<Rightarrow> if r = [] then s else r | None \<Rightarrow> s) False), d1));
               expired = (case wo_processing_lease_expires_at x of None \<Rightarrow> False | Some t \<Rightarrow> t \<le> now)
           in Inr (if wo_status x = ''succeeded'' \<or> wa_status a = ''succeeded'' then answer (asc ''already_succeeded'') t_processed
              else if wa_status a \<noteq> ''processing'' then answer (asc (''action_'' @ wa_status a)) t_not_runnable
              else if wo_status x = ''processing'' \<and> \<not> expired then (Answered (exec_answer (asc ''already_processing'') t_running False), d1)
              else if expired \<and> wo_domain_started_at x \<noteq> None then recover_action env now a d1
              else if requires_active_sales_authorization (wa_action_type a) (wa_context a) \<and> \<not> actor_enabled d (wa_bound_actor a)
              then refuse_action env now a d1
              else take_execution now token a d1))
      | _ \<Rightarrow> Inl (ValueError ''action''))"

text \<open>How the domain service can end: with a result, with the news that the claim is lost, or with any other exception.\<close>

datatype exec_end = Domain_Result pstr pstr | Claim_Lost | Domain_Failed pstr

type_synonym 'w domain_executor = "action_snapshot \<Rightarrow> db \<Rightarrow> 'w \<Rightarrow> exec_end \<times> db \<times> 'w"

definition execute_action ::
  "env \<Rightarrow> 'w domain_executor \<Rightarrow> time \<Rightarrow> time \<Rightarrow> pstr \<Rightarrow> pstr \<Rightarrow> db \<Rightarrow> 'w \<Rightarrow> action_execution_result res \<times> db \<times> 'w" where
  "execute_action env executor now now' token action_id d w =
     (case begin_execution env now token action_id d of
        Inl e \<Rightarrow> (Inl e, d, w)
      | Inr (Answered r, d1) \<Rightarrow> (Inr r, d1, w)
      | Inr (Started sn, d1) \<Rightarrow>
          (case executor sn d1 w of
             (Claim_Lost, d2, w2) \<Rightarrow> (Inr stale_answer, d2, w2)
           | (Domain_Failed name, d2, w2) \<Rightarrow>
               (case finish_action env now' action_id token ''pending_recovery'' ''failed'' (asc ''domain_failed'') (t_failed_a @ name @ r_close) d2 of
                  Inl e \<Rightarrow> (Inl e, d2, w2) | Inr (r, d3) \<Rightarrow> (Inr r, d3, w2))
           | (Domain_Result code summary, d2, w2) \<Rightarrow>
               (case finish_action env now' action_id token ''succeeded'' ''succeeded'' code summary d2 of
                  Inl e \<Rightarrow> (Inl e, d2, w2) | Inr (r, d3) \<Rightarrow> (Inr r, d3, w2))))"

section \<open>Transactions of the domain service\<close>

definition stale_exc :: exc where "stale_exc = RuntimeError ''StaleActionClaim''"

text \<open>\<open>with_claim\<close> is the lookup and check (\<^verbatim>\<open>_lock_action_and_outbox\<close>, \<^verbatim>\<open>_assert_locked_claim\<close>) the fenced transactions start with.\<close>

definition with_claim :: "time \<Rightarrow> pstr \<Rightarrow> pstr \<Rightarrow> db \<Rightarrow> (wecom_action \<times> wecom_action_outbox) res" where
  "with_claim now action_id token d =
     (case (get_action d action_id, get_action_outbox d action_id) of
        (Some a, Some x) \<Rightarrow> if claim_current token a x \<and> lease_alive now x then Inr (a, x) else Inl stale_exc
      | _ \<Rightarrow> Inl (ValueError ''action''))"

definition begin_domain_operation :: "env \<Rightarrow> time \<Rightarrow> pstr \<Rightarrow> pstr \<Rightarrow> fields option \<Rightarrow> db \<Rightarrow> db res" where
  "begin_domain_operation env now action_id token payload d =
     (case with_claim now action_id token d of
        Inl e \<Rightarrow> Inl e
      | Inr (a, x) \<Rightarrow>
          if wo_domain_started_at x \<noteq> None then Inl stale_exc
          else (case (case payload of None \<Rightarrow> Inr None | Some p \<Rightarrow> (case safe_operation_payload env p of Inl e \<Rightarrow> Inl e | Inr q \<Rightarrow> Inr (Some q))) of
                  Inl e \<Rightarrow> Inl e
                | Inr safe \<Rightarrow>
                    Inr (upd_action_outbox action_id (\<lambda>x. x\<lparr>wo_domain_started_at := Some now, wo_domain_operation_key := Some (wa_id a),
                           wo_domain_operation_payload := safe, wo_remote_effect_status := Some ''unknown''\<rparr>) d)))"

definition mark_remote_effect_succeeded :: "env \<Rightarrow> time \<Rightarrow> pstr \<Rightarrow> pstr \<Rightarrow> fields option \<Rightarrow> db \<Rightarrow> db res" where
  "mark_remote_effect_succeeded env now action_id token payload d =
     (case with_claim now action_id token d of
        Inl e \<Rightarrow> Inl e
      | Inr (a, x) \<Rightarrow>
          (case (case payload of None \<Rightarrow> Inr (wo_domain_operation_payload x)
                 | Some p \<Rightarrow> (case safe_operation_payload env p of Inl e \<Rightarrow> Inl e | Inr q \<Rightarrow> Inr (Some q))) of
             Inl e \<Rightarrow> Inl e
           | Inr safe \<Rightarrow>
               Inr (upd_action_outbox action_id (\<lambda>x. x\<lparr>wo_remote_effect_status := Some ''succeeded'', wo_remote_effect_at := Some now,
                      wo_domain_operation_payload := safe\<rparr>) d)))"

definition ALLOWED_REASONS :: "string list" where
  "ALLOWED_REASONS = [''missing_required_fields'', ''duplicate_confirmation_required'', ''crm_user_mapping_missing'', ''sync_processing'',
     ''crm_create_retrying'', ''crm_create_failed_pending_review'', ''candidate_state_changed'', ''already_submitted'',
     ''duplicate_target_unavailable'', ''company_identity_conflict'', ''company_identity_reserved'', ''crm_duplicate_search_retrying'',
     ''crm_duplicate_search_failed'', ''crm_update_incomplete'', ''crm_update_retrying'', ''crm_update_failed_pending_review'',
     ''company_identity_change_pending_review'', ''crm_enum_mapping_missing'', ''crm_outcome_unknown'', ''wecom_smart_table_retryable'',
     ''pre_crm_transient_failure'', ''smart_table_snapshot_failed'', ''crm_followed_up'']"

text \<open>One result of a submission as the executor passes it on.\<close>

record saved_item =
  si_lead_id :: pstr
  si_status :: string
  si_reason_code :: "string option"
  si_missing_fields :: "pstr list"

definition saved_item_ok :: "saved_item \<Rightarrow> bool" where
  "saved_item_ok s =
     (identifier_ok (si_lead_id s) \<and> si_status s \<in> set CRM_SUBMISSION_RESULT_STATUSES \<and>
      (case si_reason_code s of None \<Rightarrow> True | Some r \<Rightarrow> r \<in> set ALLOWED_REASONS) \<and>
      length (si_missing_fields s) \<le> 32 \<and> list_all (plain_line 64) (si_missing_fields s))"

definition saved_value :: "saved_item \<Rightarrow> pyval" where
  "saved_value s = PDict [(asc ''lead_id'', PStr (si_lead_id s)), (asc ''status'', PStr (asc (si_status s))),
     (asc ''reason_code'', (case si_reason_code s of None \<Rightarrow> PNone | Some r \<Rightarrow> PStr (asc r))),
     (asc ''missing_fields'', PList (map PStr (si_missing_fields s)))]"

text \<open>Earlier results are kept; a second result for the same lead must be equal.\<close>

fun merge_earlier :: "pstr list \<Rightarrow> (pstr \<times> pyval) list \<Rightarrow> pyval list \<Rightarrow> (pstr \<times> pyval) list option" where
  "merge_earlier selected m [] = Some m"
| "merge_earlier selected m (x # xs) =
     (case item_text ''lead_id'' x of
        Some i \<Rightarrow> if i \<in> set selected then merge_earlier selected (dset i x m) xs else None
      | None \<Rightarrow> None)"

fun merge_items :: "(pstr \<times> pyval) list \<Rightarrow> saved_item list \<Rightarrow> (pstr \<times> pyval) list option" where
  "merge_items m [] = Some m"
| "merge_items m (s # ss) =
     (case dget (si_lead_id s) m of
        Some p \<Rightarrow> if py_eq p (saved_value s) then merge_items (dset (si_lead_id s) (saved_value s) m) ss else None
      | None \<Rightarrow> merge_items (dset (si_lead_id s) (saved_value s) m) ss)"

definition merged_context :: "pstr list \<Rightarrow> (pstr \<times> pyval) list \<Rightarrow> fields \<Rightarrow> fields" where
  "merged_context selected m ctx =
     (let items = concat (map (\<lambda>i. case dget i m of Some v \<Rightarrow> [(i, v)] | None \<Rightarrow> []) selected)
      in dmerge ctx [(asc ''selected_lead_ids'', PList (map PStr selected)), (asc ''submission_results'', PList (map snd items)),
           (asc ''incomplete_selected_lead_ids'',
            PList (map (\<lambda>(i, v). PStr i) (filter (\<lambda>(i, v). item_text ''status'' v = Some (asc ''incomplete'')) items)))])"

definition record_submission_results :: "time \<Rightarrow> pstr \<Rightarrow> pstr \<Rightarrow> saved_item list \<Rightarrow> db \<Rightarrow> db res" where
  "record_submission_results now action_id token items d =
     (if items = [] \<or> 20 < length items then Inl (ValueError ''items'')
      else if \<not> list_all saved_item_ok items \<or> \<not> distinct (map si_lead_id items) then Inl (ValueError ''item'')
      else case with_claim now action_id token d of
        Inl e \<Rightarrow> Inl e
      | Inr (a, x) \<Rightarrow>
          (case selected_of_action a of
             None \<Rightarrow> Inl (ValueError ''action type'')
           | Some sel \<Rightarrow>
               (case str_list sel of
                  None \<Rightarrow> Inl (ValueError ''selection'')
                | Some selected \<Rightarrow>
                    if \<not> si_lead_id ` set items \<subseteq> set selected then Inl (ValueError ''selection'')
                    else (case the_default (PList []) (dget (asc ''submission_results'') (wa_context a)) of
                            PList earlier \<Rightarrow>
                              (case merge_earlier selected [] earlier of
                                 None \<Rightarrow> Inl (ValueError ''saved'')
                               | Some m \<Rightarrow>
                                   (case merge_items m items of
                                      None \<Rightarrow> Inl (ValueError ''overwrite'')
                                    | Some m1 \<Rightarrow>
                                        Inr (upd_action_outbox action_id (\<lambda>x. x\<lparr>wo_processing_lease_expires_at := Some (now + ACTION_LEASE)\<rparr>)
                                          (store_action (a\<lparr>wa_context := merged_context selected m1 (wa_context a),
                                             wa_processing_lease_expires_at := Some (now + ACTION_LEASE)\<rparr>) d))))
                          | _ \<Rightarrow> Inl (ValueError ''saved'')))))"

section \<open>Transport evidence and dispatch\<close>

definition upd_delivery :: "pstr \<Rightarrow> (wecom_callback_delivery \<Rightarrow> wecom_callback_delivery) \<Rightarrow> db \<Rightarrow> db" where
  "upd_delivery msgid f d = d\<lparr>wecom_callback_deliveries := tupd wd_provider_msgid msgid f (wecom_callback_deliveries d)\<rparr>"

definition record_callback_transport_failure :: "time \<Rightarrow> pstr \<Rightarrow> pstr \<Rightarrow> pstr option \<Rightarrow> pstr option \<Rightarrow> db \<Rightarrow> db" where
  "record_callback_transport_failure now msgid type_name code summary d =
     upd_delivery msgid (\<lambda>v. v\<lparr>wd_transport_stage := Some ''callback_card_update'', wd_transport_status := Some ''failed'',
       wd_transport_failure_code := Some (take 64 (case code of Some c \<Rightarrow> if c = [] then take 64 type_name else c | None \<Rightarrow> take 64 type_name)),
       wd_transport_failure_summary := Some (take 128 (case summary of Some s \<Rightarrow> if s = [] then t_transport_failed else s | None \<Rightarrow> t_transport_failed)),
       wd_transport_failed_at := Some now\<rparr>) d"

definition record_callback_transport_success :: "time \<Rightarrow> pstr \<Rightarrow> db \<Rightarrow> db" where
  "record_callback_transport_success now msgid d =
     upd_delivery msgid (\<lambda>v. v\<lparr>wd_transport_stage := Some ''callback_card_update'', wd_transport_status := Some ''succeeded'',
       wd_transport_failure_code := None, wd_transport_failure_summary := None, wd_transport_failed_at := None,
       wd_processed_at := Some now\<rparr>) d"

definition action_dispatchable :: "time \<Rightarrow> wecom_action_outbox \<Rightarrow> bool" where
  "action_dispatchable now x =
     ((wo_status x = ''pending'' \<or> wo_status x = ''processing'' \<and>
       (case wo_processing_lease_expires_at x of None \<Rightarrow> False | Some t \<Rightarrow> t \<le> now)) \<and>
      (case wo_dispatch_lease_expires_at x of None \<Rightarrow> True | Some t \<Rightarrow> t \<le> now))"

definition consume_pending_wecom_actions :: "time \<Rightarrow> db \<Rightarrow> pstr list \<times> db" where
  "consume_pending_wecom_actions now d =
     (map wo_action_id (filter (action_dispatchable now) (wecom_action_outboxes d)),
      d\<lparr>wecom_action_outboxes := map (\<lambda>x. if action_dispatchable now x
          then x\<lparr>wo_dispatch_claimed_at := Some now, wo_dispatch_lease_expires_at := Some (now + minutes 5)\<rparr> else x) (wecom_action_outboxes d)\<rparr>)"

end
