(* ===== verification/Wecom_Lifecycle.thy ===== *)
theory Wecom_Lifecycle
  imports Wecom_Execute Interfaces
begin

text \<open>
  The life of an action: an abstract machine of phases, and the proof that every transaction on actions
  (\<^verbatim>\<open>Wecom_Callback\<close>, \<^verbatim>\<open>Wecom_Execute\<close>) moves each action only along it, whatever the interleaving of callbacks, workers,
  recoveries and other transactions. From it: the domain operation of an action starts at most once, and a settled
  action never changes again.
\<close>

section \<open>Phases\<close>

datatype phase = Unissued | Offered | Queued | Running "pstr option" bool | Closed string

inductive phase_step :: "phase \<Rightarrow> phase \<Rightarrow> bool" where
  issue: "phase_step Unissued Offered"
| accept: "phase_step Offered Queued"
| refuse_card: "st \<in> {''denied'', ''expired''} \<Longrightarrow> phase_step Offered (Closed st)"
| start: "phase_step Queued (Running t False)"
| take_over: "phase_step (Running t False) (Running t' False)"
| refuse_queued: "phase_step Queued (Closed ''denied'')"
| refuse_running: "phase_step (Running t False) (Closed ''denied'')"
| begin_domain: "phase_step (Running t False) (Running t True)"
| settle: "st \<in> {''succeeded'', ''pending_recovery''} \<Longrightarrow> phase_step (Running t b) (Closed st)"

inductive_cases phase_step_ClosedE: "phase_step (Closed st) p"
inductive_cases phase_step_StartedE: "phase_step (Running t True) p"

type_synonym action_rows = "wecom_action option \<times> wecom_action_outbox option"

definition action_view :: "db \<Rightarrow> pstr \<Rightarrow> action_rows" where
  "action_view d i = (get_action d i, get_action_outbox d i)"

definition action_phase :: "action_rows \<Rightarrow> phase" where
  "action_phase v =
     (case fst v of
        None \<Rightarrow> Unissued
      | Some a \<Rightarrow>
          if wa_status a = ''pending'' then Offered
          else if wa_status a = ''processing''
          then (case snd v of
                  None \<Rightarrow> Queued
                | Some x \<Rightarrow> if wo_status x = ''pending'' then Queued else Running (wo_claim_token x) (wo_domain_started_at x \<noteq> None))
          else Closed (wa_status a))"

definition outbox_open :: "wecom_action_outbox \<Rightarrow> bool" where
  "outbox_open x = (wo_status x = ''pending'' \<and> wo_domain_started_at x = None \<or>
                    wo_status x = ''processing'' \<and> wo_processing_lease_expires_at x \<noteq> None)"

definition rows_ok :: "action_rows \<Rightarrow> bool" where
  "rows_ok v =
     (case v of
        (None, x) \<Rightarrow> x = None
      | (Some a, x) \<Rightarrow>
          (wa_status a = ''pending'' \<longrightarrow> x = None) \<and>
          (wa_status a = ''processing'' \<longrightarrow> (case x of None \<Rightarrow> False | Some x \<Rightarrow> outbox_open x)))"

definition identity_of :: "wecom_action \<Rightarrow> string \<times> pstr \<times> pstr \<times> pstr \<times> pstr \<times> pstr \<times> pstr option" where
  "identity_of a = (wa_action_type a, wa_bound_actor a, wa_target_type a, wa_target_id a, wa_expected_action_key a, wa_task_id a,
     wa_issuance_key a)"

definition is_settled :: "wecom_action \<Rightarrow> bool" where
  "is_settled a = (wa_status a \<notin> {''pending'', ''processing''})"

text \<open>What one transaction may do to the rows of one action.\<close>

definition rows_move :: "action_rows \<Rightarrow> action_rows \<Rightarrow> bool" where
  "rows_move v v' =
     (rows_ok v \<longrightarrow>
        rows_ok v' \<and> phase_step\<^sup>=\<^sup>= (action_phase v) (action_phase v') \<and>
        (case fst v of
           None \<Rightarrow> True
         | Some a \<Rightarrow> (case fst v' of None \<Rightarrow> False | Some a' \<Rightarrow> identity_of a' = identity_of a \<and> (is_settled a \<longrightarrow> a' = a))))"

definition actions_wf :: "db \<Rightarrow> bool" where
  "actions_wf d = (distinct (map wa_id (wecom_actions d)) \<and> list_all (\<lambda>a. rows_ok (action_view d (wa_id a))) (wecom_actions d) \<and>
     list_all (\<lambda>x. get_action d (wo_action_id x) \<noteq> None) (wecom_action_outboxes d))"

lemma actions_wf_iff:
  "actions_wf d \<longleftrightarrow> distinct (map wa_id (wecom_actions d)) \<and> (\<forall>i. rows_ok (action_view d i))"
proof -
  have 1: "rows_ok (action_view d i)"
    if "list_all (\<lambda>a. rows_ok (action_view d (wa_id a))) (wecom_actions d)"
       "list_all (\<lambda>x. get_action d (wo_action_id x) \<noteq> None) (wecom_action_outboxes d)" for i
  proof (cases "get_action d i")
    case None
    have "get_action_outbox d i = None"
    proof (rule ccontr)
      assume "get_action_outbox d i \<noteq> None"
      then obtain x where "x \<in> set (wecom_action_outboxes d)" "wo_action_id x = i" by (auto dest: tget_SomeD)
      with that(2) None show False by (auto simp: list_all_iff)
    qed
    with None show ?thesis by (simp add: action_view_def rows_ok_def)
  next
    case (Some a)
    then have "a \<in> set (wecom_actions d)" "wa_id a = i" by (auto dest: tget_SomeD)
    with that(1) show ?thesis by (auto simp: list_all_iff)
  qed
  have 2: "get_action d (wo_action_id x) \<noteq> None"
    if "\<forall>i. rows_ok (action_view d i)" "x \<in> set (wecom_action_outboxes d)" for x
  proof
    assume none: "get_action d (wo_action_id x) = None"
    with that(1) [rule_format, of "wo_action_id x"] have "get_action_outbox d (wo_action_id x) = None"
      by (simp add: action_view_def rows_ok_def)
    with that(2) show False by (auto simp: tget_None_iff)
  qed
  from 1 2 show ?thesis unfolding actions_wf_def by (auto simp: list_all_iff)
qed

lemma rows_move_refl [intro]: "rows_move v v"
  by (auto simp: rows_move_def split: option.splits)

section \<open>The rows after each kind of update\<close>

lemma action_view_store [simp]:
  "action_view (store_action a d) i =
     (if i = wa_id a \<and> get_action d i \<noteq> None then Some a else get_action d i, get_action_outbox d i)"
proof -
  have "tget wa_id i (tupd wa_id k (\<lambda>_. a) t) = (if i = k \<and> tget wa_id i t \<noteq> None then Some a else tget wa_id i t)"
    if "k = wa_id a" for k t
    using that by (induction t) (auto simp: tupd_def)
  then show ?thesis by (simp add: action_view_def store_action_def)
qed

lemma action_view_outbox [simp]:
  assumes "\<And>x. wo_action_id (f x) = wo_action_id x"
  shows "action_view (upd_action_outbox k f d) i =
     (get_action d i, if i = k then map_option f (get_action_outbox d i) else get_action_outbox d i)"
  using assms by (simp add: action_view_def tget_tupd_same tget_tupd_other)

lemma action_view_delivery [simp]: "action_view (store_delivery v d) i = action_view d i"
  by (simp add: action_view_def store_delivery_def)

lemma action_view_complete [simp]: "action_view (complete_deliveries k code d) i = action_view d i"
  by (simp add: action_view_def complete_deliveries_def)

lemma notice_tables [simp]:
  "wecom_actions (add_result_notice env now a x d) = wecom_actions d"
  "wecom_action_outboxes (add_result_notice env now a x d) = wecom_action_outboxes d"
  by (simp_all add: add_result_notice_def Let_def)

lemma notification_tables [simp]:
  "wecom_actions (add_result_notification env now a s d) = wecom_actions d"
  "wecom_action_outboxes (add_result_notification env now a s d) = wecom_action_outboxes d"
proof -
  have "wecom_actions (fold (add_result_notice env now a) xs d) = wecom_actions d \<and>
        wecom_action_outboxes (fold (add_result_notice env now a) xs d) = wecom_action_outboxes d" for xs
    by (induction xs arbitrary: d) simp_all
  then show "wecom_actions (add_result_notification env now a s d) = wecom_actions d"
    "wecom_action_outboxes (add_result_notification env now a s d) = wecom_action_outboxes d"
    by (simp_all add: add_result_notification_def Let_def)
qed

lemma action_view_notification [simp]: "action_view (add_result_notification env now a s d) i = action_view d i"
  by (simp add: action_view_def)

lemma action_view_cong:
  "wecom_actions d' = wecom_actions d \<Longrightarrow> wecom_action_outboxes d' = wecom_action_outboxes d \<Longrightarrow> action_view d' i = action_view d i"
  by (simp add: action_view_def)

lemma store_ids [simp]: "map wa_id (wecom_actions (store_action a d)) = map wa_id (wecom_actions d)"
  unfolding store_action_def by (simp add: tupd_def comp_def)

section \<open>The transactions\<close>

inductive action_txn :: "env \<Rightarrow> db \<Rightarrow> db \<Rightarrow> bool" for env where
  txn_issue: "issue_action env ready expiry now action_id task_id q d = Inr (a, d') \<Longrightarrow> get_action d action_id = None \<Longrightarrow>
    action_txn env d d'"
| txn_callback: "claim_callback env ready now frame d = Inr (r, d') \<Longrightarrow> action_txn env d d'"
| txn_dispatch: "consume_pending_wecom_actions now d = (is, d') \<Longrightarrow> action_txn env d d'"
| txn_start: "begin_execution env now token i d = Inr (s, d') \<Longrightarrow> action_txn env d d'"
| txn_begin: "begin_domain_operation env now i token p d = Inr d' \<Longrightarrow> action_txn env d d'"
| txn_effect: "mark_remote_effect_succeeded env now i token p d = Inr d' \<Longrightarrow> action_txn env d d'"
| txn_record: "record_submission_results now i token items d = Inr d' \<Longrightarrow> action_txn env d d'"
| txn_finish: "st \<in> {''succeeded'', ''pending_recovery''} \<Longrightarrow>
    finish_action env now i token st ost code summary d = Inr (r, d') \<Longrightarrow> action_txn env d d'"
| txn_failure: "action_txn env d (record_callback_transport_failure now msgid type_name c s d)"
| txn_success: "action_txn env d (record_callback_transport_success now msgid d)"
| txn_other: "wecom_actions d' = wecom_actions d \<Longrightarrow> wecom_action_outboxes d' = wecom_action_outboxes d \<Longrightarrow> action_txn env d d'"

text \<open>The moves of the rows of one action.\<close>

lemma move_settle:
  assumes "wa_status a = ''processing''" "wo_status x = ''processing''" "wa_status a' \<in> {''succeeded'', ''pending_recovery''}"
    "identity_of a' = identity_of a"
  shows "rows_move (Some a, Some x) (Some a', y)"
  using assms by (auto simp: rows_move_def rows_ok_def action_phase_def is_settled_def phase_step.simps)

lemma move_refuse:
  assumes "wa_status a = ''processing''" "wo_domain_started_at x = None" "wa_status a' = ''denied''" "identity_of a' = identity_of a"
  shows "rows_move (Some a, Some x) (Some a', y)"
  using assms by (auto simp: rows_move_def rows_ok_def action_phase_def is_settled_def phase_step.simps)

lemma move_start:
  assumes "wa_status a = ''processing''" "wo_domain_started_at x = None" "wa_status a' = ''processing''" "identity_of a' = identity_of a"
    "wo_status y = ''processing''" "wo_processing_lease_expires_at y \<noteq> None" "wo_domain_started_at y = None"
  shows "rows_move (Some a, Some x) (Some a', Some y)"
  using assms by (auto simp: rows_move_def rows_ok_def action_phase_def is_settled_def phase_step.simps outbox_open_def)

lemma move_begin:
  assumes "wa_status a = ''processing''" "wo_status x = ''processing''" "wo_domain_started_at x = None"
    "wo_status y = ''processing''" "wo_processing_lease_expires_at y = wo_processing_lease_expires_at x"
    "wo_claim_token y = wo_claim_token x"
  shows "rows_move (Some a, Some x) (Some a, Some y)"
  using assms by (auto simp: rows_move_def rows_ok_def action_phase_def is_settled_def phase_step.simps outbox_open_def)

lemma move_close_card:
  assumes "wa_status a = ''pending''" "wa_status a' \<in> {''denied'', ''expired''}" "identity_of a' = identity_of a"
  shows "rows_move (Some a, x) (Some a', x)"
  using assms by (auto simp: rows_move_def rows_ok_def action_phase_def is_settled_def phase_step.simps)

lemma move_accept:
  assumes "wa_status a = ''pending''" "wa_status a' = ''processing''" "identity_of a' = identity_of a"
    "wo_status y = ''pending''" "wo_domain_started_at y = None"
  shows "rows_move (Some a, x) (Some a', case x of None \<Rightarrow> Some y | Some x' \<Rightarrow> Some x')"
  using assms by (auto simp: rows_move_def rows_ok_def action_phase_def is_settled_def phase_step.simps outbox_open_def)

lemma move_issue:
  "wa_status a = ''pending'' \<Longrightarrow> rows_move (None, x) (Some a, x)"
  by (auto simp: rows_move_def rows_ok_def action_phase_def phase_step.simps)

lemma move_keep_outbox:
  assumes "wo_status y = wo_status x" "wo_domain_started_at y = wo_domain_started_at x" "wo_claim_token y = wo_claim_token x"
    "wo_processing_lease_expires_at x \<noteq> None \<Longrightarrow> wo_processing_lease_expires_at y \<noteq> None"
  shows "rows_move (a, Some x) (a, Some y)"
  using assms by (auto simp: rows_move_def rows_ok_def action_phase_def outbox_open_def split: option.splits)

lemma move_keep_running:
  assumes "wa_status a = ''processing''" "wa_status a' = ''processing''" "identity_of a' = identity_of a"
    "wo_status y = wo_status x" "wo_domain_started_at y = wo_domain_started_at x" "wo_claim_token y = wo_claim_token x"
    "wo_processing_lease_expires_at x \<noteq> None \<Longrightarrow> wo_processing_lease_expires_at y \<noteq> None"
  shows "rows_move (Some a, Some x) (Some a', Some y)"
  using assms by (auto simp: rows_move_def rows_ok_def action_phase_def outbox_open_def is_settled_def)

text \<open>A transaction moves one action: \<open>moved k v d d'\<close> says that \<open>d'\<close> differs from \<open>d\<close> only in the rows \<open>v\<close> of action \<open>k\<close>.\<close>

definition moved :: "pstr \<Rightarrow> action_rows \<Rightarrow> db \<Rightarrow> db \<Rightarrow> bool" where
  "moved k v d d' = ((\<forall>i. action_view d' i = (if i = k then v else action_view d i)) \<and>
     map wa_id (wecom_actions d') = map wa_id (wecom_actions d))"

lemma moved_both:
  assumes "get_action d k = Some a" "get_action_outbox d k = Some x" "wa_id a' = k" "\<And>x. wo_action_id (f x) = wo_action_id x"
  shows "moved k (Some a', Some (f x)) d (upd_action_outbox k f (store_action a' d))"
    and "moved k (Some a', Some (f x)) d (store_action a' (upd_action_outbox k f d))"
proof -
  have s: "store_action a' (upd_action_outbox k f d) = upd_action_outbox k f (store_action a' d)"
    by (simp add: store_action_def)
  have v: "get_action (store_action a' d) i = (if i = k then Some a' else get_action d i)" for i
    using action_view_store [of a' d i] assms by (auto simp: action_view_def)
  have w: "get_action_outbox (store_action a' d) i = get_action_outbox d i" for i
    by (simp add: store_action_def)
  show "moved k (Some a', Some (f x)) d (upd_action_outbox k f (store_action a' d))"
    using assms by (simp add: moved_def v w) (simp add: action_view_def)
  then show "moved k (Some a', Some (f x)) d (store_action a' (upd_action_outbox k f d))"
    by (simp only: s)
qed

lemma moved_moves:
  assumes "moved k v d d'" "rows_move (action_view d k) v"
  shows "rows_move (action_view d i) (action_view d' i) \<and> map wa_id (wecom_actions d') = map wa_id (wecom_actions d)"
  using assms by (auto simp: moved_def)

lemma moved_cong:
  assumes "moved k v d d1" "wecom_actions d2 = wecom_actions d1" "wecom_action_outboxes d2 = wecom_action_outboxes d1"
  shows "moved k v d d2"
  using assms action_view_cong [OF assms(2,3)] by (simp add: moved_def)

lemma complete_tables [simp]:
  "wecom_actions (complete_deliveries k code d) = wecom_actions d"
  "wecom_action_outboxes (complete_deliveries k code d) = wecom_action_outboxes d"
  by (simp_all add: complete_deliveries_def)

lemma finished_fields [simp]:
  "wa_id (finished_action now st code s a) = wa_id a" "wa_status (finished_action now st code s a) = st"
  "identity_of (finished_action now st code s a) = identity_of a"
  by (simp_all add: finished_action_def discard_candidate_snapshots_def identity_of_def)

lemma release_fields [simp]: "wo_action_id (release_outbox st x) = wo_action_id x"
  by (simp add: release_outbox_def)

lemma finish_cases [consumes 1, case_names stale settled]:
  assumes "finish_action env now k token st ost code summary d = Inr (r, d')"
  obtains "d' = d" "r = stale_answer"
  | a x a' where "get_action d k = Some a" "get_action_outbox d k = Some x" "claim_current token a x" "may_move (wa_status a) st"
      "a' = finished_action now st code (take 256 (hd (split_result_notifications summary))) a"
      "r = exec_answer code summary True" "moved k (Some a', Some (release_outbox ost x)) d d'"
proof -
  from assms obtain a x where ax: "get_action d k = Some a" "get_action_outbox d k = Some x"
    by (auto simp: finish_action_def split: option.splits)
  have id: "wa_id a = k" using ax(1) by (auto dest: tget_SomeD)
  show thesis
  proof (cases "claim_current token a x")
    case False
    with assms ax show thesis by (intro that(1)) (auto simp: finish_action_def)
  next
    case True
    let ?a = "finished_action now st code (take 256 (hd (split_result_notifications summary))) a"
    from assms ax True have may: "may_move (wa_status a) st" and r: "r = exec_answer code summary True"
      and d': "d' = add_result_notification env now ?a summary (complete_deliveries k code (upd_action_outbox k (release_outbox ost) (store_action ?a d)))"
      by (auto simp: finish_action_def Let_def split: if_splits)
    have "moved k (Some ?a, Some (release_outbox ost x)) d (upd_action_outbox k (release_outbox ost) (store_action ?a d))"
      by (rule moved_both(1) [OF ax]) (simp_all add: id)
    then have "moved k (Some ?a, Some (release_outbox ost x)) d d'"
      unfolding d' by (rule moved_cong) simp_all
    with ax True may r show thesis by (intro that(2)) auto
  qed
qed

lemma finish_moves:
  assumes "finish_action env now k token st ost code summary d = Inr (r, d')"
    and st: "st \<in> {''succeeded'', ''pending_recovery''}"
  shows "rows_move (action_view d i) (action_view d' i) \<and> map wa_id (wecom_actions d') = map wa_id (wecom_actions d)"
  using assms(1)
proof (cases rule: finish_cases)
  case stale
  then show ?thesis by auto
next
  case (settled a x a')
  have "rows_move (action_view d k) (Some a', Some (release_outbox ost x))"
    using settled st by (auto simp: action_view_def claim_current_def intro!: move_settle)
  with settled(7) show ?thesis by (rule moved_moves)
qed

lemma undispatch_keeps [simp]: "wo_action_id (undispatch x) = wo_action_id x"
  by (simp add: undispatch_def)

lemma store_upd_commute: "store_action a (upd_action_outbox k f d) = upd_action_outbox k f (store_action a d)"
  by (simp add: store_action_def)

lemma moved_outbox:
  assumes "get_action d k = a" "get_action_outbox d k = Some x" "\<And>x. wo_action_id (f x) = wo_action_id x"
  shows "moved k (a, Some (f x)) d (upd_action_outbox k f d)"
proof -
  have "action_view (upd_action_outbox k f d) i = (if i = k then (a, Some (f x)) else action_view d i)" for i
    using assms by (cases "i = k") (simp_all add: action_view_def tget_tupd_same tget_tupd_other)
  then show ?thesis by (simp add: moved_def)
qed

lemma recover_moved:
  assumes "recover_action env now a (upd_action_outbox k undispatch d) = (s, d')"
    and "get_action d k = Some a" "get_action_outbox d k = Some x"
  obtains st ost code summary where "st \<in> {''succeeded'', ''pending_recovery''}"
    "moved k (Some (finished_action now st code (take 256 summary) a), Some ((release_outbox ost (undispatch x))\<lparr>wo_claim_token := None\<rparr>)) d d'"
    "\<nexists>sn. s = Started sn"
proof -
  have id: "wa_id a = k" using assms(2) by (auto dest: tget_SomeD)
  define complete where "complete = (case saved_submission_results_summary a of Some (s, c) \<Rightarrow> c | None \<Rightarrow> False)"
  define summary where "summary = (case saved_submission_results_summary a of Some (s, c) \<Rightarrow> s | None \<Rightarrow> t_lost)"
  define st where "st = (if complete then ''succeeded'' else ''pending_recovery'')"
  define ost where "ost = (if complete then ''succeeded'' else ''failed'')"
  define code where "code = asc (if complete then ''submission_results_recovered'' else ''domain_operation_recovery_required'')"
  let ?a = "finished_action now st code (take 256 summary) a"
  let ?f = "\<lambda>x. (release_outbox ost (undispatch x))\<lparr>wo_claim_token := None\<rparr>"
  have d': "d' = add_result_notification env now ?a summary (upd_action_outbox k (\<lambda>x. (release_outbox ost x)\<lparr>wo_claim_token := None\<rparr>)
      (store_action ?a (upd_action_outbox k undispatch d)))"
    using assms(1) id by (simp add: recover_action_def Let_def complete_def summary_def st_def ost_def code_def)
  have "moved k (Some ?a, Some (?f x)) d (upd_action_outbox k ?f (store_action ?a d))"
    by (rule moved_both(1) [OF assms(2,3)]) (simp_all add: id)
  then have m: "moved k (Some ?a, Some (?f x)) d d'"
    unfolding d' by (rule moved_cong) (simp_all add: store_upd_commute tupd_tupd)
  have "\<nexists>sn. s = Started sn" using assms(1) by (auto simp: recover_action_def Let_def)
  with m show thesis by (intro that [of st code summary ost]) (auto simp: st_def)
qed

lemma refuse_moved:
  assumes "refuse_action env now a (upd_action_outbox k undispatch d) = (s, d')"
    and "get_action d k = Some a" "get_action_outbox d k = Some x"
  obtains a' y where "moved k (Some a', Some y) d d'" "wa_status a' = ''denied''" "identity_of a' = identity_of a" "\<nexists>sn. s = Started sn"
proof -
  have id: "wa_id a = k" using assms(2) by (auto dest: tget_SomeD)
  define a' where "a' = (discard_candidate_snapshots (a\<lparr>wa_status := ''denied''\<rparr>))\<lparr>wa_processed_at := Some now,
                 wa_result_code := Some (asc ''actor_inactive''), wa_result_summary := Some t_operator_inactive\<rparr>"
  have a': "wa_id a' = k" "wa_status a' = ''denied''" "identity_of a' = identity_of a"
    by (simp_all add: a'_def id discard_candidate_snapshots_def identity_of_def)
  let ?f = "\<lambda>x. release_outbox ''failed'' (undispatch x)"
  have d': "d' = add_result_notification env now a' t_operator_inactive
      (upd_action_outbox k (release_outbox ''failed'') (store_action a' (upd_action_outbox k undispatch d)))"
    using assms(1) id by (simp add: refuse_action_def Let_def a'_def)
  have "moved k (Some a', Some (?f x)) d (upd_action_outbox k ?f (store_action a' d))"
    by (rule moved_both(1) [OF assms(2,3) a'(1)]) simp
  then have m: "moved k (Some a', Some (?f x)) d d'"
    unfolding d' by (rule moved_cong) (simp_all add: store_upd_commute tupd_tupd)
  have "\<nexists>sn. s = Started sn" using assms(1) by (auto simp: refuse_action_def Let_def)
  then show thesis by (rule that [OF m a'(2,3)])
qed

lemma take_moved:
  assumes "take_execution now token a (upd_action_outbox k undispatch d) = (s, d')"
    and "get_action d k = Some a" "get_action_outbox d k = Some x"
  obtains a' y where "moved k (Some a', Some y) d d'" "wa_status a' = wa_status a" "identity_of a' = identity_of a"
    "wo_status y = ''processing''" "wo_claim_token y = Some token" "wo_processing_lease_expires_at y = Some (now + ACTION_LEASE)"
    "wo_domain_started_at y = wo_domain_started_at x" "wo_attempts y = wo_attempts x + 1"
proof -
  have id: "wa_id a = k" using assms(2) by (auto dest: tget_SomeD)
  let ?a = "a\<lparr>wa_processing_lease_expires_at := Some (now + ACTION_LEASE)\<rparr>"
  let ?g = "\<lambda>x. x\<lparr>wo_status := ''processing'', wo_claim_token := Some token, wo_attempts := wo_attempts x + 1,
          wo_processing_started_at := Some now, wo_processing_lease_expires_at := Some (now + ACTION_LEASE)\<rparr>"
  let ?f = "\<lambda>x. ?g (undispatch x)"
  have d': "d' = upd_action_outbox k ?g (store_action ?a (upd_action_outbox k undispatch d))"
    using assms(1) id by (simp add: take_execution_def)
  have "moved k (Some ?a, Some (?f x)) d (upd_action_outbox k ?f (store_action ?a d))"
    by (rule moved_both(1) [OF assms(2,3)]) (simp_all add: id)
  then have m: "moved k (Some ?a, Some (?f x)) d d'"
    unfolding d' by (rule moved_cong) (simp_all add: store_upd_commute tupd_tupd)
  show thesis by (rule that [OF m]) (simp_all add: identity_of_def undispatch_def)
qed

lemma begin_cases [consumes 1, case_names answered recovered refused taken]:
  assumes "begin_execution env now token k d = Inr (s, d')"
  obtains (answered) r a x where "s = Answered r" "get_action d k = Some a" "get_action_outbox d k = Some x" "moved k (Some a, Some (undispatch x)) d d'"
  | (recovered) a x a' y r where "get_action d k = Some a" "get_action_outbox d k = Some x" "s = Answered r" "wa_status a = ''processing''"
      "wo_domain_started_at x \<noteq> None" "wa_status a' \<in> {''succeeded'', ''pending_recovery''}" "identity_of a' = identity_of a"
      "moved k (Some a', Some y) d d'"
  | (refused) a x a' y r where "get_action d k = Some a" "get_action_outbox d k = Some x" "s = Answered r" "wa_status a = ''processing''"
      "wo_status x = ''processing'' \<longrightarrow> wo_processing_lease_expires_at x \<noteq> None \<and> wo_domain_started_at x = None"
      "wa_status a' = ''denied''" "identity_of a' = identity_of a" "moved k (Some a', Some y) d d'"
  | (taken) a x a' y sn where "get_action d k = Some a" "get_action_outbox d k = Some x" "s = Started sn" "wa_status a = ''processing''"
      "wo_status x = ''processing'' \<longrightarrow> wo_processing_lease_expires_at x \<noteq> None \<and> wo_domain_started_at x = None"
      "wo_status x \<noteq> ''succeeded''" "wa_status a' = ''processing''" "identity_of a' = identity_of a" "moved k (Some a', Some y) d d'"
      "wo_status y = ''processing''" "wo_claim_token y = Some token" "wo_processing_lease_expires_at y \<noteq> None"
      "wo_domain_started_at y = wo_domain_started_at x"
proof -
  from assms obtain a x where a: "get_action d k = Some a" and x: "get_action_outbox d k = Some x"
    by (auto simp: begin_execution_def split: option.splits)
  note ax = a x
  define expired where "expired = (case wo_processing_lease_expires_at x of None \<Rightarrow> False | Some t \<Rightarrow> t \<le> now)"
  let ?d = "upd_action_outbox k undispatch d"
  have m: "moved k (Some a, Some (undispatch x)) d ?d"
    by (rule moved_outbox [OF ax]) simp
  note eq = assms [unfolded begin_execution_def ax option.case prod.case Let_def, folded expired_def, simplified]
  show thesis
  proof (cases "wo_status x = ''succeeded'' \<or> wa_status a \<noteq> ''processing'' \<or> wo_status x = ''processing'' \<and> \<not> expired")
    case True
    with eq have "\<exists>r. s = Answered r" "d' = ?d" by (auto split: if_splits)
    with ax m show thesis by (auto intro: answered)
  next
    case False
    then have run: "wa_status a = ''processing''" "wo_status x \<noteq> ''succeeded''" "wo_status x = ''processing'' \<Longrightarrow> expired" by auto
    show thesis
    proof (cases "expired \<and> wo_domain_started_at x \<noteq> None")
      case True
      with eq run have "recover_action env now a ?d = (s, d')" by (auto split: if_splits)
      then obtain st ost code summary where st: "st \<in> {''succeeded'', ''pending_recovery''}" and
        mv: "moved k (Some (finished_action now st code (take 256 summary) a), Some ((release_outbox ost (undispatch x))\<lparr>wo_claim_token := None\<rparr>)) d d'"
        and s: "\<nexists>sn. s = Started sn" using ax by (rule recover_moved)
      from s obtain r where "s = Answered r" by (cases s) auto
      with ax run True st mv show thesis by (intro recovered) auto
    next
      case not_started: False
      have fresh: "wo_status x = ''processing'' \<longrightarrow> wo_processing_lease_expires_at x \<noteq> None \<and> wo_domain_started_at x = None"
        using not_started run(3) by (auto simp: expired_def split: option.splits)
      show thesis
      proof (cases "requires_active_sales_authorization (wa_action_type a) (wa_context a) \<and> \<not> actor_enabled d (wa_bound_actor a)")
        case True
        with eq run not_started have "refuse_action env now a ?d = (s, d')" by (auto simp: actor_enabled_def split: if_splits)
        then obtain a' y where mv: "moved k (Some a', Some y) d d'" "wa_status a' = ''denied''" "identity_of a' = identity_of a"
          and s: "\<nexists>sn. s = Started sn" using ax by (rule refuse_moved)
        from s obtain r where "s = Answered r" by (cases s) auto
        with ax run fresh mv show thesis by (intro refused [of a x r a' y]) auto
      next
        case False
        with eq run not_started have tk: "take_execution now token a ?d = (s, d')" by (auto simp: actor_enabled_def split: if_splits)
        then obtain a' y where mv: "moved k (Some a', Some y) d d'" "wa_status a' = wa_status a" "identity_of a' = identity_of a"
          "wo_status y = ''processing''" "wo_claim_token y = Some token" "wo_processing_lease_expires_at y = Some (now + ACTION_LEASE)"
          "wo_domain_started_at y = wo_domain_started_at x" "wo_attempts y = wo_attempts x + 1" using ax by (rule take_moved)
        from tk obtain sn where "s = Started sn" by (auto simp: take_execution_def)
        with ax run fresh mv show thesis by (intro taken [of a x sn a' y]) auto
      qed
    qed
  qed
qed

lemma ok_outbox:
  assumes "rows_ok (action_view d k)" "get_action d k = Some a" "get_action_outbox d k = Some x" "wa_status a = ''processing''"
  shows "outbox_open x"
  using assms by (auto simp: rows_ok_def action_view_def)

lemma begin_moves:
  assumes "begin_execution env now token k d = Inr (s, d')" and ok: "actions_wf d"
  shows "rows_move (action_view d i) (action_view d' i) \<and> map wa_id (wecom_actions d') = map wa_id (wecom_actions d)"
  using assms(1)
proof (cases rule: begin_cases)
  case (answered r a x)
  have "rows_move (action_view d k) (Some a, Some (undispatch x))"
    using answered by (auto simp: action_view_def undispatch_def intro!: move_keep_outbox)
  with answered(4) show ?thesis by (rule moved_moves)
next
  case (recovered a x a' y r)
  have "outbox_open x" using ok recovered by (intro ok_outbox) (auto simp: actions_wf_iff)
  with recovered have "rows_move (action_view d k) (Some a', Some y)"
    by (auto simp: action_view_def outbox_open_def intro!: move_settle)
  with recovered(8) show ?thesis by (rule moved_moves)
next
  case (refused a x a' y r)
  have "outbox_open x" using ok refused by (intro ok_outbox) (auto simp: actions_wf_iff)
  with refused have "rows_move (action_view d k) (Some a', Some y)"
    by (auto simp: action_view_def outbox_open_def intro!: move_refuse)
  with refused(8) show ?thesis by (rule moved_moves)
next
  case (taken a x a' y sn)
  have "outbox_open x" using ok taken by (intro ok_outbox) (auto simp: actions_wf_iff)
  with taken have "rows_move (action_view d k) (Some a', Some y)"
    by (auto simp: action_view_def outbox_open_def intro!: move_start)
  with taken(9) show ?thesis by (rule moved_moves)
qed

lemma with_claim_cases:
  assumes "with_claim now k token d = Inr (a, x)"
  shows "get_action d k = Some a \<and> get_action_outbox d k = Some x \<and> wa_status a = ''processing'' \<and> wo_status x = ''processing'' \<and>
    wo_claim_token x = Some token \<and> lease_alive now x \<and> wa_id a = k"
  using assms by (auto simp: with_claim_def claim_current_def split: option.splits if_splits dest: tget_SomeD)

lemma begin_domain_moved:
  assumes "begin_domain_operation env now k token p d = Inr d'"
  obtains a x y where "get_action d k = Some a" "get_action_outbox d k = Some x" "wa_status a = ''processing''" "wo_status x = ''processing''"
    "wo_claim_token x = Some token" "wo_domain_started_at x = None" "moved k (Some a, Some y) d d'" "wo_status y = ''processing''"
    "wo_processing_lease_expires_at y = wo_processing_lease_expires_at x" "wo_claim_token y = wo_claim_token x"
    "wo_domain_started_at y = Some now"
proof -
  from assms obtain a x where w: "with_claim now k token d = Inr (a, x)"
    by (auto simp: begin_domain_operation_def split: sum.splits prod.splits)
  from assms w obtain safe where ns: "wo_domain_started_at x = None" and d': "d' = upd_action_outbox k (\<lambda>x. x\<lparr>wo_domain_started_at := Some now,
      wo_domain_operation_key := Some (wa_id a), wo_domain_operation_payload := safe, wo_remote_effect_status := Some ''unknown''\<rparr>) d"
    by (auto simp: begin_domain_operation_def split: sum.splits if_splits)
  note c = with_claim_cases [OF w]
  let ?y = "x\<lparr>wo_domain_started_at := Some now, wo_domain_operation_key := Some (wa_id a), wo_domain_operation_payload := safe,
    wo_remote_effect_status := Some ''unknown''\<rparr>"
  have m: "moved k (Some a, Some ?y) d d'"
    unfolding d' by (rule moved_outbox) (use c in auto)
  show thesis
    by (rule that [of a x ?y]) (use c ns m in auto)
qed

lemma begin_domain_moves:
  assumes "begin_domain_operation env now k token p d = Inr d'"
  shows "rows_move (action_view d i) (action_view d' i) \<and> map wa_id (wecom_actions d') = map wa_id (wecom_actions d)"
  using assms
proof (rule begin_domain_moved)
  fix a x y
  assume r: "get_action d k = Some a" "get_action_outbox d k = Some x" "wa_status a = ''processing''" "wo_status x = ''processing''"
    "wo_claim_token x = Some token" "wo_domain_started_at x = None" "moved k (Some a, Some y) d d'" "wo_status y = ''processing''"
    "wo_processing_lease_expires_at y = wo_processing_lease_expires_at x" "wo_claim_token y = wo_claim_token x"
  have "rows_move (action_view d k) (Some a, Some y)"
    using r by (auto simp: action_view_def intro!: move_begin)
  with r(7) show ?thesis by (rule moved_moves)
qed

lemma effect_moves:
  assumes "mark_remote_effect_succeeded env now k token p d = Inr d'"
  shows "rows_move (action_view d i) (action_view d' i) \<and> map wa_id (wecom_actions d') = map wa_id (wecom_actions d)"
proof -
  from assms obtain a x where w: "with_claim now k token d = Inr (a, x)"
    by (auto simp: mark_remote_effect_succeeded_def split: sum.splits prod.splits)
  from assms w obtain safe where d': "d' = upd_action_outbox k (\<lambda>x. x\<lparr>wo_remote_effect_status := Some ''succeeded'',
      wo_remote_effect_at := Some now, wo_domain_operation_payload := safe\<rparr>) d"
    by (auto simp: mark_remote_effect_succeeded_def split: sum.splits)
  note c = with_claim_cases [OF w]
  let ?y = "x\<lparr>wo_remote_effect_status := Some ''succeeded'', wo_remote_effect_at := Some now, wo_domain_operation_payload := safe\<rparr>"
  have m: "moved k (Some a, Some ?y) d d'"
    unfolding d' by (rule moved_outbox) (use c in auto)
  have "rows_move (action_view d k) (Some a, Some ?y)"
    using c by (auto simp: action_view_def intro!: move_keep_outbox)
  with m show ?thesis by (rule moved_moves)
qed

lemma record_moves:
  assumes "record_submission_results now k token items d = Inr d'"
  shows "rows_move (action_view d i) (action_view d' i) \<and> map wa_id (wecom_actions d') = map wa_id (wecom_actions d)"
proof -
  from assms obtain a x where w: "with_claim now k token d = Inr (a, x)"
    by (auto simp: record_submission_results_def split: sum.splits prod.splits if_splits)
  let ?f = "\<lambda>x. x\<lparr>wo_processing_lease_expires_at := Some (now + ACTION_LEASE)\<rparr>"
  from assms w obtain ctx where
    d': "d' = upd_action_outbox k ?f (store_action (a\<lparr>wa_context := ctx, wa_processing_lease_expires_at := Some (now + ACTION_LEASE)\<rparr>) d)"
    by (auto simp: record_submission_results_def split: sum.splits if_splits option.splits pyval.splits)
  note c = with_claim_cases [OF w]
  let ?a = "a\<lparr>wa_context := ctx, wa_processing_lease_expires_at := Some (now + ACTION_LEASE)\<rparr>"
  have m: "moved k (Some ?a, Some (?f x)) d d'"
    unfolding d' by (rule moved_both(1)) (use c in auto)
  have "rows_move (action_view d k) (Some ?a, Some (?f x))"
    using c by (auto simp: action_view_def identity_of_def intro!: move_keep_running)
  with m show ?thesis by (rule moved_moves)
qed

lemma tget_map_keeps:
  "(\<And>r. key (f r) = key r) \<Longrightarrow> tget key k (map f t) = map_option f (tget key k t)"
  by (induction t) auto

lemma dispatch_moves:
  assumes "consume_pending_wecom_actions now d = (is, d')"
  shows "rows_move (action_view d i) (action_view d' i) \<and> map wa_id (wecom_actions d') = map wa_id (wecom_actions d)"
proof -
  let ?f = "\<lambda>x. if action_dispatchable now x
      then x\<lparr>wo_dispatch_claimed_at := Some now, wo_dispatch_lease_expires_at := Some (now + minutes 5)\<rparr> else x"
  from assms have d': "d' = d\<lparr>wecom_action_outboxes := map ?f (wecom_action_outboxes d)\<rparr>"
    by (simp add: consume_pending_wecom_actions_def)
  have v: "action_view d' i = (get_action d i, map_option ?f (get_action_outbox d i))"
    by (simp add: d' action_view_def tget_map_keeps)
  have "rows_move (action_view d i) (action_view d' i)"
    unfolding v by (cases "get_action_outbox d i") (auto simp: action_view_def intro!: move_keep_outbox)
  then show ?thesis by (simp add: d')
qed

section \<open>Issuing and accepting\<close>

lemma issue_moves:
  assumes "issue_action env ready expiry now action_id task_id q d = Inr (a, d')" and "get_action d action_id = None"
  shows "rows_move (action_view d i) (action_view d' i)"
    and "distinct (map wa_id (wecom_actions d)) \<Longrightarrow> distinct (map wa_id (wecom_actions d'))"
proof -
  have "d' = d \<or> (wecom_actions d' = tadd a (wecom_actions d) \<and> wecom_action_outboxes d' = wecom_action_outboxes d \<and>
      wa_id a = action_id \<and> wa_status a = ''pending'')"
    using assms(1) by (auto simp: issue_action_def Let_def new_action_def split: if_splits sum.splits option.splits)
  then show "rows_move (action_view d i) (action_view d' i)"
  proof
    assume new: "wecom_actions d' = tadd a (wecom_actions d) \<and> wecom_action_outboxes d' = wecom_action_outboxes d \<and>
      wa_id a = action_id \<and> wa_status a = ''pending''"
    then have v: "action_view d' i = (case get_action d i of Some b \<Rightarrow> Some b | None \<Rightarrow> if action_id = i then Some a else None, get_action_outbox d i)"
      by (simp add: action_view_def)
    show ?thesis
      using new assms(2) unfolding v by (cases "get_action d i") (auto simp: action_view_def intro: move_issue)
  qed auto
  assume "distinct (map wa_id (wecom_actions d))"
  with \<open>d' = d \<or> _\<close> assms(2) show "distinct (map wa_id (wecom_actions d'))"
    by (auto simp: tget_None_iff)
qed

text \<open>The checks change nothing of an action but its context.\<close>

definition keeps_action :: "wecom_action \<Rightarrow> claim_check res \<Rightarrow> bool" where
  "keeps_action a c =
     (case c of
        Inr (Go_On a1 u) \<Rightarrow> a1 = a\<lparr>wa_context := wa_context a1\<rparr>
      | Inr (Deny code s a1) \<Rightarrow> a1 = a\<lparr>wa_context := wa_context a1\<rparr> \<and> code \<noteq> ''claimed''
      | _ \<Rightarrow> True)"

lemma keeps_action_simps [simp]:
  "keeps_action a (Inl e)" "keeps_action a (Inr (Go_On a u))" "keeps_action a (Inr (Deny code s a)) = (code \<noteq> ''claimed'')" "keeps_action a (Inr (Tick_All v))"
  "keeps_action a (Inr (Go_On (extend_context new a) u))" "keeps_action a (Inr (Deny code s (extend_context new a))) = (code \<noteq> ''claimed'')"
  by (simp_all add: keeps_action_def extend_context_def)

lemma check_callback_keeps: "keeps_action a (check_callback env cb a d)"
proof -
  have "keeps_action a (check_target env cb a d)"
    unfolding check_target_def Let_def by (simp split: option.split sum.split list.split)
  moreover have "keeps_action a (check_batch env cb a)"
    unfolding check_batch_def Let_def by (simp split: option.split sum.split)
  moreover have "keeps_action a (check_duplicates env cb a d)"
    unfolding check_duplicates_def Let_def by (simp split: option.split sum.split)
  ultimately show ?thesis unfolding check_callback_def by simp
qed

lemma deny_cases [consumes 3, case_names kept denied]:
  assumes "deny_action now code s a1 v d = (r, d')" "a1 = a\<lparr>wa_context := ctx\<rparr>" "code \<noteq> ''claimed''"
  obtains (kept) "wecom_actions d' = wecom_actions d" "wecom_action_outboxes d' = wecom_action_outboxes d" "ccr_code r \<noteq> ''claimed''"
  | (denied) a' v' where "wa_status a = ''pending''" "wa_status a' = ''denied''" "wa_id a' = wa_id a" "identity_of a' = identity_of a"
      "d' = store_delivery v' (store_action a' d)" "ccr_code r \<noteq> ''claimed''"
proof (cases "wa_status a = ''pending''")
  case True
  let ?a = "(discard_candidate_snapshots (a1\<lparr>wa_status := ''denied''\<rparr>))
    \<lparr>wa_processed_at := Some now, wa_result_code := Some (asc code), wa_result_summary := Some s\<rparr>"
  from True assms show thesis
    by (intro denied [of ?a "mark_delivery now ''rejected'' code v"])
      (auto simp: deny_action_def Let_def claim_answer_def discard_candidate_snapshots_def identity_of_def)
next
  case False
  with assms show thesis
    by (intro kept) (auto simp: deny_action_def Let_def claim_answer_def store_delivery_def)
qed

text \<open>The ways a callback for a known action is answered, and those of any callback.\<close>

lemma claim_action_cases [consumes 1, case_names claim_unchanged claim_closed claim_accepted]:
  assumes "claim_action env now cb a v d = Inr (r, d')"
  obtains (claim_unchanged) "wecom_actions d' = wecom_actions d" "wecom_action_outboxes d' = wecom_action_outboxes d" "ccr_code r \<noteq> ''claimed''"
  | (claim_closed) a' v' where "wa_status a = ''pending''" "wa_status a' \<in> {''denied'', ''expired''}"
      "wa_id a' = wa_id a" "identity_of a' = identity_of a" "d' = store_delivery v' (store_action a' d)" "ccr_code r \<noteq> ''claimed''"
  | (claim_accepted) a1 u where "wa_status a = ''pending''" "now < wa_expires_at a" "cb_actor_user_id cb = wa_bound_actor a" "event_key_matches cb a"
      "requires_active_sales_authorization (wa_action_type a) (wa_context a) \<longrightarrow> actor_enabled d (cb_actor_user_id cb)"
      "check_callback env cb a d = Inr (Go_On a1 u)" "(r, d') = accept_callback now u a1 v d"
proof -
  have self: "a = a\<lparr>wa_context := wa_context a\<rparr>" by simp
  have deny: thesis if "deny_action now code s a1 v d = (r, d')" "a1 = a\<lparr>wa_context := ctx\<rparr>" "code \<noteq> ''claimed''" for code s a1 ctx
    using that
  proof (cases rule: deny_cases)
    case kept
    then show thesis by (rule claim_unchanged)
  next
    case (denied a' v')
    then show thesis by (intro claim_closed [of a' v']) simp_all
  qed
  let ?inactive = "requires_active_sales_authorization (wa_action_type a) (wa_context a) \<and> \<not> actor_enabled d (cb_actor_user_id cb)"
  note eq = assms [unfolded claim_action_def]
  consider "?inactive" | "\<not> ?inactive" "cb_actor_user_id cb \<noteq> wa_bound_actor a"
    | "\<not> ?inactive" "\<not> cb_actor_user_id cb \<noteq> wa_bound_actor a" by blast
  then show thesis
  proof cases
    case 1
    with eq have "deny_action now ''actor_inactive'' t_actor_inactive a v d = (r, d')" by (simp only: if_True HOL.simp_thms) simp
    from this self show thesis by (rule deny) simp
  next
    case 2
    with eq have "deny_action now ''actor_mismatch'' t_actor_mismatch a v d = (r, d')" by (simp only: if_True if_False HOL.simp_thms) simp
    from this self show thesis by (rule deny) simp
  next
    case 3
    note eq1 = eq [unfolded if_not_P [OF 3(1)] if_not_P [OF 3(2)]]
    show thesis
    proof (cases "cb_event_key cb \<in> set ALLOWED_CARD_EVENT_KEYS")
      case False
      with eq1 show thesis
        by (intro claim_unchanged) (auto simp: reject_delivery_def claim_answer_def store_delivery_def)
    next
      case True
      note eq2 = this eq1
      show thesis
      proof (cases "event_key_matches cb a")
        case False
        with eq2 have "deny_action now ''event_key_mismatch'' t_key_mismatch a v d = (r, d')" by simp
        from this self show thesis by (rule deny) simp
      next
        case matches: True
        show thesis
        proof (cases "wa_status a = ''pending''")
          case False
          with eq2 matches show thesis
            by (intro claim_unchanged) (auto simp: claim_answer_def store_delivery_def)
        next
          case pending: True
          show thesis
          proof (cases "wa_expires_at a \<le> now")
            case True
            let ?a = "(discard_candidate_snapshots (a\<lparr>wa_status := ''expired''\<rparr>))
              \<lparr>wa_processed_at := Some now, wa_result_code := Some (asc ''expired''), wa_result_summary := Some t_expired\<rparr>"
            from True pending matches eq2 show thesis
              by (intro claim_closed [of ?a "mark_delivery now ''rejected'' ''expired'' v"])
                (auto simp: expire_action_def claim_answer_def discard_candidate_snapshots_def identity_of_def)
          next
            case False
            have keeps: "keeps_action a (check_callback env cb a d)" by (rule check_callback_keeps)
            from eq2 matches pending False obtain c where c: "check_callback env cb a d = Inr c"
              by (auto split: sum.splits)
            show thesis
            proof (cases c)
              case (Deny code s a1)
              with c eq2 matches pending False have "deny_action now code s a1 v d = (r, d')" by simp
              moreover from keeps c Deny have "a1 = a\<lparr>wa_context := wa_context a1\<rparr>" "code \<noteq> ''claimed''"
                by (simp_all add: keeps_action_def)
              ultimately show thesis by (rule deny)
            next
              case (Tick_All v')
              with c eq2 matches pending False show thesis
                by (intro claim_unchanged) (auto simp: claim_answer_def store_delivery_def)
            next
              case (Go_On a1 u)
              with c eq2 matches pending False 3 show thesis
                by (intro claim_accepted) auto
            qed
          qed
        qed
      qed
    qed
  qed
qed

lemma claim_callback_cases [consumes 1, case_names unchanged closed accepted]:
  assumes "claim_callback env ready now frame d = Inr (r, d')"
  obtains (unchanged) "wecom_actions d' = wecom_actions d" "wecom_action_outboxes d' = wecom_action_outboxes d" "ccr_code r \<noteq> ''claimed''"
  | (closed) a a' v where "a \<in> set (wecom_actions d)" "wa_status a = ''pending''" "wa_status a' \<in> {''denied'', ''expired''}"
      "wa_id a' = wa_id a" "identity_of a' = identity_of a" "d' = store_delivery v (store_action a' d)" "ccr_code r \<noteq> ''claimed''"
  | (accepted) cb a a1 u where "parse_callback frame = Inr cb" "a \<in> set (wecom_actions d)" "wa_task_id a = cb_task_id cb"
      "wa_status a = ''pending''" "now < wa_expires_at a" "cb_actor_user_id cb = wa_bound_actor a" "event_key_matches cb a"
      "requires_active_sales_authorization (wa_action_type a) (wa_context a) \<longrightarrow> actor_enabled d (cb_actor_user_id cb)"
      "tget wd_provider_msgid (cb_provider_msgid cb) (wecom_callback_deliveries d) = None" "ready"
      "check_callback env cb a d = Inr (Go_On a1 u)" "(r, d') = accept_callback now u a1 (new_delivery now cb (Some (wa_id a)) d) d"
proof -
  from assms obtain cb where cb: "parse_callback frame = Inr cb" by (auto simp: claim_callback_def split: sum.splits)
  let ?prev = "tget wd_provider_msgid (cb_provider_msgid cb) (wecom_callback_deliveries d)"
  let ?a = "tget wa_task_id (cb_task_id cb) (wecom_actions d)"
  show thesis
  proof (cases "\<not> ready \<or> ?prev \<noteq> None \<or> ?a = None")
    case True
    with assms cb show thesis
      by (intro unchanged) (auto simp: claim_callback_def claim_answer_def reject_delivery_def store_delivery_def split: if_splits option.splits)
  next
    case False
    then obtain a where a: "?a = Some a" and none: "?prev = None" and ready: "ready" by auto
    from a have mem: "a \<in> set (wecom_actions d)" "wa_task_id a = cb_task_id cb" by (auto dest: tget_SomeD)
    let ?v = "new_delivery now cb (Some (wa_id a)) d"
    from assms cb a none ready have "claim_action env now cb a ?v d = Inr (r, d')" by (simp add: claim_callback_def)
    then show thesis
    proof (cases rule: claim_action_cases)
      case claim_unchanged
      then show thesis by (rule unchanged)
    next
      case (claim_closed a' v)
      with mem show thesis by (intro closed [of a a' v]) auto
    next
      case (claim_accepted a1 u)
      with cb mem none ready show thesis by (intro accepted [of cb a a1 u]) auto
    qed
  qed
qed

lemma callback_moves:
  assumes "claim_callback env ready now frame d = Inr (r, d')" and wf: "actions_wf d"
  shows "rows_move (action_view d i) (action_view d' i) \<and> map wa_id (wecom_actions d') = map wa_id (wecom_actions d)"
proof -
  have known: "get_action d (wa_id a) = Some a" if "a \<in> set (wecom_actions d)" for a
    using wf that by (simp add: actions_wf_iff tget_unique)
  from assms(1) show ?thesis
  proof (cases rule: claim_callback_cases)
    case unchanged
    then show ?thesis using action_view_cong [OF unchanged(1,2)] by auto
  next
    case (closed a a' v)
    have "rows_move (action_view d i) (action_view d' i)"
    proof (cases "i = wa_id a")
      case True
      with closed known [OF closed(1)] show ?thesis by (auto simp: action_view_def [of d] intro!: move_close_card)
    next
      case False
      with closed show ?thesis by (auto simp: action_view_def [of d])
    qed
    with closed(6) show ?thesis by (simp add: store_delivery_def)
  next
    case (accepted cb a a1 u)
    from check_callback_keeps [of a env cb d] accepted(11) have a1: "a1 = a\<lparr>wa_context := wa_context a1\<rparr>"
      by (simp add: keeps_action_def)
    define a2 where "a2 = a1\<lparr>wa_status := ''processing'', wa_claimed_at := Some now, wa_processing_lease_expires_at := Some (now + ACTION_LEASE)\<rparr>"
    have a2: "wa_id a2 = wa_id a" "wa_status a2 = ''processing''" "identity_of a2 = identity_of a"
      unfolding a2_def by (subst a1; simp add: identity_of_def)+
    define y where "y = new_action_outbox now (wa_id a) d"
    have id1: "wa_id a1 = wa_id a" by (subst a1) simp
    obtain v where d': "d' = store_delivery v (store_action a2 (d\<lparr>wecom_action_outboxes := tadd y (wecom_action_outboxes d)\<rparr>))"
      using accepted(12) id1 by (auto simp: accept_callback_def a2_def y_def)
    have v: "action_view d' i = (if i = wa_id a then Some a2 else get_action d i,
       case get_action_outbox d i of None \<Rightarrow> if i = wa_id a then Some y else None | Some x \<Rightarrow> Some x)"
      using known [OF accepted(2)] a2(1) by (auto simp: d' y_def new_action_outbox_def split: option.splits)
    have "rows_move (action_view d i) (action_view d' i)"
    proof (cases "i = wa_id a")
      case True
      have "rows_move (Some a, get_action_outbox d i) (Some a2, case get_action_outbox d i of None \<Rightarrow> Some y | Some x' \<Rightarrow> Some x')"
        by (rule move_accept) (simp_all add: accepted a2 y_def new_action_outbox_def)
      with True known [OF accepted(2)] show ?thesis unfolding v by (simp add: action_view_def)
    next
      case False
      then show ?thesis unfolding v by (auto simp: action_view_def split: option.split)
    qed
    then show ?thesis by (simp add: d' store_delivery_def)
  qed
qed

end
