(* ===== verification/Wecom_Correct.thy ===== *)
theory Wecom_Correct
  imports Wecom_Lifecycle Discard
begin

text \<open>
  The properties of action cards: the refinement of the phase machine, the single start of the domain operation, the
  finality of settled actions, what an accepted callback has been checked for, and what the executing worker and the
  notices promise. They rest on the case rules of \<^verbatim>\<open>Wecom_Lifecycle\<close>.
\<close>

section \<open>Runs of transactions\<close>

lemma txn_moves:
  assumes "action_txn env d d'" and wf: "actions_wf d"
  shows "rows_move (action_view d i) (action_view d' i)" and "distinct (map wa_id (wecom_actions d'))"
proof -
  from wf have dist: "distinct (map wa_id (wecom_actions d))" by (simp add: actions_wf_iff)
  have same: "rows_move (action_view d i) (action_view d' i) \<and> map wa_id (wecom_actions d') = map wa_id (wecom_actions d)"
    if "wecom_actions d' = wecom_actions d" "wecom_action_outboxes d' = wecom_action_outboxes d"
    using that action_view_cong [OF that] by auto
  have "rows_move (action_view d i) (action_view d' i) \<and> distinct (map wa_id (wecom_actions d'))"
    using assms(1)
  proof cases
    case txn_issue
    from issue_moves [OF this] dist show ?thesis by simp
  next
    case txn_failure
    then show ?thesis using same dist by (simp add: record_callback_transport_failure_def upd_delivery_def)
  next
    case txn_success
    then show ?thesis using same dist by (simp add: record_callback_transport_success_def upd_delivery_def)
  next
    case txn_other
    then show ?thesis using same dist by simp
  next
    case txn_callback
    from callback_moves [OF txn_callback wf, of i] dist show ?thesis by simp
  next
    case txn_dispatch
    from dispatch_moves [OF txn_dispatch, of i] dist show ?thesis by simp
  next
    case txn_start
    from begin_moves [OF txn_start wf, of i] dist show ?thesis by simp
  next
    case txn_begin
    from begin_domain_moves [OF txn_begin, of i] dist show ?thesis by simp
  next
    case txn_effect
    from effect_moves [OF txn_effect, of i] dist show ?thesis by simp
  next
    case txn_record
    from record_moves [OF txn_record, of i] dist show ?thesis by simp
  next
    case txn_finish
    from finish_moves [OF txn_finish(2,1), of i] dist show ?thesis by simp
  qed
  then show "rows_move (action_view d i) (action_view d' i)" "distinct (map wa_id (wecom_actions d'))" by auto
qed

lemma txn_wf:
  assumes "action_txn env d d'" "actions_wf d"
  shows "actions_wf d'"
proof -
  have "rows_ok (action_view d' i)" for i
    using txn_moves(1) [OF assms, of i] assms(2) by (auto simp: rows_move_def actions_wf_iff)
  with txn_moves(2) [OF assms] show ?thesis by (simp add: actions_wf_iff)
qed

definition rows_run :: "action_rows \<Rightarrow> action_rows \<Rightarrow> bool" where
  "rows_run v v' \<longleftrightarrow> phase_step\<^sup>*\<^sup>* (action_phase v) (action_phase v') \<and>
     (\<forall>a. fst v = Some a \<longrightarrow> (\<exists>a'. fst v' = Some a' \<and> identity_of a' = identity_of a \<and> (is_settled a \<longrightarrow> a' = a)))"

lemma run_moves:
  assumes "(action_txn env)\<^sup>*\<^sup>* d d'" and "actions_wf d"
  shows "actions_wf d' \<and> rows_run (action_view d i) (action_view d' i)"
  using assms(1)
proof (induction rule: rtranclp_induct)
  case base
  then show ?case using assms(2) by (simp add: rows_run_def)
next
  case (step d1 d2)
  from step.IH have wf: "actions_wf d1" and run: "rows_run (action_view d i) (action_view d1 i)" by auto
  have move: "rows_move (action_view d1 i) (action_view d2 i)" and ok: "rows_ok (action_view d1 i)"
    using txn_moves [OF step.hyps(2) wf] wf by (auto simp: actions_wf_iff)
  then have p: "phase_step\<^sup>*\<^sup>* (action_phase (action_view d i)) (action_phase (action_view d2 i))"
    using run by (auto simp: rows_move_def rows_run_def dest: rtranclp.rtrancl_into_rtrancl)
  have "\<exists>a'. fst (action_view d2 i) = Some a' \<and> identity_of a' = identity_of a \<and> (is_settled a \<longrightarrow> a' = a)"
    if "fst (action_view d i) = Some a" for a
  proof -
    from run that obtain a1 where a1: "fst (action_view d1 i) = Some a1" "identity_of a1 = identity_of a" "is_settled a \<longrightarrow> a1 = a"
      by (auto simp: rows_run_def)
    with move ok obtain a2 where "fst (action_view d2 i) = Some a2" "identity_of a2 = identity_of a1" "is_settled a1 \<longrightarrow> a2 = a1"
      by (auto simp: rows_move_def split: option.splits)
    with a1 show ?thesis by auto
  qed
  with p txn_wf [OF step.hyps(2) wf] show ?case by (simp add: rows_run_def)
qed

lemma started_stays:
  assumes "phase_step\<^sup>*\<^sup>* (Running t True) p"
  shows "p = Running t True \<or> (\<exists>st. p = Closed st)"
  using assms
proof (induction rule: rtranclp_induct)
  case (step p q)
  then show ?case by (auto elim: phase_step_ClosedE phase_step_StartedE)
qed simp

section \<open>Life of an action\<close>


text \<open>
  C6. The domain operation of an action starts at most once: after \<open>begin_domain_operation\<close> has succeeded, and whatever happens
  then, no worker gets the action to execute again, under any token and at any time, and every further
  \<open>begin_domain_operation\<close> is refused.
\<close>

theorem domain_operation_starts_once:
  assumes "actions_wf d" and "begin_domain_operation env now i token p d = Inr d1" and "(action_txn env)\<^sup>*\<^sup>* d1 d2"
  shows "(\<nexists>sn d3. begin_execution env now' token' i d2 = Inr (Started sn, d3)) \<and>
    (\<nexists>d3. begin_domain_operation env now' i token' p' d2 = Inr d3)"
proof -
  have wf1: "actions_wf d1" using txn_wf [OF txn_begin [OF assms(2)] assms(1)] .
  note r = run_moves [OF assms(3) wf1, of i]
  obtain t where "action_phase (action_view d1 i) = Running t True"
    using assms(2) by (rule begin_domain_moved) (auto simp: moved_def action_phase_def)
  with r have ph: "action_phase (action_view d2 i) = Running t True \<or> (\<exists>st. action_phase (action_view d2 i) = Closed st)"
    using started_stays by (auto simp: rows_run_def)
  have "False" if "begin_execution env now' token' i d2 = Inr (Started sn, d3)" for sn d3
    using that
  proof (cases rule: begin_cases)
    case (taken a x a' y sn')
    have "outbox_open x" using r taken by (intro ok_outbox) (auto simp: actions_wf_iff)
    with taken ph show False by (auto simp: action_phase_def action_view_def outbox_open_def split: if_splits)
  qed auto
  moreover have "False" if "begin_domain_operation env now' i token' p' d2 = Inr d3" for d3
    using that by (rule begin_domain_moved) (use ph in \<open>auto simp: action_phase_def action_view_def\<close>)
  ultimately show ?thesis by blast
qed

text \<open>A settled action never changes again, whatever callbacks, workers and recoveries follow.\<close>

theorem settled_action_final:
  assumes "actions_wf d" and "(action_txn env)\<^sup>*\<^sup>* d d'" and "get_action d i = Some a" and "is_settled a"
  shows "get_action d' i = Some a"
  using run_moves [OF assms(2,1), of i] assms(3,4) by (auto simp: rows_run_def action_view_def)

section \<open>Accepting a callback\<close>

text \<open>The leads a card offers, and those its accepted callback has chosen.\<close>

definition offered_leads :: "wecom_action \<Rightarrow> pstr list" where
  "offered_leads a =
     (if wa_action_type a = ''crm_batch_submission'' then context_lead_ids (py_get (asc ''candidate_leads'') (wa_context a))
      else if wa_action_type a = ''crm_duplicate_confirmation'' then context_lead_ids (py_get (asc ''duplicate_leads'') (wa_context a))
      else if wa_action_type a = ''crm_company_submission_confirmation'' \<and> py_get (asc ''candidate_leads'') (wa_context a) \<noteq> PNone
      then context_lead_ids (py_get (asc ''candidate_leads'') (wa_context a))
      else [wa_target_id a])"

definition chosen_leads :: "wecom_action \<Rightarrow> pstr list" where
  "chosen_leads a =
     (if wa_action_type a \<in> {''crm_batch_submission'', ''crm_duplicate_confirmation''}
      then the_default [] (str_list (py_get (asc ''selected_lead_ids'') (wa_context a)))
      else if wa_action_type a = ''crm_company_submission_confirmation'' \<and> py_get (asc ''candidate_leads'') (wa_context a) \<noteq> PNone
      then (case sget ''selected_lead_id'' (wa_context a) of Some i \<Rightarrow> [i] | None \<Rightarrow> [])
      else [wa_target_id a])"

definition owned_by :: "db \<Rightarrow> pstr \<Rightarrow> pstr \<Rightarrow> bool" where
  "owned_by d u i = list_ex (\<lambda>l. ld_id l = i \<and> ld_smart_table_owner_user_id l = u) (leads d)"

definition owner_checked :: "string \<Rightarrow> bool" where
  "owner_checked action_type = (action_type \<in> {''crm_field_confirmation'', ''crm_company_submission_confirmation'', ''crm_duplicate_confirmation''})"

lemma str_list_map [simp]: "str_list (PList (map PStr xs)) = Some xs"
proof -
  have "all_some (map (\<lambda>x. case x of PStr s \<Rightarrow> Some s | _ \<Rightarrow> None) (map PStr xs)) = Some xs"
    by (induction xs) (auto simp: all_some_def)
  then show ?thesis by (simp add: str_list_def)
qed

lemma py_get_extend:
  "py_get k (wa_context (extend_context [(k', v)] a)) = (if k = k' then v else py_get k (wa_context a))"
  by (simp add: extend_context_def py_get_def)

definition choice_sound :: "template_card_callback \<Rightarrow> db \<Rightarrow> wecom_action \<Rightarrow> claim_check res \<Rightarrow> bool" where
  "choice_sound cb d a c =
     (case c of
        Inr (Go_On a1 u) \<Rightarrow>
          set (chosen_leads a1) \<subseteq> set (offered_leads a) \<and>
          (owner_checked (wa_action_type a) \<longrightarrow> (\<forall>i \<in> set (chosen_leads a1). owned_by d (cb_actor_user_id cb) i)) \<and>
          (wa_action_type a = ''crm_batch_submission'' \<longrightarrow> chosen_leads a1 \<noteq> [])
      | _ \<Rightarrow> True)"

lemma choice_sound_simps [simp]:
  "choice_sound cb d a (Inl e)" "choice_sound cb d a (Inr (Deny code s a1))" "choice_sound cb d a (Inr (Tick_All v))"
  by (simp_all add: choice_sound_def)

lemma check_batch_sound:
  assumes ty: "wa_action_type a = ''crm_batch_submission''"
  shows "choice_sound cb d a (check_batch env cb a)"
proof -
  have go: "choice_sound cb d a (Inr (Go_On (extend_context [(asc ''selected_lead_ids'', PList (map PStr sel))] a) u)) \<longleftrightarrow>
      set sel \<subseteq> set (context_lead_ids (py_get (asc ''candidate_leads'') (wa_context a))) \<and> sel \<noteq> []" for sel u
    using ty by (simp add: choice_sound_def chosen_leads_def offered_leads_def owner_checked_def py_get_extend)
      (simp add: extend_context_def)
  define ids where "ids = context_lead_ids (py_get (asc ''candidate_leads'') (wa_context a))"
  define all_id where "all_id = (case py_get (asc ''select_all_option_id'') (wa_context a) of PStr s \<Rightarrow> [s] | _ \<Rightarrow> [])"
  define sel where "sel = cb_selected_option_ids cb"
  define everything where "everything = (all_id \<noteq> [] \<and> hd all_id \<in> set sel)"
  define picked where "picked = (if everything then ids else filter (\<lambda>i. i \<in> set ids) sel)"
  note defs = ids_def [symmetric] all_id_def [symmetric] sel_def [symmetric] everything_def [symmetric] picked_def [symmetric]
  have "set all_id \<subseteq> {hd all_id}" by (auto simp: all_id_def split: pyval.splits)
  then have nonempty: "picked \<noteq> []" if "ids \<noteq> []" "sel \<noteq> []" "set sel \<subseteq> set (ids @ all_id)"
    using that by (cases sel) (auto simp: picked_def everything_def)
  have sub: "set picked \<subseteq> set ids" by (auto simp: picked_def)
  show ?thesis
  proof (cases "ids = [] \<or> sel = [] \<or> \<not> set sel \<subseteq> set (ids @ all_id)")
    case True
    then consider "ids = []" | "sel = [] \<or> \<not> set sel \<subseteq> set (ids @ all_id)" by blast
    then show ?thesis
      unfolding check_batch_def Let_def defs by cases (simp_all only: if_True, simp_all split: option.split sum.split)
  next
    case False
    with nonempty sub show ?thesis
      unfolding check_batch_def Let_def defs by (simp add: go [unfolded defs] split: option.split sum.split)
  qed
qed

lemma check_duplicates_sound:
  assumes ty: "wa_action_type a = ''crm_duplicate_confirmation''"
  shows "choice_sound cb d a (check_duplicates env cb a d)"
proof -
  have go: "choice_sound cb d a (Inr (Go_On (extend_context [(asc ''decision'', v), (asc ''selected_lead_ids'', PList (map PStr sel))] a) u)) \<longleftrightarrow>
      set sel \<subseteq> set (context_lead_ids (py_get (asc ''duplicate_leads'') (wa_context a))) \<and>
      (\<forall>i \<in> set sel. owned_by d (cb_actor_user_id cb) i)" for sel v u
    using ty by (simp add: choice_sound_def chosen_leads_def offered_leads_def owner_checked_def extend_context_def py_get_def)
  have own: "owned_by d u i" if "set (map ld_id (filter (\<lambda>l. ld_id l \<in> set ids \<and> ld_smart_table_owner_user_id l = u) (leads d))) = set ids"
    "i \<in> set ids" for u i ids
  proof -
    have "i \<in> set (map ld_id (filter (\<lambda>l. ld_id l \<in> set ids \<and> ld_smart_table_owner_user_id l = u) (leads d)))"
      using that(2) by (subst that(1))
    then show ?thesis by (auto simp: owned_by_def list_ex_iff)
  qed
  show ?thesis
    unfolding check_duplicates_def Let_def
    by (simp add: go split: option.split sum.split del: set_map set_filter) (blast intro: own)
qed

lemma check_target_sound:
  assumes ty: "wa_action_type a \<in> {''crm_field_confirmation'', ''crm_company_submission_confirmation''}"
  shows "choice_sound cb d a (check_target env cb a d)"
proof -
  have own: "owned_by d (cb_actor_user_id cb) i" if "get_lead d i = Some l" "ld_smart_table_owner_user_id l = cb_actor_user_id cb" for i l
    using that by (auto simp: owned_by_def list_ex_iff dest!: tget_SomeD)
  have alone: "choice_sound cb d a (Inr (Go_On a u)) \<longleftrightarrow> owned_by d (cb_actor_user_id cb) (wa_target_id a)"
    if "(if wa_action_type a = ''crm_company_submission_confirmation'' then py_get (asc ''candidate_leads'') (wa_context a) else PNone) = PNone" for u
    using ty that by (auto simp: choice_sound_def chosen_leads_def offered_leads_def owner_checked_def split: if_splits)
  have one_of: "choice_sound cb d a (Inr (Go_On (extend_context [(asc ''selected_lead_id'', PStr i)] a) u)) \<longleftrightarrow>
      i \<in> set (context_lead_ids (py_get (asc ''candidate_leads'') (wa_context a))) \<and> owned_by d (cb_actor_user_id cb) i"
    if "wa_action_type a = ''crm_company_submission_confirmation''" "py_get (asc ''candidate_leads'') (wa_context a) \<noteq> PNone" for u i
    using that by (simp add: choice_sound_def chosen_leads_def offered_leads_def owner_checked_def sget_def extend_context_def py_get_def)
  show ?thesis
  proof (cases "(if wa_action_type a = ''crm_company_submission_confirmation'' then py_get (asc ''candidate_leads'') (wa_context a) else PNone) = PNone")
    case True
    show ?thesis
      unfolding check_target_def Let_def if_P [OF True] by (simp add: alone [OF True] own split: option.split)
  next
    case False
    then have c: "wa_action_type a = ''crm_company_submission_confirmation''" "py_get (asc ''candidate_leads'') (wa_context a) \<noteq> PNone"
      by (auto split: if_splits)
    show ?thesis
      unfolding check_target_def Let_def if_not_P [OF False] owned_by_def [symmetric]
      by (simp add: one_of [OF c] c split: option.split sum.split list.split)
  qed
qed

lemma check_callback_sound: "choice_sound cb d a (check_callback env cb a d)"
  using check_target_sound [of a cb d env] check_batch_sound [of a cb d env] check_duplicates_sound [of a cb d env]
  by (auto simp: check_callback_def choice_sound_def chosen_leads_def offered_leads_def owner_checked_def)

lemma accepted_callback_facts:
  assumes "actions_wf d" and "claim_callback env ready now frame d = Inr (r, d')" and "ccr_code r = ''claimed''"
  shows "\<exists>cb a a' x v. parse_callback frame = Inr cb \<and> get_action d (wa_id a) = Some a \<and> get_action d' (wa_id a) = Some a' \<and>
    ccr_action_id r = Some (wa_id a) \<and> wa_task_id a = cb_task_id cb \<and> wa_status a = ''pending'' \<and> wa_status a' = ''processing'' \<and>
    now < wa_expires_at a \<and> cb_actor_user_id cb = wa_bound_actor a \<and> event_key_matches cb a \<and> identity_of a' = identity_of a \<and>
    (requires_active_sales_authorization (wa_action_type a) (wa_context a) \<longrightarrow> actor_enabled d (wa_bound_actor a)) \<and>
    set (chosen_leads a') \<subseteq> set (offered_leads a) \<and>
    (owner_checked (wa_action_type a) \<longrightarrow> list_all (owned_by d (wa_bound_actor a)) (chosen_leads a')) \<and>
    (wa_action_type a = ''crm_batch_submission'' \<longrightarrow> chosen_leads a' \<noteq> []) \<and>
    wecom_action_outboxes d' = wecom_action_outboxes d @ [x] \<and> wo_action_id x = wa_id a \<and> wo_status x = ''pending'' \<and>
    tget wd_provider_msgid (cb_provider_msgid cb) (wecom_callback_deliveries d') = Some v"
  using assms(2)
proof (cases rule: claim_callback_cases)
  case (accepted cb a a1 u)
  from check_callback_keeps [of a env cb d] accepted(11) have a1: "a1 = a\<lparr>wa_context := wa_context a1\<rparr>"
    by (simp add: keeps_action_def)
  have known: "get_action d (wa_id a) = Some a"
    using assms(1) accepted(2) by (simp add: actions_wf_iff tget_unique)
  define a' where "a' = a1\<lparr>wa_status := ''processing'', wa_claimed_at := Some now, wa_processing_lease_expires_at := Some (now + ACTION_LEASE)\<rparr>"
  have a': "wa_status a' = ''processing''" "identity_of a' = identity_of a" "chosen_leads a' = chosen_leads a1" "wa_id a' = wa_id a"
    "wa_id a1 = wa_id a" "wa_task_id a1 = wa_task_id a"
    unfolding a'_def by (simp_all add: chosen_leads_def) (subst a1; simp add: identity_of_def)+
  define x where "x = new_action_outbox now (wa_id a) d"
  define v where "v = mark_delivery now ''claimed'' ''claimed'' (new_delivery now cb (Some (wa_id a)) d)"
  from accepted(12) a'(5,6) have r: "ccr_action_id r = Some (wa_id a)"
    and d': "d' = store_delivery v (store_action a' (d\<lparr>wecom_action_outboxes := tadd x (wecom_action_outboxes d)\<rparr>))"
    by (auto simp: accept_callback_def claim_answer_def a'_def x_def v_def)
  have new: "get_action d' (wa_id a) = Some a'"
    using known a'(4) action_view_store [of a' _ "wa_id a"] by (simp add: d' action_view_def store_delivery_def)
  have box: "wecom_action_outboxes d' = wecom_action_outboxes d @ [x]"
    by (simp add: d' store_delivery_def store_action_def tadd_def)
  have "choice_sound cb d a (Inr (Go_On a1 u))"
    using check_callback_sound [of cb d a env] accepted(11) by simp
  then have "set (chosen_leads a') \<subseteq> set (offered_leads a)"
    "owner_checked (wa_action_type a) \<longrightarrow> list_all (owned_by d (wa_bound_actor a)) (chosen_leads a')"
    "wa_action_type a = ''crm_batch_submission'' \<longrightarrow> chosen_leads a' \<noteq> []"
    using accepted(6) a'(3) by (auto simp: choice_sound_def list_all_iff)
  moreover have "tget wd_provider_msgid (cb_provider_msgid cb) (wecom_callback_deliveries d') = Some v"
    using accepted(9) by (simp add: d' store_delivery_def store_action_def v_def mark_delivery_def new_delivery_def)
  ultimately show ?thesis
    using accepted known new a' r box
    by (intro exI [of _ cb] exI [of _ a] exI [of _ a'] exI [of _ x] exI [of _ v]) (simp add: x_def new_action_outbox_def)
qed (use assms(3) in auto)

lemma offered_only_first:
  assumes "phase_step\<^sup>*\<^sup>* p Offered"
  shows "p \<in> {Offered, Unissued}"
  using assms
proof (induction rule: converse_rtranclp_induct)
  case (step p q)
  then show ?case by (auto elim: phase_step.cases)
qed simp

text \<open>
  C7. An accepted callback was sent by the actor the card is bound to, for a pending and unexpired action, with an event key
  of the card, by an active salesperson where the action needs one; the leads it has chosen are among those the card
  offered, for confirmations they are leads the table assigns to this actor, and a batch is never empty; exactly one
  work item is queued, for this action.
\<close>

theorem accepted_callback_checked:
  assumes "actions_wf d" and "claim_callback env ready now frame d = Inr (r, d')" and "ccr_code r = ''claimed''"
  shows "\<exists>cb a a' x. parse_callback frame = Inr cb \<and> get_action d (wa_id a) = Some a \<and> get_action d' (wa_id a) = Some a' \<and>
    ccr_action_id r = Some (wa_id a) \<and> wa_task_id a = cb_task_id cb \<and> wa_status a = ''pending'' \<and> wa_status a' = ''processing'' \<and>
    now < wa_expires_at a \<and> cb_actor_user_id cb = wa_bound_actor a \<and> event_key_matches cb a \<and> identity_of a' = identity_of a \<and>
    (requires_active_sales_authorization (wa_action_type a) (wa_context a) \<longrightarrow> actor_enabled d (wa_bound_actor a)) \<and>
    set (chosen_leads a') \<subseteq> set (offered_leads a) \<and>
    (owner_checked (wa_action_type a) \<longrightarrow> list_all (owned_by d (wa_bound_actor a)) (chosen_leads a')) \<and>
    (wa_action_type a = ''crm_batch_submission'' \<longrightarrow> chosen_leads a' \<noteq> []) \<and>
    wecom_action_outboxes d' = wecom_action_outboxes d @ [x] \<and> wo_action_id x = wa_id a \<and> wo_status x = ''pending''"
  using accepted_callback_facts [OF assms] by blast

text \<open>
  C20. A card is accepted at most once: after its action was claimed, whatever happens then, no callback is accepted for the
  same action again; the same frame delivered again is answered as a duplicate and changes nothing.
\<close>

theorem card_accepted_once:
  assumes "actions_wf d" and "claim_callback env ready now frame d = Inr (r, d1)" and "ccr_code r = ''claimed''"
    and "(action_txn env)\<^sup>*\<^sup>* d1 d2" and "claim_callback env ready' now' frame' d2 = Inr (r', d3)" and "ccr_action_id r' = ccr_action_id r"
  shows "ccr_code r' \<noteq> ''claimed'' \<and> (\<exists>r4. ccr_code r4 = ''duplicate_delivery'' \<and> claim_callback env True now' frame d1 = Inr (r4, d1))"
proof (rule conjI)
  from accepted_callback_facts [OF assms(1-3)] obtain a :: wecom_action and a' where a: "get_action d1 (wa_id a) = Some a'" "ccr_action_id r = Some (wa_id a)"
    "wa_status a' = ''processing''" by blast
  have wf1: "actions_wf d1" using txn_wf [OF txn_callback [OF assms(2)] assms(1)] .
  note run = run_moves [OF assms(4) wf1, of "wa_id a"]
  have "action_phase (action_view d1 (wa_id a)) \<notin> {Offered, Unissued}"
    using a by (auto simp: action_phase_def action_view_def split: option.splits)
  with run have no: "action_phase (action_view d2 (wa_id a)) \<noteq> Offered"
    using offered_only_first [of "action_phase (action_view d1 (wa_id a))"] by (auto simp: rows_run_def)
  show "ccr_code r' \<noteq> ''claimed''"
  proof
    assume c: "ccr_code r' = ''claimed''"
    from run have wf2: "actions_wf d2" by simp
    from accepted_callback_facts [OF wf2 assms(5) c] obtain b where "get_action d2 (wa_id b) = Some b" "ccr_action_id r' = Some (wa_id b)"
      "wa_status b = ''pending''" by blast
    with a(2) assms(6) no show False by (auto simp: action_phase_def action_view_def)
  qed
  from accepted_callback_facts [OF assms(1-3)] obtain cb v where cb: "parse_callback frame = Inr cb"
    and v: "tget wd_provider_msgid (cb_provider_msgid cb) (wecom_callback_deliveries d1) = Some v" by blast
  then show "\<exists>r4. ccr_code r4 = ''duplicate_delivery'' \<and> claim_callback env True now' frame d1 = Inr (r4, d1)"
    by (simp add: claim_callback_def claim_answer_def)
qed

section \<open>Execution\<close>

text \<open>The claim of an action fences its workers: taking, holding and settling satisfy the laws of a lease.\<close>

definition action_claimable :: "time \<Rightarrow> wecom_action \<times> wecom_action_outbox \<Rightarrow> bool" where
  "action_claimable now r = (wa_status (fst r) = ''processing'' \<and> wo_status (snd r) \<noteq> ''succeeded'' \<and>
     (wo_status (snd r) = ''processing'' \<longrightarrow> \<not> lease_alive now (snd r) \<and> wo_domain_started_at (snd r) = None))"

definition action_taken :: "time \<Rightarrow> pstr \<Rightarrow> wecom_action \<times> wecom_action_outbox \<Rightarrow> wecom_action \<times> wecom_action_outbox" where
  "action_taken now token r = ((fst r)\<lparr>wa_processing_lease_expires_at := Some (now + ACTION_LEASE)\<rparr>,
     (undispatch (snd r))\<lparr>wo_status := ''processing'', wo_claim_token := Some token, wo_attempts := wo_attempts (snd r) + 1,
        wo_processing_started_at := Some now, wo_processing_lease_expires_at := Some (now + ACTION_LEASE)\<rparr>)"

definition action_settled ::
  "pstr \<Rightarrow> time \<times> bool \<times> pstr \<times> pstr \<Rightarrow> wecom_action \<times> wecom_action_outbox \<Rightarrow> wecom_action \<times> wecom_action_outbox" where
  "action_settled token out r =
     (case out of (now, ok, code, summary) \<Rightarrow>
        if claim_current token (fst r) (snd r)
        then (finished_action now (if ok then ''succeeded'' else ''pending_recovery'') code (take 256 (hd (split_result_notifications summary))) (fst r),
              release_outbox (if ok then ''succeeded'' else ''failed'') (snd r))
        else r)"

interpretation ax: fenced_lease action_claimable action_taken "\<lambda>token r. claim_current token (fst r) (snd r)" action_settled
proof (unfold_locales, goal_cases)
  case (1 now r token)
  then show ?case by (simp add: action_claimable_def action_taken_def claim_current_def)
next
  case (2 now r token' token)
  then show ?case by (simp add: action_taken_def claim_current_def)
next
  case (3 token r out)
  then show ?case by (simp add: action_settled_def split: prod.splits)
next
  case (4 token r token' out)
  then show ?case by (auto simp: action_settled_def claim_current_def split: prod.splits)
qed

lemma add_notice_keeps:
  "get_notice d k \<noteq> None \<Longrightarrow> get_notice (add_result_notice env now a x d) k \<noteq> None"
  by (auto simp: add_result_notice_def Let_def split: option.splits)

lemma fold_notices_keep:
  "get_notice d k \<noteq> None \<Longrightarrow> get_notice (fold (add_result_notice env now a) xs d) k \<noteq> None"
proof (induction xs arbitrary: d)
  case (Cons x xs)
  from Cons.IH [OF add_notice_keeps [OF Cons.prems]] show ?case by simp
qed simp

lemma add_notice_present: "get_notice (add_result_notice env now a x d) (result_notice_key env (wa_id a) (fst x)) \<noteq> None"
  by (auto simp: add_result_notice_def Let_def blank_notice_def split: option.splits)

lemma fold_notices_present:
  "x \<in> set xs \<Longrightarrow> get_notice (fold (add_result_notice env now a) xs d) (result_notice_key env (wa_id a) (fst x)) \<noteq> None"
proof (induction xs arbitrary: d)
  case (Cons y xs)
  show ?case
  proof (cases "x = y")
    case True
    with fold_notices_keep [OF add_notice_present] show ?thesis by simp
  next
    case False
    with Cons show ?thesis by simp
  qed
qed simp

lemma result_notices_present:
  assumes "n < length (split_result_notifications summary)"
  shows "get_notice (add_result_notification env now a summary d) (result_notice_key env (wa_id a) n) \<noteq> None"
proof -
  let ?c = "split_result_notifications summary"
  have "(n, ?c ! n) \<in> set (zip [0..<length ?c] ?c)"
    using assms by (auto simp: in_set_zip intro!: exI [of _ n])
  from fold_notices_present [OF this] show ?thesis by (simp add: add_result_notification_def Let_def)
qed

text \<open>The transactions act on the rows of an action as the operations of the lease.\<close>

lemma finish_settles:
  assumes "finish_action env now i token (if ok then ''succeeded'' else ''pending_recovery'') (if ok then ''succeeded'' else ''failed'')
      code summary d = Inr (r, d')"
    and "action_view d i = (Some a, Some x)"
  shows "action_view d' i = (case action_settled token (now, ok, code, summary) (a, x) of (a', x') \<Rightarrow> (Some a', Some x'))"
  using assms(1)
proof (cases rule: finish_cases)
  case stale
  from assms(1) stale(2) assms(2) have "\<not> claim_current token a x"
    by (auto simp: finish_action_def action_view_def stale_answer_def exec_answer_def Let_def split: if_splits)
  with stale assms(2) show ?thesis by (simp add: action_settled_def)
next
  case (settled a1 x1 a')
  with assms(2) have "a1 = a" "x1 = x" by (simp_all add: action_view_def)
  with settled show ?thesis by (simp add: action_settled_def moved_def)
qed

definition keeps_claim :: "pstr \<Rightarrow> pstr \<Rightarrow> db \<Rightarrow> db \<Rightarrow> bool" where
  "keeps_claim i token d1 d2 =
     (case action_view d1 i of
        (Some a, Some x) \<Rightarrow>
          claim_current token a x \<longrightarrow>
          (case action_view d2 i of (Some a', Some x') \<Rightarrow> claim_current token a' x' | _ \<Rightarrow> False)
      | _ \<Rightarrow> True)"

lemma queued_starts:
  assumes "get_action d i = Some a" and "get_action_outbox d i = Some x" and "wa_status a = ''processing''" and "wo_status x = ''pending''"
    and "wo_processing_lease_expires_at x = None"
    and "requires_active_sales_authorization (wa_action_type a) (wa_context a) \<longrightarrow> actor_enabled d (wa_bound_actor a)"
  obtains sn d1 a1 x1 where "begin_execution env now token i d = Inr (Started sn, d1)" "action_view d1 i = (Some a1, Some x1)"
    "claim_current token a1 x1"
proof -
  let ?d = "upd_action_outbox i undispatch d"
  have eq: "begin_execution env now token i d = Inr (take_execution now token a ?d)"
    using assms by (auto simp: begin_execution_def Let_def actor_enabled_def)
  obtain s d1 where tk: "take_execution now token a ?d = (s, d1)" by force
  then obtain a' y where mv: "moved i (Some a', Some y) d d1" "wa_status a' = wa_status a" "identity_of a' = identity_of a"
    "wo_status y = ''processing''" "wo_claim_token y = Some token" "wo_processing_lease_expires_at y = Some (now + ACTION_LEASE)"
    "wo_domain_started_at y = wo_domain_started_at x" "wo_attempts y = wo_attempts x + 1" using assms(1,2) by (rule take_moved)
  from tk obtain sn where "s = Started sn" by (auto simp: take_execution_def)
  with mv eq tk assms(3) show thesis by (intro that [of sn d1 a' y]) (simp_all add: moved_def claim_current_def)
qed

text \<open>
  C21. A queued action is executed to its end: if its actor is still entitled and the domain service returns a result without
  losing the claim, the action ends as succeeded with the code of that result, its work item ends as
  succeeded, and a notice is stored for every part of the summary.
\<close>

theorem queued_action_settles:
  assumes "get_action d i = Some a" and "get_action_outbox d i = Some x" and "wa_status a = ''processing''" and "wo_status x = ''pending''"
    and "wo_processing_lease_expires_at x = None"
    and "requires_active_sales_authorization (wa_action_type a) (wa_context a) \<longrightarrow> actor_enabled d (wa_bound_actor a)"
    and "\<And>sn d1. \<exists>d2. executor sn d1 w = (Domain_Result code summary, d2, w') \<and> keeps_claim i token d1 d2"
    and "n < length (split_result_notifications summary)"
  shows "\<exists>d' a' x'. execute_action env executor now now' token i d w = (Inr (exec_answer code summary True), d', w') \<and>
    get_action d' i = Some a' \<and> wa_status a' = ''succeeded'' \<and> wa_result_code a' = Some code \<and>
    get_action_outbox d' i = Some x' \<and> wo_status x' = ''succeeded'' \<and> get_notice d' (result_notice_key env i n) \<noteq> None"
proof -
  obtain sn d1 a1 x1 where b: "begin_execution env now token i d = Inr (Started sn, d1)" "action_view d1 i = (Some a1, Some x1)"
    "claim_current token a1 x1" using assms(1-6) by (rule queued_starts)
  obtain d2 where e: "executor sn d1 w = (Domain_Result code summary, d2, w')" "keeps_claim i token d1 d2"
    using assms(7) by blast
  with b obtain a2 x2 where c: "get_action d2 i = Some a2" "get_action_outbox d2 i = Some x2" "claim_current token a2 x2"
    by (auto simp: keeps_claim_def action_view_def split: option.splits)
  then have mv: "may_move (wa_status a2) ''succeeded''" by (simp add: may_move_def claim_current_def ACTION_TRANSITIONS_def)
  let ?a = "finished_action now' ''succeeded'' code (take 256 (hd (split_result_notifications summary))) a2"
  define d' where "d' = add_result_notification env now' ?a summary (complete_deliveries i code
      (upd_action_outbox i (release_outbox ''succeeded'') (store_action ?a d2)))"
  have f: "finish_action env now' i token ''succeeded'' ''succeeded'' code summary d2 = Inr (exec_answer code summary True, d')"
    using c mv by (simp add: finish_action_def Let_def d'_def)
  have id: "wa_id a2 = i" using c(1) by (auto dest: tget_SomeD)
  have v: "action_view d' i = (Some ?a, Some (release_outbox ''succeeded'' x2))"
    using f
  proof (cases rule: finish_cases)
    case stale
    then show ?thesis by (simp add: stale_answer_def exec_answer_def)
  next
    case (settled b y b')
    with c show ?thesis by (simp add: moved_def)
  qed
  have "get_notice d' (result_notice_key env i n) \<noteq> None"
    using result_notices_present [OF assms(8), where env = env and now = now' and a = ?a] id by (simp add: d'_def)
  then have "execute_action env executor now now' token i d w = (Inr (exec_answer code summary True), d', w') \<and>
      get_action d' i = Some ?a \<and> wa_status ?a = ''succeeded'' \<and> wa_result_code ?a = Some code \<and>
      get_action_outbox d' i = Some (release_outbox ''succeeded'' x2) \<and> wo_status (release_outbox ''succeeded'' x2) = ''succeeded'' \<and>
      get_notice d' (result_notice_key env i n) \<noteq> None"
    using b(1) e(1) f v by (simp add: execute_action_def action_view_def finished_action_def release_outbox_def discard_candidate_snapshots_def)
  then show ?thesis by blast
qed

text \<open>A worker whose action was taken over cannot settle it, whatever claims and results of others follow.\<close>

lemmas overtaken_worker_cannot_settle = ax.superseded_settle_dropped

section \<open>Notices of a long result\<close>

lemma lines_longer: "length (foldl join_line h g) \<ge> length h + length g"
proof (induction g arbitrary: h)
  case (Cons l g)
  from Cons.IH [of "join_line h l"] show ?case by (simp add: join_line_def)
qed simp

lemma lines_header_iff: "foldl join_line h g = h \<longleftrightarrow> g = []"
  using lines_longer [of h g] by (cases g) (auto dest: arg_cong [where f = length])

definition fits :: "pstr list \<Rightarrow> bool" where
  "fits g = (1 < length g \<longrightarrow> length (foldl join_line t_detail g) \<le> 480)"

lemma split_detail_groups:
  assumes "fits g0"
  shows "\<exists>gs. split_detail_acc chunks (foldl join_line t_detail g0) ls = chunks @ map (foldl join_line t_detail) gs \<and>
    concat gs = g0 @ ls \<and> (\<forall>g \<in> set gs. g \<noteq> [] \<and> fits g)"
  using assms
proof (induction ls arbitrary: chunks g0)
  case Nil
  show ?case
  proof (cases "g0 = []")
    case True
    then show ?thesis by (intro exI [of _ "[]"]) simp
  next
    case False
    with Nil show ?thesis by (intro exI [of _ "[g0]"]) (simp add: lines_header_iff)
  qed
next
  case (Cons l ls)
  show ?case
  proof (cases "480 < length (join_line (foldl join_line t_detail g0) l) \<and> g0 \<noteq> []")
    case True
    have one: "fits [l]" by (simp add: fits_def)
    obtain gs where gs: "split_detail_acc (chunks @ [foldl join_line t_detail g0]) (foldl join_line t_detail [l]) ls =
        (chunks @ [foldl join_line t_detail g0]) @ map (foldl join_line t_detail) gs"
      "concat gs = [l] @ ls" "\<forall>g \<in> set gs. g \<noteq> [] \<and> fits g"
      using Cons.IH [OF one] by blast
    with True Cons.prems show ?thesis
      by (intro exI [of _ "g0 # gs"]) (simp add: lines_header_iff Let_def)
  next
    case False
    then have fit: "fits (g0 @ [l])" by (cases "g0 = []") (auto simp: fits_def)
    obtain gs where "split_detail_acc chunks (foldl join_line t_detail (g0 @ [l])) ls = chunks @ map (foldl join_line t_detail) gs"
      "concat gs = (g0 @ [l]) @ ls" "\<forall>g \<in> set gs. g \<noteq> [] \<and> fits g"
      using Cons.IH [OF fit] by blast
    with False show ?thesis
      by (intro exI [of _ gs]) (auto simp: lines_header_iff Let_def)
  qed
qed

lemma py_partition_Some: "py_partition sep s = Some (a, b) \<Longrightarrow> s = a @ sep @ b"
proof (induction sep s arbitrary: a rule: py_partition.induct)
  case (2 sep c s)
  then show ?case by (auto simp: prefix_def split: if_splits)
qed (simp split: if_splits)


section \<open>An example\<close>

text \<open>A card for two leads, its callback choosing one of them, a worker that starts and finishes.\<close>

definition card_env :: env where
  "card_env = plain_env\<lparr>e_sha256 := (\<lambda>s. asc ''h'' @ digits_of (length s))\<rparr>"

definition batch_card :: batch_request where
  "batch_card = \<lparr>bq_actor_user_id = asc ''amy'', bq_request_message_id = asc ''m1'', bq_command_text = c_all_mine,
     bq_candidates = [[(asc ''lead_id'', PStr (asc ''L'')), (asc ''company_name'', PStr (asc ''Acme'')), (asc ''display_text'', PStr (asc ''Acme''))],
                      [(asc ''lead_id'', PStr (asc ''K'')), (asc ''company_name'', PStr (asc ''Best'')), (asc ''display_text'', PStr (asc ''Best''))]],
     bq_candidate_snapshots = None, bq_preview_markdown_chunks = [], bq_defer_delivery = False, bq_page = 1, bq_page_count = 1,
     bq_owner_scope_user_ids = None, bq_target_capture_date = None\<rparr>"

definition card_frame :: "string \<Rightarrow> pstr \<Rightarrow> string list \<Rightarrow> fields" where
  "card_frame msgid key sel =
     [(asc ''cmd'', PStr (asc ''aibot_event_callback'')), (asc ''headers'', PDict [(asc ''req_id'', PStr (asc ''q1''))]),
      (asc ''body'', PDict [(asc ''msgtype'', PStr (asc ''event'')), (asc ''msgid'', PStr (asc msgid)),
         (asc ''from'', PDict [(asc ''userid'', PStr (asc ''amy''))]),
         (asc ''event'', PDict [(asc ''eventtype'', PStr (asc ''template_card_event'')),
            (asc ''template_card_event'', PDict [(asc ''event_key'', PStr key), (asc ''task_id'', PStr (asc ''T1'')),
               (asc ''card_type'', PStr (asc ''vote_interaction'')),
               (asc ''selected_items'', PDict [(asc ''selected_item'', PList [PDict [(asc ''option_ids'',
                  PDict [(asc ''option_id'', PList (map (\<lambda>s. PStr (asc s)) sel))])]])])])])])]"

definition offered_db :: db where
  "offered_db = snd (projr (issue_batch_submission_action card_env True 600 100 (asc ''A1'') (asc ''T1'') batch_card lead_db))"

definition first_claim :: "(callback_claim_result \<times> db) res" where
  "first_claim = claim_callback card_env True 200 (card_frame ''msg1'' CARD_EVENT_KEY_CRM_BATCH_SUBMISSION [''L'']) offered_db"

definition claimed_db :: db where "claimed_db = snd (projr first_claim)"

definition second_claim :: "(callback_claim_result \<times> db) res" where
  "second_claim = claim_callback card_env True 210 (card_frame ''msg2'' CARD_EVENT_KEY_CRM_BATCH_SUBMISSION [''K'']) claimed_db"

definition first_start :: "(exec_start \<times> db) res" where
  "first_start = begin_execution card_env 220 (asc ''w1'') (asc ''A1'') claimed_db"

definition started_db :: db where "started_db = snd (projr first_start)"

definition running_db :: db where
  "running_db = projr (begin_domain_operation card_env 230 (asc ''A1'') (asc ''w1'') None started_db)"

definition first_finish :: "(action_execution_result \<times> db) res" where
  "first_finish = finish_action card_env 240 (asc ''A1'') (asc ''w1'') ''succeeded'' ''succeeded'' (asc ''ok'') (asc ''fine'') running_db"

definition settled_db :: db where "settled_db = snd (projr first_finish)"

lemma projr_eq: "isl r = False \<Longrightarrow> r = Inr (fst (projr r), snd (projr r))"
  by (cases r) auto

lemma first_claim_ok: "isl first_claim = False" "ccr_code (fst (projr first_claim)) = ''claimed''" "actions_wf offered_db"
  by code_simp+

lemma example_steps:
  "claim_callback card_env True 200 (card_frame ''msg1'' CARD_EVENT_KEY_CRM_BATCH_SUBMISSION [''L'']) offered_db =
     Inr (fst (projr first_claim), claimed_db)"
  "begin_execution card_env 220 (asc ''w1'') (asc ''A1'') claimed_db = Inr (fst (projr first_start), started_db)"
  "begin_domain_operation card_env 230 (asc ''A1'') (asc ''w1'') None started_db = Inr running_db"
  "finish_action card_env 240 (asc ''A1'') (asc ''w1'') ''succeeded'' ''succeeded'' (asc ''ok'') (asc ''fine'') running_db =
     Inr (fst (projr first_finish), settled_db)"
proof -
  show "claim_callback card_env True 200 (card_frame ''msg1'' CARD_EVENT_KEY_CRM_BATCH_SUBMISSION [''L'']) offered_db =
     Inr (fst (projr first_claim), claimed_db)"
    unfolding claimed_db_def first_claim_def by (rule projr_eq) (rule first_claim_ok(1) [unfolded first_claim_def])
  have "isl first_start = False" by code_simp
  then show "begin_execution card_env 220 (asc ''w1'') (asc ''A1'') claimed_db = Inr (fst (projr first_start), started_db)"
    unfolding started_db_def first_start_def by (rule projr_eq)
  have "isl (begin_domain_operation card_env 230 (asc ''A1'') (asc ''w1'') None started_db) = False" by code_simp
  then show "begin_domain_operation card_env 230 (asc ''A1'') (asc ''w1'') None started_db = Inr running_db"
    unfolding running_db_def by (cases "begin_domain_operation card_env 230 (asc ''A1'') (asc ''w1'') None started_db") auto
  have "isl first_finish = False" by code_simp
  then show "finish_action card_env 240 (asc ''A1'') (asc ''w1'') ''succeeded'' ''succeeded'' (asc ''ok'') (asc ''fine'') running_db =
     Inr (fst (projr first_finish), settled_db)"
    unfolding settled_db_def first_finish_def by (rule projr_eq)
qed

lemma example_wf: "actions_wf claimed_db" "actions_wf started_db" "actions_wf running_db" "actions_wf settled_db"
proof -
  note t = txn_callback [OF example_steps(1)] txn_start [OF example_steps(2)] txn_begin [OF example_steps(3)]
    txn_finish [OF _ example_steps(4)]
  show c: "actions_wf claimed_db" by (rule txn_wf [OF t(1) first_claim_ok(3)])
  show s: "actions_wf started_db" by (rule txn_wf [OF t(2) c])
  show r: "actions_wf running_db" by (rule txn_wf [OF t(3) s])
  show "actions_wf settled_db" by (rule txn_wf [OF t(4) r]) simp
qed


theorem domain_operation_starts_once_witness:
  "\<not> (\<exists>sn d3. begin_execution card_env 9000 (asc ''w2'') (asc ''A1'') settled_db = Inr (Started sn, d3))"
proof -
  have "(action_txn card_env)\<^sup>*\<^sup>* running_db settled_db"
    by (rule r_into_rtranclp, rule txn_finish [OF _ example_steps(4)]) simp
  from domain_operation_starts_once [OF example_wf(2) example_steps(3) this] show ?thesis by blast
qed

theorem settled_action_final_witness:
  "get_action (snd (projr (claim_callback card_env True 250 (card_frame ''msg3'' CARD_EVENT_KEY_CRM_BATCH_SUBMISSION [''L'']) settled_db)))
     (asc ''A1'') = get_action settled_db (asc ''A1'')"
proof -
  let ?r = "claim_callback card_env True 250 (card_frame ''msg3'' CARD_EVENT_KEY_CRM_BATCH_SUBMISSION [''L'']) settled_db"
  have "isl ?r = False" by code_simp
  then have "(action_txn card_env)\<^sup>*\<^sup>* settled_db (snd (projr ?r))"
    by (intro r_into_rtranclp txn_callback) (rule projr_eq)
  moreover have "(case get_action settled_db (asc ''A1'') of None \<Rightarrow> False | Some a \<Rightarrow> is_settled a)" by code_simp
  then obtain a where "get_action settled_db (asc ''A1'') = Some a" "is_settled a" by (auto split: option.splits)
  ultimately show ?thesis using settled_action_final [OF example_wf(4)] by metis
qed

theorem accepted_callback_checked_witness:
  "\<exists>a a'. get_action offered_db (wa_id a) = Some a \<and> get_action claimed_db (wa_id a) = Some a' \<and> wa_status a' = ''processing'' \<and>
     set (chosen_leads a') \<subseteq> set (offered_leads a)"
  using accepted_callback_checked [OF first_claim_ok(3) example_steps(1) first_claim_ok(2)] by blast

theorem card_accepted_once_witness:
  "ccr_code (fst (projr second_claim)) \<noteq> ''claimed''"
proof -
  have "isl second_claim = False" by code_simp
  then have "claim_callback card_env True 210 (card_frame ''msg2'' CARD_EVENT_KEY_CRM_BATCH_SUBMISSION [''K'']) claimed_db =
      Inr (fst (projr second_claim), snd (projr second_claim))"
    unfolding second_claim_def by (rule projr_eq)
  moreover have "ccr_action_id (fst (projr second_claim)) = ccr_action_id (fst (projr first_claim))" by code_simp
  ultimately show ?thesis
    using card_accepted_once [OF first_claim_ok(3) example_steps(1) first_claim_ok(2) rtranclp.rtrancl_refl] by blast
qed

theorem queued_action_settles_witness:
  "\<exists>d' a'. execute_action card_env (\<lambda>sn d w. (Domain_Result (asc ''ok'') (asc ''fine''), d, w)) 220 240 (asc ''w1'') (asc ''A1'') claimed_db () =
     (Inr (exec_answer (asc ''ok'') (asc ''fine'') True), d', ()) \<and> get_action d' (asc ''A1'') = Some a' \<and> wa_status a' = ''succeeded''"
proof -
  have "(case action_view claimed_db (asc ''A1'') of (Some a, Some x) \<Rightarrow> wa_status a = ''processing'' \<and> wo_status x = ''pending'' \<and>
     wo_processing_lease_expires_at x = None \<and> actor_enabled claimed_db (wa_bound_actor a) | _ \<Rightarrow> False)" by code_simp
  then obtain a x where "get_action claimed_db (asc ''A1'') = Some a" "get_action_outbox claimed_db (asc ''A1'') = Some x"
    "wa_status a = ''processing''" "wo_status x = ''pending''" "wo_processing_lease_expires_at x = None"
    "actor_enabled claimed_db (wa_bound_actor a)"
    by (auto simp: action_view_def split: option.splits)
  moreover have "0 < length (split_result_notifications (asc ''fine''))" by code_simp
  ultimately show ?thesis
    using queued_action_settles [where d = claimed_db and i = "asc ''A1''" and executor = "\<lambda>sn d w. (Domain_Result (asc ''ok'') (asc ''fine''), d, w)"
        and w = "()" and w' = "()" and code = "asc ''ok''" and summary = "asc ''fine''" and env = card_env and now = 220 and now' = 240
        and token = "asc ''w1''" and n = 0 and a = a and x = x]
    by (fastforce simp: keeps_claim_def split: option.splits)
qed

definition long_result :: pstr where
  "long_result = replicate 300 0x41 @ t_detail_sep @ replicate 300 0x42 @ [0x0A] @ replicate 300 0x43"


end
