(* ===== verification/Command_Vocab.thy ===== *)
theory Command_Vocab
  imports Py_Prelude
begin

text \<open>
  The texts of the submission commands and their replies, as code-point lists: \<open>q_\<close> a sentence or a part of one,
  \<open>h_\<close> the heading of a group of results, \<open>y_\<close> the explanation of a reason code, \<open>x_\<close> a detail of a failed search.
\<close>

definition q_title :: pstr where
  "q_title = [0x43, 0x52, 0x4D, 0x20, 0x63D0, 0x4EA4, 0x7ED3, 0x679C]"

definition q_title_a :: pstr where
  "q_title_a = [0x43, 0x52, 0x4D, 0x20, 0x63D0, 0x4EA4, 0x7ED3, 0x679C, 0xFF08, 0x5DF2, 0x9009,
     0x62E9, 0x20]"

definition q_title_b :: pstr where
  "q_title_b = [0x20, 0x6761, 0xFF09]"

definition q_unit :: pstr where
  "q_unit = [0x20, 0x6761]"

definition q_success :: pstr where
  "q_success = [0x2705, 0x20, 0x43, 0x52, 0x4D, 0x20, 0x65B0, 0x589E, 0x2F, 0x66F4, 0x65B0,
     0x6210, 0x529F, 0x20]"

definition q_followed :: pstr where
  "q_followed = [0x1F501, 0x20, 0x43, 0x52, 0x4D, 0x20, 0x5DF2, 0x5B58, 0x5728, 0x5E76, 0x8DDF,
     0x8FDB, 0x20]"

definition q_unchanged :: pstr where
  "q_unchanged = [0x2705, 0x20, 0x65E0, 0x53D8, 0x5316, 0x20]"

definition q_incomplete :: pstr where
  "q_incomplete = [0x26A0, 0xFE0F, 0x20, 0x5F85, 0x5B8C, 0x5584, 0x20]"

definition q_processing :: pstr where
  "q_processing = [0x23F3, 0x20, 0x5904, 0x7406, 0x4E2D, 0x20]"

definition q_unsubmitted :: pstr where
  "q_unsubmitted = [0x26AA, 0x20, 0x672A, 0x63D0, 0x4EA4, 0x20]"

definition q_retrying :: pstr where
  "q_retrying = [0x1F504, 0x20, 0x91CD, 0x8BD5, 0x4E2D, 0x20]"

definition q_manual :: pstr where
  "q_manual = [0x9700, 0x4EBA, 0x5DE5, 0x5904, 0x7406, 0x20]"

definition q_sum_a :: pstr where
  "q_sum_a = [0x6C47, 0x603B, 0xFF1A, 0x63D0, 0x4EA4, 0x5B8C, 0x6210, 0x20]"

definition q_sum_b :: pstr where
  "q_sum_b = [0xFF5C, 0x65B0, 0x589E, 0x2F, 0x66F4, 0x65B0, 0x6210, 0x529F, 0x20]"

definition q_sum_c :: pstr where
  "q_sum_c = [0xFF5C, 0x5DF2, 0x5B58, 0x5728, 0x5E76, 0x8DDF, 0x8FDB, 0x20]"

definition q_sum_d :: pstr where
  "q_sum_d = [0xFF5C, 0x5F85, 0x5B8C, 0x5584, 0x20]"

definition q_sum_e :: pstr where
  "q_sum_e = [0xFF5C, 0x5904, 0x7406, 0x4E2D, 0x20]"

definition q_sum_f :: pstr where
  "q_sum_f = [0xFF5C, 0x672A, 0x63D0, 0x4EA4, 0x20]"

definition q_sum_g :: pstr where
  "q_sum_g = [0xFF5C, 0x5931, 0x8D25, 0x20]"

definition h_unchanged :: pstr where
  "h_unchanged = [0x2705, 0x20, 0x65E0, 0x53D8, 0x5316]"

definition h_incomplete :: pstr where
  "h_incomplete = [0x26A0, 0xFE0F, 0x20, 0x5F85, 0x5B8C, 0x5584]"

definition h_followed_up :: pstr where
  "h_followed_up = [0x1F501, 0x20, 0x5DF2, 0x5B58, 0x5728, 0x5E76, 0x8DDF, 0x8FDB]"

definition h_processing :: pstr where
  "h_processing = [0x23F3, 0x20, 0x5904, 0x7406, 0x4E2D]"

definition h_retrying :: pstr where
  "h_retrying = [0x1F504, 0x20, 0x91CD, 0x8BD5, 0x4E2D]"

definition h_mapping :: pstr where
  "h_mapping = [0x43, 0x52, 0x4D, 0x20, 0x7528, 0x6237, 0x6620, 0x5C04, 0x7F3A, 0x5931]"

definition h_manual :: pstr where
  "h_manual = [0x9700, 0x4EBA, 0x5DE5, 0x5904, 0x7406]"

definition h_not_submitted :: pstr where
  "h_not_submitted = [0x26AA, 0x20, 0x672A, 0x63D0, 0x4EA4]"

definition y_enum :: pstr where
  "y_enum = [0x667A, 0x80FD, 0x8868, 0x683C, 0x9009, 0x9879, 0x7F3A, 0x5C11, 0x20, 0x43, 0x52,
     0x4D, 0x20, 0x5B57, 0x5178, 0x6620, 0x5C04, 0xFF0C, 0x8BF7, 0x8054, 0x7CFB, 0x7BA1, 0x7406,
     0x5458, 0x914D, 0x7F6E, 0x540E, 0x91CD, 0x65B0, 0x63D0, 0x4EA4]"

definition y_user :: pstr where
  "y_user = [0x5F53, 0x524D, 0x8D1F, 0x8D23, 0x4EBA, 0x65E0, 0x6CD5, 0x6620, 0x5C04, 0x20, 0x43,
     0x52, 0x4D, 0x20, 0x7528, 0x6237, 0xFF0C, 0x8BF7, 0x8054, 0x7CFB, 0x7BA1, 0x7406, 0x5458]"

definition y_cross :: pstr where
  "y_cross = [0x8DE8, 0x5458, 0x5DE5, 0x63D0, 0x4EA4, 0x6743, 0x9650, 0x5DF2, 0x64A4, 0x9500,
     0x6216, 0x4E0D, 0x53EF, 0x7528, 0xFF0C, 0x672C, 0x6B21, 0x672A, 0x63D0, 0x4EA4]"

definition y_conflict :: pstr where
  "y_conflict = [0x516C, 0x53F8, 0x8EAB, 0x4EFD, 0x8BB0, 0x5F55, 0x51B2, 0x7A81, 0xFF0C, 0x9700,
     0x8981, 0x4EBA, 0x5DE5, 0x5904, 0x7406]"

definition y_reserved :: pstr where
  "y_reserved = [0x5DF2, 0x6709, 0x63D0, 0x4EA4, 0x4EFB, 0x52A1, 0x6B63, 0x5728, 0x5904, 0x7406,
     0xFF0C, 0x672C, 0x6B21, 0x672A, 0x91CD, 0x590D, 0x521B, 0x5EFA]"

definition y_table_retry :: pstr where
  "y_table_retry = [0x4F01, 0x5FAE, 0x667A, 0x80FD, 0x8868, 0x683C, 0x6682, 0x65F6, 0x9650,
     0x6D41, 0x6216, 0x7F51, 0x7EDC, 0x5F02, 0x5E38, 0xFF0C, 0x672C, 0x6B21, 0x672A, 0x53D1,
     0x8D77, 0x20, 0x43, 0x52, 0x4D, 0x20, 0x63D0, 0x4EA4, 0xFF0C, 0x8BF7, 0x7A0D, 0x540E, 0x91CD,
     0x65B0, 0x63D0, 0x4EA4]"

definition y_pre :: pstr where
  "y_pre = [0x63D0, 0x4EA4, 0x524D, 0x4F9D, 0x8D56, 0x6682, 0x65F6, 0x4E0D, 0x53EF, 0x7528,
     0xFF0C, 0x672C, 0x6B21, 0x672A, 0x53D1, 0x8D77, 0x20, 0x43, 0x52, 0x4D, 0x20, 0x63D0, 0x4EA4,
     0xFF0C, 0x8BF7, 0x7A0D, 0x540E, 0x91CD, 0x65B0, 0x63D0, 0x4EA4]"

definition y_snapshot :: pstr where
  "y_snapshot = [0x4F01, 0x5FAE, 0x667A, 0x80FD, 0x8868, 0x683C, 0x8BFB, 0x53D6, 0x5931, 0x8D25,
     0xFF0C, 0x672C, 0x6B21, 0x672A, 0x53D1, 0x8D77, 0x20, 0x43, 0x52, 0x4D, 0x20, 0x63D0, 0x4EA4,
     0xFF0C, 0x8BF7, 0x68C0, 0x67E5, 0x8868, 0x683C, 0x6743, 0x9650, 0x6216, 0x7CFB, 0x7EDF,
     0x914D, 0x7F6E, 0x540E, 0x91CD, 0x8BD5]"

definition y_create_retry :: pstr where
  "y_create_retry = [0x43, 0x52, 0x4D, 0x20, 0x63D0, 0x4EA4, 0x6682, 0x65F6, 0x5931, 0x8D25,
     0xFF0C, 0x7CFB, 0x7EDF, 0x5C06, 0x81EA, 0x52A8, 0x91CD, 0x8BD5]"

definition y_create_failed :: pstr where
  "y_create_failed = [0x43, 0x52, 0x4D, 0x20, 0x63D0, 0x4EA4, 0x5931, 0x8D25, 0xFF0C, 0x9700,
     0x8981, 0x4EBA, 0x5DE5, 0x5904, 0x7406]"

definition y_followed :: pstr where
  "y_followed = [0x43, 0x52, 0x4D, 0x20, 0x4E2D, 0x5DF2, 0x5B58, 0x5728, 0x8BE5, 0x7EBF, 0x7D22,
     0xFF0C, 0x5DF2, 0x8FDB, 0x884C, 0x8DDF, 0x8FDB]"

definition y_update_incomplete :: pstr where
  "y_update_incomplete = [0x43, 0x52, 0x4D, 0x20, 0x63D0, 0x4EA4, 0x524D, 0x6821, 0x9A8C, 0x672A,
     0x901A, 0x8FC7, 0xFF0C, 0x8BF7, 0x68C0, 0x67E5, 0x5F53, 0x524D, 0x7EBF, 0x7D22, 0x4FE1,
     0x606F]"

definition y_identity :: pstr where
  "y_identity = [0x516C, 0x53F8, 0x540D, 0x79F0, 0x53D1, 0x751F, 0x53D8, 0x5316, 0xFF0C, 0x9700,
     0x8981, 0x4EBA, 0x5DE5, 0x5904, 0x7406]"

definition y_changed :: pstr where
  "y_changed = [0x7EBF, 0x7D22, 0x72B6, 0x6001, 0x5DF2, 0x53D8, 0x5316, 0xFF0C, 0x8BF7, 0x91CD,
     0x65B0, 0x53D1, 0x8D77, 0x63D0, 0x4EA4]"

definition y_submitted :: pstr where
  "y_submitted = [0x8BE5, 0x7EBF, 0x7D22, 0x5DF2, 0x5B8C, 0x6210, 0x63D0, 0x4EA4, 0xFF0C, 0x672C,
     0x6B21, 0x672A, 0x91CD, 0x590D, 0x521B, 0x5EFA]"

definition q_dash :: pstr where
  "q_dash = [0x2D, 0x20]"

definition q_lacks :: pstr where
  "q_lacks = [0xFF1A, 0x7F3A, 0x5C11, 0x300C]"

definition q_lacks_end :: pstr where
  "q_lacks_end = [0x300D]"

definition q_missing_sum :: pstr where
  "q_missing_sum = [0x5F85, 0x5B8C, 0x5584, 0x6C47, 0x603B, 0xFF1A, 0x7F3A, 0x5C11, 0x5FC5,
     0x586B, 0x5B57, 0x6BB5, 0xFF1A]"

definition x_auth :: pstr where
  "x_auth = [0x43, 0x52, 0x4D, 0x20, 0x9274, 0x6743, 0x5931, 0x8D25]"

definition x_transport :: pstr where
  "x_transport = [0x43, 0x52, 0x4D, 0x20, 0x7F51, 0x7EDC, 0x8FDE, 0x63A5, 0x6216, 0x8D85, 0x65F6,
     0x5F02, 0x5E38]"

definition x_malformed :: pstr where
  "x_malformed = [0x43, 0x52, 0x4D, 0x20, 0x8FD4, 0x56DE, 0x683C, 0x5F0F, 0x5F02, 0x5E38]"

definition x_business :: pstr where
  "x_business = [0x43, 0x52, 0x4D, 0x20, 0x8FD4, 0x56DE, 0x4E1A, 0x52A1, 0x9519, 0x8BEF]"

definition x_gateway :: pstr where
  "x_gateway = [0x43, 0x52, 0x4D, 0x20, 0x7F51, 0x5173, 0x5F02, 0x5E38]"

definition x_target :: pstr where
  "x_target = [0x43, 0x52, 0x4D, 0x20, 0x68C0, 0x6D4B, 0x5230, 0x91CD, 0x590D, 0x7EBF, 0x7D22,
     0x4F46, 0x672A, 0x8FD4, 0x56DE, 0x53EF, 0x64CD, 0x4F5C, 0x7684, 0x7EBF, 0x7D22, 0x20, 0x49,
     0x44]"

definition x_other :: pstr where
  "x_other = [0x43, 0x52, 0x4D, 0x20, 0x67E5, 0x91CD, 0x5931, 0x8D25, 0xFF0C, 0x9700, 0x8981,
     0x4EBA, 0x5DE5, 0x5904, 0x7406]"

definition x_code :: pstr where
  "x_code = [0x9519, 0x8BEF, 0x7801, 0xFF1A]"

definition x_open :: pstr where
  "x_open = [0xFF08]"

definition x_close :: pstr where
  "x_close = [0xFF09]"

definition q_no_owner_name :: pstr where
  "q_no_owner_name = [0x6CA1, 0x6709, 0x89E3, 0x6790, 0x5230, 0x8D1F, 0x8D23, 0x4EBA, 0x59D3,
     0x540D, 0xFF0C, 0x8BF7, 0x4F7F, 0x7528, 0x201C, 0x63D0, 0x4EA4, 0x8D1F, 0x8D23, 0x4EBA,
     0x59D3, 0x540D, 0x7684, 0x7EBF, 0x7D22, 0x201D, 0x6216, 0x201C, 0x63D0, 0x4EA4, 0x6240,
     0x6709, 0x5458, 0x5DE5, 0x7684, 0x7EBF, 0x7D22, 0x201D, 0x3002]"

definition q_actor_off :: pstr where
  "q_actor_off = [0x5F53, 0x524D, 0x4F01, 0x5FAE, 0x8D26, 0x53F7, 0x672A, 0x542F, 0x7528, 0xFF0C,
     0x4E0D, 0x80FD, 0x63D0, 0x4EA4, 0x20, 0x43, 0x52, 0x4D, 0x20, 0x7EBF, 0x7D22, 0x3002]"

definition q_no_cross :: pstr where
  "q_no_cross = [0x5F53, 0x524D, 0x8D26, 0x53F7, 0x6CA1, 0x6709, 0x8DE8, 0x5458, 0x5DE5, 0x20,
     0x43, 0x52, 0x4D, 0x20, 0x63D0, 0x4EA4, 0x6388, 0x6743, 0x3002]"

definition q_not_started :: pstr where
  "q_not_started = [0xFF0C, 0x672A, 0x53D1, 0x8D77, 0x63D0, 0x4EA4, 0x3002]"

definition q_directory_down :: pstr where
  "q_directory_down = [0x4F01, 0x5FAE, 0x901A, 0x8BAF, 0x5F55, 0x5F53, 0x524D, 0x4E0D, 0x53EF,
     0x67E5, 0x8BE2, 0xFF0C, 0x672A, 0x53D1, 0x8D77, 0x63D0, 0x4EA4, 0xFF0C, 0x8BF7, 0x7A0D,
     0x540E, 0x91CD, 0x8BD5, 0x3002]"

definition q_prepared :: pstr where
  "q_prepared = [0x672C, 0x6B21, 0x63D0, 0x4EA4, 0x786E, 0x8BA4, 0x6D88, 0x606F, 0x5DF2, 0x767B,
     0x8BB0, 0xFF0C, 0x8BF7, 0x5728, 0x539F, 0x786E, 0x8BA4, 0x5361, 0x4E2D, 0x64CD, 0x4F5C,
     0x3002]"

definition q_no_abandoned :: pstr where
  "q_no_abandoned = [0x5F53, 0x524D, 0x6CA1, 0x6709, 0x53EF, 0x91CD, 0x65B0, 0x63D0, 0x4EA4,
     0x7684, 0x653E, 0x5F03, 0x63D0, 0x4EA4, 0x7EBF, 0x7D22, 0x3002]"

definition q_no_candidates :: pstr where
  "q_no_candidates = [0x5F53, 0x524D, 0x6CA1, 0x6709, 0x53EF, 0x63D0, 0x4EA4, 0x7684, 0x672A,
     0x63D0, 0x4EA4, 0x7EBF, 0x7D22, 0x3002]"

definition q_no_card_batch :: pstr where
  "q_no_card_batch = [0x5019, 0x9009, 0x7EBF, 0x7D22, 0x5DF2, 0x627E, 0x5230, 0xFF0C, 0x4F46,
     0x5F53, 0x524D, 0x673A, 0x5668, 0x4EBA, 0x5361, 0x7247, 0x80FD, 0x529B, 0x672A, 0x5C31,
     0x7EEA, 0xFF0C, 0x8BF7, 0x5148, 0x5B8C, 0x6210, 0x5361, 0x7247, 0x914D, 0x7F6E, 0x3002]"

definition q_title_again :: pstr where
  "q_title_again = [0x91CD, 0x65B0, 0x63D0, 0x4EA4, 0x653E, 0x5F03, 0x7EBF, 0x7D22]"

definition q_title_choose :: pstr where
  "q_title_choose = [0x9009, 0x62E9, 0x8981, 0x63D0, 0x4EA4, 0x7684, 0x7EBF, 0x7D22]"

definition q_pages_a :: pstr where
  "q_pages_a = [0xFF0C, 0x5171, 0x20]"

definition q_pages_b :: pstr where
  "q_pages_b = [0x20, 0x5F20, 0x5019, 0x9009, 0x5361]"

definition q_sent_a :: pstr where
  "q_sent_a = [0xFF1A, 0x5DF2, 0x53D1, 0x9001, 0x5019, 0x9009, 0x5361, 0xFF0C, 0x8BF7, 0x52FE,
     0x9009, 0x540E, 0x786E, 0x8BA4, 0x63D0, 0x4EA4, 0xFF08, 0x5171, 0x20]"

definition q_sent_b :: pstr where
  "q_sent_b = [0x20, 0x6761]"

definition q_sent_c :: pstr where
  "q_sent_c = [0xFF09, 0x3002]"

definition q_table_link_a :: pstr where
  "q_table_link_a = [0x8BF7, 0x5728, 0x667A, 0x80FD, 0x8868, 0x683C, 0x4E2D, 0x5BA1, 0x6838,
     0x7EBF, 0x7D22, 0xFF1A, 0x5B, 0x6253, 0x5F00, 0x7EBF, 0x7D22, 0x8868, 0x5D, 0x28]"

definition q_company_none :: pstr where
  "q_company_none = [0x672A, 0x627E, 0x5230, 0x8BE5, 0x516C, 0x53F8, 0x540D, 0x79F0, 0x7684,
     0x7EBF, 0x7D22, 0xFF0C, 0x8BF7, 0x786E, 0x8BA4, 0x667A, 0x80FD, 0x8868, 0x683C, 0x4E2D,
     0x7684, 0x7EBF, 0x7D22, 0x540D, 0x79F0, 0x540E, 0x91CD, 0x8BD5, 0x3002]"

definition q_company_done :: pstr where
  "q_company_done = [0x5DF2, 0x627E, 0x5230, 0x8BE5, 0x516C, 0x53F8, 0x8BB0, 0x5F55, 0xFF0C,
     0x4F46, 0x5F53, 0x524D, 0x6CA1, 0x6709, 0x53EF, 0x63D0, 0x4EA4, 0x7684, 0x672A, 0x63D0,
     0x4EA4, 0x7EBF, 0x7D22, 0x3002]"

definition q_company_foreign :: pstr where
  "q_company_foreign = [0x5DF2, 0x627E, 0x5230, 0x540C, 0x540D, 0x8868, 0x683C, 0x8BB0, 0x5F55,
     0xFF0C, 0x4F46, 0x5F53, 0x524D, 0x8D26, 0x53F7, 0x6CA1, 0x6709, 0x53EF, 0x63D0, 0x4EA4,
     0x7684, 0x672C, 0x4EBA, 0x5F85, 0x63D0, 0x4EA4, 0x7EBF, 0x7D22, 0x3002]"

definition q_cand_a :: pstr where
  "q_cand_a = [0xFF08, 0x5019, 0x9009]"

definition q_cand_b :: pstr where
  "q_cand_b = [0xFF09]"

definition q_no_card_many :: pstr where
  "q_no_card_many = [0x627E, 0x5230, 0x591A, 0x4E2A, 0x540C, 0x540D, 0x7EBF, 0x7D22, 0xFF0C,
     0x4F46, 0x5F53, 0x524D, 0x673A, 0x5668, 0x4EBA, 0x5361, 0x7247, 0x80FD, 0x529B, 0x672A,
     0x5C31, 0x7EEA, 0xFF0C, 0x8BF7, 0x5148, 0x5728, 0x667A, 0x80FD, 0x8868, 0x683C, 0x4E2D,
     0x786E, 0x8BA4, 0x552F, 0x4E00, 0x8BB0, 0x5F55, 0x3002]"

definition q_found_a :: pstr where
  "q_found_a = [0x627E, 0x5230, 0x20]"

definition q_found_b :: pstr where
  "q_found_b = [0x20, 0x6761, 0x540C, 0x540D, 0x7EBF, 0x7D22, 0xFF0C, 0x8BF7, 0x5728, 0x5361,
     0x7247, 0x4E2D, 0x9009, 0x62E9, 0x8981, 0x63D0, 0x4EA4, 0x7684, 0x4E00, 0x6761, 0x3002]"

definition q_no_card_one :: pstr where
  "q_no_card_one = [0x5DF2, 0x7CBE, 0x786E, 0x627E, 0x5230, 0x7EBF, 0x7D22, 0xFF0C, 0x4F46,
     0x5F53, 0x524D, 0x673A, 0x5668, 0x4EBA, 0x5361, 0x7247, 0x80FD, 0x529B, 0x672A, 0x5C31,
     0x7EEA, 0xFF1B, 0x8BF7, 0x5148, 0x5B8C, 0x6210, 0x5361, 0x7247, 0x914D, 0x7F6E, 0x540E,
     0x518D, 0x786E, 0x8BA4, 0x63D0, 0x4EA4, 0x3002]"

definition q_by_contains :: pstr where
  "q_by_contains = [0x6309, 0x540D, 0x79F0, 0x5305, 0x542B, 0x5173, 0x7CFB, 0x627E, 0x5230,
     0x5019, 0x9009]"

definition q_by_exact :: pstr where
  "q_by_exact = [0x7CBE, 0x786E, 0x627E, 0x5230, 0x7EBF, 0x7D22]"

definition q_one_a :: pstr where
  "q_one_a = [0x5DF2]"

definition q_one_b :: pstr where
  "q_one_b = [0xFF0C, 0x5DF2, 0x53D1, 0x9001, 0x63D0, 0x4EA4, 0x524D, 0x786E, 0x8BA4, 0x5361,
     0xFF1B, 0x5982, 0x9700, 0x4FEE, 0x6539, 0xFF0C, 0x8BF7, 0x5148, 0x7F16, 0x8F91, 0x667A,
     0x80FD, 0x8868, 0x683C, 0x540E, 0x518D, 0x70B9, 0x51FB, 0x786E, 0x8BA4, 0x63D0, 0x4EA4,
     0x3002]"

definition q_fail_retry :: pstr where
  "q_fail_retry = [0x43, 0x52, 0x4D, 0x20, 0x63D0, 0x4EA4, 0x4EFB, 0x52A1, 0x6682, 0x65F6, 0x5931,
     0x8D25, 0xFF0C, 0x7CFB, 0x7EDF, 0x5C06, 0x81EA, 0x52A8, 0x91CD, 0x8BD5, 0xFF1B, 0x8BF7,
     0x52FF, 0x91CD, 0x590D, 0x63D0, 0x4EA4, 0x3002]"

definition q_fail_a :: pstr where
  "q_fail_a = [0x672C, 0x6B21, 0x7EBF, 0x7D22, 0x63D0, 0x4EA4, 0x672A, 0x80FD, 0x5B8C, 0x6210,
     0xFF0C, 0x9700, 0x8981, 0x4EBA, 0x5DE5, 0x5904, 0x7406, 0x3002, 0x5DF2, 0x6210, 0x529F,
     0x63D0, 0x4EA4, 0xFF1A]"

definition q_fail_b :: pstr where
  "q_fail_b = [0x20, 0x6761, 0xFF1B, 0x5F85, 0x5B8C, 0x5584, 0xFF1A, 0x30, 0x20, 0x6761, 0xFF1B,
     0x9700, 0x4EBA, 0x5DE5, 0x5904, 0x7406, 0xFF1A, 0x31, 0x20, 0x6761, 0x3002]"

definition q_no_retry :: pstr where
  "q_no_retry = [0x5F53, 0x524D, 0x6CA1, 0x6709, 0x4E0A, 0x6B21, 0x5DF2, 0x9009, 0x62E9, 0x4E14,
     0x5F85, 0x5B8C, 0x5584, 0x7684, 0x7EBF, 0x7D22, 0x9700, 0x8981, 0x91CD, 0x65B0, 0x63D0,
     0x4EA4, 0x3002]"

definition q_again_a :: pstr where
  "q_again_a = [0x91CD, 0x65B0, 0x63D0, 0x4EA4, 0x7ED3, 0x679C, 0xFF08, 0x5171, 0x20]"

definition q_lead :: pstr where
  "q_lead = [0x7EBF, 0x7D22]"

definition q_name_bad :: pstr where
  "q_name_bad = [0x4F01, 0x5FAE, 0x5458, 0x5DE5, 0x59D3, 0x540D, 0x4E0D, 0x80FD, 0x4E3A, 0x7A7A,
     0x4E14, 0x4E0D, 0x80FD, 0x8D85, 0x8FC7, 0x20, 0x31, 0x32, 0x38, 0x20, 0x4E2A, 0x5B57,
     0x7B26]"

definition q_name_none :: pstr where
  "q_name_none = [0x4F01, 0x5FAE, 0x901A, 0x8BAF, 0x5F55, 0x4E2D, 0x672A, 0x627E, 0x5230, 0x8BE5,
     0x59D3, 0x540D, 0x7684, 0x6210, 0x5458]"

definition q_name_many :: pstr where
  "q_name_many = [0x4F01, 0x5FAE, 0x901A, 0x8BAF, 0x5F55, 0x4E2D, 0x5B58, 0x5728, 0x540C, 0x540D,
     0x6210, 0x5458, 0xFF0C, 0x8BF7, 0x5148, 0x786E, 0x8BA4, 0x552F, 0x4E00, 0x59D3, 0x540D]"

definition q_unrecognized :: pstr where
  "q_unrecognized = [0x672A, 0x80FD, 0x8BC6, 0x522B, 0x6D88, 0x606F, 0x610F, 0x56FE, 0x3002,
     0x8BF7, 0x63D0, 0x4F9B, 0x5BA2, 0x6237, 0x4FE1, 0x606F, 0xFF0C, 0x6216, 0x660E, 0x786E,
     0x8BF4, 0x660E, 0x8981, 0x63D0, 0x4EA4, 0x4ECA, 0x5929, 0x3001, 0x5168, 0x90E8, 0x3001,
     0x653E, 0x5F03, 0x6216, 0x66F4, 0x65B0, 0x7684, 0x7EBF, 0x7D22, 0x3002]"

definition q_reason_t18 :: pstr where
  "q_reason_t18 = [0x9500, 0x552E, 0x901A, 0x8FC7, 0x56FA, 0x5B9A, 0x20, 0x54, 0x31, 0x38, 0x20,
     0x547D, 0x4EE4, 0x8BF7, 0x6C42, 0x5E9F, 0x5F03]"

definition q_reason_move :: pstr where
  "q_reason_move = [0x9500, 0x552E, 0x901A, 0x8FC7, 0x56FA, 0x5B9A, 0x20, 0x54, 0x31, 0x38, 0x20,
     0x547D, 0x4EE4, 0x8BF7, 0x6C42, 0x91CD, 0x5F52, 0x5C5E]"

lemmas command_vocab = q_title_def q_title_a_def q_title_b_def q_unit_def q_success_def q_followed_def q_unchanged_def q_incomplete_def q_processing_def q_unsubmitted_def q_retrying_def q_manual_def q_sum_a_def q_sum_b_def q_sum_c_def q_sum_d_def q_sum_e_def q_sum_f_def q_sum_g_def h_unchanged_def h_incomplete_def h_followed_up_def h_processing_def h_retrying_def h_mapping_def h_manual_def h_not_submitted_def y_enum_def y_user_def y_cross_def y_conflict_def y_reserved_def y_table_retry_def y_pre_def y_snapshot_def y_create_retry_def y_create_failed_def y_followed_def y_update_incomplete_def y_identity_def y_changed_def y_submitted_def q_dash_def q_lacks_def q_lacks_end_def q_missing_sum_def x_auth_def x_transport_def x_malformed_def x_business_def x_gateway_def x_target_def x_other_def x_code_def x_open_def x_close_def q_no_owner_name_def q_actor_off_def q_no_cross_def q_not_started_def q_directory_down_def q_prepared_def q_no_abandoned_def q_no_candidates_def q_no_card_batch_def q_title_again_def q_title_choose_def q_pages_a_def q_pages_b_def q_sent_a_def q_sent_b_def q_sent_c_def q_table_link_a_def q_company_none_def q_company_done_def q_company_foreign_def q_cand_a_def q_cand_b_def q_no_card_many_def q_found_a_def q_found_b_def q_no_card_one_def q_by_contains_def q_by_exact_def q_one_a_def q_one_b_def q_fail_retry_def q_fail_a_def q_fail_b_def q_no_retry_def q_again_a_def q_lead_def q_name_bad_def q_name_none_def q_name_many_def q_unrecognized_def q_reason_t18_def q_reason_move_def

end
