(* ===== verification/Crm_Reply.thy ===== *)
theory Crm_Reply
  imports Command_Vocab Crm_Batch Vocab Wecom_Card
begin

text \<open>
  The reply to a submission (\<^verbatim>\<open>format_submission_reply\<close> and \<^verbatim>\<open>_crm_duplicate_search_failure_detail\<close> in
  \<^verbatim>\<open>app/crm/commands.py\<close>): the counters of the batch and, for each labelled lead, a line under the heading of its status.
\<close>

definition count_text :: "nat \<Rightarrow> pstr" where
  "count_text n = digits_of n"

definition status_value :: "submission_item_status \<Rightarrow> string" where
  "status_value s = (case s of
     CREATED \<Rightarrow> ''created'' | UPDATED \<Rightarrow> ''updated'' | FOLLOWED_UP \<Rightarrow> ''followed_up'' | UNCHANGED \<Rightarrow> ''unchanged''
   | INCOMPLETE \<Rightarrow> ''incomplete'' | DUPLICATE_CONFIRMATION \<Rightarrow> ''duplicate_confirmation'' | MAPPING_MISSING \<Rightarrow> ''mapping_missing''
   | PROCESSING \<Rightarrow> ''processing'' | RETRYING \<Rightarrow> ''retrying'' | FAILED_PENDING_REVIEW \<Rightarrow> ''failed_pending_review''
   | COMPANY_IDENTITY_REVIEW \<Rightarrow> ''company_identity_review'' | NOT_SUBMITTED \<Rightarrow> ''not_submitted'')"

definition STATUS_TITLES :: "(submission_item_status \<times> pstr) list" where
  "STATUS_TITLES =
     [(UNCHANGED, h_unchanged), (INCOMPLETE, h_incomplete), (FOLLOWED_UP, h_followed_up), (PROCESSING, h_processing),
      (RETRYING, h_retrying), (DUPLICATE_CONFIRMATION, h_processing), (MAPPING_MISSING, h_mapping),
      (COMPANY_IDENTITY_REVIEW, h_manual), (FAILED_PENDING_REVIEW, h_manual), (NOT_SUBMITTED, h_not_submitted)]"

definition REASON_TEXT :: "(string \<times> pstr) list" where
  "REASON_TEXT =
     [(''crm_enum_mapping_missing'', y_enum), (''crm_user_mapping_missing'', y_user),
      (''crm_cross_owner_submission_not_authorized'', y_cross), (''company_identity_conflict'', y_conflict),
      (''company_identity_reserved'', y_reserved), (''sync_processing'', y_reserved), (''wecom_smart_table_retryable'', y_table_retry),
      (''pre_crm_transient_failure'', y_pre), (''smart_table_snapshot_failed'', y_snapshot), (''crm_create_retrying'', y_create_retry),
      (''crm_create_failed_pending_review'', y_create_failed), (''crm_followed_up'', y_followed), (''crm_update_retrying'', y_create_retry),
      (''crm_update_failed_pending_review'', y_create_failed), (''crm_update_incomplete'', y_update_incomplete),
      (''company_identity_change_pending_review'', y_identity), (''candidate_state_changed'', y_changed), (''already_submitted'', y_submitted)]"

definition GROUPED_STATUSES :: "submission_item_status list" where
  "GROUPED_STATUSES =
     [UNCHANGED, INCOMPLETE, FOLLOWED_UP, DUPLICATE_CONFIRMATION, MAPPING_MISSING, PROCESSING, RETRYING, COMPANY_IDENTITY_REVIEW,
      FAILED_PENDING_REVIEW, NOT_SUBMITTED]"

section \<open>One line\<close>

definition SEARCH_FAILURES :: "(string \<times> pstr) list" where
  "SEARCH_FAILURES =
     [(''authentication'', x_auth), (''transport'', x_transport), (''malformed_response'', x_malformed), (''business'', x_business),
      (''business_rejection'', x_business), (''gateway'', x_gateway), (''duplicate_target_unavailable'', x_target)]"

definition crm_duplicate_search_failure_detail :: "submission_item_result \<Rightarrow> pstr option" where
  "crm_duplicate_search_failure_detail it =
     (case it_reason_code it of
        None \<Rightarrow> None
      | Some r \<Rightarrow>
          if r \<notin> set [''crm_duplicate_search_failed'', ''crm_duplicate_search_retrying'', ''duplicate_target_unavailable''] then None
          else let detail = the_default x_other (dget (the_default [] (it_adapter_category it)) SEARCH_FAILURES)
               in Some (if r = ''duplicate_target_unavailable'' \<or> it_adapter_category it = Some ''transport'' then detail
                        else (case it_failure_code it of
                                Some (c # cs) \<Rightarrow> detail @ x_open @ x_code @ (c # cs) @ x_close
                              | _ \<Rightarrow> detail)))"

definition rstrip_colon :: "pstr \<Rightarrow> pstr" where
  "rstrip_colon s = rev (dropWhile (\<lambda>c. c = 0xFF1A) (rev s))"

definition item_line :: "submission_item_result \<Rightarrow> pstr \<Rightarrow> pstr" where
  "item_line it label =
     (if it_status it = INCOMPLETE \<and> it_missing_fields it \<noteq> []
      then q_dash @ label @ q_lacks @ py_join r_pause (it_missing_fields it) @ q_lacks_end
      else rstrip_colon (q_dash @ label @ [0xFF1A] @
             (case crm_duplicate_search_failure_detail it of
                Some (c # cs) \<Rightarrow> c # cs
              | _ \<Rightarrow> the_default [] (dget (the_default [] (it_reason_code it)) REASON_TEXT))))"

section \<open>The reply\<close>

definition successful_items :: "(pstr \<times> pstr) list \<Rightarrow> submission_item_result list \<Rightarrow> submission_item_result list" where
  "successful_items labels items =
     filter (\<lambda>it. it_status it \<in> {CREATED, UPDATED} \<and> dget (it_lead_id it) labels \<noteq> None) items"

definition label_of_item :: "(pstr \<times> pstr) list \<Rightarrow> submission_item_result \<Rightarrow> pstr" where
  "label_of_item labels it = the_default [] (dget (it_lead_id it) labels)"

definition success_lines :: "(pstr \<times> pstr) list \<Rightarrow> submission_item_result list \<Rightarrow> pstr list" where
  "success_lines labels items =
     (let ok = successful_items labels items
      in if ok = [] then [] else (q_success @ count_text (length ok) @ q_unit) # map (\<lambda>it. q_dash @ label_of_item labels it) ok)"

definition group_lines :: "(pstr \<times> pstr) list \<Rightarrow> submission_item_result list \<Rightarrow> submission_item_status \<Rightarrow> pstr list" where
  "group_lines labels items st =
     (let of_group = filter (\<lambda>it. it_status it = st \<and> dget (it_lead_id it) labels \<noteq> None) items
      in if of_group = [] then []
         else (the_default [] (dget st STATUS_TITLES) @ [0x20] @ count_text (length of_group) @ q_unit) #
              map (\<lambda>it. item_line it (label_of_item labels it)) of_group)"

definition detail_lines :: "(pstr \<times> pstr) list \<Rightarrow> submission_item_result list \<Rightarrow> pstr list" where
  "detail_lines labels items = success_lines labels items @ concat (map (group_lines labels items) GROUPED_STATUSES)"

definition reply_title :: "nat option \<Rightarrow> pstr" where
  "reply_title chosen = (case chosen of Some n \<Rightarrow> q_title_a @ count_text n @ q_title_b | None \<Rightarrow> q_title)"

definition count_item_status :: "submission_item_status \<Rightarrow> submission_item_result list \<Rightarrow> nat" where
  "count_item_status st items = length (filter (\<lambda>it. it_status it = st) items)"

definition overview_lines :: "submission_batch_result \<Rightarrow> nat option \<Rightarrow> pstr list" where
  "overview_lines b chosen =
     (let failed = br_failed_pending_review b + br_mapping_missing b + br_company_identity_review b;
          success = br_succeeded b + br_updated b;
          completed = success + br_followed_up b;
          processing = br_processing b + count_item_status DUPLICATE_CONFIRMATION (br_items b);
          n = count_text
      in [reply_title chosen, [],
          q_success @ n success @ q_unit, q_followed @ n (br_followed_up b) @ q_unit, q_unchanged @ n (br_unchanged b) @ q_unit,
          q_incomplete @ n (br_incomplete b) @ q_unit, q_processing @ n processing @ q_unit, q_unsubmitted @ n (br_not_submitted b) @ q_unit,
          q_retrying @ n (br_retrying b) @ q_unit, q_manual @ n failed @ q_unit, [],
          q_sum_a @ n completed @ q_sum_b @ n success @ q_sum_c @ n (br_followed_up b) @ q_sum_d @ n (br_incomplete b) @
          q_sum_e @ n processing @ q_sum_f @ n (br_not_submitted b) @ q_sum_g @ n failed])"

definition format_submission_reply :: "submission_batch_result \<Rightarrow> (pstr \<times> pstr) list \<Rightarrow> nat option \<Rightarrow> pstr" where
  "format_submission_reply b labels selected_count =
     (let items = br_items b;
          chosen = (case selected_count of Some n \<Rightarrow> Some n | None \<Rightarrow> if items = [] then None else Some (length items));
          details = detail_lines labels items;
          missing = br_incomplete_missing_fields b
      in py_join [0x0A] (overview_lines b chosen @
           (if details \<noteq> [] then [[], t_detail] @ details
            else if items = [] \<and> missing \<noteq> [] then [[], q_missing_sum @ py_join r_pause missing]
            else [])))"

section \<open>What the reply says\<close>

text \<open>Every labelled lead with a result is named exactly once in the details, under one heading.\<close>

definition lines_for :: "(pstr \<times> pstr) list \<Rightarrow> submission_item_result list \<Rightarrow> nat" where
  "lines_for labels items =
     length (successful_items labels items) +
     sum_list (map (\<lambda>st. length (filter (\<lambda>it. it_status it = st \<and> dget (it_lead_id it) labels \<noteq> None) items)) GROUPED_STATUSES)"

lemma details_account_for_labels:
  "lines_for labels items = length (filter (\<lambda>it. dget (it_lead_id it) labels \<noteq> None) items)"
proof (induction items)
  case Nil
  then show ?case by (simp add: lines_for_def successful_items_def GROUPED_STATUSES_def)
next
  case (Cons it items)
  then show ?case
    by (cases "it_status it") (simp_all add: lines_for_def successful_items_def GROUPED_STATUSES_def)
qed

end
