(* ===== verification/Submission_Link.thy ===== *)
theory Submission_Link
  imports Crm_Reply Wecom_Callback Dispatch
begin

text \<open>
  The preparation of a submission command (\<^verbatim>\<open>app/crm/commands.py\<close>, \<^verbatim>\<open>app/messaging/wecom_directory.py\<close>): whose leads the
  command is about, which rows of the table qualify, the leads that anchor these rows, and the table link that completes
  the delivery. What the functions take from configuration and services is the record \<open>submission_ports\<close>: the
  ports of the submission service, the reply of the directory command as a parsed JSON value (\<open>None\<close> when the command
  fails or prints no JSON), whether cards can be answered, the number of retries, the link of the table,
  \<^verbatim>\<open>str.casefold\<close>, the rendering of an instant as a Shanghai day, and the identifiers drawn for the n-th row
  of a table.
\<close>

record 'w submission_ports =
  sp_crm :: "'w crm_ports"
  sp_config :: crm_config
  sp_directory :: "employee list option"
  sp_crm_available :: bool
  sp_search_users :: "pstr \<Rightarrow> 'w \<Rightarrow> pyval option"
  sp_card_ready :: bool
  sp_action_expiry :: time
  sp_retry_count :: int
  sp_table_url :: "pstr option"
  sp_casefold :: "pstr \<Rightarrow> pstr"
  sp_day_text :: "time \<Rightarrow> pstr"
  sp_new_lead_id :: "nat \<Rightarrow> pstr"
  sp_action_id :: "nat \<Rightarrow> pstr"
  sp_task_id :: "nat \<Rightarrow> pstr"

text \<open>An exception of the action service as the caller sees it.\<close>

definition exn_of :: "exc \<Rightarrow> exn" where
  "exn_of e = (case e of
     ValueError _ \<Rightarrow> value_exn | PermissionError _ \<Rightarrow> py_permission_exn | RuntimeError _ \<Rightarrow> plain_exn (asc ''RuntimeError'') []
   | TypeError _ \<Rightarrow> type_exn | IntegrityError \<Rightarrow> integrity_exn)"

definition card_unavailable :: exc where
  "card_unavailable = RuntimeError ''CardCapabilityUnavailable''"

section \<open>A member of the company directory\<close>

datatype member_lookup = Member pstr pstr | No_Member pstr | Directory_Down

text \<open>The members listed under the name, keyed by identifier; \<open>None\<close> for an ill-formed entry.\<close>

fun matching_members :: "pstr \<Rightarrow> pyval list \<Rightarrow> (pstr \<times> pstr) list \<Rightarrow> (pstr \<times> pstr) list option" where
  "matching_members normalized [] acc = Some acc"
| "matching_members normalized (x # xs) acc =
     (case x of
        PDict m \<Rightarrow>
          (case (sget ''userid'' m, sget ''name'' m) of
             (Some u, Some name) \<Rightarrow>
               if py_strip u = [] then None
               else let display_name = py_strip name;
                        hit = (fst (display_parts display_name) = normalized \<or>
                               (case sget ''alias'' m of Some a \<Rightarrow> py_strip a = normalized | None \<Rightarrow> False))
                    in matching_members normalized xs (if hit then dset (py_strip u) display_name acc else acc)
           | _ \<Rightarrow> None)
      | _ \<Rightarrow> None)"

definition resolve_wecom_member :: "(pstr \<Rightarrow> 'w \<Rightarrow> pyval option) \<Rightarrow> pstr \<Rightarrow> 'w \<Rightarrow> member_lookup" where
  "resolve_wecom_member search employee_name w =
     (let normalized = py_strip employee_name
      in if normalized = [] \<or> 128 < length normalized then No_Member q_name_bad
         else case search normalized w of
           Some (PDict r) \<Rightarrow>
             (case py_get (asc ''users'') r of
                PList users \<Rightarrow>
                  if py_truthy (py_get (asc ''hint'') r) then Directory_Down
                  else (case matching_members normalized users [] of
                          None \<Rightarrow> Directory_Down
                        | Some [] \<Rightarrow> No_Member q_name_none
                        | Some [(u, name)] \<Rightarrow> Member u name
                        | Some _ \<Rightarrow> No_Member q_name_many)
              | _ \<Rightarrow> Directory_Down)
         | _ \<Rightarrow> Directory_Down)"

section \<open>Whose leads\<close>

datatype scope_result = Scope_Refused pstr | Scope_Of submission_command

definition resolve_cross_owner_submission_scope ::
  "'w submission_ports \<Rightarrow> submission_command \<Rightarrow> db \<Rightarrow> 'w \<Rightarrow> scope_result" where
  "resolve_cross_owner_submission_scope sp c d w =
     (case sc_target_owner_name c of
        None \<Rightarrow> Scope_Refused q_no_owner_name
      | Some target \<Rightarrow>
          if \<not> is_active d (sc_sales_user_id c) then Scope_Refused q_actor_off
          else if \<not> may_submit_for_others (sp_crm sp) d (sc_sales_user_id c) w then Scope_Refused q_no_cross
          else if target = CROSS_OWNER_ALL_TARGET
          then Scope_Of (c\<lparr>sc_target_owner_name := Some target,
                           sc_owner_scope_user_ids := Some (sort (dedup (map ld_smart_table_owner_user_id (leads d))))\<rparr>)
          else (case resolve_wecom_member (sp_search_users sp) target w of
                  No_Member reason \<Rightarrow> Scope_Refused (reason @ q_not_started)
                | Directory_Down \<Rightarrow> Scope_Refused q_directory_down
                | Member u name \<Rightarrow>
                    Scope_Of (c\<lparr>sc_target_owner_name := Some (case display_parts (py_strip name) of
                                  (formal, Some _) \<Rightarrow> formal | (_, None) \<Rightarrow> name),
                                sc_owner_scope_user_ids := Some [u]\<rparr>)))"

section \<open>The lead behind a row\<close>

definition anchored_fields :: "fields \<Rightarrow> fields" where
  "anchored_fields flds = filter (\<lambda>(name, v). v \<noteq> PNone \<and> \<not> read_only_field name) flds"

definition anchor_lead :: "time \<Rightarrow> pstr \<Rightarrow> pstr \<Rightarrow> st_record \<Rightarrow> pstr option \<Rightarrow> lead" where
  "anchor_lead now lead_id owner r company =
     (let named = (company \<noteq> None \<and> company \<noteq> Some [])
      in \<lparr>ld_id = lead_id, ld_source_message_id = None, ld_source_segment_index = 0,
          ld_original_capturing_sales_user_id = owner, ld_smart_table_owner_user_id = owner,
          ld_smart_table_record_id = Some (rec_id r), ld_lifecycle_state = ''pending_create'',
          ld_field_values = anchored_fields (rec_fields r), ld_enrichment_values = [],
          ld_standard_company_name = (if named then company else None), ld_company_region = ''unknown'',
          ld_company_verification_status = (if named then ''user_confirmed_unverified'' else ''incomplete_company''),
          ld_tyc_customer_id = None, ld_company_confirmed_by_user = named, ld_created_at = now, ld_updated_at = now\<rparr>)"

definition set_owner :: "time \<Rightarrow> pstr \<Rightarrow> lead \<Rightarrow> lead" where
  "set_owner now u l = (if ld_smart_table_owner_user_id l = u then l
     else l\<lparr>ld_smart_table_owner_user_id := u, ld_updated_at := now\<rparr>)"

definition company_cell :: "pyval \<Rightarrow> pstr option option" where
  "company_cell v = (case v of PNone \<Rightarrow> Some None | PStr s \<Rightarrow> Some (Some (py_strip s)) | _ \<Rightarrow> None)"

definition register_member :: "time \<Rightarrow> pstr \<Rightarrow> pstr option \<Rightarrow> db \<Rightarrow> db" where
  "register_member now u name d =
     (if get_actor d u = None then d\<lparr>sales_authorizations := tadd (new_actor u name False None now) (sales_authorizations d)\<rparr> else d)"

text \<open>The insertion of a row whose values are no JSON fails.\<close>

definition link_existing_smart_table_record ::
  "'w submission_ports \<Rightarrow> time \<Rightarrow> st_record \<Rightarrow> submission_command \<Rightarrow> pstr option \<Rightarrow> bool \<Rightarrow> db \<Rightarrow> exn + pstr option \<times> db" where
  "link_existing_smart_table_record sp now r c owner_user_id allow_unassigned d =
     (let owner = (case owner_user_id of Some (x # xs) \<Rightarrow> x # xs | _ \<Rightarrow> sc_sales_user_id c)
      in if \<not> (py_eq (py_get f_owner (rec_fields r)) (PStr owner) \<or> allow_unassigned) then Inr (None, d)
         else case company_cell (py_get f_lead_name (rec_fields r)) of
           None \<Rightarrow> Inr (None, d)
         | Some company \<Rightarrow>
             (let d1 = register_member now owner (dget f_owner (rec_member_names r)) d
              in case lead_of_record d1 (rec_id r) of
                   Some l \<Rightarrow> Inr (Some (ld_id l), upd_lead (ld_id l) (set_owner now owner) d1)
                 | None \<Rightarrow>
                     if \<not> json_able (PDict (anchored_fields (rec_fields r))) then Inl type_exn
                     else (let l = anchor_lead now (sp_new_lead_id sp (length (leads d1))) owner r company
                           in Inr (Some (ld_id l), d1\<lparr>leads := tadd l (leads d1)\<rparr>))))"

definition audit_linked :: "time \<Rightarrow> submission_command \<Rightarrow> nat \<Rightarrow> db \<Rightarrow> db" where
  "audit_linked now c n d =
     (if n = 0 then d
      else audit_command now c ''smart_table_existing_leads_linked''
             [(asc ''mapping_type'', PStr (asc ''table_record_to_crm_sync_anchor'')), (asc ''linked_count'', PInt (int n))] d)"

section \<open>The rows of a batch\<close>

text \<open>The rows of the requested state, owner and day, each with its owner.\<close>

fun table_candidates ::
  "env \<Rightarrow> 'w crm_ports \<Rightarrow> pstr \<Rightarrow> pstr list \<Rightarrow> (pstr \<times> pstr) list \<Rightarrow> int option \<Rightarrow> 'w \<Rightarrow> st_record list \<Rightarrow> exn + (st_record \<times> pstr) list" where
  "table_candidates env cp text owners names day w [] = Inr []"
| "table_candidates env cp text owners names day w (r # rs) =
     (if \<not> allowed_submission_status text (py_get f_submit_status (rec_fields r)) then table_candidates env cp text owners names day w rs
      else case table_owner_user_id cp r owners names w of
        Inl e \<Rightarrow> Inl e
      | Inr owner \<Rightarrow>
          (case table_candidates env cp text owners names day w rs of
             Inl e \<Rightarrow> Inl e
           | Inr xs \<Rightarrow> Inr (case owner of
                 None \<Rightarrow> xs
               | Some u \<Rightarrow> if date_matches env day (rec_fields r) then (r, u) # xs else xs)))"

text \<open>
  The rows are anchored in turn, within one transaction. The lookup table of the source holds the leads found at the start and those
  linked since, which are the leads the database holds for the rows; \<open>known\<close> are the registered owners and \<open>n\<close> counts the changes.
\<close>

fun link_rows ::
  "'w submission_ports \<Rightarrow> time \<Rightarrow> submission_command \<Rightarrow> (st_record \<times> pstr) list \<Rightarrow> pstr list \<Rightarrow> nat \<Rightarrow> db \<Rightarrow> exn + nat \<times> db" where
  "link_rows sp now c [] known n d = Inr (n, d)"
| "link_rows sp now c ((r, u) # xs) known n d =
     (case lead_of_record d (rec_id r) of
        Some l \<Rightarrow>
          if u \<notin> set known
          then (case link_existing_smart_table_record sp now r c (Some u) True d of
                  Inl e \<Rightarrow> Inl e
                | Inr (_, d1) \<Rightarrow> link_rows sp now c xs (u # known) (n + 1) d1)
          else if ld_smart_table_owner_user_id l \<noteq> u
          then link_rows sp now c xs known (n + 1) (upd_lead (ld_id l) (set_owner now u) d)
          else link_rows sp now c xs known n d
      | None \<Rightarrow>
          (case link_existing_smart_table_record sp now r c (Some u) True d of
             Inl e \<Rightarrow> Inl e
           | Inr (linked, d1) \<Rightarrow> link_rows sp now c xs known (if linked = None then n else n + 1) d1))"

definition registered_among :: "db \<Rightarrow> pstr list \<Rightarrow> pstr list" where
  "registered_among d us = filter (\<lambda>u. u \<in> set us) (map sa_wecom_user_id (sales_authorizations d))"

definition link_unsubmitted_smart_table_records ::
  "env \<Rightarrow> 'w submission_ports \<Rightarrow> time \<Rightarrow> submission_command \<Rightarrow> db \<Rightarrow> 'w \<Rightarrow> exn + st_record list \<times> db" where
  "link_unsubmitted_smart_table_records env sp now c d w =
     (let text = sc_text c; cross = (text = c_cross_owner);
          owners = (if cross then the_default [] (sc_owner_scope_user_ids c) else [sc_sales_user_id c]);
          day = (if text = c_today then Some (shanghai_date env now) else if cross then sc_target_capture_date c else None);
          names = (if cross then command_owner_names d c owners else named_actors d owners)
      in if owners = [] then Inr ([], d)
         else case cp_get_records (sp_crm sp) (By_Owner owners (nonempty_names names)
                     (Some (if text = c_abandoned then v_abandoned else v_unsubmitted)) day) w of
           Inl e \<Rightarrow> Inl e
         | Inr rs \<Rightarrow>
             (case table_candidates env (sp_crm sp) text owners names day w rs of
                Inl e \<Rightarrow> Inl e
              | Inr [] \<Rightarrow> Inr ([], d)
              | Inr (x # xs) \<Rightarrow>
                  (case link_rows sp now c (x # xs) (registered_among d owners) 0 d of
                     Inl e \<Rightarrow> Inl e
                   | Inr (n, d1) \<Rightarrow> Inr (map fst (x # xs), audit_linked now c n d1))))"

section \<open>The rows of one company\<close>

definition normalize_company_lookup_text :: "'w submission_ports \<Rightarrow> pstr \<Rightarrow> pstr" where
  "normalize_company_lookup_text sp v = sp_casefold sp (concat (py_split v))"

definition contains_company :: "'w submission_ports \<Rightarrow> pstr \<Rightarrow> st_record \<Rightarrow> bool" where
  "contains_company sp query r =
     (case py_get f_lead_name (rec_fields r) of
        PStr s \<Rightarrow> (let v = normalize_company_lookup_text sp s in v \<noteq> [] \<and> (py_contains query v \<or> py_contains v query))
      | _ \<Rightarrow> False)"

definition find_company_records :: "'w submission_ports \<Rightarrow> pstr \<Rightarrow> pstr list \<Rightarrow> 'w \<Rightarrow> exn + st_record list \<times> bool" where
  "find_company_records sp company owners w =
     (case cp_get_records (sp_crm sp) (By_Owner owners None None None) w of
        Inl e \<Rightarrow> Inl e
      | Inr rs \<Rightarrow>
          (let exact = filter (\<lambda>r. py_eq (py_get f_lead_name (rec_fields r)) (PStr company)) rs;
               query = normalize_company_lookup_text sp company;
               found = filter (contains_company sp query) rs
           in if exact \<noteq> [] then Inr (exact, False)
              else if length query < 2 then Inr ([], False)
              else Inr (found, found \<noteq> [])))"

section \<open>The table link\<close>

definition submission_notice :: "submission_command \<Rightarrow> string list \<Rightarrow> notification_record \<Rightarrow> bool" where
  "submission_notice c types n =
     (nr_sales_user_id n = sc_sales_user_id c \<and> nr_source_message_id n = sc_request_message_id c \<and> nr_notification_type n \<in> set types)"

definition submission_delivery_was_prepared :: "submission_command \<Rightarrow> db \<Rightarrow> bool" where
  "submission_delivery_was_prepared c d =
     list_ex (\<lambda>n. submission_notice c [''wecom_action_card''] n \<and>
                 (case nr_payload n of Some p \<Rightarrow> dget (asc ''depends_on'') p \<noteq> None | None \<Rightarrow> False)) (notification_records d)"

definition ordered_notices :: "env \<Rightarrow> submission_command \<Rightarrow> db \<Rightarrow> notification_record list" where
  "ordered_notices env c d =
     sort_key (\<lambda>n. nr_notification_type n = ''wecom_action_card'')
       (sort_key nr_created_at (sort_key (\<lambda>n. e_collation env (nr_notification_key n))
         (filter (submission_notice c [''wecom_action_preview'', ''wecom_action_card'']) (notification_records d))))"

definition chained_notice :: "pstr list \<Rightarrow> notification_record \<Rightarrow> notification_record" where
  "chained_notice deps n =
     n\<lparr>nr_payload := Some (dmerge (the_default [] (nr_payload n))
         [(asc ''delivery_pending'', PBool False), (asc ''depends_on'', PList (map PStr deps))])\<rparr>"

fun chain_notices :: "pstr list \<Rightarrow> pstr list \<Rightarrow> db \<Rightarrow> db" where
  "chain_notices deps [] d = d"
| "chain_notices deps (k # ks) d = chain_notices [k] ks (upd_notice k (chained_notice deps) d)"

definition table_link_key :: "env \<Rightarrow> submission_command \<Rightarrow> pstr" where
  "table_link_key env c =
     e_sha256 env (asc ''crm_submission_table_link:'' @ sc_sales_user_id c @ asc '':'' @ sc_request_message_id c)"

definition table_link_notice :: "env \<Rightarrow> time \<Rightarrow> submission_command \<Rightarrow> pstr \<Rightarrow> pstr \<Rightarrow> notification_record" where
  "table_link_notice env now c url dep =
     (blank_notice (table_link_key env c) (sc_sales_user_id c) (sc_request_message_id c) ''crm_submission_table_link'' now)
     \<lparr>nr_content := Some (q_table_link_a @ url @ [0x29]), nr_payload := Some [(asc ''depends_on'', PList [PStr dep])]\<rparr>"

definition queue_submission_table_link :: "env \<Rightarrow> 'w submission_ports \<Rightarrow> time \<Rightarrow> submission_command \<Rightarrow> db \<Rightarrow> db" where
  "queue_submission_table_link env sp now c d =
     (let ks = map nr_notification_key (ordered_notices env c d);
          url = py_strip (the_default [] (sp_table_url sp))
      in if ks = [] then d
         else let d1 = chain_notices [] ks d
              in if get_notice d1 (table_link_key env c) \<noteq> None \<or> url = [] then d1
                 else d1\<lparr>notification_records := tadd (table_link_notice env now c url (last ks)) (notification_records d1)\<rparr>)"

end
