(* ===== verification/Submission_Prepare.thy ===== *)
theory Submission_Prepare
  imports Submission_Link
begin

text \<open>
  The previews of a submission (\<^verbatim>\<open>prepare_batch_submission_selection\<close> and \<^verbatim>\<open>prepare_company_submission_preview\<close> in
  \<^verbatim>\<open>app/crm/commands.py\<close>): candidates are frozen into cards the salesperson confirms; the CRM is not called. The functions return
  the reply or an exception, and the database: every card is a transaction of its own, so the cards issued before a
  failure stay.
\<close>

section \<open>A batch\<close>

definition epoch_ordinal :: int where "epoch_ordinal = 719163"

definition page_candidate :: "submission_candidate \<Rightarrow> fields" where
  "page_candidate x = [(asc ''lead_id'', PStr (sn_lead_id x)), (asc ''company_name'', PStr (sn_company_name x))]"

definition row_snapshot_of :: "pstr \<Rightarrow> st_record \<Rightarrow> fields" where
  "row_snapshot_of lead_id r =
     [(asc ''lead_id'', PStr lead_id), (asc ''record_id'', PStr (rec_id r)), (asc ''fields'', PDict (rec_fields r)),
      (asc ''member_names'', PDict (map (\<lambda>(k, v). (k, PStr v)) (rec_member_names r)))]"

fun pages_of :: "nat \<Rightarrow> nat \<Rightarrow> 'a list \<Rightarrow> 'a list list" where
  "pages_of 0 m xs = []"
| "pages_of (Suc k) m xs = (if xs = [] then [] else take m xs # pages_of k m (drop m xs))"

definition batch_page_request ::
  "submission_command \<Rightarrow> int \<Rightarrow> int \<Rightarrow> submission_candidate list \<Rightarrow> pstr list \<Rightarrow> batch_request" where
  "batch_page_request c number page_count page chunks =
     \<lparr>bq_actor_user_id = sc_sales_user_id c, bq_request_message_id = sc_request_message_id c, bq_command_text = sc_text c,
      bq_candidates = map page_candidate page,
      bq_candidate_snapshots = Some (map (\<lambda>x. row_snapshot_of (sn_lead_id x) (sn_record x)) page),
      bq_preview_markdown_chunks = chunks, bq_defer_delivery = True, bq_page = number, bq_page_count = page_count,
      bq_owner_scope_user_ids = (if sc_text c = c_cross_owner then Some (dedup (map sn_owner_user_id page)) else None),
      bq_target_capture_date = map_option (\<lambda>n. n + epoch_ordinal) (sc_target_capture_date c)\<rparr>"

text \<open>Every candidate carries its row and its owner, so the guards against their absence are not needed.\<close>

fun issue_pages ::
  "env \<Rightarrow> 'w submission_ports \<Rightarrow> time \<Rightarrow> submission_command \<Rightarrow> int \<Rightarrow> int \<Rightarrow> submission_candidate list list \<Rightarrow> db \<Rightarrow> unit res \<times> db" where
  "issue_pages env sp now c number page_count [] d = (Inr (), d)"
| "issue_pages env sp now c number page_count (p # ps) d =
     (case build_batch_submission_markdown env (map page_candidate p) number page_count True of
        Inl e \<Rightarrow> (Inl e, d)
      | Inr chunks \<Rightarrow>
          (case issue_batch_submission_action env (sp_card_ready sp) (sp_action_expiry sp) now
                  (sp_action_id sp (length (wecom_actions d))) (sp_task_id sp (length (wecom_actions d)))
                  (batch_page_request c number page_count p chunks) d of
             Inl e \<Rightarrow> (Inl e, d)
           | Inr (a, d1) \<Rightarrow> issue_pages env sp now c (number + 1) page_count ps d1))"

definition batch_sent_text :: "submission_command \<Rightarrow> nat \<Rightarrow> nat \<Rightarrow> pstr" where
  "batch_sent_text c candidates pages =
     (if sc_text c = c_abandoned then q_title_again else q_title_choose) @ q_sent_a @ digits_of candidates @ q_sent_b @
     (if 1 < pages then q_pages_a @ digits_of pages @ q_pages_b else []) @ q_sent_c"

definition given_owner_names :: "submission_command \<Rightarrow> (pstr \<times> pstr) list" where
  "given_owner_names c =
     (case (sc_target_capture_date c, sc_owner_scope_user_ids c, sc_target_owner_name c) of
        (Some _, Some (u # us), Some n) \<Rightarrow> if n = [] then [] else [(u, n)]
      | _ \<Rightarrow> [])"

definition offer_candidates ::
  "env \<Rightarrow> 'w submission_ports \<Rightarrow> time \<Rightarrow> submission_command \<Rightarrow> db \<Rightarrow> 'w \<Rightarrow> (exn + pstr) \<times> db" where
  "offer_candidates env sp now c d w =
     (case (if sc_text c \<in> set candidate_commands
            then (case link_unsubmitted_smart_table_records env sp now c d w of
                    Inl e \<Rightarrow> Inl e | Inr (rs, d1) \<Rightarrow> Inr (Some rs, d1))
            else Inr (None, d)) of
        Inl e \<Rightarrow> (Inl e, d)
      | Inr (rs, d1) \<Rightarrow>
          (case list_submission_candidates env (sp_crm sp) now (sc_text c) (sc_sales_user_id c) (sc_owner_scope_user_ids c)
                  (sc_target_capture_date c) (given_owner_names c) rs d1 w of
             Inl e \<Rightarrow> (Inl e, d1)
           | Inr candidates \<Rightarrow>
               if candidates = [] then (Inr (if sc_text c = c_abandoned then q_no_abandoned else q_no_candidates), d1)
               else let pages = pages_of (length candidates) 19 candidates
                    in case issue_pages env sp now c 1 (int (length pages)) pages d1 of
                         (Inl e, d2) \<Rightarrow> (if e = card_unavailable then Inr q_no_card_batch else Inl (exn_of e), d2)
                       | (Inr _, d2) \<Rightarrow>
                           (Inr (batch_sent_text c (length candidates) (length pages)), queue_submission_table_link env sp now c d2)))"

definition prepare_batch_submission_selection ::
  "env \<Rightarrow> 'w submission_ports \<Rightarrow> time \<Rightarrow> submission_command \<Rightarrow> db \<Rightarrow> 'w \<Rightarrow> (exn + pstr) \<times> db" where
  "prepare_batch_submission_selection env sp now c d w =
     (if submission_delivery_was_prepared c d then (Inr q_prepared, queue_submission_table_link env sp now c d)
      else if sc_text c = c_cross_owner
      then (case resolve_cross_owner_submission_scope sp c d w of
              Scope_Refused reason \<Rightarrow> (Inr reason, d)
            | Scope_Of scoped \<Rightarrow> offer_candidates env sp now scoped d w)
      else offer_candidates env sp now c d w)"

section \<open>One company\<close>

definition company_submission_display_text :: "'w submission_ports \<Rightarrow> fields \<Rightarrow> lead \<Rightarrow> pstr" where
  "company_submission_display_text sp flds l =
     (let company = py_or (py_get f_lead_name flds)
            (case ld_standard_company_name l of Some n \<Rightarrow> PStr n | None \<Rightarrow> PNone);
          shown = (\<lambda>v. case v of PStr s \<Rightarrow> py_strip s | _ \<Rightarrow> [])
      in py_join t_bar (filter (\<lambda>p. p \<noteq> []) [shown company, shown (py_get f_contact flds), sp_day_text sp (ld_created_at l)]))"

definition own_leads_synced :: "time \<Rightarrow> pstr \<Rightarrow> pstr list \<Rightarrow> db \<Rightarrow> db" where
  "own_leads_synced now u rids d =
     d\<lparr>leads := map (\<lambda>l. if (case ld_smart_table_record_id l of Some rid \<Rightarrow> rid \<in> set rids | None \<Rightarrow> False)
                          then set_owner now u l else l) (leads d)\<rparr>"

fun link_company_rows ::
  "'w submission_ports \<Rightarrow> time \<Rightarrow> submission_command \<Rightarrow> st_record list \<Rightarrow> nat \<Rightarrow> db \<Rightarrow> exn + nat \<times> db" where
  "link_company_rows sp now c [] n d = Inr (n, d)"
| "link_company_rows sp now c (r # rs) n d =
     (if lead_of_record d (rec_id r) \<noteq> None then link_company_rows sp now c rs n d
      else case link_existing_smart_table_record sp now r c (Some (sc_sales_user_id c)) True d of
        Inl e \<Rightarrow> Inl e
      | Inr (linked, d1) \<Rightarrow> link_company_rows sp now c rs (if linked = None then n else n + 1) d1)"

definition shown_name :: "db \<Rightarrow> pstr \<Rightarrow> (pstr \<times> pstr) list" where
  "shown_name d u = (case get_actor d u of
     None \<Rightarrow> [(u, [])] | Some a \<Rightarrow> (case sa_display_name a of None \<Rightarrow> [] | Some n \<Rightarrow> [(u, n)]))"

fun eligible_rows :: "'w crm_ports \<Rightarrow> pstr \<Rightarrow> db \<Rightarrow> 'w \<Rightarrow> st_record list \<Rightarrow> exn + (st_record \<times> lead) list" where
  "eligible_rows cp u d w [] = Inr []"
| "eligible_rows cp u d w (r # rs) =
     (case lead_of_record d (rec_id r) of
        None \<Rightarrow> eligible_rows cp u d w rs
      | Some l \<Rightarrow>
          (case table_owner_user_id cp r [u] (shown_name d u) w of
             Inl e \<Rightarrow> Inl e
           | Inr owner \<Rightarrow>
               (case eligible_rows cp u d w rs of
                  Inl e \<Rightarrow> Inl e
                | Inr xs \<Rightarrow>
                    Inr (if owner = Some u \<and> map_option cs_status (latest_crm_create_sync d (ld_id l)) \<noteq> Some ''succeeded''
                         then (r, l) # xs else xs))))"

definition company_candidate :: "env \<Rightarrow> 'w submission_ports \<Rightarrow> pstr \<Rightarrow> nat \<Rightarrow> st_record \<times> lead \<Rightarrow> fields" where
  "company_candidate env sp company index x =
     [(asc ''lead_id'', PStr (ld_id (snd x))),
      (asc ''company_name'', PStr (py_str env (py_or (py_get f_lead_name (rec_fields (fst x))) (PStr company)) @
         q_cand_a @ digits_of index @ q_cand_b)),
      (asc ''display_text'', PStr (company_submission_display_text sp (rec_fields (fst x)) (snd x)))]"

definition preview_candidate :: "env \<Rightarrow> st_record \<times> lead \<Rightarrow> fields" where
  "preview_candidate env x =
     [(asc ''lead_id'', PStr (ld_id (snd x))), (asc ''company_name'', PStr (py_str env (py_get f_lead_name (rec_fields (fst x))))),
      (asc ''field_values'', PDict (rec_fields (fst x))), (asc ''missing_fields'', PList [])]"

definition offer_company_rows ::
  "env \<Rightarrow> 'w submission_ports \<Rightarrow> time \<Rightarrow> submission_command \<Rightarrow> pstr \<Rightarrow> bool \<Rightarrow> (st_record \<times> lead) list \<Rightarrow> db \<Rightarrow> (exn + pstr) \<times> db" where
  "offer_company_rows env sp now c company contains_match eligible d =
     (let i = sp_action_id sp (length (wecom_actions d)); t = sp_task_id sp (length (wecom_actions d));
          finish = (\<lambda>issued none sent.
             case issued of
               Inl e \<Rightarrow> (if e = card_unavailable then Inr none else Inl (exn_of e), d)
             | Inr (a :: wecom_action, d1) \<Rightarrow> (Inr sent, queue_submission_table_link env sp now c d1))
      in case eligible of
           [] \<Rightarrow> (Inr q_company_foreign, d)
         | [(r, l)] \<Rightarrow>
             finish (issue_company_submission_confirmation_action env (sp_card_ready sp) (sp_action_expiry sp) now i t (sc_sales_user_id c)
                       (ld_id l) (sc_request_message_id c) (py_str env (py_or (py_get f_lead_name (rec_fields r)) (PStr company)))
                       (map (\<lambda>n. (n, py_get n (rec_fields r))) SUBMISSION_PREVIEW_FIELDS) (Some (row_snapshot_of (ld_id l) r))
                       (Some (company_submission_display_text sp (rec_fields r) l)) True d)
                    q_no_card_one (q_one_a @ (if contains_match then q_by_contains else q_by_exact) @ q_one_b)
         | _ \<Rightarrow>
             (case build_batch_submission_markdown env (map (preview_candidate env) eligible) 1 1 False of
                Inl e \<Rightarrow> (Inl (exn_of e), d)
              | Inr chunks \<Rightarrow>
                  finish (issue_company_candidate_confirmation_action env (sp_card_ready sp) (sp_action_expiry sp) now i t
                            (sc_sales_user_id c) (sc_request_message_id c) company
                            (map (\<lambda>(k, x). company_candidate env sp company k x) (zip [1..<Suc (length eligible)] eligible))
                            (Some (map (\<lambda>(r, l). row_snapshot_of (ld_id l) r) eligible)) contains_match chunks True d)
                         q_no_card_many (q_found_a @ digits_of (length eligible) @ q_found_b)))"

definition prepare_company_submission_preview ::
  "env \<Rightarrow> 'w submission_ports \<Rightarrow> time \<Rightarrow> submission_command \<Rightarrow> pstr \<Rightarrow> db \<Rightarrow> 'w \<Rightarrow> (exn + pstr) \<times> db" where
  "prepare_company_submission_preview env sp now c company d w =
     (let u = sc_sales_user_id c
      in if submission_delivery_was_prepared c d then (Inr q_prepared, queue_submission_table_link env sp now c d)
         else case find_company_records sp company [u] w of
           Inl e \<Rightarrow> (Inl e, d)
         | Inr (found, contains_match) \<Rightarrow>
             if found = [] then (Inr q_company_none, d)
             else let rs = filter (\<lambda>r. unsubmitted_status (py_get f_submit_status (rec_fields r))) found
                  in if rs = [] then (Inr q_company_done, d)
                     else case link_company_rows sp now c rs 0 (own_leads_synced now u (map rec_id rs) d) of
                       Inl e \<Rightarrow> (Inl e, d)
                     | Inr (n, d1) \<Rightarrow>
                         (let d2 = audit_linked now c n d1
                          in case eligible_rows (sp_crm sp) u d2 w rs of
                               Inl e \<Rightarrow> (Inl e, d2)
                             | Inr eligible \<Rightarrow> offer_company_rows env sp now c company contains_match eligible d2))"

end
