(* ===== verification/Submission_Command.thy ===== *)
theory Submission_Command
  imports Submission_Prepare
begin

text \<open>
  The handler of submission commands (\<^verbatim>\<open>consume_submission_command\<close> in \<^verbatim>\<open>app/crm/commands.py\<close>): a queued
  message that asks for a submission becomes a preview, a repeated submission of incomplete leads, or the updates of the
  salesperson's submitted leads; the reply is queued and the event finished, retried or given up. \<open>today\<close> is the Shanghai date. The functions return
  the reply or the exception that leaves the handler, the database and the remote world.
\<close>

section \<open>Keys and dates\<close>

definition notification_key_for_message :: "env \<Rightarrow> pstr \<Rightarrow> pstr" where
  "notification_key_for_message env m = e_sha256 env (asc ''crm_submission_notification:'' @ m)"

definition terminal_failure_notification_key_for_message :: "env \<Rightarrow> pstr \<Rightarrow> pstr" where
  "terminal_failure_notification_key_for_message env m = e_sha256 env (asc ''crm_submission_terminal_failure:'' @ m)"

text \<open>A valid calendar date as a day counted from the epoch.\<close>

definition day_number :: "ymd \<Rightarrow> int" where
  "day_number x =
     (case x of (y, m, d) \<Rightarrow>
        365 * (y - 1) + (y - 1) div 4 - (y - 1) div 100 + (y - 1) div 400 +
        sum_list (map (days_in_month y) [1..m - 1]) + d - epoch_ordinal)"

definition unasc :: "pstr \<Rightarrow> string" where
  "unasc s = map (\<lambda>c. char_of (nat c)) s"

section \<open>Persisted results\<close>

definition command_syncs :: "db \<Rightarrow> pstr \<Rightarrow> crm_sync_record list" where
  "command_syncs d m = filter (\<lambda>s. cs_request_message_id s = m) (crm_sync_records d)"

definition count_syncs :: "(crm_sync_record \<Rightarrow> bool) \<Rightarrow> crm_sync_record list \<Rightarrow> nat" where
  "count_syncs p ss = length (filter p ss)"

definition include_persisted_results :: "submission_command \<Rightarrow> submission_batch_result \<Rightarrow> db \<Rightarrow> submission_batch_result" where
  "include_persisted_results c b d =
     (let ss = command_syncs d (sc_request_message_id c); n = (\<lambda>st. count_syncs (\<lambda>s. cs_status s = st) ss)
      in if br_succeeded b > 0 \<or> br_updated b > 0 then b
         else empty_batch
           \<lparr>br_succeeded := n ''succeeded'', br_incomplete := br_incomplete b,
            br_incomplete_missing_fields := br_incomplete_missing_fields b,
            br_retrying := max (br_retrying b) (n ''retrying''), br_processing := max (br_processing b) (n ''processing''),
            br_failed_pending_review := max (br_failed_pending_review b)
              (count_syncs (\<lambda>s. cs_status s = ''failed_pending_review'' \<and> cs_failure_code s \<noteq> Some (asc ''mapping_missing'')) ss),
            br_incomplete_lead_ids := br_incomplete_lead_ids b, br_updated := br_updated b, br_unchanged := br_unchanged b,
            br_company_identity_review := br_company_identity_review b, br_mapping_missing := br_mapping_missing b,
            br_items := br_items b, br_not_submitted := br_not_submitted b\<rparr>)"

section \<open>Failures of the handler\<close>

definition count_attempt :: "string \<Rightarrow> outbox_event \<Rightarrow> outbox_event" where
  "count_attempt st e = e\<lparr>ob_attempts := ob_attempts e + 1, ob_status := st\<rparr>"

definition add_notice_once :: "notification_record \<Rightarrow> db \<Rightarrow> db" where
  "add_notice_once n d =
     (if get_notice d (nr_notification_key n) = None then d\<lparr>notification_records := tadd n (notification_records d)\<rparr> else d)"

definition reply_notice :: "pstr \<Rightarrow> submission_command \<Rightarrow> string \<Rightarrow> pstr \<Rightarrow> time \<Rightarrow> notification_record" where
  "reply_notice key c type reply now =
     (blank_notice key (sc_sales_user_id c) (sc_request_message_id c) type now)\<lparr>nr_content := Some reply\<rparr>"

definition record_command_failure ::
  "env \<Rightarrow> 'w submission_ports \<Rightarrow> time \<Rightarrow> nat \<Rightarrow> submission_command \<Rightarrow> db \<Rightarrow> (exn + pstr) \<times> db" where
  "record_command_failure env sp now i c d =
     (case get_event d i of
        None \<Rightarrow> (Inl value_exn, d)
      | Some e \<Rightarrow>
          if ob_attempts e + 1 \<le> sp_retry_count sp then (Inr q_fail_retry, upd_event i (count_attempt ''retrying'') d)
          else let m = sc_request_message_id c;
                   reply = q_fail_a @ digits_of (count_syncs (\<lambda>s. cs_status s = ''succeeded'') (command_syncs d m)) @ q_fail_b;
                   n = reply_notice (terminal_failure_notification_key_for_message env m) c ''crm_submission_summary'' reply now
               in (Inr reply, upd_event i (count_attempt ''failed_pending_review'') (add_notice_once n d)))"

definition set_event_status :: "nat \<Rightarrow> string \<Rightarrow> db \<Rightarrow> db" where
  "set_event_status i st d = upd_event i (\<lambda>e. e\<lparr>ob_status := st\<rparr>) d"

definition finish_command :: "env \<Rightarrow> time \<Rightarrow> nat \<Rightarrow> submission_command \<Rightarrow> string \<Rightarrow> string \<Rightarrow> pstr \<Rightarrow> db \<Rightarrow> db" where
  "finish_command env now i c st type reply d =
     add_notice_once (reply_notice (notification_key_for_message env (sc_request_message_id c)) c type reply now) (set_event_status i st d)"

section \<open>The leads of the last selection\<close>

definition selection_actions :: "env \<Rightarrow> pstr \<Rightarrow> db \<Rightarrow> wecom_action list" where
  "selection_actions env u d =
     sort_key (\<lambda>a. - wa_created_at a) (sort_key (\<lambda>a. - int (e_collation env (wa_id a)))
       (filter (\<lambda>a. wa_bound_actor a = u \<and>
                   wa_action_type a \<in> {''crm_batch_submission'', ''crm_company_submission_confirmation''}) (wecom_actions d)))"

definition action_groups :: "wecom_action list \<Rightarrow> (pstr \<times> wecom_action list) list" where
  "action_groups as =
     fold (\<lambda>a groups. case sget ''request_message_id'' (wa_context a) of
             None \<Rightarrow> groups
           | Some m \<Rightarrow> if m = [] then groups else dset m (the_default [] (dget m groups) @ [a]) groups) as []"

definition candidate_label :: "pyval \<Rightarrow> (pstr \<times> pstr) list \<Rightarrow> (pstr \<times> pstr) list" where
  "candidate_label x labels =
     (case x of
        PDict k \<Rightarrow>
          (case (py_get (asc ''lead_id'') k, py_or (py_get (asc ''display_text'') k) (py_get (asc ''company_name'') k)) of
             (PStr i, PStr t) \<Rightarrow> if t = [] then labels else dset i t labels
           | _ \<Rightarrow> labels)
      | _ \<Rightarrow> labels)"

definition action_labels :: "wecom_action \<Rightarrow> (pstr \<times> pstr) list \<Rightarrow> (pstr \<times> pstr) list" where
  "action_labels a labels =
     (let own = (case sget ''display_text'' (wa_context a) of
                   Some t \<Rightarrow> if t = [] then labels else dset (wa_target_id a) t labels | None \<Rightarrow> labels)
      in case py_get (asc ''candidate_leads'') (wa_context a) of PList xs \<Rightarrow> fold candidate_label xs own | _ \<Rightarrow> own)"

definition selected_of :: "wecom_action \<Rightarrow> pyval list" where
  "selected_of a =
     (if wa_action_type a = ''crm_company_submission_confirmation''
      then [case dget (asc ''selected_lead_id'') (wa_context a) of Some v \<Rightarrow> v | None \<Rightarrow> PStr (wa_target_id a)]
      else case py_get (asc ''selected_lead_ids'') (wa_context a) of PList xs \<Rightarrow> xs | _ \<Rightarrow> [])"

definition incomplete_item :: "pyval list \<Rightarrow> pyval \<Rightarrow> pstr list" where
  "incomplete_item selected x =
     (case x of
        PDict k \<Rightarrow>
          (case (py_get (asc ''status'') k, py_get (asc ''lead_id'') k) of
             (PStr st, PStr i) \<Rightarrow> if st = asc ''incomplete'' \<and> PStr i \<in> set selected then [i] else []
           | _ \<Rightarrow> [])
      | _ \<Rightarrow> [])"

definition saved_results :: "wecom_action \<Rightarrow> pyval list option" where
  "saved_results a =
     (case py_get (asc ''submission_results'') (wa_context a) of
        PList xs \<Rightarrow> if wa_status a = ''succeeded'' \<and> selected_of a \<noteq> [] then Some xs else None
      | _ \<Rightarrow> None)"

definition group_incomplete :: "wecom_action list \<Rightarrow> pstr list" where
  "group_incomplete as =
     dedup (concat (map (\<lambda>a. case saved_results a of
       None \<Rightarrow> [] | Some xs \<Rightarrow> concat (map (incomplete_item (selected_of a)) xs)) as))"

fun latest_group :: "wecom_action list list \<Rightarrow> pstr list \<times> (pstr \<times> pstr) list" where
  "latest_group [] = ([], [])"
| "latest_group (g # gs) =
     (if list_ex (\<lambda>a. saved_results a \<noteq> None) g
      then (group_incomplete g,
            fold (\<lambda>i labels. dsetdefault i q_lead labels) (group_incomplete g) (fold action_labels g []))
      else latest_group gs)"

definition latest_incomplete_submission_targets :: "env \<Rightarrow> pstr \<Rightarrow> db \<Rightarrow> pstr list \<times> (pstr \<times> pstr) list" where
  "latest_incomplete_submission_targets env u d = latest_group (map snd (action_groups (selection_actions env u d)))"

section \<open>Submitting the incomplete leads again\<close>

text \<open>
  The notice of the command keeps its targets and the result of each in its payload, as JSON written by this handler.
\<close>

definition opt_code :: "string option \<Rightarrow> pyval" where
  "opt_code x = (case x of None \<Rightarrow> PNone | Some s \<Rightarrow> PStr (asc s))"

definition code_opt :: "pyval \<Rightarrow> string option" where
  "code_opt v = (case v of PStr s \<Rightarrow> Some (unasc s) | _ \<Rightarrow> None)"

definition text_opt :: "pyval \<Rightarrow> pstr option" where
  "text_opt v = (case v of PStr s \<Rightarrow> Some s | _ \<Rightarrow> None)"

definition text_list :: "pyval \<Rightarrow> pstr list" where
  "text_list v = (case v of PList xs \<Rightarrow> concat (map (\<lambda>x. case x of PStr s \<Rightarrow> [s] | _ \<Rightarrow> []) xs) | _ \<Rightarrow> [])"

definition label_map :: "pyval \<Rightarrow> (pstr \<times> pstr) list" where
  "label_map v = (case v of PDict ls \<Rightarrow> concat (map (\<lambda>(k, x). case x of PStr s \<Rightarrow> [(k, s)] | _ \<Rightarrow> []) ls) | _ \<Rightarrow> [])"

definition item_payload :: "submission_item_result \<Rightarrow> pyval" where
  "item_payload it = PDict
     [(asc ''lead_id'', PStr (it_lead_id it)), (asc ''status'', PStr (asc (status_value (it_status it)))),
      (asc ''reason_code'', opt_code (it_reason_code it)), (asc ''missing_fields'', PList (map PStr (it_missing_fields it))),
      (asc ''failure_category'', opt_code (it_failure_category it)), (asc ''adapter_category'', opt_code (it_adapter_category it)),
      (asc ''http_status'', PNone), (asc ''failure_code'', case it_failure_code it of None \<Rightarrow> PNone | Some s \<Rightarrow> PStr s),
      (asc ''duplicate_entity_type'', PNone)]"

definition outcome_of_payload :: "pyval \<Rightarrow> create_submission_outcome option" where
  "outcome_of_payload v =
     (case v of
        PDict k \<Rightarrow>
          (case (py_get (asc ''status'') k, py_get (asc ''missing_fields'') k) of
             (PStr st, PList ms) \<Rightarrow>
               Some \<lparr>co_status = (if st = asc ''created'' then ''succeeded'' else unasc st), co_missing_fields = text_list (PList ms),
                 co_reason_code = code_opt (py_get (asc ''reason_code'') k), co_failure_category = code_opt (py_get (asc ''failure_category'') k),
                 co_adapter_category = code_opt (py_get (asc ''adapter_category'') k), co_failure_code = text_opt (py_get (asc ''failure_code'') k)\<rparr>
           | _ \<Rightarrow> None)
      | _ \<Rightarrow> None)"

definition stored_items :: "fields \<Rightarrow> (pstr \<times> pyval) list" where
  "stored_items saved =
     (case py_get (asc ''item_results'') saved of
        PList xs \<Rightarrow> fold (\<lambda>x m. case item_text ''lead_id'' x of Some i \<Rightarrow> dset i x m | None \<Rightarrow> m) xs []
      | _ \<Rightarrow> [])"

definition still_open :: "(pstr \<times> pyval) list \<Rightarrow> pstr \<Rightarrow> bool" where
  "still_open items i =
     (case dget i items of None \<Rightarrow> True | Some x \<Rightarrow> item_text ''status'' x \<in> {Some (asc ''retrying''), Some (asc ''processing'')})"

definition start_retry_notice :: "env \<Rightarrow> time \<Rightarrow> submission_command \<Rightarrow> db \<Rightarrow> notification_record \<times> db" where
  "start_retry_notice env now c d =
     (let key = notification_key_for_message env (sc_request_message_id c)
      in case get_notice d key of
           Some n \<Rightarrow> (n, d)
         | None \<Rightarrow>
             (let (targets, labels) = latest_incomplete_submission_targets env (sc_sales_user_id c) d;
                  n = (blank_notice key (sc_sales_user_id c) (sc_request_message_id c) ''crm_submission_retry_summary'' now)
                        \<lparr>nr_status := ''preparing'',
                         nr_payload := Some [(asc ''target_lead_ids'', PList (map PStr targets)),
                           (asc ''lead_labels'', PDict (map (\<lambda>(k, t). (k, PStr t)) labels))]\<rparr>
              in (n, d\<lparr>notification_records := tadd n (notification_records d)\<rparr>)))"

definition replace_first :: "pstr \<Rightarrow> pstr \<Rightarrow> pstr \<Rightarrow> pstr" where
  "replace_first old new s = (case py_partition old s of None \<Rightarrow> s | Some (a, b) \<Rightarrow> a @ new @ b)"

definition retry_reply :: "submission_batch_result \<Rightarrow> (pstr \<times> pstr) list \<Rightarrow> nat \<Rightarrow> pstr" where
  "retry_reply b labels n =
     replace_first (q_title_a @ digits_of n @ q_title_b) (q_again_a @ digits_of n @ q_title_b) (format_submission_reply b labels (Some n))"

text \<open>The work of one round: the reply, whether leads are still in work, and all results so far.\<close>

definition retry_round ::
  "env \<Rightarrow> 'w submission_ports \<Rightarrow> time \<Rightarrow> submission_command \<Rightarrow> fields \<Rightarrow> db \<Rightarrow> 'w \<Rightarrow>
   (pstr \<times> bool \<times> (pstr \<times> pyval) list, 'w) run" where
  "retry_round env sp now c saved d w =
     (let targets = text_list (py_get (asc ''target_lead_ids'') saved); labels = label_map (py_get (asc ''lead_labels'') saved);
          items = stored_items saved
      in if targets = [] then (Inr (q_no_retry, False, items), d, w)
         else if \<not> sp_crm_available sp then (Inl value_exn, d, w)
         else case submit_incomplete_retry env (sp_config sp) (sp_crm sp) (sp_directory sp) now c (filter (still_open items) targets) d w of
           (Inl e, d1, w1) \<Rightarrow> (Inl e, d1, w1)
         | (Inr b, d1, w1) \<Rightarrow>
             (let items1 = fold (\<lambda>it m. dset (it_lead_id it) (item_payload it) m) (br_items b) items
              in case all_some (map (\<lambda>i. case dget i items1 of None \<Rightarrow> None | Some x \<Rightarrow> outcome_of_payload x) targets) of
                   None \<Rightarrow> (Inl type_exn, d1, w1)
                 | Some outs \<Rightarrow>
                     (let result = foldl (\<lambda>r (i, out). append_create_result r i out) empty_batch (zip targets outs)
                      in (Inr (retry_reply result labels (length targets), br_retrying result > 0 \<or> br_processing result > 0, items1), d1, w1))))"

definition retry_chunk_key :: "env \<Rightarrow> pstr \<Rightarrow> pstr \<Rightarrow> bool \<Rightarrow> nat \<Rightarrow> pstr" where
  "retry_chunk_key env m key final index =
     (if \<not> final \<and> index = 0 then key
      else e_sha256 env (asc ''crm_submission_retry:'' @ m @ asc '':'' @ asc (if final then ''final'' else ''initial'') @ asc '':'' @ digits_of index))"

definition deliver_chunk :: "env \<Rightarrow> time \<Rightarrow> submission_command \<Rightarrow> pstr \<Rightarrow> bool \<Rightarrow> nat \<times> pstr \<Rightarrow> db \<Rightarrow> db" where
  "deliver_chunk env now c key final x d =
     (let k = retry_chunk_key env (sc_request_message_id c) key final (fst x)
      in case get_notice d k of
           None \<Rightarrow> d\<lparr>notification_records := tadd (reply_notice k c ''crm_submission_retry_summary'' (snd x) now) (notification_records d)\<rparr>
         | Some n \<Rightarrow>
             if k = key \<and> nr_status n = ''preparing''
             then upd_notice k (\<lambda>r. r\<lparr>nr_content := Some (snd x), nr_status := ''pending''\<rparr>) d else d)"

definition finish_retry ::
  "env \<Rightarrow> time \<Rightarrow> nat \<Rightarrow> submission_command \<Rightarrow> pstr \<Rightarrow> bool \<Rightarrow> (pstr \<times> pyval) list \<Rightarrow> db \<Rightarrow> (exn + pstr) \<times> db" where
  "finish_retry env now i c reply pending items d =
     (let key = notification_key_for_message env (sc_request_message_id c);
          d1 = set_event_status i (if pending then ''retrying'' else ''succeeded'') d
      in case get_notice d1 key of
           None \<Rightarrow> (Inl value_exn, d)
         | Some n \<Rightarrow>
             (let saved = the_default [] (nr_payload n);
                  final = (py_truthy (py_get (asc ''awaiting_final_result'') saved) \<and> \<not> pending);
                  chunks = split_result_notifications reply;
                  d2 = (if nr_status n = ''preparing'' \<or> final
                        then fold (deliver_chunk env now c key final) (zip [0..<length chunks] chunks) d1 else d1);
                  payload = dmerge saved [(asc ''reply'', PStr reply), (asc ''awaiting_final_result'', PBool pending),
                     (asc ''finished'', PBool (\<not> pending)), (asc ''item_results'', PList (map snd items))]
              in (Inr reply, upd_notice key (\<lambda>r. r\<lparr>nr_payload := Some payload\<rparr>) d2)))"

definition retry_incomplete_command ::
  "env \<Rightarrow> 'w submission_ports \<Rightarrow> time \<Rightarrow> nat \<Rightarrow> submission_command \<Rightarrow> db \<Rightarrow> 'w \<Rightarrow> (pstr, 'w) run" where
  "retry_incomplete_command env sp now i c d w =
     (let (n, d1) = start_retry_notice env now c d; saved = the_default [] (nr_payload n);
          failed = (\<lambda>d2 w2. case record_command_failure env sp now i c d2 of (res, d3) \<Rightarrow> (res, d3, w2))
      in if py_truthy (py_get (asc ''finished'') saved)
         then (case dget (asc ''reply'') saved of Some v \<Rightarrow> (Inr (py_str env v), d1, w) | None \<Rightarrow> failed d w)
         else case retry_round env sp now c saved d1 w of
           (Inl e, d2, w2) \<Rightarrow> failed d2 w2
         | (Inr (reply, pending, items), d2, w2) \<Rightarrow>
             (case finish_retry env now i c reply pending items d2 of (res, d3) \<Rightarrow> (res, d3, w2)))"

section \<open>The handler\<close>

definition command_of_message :: "ymd \<Rightarrow> pstr option \<Rightarrow> int option \<Rightarrow> incoming_message \<Rightarrow> submission_command" where
  "command_of_message today command_text target_date m =
     (let raw = the_default [] (im_normalized_text m);
          text = (case command_text of Some (x # xs) \<Rightarrow> x # xs | _ \<Rightarrow> the_default raw (parse_crm_submission_command today raw));
          cross = (if text = c_cross_owner then parse_cross_owner_submission_request today raw else None)
      in \<lparr>sc_text = text, sc_sales_user_id = im_sales_user_id m, sc_request_message_id = im_message_id m, sc_target_lead_id = None,
          sc_target_owner_name = map_option fst cross, sc_owner_scope_user_ids = None,
          sc_target_capture_date = (case target_date of Some n \<Rightarrow> Some n
            | None \<Rightarrow> (case cross of Some (_, Some x) \<Rightarrow> Some (day_number x) | _ \<Rightarrow> None))\<rparr>)"

definition company_of_command :: "submission_command \<Rightarrow> pstr option" where
  "company_of_command c = (if sc_text c = c_cross_owner then None else parse_company_submission_request (sc_text c))"

definition updates_command ::
  "env \<Rightarrow> 'w submission_ports \<Rightarrow> time \<Rightarrow> nat \<Rightarrow> submission_command \<Rightarrow> db \<Rightarrow> 'w \<Rightarrow> (pstr, 'w) run" where
  "updates_command env sp now i c d w =
     (case submit env (sp_config sp) (sp_crm sp) (sp_directory sp) now c None d w of
        (Inl e, d1, w1) \<Rightarrow> (case record_command_failure env sp now i c d1 of (res, d2) \<Rightarrow> (res, d2, w1))
      | (Inr b, d1, w1) \<Rightarrow>
          (let reply = format_submission_reply (include_persisted_results c b d1) [] None;
               open_left = list_ex (\<lambda>s. cs_status s \<in> {''retrying'', ''processing''}) (command_syncs d1 (sc_request_message_id c))
           in (Inr reply, finish_command env now i c (if open_left then ''retrying'' else ''succeeded'') ''crm_submission_summary'' reply d1, w1)))"

definition run_submission_command ::
  "env \<Rightarrow> 'w submission_ports \<Rightarrow> time \<Rightarrow> nat \<Rightarrow> submission_command \<Rightarrow> db \<Rightarrow> 'w \<Rightarrow> (pstr, 'w) run" where
  "run_submission_command env sp now i c d w =
     (case company_of_command c of
        Some company \<Rightarrow>
          (case prepare_company_submission_preview env sp now c company d w of
             (Inl e, d1) \<Rightarrow> (Inl e, d1, w)
           | (Inr reply, d1) \<Rightarrow> (Inr reply, finish_command env now i c ''succeeded'' ''crm_submission_preview'' reply d1, w))
      | None \<Rightarrow>
          if sc_text c = c_retry_incomplete then retry_incomplete_command env sp now i c d w
          else if \<not> sp_crm_available sp then (Inl value_exn, d, w)
          else if sc_text c \<in> set candidate_commands
          then (case prepare_batch_submission_selection env sp now c d w of
                  (Inl e, d1) \<Rightarrow> (case record_command_failure env sp now i c d1 of (res, d2) \<Rightarrow> (res, d2, w))
                | (Inr reply, d1) \<Rightarrow> (Inr reply, finish_command env now i c ''succeeded'' ''crm_submission_selection'' reply d1, w))
          else updates_command env sp now i c d w)"

definition consume_submission_command ::
  "env \<Rightarrow> 'w submission_ports \<Rightarrow> time \<Rightarrow> ymd \<Rightarrow> nat \<Rightarrow> pstr option \<Rightarrow> int option \<Rightarrow> db \<Rightarrow> 'w \<Rightarrow> (pstr, 'w) run" where
  "consume_submission_command env sp now today i command_text target_date d w =
     (case get_event d i of
        None \<Rightarrow> (Inl value_exn, d, w)
      | Some e \<Rightarrow>
          if ob_event_type e \<notin> {''crm_submission_command'', ''crm_submission_intent''} then (Inl value_exn, d, w)
          else case get_message d (ob_message_id e) of
            None \<Rightarrow> (Inl value_exn, d, w)
          | Some m \<Rightarrow> run_submission_command env sp now i (command_of_message today command_text target_date m) d w)"

end
