(* ===== verification/Submission_Frames.thy ===== *)
theory Submission_Frames
  imports Submission_Command Crm_Submit_Correct
begin

text \<open>
  What the submission service leaves alone: the message queue, the messages, and the actions. The service
  writes submissions, leads, company identities, discard requests, notices and the audit trail only.
\<close>

definition outside :: "db \<Rightarrow> outbox_event list \<times> incoming_message list \<times> wecom_action list \<times> wecom_action_outbox list" where
  "outside d = (outbox_events d, incoming_messages d, wecom_actions d, wecom_action_outboxes d)"

lemma outside_upd [simp]:
  "outside (d\<lparr>crm_sync_records := a\<rparr>) = outside d" "outside (d\<lparr>leads := b\<rparr>) = outside d"
  "outside (d\<lparr>crm_company_identities := c\<rparr>) = outside d" "outside (d\<lparr>lead_discard_requests := e\<rparr>) = outside d"
  "outside (d\<lparr>notification_records := f\<rparr>) = outside d" "outside (d\<lparr>business_audit_events := g\<rparr>) = outside d"
  "outside (d\<lparr>audit_mirrors := h\<rparr>) = outside d" "outside (d\<lparr>sales_authorizations := k\<rparr>) = outside d"
  by (simp_all add: outside_def)

lemma outside_audit [simp]: "outside (audit_once m u t x now d) = outside d"
  by (simp add: audit_once_def add_audit_event_def enqueue_audit_mirror_def Let_def)

lemma outside_command_audit [simp]: "outside (audit_command now c t x d) = outside d"
  by (simp add: audit_command_def)

section \<open>One submission\<close>

lemma outside_record_audit [simp]: "outside (record_audit_for_sync now s u t x d) = outside d"
  by (simp add: record_audit_for_sync_def)

lemma outside_enqueue [simp]: "outside (enqueue_crm_retry_result_notification env now i d) = outside d"
  by (simp add: enqueue_crm_retry_result_notification_def Let_def split: option.splits)

lemma outside_mark_unknown [simp]: "outside (mark_unknown_crm_outcome cfg now s u d) = outside d"
  by (simp add: mark_unknown_crm_outcome_def)

lemma outside_fail_identity [simp]: "outside (fail_company_identity now s u d) = outside d"
  by (simp add: fail_company_identity_def split: option.splits)

lemma outside_lead_audit [simp]: "outside (record_lead_audit l u t x now d) = outside d"
  by (simp add: record_lead_audit_def split: option.split)

lemma outside_finalize [simp]: "outside (finalize_pending_discard now s d) = outside d"
  by (simp add: finalize_pending_discard_def split: option.splits)

lemma outside_settle_identity [simp]: "outside (settle_identity now s u d) = outside d"
  by (simp add: settle_identity_def split: option.splits)

lemma outside_overrule [simp]: "outside (overrule_discard now s l d) = outside d"
  by (simp add: overrule_discard_def split: option.splits)

lemma failure_outside:
  "record_crm_failure cfg env now i u e c notify d = (out, d') \<Longrightarrow> outside d' = outside d"
  "record_crm_transport_failure cfg env now i u e c notify d = (out, d') \<Longrightarrow> outside d' = outside d"
  by (auto simp: record_crm_failure_def record_crm_transport_failure_def Let_def split: option.splits if_splits)

lemma settle_success_outside: "settle_success env now i u c r notify d = (out, d') \<Longrightarrow> outside d' = outside d"
  by (auto simp: settle_success_def Let_def split: option.splits if_splits)

lemma settle_result_outside: "settle_result cfg env now i u c notify res d = (out, d') \<Longrightarrow> outside d' = outside d"
  by (auto simp: settle_result_def split: sum.splits if_splits prod.splits dest: failure_outside settle_success_outside)

lemma claim_sync_outside [simp]: "outside (snd (claim_sync cfg env now i u notify d)) = outside d"
  by (simp add: claim_sync_def Let_def split: option.split)

lemma set_status_outside: "set_smart_table_submission_status cp now i st d w = (res, d', w') \<Longrightarrow> outside d' = outside d"
  by (auto simp: set_smart_table_submission_status_def split: option.splits prod.splits sum.splits)

lemma settle_call_outside:
  assumes "settle_call cfg env cp now i u c notify defer res d w = (out, d', w')"
  shows "outside d' = outside d"
  using assms by (auto simp: settle_call_def split: prod.splits option.splits if_splits dest!: set_status_outside settle_result_outside)

lemma claim_and_call_outside:
  assumes "claim_and_call cfg env cp now1 now2 i u notify defer d w = (out, d', w')"
  shows "outside d' = outside d"
proof -
  have "outside d1 = outside d" if "claim_sync cfg env now1 i u notify d = (x, d1)" for x d1
    using claim_sync_outside [of cfg env now1 i u notify d] that by simp
  with assms show ?thesis
    by (auto simp: claim_and_call_def split: prod.splits option.splits claim_outcome.splits dest!: settle_call_outside)
qed

section \<open>Freezing\<close>

lemma mapping_missing_outside [simp]: "outside (record_mapping_missing env now l c payload digest operation d) = outside d"
  by (simp add: record_mapping_missing_def Let_def)

lemma create_payload_outside: "create_payload env cfg cp now l c r names d w = (res, d') \<Longrightarrow> outside d' = outside d"
  by (auto simp: create_payload_def Let_def split: if_splits sum.splits payload_error.splits)

lemma reserve_identity_outside [simp]: "outside (reserve_identity name lead_id i d) = outside d"
  by (simp add: reserve_identity_def split: option.split)

lemma insert_sync_outside: "insert_sync s d = Some d' \<Longrightarrow> outside d' = outside d"
  by (auto simp: insert_sync_def split: if_splits)

lemma freeze_generation_outside:
  "freeze_generation now l c payload digest name crm_user g prev d = (res, d') \<Longrightarrow> outside d' = outside d"
  by (auto simp: freeze_generation_def Let_def split: option.splits dest: insert_sync_outside)

lemma create_freeze_outside:
  "create_freeze env cp directory now lead_id c r names payload digest name d w = (res, d') \<Longrightarrow> outside d' = outside d"
  by (auto simp: create_freeze_def Let_def split: if_splits option.splits sum.splits create_plan.splits prod.splits
      dest: freeze_generation_outside)

lemma update_freeze_outside:
  "update_freeze env cp directory now lead_id c r names latest payload d w = (res, d') \<Longrightarrow> outside d' = outside d"
  by (auto simp: update_freeze_def Let_def split: if_splits option.splits sum.splits bool.splits prod.splits
      dest: insert_sync_outside)

lemma identity_change_review_outside: "identity_change_review now c lead_id old new d = Some d' \<Longrightarrow> outside d' = outside d"
  by (auto simp: identity_change_review_def add_audit_event_def enqueue_audit_mirror_def Let_def split: option.splits if_splits)

section \<open>Creations and updates\<close>

lemma submit_create_once_outside:
  "outside (fst (snd (submit_create_once env cfg cp directory now lead_id c initial defer d w))) = outside d"
  by (auto simp: submit_create_once_def Let_def split: start_state.split option.split prod.split sum.split pyval.split
      dest!: create_payload_outside create_freeze_outside claim_and_call_outside)

lemma submit_create_outside:
  assumes "submit_create env cfg cp directory now lead_id c initial defer d w = (out, d', w')"
  shows "outside d' = outside d"
  using assms submit_create_once_outside [of env cfg cp directory now lead_id c initial "defer" d w]
  by (auto simp: submit_create_def split: prod.splits sum.splits if_splits)

lemma write_back_outside: "write_back_batch_submission_status cp now lead_ids d w = (d', w') \<Longrightarrow> outside d' = outside d"
proof -
  have "outside (foldl (\<lambda>d (i, rid). upd_lead i (project_submission_status now st) d) d rows) = outside d" for st rows
    by (induction rows arbitrary: d) auto
  then show "write_back_batch_submission_status cp now lead_ids d w = (d', w') \<Longrightarrow> ?thesis"
    by (auto simp: write_back_batch_submission_status_def Let_def split: if_splits prod.splits sum.splits)
qed

lemma submit_create_jobs_outside: "submit_create_jobs env cfg cp directory now js d w = (outs, d', w') \<Longrightarrow> outside d' = outside d"
  by (induction js arbitrary: d w outs) (force split: prod.splits dest!: submit_create_outside)+

lemma submit_create_batch_outside: "submit_create_batch env cfg cp directory now js d w = (outs, d', w') \<Longrightarrow> outside d' = outside d"
  by (auto simp: submit_create_batch_def split: if_splits prod.splits dest!: submit_create_jobs_outside write_back_outside)

lemma submit_incomplete_retry_outside:
  "submit_incomplete_retry env cfg cp directory now c selected d w = (res, d', w') \<Longrightarrow> outside d' = outside d"
  by (auto simp: submit_incomplete_retry_def Let_def split: if_splits sum.splits prod.splits dest!: submit_create_batch_outside)

lemma submit_selected_outside:
  "submit_selected env cfg cp directory now c selected initial d w = (res, d', w') \<Longrightarrow> outside d' = outside d"
  by (auto simp: submit_selected_def Let_def split: if_splits sum.splits prod.splits dest!: submit_create_batch_outside)

lemma submit_update_outside:
  "outside (fst (snd (submit_update env cfg cp directory now lead_id c r d w))) = outside d"
  by (auto simp: submit_update_def Let_def split: option.split prod.split sum.split bool.split payload_error.split
      dest!: update_freeze_outside claim_and_call_outside identity_change_review_outside)

lemma resume_updates_outside: "resume_updates env cfg cp now u xs d w = (outs, d', w') \<Longrightarrow> outside d' = outside d"
  by (induction xs arbitrary: d w outs) (force split: prod.splits dest!: claim_and_call_outside)+

lemma submit_each_update_outside: "submit_each_update env cfg cp directory now c xs d w = (outs, d', w') \<Longrightarrow> outside d' = outside d"
proof (induction xs arbitrary: d w outs)
  case (Cons x xs)
  obtain lead_id r where x: "x = (lead_id, r)" by fastforce
  obtain res d1 w1 where o: "submit_update env cfg cp directory now lead_id c r d w = (res, d1, w1)" by (rule prod_cases3)
  then have "outside d1 = outside d" using submit_update_outside [of env cfg cp directory now lead_id c r d w] by simp
  with Cons o show ?case by (auto simp: x split: prod.splits dest!: Cons.IH)
qed simp

lemma submit_updates_outside: "submit_updates env cfg cp directory now c d w = (res, d', w') \<Longrightarrow> outside d' = outside d"
  by (auto simp: submit_updates_def Let_def split: if_splits sum.splits prod.splits
      dest!: resume_updates_outside submit_each_update_outside)

lemma submit_target_outside: "submit_target env cfg cp directory now c initial d w = (res, d', w') \<Longrightarrow> outside d' = outside d"
  by (auto simp: submit_target_def Let_def split: option.splits sum.splits prod.splits if_splits dest!: submit_create_outside)

lemma submit_outside: "submit env cfg cp directory now c initial d w = (res, d', w') \<Longrightarrow> outside d' = outside d"
  by (auto simp: submit_def split: if_splits dest: submit_updates_outside submit_target_outside)

end
