(* ===== verification/Submission_Correct.thy ===== *)
theory Submission_Correct
  imports Submission_Frames
begin

text \<open>
  What the handler of submission commands guarantees: a preview submits nothing, every command it takes up is finished, retried or
  given up, and the preparation anchors each row it offers.
\<close>

section \<open>What a preview leaves alone\<close>

text \<open>The tables of the CRM service, the queue and the messages.\<close>

definition crm_side :: "db \<Rightarrow> crm_sync_record list \<times> crm_company_identity list \<times> lead_discard_request list \<times> incoming_message list" where
  "crm_side d = (crm_sync_records d, crm_company_identities d, lead_discard_requests d, incoming_messages d)"

lemma crm_side_upd [simp]:
  "crm_side (d\<lparr>leads := a\<rparr>) = crm_side d" "crm_side (d\<lparr>notification_records := b\<rparr>) = crm_side d"
  "crm_side (d\<lparr>business_audit_events := c\<rparr>) = crm_side d" "crm_side (d\<lparr>audit_mirrors := e\<rparr>) = crm_side d"
  "crm_side (d\<lparr>sales_authorizations := f\<rparr>) = crm_side d" "crm_side (d\<lparr>wecom_actions := g\<rparr>) = crm_side d"
  "crm_side (d\<lparr>outbox_events := h\<rparr>) = crm_side d"
  by (simp_all add: crm_side_def)

lemma crm_side_audit [simp]: "crm_side (audit_linked now c n d) = crm_side d"
  by (simp add: audit_linked_def audit_command_def audit_once_def add_audit_event_def enqueue_audit_mirror_def Let_def)

lemma link_existing_frame:
  assumes "link_existing_smart_table_record sp now r c u a d = Inr (x, d')"
  shows "crm_side d' = crm_side d" "outbox_events d' = outbox_events d"
  using assms by (auto simp: link_existing_smart_table_record_def register_member_def Let_def split: if_splits option.splits)

lemma link_rows_frame:
  "link_rows sp now c xs known n d = Inr (m, d') \<Longrightarrow> crm_side d' = crm_side d \<and> outbox_events d' = outbox_events d"
proof (induction xs arbitrary: known n d)
  case (Cons x xs)
  obtain r u where x: "x = (r, u)" by fastforce
  from Cons.prems show ?case
    by (auto simp: x split: option.splits if_splits sum.splits prod.splits dest!: Cons.IH dest: link_existing_frame)
qed simp

lemma audit_linked_queue [simp]: "outbox_events (audit_linked now c n d) = outbox_events d"
  by (simp add: audit_linked_def audit_command_def audit_once_def add_audit_event_def enqueue_audit_mirror_def Let_def)

lemma link_unsubmitted_frame:
  "link_unsubmitted_smart_table_records env sp now c d w = Inr (rs, d') \<Longrightarrow> crm_side d' = crm_side d \<and> outbox_events d' = outbox_events d"
  by (auto simp: link_unsubmitted_smart_table_records_def Let_def split: if_splits sum.splits list.splits prod.splits dest: link_rows_frame)

lemma link_company_rows_frame:
  "link_company_rows sp now c rs n d = Inr (m, d') \<Longrightarrow> crm_side d' = crm_side d \<and> outbox_events d' = outbox_events d"
proof (induction rs arbitrary: n d)
  case (Cons r rs)
  from Cons.prems show ?case
    by (auto split: if_splits sum.splits prod.splits dest!: Cons.IH dest: link_existing_frame)
qed simp

lemma issue_action_frame:
  assumes "issue_action env ready expiry now i t q d = Inr (a, d')"
  shows "crm_side d' = crm_side d \<and> outbox_events d' = outbox_events d"
  using assms by (auto simp: issue_action_def Let_def split: if_splits sum.splits option.splits)

lemma issue_batch_frame:
  "issue_batch_submission_action env ready expiry now i t b d = Inr (a, d') \<Longrightarrow> crm_side d' = crm_side d \<and> outbox_events d' = outbox_events d"
  by (auto simp: issue_batch_submission_action_def split: if_splits dest: issue_action_frame)

lemma issue_pages_frame:
  "issue_pages env sp now c k n ps d = (res, d') \<Longrightarrow> crm_side d' = crm_side d \<and> outbox_events d' = outbox_events d"
  by (induction ps arbitrary: k d) (auto split: sum.splits prod.splits dest!: issue_batch_frame)

lemma chain_notices_frame [simp]:
  "crm_side (chain_notices deps ks d) = crm_side d" "outbox_events (chain_notices deps ks d) = outbox_events d"
  "leads (chain_notices deps ks d) = leads d" "wecom_actions (chain_notices deps ks d) = wecom_actions d"
  by (induction ks arbitrary: deps d) simp_all

lemma table_link_frame [simp]:
  "crm_side (queue_submission_table_link env sp now c d) = crm_side d"
  "outbox_events (queue_submission_table_link env sp now c d) = outbox_events d"
  "leads (queue_submission_table_link env sp now c d) = leads d"
  "wecom_actions (queue_submission_table_link env sp now c d) = wecom_actions d"
  by (simp_all add: queue_submission_table_link_def Let_def)

lemma offer_candidates_frame:
  "offer_candidates env sp now c d w = (res, d') \<Longrightarrow> crm_side d' = crm_side d \<and> outbox_events d' = outbox_events d"
  by (auto simp: offer_candidates_def Let_def split: if_splits sum.splits prod.splits dest!: link_unsubmitted_frame issue_pages_frame)

lemma prepare_batch_frame:
  "prepare_batch_submission_selection env sp now c d w = (res, d') \<Longrightarrow> crm_side d' = crm_side d \<and> outbox_events d' = outbox_events d"
  by (auto simp: prepare_batch_submission_selection_def split: if_splits scope_result.splits dest: offer_candidates_frame)

lemma own_leads_synced_frame [simp]:
  "crm_side (own_leads_synced now u rids d) = crm_side d" "outbox_events (own_leads_synced now u rids d) = outbox_events d"
  by (simp_all add: own_leads_synced_def)

lemma issue_company_frame:
  "issue_company_submission_confirmation_action env ready expiry now i t u l m n v s x b d = Inr (a, d') \<Longrightarrow>
     crm_side d' = crm_side d \<and> outbox_events d' = outbox_events d"
  "issue_company_candidate_confirmation_action env ready expiry now i t u m n cs ss y ch b d = Inr (a, d') \<Longrightarrow>
     crm_side d' = crm_side d \<and> outbox_events d' = outbox_events d"
  by (auto simp: issue_company_submission_confirmation_action_def issue_company_candidate_confirmation_action_def
      split: if_splits option.splits dest: issue_action_frame)

lemma offer_company_frame:
  "offer_company_rows env sp now c company cm el d = (res, d') \<Longrightarrow> crm_side d' = crm_side d \<and> outbox_events d' = outbox_events d"
  by (auto simp: offer_company_rows_def Let_def split: list.splits prod.splits sum.splits if_splits dest!: issue_company_frame)

lemma prepare_company_frame:
  "prepare_company_submission_preview env sp now c company d w = (res, d') \<Longrightarrow>
     crm_side d' = crm_side d \<and> outbox_events d' = outbox_events d"
  by (auto simp: prepare_company_submission_preview_def Let_def split: if_splits sum.splits prod.splits
      dest!: link_company_rows_frame offer_company_frame)

lemma record_failure_frame: "record_command_failure env sp now i c d = (res, d') \<Longrightarrow> crm_side d' = crm_side d"
  by (auto simp: record_command_failure_def add_notice_once_def Let_def split: option.splits if_splits)

lemma finish_command_frame [simp]: "crm_side (finish_command env now i c st type reply d) = crm_side d"
  by (simp add: finish_command_def add_notice_once_def set_event_status_def)

section \<open>Every command is answered\<close>

lemma text_kinds [simp]: "c_retry_incomplete \<notin> set candidate_commands"
  by (simp add: candidate_commands_def vocab)

text \<open>
  C26. A preview submits nothing: whatever the table, the directory and the configuration answer, and even if it fails half-way, a command that asks
  for a company or for a batch leaves the submissions, the company identities, the discard requests, the messages and the remote world as
  they are; it only prepares cards, notices and anchors.
\<close>

theorem preview_submits_nothing:
  assumes "company_of_command c \<noteq> None \<or> sc_text c \<in> set candidate_commands"
    and "run_submission_command env sp now i c d w = (res, d', w')"
  shows "w' = w \<and> crm_sync_records d' = crm_sync_records d \<and> crm_company_identities d' = crm_company_identities d \<and>
    lead_discard_requests d' = lead_discard_requests d \<and> incoming_messages d' = incoming_messages d"
proof -
  have "w' = w \<and> crm_side d' = crm_side d"
    using assms text_kinds
    by (auto simp: run_submission_command_def split: option.splits if_splits prod.splits sum.splits
        dest!: prepare_company_frame prepare_batch_frame record_failure_frame)
  then show ?thesis by (simp add: crm_side_def)
qed

lemma get_event_upd: "get_event (upd_event i f d) i = map_option f (get_event d i)" if "\<And>e. ob_id (f e) = ob_id e"
  using that by (simp add: tget_tupd_same)

lemma add_notice_once_queue [simp]: "outbox_events (add_notice_once n d) = outbox_events d"
  by (simp add: add_notice_once_def)

text \<open>A command of these two kinds fails when its cards cannot be prepared or its updates cannot be submitted.\<close>

definition command_failed :: "env \<Rightarrow> 'w submission_ports \<Rightarrow> time \<Rightarrow> submission_command \<Rightarrow> db \<Rightarrow> 'w \<Rightarrow> bool" where
  "command_failed env sp now c d w =
     (if sc_text c \<in> set candidate_commands then isl (fst (prepare_batch_submission_selection env sp now c d w))
      else isl (fst (submit env (sp_config sp) (sp_crm sp) (sp_directory sp) now c None d w)))"

definition answered :: "int \<Rightarrow> bool \<Rightarrow> outbox_event \<Rightarrow> outbox_event \<Rightarrow> bool" where
  "answered retries failed e e' =
     (if failed
      then ob_attempts e' = ob_attempts e + 1 \<and>
        ob_status e' = (if ob_attempts e + 1 \<le> retries then ''retrying'' else ''failed_pending_review'')
      else ob_attempts e' = ob_attempts e \<and> ob_status e' \<in> {''succeeded'', ''retrying''})"

lemma record_failure_answers:
  assumes "record_command_failure env sp now i c d = (res, d')" and "get_event d i = Some e"
  shows "\<exists>reply e'. res = Inr reply \<and> get_event d' i = Some e' \<and> answered (sp_retry_count sp) True e e'"
  using assms
  by (auto simp: record_command_failure_def Let_def answered_def tget_tupd_same count_attempt_def add_notice_once_def split: if_splits)

lemma finish_command_answers:
  assumes "get_event d i = Some e" and "st \<in> {''succeeded'', ''retrying''}"
  shows "\<exists>e'. get_event (finish_command env now i c st type reply d) i = Some e' \<and> answered n False e e'"
  using assms by (auto simp: finish_command_def set_event_status_def tget_tupd_same answered_def)

text \<open>
  C31. No command stays in work: a command for a batch or for updates, on an event that exists, ends with a reply and with its event finished, to be
  retried, or given up. What goes wrong in it never leaves the handler: a failure, and nothing else, counts as one attempt, and the event is given
  up exactly when the attempts exceed the configured retries.
\<close>

theorem submission_command_settles:
  assumes "get_event d i = Some e" and "company_of_command c = None" and "sc_text c \<noteq> c_retry_incomplete" and "sp_crm_available sp"
    and run: "run_submission_command env sp now i c d w = (res, d', w')"
  shows "\<exists>reply e'. res = Inr reply \<and> get_event d' i = Some e' \<and> answered (sp_retry_count sp) (command_failed env sp now c d w) e e'"
proof (cases "sc_text c \<in> set candidate_commands")
  case True
  obtain r d1 where p: "prepare_batch_submission_selection env sp now c d w = (r, d1)" by fastforce
  with assms(1) have ev: "get_event d1 i = Some e" using prepare_batch_frame [OF p] by simp
  from run True assms(2,3,4) p show ?thesis
    using finish_command_answers [OF ev, of "''succeeded''"]
    by (auto simp: run_submission_command_def command_failed_def split: sum.splits prod.splits dest: record_failure_answers [OF _ ev])
next
  case False
  obtain r d1 w1 where s: "submit env (sp_config sp) (sp_crm sp) (sp_directory sp) now c None d w = (r, d1, w1)" by (rule prod_cases3)
  with assms(1) have ev: "get_event d1 i = Some e" using submit_outside [OF s] by (simp add: outside_def)
  from run False assms(2,3,4) s show ?thesis
    using finish_command_answers [OF ev, of "''succeeded''"] finish_command_answers [OF ev, of "''retrying''"]
    by (auto simp: run_submission_command_def updates_command_def command_failed_def Let_def split: sum.splits prod.splits if_splits
        dest: record_failure_answers [OF _ ev])
qed

text \<open>
  A company command that fails is not counted: when the table or the card service raises during the preview of one company, the exception leaves the
  handler and the event is as before, in work and with the same number of attempts, so that it is taken up again after
  every lease, without end, and holds up its sender's messages.
\<close>

theorem company_failure_uncounted:
  assumes "company_of_command c = Some company"
    and "prepare_company_submission_preview env sp now c company d w = (Inl e, d1)"
  shows "\<exists>d'. run_submission_command env sp now i c d w = (Inl e, d', w) \<and> outbox_events d' = outbox_events d"
  using assms prepare_company_frame [OF assms(2)] by (simp add: run_submission_command_def)

text \<open>
  Follow-ups are lost from the summary of an update command: when every submitted update was answered with a follow-up, the
  counter of follow-ups is reset before the reply is written.
\<close>

theorem followed_up_updates_uncounted:
  assumes "br_succeeded b = 0" and "br_updated b = 0"
  shows "br_followed_up (include_persisted_results c b d) = 0"
  using assms by (simp add: include_persisted_results_def empty_batch_def Let_def)

section \<open>Anchors\<close>

definition record_ids :: "db \<Rightarrow> pstr list" where
  "record_ids d = concat (map (\<lambda>l. case ld_smart_table_record_id l of None \<Rightarrow> [] | Some r \<Rightarrow> [r]) (leads d))"

definition anchors_ok :: "'w submission_ports \<Rightarrow> db \<Rightarrow> bool" where
  "anchors_ok sp d =
     (distinct (map ld_id (leads d)) \<and> distinct (record_ids d) \<and> inj (sp_new_lead_id sp) \<and>
      (\<forall>n\<ge>length (leads d). sp_new_lead_id sp n \<notin> ld_id ` set (leads d)))"

lemma find_map_same: "(\<And>x. P (f x) = P x) \<Longrightarrow> find P (map f xs) = map_option f (find P xs)"
  by (induction xs) auto

lemma lead_of_record_SomeD: "lead_of_record d rid = Some l \<Longrightarrow> l \<in> set (leads d) \<and> ld_smart_table_record_id l = Some rid"
  by (auto simp: lead_of_record_def find_Some_iff in_set_conv_nth)

lemma lead_of_record_NoneD: "lead_of_record d rid = None \<Longrightarrow> rid \<notin> set (record_ids d)"
  by (auto simp: lead_of_record_def find_None_iff record_ids_def split: option.splits)

lemma set_owner_simps [simp]:
  "ld_id (set_owner now u l) = ld_id l" "ld_smart_table_record_id (set_owner now u l) = ld_smart_table_record_id l"
  "ld_smart_table_owner_user_id (set_owner now u l) = u"
  by (auto simp: set_owner_def)

lemma reowned:
  fixes now :: time and u :: pstr
  assumes ok: "anchors_ok sp d" and found: "lead_of_record d rid = Some l"
  defines "d' \<equiv> upd_lead (ld_id l) (set_owner now u) d"
  shows "anchors_ok sp d'" "lead_of_record d' rid = Some (set_owner now u l)"
    "rid' \<noteq> rid \<Longrightarrow> lead_of_record d' rid' = lead_of_record d rid'"
proof -
  let ?f = "\<lambda>x. if ld_id x = ld_id l then set_owner now u x else x"
  have rows: "leads d' = map ?f (leads d)" by (simp add: d'_def tupd_def)
  have ids: "map ld_id (leads d') = map ld_id (leads d)" by (simp add: rows)
  moreover have "record_ids d' = record_ids d" by (simp add: record_ids_def rows comp_def if_distrib cong: if_cong)
  moreover have "length (leads d') = length (leads d)" by (simp add: rows)
  moreover have "ld_id ` set (leads d') = ld_id ` set (leads d)" using ids by (metis list.set_map)
  ultimately show "anchors_ok sp d'" using ok by (simp add: anchors_ok_def)
  have get: "lead_of_record d' x = map_option ?f (lead_of_record d x)" for x
    unfolding lead_of_record_def rows by (rule find_map_same) simp
  show "lead_of_record d' rid = Some (set_owner now u l)" by (simp add: get found)
  show "lead_of_record d' rid' = lead_of_record d rid'" if "rid' \<noteq> rid"
  proof (cases "lead_of_record d rid'")
    case (Some m)
    have "ld_id m \<noteq> ld_id l"
    proof
      assume "ld_id m = ld_id l"
      moreover have "m \<in> set (leads d)" "l \<in> set (leads d)" using Some found lead_of_record_SomeD by blast+
      moreover have "inj_on ld_id (set (leads d))" using ok by (simp add: anchors_ok_def distinct_map)
      ultimately have "m = l" by (simp add: inj_on_eq_iff)
      with lead_of_record_SomeD [OF Some] lead_of_record_SomeD [OF found] that show False by simp
    qed
    with Some show ?thesis by (simp add: get)
  qed (simp add: get)
qed

lemma anchored:
  assumes ok: "anchors_ok sp d" and new: "lead_of_record d rid = None"
    and l: "ld_id l = sp_new_lead_id sp (length (leads d))" "ld_smart_table_record_id l = Some rid"
  shows "anchors_ok sp (d\<lparr>leads := tadd l (leads d)\<rparr>)"
    "lead_of_record (d\<lparr>leads := tadd l (leads d)\<rparr>) rid' = (if rid' = rid then Some l else lead_of_record d rid')"
proof -
  have "sp_new_lead_id sp n \<noteq> ld_id l" if "n \<ge> Suc (length (leads d))" for n
    using ok that l(1) by (auto simp: anchors_ok_def inj_eq)
  then show "anchors_ok sp (d\<lparr>leads := tadd l (leads d)\<rparr>)"
    using ok l lead_of_record_NoneD [OF new] by (auto simp: anchors_ok_def record_ids_def tadd_def)
  show "lead_of_record (d\<lparr>leads := tadd l (leads d)\<rparr>) rid' = (if rid' = rid then Some l else lead_of_record d rid')"
    using new l(2) by (auto simp: lead_of_record_def tadd_def find_append split: option.splits)
qed

lemma register_member_leads [simp]: "leads (register_member now u n d) = leads d"
  by (simp add: register_member_def)

lemma anchors_ok_cong: "leads d' = leads d \<Longrightarrow> anchors_ok sp d' = anchors_ok sp d"
  "leads d' = leads d \<Longrightarrow> lead_of_record d' = lead_of_record d"
  by (auto simp: anchors_ok_def record_ids_def lead_of_record_def)

lemma link_existing_anchors:
  assumes ok: "anchors_ok sp d" and u: "u \<noteq> []"
    and run: "link_existing_smart_table_record sp now r c (Some u) True d = Inr (x, d')"
  shows "anchors_ok sp d' \<and> (\<forall>rid'. rid' \<noteq> rec_id r \<longrightarrow> lead_of_record d' rid' = lead_of_record d rid') \<and>
    (company_cell (py_get f_lead_name (rec_fields r)) \<noteq> None \<longrightarrow>
       map_option ld_smart_table_owner_user_id (lead_of_record d' (rec_id r)) = Some u)"
proof (cases "company_cell (py_get f_lead_name (rec_fields r))")
  case None
  with run ok show ?thesis by (simp add: link_existing_smart_table_record_def)
next
  case (Some company)
  define d1 where "d1 = register_member now u (dget f_owner (rec_member_names r)) d"
  have same: "leads d1 = leads d" by (simp add: d1_def)
  have ok1: "anchors_ok sp d1" using ok by (simp only: anchors_ok_cong(1) [OF same])
  have look: "lead_of_record d1 = lead_of_record d" by (rule anchors_ok_cong(2) [OF same])
  have owner: "(case Some u of Some (a # as) \<Rightarrow> a # as | _ \<Rightarrow> sc_sales_user_id c) = u" using u by (cases u) auto
  show ?thesis
  proof (cases "lead_of_record d1 (rec_id r)")
    case None
    define l where "l = anchor_lead now (sp_new_lead_id sp (length (leads d1))) u r company"
    from run Some None owner have d': "d' = d1\<lparr>leads := tadd l (leads d1)\<rparr>"
      by (auto simp: link_existing_smart_table_record_def Let_def d1_def [symmetric] l_def split: if_splits)
    have "ld_id l = sp_new_lead_id sp (length (leads d1))" "ld_smart_table_record_id l = Some (rec_id r)"
      "ld_smart_table_owner_user_id l = u" by (simp_all add: l_def anchor_lead_def Let_def)
    with anchored [OF ok1 None] show ?thesis by (simp add: d' look)
  next
    case (Some l)
    with run \<open>company_cell _ = Some company\<close> owner have d': "d' = upd_lead (ld_id l) (set_owner now u) d1"
      by (auto simp: link_existing_smart_table_record_def Let_def d1_def [symmetric])
    from reowned [OF ok1 Some, where now = now and u = u] show ?thesis by (simp add: d' look)
  qed
qed

lemma link_rows_anchors:
  assumes "anchors_ok sp d" and "distinct (map (\<lambda>x. rec_id (fst x)) xs)" and "[] \<notin> snd ` set xs"
    and "link_rows sp now c xs known n d = Inr (m, d')"
  shows "anchors_ok sp d' \<and> (\<forall>rid. rid \<notin> (\<lambda>x. rec_id (fst x)) ` set xs \<longrightarrow> lead_of_record d' rid = lead_of_record d rid) \<and>
    (\<forall>(r, u)\<in>set xs. company_cell (py_get f_lead_name (rec_fields r)) \<noteq> None \<longrightarrow>
       map_option ld_smart_table_owner_user_id (lead_of_record d' (rec_id r)) = Some u)"
  using assms
proof (induction xs arbitrary: known n d)
  case Nil
  then show ?case by simp
next
  case (Cons x xs)
  obtain r u where x: "x = (r, u)" by fastforce
  have u: "u \<noteq> []" and fresh: "rec_id r \<notin> (\<lambda>x. rec_id (fst x)) ` set xs" using Cons.prems(2,3) by (auto simp: x)
  obtain d1 known1 n1 where next_step: "link_rows sp now c xs known1 n1 d1 = Inr (m, d')"
    and ok1: "anchors_ok sp d1" and frame: "\<forall>rid. rid \<noteq> rec_id r \<longrightarrow> lead_of_record d1 rid = lead_of_record d rid"
    and own: "company_cell (py_get f_lead_name (rec_fields r)) \<noteq> None \<longrightarrow>
       map_option ld_smart_table_owner_user_id (lead_of_record d1 (rec_id r)) = Some u"
  proof (cases "link_existing_smart_table_record sp now r c (Some u) True d")
    case (Inl e)
    with Cons.prems(4) obtain l where l: "lead_of_record d (rec_id r) = Some l" and k: "u \<in> set known"
      by (auto simp: x split: option.splits if_splits)
    show ?thesis
    proof (cases "ld_smart_table_owner_user_id l = u")
      case True
      with Cons.prems(1,4) l k show ?thesis by (intro that [of known n d]) (auto simp: x)
    next
      case False
      with Cons.prems(4) l k reowned [OF Cons.prems(1) l, where now = now and u = u] show ?thesis
        by (intro that [of known "n + 1" "upd_lead (ld_id l) (set_owner now u) d"]) (auto simp: x)
    qed
  next
    case (Inr y)
    obtain a d2 where y: "y = (a, d2)" by fastforce
    note link = link_existing_anchors [OF Cons.prems(1) u Inr [unfolded y]]
    show ?thesis
    proof (cases "lead_of_record d (rec_id r)")
      case None
      with Cons.prems(4) Inr y link show ?thesis
        by (intro that [of known "if a = None then n else n + 1" d2]) (auto simp: x)
    next
      case (Some l)
      show ?thesis
      proof (cases "u \<in> set known")
        case False
        with Cons.prems(4) Some Inr y link show ?thesis by (intro that [of "u # known" "n + 1" d2]) (auto simp: x)
      next
        case True
        show ?thesis
        proof (cases "ld_smart_table_owner_user_id l = u")
          case owned: True
          with Cons.prems(1,4) Some True show ?thesis by (intro that [of known n d]) (auto simp: x)
        next
          case other: False
          with Cons.prems(4) Some True reowned [OF Cons.prems(1) Some, where now = now and u = u] show ?thesis
            by (intro that [of known "n + 1" "upd_lead (ld_id l) (set_owner now u) d"]) (auto simp: x)
        qed
      qed
    qed
  qed
  have rest: "distinct (map (\<lambda>x. rec_id (fst x)) xs)" "[] \<notin> snd ` set xs" using Cons.prems(2,3) by auto
  note step = Cons.IH [OF ok1 rest next_step]
  note ih = conjunct1 [OF step] conjunct1 [OF conjunct2 [OF step], rule_format] conjunct2 [OF conjunct2 [OF step]]
  have "lead_of_record d' (rec_id r) = lead_of_record d1 (rec_id r)" using ih(2) [OF fresh] .
  then have head: "company_cell (py_get f_lead_name (rec_fields r)) \<noteq> None \<longrightarrow>
      map_option ld_smart_table_owner_user_id (lead_of_record d' (rec_id r)) = Some u" using own by (simp only:)
  have out: "\<forall>rid. rid \<notin> (\<lambda>x. rec_id (fst x)) ` set (x # xs) \<longrightarrow> lead_of_record d' rid = lead_of_record d rid"
    using ih(2) frame by (simp add: x)
  show ?case using head ih(3) by (intro conjI ih(1) out) (simp add: x)
qed

lemma table_candidates_sound:
  "table_candidates env cp text owners names day w rs = Inr xs \<Longrightarrow> (r, u) \<in> set xs \<Longrightarrow>
     r \<in> set rs \<and> allowed_submission_status text (py_get f_submit_status (rec_fields r)) \<and>
     table_owner_user_id cp r owners names w = Inr (Some u) \<and> date_matches env day (rec_fields r)"
proof (induction rs arbitrary: xs)
  case (Cons a rs)
  then show ?case by (auto split: if_splits sum.splits option.splits)
qed simp

lemma sole_mem: "sole xs = Some x \<Longrightarrow> x \<in> set xs"
proof -
  assume "sole xs = Some x"
  then have "dedup xs = [x]" by (auto simp: sole_def split: list.splits)
  then show "x \<in> set xs" by (metis list.set_intros(1) set_dedup)
qed

lemma resolve_matches_sub: "resolve_matches resolve names raw w us = Inr ms \<Longrightarrow> set ms \<subseteq> set us"
  by (induction us arbitrary: ms) (auto split: sum.splits if_splits)

lemma table_owner_in_range: "table_owner_user_id cp r owners names w = Inr (Some u) \<Longrightarrow> u \<in> set owners"
  by (auto simp: table_owner_user_id_def Let_def split: pyval.splits if_splits sum.splits list.splits
      dest!: sole_mem resolve_matches_sub)

definition scope_of :: "submission_command \<Rightarrow> pstr list" where
  "scope_of c = (if sc_text c = c_cross_owner then the_default [] (sc_owner_scope_user_ids c) else [sc_sales_user_id c])"


section \<open>An example\<close>

text \<open>Two rows of one salesperson, of which one has a lead, and a card service that is ready.\<close>

definition listed_row :: "pstr \<Rightarrow> pstr \<Rightarrow> st_record" where
  "listed_row rid company = \<lparr>rec_id = rid,
     rec_fields = [(f_lead_name, PStr company), (f_contact, PStr (asc ''Bo'')), (f_owner, PStr (asc ''amy''))], rec_member_names = []\<rparr>"

definition example_ports :: "nat submission_ports" where
  "example_ports =
     \<lparr>sp_crm = \<lparr>cp_submit_lead = (\<lambda>p k u w. (Inl (sop_error ''transport'' None None None), w + 1)),
        cp_resolve_member = (\<lambda>u n w. Inr u), cp_get_records = (\<lambda>q w. Inr [listed_row (asc ''r1'') (asc ''ACME''), listed_row (asc ''r2'') (asc ''BETA'')]),
        cp_update_record = (\<lambda>i f w. (Inl crm_value_error, w + 1)), cp_update_records = (\<lambda>us w. (Inl crm_value_error, w + 1))\<rparr>,
      sp_config = example_config, sp_directory = Some example_directory, sp_crm_available = True, sp_search_users = (\<lambda>n w. None),
      sp_card_ready = True, sp_action_expiry = 100, sp_retry_count = 1, sp_table_url = Some (asc ''t''), sp_casefold = (\<lambda>s. s),
      sp_day_text = str_of_int, sp_new_lead_id = (\<lambda>n. 0x4E # replicate n 0x30), sp_action_id = (\<lambda>n. 0x41 # replicate n 0x30),
      sp_task_id = (\<lambda>n. 0x54 # replicate n 0x30)\<rparr>"

definition digest_env :: env where
  "digest_env = plain_env\<lparr>e_sha256 := (\<lambda>s. asc ''h'' @ digits_of (length s))\<rparr>"

definition command_event :: outbox_event where
  "command_event = \<lparr>ob_id = 1, ob_message_id = asc ''m9'', ob_sales_user_id = asc ''amy'', ob_sequence = 1,
     ob_event_type = ''crm_submission_command'', ob_status = ''processing'', ob_attempts = 0,
     ob_processing_started_at = Some 4, ob_failure_category = None, ob_failure_summary = None, ob_failed_at = None, ob_created_at = 0\<rparr>"

definition asking_db :: db where
  "asking_db = ready_db\<lparr>outbox_events := [command_event], sales_authorizations := [new_actor (asc ''amy'') (Some (asc ''Amy'')) True None 0]\<rparr>"

definition small_ports :: "nat submission_ports" where
  "small_ports = example_ports\<lparr>sp_crm := (sp_crm example_ports)\<lparr>cp_get_records := (\<lambda>q w. Inr [listed_row (asc ''r1'') (asc ''ACME'')])\<rparr>,
     sp_table_url := None\<rparr>"

lemma card_command_kind: "sc_text card_command = c_all_mine" "sc_text card_command \<in> set candidate_commands"
    "company_of_command card_command = None" "sc_text card_command \<noteq> c_retry_incomplete"
  by code_simp+

theorem preview_submits_nothing_witness:
  "snd (snd (run_submission_command digest_env example_ports 5 1 card_command asking_db 0)) = 0 \<and>
    crm_sync_records (fst (snd (run_submission_command digest_env example_ports 5 1 card_command asking_db 0))) = []"
proof -
  obtain res d' w' where run: "run_submission_command digest_env example_ports 5 1 card_command asking_db 0 = (res, d', w')"
    by (rule prod_cases3)
  from preview_submits_nothing [OF disjI2 [OF card_command_kind(2)] run] run show ?thesis
    by (simp add: asking_db_def ready_db_def empty_db_def)
qed

lemma command_event_row: "get_event asking_db 1 = Some command_event"
  by (simp add: asking_db_def ready_db_def command_event_def tget_def)

theorem submission_command_settles_witness:
  "\<exists>reply e'. fst (run_submission_command digest_env example_ports 5 1 card_command asking_db 0) = Inr reply \<and>
    get_event (fst (snd (run_submission_command digest_env example_ports 5 1 card_command asking_db 0))) 1 = Some e' \<and>
    answered 1 (command_failed digest_env example_ports 5 card_command asking_db 0) command_event e'"
proof -
  obtain res d' w' where run: "run_submission_command digest_env example_ports 5 1 card_command asking_db 0 = (res, d', w')"
    by (rule prod_cases3)
  have "sp_crm_available example_ports" "sp_retry_count example_ports = 1" by (simp_all add: example_ports_def)
  with submission_command_settles [OF command_event_row card_command_kind(3,4) _ run] run show ?thesis by simp
qed

theorem company_failure_uncounted_witness:
  "\<exists>e d'. run_submission_command digest_env (example_ports\<lparr>sp_crm := (sp_crm example_ports)\<lparr>cp_get_records := (\<lambda>q w. Inl crm_value_error)\<rparr>\<rparr>) 5 1
     (card_command\<lparr>sc_text := c_company_pre @ asc ''ACME'' @ c_company_post\<rparr>) asking_db 0 = (Inl e, d', 0) \<and> outbox_events d' = [command_event]"
proof -
  let ?sp = "example_ports\<lparr>sp_crm := (sp_crm example_ports)\<lparr>cp_get_records := (\<lambda>q w. Inl crm_value_error)\<rparr>\<rparr>"
  let ?c = "card_command\<lparr>sc_text := c_company_pre @ asc ''ACME'' @ c_company_post\<rparr>"
  have company: "company_of_command ?c = Some (asc ''ACME'')" by code_simp
  have failed: "prepare_company_submission_preview digest_env ?sp 5 ?c (asc ''ACME'') asking_db 0 = (Inl crm_value_error, asking_db)"
    by (simp add: prepare_company_submission_preview_def submission_delivery_was_prepared_def find_company_records_def asking_db_def ready_db_def empty_db_def)
  have "outbox_events asking_db = [command_event]" by (simp add: asking_db_def)
  with company_failure_uncounted [OF company failed, of 1] show ?thesis by metis
qed


end
