(* ===== verification/Submission_Offer.thy ===== *)
theory Submission_Offer
  imports Submission_Correct
begin

text \<open>
  Which leads a card of a batch offers: only leads whose row belongs to an owner in the command's range, who for other people's leads
  was resolved for an entitled sender.
\<close>

section \<open>Candidates\<close>

definition offerable ::
  "env \<Rightarrow> 'w crm_ports \<Rightarrow> pstr \<Rightarrow> pstr list \<Rightarrow> db \<Rightarrow> 'w \<Rightarrow> pstr \<Rightarrow> bool" where
  "offerable env cp text owners d w lead_id =
     (\<exists>l r u names. l \<in> set (leads d) \<and> ld_id l = lead_id \<and> ld_smart_table_record_id l = Some (rec_id r) \<and> u \<in> set owners \<and>
        table_owner_user_id cp r owners names w = Inr (Some u) \<and> allowed_submission_status text (py_get f_submit_status (rec_fields r)))"

lemma candidates_of_sound:
  "candidates_of env cp text owners names expected syncs d w rs = Inr cs \<Longrightarrow> x \<in> set cs \<Longrightarrow> offerable env cp text owners d w (sn_lead_id x)"
proof (induction rs arbitrary: cs)
  case (Cons r rs)
  obtain owner cs' where o: "table_owner_user_id cp r owners names w = Inr owner"
    and c: "candidates_of env cp text owners names expected syncs d w rs = Inr cs'"
    using Cons.prems(1) by (auto split: sum.splits)
  show ?case
  proof (cases "x \<in> set cs'")
    case True
    with c show ?thesis by (rule Cons.IH)
  next
    case False
    with Cons.prems o c obtain u l where ul: "owner = Some u" "lead_of_record d (rec_id r) = Some l" "sn_lead_id x = ld_id l"
      "allowed_submission_status text (py_get f_submit_status (rec_fields r))"
      by (auto split: option.splits if_splits)
    from o ul(1) have own: "table_owner_user_id cp r owners names w = Inr (Some u)" by simp
    from lead_of_record_SomeD [OF ul(2)] table_owner_in_range [OF own] own ul show ?thesis
      unfolding offerable_def by (intro exI [of _ l] exI [of _ r] exI [of _ u] exI [of _ names]) simp
  qed
qed simp

lemma list_submission_candidates_sound:
  assumes "list_submission_candidates env cp now text u scope date names (Some rs) d w = Inr cs" and "x \<in> set cs"
  shows "offerable env cp text (case scope of Some (a # as) \<Rightarrow> a # as | _ \<Rightarrow> [u]) d w (sn_lead_id x) \<and>
    (text = c_cross_owner \<longleftrightarrow> scope \<noteq> None) \<and> rs \<noteq> []"
  using assms by (auto simp: list_submission_candidates_def Let_def split: if_splits dest: candidates_of_sound)

section \<open>The context of a card\<close>

lemma safe_items_get: "safe_items env ctx = Inr r \<Longrightarrow>
    (case dget k ctx of None \<Rightarrow> dget k r = None | Some v \<Rightarrow> (\<exists>x. safe_value env k v = Inr x \<and> dget k r = Some x))"
  by (induction ctx arbitrary: r) (auto simp: dget_def split: sum.splits option.splits)

lemma all_some_map: "all_some (map f xs) = Some ys \<Longrightarrow> map f xs = map Some ys"
proof -
  assume "all_some (map f xs) = Some ys"
  then have none: "None \<notin> f ` set xs" and ys: "ys = map (\<lambda>x. the (f x)) xs" by (auto simp: all_some_def split: if_splits)
  have "f x = Some (the (f x))" if "x \<in> set xs" for x using none that by (cases "f x") force+
  then show "map f xs = map Some ys" by (simp add: ys)
qed

lemma safe_page_candidate:
  "safe_lead_item env True (PDict (page_candidate x)) = Some y \<Longrightarrow> item_text ''lead_id'' y = Some (sn_lead_id x)"
  by (auto simp: safe_lead_item_def page_candidate_def sget_def py_get_def dget_def item_text_def Let_def has_keys_def split: if_splits)

lemma context_lead_ids_sub:
  assumes "i \<in> set (context_lead_ids (PList ys))"
  shows "Some i \<in> item_text ''lead_id'' ` set ys"
proof -
  from assms have "all_some (map (item_text ''lead_id'') ys) = Some (context_lead_ids (PList ys))"
    by (cases "all_some (map (item_text ''lead_id'') ys)") (auto simp: context_lead_ids_def split: if_splits)
  then have "map (item_text ''lead_id'') ys = map Some (context_lead_ids (PList ys))" by (rule all_some_map)
  with assms show ?thesis by (metis imageI list.set_map)
qed

definition batch_context :: "env \<Rightarrow> submission_command \<Rightarrow> submission_candidate list \<Rightarrow> fields \<Rightarrow> bool" where
  "batch_context env c page ctx =
     (\<exists>number n chunks. safe_context env (aq_context (batch_submission_request env (batch_page_request c number n page chunks))) = Inr ctx)"

lemma batch_context_leads:
  assumes "batch_context env c page ctx"
  shows "set (context_lead_ids (py_get (asc ''candidate_leads'') ctx)) \<subseteq> sn_lead_id ` set page"
proof -
  from assms obtain number n chunks where
    ctx: "safe_context env (aq_context (batch_submission_request env (batch_page_request c number n page chunks))) = Inr ctx"
    by (auto simp: batch_context_def)
  let ?raw = "aq_context (batch_submission_request env (batch_page_request c number n page chunks))"
  have "dget (asc ''candidate_leads'') ?raw = Some (PList (map PDict (map page_candidate page)))"
    by (simp add: batch_submission_request_def batch_page_request_def Let_def dget_def)
  moreover from ctx have "safe_items env ?raw = Inr ctx" by (simp add: safe_context_def split: if_splits)
  ultimately obtain v where v: "safe_value env (asc ''candidate_leads'') (PList (map PDict (map page_candidate page))) = Inr v"
    and get: "py_get (asc ''candidate_leads'') ctx = v"
    using safe_items_get [of env ?raw ctx "asc ''candidate_leads''"] by (auto simp: py_get_def)
  from v obtain ys where "all_some (map (safe_lead_item env True) (map PDict (map page_candidate page))) = Some ys" and vy: "v = PList ys"
    by (auto simp: safe_value_def safe_list_value_def context_error_def Let_def split: if_splits option.splits)
  then have items: "map (\<lambda>x. safe_lead_item env True (PDict (page_candidate x))) page = map Some ys"
    using all_some_map by (fastforce simp: comp_def)
  show ?thesis
  proof
    fix i assume "i \<in> set (context_lead_ids (py_get (asc ''candidate_leads'') ctx))"
    then obtain y where y: "y \<in> set ys" "item_text ''lead_id'' y = Some i" using context_lead_ids_sub by (fastforce simp: get vy)
    then have "Some y \<in> set (map (\<lambda>x. safe_lead_item env True (PDict (page_candidate x))) page)" by (simp add: items)
    then obtain x where "x \<in> set page" "safe_lead_item env True (PDict (page_candidate x)) = Some y" by auto
    with safe_page_candidate y(2) show "i \<in> sn_lead_id ` set page" by fastforce
  qed
qed

section \<open>Issuing the pages\<close>

lemma issue_action_new:
  assumes "issue_action env ready expiry now i t q d = Inr (b, d')"
  shows "leads d' = leads d" and "a \<in> set (wecom_actions d') \<Longrightarrow> a \<notin> set (wecom_actions d) \<Longrightarrow>
    wa_bound_actor a = aq_actor_user_id q \<and> safe_context env (aq_context q) = Inr (wa_context a)"
  using assms by (auto simp: issue_action_def Let_def new_action_def split: if_splits sum.splits option.splits)

lemma issue_batch_new:
  assumes "issue_batch_submission_action env ready expiry now i t (batch_page_request c number n page chunks) d = Inr (b, d')"
  shows "leads d' = leads d" and "a \<in> set (wecom_actions d') \<Longrightarrow> a \<notin> set (wecom_actions d) \<Longrightarrow>
    wa_bound_actor a = sc_sales_user_id c \<and> batch_context env c page (wa_context a)"
proof -
  let ?q = "batch_submission_request env (batch_page_request c number n page chunks)"
  from assms have issued: "issue_action env ready expiry now i t ?q d = Inr (b, d')"
    unfolding issue_batch_submission_action_def by (simp split: if_split_asm)
  show "leads d' = leads d" by (rule issue_action_new(1) [OF issued])
  have actor: "aq_actor_user_id ?q = sc_sales_user_id c"
    by (simp add: batch_submission_request_def batch_page_request_def Let_def)
  assume "a \<in> set (wecom_actions d')" "a \<notin> set (wecom_actions d)"
  from issue_action_new(2) [OF issued this] show "wa_bound_actor a = sc_sales_user_id c \<and> batch_context env c page (wa_context a)"
    unfolding batch_context_def actor by blast
qed

lemma issue_pages_new:
  assumes "issue_pages env sp now c k n ps d = (res, d')"
  shows "leads d' = leads d" and "a \<in> set (wecom_actions d') \<Longrightarrow> a \<notin> set (wecom_actions d) \<Longrightarrow>
    wa_bound_actor a = sc_sales_user_id c \<and> (\<exists>page\<in>set ps. batch_context env c page (wa_context a))"
  using assms
proof (induction ps arbitrary: k d)
  case Nil
  { case 1 then show ?case by simp }
  { case 2 then show ?case by simp }
next
  case (Cons p ps)
  { case 1
    then show ?case by (auto split: sum.splits prod.splits dest!: Cons.IH(1) issue_batch_new(1)) }
  { case 2
    show ?case
    proof (cases "build_batch_submission_markdown env (map page_candidate p) k n True")
      case (Inl e)
      with 2 show ?thesis by simp
    next
      case (Inr chunks)
      let ?i = "sp_action_id sp (length (wecom_actions d))" and ?t = "sp_task_id sp (length (wecom_actions d))"
      show ?thesis
      proof (cases "issue_batch_submission_action env (sp_card_ready sp) (sp_action_expiry sp) now ?i ?t (batch_page_request c k n p chunks) d")
        case (Inl e)
        with 2 Inr show ?thesis by simp
      next
        case issued: (Inr y)
        obtain b d1 where y: "y = (b, d1)" by fastforce
        with 2(3) Inr issued have rest: "issue_pages env sp now c (k + 1) n ps d1 = (res, d')" by simp
        show ?thesis
        proof (cases "a \<in> set (wecom_actions d1)")
          case True
          with issue_batch_new(2) [OF issued [unfolded y] True 2(2)] show ?thesis by simp
        next
          case False
          with Cons.IH(2) [OF 2(1) False rest] show ?thesis by auto
        qed
      qed
    qed }
qed

lemma pages_of_mem: "p \<in> set (pages_of k m xs) \<Longrightarrow> set p \<subseteq> set xs"
  by (induction k m xs rule: pages_of.induct) (auto split: if_splits dest: in_set_takeD in_set_dropD)

section \<open>The range of a command\<close>

text \<open>Whose leads the command may offer: the sender's, or for other people's leads those the directory and the sender's rights allow.\<close>

definition offered_owners :: "'w submission_ports \<Rightarrow> submission_command \<Rightarrow> db \<Rightarrow> 'w \<Rightarrow> pstr list" where
  "offered_owners sp c d w =
     (if sc_text c \<noteq> c_cross_owner then [sc_sales_user_id c]
      else case resolve_cross_owner_submission_scope sp c d w of
        Scope_Refused _ \<Rightarrow> []
      | Scope_Of s \<Rightarrow> the_default [] (sc_owner_scope_user_ids s))"

lemma scope_needs_right:
  assumes "resolve_cross_owner_submission_scope sp c d w = Scope_Of s"
  shows "may_submit_for_others (sp_crm sp) d (sc_sales_user_id c) w" "sc_text s = sc_text c" "sc_sales_user_id s = sc_sales_user_id c"
  using assms by (auto simp: resolve_cross_owner_submission_scope_def split: option.splits if_splits member_lookup.splits)

lemma audit_linked_leads [simp]: "leads (audit_linked now c n d) = leads d" "wecom_actions (audit_linked now c n d) = wecom_actions d"
  by (simp_all add: audit_linked_def audit_command_def audit_once_def add_audit_event_def enqueue_audit_mirror_def Let_def)

lemma link_existing_actions:
  "link_existing_smart_table_record sp now r c u b d = Inr (x, d') \<Longrightarrow> wecom_actions d' = wecom_actions d"
  by (auto simp: link_existing_smart_table_record_def register_member_def Let_def split: if_splits option.splits)

lemma link_rows_actions: "link_rows sp now c xs known n d = Inr (m, d') \<Longrightarrow> wecom_actions d' = wecom_actions d"
proof (induction xs arbitrary: known n d)
  case (Cons x xs)
  obtain r u where x: "x = (r, u)" by fastforce
  from Cons.prems show ?case
    by (auto simp: x split: option.splits if_splits sum.splits prod.splits dest!: Cons.IH dest: link_existing_actions)
qed simp

lemma link_unsubmitted_actions:
  "link_unsubmitted_smart_table_records env sp now c d w = Inr (rs, d') \<Longrightarrow> wecom_actions d' = wecom_actions d"
  by (auto simp: link_unsubmitted_smart_table_records_def Let_def split: if_splits sum.splits list.splits prod.splits dest: link_rows_actions)

lemma link_unsubmitted_no_scope:
  "link_unsubmitted_smart_table_records env sp now c d w = Inr (rs, d') \<Longrightarrow> sc_text c = c_cross_owner \<Longrightarrow>
     sc_owner_scope_user_ids c = Some [] \<Longrightarrow> rs = []"
  by (simp add: link_unsubmitted_smart_table_records_def Let_def)

lemma offerable_cong: "leads d' = leads d \<Longrightarrow> offerable env cp text owners d' w i = offerable env cp text owners d w i"
  by (simp add: offerable_def)

lemma offer_candidates_new:
  assumes cmd: "sc_text c \<in> set candidate_commands" and run: "offer_candidates env sp now c d w = (res, d')"
    and new: "a \<in> set (wecom_actions d')" "a \<notin> set (wecom_actions d)"
  shows "wa_bound_actor a = sc_sales_user_id c \<and>
    (\<forall>i\<in>set (context_lead_ids (py_get (asc ''candidate_leads'') (wa_context a))).
       offerable env (sp_crm sp) (sc_text c) (scope_of c) d' w i)"
proof (cases "link_unsubmitted_smart_table_records env sp now c d w")
  case (Inl e)
  with run new cmd show ?thesis by (simp add: offer_candidates_def)
next
  case (Inr y)
  obtain rs d1 where y: "y = (rs, d1)" by fastforce
  note link = Inr [unfolded y]
  let ?cs = "list_submission_candidates env (sp_crm sp) now (sc_text c) (sc_sales_user_id c) (sc_owner_scope_user_ids c)
     (sc_target_capture_date c) (given_owner_names c) (Some rs) d1 w"
  have same: "wecom_actions d1 = wecom_actions d" by (rule link_unsubmitted_actions [OF link])
  obtain cs where cs: "?cs = Inr cs"
    using run new cmd link same by (cases ?cs) (auto simp: offer_candidates_def)
  let ?pages = "pages_of (length cs) 19 cs"
  obtain r d2 where pages: "issue_pages env sp now c 1 (int (length ?pages)) ?pages d1 = (r, d2)" by fastforce
  have acts: "wecom_actions d' = wecom_actions d2 \<and> leads d' = leads d2 \<or> d' = d1"
    using run cmd link cs pages by (auto simp: offer_candidates_def Let_def split: if_splits sum.splits)
  with new same have in2: "a \<in> set (wecom_actions d2)" "a \<notin> set (wecom_actions d1)" and leads: "leads d' = leads d1"
    using issue_pages_new(1) [OF pages] by auto
  from issue_pages_new(2) [OF pages in2] obtain page where actor: "wa_bound_actor a = sc_sales_user_id c"
    and page: "page \<in> set ?pages" "batch_context env c page (wa_context a)" by blast
  have "offerable env (sp_crm sp) (sc_text c) (scope_of c) d' w i"
    if "i \<in> set (context_lead_ids (py_get (asc ''candidate_leads'') (wa_context a)))" for i
  proof -
    from batch_context_leads [OF page(2)] that obtain x where x: "x \<in> set page" "i = sn_lead_id x" by blast
    with pages_of_mem [OF page(1)] have "x \<in> set cs" by blast
    note sound = list_submission_candidates_sound [OF cs this]
    have "(case sc_owner_scope_user_ids c of Some (a # as) \<Rightarrow> a # as | _ \<Rightarrow> [sc_sales_user_id c]) = scope_of c"
      using sound link_unsubmitted_no_scope [OF link] by (auto simp: scope_of_def split: option.splits list.splits)
    with sound x(2) show ?thesis by (simp add: offerable_cong [OF leads])
  qed
  with actor show ?thesis by blast
qed



end
