(* ===== verification/Submission_Delivery.thy ===== *)
theory Submission_Delivery
  imports Submission_Correct Outbound
begin

text \<open>
  The composition of the preparation of a command with the sender of notices: the chain of dependencies that completes a
  preparation, read by the sender, brings all previews to the salesperson before the first card, and the cards before the link to the table.
\<close>

section \<open>The chain\<close>

lemma chained_notice_key [simp]: "nr_notification_key (chained_notice deps n) = nr_notification_key n"
  by (simp add: chained_notice_def)

lemma chain_other: "k \<notin> set ks \<Longrightarrow> get_notice (chain_notices deps ks d) k = get_notice d k"
  by (induction ks arbitrary: deps d) (simp_all add: tget_tupd_other)

lemma chain_row:
  "distinct ks \<Longrightarrow> j < length ks \<Longrightarrow> get_notice (chain_notices deps ks d) (ks ! j) =
     map_option (chained_notice (if j = 0 then deps else [ks ! (j - 1)])) (get_notice d (ks ! j))"
proof (induction ks arbitrary: deps d j)
  case (Cons k ks)
  show ?case
  proof (cases j)
    case 0
    with Cons.prems show ?thesis by (simp add: chain_other tget_tupd_same)
  next
    case (Suc i)
    with Cons.prems have i: "i < length ks" "ks ! i \<noteq> k" by auto
    with Cons.IH [of i "[k]" "upd_notice k (chained_notice deps) d"] Cons.prems Suc
    show ?thesis by (cases i) (simp_all add: tget_tupd_other)
  qed
qed simp

lemma chained_depends: "nr_payload (chained_notice deps n) = Some p \<Longrightarrow> dget (asc ''depends_on'') p = Some (PList (map PStr deps))"
  by (auto simp: chained_notice_def)

section \<open>Waiting\<close>

definition has_arrived :: "db \<Rightarrow> pstr \<Rightarrow> bool" where
  "has_arrived d k = (case get_notice d k of None \<Rightarrow> False | Some n \<Rightarrow> nr_status n = ''succeeded'')"

definition waits_for :: "db \<Rightarrow> pstr \<Rightarrow> pstr \<Rightarrow> bool" where
  "waits_for d b a =
     (case get_notice d b of
        None \<Rightarrow> False
      | Some n \<Rightarrow>
          (case nr_payload n of None \<Rightarrow> False | Some p \<Rightarrow> dget (asc ''depends_on'') p = Some (PList [PStr a])) \<and>
          (nr_status n = ''succeeded'' \<longrightarrow> has_arrived d a))"

text \<open>What the sender does to one row.\<close>

definition same_dependencies :: "notification_record \<Rightarrow> notification_record \<Rightarrow> bool" where
  "same_dependencies n n' = (\<forall>p a. nr_payload n = Some p \<and> dget (asc ''depends_on'') p = Some a \<longrightarrow>
     (\<exists>p'. nr_payload n' = Some p' \<and> dget (asc ''depends_on'') p' = Some a))"

lemma row_operations [simp]:
  "same_dependencies n n" "same_dependencies n (claim_notice now tk n)" "same_dependencies n (suppress_notice n)"
  by (simp_all add: same_dependencies_def claim_notice_def suppress_notice_def release_notice_def)

lemma settle_dependencies: "same_dependencies n (settle_notice tk out n)"
  by (cases out) (auto simp: same_dependencies_def settle_notice_def suppress_notice_def release_notice_def)

lemma same_dependencies_trans: "same_dependencies n m \<Longrightarrow> same_dependencies m k \<Longrightarrow> same_dependencies n k"
  unfolding same_dependencies_def by meson

lemma notice_ops_key [simp]:
  "nr_notification_key (claim_notice now tk n) = nr_notification_key n" "nr_notification_key (suppress_notice n) = nr_notification_key n"
  "nr_notification_key (settle_notice tk out n) = nr_notification_key n"
  by (auto simp: claim_notice_def suppress_notice_def release_notice_def settle_notice_def split: send_outcome.split)

lemma claim_pending_cases:
  assumes "claim_pending env s now tk k d = Inr (c, d1)" and "get_notice d k = Some n"
  shows "(c = None \<and> (d1 = d \<or> d1 = upd_notice k suppress_notice d)) \<or>
    (c \<noteq> None \<and> d1 = upd_notice k (claim_notice now tk) d \<and> delivery_blocked d n = Inr False)"
  using assms by (auto simp: claim_pending_def split: if_splits sum.splits bool.splits)

lemma send_one_row:
  assumes quiet: "quiet_client client" and one: "send_one env s client now tk m d w = (r, d', w')" and row: "get_notice d k = Some n"
  shows "get_notice d' k = Some n \<or>
    (k = nr_notification_key m \<and> (\<exists>n'. get_notice d' k = Some n' \<and> same_dependencies n n' \<and>
       (nr_status n' = ''succeeded'' \<longrightarrow> delivery_blocked d n = Inr False)) \<and> (\<forall>j. j \<noteq> k \<longrightarrow> get_notice d' j = get_notice d j))"
proof (cases "k = nr_notification_key m")
  case False
  show ?thesis
  proof (cases "claim_pending env s now tk (nr_notification_key m) d")
    case (Inl e)
    with one row show ?thesis by (simp add: send_one_def)
  next
    case (Inr cd)
    obtain c d1 where cd: "cd = (c, d1)" by (cases cd)
    with False Inr row have d1: "get_notice d1 k = Some n" using claim_pending_other [of env s now tk _ d c d1 k] by simp
    have "d' = d1 \<or> (\<exists>out. d' = upd_notice (nr_notification_key m) (settle_notice tk out) d1)"
      using one Inr cd by (auto simp: send_one_def Let_def dest!: quiet_clientD [OF quiet] split: option.splits sum.splits prod.splits)
    with d1 False show ?thesis by (auto simp: tget_tupd_other)
  qed
next
  case True
  show ?thesis
  proof (cases "claim_pending env s now tk (nr_notification_key m) d")
    case (Inl e)
    with one row show ?thesis by (simp add: send_one_def)
  next
    case (Inr cd)
    obtain c d1 where cd: "cd = (c, d1)" by (cases cd)
    from claim_pending_cases [OF Inr [unfolded cd] row [unfolded True]] show ?thesis
    proof (elim disjE conjE)
      assume "c = None" "d1 = d"
      with one Inr cd row show ?thesis by (simp add: send_one_def)
    next
      assume "c = None" "d1 = upd_notice (nr_notification_key m) suppress_notice d"
      with one Inr cd row True show ?thesis
        by (auto simp: send_one_def tget_tupd_same tget_tupd_other suppress_notice_def release_notice_def same_dependencies_def)
    next
      assume c: "c \<noteq> None" and d1: "d1 = upd_notice (nr_notification_key m) (claim_notice now tk) d" and free: "delivery_blocked d n = Inr False"
      have "\<exists>out. d' = upd_notice (nr_notification_key m) (settle_notice tk out) d1"
        using one Inr cd c by (auto simp: send_one_def Let_def dest!: quiet_clientD [OF quiet] split: option.splits sum.splits prod.splits)
      then obtain out where d': "d' = upd_notice (nr_notification_key m) (settle_notice tk out) d1" by blast
      have "same_dependencies n (settle_notice tk out (claim_notice now tk n))"
        using settle_dependencies row_operations(2) same_dependencies_trans by blast
      with free row True show ?thesis by (simp add: d' d1 tget_tupd_same tget_tupd_other)
    qed
  qed
qed

lemma unblocked_arrived:
  assumes "delivery_blocked d n = Inr False" and "nr_payload n = Some p" and "dget (asc ''depends_on'') p = Some (PList [PStr a])"
  shows "has_arrived d a"
  using assms by (auto simp: delivery_blocked_def iter_values_def Let_def has_arrived_def split: if_splits option.splits)

lemma send_one_keeps_arrived:
  assumes "quiet_client client" and "has_arrived d k" and "send_one env s client now tk m d w = (r, d', w')"
  shows "has_arrived d' k"
proof -
  from assms(2) obtain n where n: "get_notice d k = Some n" "nr_status n = ''succeeded''" by (auto simp: has_arrived_def split: option.splits)
  then have "settled_status (nr_status n)" by (simp add: settled_status_def)
  from send_one_keeps_settled [OF assms(1) n(1) this assms(3)] n(2) show ?thesis by (simp add: has_arrived_def)
qed

lemma send_one_keeps_waiting:
  assumes quiet: "quiet_client client" and w: "waits_for d b a" and one: "send_one env s client now tk m d w = (r, d', w')" and "a \<noteq> b"
  shows "waits_for d' b a"
proof -
  from w obtain n p where n: "get_notice d b = Some n" "nr_payload n = Some p" "dget (asc ''depends_on'') p = Some (PList [PStr a])"
    "nr_status n = ''succeeded'' \<longrightarrow> has_arrived d a" by (auto simp: waits_for_def split: option.splits)
  from send_one_row [OF quiet one n(1)] show ?thesis
  proof (elim disjE conjE exE)
    assume same: "get_notice d' b = Some n"
    have "has_arrived d a \<longrightarrow> has_arrived d' a" using send_one_keeps_arrived [OF quiet _ one] by blast
    with same n show ?thesis by (simp add: waits_for_def)
  next
    fix n' assume n': "get_notice d' b = Some n'" "same_dependencies n n'" "nr_status n' = ''succeeded'' \<longrightarrow> delivery_blocked d n = Inr False"
      and others: "\<forall>j. j \<noteq> b \<longrightarrow> get_notice d' j = get_notice d j"
    from n'(2) n(2,3) obtain p' where p': "nr_payload n' = Some p'" "dget (asc ''depends_on'') p' = Some (PList [PStr a])"
      by (auto simp: same_dependencies_def)
    have "has_arrived d' a" if "nr_status n' = ''succeeded''"
    proof -
      have "has_arrived d a" using unblocked_arrived [OF _ n(2,3)] n'(3) that by blast
      with others \<open>a \<noteq> b\<close> show ?thesis by (simp add: has_arrived_def)
    qed
    with n'(1) p' show ?thesis by (simp add: waits_for_def)
  qed
qed

section \<open>Passes of the sender\<close>

definition waiting_chain :: "db \<Rightarrow> pstr list \<Rightarrow> bool" where
  "waiting_chain d ks = (distinct ks \<and> (\<forall>j. Suc j < length ks \<longrightarrow> waits_for d (ks ! Suc j) (ks ! j)))"

lemma send_one_keeps_chain:
  assumes "quiet_client client" and "waiting_chain d ks" and "send_one env s client now tk m d w = (r, d', w')"
  shows "waiting_chain d' ks"
  using assms(2) send_one_keeps_waiting [OF assms(1) _ assms(3)]
  by (simp add: waiting_chain_def distinct_conv_nth)

lemma send_all_keeps_chain:
  assumes "quiet_client client"
  shows "waiting_chain d ks \<Longrightarrow> waiting_chain (fst (snd (send_all env s client now tok ns d w))) ks"
proof (induction ns arbitrary: d w)
  case (Cons n ns)
  obtain x d1 w1 where one: "send_one env s client now (tok (nr_notification_key n)) n d w = (x, d1, w1)" by (metis prod_cases3)
  obtain y d2 w2 where rest: "send_all env s client now tok ns d1 w1 = (y, d2, w2)" by (metis prod_cases3)
  have "waiting_chain d1 ks" by (rule send_one_keeps_chain [OF assms Cons.prems one])
  with Cons.IH [of d1 w1] one rest show ?case by (simp split: sum.split)
qed simp

definition passes :: "env \<Rightarrow> settings \<Rightarrow> 'w message_client \<Rightarrow> (time \<times> (pstr \<Rightarrow> pstr)) list \<Rightarrow> db \<times> 'w \<Rightarrow> db \<times> 'w" where
  "passes env s client ts x = fold (\<lambda>(now, tok) (d, w). snd (send_pending_once env s client now tok d w)) ts x"

lemma passes_keep_chain:
  assumes "quiet_client client" and "waiting_chain d ks"
  shows "waiting_chain (fst (passes env s client ts (d, w))) ks"
  using assms(2)
proof (induction ts arbitrary: d w)
  case (Cons t ts)
  obtain now tok where t: "t = (now, tok)" by fastforce
  obtain d1 w1 where one: "snd (send_pending_once env s client now tok d w) = (d1, w1)" by fastforce
  have "waiting_chain d1 ks"
    using send_all_keeps_chain [OF assms(1) Cons.prems, of env s now tok "pending_notices env now d" w] one
    by (simp add: send_pending_once_def)
  from Cons.IH [OF this, of w1] one show ?case by (simp add: passes_def t)
qed (simp add: passes_def)

lemma chain_arrives_in_order:
  assumes "waiting_chain d ks" and "i \<le> j" and "j < length ks" and "has_arrived d (ks ! j)"
  shows "has_arrived d (ks ! i)"
  using assms(2-4)
proof (induction j)
  case (Suc j)
  show ?case
  proof (cases "i = Suc j")
    case False
    have "waits_for d (ks ! Suc j) (ks ! j)" using assms(1) Suc.prems(2) by (simp add: waiting_chain_def)
    with Suc.prems(3) have "has_arrived d (ks ! j)" by (auto simp: waits_for_def has_arrived_def split: option.splits)
    with Suc.IH False Suc.prems show ?thesis by simp
  qed (use Suc.prems in simp)
qed simp

section \<open>A prepared command\<close>

definition command_keys :: "env \<Rightarrow> submission_command \<Rightarrow> db \<Rightarrow> pstr list" where
  "command_keys env c d = map nr_notification_key (ordered_notices env c d)"

lemma set_ordered: "set (ordered_notices env c d) =
    {n \<in> set (notification_records d). submission_notice c [''wecom_action_preview'', ''wecom_action_card''] n}"
  by (auto simp: ordered_notices_def)

lemma command_keys_distinct:
  assumes "distinct (map nr_notification_key (notification_records d))"
  shows "distinct (command_keys env c d)"
proof -
  have "distinct (ordered_notices env c d)" using assms by (simp add: ordered_notices_def distinct_map)
  moreover have "inj_on nr_notification_key (set (ordered_notices env c d))"
    using assms by (auto simp: set_ordered distinct_map intro: inj_on_subset)
  ultimately show ?thesis by (simp add: command_keys_def distinct_map)
qed

lemma queue_link_rows:
  assumes "k \<in> set (command_keys env c d)" and "distinct (map nr_notification_key (notification_records d))"
  shows "get_notice (queue_submission_table_link env sp now c d) k = get_notice (chain_notices [] (command_keys env c d) d) k"
proof -
  have "get_notice (chain_notices [] (command_keys env c d) d) k \<noteq> None"
  proof -
    from assms(1) obtain j where j: "j < length (command_keys env c d)" "k = command_keys env c d ! j" by (auto simp: in_set_conv_nth)
    from assms(1) obtain n where "n \<in> set (notification_records d)" "nr_notification_key n = k"
      by (auto simp: command_keys_def set_ordered)
    then have "get_notice d k \<noteq> None" by (metis imageI tget_None_iff)
    with chain_row [OF command_keys_distinct [OF assms(2)] j(1)] j(2) show ?thesis by simp
  qed
  moreover have "command_keys env c d \<noteq> []" using assms(1) by auto
  ultimately show ?thesis
    by (auto simp: queue_submission_table_link_def Let_def command_keys_def [symmetric] split: option.splits)
qed

lemma prepared_chain:
  assumes dist: "distinct (map nr_notification_key (notification_records d))"
    and fresh: "\<forall>n\<in>set (ordered_notices env c d). nr_status n \<noteq> ''succeeded''"
  shows "waiting_chain (queue_submission_table_link env sp now c d) (command_keys env c d)"
  unfolding waiting_chain_def
proof (intro conjI allI impI)
  let ?ks = "command_keys env c d" and ?d = "queue_submission_table_link env sp now c d"
  show ks: "distinct ?ks" by (rule command_keys_distinct [OF dist])
  fix j assume j: "Suc j < length ?ks"
  let ?k = "?ks ! Suc j"
  have mem: "?k \<in> set ?ks" using j by simp
  have len: "Suc j < length (ordered_notices env c d)" using j by (simp add: command_keys_def)
  let ?n = "ordered_notices env c d ! Suc j"
  have n: "?n \<in> set (ordered_notices env c d)" "nr_notification_key ?n = ?k" using len by (simp_all add: command_keys_def)
  then have "?n \<in> set (notification_records d)" by (simp add: set_ordered)
  from tget_unique [OF dist this] have get: "get_notice d ?k = Some ?n" by (simp only: n(2))
  with queue_link_rows [OF mem dist] chain_row [OF ks j]
  have row: "get_notice ?d ?k = Some (chained_notice [?ks ! j] ?n)" by simp
  obtain p where p: "nr_payload (chained_notice [?ks ! j] ?n) = Some p" by (simp add: chained_notice_def)
  have "nr_status (chained_notice [?ks ! j] ?n) \<noteq> ''succeeded''" using fresh n(1) by (simp add: chained_notice_def)
  with row p chained_depends [OF p] show "waits_for ?d ?k (?ks ! j)" by (simp add: waits_for_def)
qed

lemma sorted_flag_last:
  assumes "i < length xs" "j < length xs" and "\<not> P (sort_key P xs ! i)" and "P (sort_key P xs ! j)"
  shows "i < j"
proof (rule ccontr)
  assume "\<not> i < j"
  then have "j \<le> i" by simp
  moreover have "sorted (map P (sort_key P xs))" by (rule sorted_sort_key)
  ultimately have "P (sort_key P xs ! j) \<le> P (sort_key P xs ! i)"
    using assms(1,2) by (auto simp: sorted_iff_nth_mono)
  with assms(3,4) show False by simp
qed

text \<open>
  C29. The salesperson sees every preview before the first card: once a command's notices are chained, and after any passes of the sender at any
  times, a card of the command has arrived only if all previews of the command have arrived before it.
\<close>

theorem cards_after_previews:
  assumes quiet: "quiet_client client" and dist: "distinct (map nr_notification_key (notification_records d))"
    and fresh: "\<forall>n\<in>set (ordered_notices env c d). nr_status n \<noteq> ''succeeded''"
    and card: "n \<in> set (notification_records d)" "submission_notice c [''wecom_action_card''] n"
    and preview: "m \<in> set (notification_records d)" "submission_notice c [''wecom_action_preview''] m"
    and there: "has_arrived (fst (passes env' s client ts (queue_submission_table_link env sp now c d, w))) (nr_notification_key n)"
  shows "has_arrived (fst (passes env' s client ts (queue_submission_table_link env sp now c d, w))) (nr_notification_key m)"
proof -
  let ?ns = "ordered_notices env c d" and ?d = "fst (passes env' s client ts (queue_submission_table_link env sp now c d, w))"
  have "n \<in> set ?ns" "m \<in> set ?ns" using card preview by (simp_all add: set_ordered submission_notice_def)
  then obtain i j where i: "i < length ?ns" "?ns ! i = m" and j: "j < length ?ns" "?ns ! j = n" by (metis in_set_conv_nth)
  let ?P = "\<lambda>n. nr_notification_type n = ''wecom_action_card''"
  let ?xs = "sort_key nr_created_at (sort_key (\<lambda>n. e_collation env (nr_notification_key n))
    (filter (submission_notice c [''wecom_action_preview'', ''wecom_action_card'']) (notification_records d)))"
  have ns: "?ns = sort_key ?P ?xs" by (simp add: ordered_notices_def)
  have len: "length ?ns = length ?xs" by (simp only: ns length_sort)
  have "i < j"
  proof (rule sorted_flag_last [where P = ?P and xs = ?xs])
    show "i < length ?xs" "j < length ?xs" using i(1) j(1) by (simp_all only: len)
    show "\<not> ?P (sort_key ?P ?xs ! i)" using preview(2) unfolding ns [symmetric] i(2) by (simp add: submission_notice_def)
    show "?P (sort_key ?P ?xs ! j)" using card(2) unfolding ns [symmetric] j(2) by (simp add: submission_notice_def)
  qed
  moreover have "waiting_chain ?d (command_keys env c d)"
    by (rule passes_keep_chain [OF quiet prepared_chain [OF dist fresh]])
  ultimately have "has_arrived ?d (command_keys env c d ! i)"
    using chain_arrives_in_order [of ?d "command_keys env c d" i j] i j there by (simp add: command_keys_def)
  with i show ?thesis by (simp add: command_keys_def)
qed

definition two_notices :: db where
  "two_notices = empty_db\<lparr>notification_records :=
     [(blank_notice (asc ''k1'') (asc ''amy'') (asc ''m9'') ''wecom_action_preview'' 0)\<lparr>nr_content := Some (asc ''hi'')\<rparr>,
      (blank_notice (asc ''k2'') (asc ''amy'') (asc ''m9'') ''wecom_action_card'' 0)\<lparr>nr_content := Some (asc ''ok'')\<rparr>]\<rparr>"

definition one_pass :: db where
  "one_pass = fst (passes plain_env example_settings log_client [(10, \<lambda>k. k)]
     (queue_submission_table_link plain_env small_ports 5 card_command two_notices, []))"

theorem cards_after_previews_witness:
  "has_arrived one_pass (asc ''k1'')"
proof -
  let ?n = "\<lambda>i. notification_records two_notices ! i"
  have key: "nr_notification_key (?n 1) = asc ''k2''" "nr_notification_key (?n 0) = asc ''k1''"
    by (simp_all add: two_notices_def blank_notice_def)
  have there: "has_arrived one_pass (nr_notification_key (?n 1))" unfolding key by code_simp
  have quiet: "quiet_client log_client" by (simp add: quiet_client_def log_client_def)
  have fresh: "list_all (\<lambda>n. nr_status n \<noteq> ''succeeded'') (ordered_notices plain_env card_command two_notices)" by code_simp
  have dist: "distinct (map nr_notification_key (notification_records two_notices))" by code_simp
  have kinds: "submission_notice card_command [''wecom_action_card''] (?n 1)" "submission_notice card_command [''wecom_action_preview''] (?n 0)"
    by code_simp+
  have rows: "?n 1 \<in> set (notification_records two_notices)" "?n 0 \<in> set (notification_records two_notices)"
    by (simp_all add: two_notices_def)
  show ?thesis
    using cards_after_previews [OF quiet dist fresh [unfolded list_all_iff] rows(1) kinds(1) rows(2) kinds(2)
        there [unfolded one_pass_def]]
    by (simp only: key one_pass_def)
qed

end
