(* ===== verification/Worker_Route.thy ===== *)
theory Worker_Route
  imports Submission_Delivery Dispatch_Correct Progress
begin

text \<open>
  The worker's side of the message queue (\<^verbatim>\<open>consume_lead_outbox_event\<close> in \<^verbatim>\<open>workers/tasks.py\<close>): a claimed message is a submission
  command, a text whose intent the model is asked for, a machine command, or the report of a lead. The model's answer and the lead
  service (with the media processing before it) are functions that may answer and change anything; so is nothing else. The session lock per
  sender, held around the whole task, is left out: tasks of one sender do not overlap. \<open>wk_session_id\<close> is the identifier drawn for a new progress session.
\<close>

datatype intent_kind =
    LEAD_CAPTURE | SUBMIT_TODAY | SUBMIT_DATE | SUBMIT_ALL | SUBMIT_SINGLE | SUBMIT_ABANDONED | SUBMIT_UPDATES
  | SUBMIT_RETRY_INCOMPLETE | UNKNOWN_INTENT

record submission_intent =
  int_intent :: intent_kind
  int_company_name :: "pstr option"
  int_capture_date :: "pstr option"

record 'w worker_ports =
  wk_submission :: "'w submission_ports"
  wk_settings :: settings
  wk_session_id :: pstr
  wk_classify :: "pstr \<Rightarrow> 'w \<Rightarrow> (exn + submission_intent) \<times> 'w"
  wk_lead_service :: "nat \<Rightarrow> bool \<Rightarrow> db \<Rightarrow> 'w \<Rightarrow> (exn + pstr) \<times> db \<times> 'w"

definition COMMAND_BY_INTENT :: "(intent_kind \<times> pstr) list" where
  "COMMAND_BY_INTENT =
     [(SUBMIT_TODAY, c_today), (SUBMIT_DATE, c_all_mine), (SUBMIT_ALL, c_all_mine), (SUBMIT_ABANDONED, c_abandoned),
      (SUBMIT_UPDATES, c_updates), (SUBMIT_RETRY_INCOMPLETE, c_retry_incomplete)]"

definition submission_command_text :: "submission_intent \<Rightarrow> pstr option" where
  "submission_command_text x =
     (case dget (int_intent x) COMMAND_BY_INTENT of
        Some t \<Rightarrow> Some t
      | None \<Rightarrow>
          (case int_company_name x of
             Some (c # cs) \<Rightarrow> if int_intent x = SUBMIT_SINGLE then Some (c_company_pre @ (c # cs) @ c_company_post) else None
           | _ \<Rightarrow> None))"

definition unrecognized_notice :: "env \<Rightarrow> time \<Rightarrow> incoming_message \<Rightarrow> notification_record" where
  "unrecognized_notice env now m =
     (blank_notice (notification_key_for_message env (asc ''intent:'' @ im_message_id m)) (im_sales_user_id m) (im_message_id m)
        ''crm_submission_intent_unrecognized'' now)\<lparr>nr_content := Some q_unrecognized\<rparr>"

definition finish_unrecognized_submission_intent :: "env \<Rightarrow> time \<Rightarrow> nat \<Rightarrow> incoming_message \<Rightarrow> db \<Rightarrow> db" where
  "finish_unrecognized_submission_intent env now i m d =
     add_notice_once (unrecognized_notice env now m)
       (upd_event i (\<lambda>e. e\<lparr>ob_status := ''succeeded'', ob_processing_started_at := None\<rparr>) d)"

text \<open>A company command gets no CRM adapter.\<close>

definition without_crm :: "bool \<Rightarrow> 'w submission_ports \<Rightarrow> 'w submission_ports" where
  "without_crm company sp = (if company then sp\<lparr>sp_crm_available := False\<rparr> else sp)"

definition consume_intent ::
  "env \<Rightarrow> 'w worker_ports \<Rightarrow> time \<Rightarrow> ymd \<Rightarrow> nat \<Rightarrow> bool \<Rightarrow> incoming_message \<Rightarrow> db \<Rightarrow> 'w \<Rightarrow> (pstr, 'w) run" where
  "consume_intent env wk now today i recover m d w =
     (let raw = the_default [] (im_normalized_text m); sp = wk_submission wk
      in case wk_classify wk raw w of
           (Inl e, w1) \<Rightarrow> (Inl e, d, w1)
         | (Inr x, w1) \<Rightarrow>
             if int_intent x = LEAD_CAPTURE
             then wk_lead_service wk i recover
                    (snd (activate_progress_intent_candidate (wk_settings wk) (wk_session_id wk) now (im_message_id m) d)) w1
             else if int_intent x = UNKNOWN_INTENT \<or> \<not> is_explicit_submission_request raw
             then (Inr (asc ''submission_intent_unrecognized''), finish_unrecognized_submission_intent env now i m d, w1)
             else case submission_command_text x of
               None \<Rightarrow> (Inr (asc ''submission_intent_unrecognized''), finish_unrecognized_submission_intent env now i m d, w1)
             | Some text \<Rightarrow>
                 (let sp1 = without_crm (parse_company_submission_request text \<noteq> None) sp
                  in case (int_intent x, int_capture_date x) of
                       (SUBMIT_DATE, Some (c # cs)) \<Rightarrow>
                         (case e_date_from_iso env (c # cs) of
                            None \<Rightarrow> (Inl value_exn, d, w1)
                          | Some n \<Rightarrow> consume_submission_command env sp1 now today i (Some text) (Some n) d w1)
                     | _ \<Rightarrow> consume_submission_command env sp1 now today i (Some text) None d w1))"

definition issue_command_action :: "env \<Rightarrow> 'w submission_ports \<Rightarrow> time \<Rightarrow> incoming_message \<Rightarrow> db \<Rightarrow> (exn + pstr) \<times> db" where
  "issue_command_action env sp now m d =
     (let issue = (\<lambda>q. case issue_action env (sp_card_ready sp) (sp_action_expiry sp) now (sp_action_id sp (length (wecom_actions d)))
                               (sp_task_id sp (length (wecom_actions d))) q d of
                         Inl e \<Rightarrow> (if e = card_unavailable then Inr (asc ''card_callback_unavailable'') else Inl (exn_of e), d)
                       | Inr (a, d1) \<Rightarrow> (Inr (asc ''action_issued''), d1))
      in case parse_deterministic_action_command (the_default [] (im_normalized_text m)) of
           None \<Rightarrow> (Inl value_exn, d)
         | Some p \<Rightarrow>
             if da_action_type p = ''lead_discard_confirmation''
             then issue (discard_request (im_sales_user_id m) (da_target_id p) q_reason_t18 (Some (im_message_id m)))
             else (case (da_message_id p, da_segment_index p) of
                     (Some x, Some s) \<Rightarrow>
                       issue (reassignment_request (im_sales_user_id m) x s (da_target_id p) q_reason_move (Some (im_message_id m)))
                   | _ \<Rightarrow> (Inl value_exn, d)))"

definition route_event ::
  "env \<Rightarrow> 'w worker_ports \<Rightarrow> time \<Rightarrow> ymd \<Rightarrow> nat \<Rightarrow> bool \<Rightarrow> outbox_event \<Rightarrow> db \<Rightarrow> 'w \<Rightarrow> (pstr, 'w) run" where
  "route_event env wk now today i recover e d w =
     (let m = get_message d (ob_message_id e)
      in if ob_event_type e = ''crm_submission_command''
         then consume_submission_command env
                (without_crm (case m of None \<Rightarrow> False
                   | Some x \<Rightarrow> parse_company_submission_request (the_default [] (im_normalized_text x)) \<noteq> None) (wk_submission wk))
                now today i None None d w
         else if ob_event_type e = ''crm_submission_intent''
         then (case m of None \<Rightarrow> (Inl value_exn, d, w) | Some x \<Rightarrow> consume_intent env wk now today i recover x d w)
         else if ob_event_type e = ''wecom_action_command''
         then (case m of None \<Rightarrow> (Inl value_exn, d, w)
               | Some x \<Rightarrow> (case issue_command_action env (wk_submission wk) now x d of (res, d1) \<Rightarrow> (res, d1, w)))
         else wk_lead_service wk i recover d w)"

definition consume_lead_outbox_event ::
  "env \<Rightarrow> 'w worker_ports \<Rightarrow> time \<Rightarrow> ymd \<Rightarrow> nat \<Rightarrow> pstr option \<Rightarrow> bool \<Rightarrow> db \<Rightarrow> 'w \<Rightarrow> (pstr, 'w) run" where
  "consume_lead_outbox_event env wk now today i claimed_at recover d w =
     (case claimed_at of
        None \<Rightarrow> (Inr (asc ''already_processed''), d, w)
      | Some t \<Rightarrow>
          (case take_lead_outbox_claim env now i t d of
             (Inl e, d1) \<Rightarrow> (Inl (exn_of e), d1, w)
           | (Inr taken, d1) \<Rightarrow>
               if \<not> taken then (Inr (asc ''already_processed''), d1, w)
               else (case get_event d1 i of
                       None \<Rightarrow> (Inl value_exn, d1, w)
                     | Some e \<Rightarrow> route_event env wk now today i recover e d1 w)))"

section \<open>What the model cannot do\<close>

text \<open>
  C28. The model cannot submit a question: if the text of a message asks, negates, or does not mention a submission, then whatever the model answers
  about it, no submission command runs: the message goes to the lead service or is finished with the notice that it was not
  understood, which leaves submissions, actions and messages as they are.
\<close>

theorem model_cannot_submit_questions:
  assumes "\<not> is_explicit_submission_request (the_default [] (im_normalized_text m))"
    and "consume_intent env wk now today i recover m d w = (res, d', w')"
  shows "(\<exists>d1 w1. (res, d', w') = wk_lead_service wk i recover d1 w1 \<and> crm_side d1 = crm_side d \<and> outbox_events d1 = outbox_events d) \<or>
    (crm_side d' = crm_side d \<and> wecom_actions d' = wecom_actions d \<and>
       (res = Inr (asc ''submission_intent_unrecognized'') \<longrightarrow> d' = finish_unrecognized_submission_intent env now i m d) \<and>
       (res \<noteq> Inr (asc ''submission_intent_unrecognized'') \<longrightarrow> d' = d \<and> isl res))"
proof -
  have "crm_side (snd (activate_progress_intent_candidate st sid now k d)) = crm_side d \<and>
      outbox_events (snd (activate_progress_intent_candidate st sid now k d)) = outbox_events d" for st sid k
    by (simp add: activate_progress_intent_candidate_def attach_progress_message_def crm_side_def Let_def split: option.split)
  moreover have "crm_side (finish_unrecognized_submission_intent env now i m d) = crm_side d"
    "wecom_actions (finish_unrecognized_submission_intent env now i m d) = wecom_actions d"
    by (simp_all add: finish_unrecognized_submission_intent_def add_notice_once_def)
  ultimately show ?thesis
    using assms
    by (auto simp: consume_intent_def Let_def split: prod.splits sum.splits if_splits) (metis+)
qed

section \<open>Machine commands\<close>

lemma taken_event:
  assumes "outbox_keyed d" and "get_event d i = Some e" and "take_lead_outbox_claim env now i t d = (Inr True, d1)"
  shows "get_event d1 i = Some (e\<lparr>ob_processing_started_at := Some now\<rparr>)" "ob_status e = ''processing''"
    "crm_side d1 = crm_side d"
proof -
  from assms(3) obtain s where s: "e_from_iso env t = Some s"
    and ex: "list_ex (\<lambda>e. ob_id e = i \<and> ob_status e = ''processing'' \<and> ob_processing_started_at e = Some s) (outbox_events d)"
    and d1: "d1 = d\<lparr>outbox_events := map (\<lambda>e. if ob_id e = i \<and> ob_status e = ''processing'' \<and> ob_processing_started_at e = Some s
                 then e\<lparr>ob_processing_started_at := Some now\<rparr> else e) (outbox_events d)\<rparr>"
    by (auto simp: take_lead_outbox_claim_def split: option.splits if_splits)
  from ex obtain x where x: "x \<in> set (outbox_events d)" "ob_id x = i" "ob_status x = ''processing''" "ob_processing_started_at x = Some s"
    by (auto simp: list_ex_iff)
  with tget_unique [of ob_id "outbox_events d" x] assms(1,2) have e: "x = e" by (simp add: outbox_keyed_def)
  with x show "ob_status e = ''processing''" by simp
  have "get_event d1 i = map_option (\<lambda>e. if ob_id e = i \<and> ob_status e = ''processing'' \<and> ob_processing_started_at e = Some s
      then e\<lparr>ob_processing_started_at := Some now\<rparr> else e) (get_event d i)"
    unfolding d1 tget_def by (simp add: find_map_same)
  with assms(2) x e show "get_event d1 i = Some (e\<lparr>ob_processing_started_at := Some now\<rparr>)" by simp
  show "crm_side d1 = crm_side d" by (simp add: d1)
qed

lemma issue_command_frame: "issue_command_action env sp now m d = (res, d') \<Longrightarrow> outbox_events d' = outbox_events d"
  by (auto simp: issue_command_action_def Let_def split: option.splits if_splits sum.splits prod.splits dest!: issue_action_frame)

text \<open>
  C32. A machine command never leaves the queue: after a worker has taken its event and issued the card, or failed to, the event is still in work, so that it is
  handed out again after every lease and holds back the later messages of its sender.
\<close>

theorem action_command_left_in_work:
  assumes "outbox_keyed d" and "get_event d i = Some e" and "ob_event_type e = ''wecom_action_command''"
    and "take_lead_outbox_claim env now i t d = (Inr True, d1)"
    and "consume_lead_outbox_event env wk now today i (Some t) recover d w = (res, d', w')"
  shows "\<exists>e'. get_event d' i = Some e' \<and> ob_status e' = ''processing'' \<and>
    (\<forall>later\<in>set (outbox_events d'). ob_sales_user_id later = ob_sales_user_id e \<and> ob_sequence e < ob_sequence later \<longrightarrow>
       unfinished_before d' later)"
proof -
  let ?e = "e\<lparr>ob_processing_started_at := Some now\<rparr>"
  note taken = taken_event [OF assms(1,2,4)]
  have "outbox_events d' = outbox_events d1"
    using assms(3-5) taken(1)
    by (auto simp: consume_lead_outbox_event_def route_event_def Let_def split: option.splits prod.splits dest: issue_command_frame)
  then have row: "get_event d' i = Some ?e" using taken(1) by simp
  then have mem: "?e \<in> set (outbox_events d')" by (auto dest: tget_SomeD)
  have "\<not> completed ?e" using taken(2) by (simp add: completed_def COMPLETED_CHECKPOINT_STATUSES_def)
  with mem have "unfinished_before d' later"
    if "ob_sales_user_id later = ob_sales_user_id e" "ob_sequence e < ob_sequence later" for later
    using that unfolding unfinished_before_def list_ex_iff by (intro bexI [of _ ?e]) simp_all
  with row taken(2) show ?thesis by simp
qed

section \<open>An example\<close>

text \<open>A message that asks whether something may be submitted, a model that takes it for a submission, and a machine command.\<close>

definition queued_message :: "pstr \<Rightarrow> incoming_message" where
  "queued_message body =
     \<lparr>im_message_id = asc ''m9'', im_sales_user_id = asc ''amy'', im_sequence = 1, im_raw_payload = [], im_normalized_text = Some body,
      im_chat_id = None, im_chat_type = None, im_requires_media_enrichment = False, im_scrubbed_at = None,
      im_retention_policy_version = None, im_received_at = 0\<rparr>"

definition eager_worker :: "nat worker_ports" where
  "eager_worker = \<lparr>wk_submission = example_ports, wk_settings = example_settings, wk_session_id = asc ''S'',
     wk_classify = (\<lambda>t w. (Inr \<lparr>int_intent = SUBMIT_ALL, int_company_name = None, int_capture_date = None\<rparr>, w)),
     wk_lead_service = (\<lambda>i r d w. (Inl value_exn, d, w))\<rparr>"

definition negated_text :: pstr where
  "negated_text = hd NEGATIVE_SUBMISSION_MARKERS @ c_submit"

theorem model_cannot_submit_questions_witness:
  "snd (consume_intent digest_env eager_worker 5 (2026, 8, 1) 1 False (queued_message negated_text) asking_db 0) =
    (finish_unrecognized_submission_intent digest_env 5 1 (queued_message negated_text) asking_db, 0)"
proof -
  let ?run = "consume_intent digest_env eager_worker 5 (2026, 8, 1) 1 False (queued_message negated_text) asking_db 0"
  have asked: "\<not> is_explicit_submission_request (the_default [] (im_normalized_text (queued_message negated_text)))" by code_simp
  obtain res d' w' where run: "?run = (res, d', w')" by (rule prod_cases3)
  have res: "fst ?run = Inr (asc ''submission_intent_unrecognized'')" "snd (snd ?run) = 0"
    using asked by (simp_all add: consume_intent_def eager_worker_def Let_def)
  from model_cannot_submit_questions [OF asked run] res run
  show ?thesis by (auto simp: eager_worker_def)
qed

definition machine_db :: db where
  "machine_db = asking_db\<lparr>outbox_events := [command_event\<lparr>ob_event_type := ''wecom_action_command''\<rparr>],
     incoming_messages := [queued_message (render_action_command \<lparr>da_action_type = ''lead_discard_confirmation'', da_target_id = asc ''L'',
       da_message_id = None, da_segment_index = None\<rparr>)]\<rparr>"

theorem action_command_left_in_work_witness:
  "\<exists>res d' w' e'. consume_lead_outbox_event digest_env eager_worker 6 (2026, 8, 1) 1 (Some (str_of_int 4)) False machine_db 0 = (res, d', w') \<and>
    get_event d' 1 = Some e' \<and> ob_status e' = ''processing''"
proof -
  obtain res d' w' where run:
    "consume_lead_outbox_event digest_env eager_worker 6 (2026, 8, 1) 1 (Some (str_of_int 4)) False machine_db 0 = (res, d', w')"
    by (rule prod_cases3)
  have keyed: "outbox_keyed machine_db" by code_simp
  have row: "get_event machine_db 1 = Some (command_event\<lparr>ob_event_type := ''wecom_action_command''\<rparr>)"
    by (simp add: machine_db_def command_event_def tget_def)
  have "fst (take_lead_outbox_claim digest_env 6 1 (str_of_int 4) machine_db) = Inr True" by code_simp
  then obtain d1 where "take_lead_outbox_claim digest_env 6 1 (str_of_int 4) machine_db = (Inr True, d1)"
    by (cases "take_lead_outbox_claim digest_env 6 1 (str_of_int 4) machine_db") simp
  from action_command_left_in_work [OF keyed row _ this run] run show ?thesis by auto
qed

end
