(* ===== verification/Spec2Isabelle.thy ===== *)
theory Spec2Isabelle
  imports Masking Admin_Create Progress_Correct Completeness Outbound Retention_Correct Crm_Submit_Correct
    Audit_Mirror_Correct Dispatch_Correct Wecom_Correct Submission_Offer
    Worker_Route
begin

text \<open>
  A verification of the lead-capture service under \<^verbatim>\<open>app/\<close>: salespersons send messages to a chat bot, the
  service turns them into leads in a shared smart table, reports progress, and submits finished leads
  to a CRM; administrators maintain owners and missing leads. This theory imports the whole development
  and holds the properties that span components.

  \<^bold>\<open>The program and its parts.\<close> All services share one relational database. Message intake stores a message, its
  place in the sender's sequence, a work item and a receipt notification. Progress reporting groups
  the messages of a salesperson into sessions and queues summaries. Reminders queue an evening notice
  for unsubmitted leads. The notification sender delivers what the others queue. Discarding, owner
  transfer and administrative creation change leads; the last two also write to the remote table and
  must survive unknown remote outcomes. The CRM submission service freezes a checked row as a submission, calls the
  CRM under an idempotency key, settles what it learns and overrules or lets through a waiting discard. Retention
  deletes stored media and message bodies.

  \<^bold>\<open>Theories.\<close>
  \<^item> \<^verbatim>\<open>Py_Prelude\<close>, \<^verbatim>\<open>Py_Value\<close>, \<^verbatim>\<open>Py_Re\<close>, \<^verbatim>\<open>Vocab\<close>: Python strings as code-point lists, values, dictionaries,
    regular expressions, tables keyed by a column, and the non-ASCII literals of the sources.
  \<^item> \<^verbatim>\<open>Interfaces\<close>: the contracts as locales. \<open>audit_trail\<close> is interpreted on the audit table (\<^verbatim>\<open>Actors\<close>),
    \<open>fenced_lease\<close> on notification, cleanup, ingest, mirror and
    action rows (\<^verbatim>\<open>Outbound\<close>, \<^verbatim>\<open>Retention_Correct\<close>, \<^verbatim>\<open>Audit_Mirror_Correct\<close>, \<^verbatim>\<open>Wecom_Correct\<close>), \<open>counted_lease\<close> on CRM
    submissions (\<^verbatim>\<open>Crm_Sync_Correct\<close>), \<open>absorbing_op\<close> on
    transfer and creation operations (\<^verbatim>\<open>Owner_Transfer\<close>, \<^verbatim>\<open>Admin_Create\<close>); \<^verbatim>\<open>Smart_Table\<close> declares \<open>record_store\<close>
    and interprets it on the in-memory table, \<^verbatim>\<open>Crm_Gateway\<close> declares \<open>idempotent_crm\<close> and interprets it on the in-memory CRM.
  \<^item> \<^verbatim>\<open>Db\<close>, \<^verbatim>\<open>Env\<close>: the rows of \<^verbatim>\<open>app/messaging/models.py\<close> and \<^verbatim>\<open>app/leads/models.py\<close> and the database; digests, date
    codecs, collation and the settings the services read.
  \<^item> \<^verbatim>\<open>Failures\<close> (\<^verbatim>\<open>app/core/failures.py\<close>): which failures are retried; audit texts. \<^verbatim>\<open>Masking\<close>
    (\<^verbatim>\<open>app/console/masking.py\<close>): what masked values reveal. \<^verbatim>\<open>Actors\<close>: the actor registry and its rights
    (\<^verbatim>\<open>app/leads/identity.py\<close>, \<^verbatim>\<open>app/messaging/sales_authorization.py\<close>, \<^verbatim>\<open>app/crm/authorization.py\<close>,
    \<^verbatim>\<open>app/crm/user_mapping.py\<close>). \<^verbatim>\<open>Commands\<close> (\<^verbatim>\<open>app/crm/commands.py\<close>, the action commands of
    \<^verbatim>\<open>app/wecom_bot/actions.py\<close>): questions and negations never submit, dates, round trips.
    \<^verbatim>\<open>Completeness\<close> (\<^verbatim>\<open>app/leads/completeness.py\<close>, \<^verbatim>\<open>app/leads/remarks.py\<close>). \<^verbatim>\<open>Smart_Table\<close> (\<^verbatim>\<open>app/smart_table\<close>): the
    adapter as a record of operations, the permission check, the in-memory table.
  \<^item> \<^verbatim>\<open>Progress\<close>, \<^verbatim>\<open>Progress_Correct\<close> (\<^verbatim>\<open>app/leads/progress.py\<close>): one active session per salesperson under every
    operation, the effect of a due report on every branch, consistency of the statistics.
  \<^item> \<^verbatim>\<open>Intake\<close> (\<^verbatim>\<open>app/messaging/service.py\<close>): the receiving transaction keeps keys unique and sequences gapless,
    redelivery is idempotent, fresh messages are accepted.
  \<^item> \<^verbatim>\<open>Discard\<close> (\<^verbatim>\<open>app/leads/discard.py\<close>): discarding is authorised and never races a CRM creation.
  \<^item> \<^verbatim>\<open>Owner_Transfer\<close> (\<^verbatim>\<open>app/leads/transfer.py\<close>), \<^verbatim>\<open>Admin_Create\<close> (\<^verbatim>\<open>app/leads/admin_create.py\<close>,
    \<^verbatim>\<open>app/leads/capture.py\<close>): no effect without proof, recovery of unknown outcomes by reading,
    completion when nothing fails.
  \<^item> \<^verbatim>\<open>Reminders\<close> (\<^verbatim>\<open>app/leads/reminders.py\<close>), \<^verbatim>\<open>Outbound\<close> (\<^verbatim>\<open>app/notifications/outbound.py\<close>), \<^verbatim>\<open>Retention\<close> and
    \<^verbatim>\<open>Retention_Correct\<close> (\<^verbatim>\<open>app/media/retention.py\<close>): at most one reminder a day, delivery in dependency order under
    fenced claims, deletion only on proof, scrubbing only of finished messages.
  \<^item> \<^verbatim>\<open>Crm_Payload\<close> (\<^verbatim>\<open>app/crm/payload.py\<close>): the payload is well typed, the dictionaries are codes. \<^verbatim>\<open>Crm_Gateway\<close>
    (\<^verbatim>\<open>app/crm/sop.py\<close>, \<^verbatim>\<open>mock.py\<close>, \<^verbatim>\<open>employee_directory.py\<close>): the signed text, the classification of replies, the owner's
    employee number.
  \<^item> \<^verbatim>\<open>Crm_Sync\<close>, \<^verbatim>\<open>Crm_Submit\<close>, \<^verbatim>\<open>Crm_Batch\<close> (\<^verbatim>\<open>app/crm/service.py\<close>): the life of one submission from claim to settlement, the freezing of
    creations and updates, and the entry points of the service. \<^verbatim>\<open>Crm_Sync_Correct\<close>: late results are dropped, a submission follows an
    abstract protocol, creates at most once, and its automatic retries end. \<^verbatim>\<open>Crm_Batch_Correct\<close>, \<^verbatim>\<open>Crm_Submit_Correct\<close>: the entry points are
    runs of transactions that keep one live creation per lead, creations come from checked rows only, batches account for every lead.

  \<^item> \<^verbatim>\<open>Audit_Mirror\<close>, \<^verbatim>\<open>Audit_Mirror_Correct\<close> (\<^verbatim>\<open>app/smart_table/audit.py\<close>, the mirror tasks of \<^verbatim>\<open>workers/tasks.py\<close>): audit
    events become rows of a sheet; a batch changes no business state and leaves no claim behind.
  \<^item> \<^verbatim>\<open>Dispatch\<close>, \<^verbatim>\<open>Dispatch_Correct\<close> (\<^verbatim>\<open>workers/tasks.py\<close>): which queued messages are handed to workers, in the order of each
    sender, boundedly many at a time, each taken over by one worker.
  \<^item> \<^verbatim>\<open>Wecom_Card\<close>, \<^verbatim>\<open>Wecom_Callback\<close>, \<^verbatim>\<open>Wecom_Execute\<close> (\<^verbatim>\<open>app/wecom_bot/actions.py\<close>): action cards from issue to the settled result:
    contexts and card payloads, the acceptance of callbacks, execution under a claim, recovery, notices. \<^verbatim>\<open>Wecom_Lifecycle\<close>,
    \<^verbatim>\<open>Wecom_Correct\<close>: every action follows an abstract machine of phases, callbacks are checked and accepted once, the
    domain operation starts once, results are reported without loss.
  \<^item> \<^verbatim>\<open>Command_Vocab\<close>, \<^verbatim>\<open>Crm_Reply\<close>, \<^verbatim>\<open>Submission_Link\<close>, \<^verbatim>\<open>Submission_Prepare\<close>, \<^verbatim>\<open>Submission_Command\<close> (\<^verbatim>\<open>app/crm/commands.py\<close>,
    \<^verbatim>\<open>app/messaging/wecom_directory.py\<close>): the handler of submission commands, from the rows of the table and the leads that
    anchor them over the preview cards to the reply. \<^verbatim>\<open>Submission_Frames\<close>: what the submission service leaves alone.
    \<^verbatim>\<open>Submission_Correct\<close>, \<^verbatim>\<open>Submission_Offer\<close>: a preview submits nothing, commands end, rows keep their leads, cards offer what
    their sender may submit. \<^verbatim>\<open>Submission_Delivery\<close>: together with the sender of notices, previews arrive before cards.
  \<^item> \<^verbatim>\<open>Worker_Route\<close> (\<^verbatim>\<open>workers/tasks.py\<close>): a taken message goes to the command handler, the intent route, the machine
    commands or the lead service; the model's answer alone never submits.

  \<^bold>\<open>Correspondence.\<close> A row class is a record, a table a list of rows, a transaction a function on the database
  that returns the new one or an exception (\<open>exc + _\<close>; an exception rolls back). A handler with
  several transactions and remote calls returns its result, the database and the state of the remote
  world. Remote services (table adapter, permission verifier, message client, object store) are
  records of functions or function arguments; what they may do is not restricted unless a theorem
  says so. Names follow the sources; a prefix is added where two modules use one name.

  \<^bold>\<open>Assumptions and bounds.\<close> Transactions are serialised, as the row locks of the sources arrange; the branches
  that only a competing insert can reach are left out; the submission service is also shown correct under interleaving of its transactions.
  A batch of submissions runs in order instead of on the thread pool of the source. Reads of the table and of the member directory do not
  change the remote world. One clock reading serves one call. Generated
  identifiers and tokens are arguments. \<^verbatim>\<open>ORDER BY\<close> without a unique key is resolved by table
  order. Column widths and foreign keys are not enforced; unique keys are, where an insertion could
  violate them. Logging is omitted. Instants are integers in microseconds; Asia/Shanghai is UTC+8. No
  definition needs fuel: loops are structural or have a termination proof.

  The answer of the language model, the lead service with the media processing before it, and the member search of
  the company directory are parameters; the lock that a worker holds per sender is left out, so the tasks of one sender do not overlap.

  \<^bold>\<open>Not modelled.\<close> The lead service (\<^verbatim>\<open>app/leads/service.py\<close>), review (\<^verbatim>\<open>app/leads/review.py\<close>), media intake
  (\<^verbatim>\<open>app/media/service.py\<close>), company lookup (\<^verbatim>\<open>app/companies\<close>), and the console's sessions and break-glass grants. Prompts and
  model calls, HTTP routes and read-only queries, the live table client, configuration parsing,
  migrations and scripts are I/O or glue.
\<close>

section \<open>Delivery and retention\<close>

text \<open>
  The two background jobs that touch stored notifications: a pass of the sender and a run of the
  scrubber.
\<close>

datatype background_job =
    Send_Pass time "pstr \<Rightarrow> pstr"
  | Scrub_Run retention_policy time

definition background_step ::
  "env \<Rightarrow> settings \<Rightarrow> 'w message_client \<Rightarrow> background_job \<Rightarrow> db \<times> 'w \<Rightarrow> db \<times> 'w" where
  "background_step env s client j x = (case j of
     Send_Pass now tok \<Rightarrow> snd (send_pending_once env s client now tok (fst x) (snd x))
   | Scrub_Run p now \<Rightarrow> (snd (scrub_expired_payloads p now (fst x)), snd x))"

lemma tget_map:
  assumes "\<And>x. key (f x) = key x"
  shows "tget key k (map f t) = map_option f (tget key k t)"
  by (induction t) (auto simp: assms)

lemma scrub_get_notice:
  "get_notice (snd (scrub_expired_payloads p now d)) k =
     map_option (\<lambda>n. if scrubbable_notice (now - days (rp_notification_days p)) n then scrub_notice p now n else n) (get_notice d k)"
  by (simp add: scrub_expired_payloads_def Let_def tget_map scrub_notice_def)

lemma background_keeps_suppressed:
  assumes "quiet_client client" and "nr_status n = ''suppressed''" and "get_notice (fst x) k = Some n"
  shows "get_notice (fst (background_step env s client j x)) k = Some n"
proof (cases j)
  case (Send_Pass now tok)
  obtain r d' w' where run: "send_all env s client now tok (pending_notices env now (fst x)) (fst x) (snd x) = (r, d', w')"
    by (metis prod_cases3)
  have "settled_status (nr_status n)" by (simp add: assms(2) settled_status_def)
  from send_all_keeps_settled [OF assms(1) this assms(3) run] Send_Pass run show ?thesis
    by (simp add: background_step_def send_pending_once_def)
next
  case (Scrub_Run p now)
  have "\<not> scrubbable_notice c n" for c by (simp add: scrubbable_notice_def assms(2))
  with Scrub_Run assms(3) show ?thesis by (simp add: background_step_def scrub_get_notice)
qed

text \<open>
  C39. The body of a suppressed notification is never removed: whatever passes of the sender and runs of the
  scrubber follow, at whatever times and under whatever retention policy, a suppressed notification
  keeps its content and payload, because the scrubber's list of final states does not contain the
  state the sender gives it.
\<close>

theorem suppressed_body_never_scrubbed:
  assumes "quiet_client client" and "get_notice d k = Some n" and "nr_status n = ''suppressed''"
  shows "get_notice (fst (fold (background_step env s client) js (d, w))) k = Some n"
proof -
  have "get_notice (fst (fold (background_step env s client) js x)) k = Some n" if "get_notice (fst x) k = Some n" for x
    using that background_keeps_suppressed [OF assms(1,3)] by (induction js arbitrary: x) simp_all
  from this [of "(d, w)"] assms(2) show ?thesis by simp
qed

theorem suppressed_body_never_scrubbed_witness:
  "nr_content (the (get_notice (fst (fold (background_step plain_env example_settings log_client)
     [Send_Pass 0 (\<lambda>k. k), Scrub_Run example_policy (days 36500)]
     (queue_db\<lparr>notification_records := [suppress_notice first_notice]\<rparr>, []))) (asc ''k0''))) = Some (asc ''hi'')"
proof -
  let ?d = "queue_db\<lparr>notification_records := [suppress_notice first_notice]\<rparr>"
  have q: "quiet_client log_client" by (simp add: quiet_client_def log_client_def)
  have g: "get_notice ?d (asc ''k0'') = Some (suppress_notice first_notice)" by simp
  have s: "nr_status (suppress_notice first_notice) = ''suppressed''" by (simp add: suppress_notice_def release_notice_def)
  have "nr_content (suppress_notice first_notice) = Some (asc ''hi'')"
    by (simp add: suppress_notice_def release_notice_def first_notice_def)
  then show ?thesis unfolding suppressed_body_never_scrubbed [OF q g s] by simp
qed

end
